(* ===== verification/Prelude.thy ===== *)
theory Prelude
  imports Complex_Main "HOL-Library.Code_Target_Nat"
begin

text \<open>
  Shared vocabulary of the development: the result monad in which every fallible
  operation of the backend returns (the thrown exception on the left, the value on the
  right), the text helpers that the JavaScript string methods of the code become, table
  operations on lists of rows, and the generic lemmas the component theories share.

  Strings are lists of characters; a character stands for one UTF-16 code unit below 256.
  French messages of the source are transliterated to ASCII, since the theories are ASCII.
\<close>

section \<open>Hint collections\<close>

named_theorems res_simps \<open>equations of the result monad\<close>
named_theorems tbl_simps \<open>equations of the table operations\<close>
named_theorems frame_simps \<open>what an operation leaves unchanged\<close>

section \<open>Exceptions as values\<close>

text \<open>
  The exception classes the backend throws. \<open>ExecutionBlockedError\<close> carries its
  \<open>unreadable\<close> flag; \<open>QueryFailedError\<close> is the error of a rejected SQL statement
  and \<open>EntityNotFoundError\<close> the one of \<open>findOneByOrFail\<close>.
\<close>

datatype exn =
    LedgerRuleError string
  | ConflictException string
  | NotFoundException string
  | BadRequestException string
  | ForbiddenException string
  | ServiceUnavailableException string
  | ExecutionBlockedError string bool
  | PlainError string
  | EntityNotFoundError string
  | QueryFailedError string

type_synonym 'a res = "exn + 'a"

text \<open>\<open>error.message\<close>.\<close>

fun exn_message :: "exn \<Rightarrow> string" where
  "exn_message (LedgerRuleError m) = m"
| "exn_message (ConflictException m) = m"
| "exn_message (NotFoundException m) = m"
| "exn_message (BadRequestException m) = m"
| "exn_message (ForbiddenException m) = m"
| "exn_message (ServiceUnavailableException m) = m"
| "exn_message (ExecutionBlockedError m _) = m"
| "exn_message (PlainError m) = m"
| "exn_message (EntityNotFoundError m) = m"
| "exn_message (QueryFailedError m) = m"

text \<open>\<open>error instanceof HttpException\<close>: the NestJS exceptions.\<close>

fun is_http_exception :: "exn \<Rightarrow> bool" where
  "is_http_exception (ConflictException _) = True"
| "is_http_exception (NotFoundException _) = True"
| "is_http_exception (BadRequestException _) = True"
| "is_http_exception (ForbiddenException _) = True"
| "is_http_exception (ServiceUnavailableException _) = True"
| "is_http_exception _ = False"

definition bindE :: "'a res \<Rightarrow> ('a \<Rightarrow> 'b res) \<Rightarrow> 'b res" where
  "bindE m f = (case m of Inl e \<Rightarrow> Inl e | Inr x \<Rightarrow> f x)"

definition guardE :: "bool \<Rightarrow> exn \<Rightarrow> unit res" where
  "guardE b e = (if b then Inr () else Inl e)"

definition of_option :: "exn \<Rightarrow> 'a option \<Rightarrow> 'a res" where
  "of_option e x = (case x of None \<Rightarrow> Inl e | Some v \<Rightarrow> Inr v)"

lemma bindE_Inl [simp, res_simps]: "bindE (Inl e) f = Inl e"
  by (simp add: bindE_def)

lemma bindE_Inr [simp, res_simps]: "bindE (Inr x) f = f x"
  by (simp add: bindE_def)

lemma bindE_eq_Inr [res_simps]:
  "(bindE m f = Inr y) = (\<exists>x. m = Inr x \<and> f x = Inr y)"
  by (cases m) simp_all

lemma bindE_eq_Inl:
  "(bindE m f = Inl e) = (m = Inl e \<or> (\<exists>x. m = Inr x \<and> f x = Inl e))"
  by (cases m) simp_all

lemma bindE_cong [fundef_cong]:
  assumes "m = m'" and "\<And>x. m' = Inr x \<Longrightarrow> f x = f' x"
  shows "bindE m f = bindE m' f'"
  using assms by (cases m') simp_all

lemma bindE_assoc: "bindE (bindE m f) g = bindE m (\<lambda>x. bindE (f x) g)"
  by (cases m) simp_all

lemma bindE_elim:
  assumes "bindE m f = Inr y"
  obtains x where "m = Inr x" and "f x = Inr y"
  using assms by (auto simp: bindE_eq_Inr)

lemma guardE_True [simp, res_simps]: "guardE True e = Inr ()"
  by (simp add: guardE_def)

lemma guardE_False [simp, res_simps]: "guardE False e = Inl e"
  by (simp add: guardE_def)

lemma guardE_eq_Inr [simp, res_simps]: "(guardE b e = Inr u) = b"
  by (simp add: guardE_def)

lemma of_option_simps [simp, res_simps]:
  "of_option e None = Inl e" "of_option e (Some v) = Inr v"
  by (simp_all add: of_option_def)

lemma of_option_eq_Inr [simp, res_simps]: "(of_option e x = Inr v) = (x = Some v)"
  by (cases x) simp_all

text \<open>Mapping a fallible function over a list stops at the first error.\<close>

fun mapE :: "('a \<Rightarrow> 'b res) \<Rightarrow> 'a list \<Rightarrow> 'b list res" where
  "mapE f [] = Inr []"
| "mapE f (x # xs) = bindE (f x) (\<lambda>y. bindE (mapE f xs) (\<lambda>ys. Inr (y # ys)))"

lemma mapE_length: "mapE f xs = Inr ys \<Longrightarrow> length ys = length xs"
  by (induction xs arbitrary: ys) (auto simp: bindE_eq_Inr)

lemma mapE_cong [fundef_cong]:
  "xs = ys \<Longrightarrow> (\<And>x. x \<in> set ys \<Longrightarrow> f x = g x) \<Longrightarrow> mapE f xs = mapE g ys"
  by (induction ys arbitrary: xs) auto

section \<open>JavaScript numbers that may not be finite\<close>

text \<open>
  Where the code meets a number it did not produce (an operator's reply) the model keeps the
  non-finite values. Finite numbers are rationals: odds are decimals with three places.
\<close>

datatype js_number = NaN | PosInf | NegInf | Num rat

fun js_is_finite :: "js_number \<Rightarrow> bool" where
  "js_is_finite (Num _) = True"
| "js_is_finite _ = False"

text \<open>\<open>x >= y\<close> against a finite right-hand side; \<open>NaN\<close> compares false.\<close>

fun js_ge :: "js_number \<Rightarrow> rat \<Rightarrow> bool" where
  "js_ge (Num x) y = (x \<ge> y)"
| "js_ge PosInf _ = True"
| "js_ge NegInf _ = False"
| "js_ge NaN _ = False"

text \<open>\<open>x === y\<close> on numbers: \<open>NaN\<close> differs from itself.\<close>

fun js_num_eq :: "js_number \<Rightarrow> js_number \<Rightarrow> bool" where
  "js_num_eq NaN _ = False"
| "js_num_eq x y = (x = y)"

definition max_safe_integer :: int where
  "max_safe_integer = 9007199254740991"

definition is_safe_integer :: "int \<Rightarrow> bool" where
  "is_safe_integer n = (\<bar>n\<bar> \<le> max_safe_integer)"

text \<open>\<open>Math.round\<close>: halves go up.\<close>

definition js_round :: "rat \<Rightarrow> int" where
  "js_round x = \<lfloor>x + 1 / 2\<rfloor>"

lemma js_round_of_int [simp]: "js_round (of_int n) = n"
  unfolding js_round_def by linarith

lemma js_round_mono: "x \<le> y \<Longrightarrow> js_round x \<le> js_round y"
  unfolding js_round_def by (simp add: floor_mono)

section \<open>Text\<close>

definition is_digit :: "char \<Rightarrow> bool" where
  "is_digit c = (48 \<le> (of_char c :: nat) \<and> (of_char c :: nat) \<le> 57)"

definition digit_value :: "char \<Rightarrow> nat" where
  "digit_value c = of_char c - 48"

definition digit_char :: "nat \<Rightarrow> char" where
  "digit_char n = char_of (48 + n)"

lemma is_digit_digit_char [simp]: "n < 10 \<Longrightarrow> is_digit (digit_char n)"
  by (simp add: is_digit_def digit_char_def)

lemma digit_value_digit_char [simp]: "n < 10 \<Longrightarrow> digit_value (digit_char n) = n"
  by (simp add: digit_value_def digit_char_def)

lemma digit_value_less: "is_digit c \<Longrightarrow> digit_value c < 10"
  unfolding is_digit_def digit_value_def by linarith

lemma digit_char_digit_value: "is_digit c \<Longrightarrow> digit_char (digit_value c) = c"
  by (simp add: is_digit_def digit_value_def digit_char_def)

lemma digit_char_inj: "m < 10 \<Longrightarrow> n < 10 \<Longrightarrow> (digit_char m = digit_char n) = (m = n)"
  by (metis digit_value_digit_char)

text \<open>\<open>Number(s)\<close> for a string of decimal digits, and \<open>String(n)\<close> for a natural number.\<close>

fun nat_of_digits :: "nat \<Rightarrow> string \<Rightarrow> nat" where
  "nat_of_digits acc [] = acc"
| "nat_of_digits acc (c # cs) = nat_of_digits (10 * acc + digit_value c) cs"

fun show_nat :: "nat \<Rightarrow> string" where
  "show_nat n = (if n < 10 then [digit_char n] else show_nat (n div 10) @ [digit_char (n mod 10)])"

declare show_nat.simps [simp del]

lemma nat_of_digits_append:
  "nat_of_digits acc (xs @ ys) = nat_of_digits (nat_of_digits acc xs) ys"
  by (induction xs arbitrary: acc) simp_all

lemma nat_of_digits_show_nat [simp]: "nat_of_digits 0 (show_nat n) = n"
proof (induction n rule: show_nat.induct)
  case (1 n)
  show ?case
  proof (cases "n < 10")
    case True
    then show ?thesis by (simp add: show_nat.simps [of n])
  next
    case False
    with 1 show ?thesis by (simp add: show_nat.simps [of n] nat_of_digits_append)
  qed
qed

lemma show_nat_digits: "c \<in> set (show_nat n) \<Longrightarrow> is_digit c"
proof (induction n rule: show_nat.induct)
  case (1 n)
  then show ?case
    by (cases "n < 10") (auto simp: show_nat.simps [of n])
qed

lemma show_nat_not_Nil [simp]: "show_nat n \<noteq> []"
  by (subst show_nat.simps) simp

lemma list_all_is_digit_show_nat [simp]: "list_all is_digit (show_nat n)"
  by (auto simp: list_all_iff dest: show_nat_digits)

lemma show_nat_inj: "(show_nat m = show_nat n) = (m = n)"
  by (metis nat_of_digits_show_nat)

definition show_int :: "int \<Rightarrow> string" where
  "show_int n = (if n < 0 then CHR ''-'' # show_nat (nat (- n)) else show_nat (nat n))"

lemma not_is_digit_minus [simp]: "\<not> is_digit CHR ''-''"
  by (simp add: is_digit_def)

lemma not_is_digit_dot [simp]: "\<not> is_digit CHR ''.''"
  by (simp add: is_digit_def)

lemma show_int_inj: "(show_int m = show_int n) = (m = n)"
proof -
  have neq: "CHR ''-'' # xs \<noteq> show_nat k" for xs k
    using show_nat_digits [of "CHR ''-''" k] by (cases "show_nat k") auto
  show ?thesis
    by (auto simp: show_int_def show_nat_inj neq neq [symmetric])
qed

text \<open>JavaScript white space (the part of it below code unit 256), \<open>trim\<close>, \<open>slice(0, n)\<close>.\<close>

definition is_space :: "char \<Rightarrow> bool" where
  "is_space c = ((of_char c :: nat) \<in> {9, 10, 11, 12, 13, 32, 160})"

definition trim :: "string \<Rightarrow> string" where
  "trim s = rev (dropWhile is_space (rev (dropWhile is_space s)))"

lemma dropWhile_hd: "xs \<noteq> [] \<Longrightarrow> \<not> P (hd xs) \<Longrightarrow> dropWhile P xs = xs"
  by (cases xs) simp_all

lemma trim_no_space:
  assumes "s \<noteq> []" and "\<not> is_space (hd s)" and "\<not> is_space (last s)"
  shows "trim s = s"
  using assms by (simp add: trim_def dropWhile_hd hd_rev)

text \<open>\<open>padStart(n, c)\<close> and \<open>padEnd(n, c)\<close> with a one-character filler.\<close>

definition pad_start :: "nat \<Rightarrow> char \<Rightarrow> string \<Rightarrow> string" where
  "pad_start n c s = replicate (n - length s) c @ s"

definition pad_end :: "nat \<Rightarrow> char \<Rightarrow> string \<Rightarrow> string" where
  "pad_end n c s = s @ replicate (n - length s) c"

text \<open>\<open>includes\<close> and \<open>startsWith\<close>.\<close>

fun starts_with :: "string \<Rightarrow> string \<Rightarrow> bool" where
  "starts_with s [] = True"
| "starts_with [] (c # cs) = False"
| "starts_with (d # ds) (c # cs) = (d = c \<and> starts_with ds cs)"

fun str_includes :: "string \<Rightarrow> string \<Rightarrow> bool" where
  "str_includes [] t = (t = [])"
| "str_includes (c # cs) t = (starts_with (c # cs) t \<or> str_includes cs t)"

lemma starts_with_append [simp]: "starts_with (s @ t) s"
  by (induction s) auto

lemma str_includes_prefix: "starts_with s t \<Longrightarrow> str_includes s t"
  by (cases s; cases t) auto

lemma str_includes_append_right: "str_includes t u \<Longrightarrow> str_includes (s @ t) u"
  by (induction s) auto

section \<open>Tables\<close>

text \<open>
  A table is the list of its rows. \<open>find_row\<close> is \<open>findOneBy\<close>, \<open>update_rows\<close> an
  \<open>UPDATE ... WHERE\<close>, \<open>affected\<close> the number of rows it touched.
\<close>

definition find_row :: "('a \<Rightarrow> bool) \<Rightarrow> 'a list \<Rightarrow> 'a option" where
  "find_row p rows = List.find p rows"

definition update_rows :: "('a \<Rightarrow> bool) \<Rightarrow> ('a \<Rightarrow> 'a) \<Rightarrow> 'a list \<Rightarrow> 'a list" where
  "update_rows p f rows = map (\<lambda>r. if p r then f r else r) rows"

definition affected :: "('a \<Rightarrow> bool) \<Rightarrow> 'a list \<Rightarrow> nat" where
  "affected p rows = length (filter p rows)"

lemma find_row_simps [simp, tbl_simps]:
  "find_row p [] = None"
  "find_row p (r # rs) = (if p r then Some r else find_row p rs)"
  by (simp_all add: find_row_def)

lemma update_rows_simps [simp, tbl_simps]:
  "update_rows p f [] = []"
  "update_rows p f (r # rs) = (if p r then f r else r) # update_rows p f rs"
  by (simp_all add: update_rows_def)

lemma affected_simps [simp, tbl_simps]:
  "affected p [] = 0"
  "affected p (r # rs) = (if p r then Suc (affected p rs) else affected p rs)"
  by (simp_all add: affected_def)

lemma find_row_append [tbl_simps]:
  "find_row p (rs @ ss) = (case find_row p rs of None \<Rightarrow> find_row p ss | Some r \<Rightarrow> Some r)"
  by (induction rs) auto

lemma find_row_SomeD: "find_row p rows = Some r \<Longrightarrow> r \<in> set rows \<and> p r"
  by (induction rows) (auto split: if_splits)

lemma find_row_None_iff: "(find_row p rows = None) = (\<forall>r \<in> set rows. \<not> p r)"
  by (induction rows) auto

lemma length_update_rows [simp]: "length (update_rows p f rows) = length rows"
  by (simp add: update_rows_def)

lemma set_update_rows: "set (update_rows p f rows) = (\<lambda>r. if p r then f r else r) ` set rows"
  by (simp add: update_rows_def)

lemma map_update_rows: "(\<And>r. p r \<Longrightarrow> k (f r) = k r) \<Longrightarrow> map k (update_rows p f rows) = map k rows"
  by (auto simp: update_rows_def)

lemma find_row_update_rows:
  assumes "\<And>r. p r \<Longrightarrow> q (f r) = q r"
  shows "find_row q (update_rows p f rows)
    = map_option (\<lambda>r. if p r then f r else r) (find_row q rows)"
  using assms by (induction rows) auto

text \<open>Rows with distinct keys: looking a key up gives the one row that has it.\<close>

lemma find_row_unique:
  assumes "distinct (map k rows)" and "r \<in> set rows"
  shows "find_row (\<lambda>x. k x = k r) rows = Some r"
  using assms by (induction rows) (auto simp: rev_image_eqI)

lemma affected_unique:
  assumes "distinct (map k rows)" and "r \<in> set rows" and "p r" and "\<And>x. p x \<Longrightarrow> k x = k r"
  shows "affected p rows = 1"
proof -
  from assms(1,2) have "filter (\<lambda>x. k x = k r) rows = [r]"
  proof (induction rows)
    case (Cons a rows)
    have "\<forall>x \<in> set rows. k x \<noteq> k a" using Cons.prems(1) by (auto simp: image_iff)
    then have "filter (\<lambda>x. k x = k a) rows = []" by (simp add: filter_empty_conv)
    with Cons show ?case by (auto simp: image_iff)
  qed simp
  moreover have "filter p rows = filter p (filter (\<lambda>x. k x = k r) rows)"
    using assms(4) by (auto intro: filter_cong)
  ultimately have "filter p rows = [r]" using assms(3) by simp
  then show ?thesis by (simp add: affected_def)
qed

text \<open>\<open>[...new Set(xs)]\<close>: first occurrences, in order.\<close>

fun uniq :: "'a list \<Rightarrow> 'a list" where
  "uniq [] = []"
| "uniq (x # xs) = x # filter (\<lambda>y. y \<noteq> x) (uniq xs)"

lemma set_uniq [simp]: "set (uniq xs) = set xs"
  by (induction xs) auto

lemma distinct_uniq [simp]: "distinct (uniq xs)"
  by (induction xs) auto

lemma uniq_distinct: "distinct xs \<Longrightarrow> uniq xs = xs"
  by (induction xs) (auto simp: filter_id_conv)

lemma set_map_filter: "set (List.map_filter f xs) = {y. \<exists>x \<in> set xs. f x = Some y}"
  by (induction xs) (auto simp: List.map_filter_simps split: option.splits)

end
