(* ===== verification/ExecutionTypes.thy ===== *)
theory ExecutionTypes
  imports Prelude
begin

text \<open>
  The shared contract of the execution subsystem (\<open>execution/execution.types.ts\<close>): the
  modes and their order, the statuses, and the exact conversion between decimal strings and
  integer cents on which every monetary computation rests.
\<close>

section \<open>Modes, statuses, codes\<close>

datatype execution_mode = DISABLED | SIMULATION | SANDBOX | LIVE_CANARY

text \<open>\<open>MODE_ORDER.indexOf\<close>.\<close>

fun mode_index :: "execution_mode \<Rightarrow> int" where
  "mode_index DISABLED = 0"
| "mode_index SIMULATION = 1"
| "mode_index SANDBOX = 2"
| "mode_index LIVE_CANARY = 3"

lemma mode_index_inj [simp]: "(mode_index a = mode_index b) = (a = b)"
  by (cases a; cases b) simp_all

instantiation execution_mode :: linorder
begin

definition less_eq_execution_mode :: "execution_mode \<Rightarrow> execution_mode \<Rightarrow> bool" where
  "less_eq_execution_mode a b = (mode_index a \<le> mode_index b)"

definition less_execution_mode :: "execution_mode \<Rightarrow> execution_mode \<Rightarrow> bool" where
  "less_execution_mode a b = (mode_index a < mode_index b)"

instance
  by standard (auto simp: less_eq_execution_mode_def less_execution_mode_def)

end

fun mode_name :: "execution_mode \<Rightarrow> string" where
  "mode_name DISABLED = ''DISABLED''"
| "mode_name SIMULATION = ''SIMULATION''"
| "mode_name SANDBOX = ''SANDBOX''"
| "mode_name LIVE_CANARY = ''LIVE_CANARY''"

text \<open>
  \<open>isExecutionMode\<close> as the mode it recognises: columns hold the mode as a \<open>varchar\<close>, so
  any other text may be read back.
\<close>

definition execution_mode_of :: "string \<Rightarrow> execution_mode option" where
  "execution_mode_of s =
     (if s = ''DISABLED'' then Some DISABLED
      else if s = ''SIMULATION'' then Some SIMULATION
      else if s = ''SANDBOX'' then Some SANDBOX
      else if s = ''LIVE_CANARY'' then Some LIVE_CANARY
      else None)"

lemma execution_mode_of_name [simp]: "execution_mode_of (mode_name m) = Some m"
  by (cases m) (simp_all add: execution_mode_of_def)

lemma execution_mode_of_Some_iff: "(execution_mode_of s = Some m) = (s = mode_name m)"
  by (cases m) (auto simp: execution_mode_of_def)

lemma mode_name_inj [simp]: "(mode_name a = mode_name b) = (a = b)"
  by (cases a; cases b) simp_all

text \<open>\<open>isRealMoneyInterlockOpen\<close>: only the exact text \<open>true\<close> opens the interlock.\<close>

definition isRealMoneyInterlockOpen :: "string option \<Rightarrow> bool" where
  "isRealMoneyInterlockOpen raw = (raw = Some ''true'')"

datatype decision_status = Dec_REJECTED | Dec_ELIGIBLE | Dec_ORDER_RESERVED | Dec_COMPLETED

datatype order_status =
    Ord_RESERVED
  | Ord_SUBMITTING
  | Ord_ACCEPTED
  | Ord_REJECTED
  | Ord_UNKNOWN
  | Ord_SETTLED
  | Ord_VOIDED
  | Ord_RECONCILIATION_REQUIRED

datatype rejection_code =
    NO_EXECUTABLE_ODD
  | STALE_ODD
  | SUSPENDED_MARKET
  | ODD_MOVED
  | LIMIT_EXCEEDED
  | CONTROL_DISABLED
  | RISK_CHECK_FAILED
  | OPERATOR_UNAVAILABLE
  | BELOW_MIN_ODD

datatype decision_outcome = WON | LOST | VOID | NO_RESULT

datatype gate_key = G1 | G2 | G3 | G4 | G5 | G6

datatype gate_verdict = GO | NO_GO

datatype ledger_entry_type = RESERVE | RELEASE | SETTLE | ADJUSTMENT

datatype stop_source = BOOTSTRAP | MANUAL | AUTOMATIC

datatype auto_stop_trigger =
    CONTROL_UNREADABLE
  | STALE_OR_SUSPENDED_ODD
  | DAILY_LIMIT_REACHED
  | OPERATOR_BALANCE_MISMATCH
  | UNKNOWN_ORDER_TOO_OLD
  | RECEIPT_MISSING
  | RECONCILIATION_LATE
  | OPERATOR_ERROR_RATE
  | CLOCK_OUT_OF_TOLERANCE
  | LEDGER_INVARIANT_BROKEN
  | RECEIPT_INVALID
  | OPERATOR_CONTRACT_VIOLATION

datatype risk_limit =
    MAX_STAKE_PER_BET
  | DAILY_STAKE
  | DAILY_LOSS
  | OPEN_EXPOSURE
  | AVAILABLE_BALANCE
  | QUOTE_AGE

text \<open>\<open>GATES_REQUIRED_TO_ENTER\<close>.\<close>

fun gates_required_to_enter :: "execution_mode \<Rightarrow> gate_key list" where
  "gates_required_to_enter DISABLED = []"
| "gates_required_to_enter SIMULATION = [G1, G2]"
| "gates_required_to_enter SANDBOX = [G3]"
| "gates_required_to_enter LIVE_CANARY = [G4, G5, G6]"

section \<open>Time constants, in milliseconds\<close>

definition clock_tolerance_ms :: int where "clock_tolerance_ms = 2000"
definition decision_bucket_ms :: int where "decision_bucket_ms = 15 * 60 * 1000"
definition unknown_grace_ms :: int where "unknown_grace_ms = 5 * 60 * 1000"
definition unknown_max_age_ms :: int where "unknown_max_age_ms = 30 * 60 * 1000"
definition submitting_stale_ms :: int where "submitting_stale_ms = 60 * 1000"
definition submission_timeout_ms :: int where "submission_timeout_ms = 20 * 1000"

section \<open>Decimal strings and cents\<close>

text \<open>
  \<open>DECIMAL_PATTERN\<close>: an optional sign, digits, and optionally a point with one or two
  digits. The match yields the sign, the units and the fraction.
\<close>

definition decimal_fraction :: "string \<Rightarrow> string option" where
  "decimal_fraction rest =
     (case rest of
        [] \<Rightarrow> Some []
      | c # fr \<Rightarrow>
          if c = CHR ''.'' \<and> list_all is_digit fr \<and> (length fr = 1 \<or> length fr = 2)
          then Some fr else None)"

definition decimal_sign :: "string \<Rightarrow> bool \<times> string" where
  "decimal_sign s =
     (case s of [] \<Rightarrow> (False, []) | c # r \<Rightarrow> if c = CHR ''-'' then (True, r) else (False, c # r))"

definition decimal_match :: "string \<Rightarrow> (bool \<times> string \<times> string) option" where
  "decimal_match s =
     (case decimal_sign s of (neg, r) \<Rightarrow>
        if takeWhile is_digit r = [] then None
        else (case decimal_fraction (dropWhile is_digit r) of
                None \<Rightarrow> None
              | Some fr \<Rightarrow> Some (neg, takeWhile is_digit r, fr)))"

definition toCents :: "string \<Rightarrow> int res" where
  "toCents value =
     (case decimal_match (trim value) of
        None \<Rightarrow> Inl (PlainError (''Montant decimal invalide : '' @ value))
      | Some (neg, units, fraction) \<Rightarrow>
          (let cents = int (nat_of_digits 0 units) * 100
                     + int (nat_of_digits 0 (pad_end 2 CHR ''0'' fraction))
           in if \<not> is_safe_integer cents then Inl (PlainError (''Montant hors bornes : '' @ value))
              else Inr (if neg then - cents else cents)))"

text \<open>The decimal text of a number of cents, which is also how MySQL renders a \<open>DECIMAL(_,2)\<close>.\<close>

definition decimal_text :: "int \<Rightarrow> string" where
  "decimal_text cents =
     (if cents < 0 then ''-'' else []) @ show_nat (nat (\<bar>cents\<bar> div 100)) @ ''.''
       @ pad_start 2 CHR ''0'' (show_nat (nat (\<bar>cents\<bar> mod 100)))"

definition fromCents :: "int \<Rightarrow> string res" where
  "fromCents cents =
     (if \<not> is_safe_integer cents then Inl (PlainError (''Centimes non entiers : '' @ show_int cents))
      else Inr (decimal_text cents))"

text \<open>
  Net gain of a winning stake: the odd is taken to integer thousandths first, then the
  product is rounded to the nearest cent.
\<close>

definition winningProfitCents :: "int \<Rightarrow> rat \<Rightarrow> int" where
  "winningProfitCents stakeCents price =
     (let oddMillis = js_round (price * 1000)
      in js_round (of_int (stakeCents * (oddMillis - 1000)) / 1000))"

text \<open>What a decimal string is worth, when it is one.\<close>

definition cents_of :: "string \<Rightarrow> int" where
  "cents_of s = (case toCents s of Inl _ \<Rightarrow> 0 | Inr c \<Rightarrow> c)"

text \<open>Writing a decimal string to a \<open>DECIMAL(14,2)\<close> column keeps its value and normalises its text.\<close>

definition store_decimal :: "string \<Rightarrow> string res" where
  "store_decimal s =
     (case toCents s of Inl _ \<Rightarrow> Inl (QueryFailedError ''Incorrect decimal value'')
      | Inr c \<Rightarrow> Inr (decimal_text c))"

subsection \<open>Round trip\<close>

lemma two_digits:
  assumes "m < 100"
  shows "pad_start 2 CHR ''0'' (show_nat m) = [digit_char (m div 10), digit_char (m mod 10)]"
proof (cases "m < 10")
  case True
  moreover have "digit_char 0 = CHR ''0''" by code_simp
  ultimately show ?thesis by (simp add: show_nat.simps [of m] pad_start_def)
next
  case False
  with assms have "m div 10 < 10" by simp
  with False show ?thesis
    by (simp add: show_nat.simps [of m] show_nat.simps [of "m div 10"] pad_start_def)
qed

lemma is_digit_not_space: "is_digit c \<Longrightarrow> \<not> is_space c"
  by (auto simp: is_digit_def is_space_def)

lemma hd_show_nat_digit: "is_digit (hd (show_nat n))"
  by (meson list.set_sel(1) show_nat_digits show_nat_not_Nil)

lemma trim_decimal_text [simp]: "trim (decimal_text c) = decimal_text c"
proof (rule trim_no_space)
  let ?m = "nat (\<bar>c\<bar> mod 100)"
  have m: "?m < 100" by (simp add: nat_less_iff)
  show "decimal_text c \<noteq> []" by (simp add: decimal_text_def)
  have "\<not> is_space CHR ''-''" by (simp add: is_space_def)
  then show "\<not> is_space (hd (decimal_text c))"
    by (auto simp: decimal_text_def hd_append is_digit_not_space hd_show_nat_digit)
  have "last (decimal_text c) = digit_char (?m mod 10)"
    by (simp add: decimal_text_def two_digits [OF m])
  then show "\<not> is_space (last (decimal_text c))"
    by (simp add: is_digit_not_space)
qed

lemma takeWhile_digits_show_nat [simp]:
  "takeWhile is_digit (show_nat n @ CHR ''.'' # xs) = show_nat n"
  "dropWhile is_digit (show_nat n @ CHR ''.'' # xs) = CHR ''.'' # xs"
  by (simp_all add: takeWhile_append2 dropWhile_append2 show_nat_digits)

lemma decimal_sign_text:
  "decimal_sign (decimal_text c) = (c < 0, show_nat (nat (\<bar>c\<bar> div 100)) @ ''.''
       @ pad_start 2 CHR ''0'' (show_nat (nat (\<bar>c\<bar> mod 100))))"
proof -
  have "hd (show_nat n) \<noteq> CHR ''-''" for n
    using hd_show_nat_digit [of n] by auto
  then show ?thesis
    by (cases "show_nat (nat (\<bar>c\<bar> div 100))")
      (auto simp: decimal_sign_def decimal_text_def dest: arg_cong [where f = hd])
qed

lemma decimal_match_text:
  "decimal_match (decimal_text c) =
     Some (c < 0, show_nat (nat (\<bar>c\<bar> div 100)),
           [digit_char (nat (\<bar>c\<bar> mod 100) div 10), digit_char (nat (\<bar>c\<bar> mod 100) mod 10)])"
proof -
  let ?m = "nat (\<bar>c\<bar> mod 100)"
  have m: "?m < 100" by (simp add: nat_less_iff)
  then have "?m div 10 < 10" by simp
  then have "decimal_fraction (CHR ''.'' # [digit_char (?m div 10), digit_char (?m mod 10)])
      = Some [digit_char (?m div 10), digit_char (?m mod 10)]"
    by (simp add: decimal_fraction_def)
  then show ?thesis
    by (simp add: decimal_match_def decimal_sign_text two_digits [OF m])
qed

text \<open>Reading the text of a number of cents gives it back, when it is a safe integer.\<close>

lemma toCents_decimal_text:
  "toCents (decimal_text c) =
     (if is_safe_integer c then Inr c else Inl (PlainError (''Montant hors bornes : '' @ decimal_text c)))"
proof -
  let ?m = "nat (\<bar>c\<bar> mod 100)"
  have m: "?m < 100" by (simp add: nat_less_iff)
  have d: "?m div 10 < 10" using m by simp
  have frac: "int (nat_of_digits 0 (pad_end 2 CHR ''0''
      [digit_char (?m div 10), digit_char (?m mod 10)])) = \<bar>c\<bar> mod 100"
    using d by (simp add: pad_end_def)
  have units: "int (nat_of_digits 0 (show_nat (nat (\<bar>c\<bar> div 100)))) = \<bar>c\<bar> div 100"
    by (simp add: pos_imp_zdiv_nonneg_iff)
  have sum: "\<bar>c\<bar> div 100 * 100 + \<bar>c\<bar> mod 100 = \<bar>c\<bar>"
    by (rule div_mult_mod_eq)
  show ?thesis
    unfolding toCents_def trim_decimal_text decimal_match_text option.case prod.case Let_def
      frac units sum
    by (simp add: is_safe_integer_def)
qed

lemma toCents_fromCents [simp]: "fromCents c = Inr s \<Longrightarrow> toCents s = Inr c"
  by (auto simp: fromCents_def toCents_decimal_text split: if_splits)

lemma toCents_safe: "toCents s = Inr c \<Longrightarrow> is_safe_integer c"
  by (auto simp: toCents_def is_safe_integer_def Let_def split: option.splits if_splits)

lemma fromCents_Inr_iff: "(fromCents c = Inr s) = (is_safe_integer c \<and> s = decimal_text c)"
  by (auto simp: fromCents_def)

lemma cents_of_decimal_text [simp]: "is_safe_integer c \<Longrightarrow> cents_of (decimal_text c) = c"
  by (simp add: cents_of_def toCents_decimal_text)

lemma cents_of_toCents: "toCents s = Inr c \<Longrightarrow> cents_of s = c"
  by (simp add: cents_of_def)

lemma decimal_text_inj:
  "is_safe_integer a \<Longrightarrow> is_safe_integer b \<Longrightarrow> (decimal_text a = decimal_text b) = (a = b)"
  by (metis cents_of_decimal_text)

end
