(* ===== verification/Redactor.thy ===== *)
theory Redactor
  imports ExecutionTypes
begin

text \<open>
  Redaction of operator receipts and error messages before anything is stored or logged
  (\<open>execution/adapters/operator-receipt-redactor.ts\<close>). The regular expressions of the
  source are written out as recognisers: word-boundary patterns as properties of maximal
  runs of word characters, the others by searching every position.

  The character \<open>U+2026\<close> the code appends to a cut string is \<open>CHR 0x85\<close> here, its code
  in the Windows-1252 page, since characters stay below 256.
\<close>

section \<open>JSON values as the code receives them\<close>

text \<open>
  \<open>JOther\<close> stands for functions, symbols and big integers; an invalid \<open>Date\<close> is
  \<open>JDate None\<close>; \<open>JObj\<close> lists \<open>Object.entries\<close> in order.
\<close>

datatype json =
    JNull
  | JUndefined
  | JBool bool
  | JNum js_number
  | JStr string
  | JDate "int option"
  | JArr "json list"
  | JObj "(string \<times> json) list"
  | JOther

section \<open>\<open>Date.prototype.toISOString\<close>\<close>

definition ms_per_day :: int where "ms_per_day = 86400000"

text \<open>Civil date of a day number counted from 1970-01-01, in the proleptic Gregorian calendar.\<close>

definition civil_from_days :: "int \<Rightarrow> int \<times> int \<times> int" where
  "civil_from_days z0 =
     (let z = z0 + 719468;
          era = z div 146097;
          doe = z - era * 146097;
          yoe = (doe - doe div 1460 + doe div 36524 - doe div 146096) div 365;
          y = yoe + era * 400;
          doy = doe - (365 * yoe + yoe div 4 - yoe div 100);
          mp = (5 * doy + 2) div 153;
          d = doy - (153 * mp + 2) div 5 + 1;
          m = (if mp < 10 then mp + 3 else mp - 9)
      in ((if m \<le> 2 then y + 1 else y), m, d))"

definition pad_int :: "nat \<Rightarrow> int \<Rightarrow> string" where
  "pad_int n x = pad_start n CHR ''0'' (show_nat (nat x))"

definition iso_string :: "int \<Rightarrow> string" where
  "iso_string ms =
     (case civil_from_days (ms div ms_per_day) of (y, m, d) \<Rightarrow>
       (let t = ms mod ms_per_day;
            year = (if 0 \<le> y \<and> y \<le> 9999 then pad_int 4 y
                    else (if y < 0 then ''-'' else ''+'') @ pad_int 6 \<bar>y\<bar>)
        in year @ ''-'' @ pad_int 2 m @ ''-'' @ pad_int 2 d @ ''T''
           @ pad_int 2 (t div 3600000) @ '':'' @ pad_int 2 (t div 60000 mod 60) @ '':''
           @ pad_int 2 (t div 1000 mod 60) @ ''.'' @ pad_int 3 (t mod 1000) @ ''Z''))"

section \<open>Recognisers\<close>

definition redacted :: string where "redacted = ''[REDACTED]''"
definition max_depth :: nat where "max_depth = 5"
definition max_array :: nat where "max_array = 50"
definition max_string :: nat where "max_string = 256"
definition max_keys :: nat where "max_keys = 100"

definition is_upper :: "char \<Rightarrow> bool" where
  "is_upper c = (65 \<le> (of_char c :: nat) \<and> (of_char c :: nat) \<le> 90)"

definition is_lower :: "char \<Rightarrow> bool" where
  "is_lower c = (97 \<le> (of_char c :: nat) \<and> (of_char c :: nat) \<le> 122)"

definition is_alnum :: "char \<Rightarrow> bool" where
  "is_alnum c = (is_upper c \<or> is_lower c \<or> is_digit c)"

definition is_word :: "char \<Rightarrow> bool" where
  "is_word c = (is_alnum c \<or> c = CHR ''_'')"

definition to_lower :: "char \<Rightarrow> char" where
  "to_lower c = (if is_upper c then char_of ((of_char c :: nat) + 32) else c)"

definition lower :: "string \<Rightarrow> string" where
  "lower = List.map to_lower"

definition ends_with :: "string \<Rightarrow> string \<Rightarrow> bool" where
  "ends_with s t = starts_with (rev s) (rev t)"

text \<open>The maximal runs of characters satisfying a predicate.\<close>

fun runs_acc :: "(char \<Rightarrow> bool) \<Rightarrow> string \<Rightarrow> string \<Rightarrow> string list" where
  "runs_acc p cur [] = (if cur = [] then [] else [rev cur])"
| "runs_acc p cur (c # cs) =
     (if p c then runs_acc p (c # cur) cs
      else (if cur = [] then [] else [rev cur]) @ runs_acc p [] cs)"

definition runs :: "(char \<Rightarrow> bool) \<Rightarrow> string \<Rightarrow> string list" where
  "runs p s = runs_acc p [] s"

text \<open>\<open>/\\bword\\s+\\S+/i\<close>: the word at a boundary, white space, then something.\<close>

fun scheme_at :: "string \<Rightarrow> bool \<Rightarrow> string \<Rightarrow> bool" where
  "scheme_at w after_word [] = False"
| "scheme_at w after_word (c # cs) =
     ((\<not> after_word \<and> starts_with (lower (c # cs)) w
       \<and> (let rest = drop (length w) (c # cs)
          in rest \<noteq> [] \<and> is_space (hd rest) \<and> dropWhile is_space rest \<noteq> []))
      \<or> scheme_at w (is_word c) cs)"

text \<open>\<open>/^eyJ[A-Za-z0-9_-]+\.[A-Za-z0-9_-]+\.[A-Za-z0-9_-]*$/\<close>.\<close>

definition jwt_char :: "char \<Rightarrow> bool" where
  "jwt_char c = (is_word c \<or> c = CHR ''-'')"

definition is_jwt :: "string \<Rightarrow> bool" where
  "is_jwt s =
     (let a = takeWhile jwt_char s; r1 = dropWhile jwt_char s;
          b = takeWhile jwt_char (tl r1); r2 = dropWhile jwt_char (tl r1)
      in starts_with a ''eyJ'' \<and> length a > 3 \<and> starts_with r1 ''.'' \<and> b \<noteq> []
         \<and> starts_with r2 ''.'' \<and> list_all jwt_char (tl r2))"

text \<open>\<open>/\\b\\d{13,19}\\b/\<close>: a whole run of word characters made of 13 to 19 digits.\<close>

definition has_card_number :: "string \<Rightarrow> bool" where
  "has_card_number s =
     list_ex (\<lambda>w. list_all is_digit w \<and> 13 \<le> length w \<and> length w \<le> 19) (runs is_word s)"

text \<open>\<open>/\\b[A-Z]{2}\\d{2}[A-Z0-9]{11,30}\\b/\<close>.\<close>

definition is_iban :: "string \<Rightarrow> bool" where
  "is_iban w =
     (15 \<le> length w \<and> length w \<le> 34 \<and> list_all is_upper (take 2 w)
      \<and> list_all is_digit (take 2 (drop 2 w))
      \<and> list_all (\<lambda>c. is_upper c \<or> is_digit c) (drop 4 w))"

definition has_iban :: "string \<Rightarrow> bool" where
  "has_iban s = list_ex is_iban (runs is_word s)"

text \<open>\<open>/[A-Za-z0-9+/_-]{40,}={0,2}/\<close>.\<close>

definition key_char :: "char \<Rightarrow> bool" where
  "key_char c = (is_alnum c \<or> c = CHR ''+'' \<or> c = CHR ''/'' \<or> c = CHR ''_'' \<or> c = CHR ''-'')"

definition has_long_key :: "string \<Rightarrow> bool" where
  "has_long_key s = list_ex (\<lambda>w. 40 \<le> length w) (runs key_char s)"

text \<open>\<open>/[^\\s@]+@[^\\s@]+\\.[^\\s@]+/\<close>.\<close>

definition mail_char :: "char \<Rightarrow> bool" where
  "mail_char c = (\<not> is_space c \<and> c \<noteq> CHR ''@'')"

definition has_inner_dot :: "string \<Rightarrow> bool" where
  "has_inner_dot w = (CHR ''.'' \<in> set (butlast (tl w)))"

fun email_at :: "bool \<Rightarrow> string \<Rightarrow> bool" where
  "email_at seen [] = False"
| "email_at seen (c # cs) =
     ((c = CHR ''@'' \<and> seen \<and> has_inner_dot (takeWhile mail_char cs))
      \<or> email_at (mail_char c) cs)"

definition looks_secret :: "string \<Rightarrow> bool" where
  "looks_secret s =
     (scheme_at ''bearer'' False s \<or> scheme_at ''basic'' False s \<or> is_jwt s
      \<or> has_card_number s \<or> has_iban s \<or> has_long_key s \<or> email_at False s)"

text \<open>\<open>SENSITIVE_KEY\<close> and \<open>ALLOWED_KEYS\<close>.\<close>

definition sensitive_words :: "string list" where
  "sensitive_words =
     [''pass'', ''secret'', ''token'', ''apikey'', ''api-key'', ''api_key'', ''auth'', ''cookie'',
      ''session'', ''signature'', ''credential'', ''private'', ''iban'', ''bic'', ''card'',
      ''pan'', ''cvv'', ''email'', ''phone'', ''address'', ''birth'', ''ssn'', ''document'']"

definition sensitive_suffixes :: "string list" where
  "sensitive_suffixes = [''account'', ''accountnumber'', ''accountno'']"

definition sensitive_key :: "string \<Rightarrow> bool" where
  "sensitive_key k =
     (list_ex (str_includes (lower k)) sensitive_words
      \<or> list_ex (ends_with (lower k)) sensitive_suffixes)"

definition allowed_keys :: "string list" where
  "allowed_keys =
     [''externalOrderId'', ''idempotencyKey'', ''orderId'', ''status'', ''odd'', ''acceptedOdd'',
      ''requestedOdd'', ''stake'', ''acceptedStake'', ''payout'', ''currency'', ''marketKey'',
      ''selectionKey'', ''acceptedAt'', ''settledAt'', ''reasonCode'', ''receiptHash'']"

section \<open>Redaction\<close>

definition redactString :: "string \<Rightarrow> string" where
  "redactString value =
     (if looks_secret value then redacted
      else if length value > max_string then take max_string value @ [CHR 0x85]
      else value)"

definition prototype_key :: "string \<Rightarrow> bool" where
  "prototype_key k = (k \<in> {''__proto__'', ''constructor'', ''prototype''})"

function redactReceipt :: "nat \<Rightarrow> json \<Rightarrow> json" where
  "redactReceipt depth JNull = JNull"
| "redactReceipt depth JUndefined = JNull"
| "redactReceipt depth (JStr s) = JStr (redactString s)"
| "redactReceipt depth (JNum n) = (if js_is_finite n then JNum n else JNull)"
| "redactReceipt depth (JBool b) = JBool b"
| "redactReceipt depth (JDate t) = (case t of None \<Rightarrow> JNull | Some ms \<Rightarrow> JStr (iso_string ms))"
| "redactReceipt depth (JArr xs) =
     (if depth \<ge> max_depth then JStr redacted
      else JArr (List.map (redactReceipt (Suc depth)) (take max_array xs)))"
| "redactReceipt depth (JObj kvs) =
     (if depth \<ge> max_depth then JStr redacted
      else JObj (List.map
             (\<lambda>(k, v). (k,
                if k \<notin> set allowed_keys \<and> sensitive_key k then JStr redacted
                else redactReceipt (Suc depth) v))
             (filter (\<lambda>(k, v). \<not> prototype_key k) (take max_keys kvs))))"
| "redactReceipt depth JOther = (if depth \<ge> max_depth then JStr redacted else JNull)"
  by pat_completeness auto
termination
  by (relation "measure (\<lambda>(depth, j). max_depth - depth)") auto

text \<open>Runs of control characters become one blank each.\<close>

definition is_control :: "char \<Rightarrow> bool" where
  "is_control c = ((of_char c :: nat) \<le> 31 \<or> (of_char c :: nat) = 127)"

fun squash_control :: "bool \<Rightarrow> string \<Rightarrow> string" where
  "squash_control inside [] = []"
| "squash_control inside (c # cs) =
     (if is_control c then (if inside then squash_control True cs else CHR '' '' # squash_control True cs)
      else c # squash_control False cs)"

definition redactErrorMessage :: "exn \<Rightarrow> string" where
  "redactErrorMessage e = take 200 (redactString (trim (squash_control False (exn_message e))))"

section \<open>What a redacted receipt can contain\<close>

lemma length_redactString: "length (redactString s) \<le> 257"
  by (simp add: redactString_def redacted_def max_string_def)

lemma length_redactErrorMessage: "length (redactErrorMessage e) \<le> 200"
  by (simp add: redactErrorMessage_def)

lemma redactString_secret: "looks_secret s \<Longrightarrow> redactString s = redacted"
  by (simp add: redactString_def)

text \<open>
  A clean value: no number that is not finite, no value of a type JSON does not have, arrays,
  objects and nesting within the bounds, no prototype key, and every sensitive key masked.
\<close>

fun clean_json :: "nat \<Rightarrow> json \<Rightarrow> bool" where
  "clean_json d JNull = True"
| "clean_json d (JStr s) = True"
| "clean_json d (JNum n) = js_is_finite n"
| "clean_json d (JBool b) = True"
| "clean_json d (JArr xs) = (d > 0 \<and> length xs \<le> max_array \<and> list_all (clean_json (d - 1)) xs)"
| "clean_json d (JObj kvs) =
     (d > 0 \<and> length kvs \<le> max_keys
      \<and> list_all (\<lambda>(k, v). \<not> prototype_key k
           \<and> (k \<notin> set allowed_keys \<and> sensitive_key k \<longrightarrow> v = JStr redacted)
           \<and> clean_json (d - 1) v) kvs)"
| "clean_json d _ = False"

lemma length_filter_take: "length (filter p (take n xs)) \<le> n"
  by (rule order_trans [OF length_filter_le]) simp

lemma redactReceipt_clean: "d \<le> max_depth \<Longrightarrow> clean_json (max_depth - d) (redactReceipt d j)"
proof (induction d j rule: redactReceipt.induct)
  case (6 d t)
  then show ?case by (cases t) simp_all
next
  case (7 d xs)
  show ?case
  proof (cases "d \<ge> max_depth")
    case False
    then have "clean_json (max_depth - Suc d) (redactReceipt (Suc d) x)" if "x \<in> set (take max_array xs)" for x
      using 7 that by simp
    with False show ?thesis by (auto simp: list_all_iff)
  qed simp
next
  case (8 d kvs)
  show ?case
  proof (cases "d \<ge> max_depth")
    case True
    then show ?thesis by simp
  next
    case False
    have *: "clean_json (max_depth - Suc d) (redactReceipt (Suc d) v)"
      if "(k, v) \<in> set (take max_keys kvs)" and "\<not> prototype_key k"
       and "\<not> (k \<notin> set allowed_keys \<and> sensitive_key k)" for k v
      using 8 that False by force
    show ?thesis using False * 
      by (auto simp: list_all_iff length_filter_take)
  qed
qed (simp_all)

end
