(* ===== verification/SmartRules.thy ===== *)
theory SmartRules
  imports Prelude
begin

text \<open>
  The settings of the live rules (\<open>settings/smart-rules-config.service.ts\<close>): the windows and
  thresholds, the odds of each market, the default configuration, the row of
  \<open>app_runtime_states\<close> that overrides it, and the check of the controller. Windows, thresholds
  and modifiers are integers, as \<open>update-smart-rules.dto.ts\<close> requires.
\<close>

section \<open>Configuration\<close>

record half_rule =
  hr_maxElapsed :: int
  hr_minShots :: int

datatype signal_type = TOTAL_SHOTS | ON_TARGET | PRESSURE_INDEX

record score_modifiers =
  mod_leading :: int
  mod_trailing :: int
  mod_drawing :: int

record odds_config =
  oc_current :: rat
  oc_min :: rat
  oc_edgePct :: rat
  oc_confidence :: int

record odds_settings =
  od_firstHalfHT :: odds_config
  od_firstHalfFT :: odds_config
  od_secondHalf :: odds_config

record smart_rules_config =
  cfg_signal :: "signal_type option"
  cfg_scoreStateModifiers :: "score_modifiers option"
  cfg_firstHalfRules :: "half_rule list"
  cfg_secondHalfRule :: half_rule
  cfg_odds :: odds_settings

definition neutral_modifiers :: score_modifiers where
  "neutral_modifiers = \<lparr>mod_leading = 0, mod_trailing = 0, mod_drawing = 0\<rparr>"

definition default_odds :: odds_settings where
  "default_odds =
     \<lparr>od_firstHalfHT = \<lparr>oc_current = 175 / 100, oc_min = 16 / 10, oc_edgePct = 125 / 10, oc_confidence = 70\<rparr>,
      od_firstHalfFT = \<lparr>oc_current = 145 / 100, oc_min = 135 / 100, oc_edgePct = 8, oc_confidence = 75\<rparr>,
      od_secondHalf = \<lparr>oc_current = 165 / 100, oc_min = 15 / 10, oc_edgePct = 10, oc_confidence = 72\<rparr>\<rparr>"

definition default_config :: smart_rules_config where
  "default_config =
     \<lparr>cfg_signal = Some TOTAL_SHOTS, cfg_scoreStateModifiers = Some neutral_modifiers,
      cfg_firstHalfRules =
        [\<lparr>hr_maxElapsed = 10, hr_minShots = 5\<rparr>, \<lparr>hr_maxElapsed = 20, hr_minShots = 7\<rparr>,
         \<lparr>hr_maxElapsed = 30, hr_minShots = 10\<rparr>, \<lparr>hr_maxElapsed = 40, hr_minShots = 13\<rparr>,
         \<lparr>hr_maxElapsed = 45, hr_minShots = 16\<rparr>],
      cfg_secondHalfRule = \<lparr>hr_maxElapsed = 60, hr_minShots = 5\<rparr>, cfg_odds = default_odds\<rparr>"

section \<open>The stored configuration\<close>

text \<open>The state is the value stored under the key of the service, if there is one.\<close>

type_synonym rules_state = "smart_rules_config option"

definition getConfig :: "rules_state \<Rightarrow> smart_rules_config" where
  "getConfig s = (case s of None \<Rightarrow> default_config | Some c \<Rightarrow> c)"

definition updateConfig :: "smart_rules_config \<Rightarrow> rules_state \<Rightarrow> smart_rules_config \<times> rules_state" where
  "updateConfig c s = (c, Some c)"

section \<open>The controller\<close>

text \<open>\<open>assertConsistentFirstHalfRules\<close>: \<open>i\<close> is the position of the second rule of the list.\<close>

fun assert_consistent :: "nat \<Rightarrow> half_rule list \<Rightarrow> unit res" where
  "assert_consistent i (before # after # rest) =
     (if hr_maxElapsed after \<le> hr_maxElapsed before
      then Inl (BadRequestException (''Regles de 1re mi-temps mal ordonnees : la regle '' @ show_nat (i + 1)))
      else if hr_minShots after < hr_minShots before
      then Inl (BadRequestException (''Seuil decroissant detecte entre la regle '' @ show_nat i
             @ '' et la regle '' @ show_nat (i + 1)))
      else assert_consistent (i + 1) (after # rest))"
| "assert_consistent i _ = Inr ()"

definition assertConsistentFirstHalfRules :: "half_rule list \<Rightarrow> unit res" where
  "assertConsistentFirstHalfRules rules = assert_consistent 1 rules"

record update_rules =
  ur_signal :: "signal_type option"
  ur_scoreStateModifiers :: "score_modifiers option"
  ur_firstHalfRules :: "half_rule list"
  ur_secondHalfRule :: half_rule
  ur_odds :: "odds_settings option"

definition default_to :: "'a \<Rightarrow> 'a option \<Rightarrow> 'a" where
  "default_to d x = (case x of None \<Rightarrow> d | Some v \<Rightarrow> v)"

definition put_rules :: "update_rules \<Rightarrow> rules_state \<Rightarrow> (smart_rules_config \<times> rules_state) res" where
  "put_rules dto s =
     bindE (assertConsistentFirstHalfRules (ur_firstHalfRules dto)) (\<lambda>_.
       Inr (updateConfig
         \<lparr>cfg_signal = Some (default_to TOTAL_SHOTS (ur_signal dto)),
          cfg_scoreStateModifiers = Some (default_to neutral_modifiers (ur_scoreStateModifiers dto)),
          cfg_firstHalfRules = ur_firstHalfRules dto, cfg_secondHalfRule = ur_secondHalfRule dto,
          cfg_odds = default_to default_odds (ur_odds dto)\<rparr> s))"

text \<open>What the check accepts: windows that widen and thresholds that do not fall.\<close>

definition consistent_rules :: "half_rule list \<Rightarrow> bool" where
  "consistent_rules rules =
     (sorted_wrt (\<lambda>a b. hr_maxElapsed a < hr_maxElapsed b \<and> hr_minShots a \<le> hr_minShots b) rules)"

lemma assert_consistent_ok: "(assert_consistent i rules = Inr u) = consistent_rules rules"
proof (induction i rules rule: assert_consistent.induct)
  case (1 i before after rest)
  then show ?case
    by (auto simp: consistent_rules_def dest: less_trans order.trans)
qed (simp_all add: consistent_rules_def)

lemma put_rules_consistent:
  "put_rules dto s = Inr (c, s') \<Longrightarrow> s' = Some c \<and> consistent_rules (cfg_firstHalfRules c)"
  by (auto simp: put_rules_def updateConfig_def assertConsistentFirstHalfRules_def bindE_eq_Inr assert_consistent_ok)

end
