(* ===== verification/Database.thy ===== *)
theory Database
  imports Redactor SmartRules
begin

text \<open>
  The persistent state: one record per entity of \<open>database/entities\<close>, one list of rows per
  table, and the statements through which the services write. A write that violates a unique
  index, a foreign key or a CHECK constraint of the migrations is refused with
  \<open>QueryFailedError\<close>; a transaction is a function from the tables to an error (nothing is
  committed) or a result with the new tables. Surrogate keys no code reads are left out;
  generated identifiers and the clock are arguments.
\<close>

section \<open>Rows\<close>

datatype scalar = SStr string | SNum int | SBool bool | SNull

type_synonym metadata = "(string \<times> scalar) list"

text \<open>\<open>execution_controls\<close>; \<open>mode\<close> is a \<open>varchar\<close> and may hold any text.\<close>

record execution_control =
  ctl_id :: string
  ctl_scope :: string
  ctl_mode :: string
  ctl_version :: int
  ctl_activeRiskPolicyId :: "string option"
  ctl_stopReason :: "string option"
  ctl_stopSource :: "stop_source option"
  ctl_changedByUserId :: "string option"
  ctl_changedAt :: int

record risk_policy =
  pol_id :: string
  pol_version :: int
  pol_currency :: string
  pol_maxStakePerBet :: string
  pol_maxDailyStake :: string
  pol_maxDailyLoss :: string
  pol_maxOpenExposure :: string
  pol_maxQuoteAgeMs :: int
  pol_createdByUserId :: "string option"

record gate_evidence =
  ev_id :: string
  ev_controlId :: string
  ev_gateKey :: gate_key
  ev_periodFrom :: int
  ev_periodTo :: int
  ev_metrics :: json
  ev_reportHash :: string
  ev_verdict :: gate_verdict
  ev_approvedByUserId :: string
  ev_approvedAt :: int

record audit_event =
  aud_actorUserId :: "string option"
  aud_action :: string
  aud_targetType :: string
  aud_targetId :: string
  aud_traceId :: "string option"
  aud_metadata :: metadata

record bankroll_account =
  acc_id :: string
  acc_mode :: string
  acc_operatorKey :: string
  acc_currency :: string
  acc_availableBalance :: string
  acc_reservedBalance :: string
  acc_version :: int
  acc_updatedAt :: int

record ledger_entry =
  le_accountId :: string
  le_orderId :: "string option"
  le_entryKey :: string
  le_entryType :: ledger_entry_type
  le_amount :: string
  le_reservedDelta :: string
  le_availableAfter :: string
  le_reservedAfter :: string
  le_currency :: string
  le_accountVersion :: int
  le_actorUserId :: "string option"
  le_metadata :: "metadata option"
  le_createdAt :: int

record bet_decision =
  dec_id :: string
  dec_simulationRunId :: string
  dec_signalKey :: string
  dec_idempotencyKey :: string
  dec_fixtureId :: string
  dec_providerFixtureId :: string
  dec_teamId :: "int option"
  dec_isHomeTeam :: bool
  dec_marketType :: string
  dec_marketKey :: string
  dec_selectionKey :: string
  dec_selection :: string
  dec_ruleName :: string
  dec_elapsedAtDecision :: "int option"
  dec_minAcceptableOdd :: rat
  dec_status :: decision_status
  dec_rejectionCode :: "rejection_code option"
  dec_decidedAt :: int
  dec_currency :: string
  dec_stake :: "string option"
  dec_decisionOddsSnapshotId :: "string option"
  dec_decisionOdd :: "rat option"
  dec_decisionProviderKey :: "string option"
  dec_decisionBookmakerKey :: "string option"
  dec_decisionObservedAt :: "int option"
  dec_decisionReceivedAt :: "int option"
  dec_executionDueAt :: "int option"
  dec_executableOddsSnapshotId :: "string option"
  dec_executableOdd :: "rat option"
  dec_executableObservedAt :: "int option"
  dec_executableReceivedAt :: "int option"
  dec_slippagePct :: "rat option"
  dec_executedAt :: "int option"
  dec_outcome :: "decision_outcome option"
  dec_profit :: "string option"
  dec_settledAt :: "int option"

datatype run_status = Run_RUNNING | Run_STOPPED

text \<open>The strategy and the risk and quote policy a run freezes when it starts (JSON columns).\<close>

datatype staking_type = FLAT | PERCENT_BANKROLL

record strategy_odds =
  so_source :: "string list"
  so_executionLatencyMs :: int
  so_maxQuoteAgeMs :: "int option"
  so_bookmakerKey :: "string option"

record backtest_strategy =
  bs_name :: string
  bs_version :: string
  bs_entryRules :: smart_rules_config
  bs_markets :: "string list"
  bs_minEdgePct :: rat
  bs_minConfidence :: rat
  bs_stakingType :: staking_type
  bs_stakingAmount :: rat
  bs_odds :: strategy_odds
  bs_bankroll :: rat

record risk_snapshot =
  rk_maxQuoteAgeMs :: int
  rk_executionLatencyMs :: int
  rk_bookmakerKey :: "string option"
  rk_maxStakePerBet :: "string option"
  rk_maxOpenExposure :: "string option"

record simulation_run =
  run_id :: string
  run_idempotencyKey :: string
  run_name :: string
  run_strategyVersion :: string
  run_strategySnapshot :: backtest_strategy
  run_riskSnapshot :: risk_snapshot
  run_configHash :: string
  run_currency :: string
  run_initialBankroll :: string
  run_status :: run_status
  run_requestedByUserId :: "string option"
  run_startedAt :: int
  run_stoppedAt :: "int option"
  run_lastTickAt :: "int option"
  run_createdAt :: int

record bet_order =
  ord_id :: string
  ord_decisionId :: string
  ord_accountId :: string
  ord_mode :: string
  ord_operatorKey :: string
  ord_idempotencyKey :: string
  ord_externalOrderId :: "string option"
  ord_status :: order_status
  ord_rejectionCode :: "rejection_code option"
  ord_statusReason :: "string option"
  ord_fixtureId :: string
  ord_providerFixtureId :: string
  ord_marketKey :: string
  ord_selectionKey :: string
  ord_currency :: string
  ord_requestedStake :: string
  ord_requestedOdd :: rat
  ord_minimumOdd :: rat
  ord_quoteCapturedAt :: int
  ord_acceptedOdd :: "rat option"
  ord_acceptedStake :: "string option"
  ord_acceptedAt :: "int option"
  ord_payout :: "string option"
  ord_submittedAt :: "int option"
  ord_unknownSince :: "int option"
  ord_settledAt :: "int option"
  ord_version :: int
  ord_createdAt :: int
  ord_updatedAt :: int

record bet_receipt =
  rcp_orderId :: string
  rcp_receiptHash :: string
  rcp_redactedPayload :: json
  rcp_createdAt :: int

datatype reconciliation_run_status = Rec_RUNNING | Rec_COMPLETED | Rec_FAILED

datatype reconciliation_result =
    Res_MATCH | Res_RESOLVED | Res_MISMATCH | Res_MISSING_AT_OPERATOR | Res_MISSING_LOCALLY | Res_PENDING

datatype reconciliation_item_type = It_ORDER | It_RECEIPT | It_SETTLEMENT | It_LEDGER | It_BALANCE

datatype severity = INFO | WARNING | CRITICAL

record reconciliation_item =
  itm_orderId :: "string option"
  itm_itemType :: reconciliation_item_type
  itm_result :: reconciliation_result
  itm_severity :: severity
  itm_detail :: string
  itm_expected :: json
  itm_observed :: json

record reconciliation_run =
  rec_id :: string
  rec_idempotencyKey :: string
  rec_accountId :: string
  rec_rangeFrom :: int
  rec_rangeTo :: int
  rec_status :: reconciliation_run_status
  rec_criticalCount :: nat
  rec_summary :: json
  rec_error :: "string option"
  rec_requestedByUserId :: "string option"
  rec_createdAt :: int
  rec_completedAt :: "int option"

section \<open>The tables\<close>

record db =
  controls :: "execution_control list"
  policies :: "risk_policy list"
  evidence :: "gate_evidence list"
  audits :: "audit_event list"
  accounts :: "bankroll_account list"
  entries :: "ledger_entry list"
  runs :: "simulation_run list"
  decisions :: "bet_decision list"
  orders :: "bet_order list"
  receipts :: "bet_receipt list"
  recRuns :: "reconciliation_run list"
  recItems :: "(string \<times> reconciliation_item) list"

definition empty_db :: db where
  "empty_db = \<lparr>controls = [], policies = [], evidence = [], audits = [], accounts = [],
     entries = [], runs = [], decisions = [], orders = [], receipts = [], recRuns = [],
     recItems = []\<rparr>"

text \<open>A transaction body; committing keeps the new tables, an exception keeps the old ones.\<close>

type_synonym 'a tx = "db \<Rightarrow> ('a \<times> db) res"

definition commit :: "'a tx \<Rightarrow> db \<Rightarrow> 'a res \<times> db" where
  "commit body d = (case body d of Inl e \<Rightarrow> (Inl e, d) | Inr (x, d') \<Rightarrow> (Inr x, d'))"

lemma commit_simps [simp]:
  "body d = Inl e \<Longrightarrow> commit body d = (Inl e, d)"
  "body d = Inr (x, d') \<Longrightarrow> commit body d = (Inr x, d')"
  by (simp_all add: commit_def)

lemma commit_cases:
  assumes "commit body d = (r, d')"
  obtains (aborted) e where "body d = Inl e" "r = Inl e" "d' = d"
    | (committed) x where "body d = Inr (x, d')" "r = Inr x"
  using assms by (auto simp: commit_def split: sum.splits)

text \<open>A statement whose constraint check fails raises and writes nothing.\<close>

definition checked :: "bool \<Rightarrow> string \<Rightarrow> 'a \<Rightarrow> 'a res" where
  "checked ok what x = (if ok then Inr x else Inl (QueryFailedError what))"

lemma checked_eq_Inr [simp, res_simps]: "(checked ok w x = Inr y) = (ok \<and> x = y)"
  by (auto simp: checked_def)

subsection \<open>Bankroll accounts and ledger entries\<close>

definition find_account :: "string \<Rightarrow> db \<Rightarrow> bankroll_account option" where
  "find_account i d = find_row (\<lambda>a. acc_id a = i) (accounts d)"

definition chk_account :: "bankroll_account \<Rightarrow> bool" where
  "chk_account a = (cents_of (acc_availableBalance a) \<ge> 0 \<and> cents_of (acc_reservedBalance a) \<ge> 0)"

definition insert_account :: "bankroll_account \<Rightarrow> db \<Rightarrow> db res" where
  "insert_account a d =
     checked (chk_account a
              \<and> find_account (acc_id a) d = None
              \<and> find_row (\<lambda>b. acc_mode b = acc_mode a \<and> acc_operatorKey b = acc_operatorKey a
                             \<and> acc_currency b = acc_currency a) (accounts d) = None)
       ''bankroll_accounts'' (d\<lparr>accounts := accounts d @ [a]\<rparr>)"

definition find_entry :: "string \<Rightarrow> db \<Rightarrow> ledger_entry option" where
  "find_entry k d = find_row (\<lambda>e. le_entryKey e = k) (entries d)"

definition chk_entry :: "ledger_entry \<Rightarrow> bool" where
  "chk_entry e = (cents_of (le_availableAfter e) \<ge> 0 \<and> cents_of (le_reservedAfter e) \<ge> 0)"

definition find_order :: "string \<Rightarrow> db \<Rightarrow> bet_order option" where
  "find_order i d = find_row (\<lambda>r. ord_id r = i) (orders d)"

definition insert_entry :: "ledger_entry \<Rightarrow> db \<Rightarrow> db res" where
  "insert_entry e d =
     checked (chk_entry e
              \<and> find_account (le_accountId e) d \<noteq> None
              \<and> (case le_orderId e of None \<Rightarrow> True | Some i \<Rightarrow> find_order i d \<noteq> None)
              \<and> find_entry (le_entryKey e) d = None
              \<and> find_row (\<lambda>x. le_accountId x = le_accountId e
                             \<and> le_accountVersion x = le_accountVersion e) (entries d) = None)
       ''bankroll_ledger_entries'' (d\<lparr>entries := entries d @ [e]\<rparr>)"

fun insert_entries :: "ledger_entry list \<Rightarrow> db \<Rightarrow> db res" where
  "insert_entries [] d = Inr d"
| "insert_entries (e # es) d = bindE (insert_entry e d) (insert_entries es)"

text \<open>
  \<open>UPDATE bankroll_accounts SET ... WHERE id = :id AND version = :version\<close>: the new tables
  with the number of affected rows.
\<close>

definition update_account ::
  "string \<Rightarrow> int \<Rightarrow> string \<Rightarrow> string \<Rightarrow> int \<Rightarrow> int \<Rightarrow> db \<Rightarrow> (nat \<times> db) res" where
  "update_account i v available reserved newVersion now d =
     (let hit = (\<lambda>a. acc_id a = i \<and> acc_version a = v);
          rows = update_rows hit (\<lambda>a. a\<lparr>acc_availableBalance := available,
                    acc_reservedBalance := reserved, acc_version := newVersion,
                    acc_updatedAt := now\<rparr>) (accounts d)
      in checked (list_all chk_account (filter (\<lambda>a. acc_id a = i) rows)) ''bankroll_accounts''
           (affected hit (accounts d), d\<lparr>accounts := rows\<rparr>))"

subsection \<open>Orders, decisions, receipts\<close>

definition opt_cents :: "string option \<Rightarrow> int option" where
  "opt_cents = map_option cents_of"

text \<open>The CHECK constraints of \<open>bet_orders\<close>.\<close>

definition chk_order :: "bet_order \<Rightarrow> bool" where
  "chk_order r =
     (cents_of (ord_requestedStake r) > 0 \<and> ord_minimumOdd r > 1
      \<and> ord_requestedOdd r \<ge> ord_minimumOdd r
      \<and> (case ord_acceptedStake r of None \<Rightarrow> True
         | Some s \<Rightarrow> cents_of s > 0 \<and> cents_of s \<le> cents_of (ord_requestedStake r))
      \<and> (case ord_payout r of None \<Rightarrow> True | Some p \<Rightarrow> cents_of p \<ge> 0)
      \<and> (ord_status r \<in> {Ord_ACCEPTED, Ord_SETTLED} \<longrightarrow>
           ord_externalOrderId r \<noteq> None \<and> ord_acceptedOdd r \<noteq> None
           \<and> ord_acceptedStake r \<noteq> None \<and> ord_acceptedAt r \<noteq> None)
      \<and> (ord_status r = Ord_UNKNOWN \<longrightarrow> ord_unknownSince r \<noteq> None))"

text \<open>The unique indexes: one order per idempotency key, per decision, per external identifier.\<close>

definition same_external :: "bet_order \<Rightarrow> bet_order \<Rightarrow> bool" where
  "same_external a b =
     (ord_operatorKey a = ord_operatorKey b \<and> ord_externalOrderId a \<noteq> None
      \<and> ord_externalOrderId a = ord_externalOrderId b)"

definition insert_order :: "bet_order \<Rightarrow> db \<Rightarrow> db res" where
  "insert_order r d =
     checked (chk_order r
              \<and> find_order (ord_id r) d = None
              \<and> find_account (ord_accountId r) d \<noteq> None
              \<and> find_row (\<lambda>x. ord_idempotencyKey x = ord_idempotencyKey r
                             \<or> ord_decisionId x = ord_decisionId r
                             \<or> same_external x r) (orders d) = None)
       ''bet_orders'' (d\<lparr>orders := orders d @ [r]\<rparr>)"

definition find_decision :: "string \<Rightarrow> db \<Rightarrow> bet_decision option" where
  "find_decision i d = find_row (\<lambda>r. dec_id r = i) (decisions d)"

text \<open>The CHECK constraints of \<open>bet_decisions\<close>.\<close>

definition chk_decision :: "bet_decision \<Rightarrow> bool" where
  "chk_decision r =
     ((case dec_stake r of None \<Rightarrow> True | Some s \<Rightarrow> cents_of s \<ge> 0)
      \<and> (dec_status r = Dec_REJECTED \<longleftrightarrow> dec_rejectionCode r \<noteq> None)
      \<and> (dec_status r \<in> {Dec_ORDER_RESERVED, Dec_COMPLETED} \<longrightarrow>
           dec_decisionOdd r \<noteq> None
           \<and> (case dec_stake r of None \<Rightarrow> False | Some s \<Rightarrow> cents_of s > 0))
      \<and> (dec_status r = Dec_COMPLETED \<longrightarrow>
           dec_outcome r \<noteq> None \<and> dec_profit r \<noteq> None \<and> dec_settledAt r \<noteq> None
           \<and> dec_executableOdd r \<noteq> None))"

definition update_decisions ::
  "(bet_decision \<Rightarrow> bool) \<Rightarrow> (bet_decision \<Rightarrow> bet_decision) \<Rightarrow> db \<Rightarrow> db res" where
  "update_decisions p f d =
     checked (list_all (\<lambda>r. p r \<longrightarrow> chk_decision (f r)) (decisions d)) ''bet_decisions''
       (d\<lparr>decisions := update_rows p f (decisions d)\<rparr>)"

definition insert_receipt :: "bet_receipt \<Rightarrow> db \<Rightarrow> db res" where
  "insert_receipt r d =
     checked (find_order (rcp_orderId r) d \<noteq> None
              \<and> find_row (\<lambda>x. rcp_orderId x = rcp_orderId r
                             \<or> rcp_receiptHash x = rcp_receiptHash r) (receipts d) = None)
       ''bet_receipts'' (d\<lparr>receipts := receipts d @ [r]\<rparr>)"

text \<open>Writing an odd to a \<open>DECIMAL(8,3)\<close> column rounds it to three places, halves away from zero.\<close>

definition store_odd :: "rat \<Rightarrow> rat" where
  "store_odd x = sgn x * (of_int \<lfloor>\<bar>x\<bar> * 1000 + 1 / 2\<rfloor> / 1000)"

lemma store_odd_mono_pos: "0 < x \<Longrightarrow> x \<le> y \<Longrightarrow> store_odd x \<le> store_odd y"
  by (simp add: store_odd_def floor_mono divide_right_mono)

lemma store_odd_millis [simp]: "store_odd (of_int n / 1000) = of_int n / 1000"
proof -
  have "\<lfloor>\<bar>of_int n / 1000 :: rat\<bar> * 1000 + 1 / 2\<rfloor> = \<bar>n\<bar>"
    by (simp add: abs_if floor_eq_iff)
  then show ?thesis
    by (simp add: store_odd_def sgn_if abs_if)
qed

end
