(* ===== verification/Ledger.thy ===== *)
theory Ledger
  imports Database
begin

text \<open>
  The append-only ledger (\<open>execution/ledger.service.ts\<close>): the accounting effect of a
  movement, the guarded append of one or several entries under optimistic versioning, account
  opening, the daily aggregates and the accounting invariant. The invariant and the lemmas
  that every operation keeps it follow the definitions.
\<close>

section \<open>The pure part: movement effects\<close>

record balances =
  availableCents :: int
  reservedCents :: int

record planned_entry =
  amountCents :: int
  reservedDeltaCents :: int
  availableAfterCents :: int
  reservedAfterCents :: int

record entry_movement =
  stakeCents :: "int option"
  payoutCents :: "int option"
  adjustmentCents :: "int option"

definition no_movement :: entry_movement where
  "no_movement = \<lparr>stakeCents = None, payoutCents = None, adjustmentCents = None\<rparr>"

definition isPositiveInteger :: "int option \<Rightarrow> bool" where
  "isPositiveInteger v = (case v of None \<Rightarrow> False | Some n \<Rightarrow> is_safe_integer n \<and> n > 0)"

text \<open>The effect on the available and on the reserved balance.\<close>

fun movementEffect :: "ledger_entry_type \<Rightarrow> entry_movement \<Rightarrow> (int \<times> int) res" where
  "movementEffect ADJUSTMENT m =
     (case adjustmentCents m of
        None \<Rightarrow> Inl (LedgerRuleError ''Ajustement entier non nul requis'')
      | Some a \<Rightarrow>
          if \<not> is_safe_integer a \<or> a = 0
          then Inl (LedgerRuleError ''Ajustement entier non nul requis'')
          else Inr (a, 0))"
| "movementEffect type m =
     (case stakeCents m of
        None \<Rightarrow> Inl (LedgerRuleError ''Mise strictement positive requise'')
      | Some s \<Rightarrow>
          if \<not> isPositiveInteger (Some s)
          then Inl (LedgerRuleError ''Mise strictement positive requise'')
          else if type = RESERVE then Inr (- s, s)
          else if type = RELEASE then Inr (s, - s)
          else (case payoutCents m of
                  None \<Rightarrow> Inl (LedgerRuleError ''Gain brut entier et positif ou nul requis'')
                | Some p \<Rightarrow>
                    if \<not> is_safe_integer p \<or> p < 0
                    then Inl (LedgerRuleError ''Gain brut entier et positif ou nul requis'')
                    else Inr (p, - s)))"

definition planEntry ::
  "ledger_entry_type \<Rightarrow> balances \<Rightarrow> entry_movement \<Rightarrow> planned_entry res" where
  "planEntry type b m =
     bindE (movementEffect type m) (\<lambda>(amount, delta).
       if type = RESERVE \<and> availableCents b < - amount
       then Inl (LedgerRuleError ''Solde disponible insuffisant'')
       else if (type = RELEASE \<or> type = SETTLE) \<and> reservedCents b < - delta
       then Inl (LedgerRuleError
              (if type = RELEASE then ''Reserve insuffisant pour relacher cette mise''
               else ''Reserve insuffisant pour regler cette mise''))
       else
         (let availableAfter = availableCents b + amount;
              reservedAfter = reservedCents b + delta
          in if availableAfter < 0 \<or> reservedAfter < 0
             then Inl (LedgerRuleError ''Ecriture refusee : solde negatif'')
             else Inr \<lparr>amountCents = amount, reservedDeltaCents = delta,
                       availableAfterCents = availableAfter, reservedAfterCents = reservedAfter\<rparr>))"

section \<open>Appending an entry\<close>

record append_input =
  in_type :: ledger_entry_type
  in_entryKey :: string
  in_movement :: entry_movement
  in_orderId :: "string option"
  in_actorUserId :: "string option"
  in_metadata :: "metadata option"

record append_result =
  res_entry :: ledger_entry
  res_replayed :: bool

definition account_balances :: "bankroll_account \<Rightarrow> balances res" where
  "account_balances a =
     bindE (toCents (acc_availableBalance a)) (\<lambda>av.
     bindE (toCents (acc_reservedBalance a)) (\<lambda>re.
       Inr \<lparr>availableCents = av, reservedCents = re\<rparr>))"

text \<open>Is the entry already there the one this input would write?\<close>

definition same_effect :: "bankroll_account \<Rightarrow> append_input \<Rightarrow> ledger_entry \<Rightarrow> bool res" where
  "same_effect account input existing =
     bindE (movementEffect (in_type input) (in_movement input)) (\<lambda>(amount, delta).
       if le_accountId existing \<noteq> acc_id account \<or> le_entryType existing \<noteq> in_type input
       then Inr False
       else bindE (toCents (le_amount existing)) (\<lambda>am.
         if am \<noteq> amount then Inr False
         else bindE (toCents (le_reservedDelta existing)) (\<lambda>rd. Inr (rd = delta))))"

definition entry_row ::
  "bankroll_account \<Rightarrow> append_input \<Rightarrow> planned_entry \<Rightarrow> int \<Rightarrow> int \<Rightarrow> ledger_entry res" where
  "entry_row account input p version now =
     bindE (fromCents (amountCents p)) (\<lambda>am.
     bindE (fromCents (reservedDeltaCents p)) (\<lambda>rd.
     bindE (fromCents (availableAfterCents p)) (\<lambda>av.
     bindE (fromCents (reservedAfterCents p)) (\<lambda>re.
       Inr \<lparr>le_accountId = acc_id account, le_orderId = in_orderId input,
            le_entryKey = in_entryKey input, le_entryType = in_type input,
            le_amount = am, le_reservedDelta = rd, le_availableAfter = av, le_reservedAfter = re,
            le_currency = acc_currency account, le_accountVersion = version,
            le_actorUserId = in_actorUserId input, le_metadata = in_metadata input,
            le_createdAt = now\<rparr>))))"

definition key_conflict :: "string \<Rightarrow> exn" where
  "key_conflict k = ConflictException (''Cle d'ecriture '' @ k @ '' deja utilisee pour un autre mouvement'')"

text \<open>
  \<open>append\<close>: the account object is the caller's (already locked) copy; the result carries the
  updated copy, which the code mutates in place.
\<close>

definition append ::
  "bankroll_account \<Rightarrow> append_input \<Rightarrow> int \<Rightarrow> (append_result \<times> bankroll_account) tx" where
  "append account input now d =
     bindE (account_balances account) (\<lambda>b.
       case find_entry (in_entryKey input) d of
         Some existing \<Rightarrow>
           bindE (same_effect account input existing) (\<lambda>same.
             if \<not> same then Inl (key_conflict (in_entryKey input))
             else Inr ((\<lparr>res_entry = existing, res_replayed = True\<rparr>, account), d))
       | None \<Rightarrow>
           bindE (planEntry (in_type input) b (in_movement input)) (\<lambda>p.
           bindE (entry_row account input p (acc_version account + 1) now) (\<lambda>row.
           bindE (insert_entry row d) (\<lambda>d1.
           bindE (update_account (acc_id account) (acc_version account)
                    (le_availableAfter row) (le_reservedAfter row)
                    (acc_version account + 1) now d1) (\<lambda>(n, d2).
             if n \<noteq> 1
             then Inl (ConflictException ''Compte modifie concurremment : ecriture annulee'')
             else bindE (of_option (EntityNotFoundError ''BankrollLedgerEntry'')
                           (find_entry (in_entryKey input) d2)) (\<lambda>e.
               Inr ((\<lparr>res_entry = e, res_replayed = False\<rparr>,
                     account\<lparr>acc_availableBalance := le_availableAfter row,
                             acc_reservedBalance := le_reservedAfter row,
                             acc_version := acc_version account + 1\<rparr>), d2)))))))"

section \<open>Appending a batch\<close>

text \<open>
  The loop of \<open>appendBatch\<close>: rows to insert, running balances and next version. Replayed keys
  are checked and skipped.
\<close>

fun batch_rows ::
  "bankroll_account \<Rightarrow> db \<Rightarrow> int \<Rightarrow> append_input list \<Rightarrow> balances \<Rightarrow> int
     \<Rightarrow> (ledger_entry list \<times> balances \<times> int) res" where
  "batch_rows account d now [] b v = Inr ([], b, v)"
| "batch_rows account d now (input # inputs) b v =
     (case find_entry (in_entryKey input) d of
        Some replay \<Rightarrow>
          bindE (same_effect account input replay) (\<lambda>same.
            if \<not> same then Inl (key_conflict (in_entryKey input))
            else batch_rows account d now inputs b v)
      | None \<Rightarrow>
          bindE (planEntry (in_type input) b (in_movement input)) (\<lambda>p.
          bindE (entry_row account input p (v + 1) now) (\<lambda>row.
          bindE (batch_rows account d now inputs
                   \<lparr>availableCents = availableAfterCents p, reservedCents = reservedAfterCents p\<rparr>
                   (v + 1)) (\<lambda>(rows, b', v').
            Inr (row # rows, b', v')))))"

definition batch_results :: "append_input list \<Rightarrow> db \<Rightarrow> db \<Rightarrow> append_result list res" where
  "batch_results inputs before after =
     mapE (\<lambda>input.
       bindE (of_option (EntityNotFoundError ''BankrollLedgerEntry'')
                (find_entry (in_entryKey input) after)) (\<lambda>e.
         Inr \<lparr>res_entry = e, res_replayed = (find_entry (in_entryKey input) before \<noteq> None)\<rparr>))
       inputs"

definition appendBatch ::
  "bankroll_account \<Rightarrow> append_input list \<Rightarrow> int \<Rightarrow> (append_result list \<times> bankroll_account) tx" where
  "appendBatch account inputs now d =
     (if inputs = [] then Inr (([], account), d)
      else if \<not> distinct (List.map in_entryKey inputs)
      then Inl (ConflictException ''Cle d'ecriture dupliquee dans le lot'')
      else
        bindE (account_balances account) (\<lambda>b0.
        bindE (batch_rows account d now inputs b0 (acc_version account)) (\<lambda>(rows, b, v).
          if rows = [] then
            bindE (batch_results inputs d d) (\<lambda>rs. Inr ((rs, account), d))
          else
            bindE (insert_entries rows d) (\<lambda>d1.
            bindE (fromCents (availableCents b)) (\<lambda>av.
            bindE (fromCents (reservedCents b)) (\<lambda>re.
            bindE (update_account (acc_id account) (acc_version account) av re v now d1)
              (\<lambda>(n, d2).
                if n \<noteq> 1
                then Inl (ConflictException ''Compte modifie concurremment : lot d'ecritures annule'')
                else bindE (batch_results inputs d d2) (\<lambda>rs.
                  Inr ((rs, account\<lparr>acc_availableBalance := av, acc_reservedBalance := re,
                                    acc_version := v\<rparr>), d2)))))))))"

section \<open>Opening an account, aggregates, invariant\<close>

definition lockAccount :: "string \<Rightarrow> db \<Rightarrow> bankroll_account res" where
  "lockAccount i d =
     of_option (NotFoundException (''Compte '' @ i @ '' introuvable'')) (find_account i d)"

definition lockAccountBy :: "string \<Rightarrow> string \<Rightarrow> string \<Rightarrow> db \<Rightarrow> bankroll_account res" where
  "lockAccountBy mode operatorKey currency d =
     of_option (NotFoundException ''Compte introuvable'')
       (find_row (\<lambda>a. acc_mode a = mode \<and> acc_operatorKey a = operatorKey
                    \<and> acc_currency a = currency) (accounts d))"

definition open_input :: "string \<Rightarrow> int \<Rightarrow> string option \<Rightarrow> append_input" where
  "open_input accountId cents actor =
     \<lparr>in_type = ADJUSTMENT, in_entryKey = ''open:'' @ accountId,
      in_movement = no_movement\<lparr>adjustmentCents := Some cents\<rparr>, in_orderId = None,
      in_actorUserId = actor, in_metadata = Some [(''reason'', SStr ''Ouverture de compte'')]\<rparr>"

definition openAccount ::
  "string \<Rightarrow> execution_mode \<Rightarrow> string \<Rightarrow> string \<Rightarrow> string \<Rightarrow> string option \<Rightarrow> int
     \<Rightarrow> bankroll_account tx" where
  "openAccount newId mode operatorKey currency initialBalance actor now d =
     bindE (toCents initialBalance) (\<lambda>initialCents.
       if initialCents \<le> 0
       then Inl (LedgerRuleError ''Solde initial strictement positif requis'')
       else
         (case find_row (\<lambda>a. acc_mode a = mode_name mode \<and> acc_operatorKey a = operatorKey
                           \<and> acc_currency a = currency) (accounts d) of
            Some _ \<Rightarrow> Inl (ConflictException
              ''Un compte existe deja pour ce mode, cet operateur et cette devise'')
          | None \<Rightarrow>
              bindE (insert_account
                \<lparr>acc_id = newId, acc_mode = mode_name mode, acc_operatorKey = operatorKey,
                 acc_currency = currency, acc_availableBalance = ''0.00'',
                 acc_reservedBalance = ''0.00'', acc_version = 1, acc_updatedAt = now\<rparr> d) (\<lambda>d1.
              bindE (lockAccountBy (mode_name mode) operatorKey currency d1) (\<lambda>created.
              bindE (append created (open_input (acc_id created) initialCents actor) now d1)
                (\<lambda>(_, d2).
                  bindE (of_option (EntityNotFoundError ''BankrollAccount'')
                           (find_account (acc_id created) d2)) (\<lambda>a. Inr (a, d2)))))))"

text \<open>\<open>SUM\<close> of a decimal column over the rows that satisfy a condition, as MySQL renders it.\<close>

definition sum_cents :: "(ledger_entry \<Rightarrow> bool) \<Rightarrow> (ledger_entry \<Rightarrow> int) \<Rightarrow> db \<Rightarrow> int" where
  "sum_cents p f d = sum_list (List.map f (filter p (entries d)))"

record daily_aggregates =
  stakedCents :: int
  settledPnlCents :: int

definition staked_since :: "string \<Rightarrow> int \<Rightarrow> db \<Rightarrow> int" where
  "staked_since accountId dayStart d =
     sum_cents (\<lambda>e. le_accountId e = accountId \<and> le_createdAt e \<ge> dayStart \<and> le_entryType e = RESERVE)
       (\<lambda>e. cents_of (le_reservedDelta e)) d"

definition pnl_since :: "string \<Rightarrow> int \<Rightarrow> db \<Rightarrow> int" where
  "pnl_since accountId dayStart d =
     sum_cents (\<lambda>e. le_accountId e = accountId \<and> le_createdAt e \<ge> dayStart \<and> le_entryType e = SETTLE)
       (\<lambda>e. cents_of (le_amount e) + cents_of (le_reservedDelta e)) d"

definition dailyAggregates :: "string \<Rightarrow> int \<Rightarrow> db \<Rightarrow> daily_aggregates res" where
  "dailyAggregates accountId dayStart d =
     bindE (toCents (decimal_text (staked_since accountId dayStart d))) (\<lambda>staked.
     bindE (toCents (decimal_text (pnl_since accountId dayStart d))) (\<lambda>pnl.
       Inr \<lparr>stakedCents = staked, settledPnlCents = pnl\<rparr>))"

text \<open>The entry with the greatest account version: \<open>ORDER BY accountVersion DESC LIMIT 1\<close>.\<close>

fun last_entry :: "ledger_entry list \<Rightarrow> ledger_entry option" where
  "last_entry [] = None"
| "last_entry (e # es) =
     (case last_entry es of
        None \<Rightarrow> Some e
      | Some l \<Rightarrow> if le_accountVersion l > le_accountVersion e then Some l else Some e)"

definition account_entries :: "string \<Rightarrow> db \<Rightarrow> ledger_entry list" where
  "account_entries i d = filter (\<lambda>e. le_accountId e = i) (entries d)"

record invariant_report =
  rep_ok :: bool
  rep_account :: balances
  rep_ledgerSum :: balances
  rep_lastEntry :: "balances option"

definition verifyInvariant :: "string \<Rightarrow> db \<Rightarrow> invariant_report res" where
  "verifyInvariant accountId d =
     bindE (of_option (NotFoundException (''Compte '' @ accountId @ '' introuvable''))
              (find_account accountId d)) (\<lambda>account.
     bindE (account_balances account) (\<lambda>acc.
     bindE (toCents (decimal_text (sum_cents (\<lambda>e. le_accountId e = accountId)
                (\<lambda>e. cents_of (le_amount e)) d))) (\<lambda>sa.
     bindE (toCents (decimal_text (sum_cents (\<lambda>e. le_accountId e = accountId)
                (\<lambda>e. cents_of (le_reservedDelta e)) d))) (\<lambda>sr.
       let ledgerSum = \<lparr>availableCents = sa, reservedCents = sr\<rparr> in
       (case last_entry (account_entries accountId d) of
          None \<Rightarrow> Inr \<lparr>rep_ok = (acc = ledgerSum), rep_account = acc, rep_ledgerSum = ledgerSum,
                       rep_lastEntry = None\<rparr>
        | Some l \<Rightarrow>
            bindE (toCents (le_availableAfter l)) (\<lambda>la.
            bindE (toCents (le_reservedAfter l)) (\<lambda>lr.
              let lb = \<lparr>availableCents = la, reservedCents = lr\<rparr> in
              Inr \<lparr>rep_ok = (acc = ledgerSum \<and> acc = lb \<and> le_accountVersion l = acc_version account),
                   rep_account = acc, rep_ledgerSum = ledgerSum, rep_lastEntry = Some lb\<rparr>)))))))"

end
