(* ===== verification/LedgerInvariant.thy ===== *)
theory LedgerInvariant
  imports Ledger
begin

text \<open>
  What the ledger keeps true: balances that are exact sums of the entries and never negative,
  entries numbered by account version, keys used once. Every append, single or batched, keeps
  it; the code's own check \<open>verifyInvariant\<close> then always answers yes.
\<close>

section \<open>Facts of the pure part\<close>

lemma movementEffect_safe:
  "movementEffect t m = Inr (a, r) \<Longrightarrow> is_safe_integer a \<and> is_safe_integer r"
  by (cases t)
    (auto simp: is_safe_integer_def isPositiveInteger_def max_safe_integer_def split: option.splits if_splits)

lemma planEntry_facts:
  assumes "planEntry t b m = Inr p"
  shows "movementEffect t m = Inr (amountCents p, reservedDeltaCents p)"
    and "availableAfterCents p = availableCents b + amountCents p"
    and "reservedAfterCents p = reservedCents b + reservedDeltaCents p"
    and "0 \<le> availableAfterCents p" and "0 \<le> reservedAfterCents p"
  using assms
  by (auto simp: planEntry_def bindE_eq_Inr Let_def split: if_splits)

text \<open>A movement between the two balances keeps their sum; only a settlement or an adjustment changes it.\<close>

lemma movementEffect_total:
  "movementEffect t m = Inr (a, r) \<Longrightarrow> t \<in> {RESERVE, RELEASE} \<Longrightarrow> a + r = 0"
  by (cases t) (auto split: option.splits if_splits)

lemma movementEffect_sign:
  "movementEffect RESERVE m = Inr (a, r) \<Longrightarrow> 0 < r"
  "movementEffect RELEASE m = Inr (a, r) \<Longrightarrow> r < 0"
  "movementEffect SETTLE m = Inr (a, r) \<Longrightarrow> r < 0 \<and> 0 \<le> a"
  "movementEffect ADJUSTMENT m = Inr (a, r) \<Longrightarrow> r = 0 \<and> a \<noteq> 0"
  by (auto simp: isPositiveInteger_def split: option.splits if_splits)

lemma movementEffect_stake [simp]:
  "is_safe_integer s \<Longrightarrow> 0 < s \<Longrightarrow> movementEffect RESERVE (no_movement\<lparr>stakeCents := Some s\<rparr>) = Inr (- s, s)"
  "is_safe_integer s \<Longrightarrow> 0 < s \<Longrightarrow> movementEffect RELEASE (no_movement\<lparr>stakeCents := Some s\<rparr>) = Inr (s, - s)"
  by (simp_all add: isPositiveInteger_def no_movement_def)

lemma entry_row_facts:
  assumes "entry_row account input p v now = Inr row"
  shows "le_accountId row = acc_id account" and "le_orderId row = in_orderId input"
    and "le_entryKey row = in_entryKey input" and "le_entryType row = in_type input"
    and "le_accountVersion row = v" and "le_createdAt row = now"
    and "cents_of (le_amount row) = amountCents p"
    and "cents_of (le_reservedDelta row) = reservedDeltaCents p"
    and "le_availableAfter row = decimal_text (availableAfterCents p)"
    and "le_reservedAfter row = decimal_text (reservedAfterCents p)"
    and "is_safe_integer (availableAfterCents p)" and "is_safe_integer (reservedAfterCents p)"
  using assms by (auto simp: entry_row_def bindE_eq_Inr fromCents_Inr_iff)

lemma account_balances_Inr:
  "(account_balances a = Inr b) =
     (toCents (acc_availableBalance a) = Inr (availableCents b)
      \<and> toCents (acc_reservedBalance a) = Inr (reservedCents b))"
  by (auto simp: account_balances_def bindE_eq_Inr)

section \<open>The invariant\<close>

definition canonical :: "string \<Rightarrow> bool" where
  "canonical s = (is_safe_integer (cents_of s) \<and> s = decimal_text (cents_of s))"

definition account_ok :: "bankroll_account \<Rightarrow> ledger_entry list \<Rightarrow> bool" where
  "account_ok a es =
     (canonical (acc_availableBalance a) \<and> canonical (acc_reservedBalance a)
      \<and> 0 \<le> cents_of (acc_availableBalance a) \<and> 0 \<le> cents_of (acc_reservedBalance a)
      \<and> cents_of (acc_availableBalance a) = sum_list (List.map (\<lambda>e. cents_of (le_amount e)) es)
      \<and> cents_of (acc_reservedBalance a) = sum_list (List.map (\<lambda>e. cents_of (le_reservedDelta e)) es)
      \<and> sorted_wrt (<) (List.map le_accountVersion es)
      \<and> (es \<noteq> [] \<longrightarrow> le_accountVersion (last es) = acc_version a
           \<and> le_availableAfter (last es) = acc_availableBalance a
           \<and> le_reservedAfter (last es) = acc_reservedBalance a))"

definition ledger_ok :: "db \<Rightarrow> bool" where
  "ledger_ok d =
     (distinct (List.map acc_id (accounts d)) \<and> distinct (List.map le_entryKey (entries d))
      \<and> list_all (\<lambda>e. le_accountId e \<in> acc_id ` set (accounts d)) (entries d)
      \<and> list_all (\<lambda>a. account_ok a (account_entries (acc_id a) d)) (accounts d))"

text \<open>The caller's copy of a locked row: it may lack the row's last update time.\<close>

definition locked_copy :: "bankroll_account \<Rightarrow> db \<Rightarrow> bool" where
  "locked_copy a d = (\<exists>t. find_account (acc_id a) d = Some (a\<lparr>acc_updatedAt := t\<rparr>))"

lemma lockAccount_copy: "lockAccount i d = Inr a \<Longrightarrow> locked_copy a d \<and> acc_id a = i"
proof -
  assume "lockAccount i d = Inr a"
  then have "find_account i d = Some a" by (simp add: lockAccount_def)
  moreover from this have "acc_id a = i" by (auto simp: find_account_def dest: find_row_SomeD)
  ultimately show ?thesis
    unfolding locked_copy_def by (intro conjI exI [of _ "acc_updatedAt a"]) simp_all
qed

lemma lockAccount_Inr_iff: "(lockAccount i d = Inr a) = (find_account i d = Some a)"
  by (simp add: lockAccount_def)

lemma find_account_in: "find_account i d = Some a \<Longrightarrow> a \<in> set (accounts d) \<and> acc_id a = i"
  by (auto simp: find_account_def dest: find_row_SomeD)

lemma find_account_exists:
  "(find_account i d \<noteq> None) = (i \<in> acc_id ` set (accounts d))"
  by (force simp: find_account_def find_row_None_iff image_iff)

lemma find_account_of_row:
  "distinct (List.map acc_id (accounts d)) \<Longrightarrow> a \<in> set (accounts d) \<Longrightarrow> find_account (acc_id a) d = Some a"
  by (simp add: find_account_def find_row_unique [where k = acc_id])

lemma find_entry_None: "(find_entry k d = None) = (k \<notin> le_entryKey ` set (entries d))"
  by (auto simp: find_entry_def find_row_None_iff)

lemma canonical_decimal_text: "is_safe_integer c \<Longrightarrow> canonical (decimal_text c)"
  by (simp add: canonical_def)

lemma canonical_toCents: "canonical s \<Longrightarrow> toCents s = Inr (cents_of s)"
  by (metis canonical_def toCents_decimal_text)

section \<open>A single append\<close>

text \<open>The two ways an append succeeds.\<close>

lemma append_cases:
  assumes "append account input now d = Inr ((r, a'), d')"
  obtains
    (replayed) e where "find_entry (in_entryKey input) d = Some e"
      "same_effect account input e = Inr True"
      "r = \<lparr>res_entry = e, res_replayed = True\<rparr>" "a' = account" "d' = d"
  | (written) b p row where "find_entry (in_entryKey input) d = None"
      "account_balances account = Inr b"
      "planEntry (in_type input) b (in_movement input) = Inr p"
      "entry_row account input p (acc_version account + 1) now = Inr row"
      "insert_entry row d = Inr (d\<lparr>entries := entries d @ [row]\<rparr>)"
      "affected (\<lambda>a. acc_id a = acc_id account \<and> acc_version a = acc_version account) (accounts d) = 1"
      "d' = d\<lparr>entries := entries d @ [row],
             accounts := update_rows
               (\<lambda>a. acc_id a = acc_id account \<and> acc_version a = acc_version account)
               (\<lambda>a. a\<lparr>acc_availableBalance := le_availableAfter row,
                      acc_reservedBalance := le_reservedAfter row,
                      acc_version := acc_version account + 1, acc_updatedAt := now\<rparr>)
               (accounts d)\<rparr>"
      "r = \<lparr>res_entry = row, res_replayed = False\<rparr>"
      "a' = account\<lparr>acc_availableBalance := le_availableAfter row,
                    acc_reservedBalance := le_reservedAfter row,
                    acc_version := acc_version account + 1\<rparr>"
proof (cases "find_entry (in_entryKey input) d")
  case (Some e)
  with assms show ?thesis
    by (intro replayed [of e])
      (auto simp: append_def bindE_eq_Inr split: if_splits)
next
  case None
  note fresh = None
  with assms obtain b p row d1 n d2 e where s:
    "account_balances account = Inr b"
    "planEntry (in_type input) b (in_movement input) = Inr p"
    "entry_row account input p (acc_version account + 1) now = Inr row"
    "insert_entry row d = Inr d1"
    "update_account (acc_id account) (acc_version account) (le_availableAfter row)
       (le_reservedAfter row) (acc_version account + 1) now d1 = Inr (n, d2)"
    "n = 1" "find_entry (in_entryKey input) d2 = Some e" "d' = d2"
    "r = \<lparr>res_entry = e, res_replayed = False\<rparr>"
    "a' = account\<lparr>acc_availableBalance := le_availableAfter row,
                  acc_reservedBalance := le_reservedAfter row,
                  acc_version := acc_version account + 1\<rparr>"
    by (auto simp: append_def bindE_eq_Inr split: if_splits)
  from s(4) have d1: "d1 = d\<lparr>entries := entries d @ [row]\<rparr>"
    by (simp add: insert_entry_def)
  from s(5) have d2: "d2 = d1\<lparr>accounts := update_rows
      (\<lambda>a. acc_id a = acc_id account \<and> acc_version a = acc_version account)
      (\<lambda>a. a\<lparr>acc_availableBalance := le_availableAfter row,
             acc_reservedBalance := le_reservedAfter row,
             acc_version := acc_version account + 1, acc_updatedAt := now\<rparr>) (accounts d1)\<rparr>"
    and n: "n = affected (\<lambda>a. acc_id a = acc_id account \<and> acc_version a = acc_version account) (accounts d1)"
    by (simp_all add: update_account_def Let_def)
  have "find_entry (in_entryKey input) d2 = Some row"
    using fresh entry_row_facts(3) [OF s(3)] unfolding d2 d1
    by (simp add: find_entry_def find_row_append)
  with s(7) have "e = row" by simp
  show ?thesis
    by (rule written [OF fresh s(1) s(2) s(3)])
      (use s d1 d2 n \<open>e = row\<close> in simp_all)
qed

text \<open>A fresh append leaves the entry it wrote under its key; a replay finds it there.\<close>

lemma append_recorded:
  assumes "append account input now d = Inr ((r, a'), d')"
  shows "find_entry (in_entryKey input) d' = Some (res_entry r)"
  using assms
proof (cases rule: append_cases)
  case (written b p row)
  then show ?thesis
    using entry_row_facts(3) [OF written(4)] by (simp add: find_entry_def find_row_append)
qed simp

lemma append_only:
  assumes "append account input now d = Inr ((r, a'), d')"
  shows "\<exists>new. entries d' = entries d @ new"
  using assms by (cases rule: append_cases) auto

text \<open>Only the accounts and the entries change.\<close>

lemma append_frame [frame_simps]:
  assumes "append account input now d = Inr ((r, a'), d')"
  shows "controls d' = controls d" "policies d' = policies d" "evidence d' = evidence d"
    "audits d' = audits d" "runs d' = runs d" "decisions d' = decisions d"
    "orders d' = orders d" "receipts d' = receipts d" "recRuns d' = recRuns d" "recItems d' = recItems d"
  using assms by (cases rule: append_cases; simp)+

section \<open>Appending keeps the invariant\<close>

lemma ledger_ok_account:
  assumes "ledger_ok d" and "find_account i d = Some a"
  shows "account_ok a (account_entries i d)"
  using assms find_account_in [OF assms(2)] by (auto simp: ledger_ok_def list_all_iff)

lemma locked_copy_ok:
  assumes "ledger_ok d" and "locked_copy a d"
  shows "account_ok a (account_entries (acc_id a) d)"
proof -
  from assms(2) obtain t where "find_account (acc_id a) d = Some (a\<lparr>acc_updatedAt := t\<rparr>)"
    by (auto simp: locked_copy_def)
  then have "account_ok (a\<lparr>acc_updatedAt := t\<rparr>) (account_entries (acc_id a) d)"
    by (rule ledger_ok_account [OF assms(1)])
  then show ?thesis by (simp add: account_ok_def)
qed

text \<open>Appending one entry to a well-kept account.\<close>

lemma account_ok_snoc:
  assumes ok: "account_ok a es"
    and sum: "cents_of (acc_availableBalance a) + cents_of (le_amount row) = av"
      "cents_of (acc_reservedBalance a) + cents_of (le_reservedDelta row) = re"
    and nonneg: "0 \<le> av" "0 \<le> re" "is_safe_integer av" "is_safe_integer re"
    and after: "le_availableAfter row = decimal_text av" "le_reservedAfter row = decimal_text re"
    and version: "le_accountVersion row = acc_version a + 1"
    and new: "acc_availableBalance a' = decimal_text av" "acc_reservedBalance a' = decimal_text re"
      "acc_version a' = acc_version a + 1"
  shows "account_ok a' (es @ [row])"
proof -
  have "le_accountVersion e \<le> acc_version a" if "e \<in> set es" for e
  proof -
    from ok have srt: "sorted_wrt (<) (List.map le_accountVersion es)"
      and lst: "es \<noteq> [] \<longrightarrow> le_accountVersion (last es) = acc_version a"
      by (auto simp: account_ok_def)
    from that obtain xs where "es = xs @ [last es]" and "e = last es \<or> e \<in> set xs"
      by (cases es rule: rev_cases) auto
    with srt lst that show ?thesis
      by (cases es rule: rev_cases) (auto simp: sorted_wrt_append)
  qed
  then have "sorted_wrt (<) (List.map le_accountVersion (es @ [row]))"
    using ok version by (fastforce simp: account_ok_def sorted_wrt_append)
  then show ?thesis
    using assms by (simp add: account_ok_def canonical_decimal_text)
qed

lemma account_entries_snoc:
  "account_entries i (d\<lparr>entries := entries d @ [row], accounts := as\<rparr>)
     = account_entries i d @ (if le_accountId row = i then [row] else [])"
  by (simp add: account_entries_def)

lemma append_keeps_ledger_ok:
  assumes ok: "ledger_ok d" and copy: "locked_copy account d"
    and run: "append account input now d = Inr ((r, a'), d')"
  shows "ledger_ok d' \<and> locked_copy a' d' \<and> acc_id a' = acc_id account"
  using run
proof (cases rule: append_cases)
  case (replayed e)
  with ok copy show ?thesis by simp
next
  case (written b p row)
  note rf = entry_row_facts [OF written(4)] and pf = planEntry_facts [OF written(3)]
  let ?hit = "\<lambda>a. acc_id a = acc_id account \<and> acc_version a = acc_version account"
  let ?f = "\<lambda>a. a\<lparr>acc_availableBalance := le_availableAfter row,
      acc_reservedBalance := le_reservedAfter row,
      acc_version := acc_version account + 1, acc_updatedAt := now\<rparr>"
  have bal: "cents_of (acc_availableBalance account) = availableCents b"
    "cents_of (acc_reservedBalance account) = reservedCents b"
    using written(2) by (auto simp: account_balances_Inr cents_of_toCents)
  have key: "le_entryKey row \<notin> le_entryKey ` set (entries d)"
    using written(1) rf(3) by (simp add: find_entry_None)
  have ids: "List.map acc_id (accounts d') = List.map acc_id (accounts d)"
    using written(7) by (simp add: map_update_rows)
  have own: "account_ok (?f a) (account_entries (acc_id account) d @ [row])" for a
    using locked_copy_ok [OF ok copy] rf pf bal
    by (intro account_ok_snoc [where a = account and av = "availableAfterCents p"
          and re = "reservedAfterCents p"]) simp_all
  have rows: "account_ok a2 (account_entries (acc_id a2) d')" if a2: "a2 \<in> set (accounts d')" for a2
  proof -
    from a2 written(7) obtain a where a: "a \<in> set (accounts d)" "a2 = (if ?hit a then ?f a else a)"
      by (auto simp: set_update_rows)
    show ?thesis
    proof (cases "acc_id a = acc_id account")
      case True
      from ok a(1) True have "find_account (acc_id account) d = Some a"
        by (metis find_account_of_row ledger_ok_def)
      with copy have "acc_version a = acc_version account"
        by (auto simp: locked_copy_def)
      with True a(2) have "a2 = ?f a" by simp
      then show ?thesis
        using own [of a] True rf(1) written(7) by (simp add: account_entries_snoc)
    next
      case False
      with a(2) have "a2 = a" by simp
      moreover have "account_ok a (account_entries (acc_id a) d)"
        using ok a(1) by (auto simp: ledger_ok_def list_all_iff)
      ultimately show ?thesis
        using False rf(1) written(7) by (simp add: account_entries_snoc)
    qed
  qed
  have "locked_copy a' d'"
  proof -
    from copy obtain t where r0: "find_account (acc_id account) d = Some (account\<lparr>acc_updatedAt := t\<rparr>)"
      by (auto simp: locked_copy_def)
    with written(7) have "find_account (acc_id account) d' = Some (?f (account\<lparr>acc_updatedAt := t\<rparr>))"
      by (simp add: find_account_def find_row_update_rows)
    then show ?thesis
      using written(9) unfolding locked_copy_def by (intro exI [of _ now]) simp
  qed
  moreover have "ledger_ok d'"
  proof -
    from ids have idset: "acc_id ` set (accounts d') = acc_id ` set (accounts d)"
      by (metis list.set_map)
    have "acc_id account \<in> acc_id ` set (accounts d)"
      using copy by (auto simp: locked_copy_def dest!: find_account_in intro!: rev_image_eqI)
    moreover have "entries d' = entries d @ [row]" using written(7) by simp
    ultimately show ?thesis
      using ok key rf(1) rows unfolding ledger_ok_def ids idset by (simp add: list_all_iff)
  qed
  ultimately show ?thesis using written(9) by simp
qed

section \<open>The code's own check\<close>

lemma last_entry_last:
  "sorted_wrt (<) (List.map le_accountVersion es) \<Longrightarrow> last_entry es = (if es = [] then None else Some (last es))"
proof (induction es)
  case (Cons e es)
  have "le_accountVersion e < le_accountVersion (last es)" if "es \<noteq> []"
    using Cons.prems that by simp
  with Cons show ?case by auto
qed simp

lemma balances_eqI:
  "availableCents (a::balances) = availableCents b \<Longrightarrow> reservedCents a = reservedCents b \<Longrightarrow> a = b"
  by simp

lemma verifyInvariant_ok:
  assumes ok: "ledger_ok d" and acc: "find_account i d = Some a"
  shows "\<exists>rep. verifyInvariant i d = Inr rep \<and> rep_ok rep"
proof -
  let ?es = "account_entries i d"
  have aok: "account_ok a ?es" by (rule ledger_ok_account [OF ok acc])
  let ?av = "cents_of (acc_availableBalance a)" and ?re = "cents_of (acc_reservedBalance a)"
  from aok have c: "canonical (acc_availableBalance a)" "canonical (acc_reservedBalance a)"
    by (auto simp: account_ok_def)
  have t: "toCents (acc_availableBalance a) = Inr ?av" "toCents (acc_reservedBalance a) = Inr ?re"
    using c by (simp_all add: canonical_toCents)
  have s: "sum_cents (\<lambda>e. le_accountId e = i) (\<lambda>e. cents_of (le_amount e)) d = ?av"
    "sum_cents (\<lambda>e. le_accountId e = i) (\<lambda>e. cents_of (le_reservedDelta e)) d = ?re"
    using aok by (simp_all add: sum_cents_def account_ok_def account_entries_def)
  have d: "toCents (decimal_text ?av) = Inr ?av" "toCents (decimal_text ?re) = Inr ?re"
    using t c by (simp_all add: canonical_def)
  have srt: "last_entry ?es = (if ?es = [] then None else Some (last ?es))"
    using aok by (intro last_entry_last) (simp add: account_ok_def)
  have l: "?es \<noteq> [] \<Longrightarrow> le_accountVersion (last ?es) = acc_version a
      \<and> le_availableAfter (last ?es) = acc_availableBalance a
      \<and> le_reservedAfter (last ?es) = acc_reservedBalance a"
    using aok by (simp add: account_ok_def)
  show ?thesis
    by (cases "?es = []")
      (simp_all add: verifyInvariant_def acc account_balances_def s d srt t l Let_def)
qed

section \<open>Appending a batch is appending one after the other\<close>

fun append_all ::
  "bankroll_account \<Rightarrow> append_input list \<Rightarrow> int \<Rightarrow> (append_result list \<times> bankroll_account) tx" where
  "append_all a [] now d = Inr (([], a), d)"
| "append_all a (i # is) now d =
     bindE (append a i now d) (\<lambda>((r, a1), d1).
     bindE (append_all a1 is now d1) (\<lambda>((rs, a2), d2). Inr ((r # rs, a2), d2)))"

lemma append_find_entry_mono:
  assumes "append a i now d = Inr ((r, a'), d')"
  shows "find_entry k d = Some e \<Longrightarrow> find_entry k d' = Some e"
    and "k \<noteq> in_entryKey i \<Longrightarrow> find_entry k d' = find_entry k d"
  using assms
  by (cases rule: append_cases;
      force simp: find_entry_def find_row_append entry_row_facts(3) split: option.splits)+

lemma append_replayed_iff:
  "append a i now d = Inr ((r, a'), d') \<Longrightarrow> res_replayed r = (find_entry (in_entryKey i) d \<noteq> None)"
  by (erule append_cases) simp_all

lemma append_all_find_entry_mono:
  "append_all a is now d = Inr ((rs, a'), d') \<Longrightarrow> find_entry k d = Some e \<Longrightarrow> find_entry k d' = Some e"
  by (induction "is" arbitrary: a d rs)
    (auto simp: bindE_eq_Inr split: prod.splits dest: append_find_entry_mono(1))

lemma batch_results_Cons:
  "find_entry (in_entryKey i) d' = Some (res_entry r) \<Longrightarrow> res_replayed r = (find_entry (in_entryKey i) d \<noteq> None)
    \<Longrightarrow> batch_results is d d' = Inr rs \<Longrightarrow> batch_results (i # is) d d' = Inr (r # rs)"
  unfolding batch_results_def mapE.simps by (cases r) (simp del: not_None_eq)

lemma batch_results_append_all:
  assumes "append_all a is now d = Inr ((rs, a'), d')" and "distinct (List.map in_entryKey is)"
  shows "batch_results is d d' = Inr rs"
  using assms
proof (induction "is" arbitrary: a d rs)
  case Nil
  then show ?case by (simp add: batch_results_def)
next
  case (Cons i "is")
  then obtain r a1 d1 rs1 where step: "append a i now d = Inr ((r, a1), d1)"
    "append_all a1 is now d1 = Inr ((rs1, a'), d')" "rs = r # rs1"
    by (auto simp: bindE_eq_Inr split: prod.splits)
  have "batch_results is d1 d' = Inr rs1"
    using Cons.IH [OF step(2)] Cons.prems(2) by simp
  moreover have "batch_results is d1 d' = batch_results is d d'"
  proof -
    have "find_entry (in_entryKey j) d1 = find_entry (in_entryKey j) d" if "j \<in> set is" for j
    proof (rule append_find_entry_mono(2) [OF step(1)])
      show "in_entryKey j \<noteq> in_entryKey i"
        using Cons.prems(2) that by (auto simp: image_iff)
    qed
    then show ?thesis
      unfolding batch_results_def by (intro mapE_cong) simp_all
  qed
  moreover have "find_entry (in_entryKey i) d' = Some (res_entry r)"
    by (rule append_all_find_entry_mono [OF step(2) append_recorded [OF step(1)]])
  ultimately show ?case
    using batch_results_Cons append_replayed_iff [OF step(1)] step(3) by metis
qed

lemma append_all_keeps_ledger_ok:
  "append_all a is now d = Inr ((rs, a'), d') \<Longrightarrow> ledger_ok d \<Longrightarrow> locked_copy a d
    \<Longrightarrow> ledger_ok d' \<and> locked_copy a' d'"
  by (induction "is" arbitrary: a d rs)
    (auto simp: bindE_eq_Inr split: prod.splits dest: append_keeps_ledger_ok)

subsection \<open>The batched update is the composition of the single ones\<close>

definition set_balances ::
  "string \<Rightarrow> string \<Rightarrow> string \<Rightarrow> int \<Rightarrow> int \<Rightarrow> bankroll_account list \<Rightarrow> bankroll_account list" where
  "set_balances i av re v now =
     update_rows (\<lambda>x. acc_id x = i)
       (\<lambda>x. x\<lparr>acc_availableBalance := av, acc_reservedBalance := re, acc_version := v,
              acc_updatedAt := now\<rparr>)"

lemma set_balances_twice [simp]:
  "set_balances i av' re' v' now (set_balances i av re v now0 as) = set_balances i av' re' v' now as"
  by (induction as) (simp_all add: set_balances_def)

lemma set_balances_ids [simp]: "List.map acc_id (set_balances i av re v now as) = List.map acc_id as"
  by (simp add: set_balances_def map_update_rows)

text \<open>On a locked row the condition on the version adds nothing to the one on the identifier.\<close>

lemma locked_hit:
  assumes "ledger_ok d" and "locked_copy a d"
  shows "update_rows (\<lambda>x. acc_id x = acc_id a \<and> acc_version x = acc_version a) f (accounts d)
      = update_rows (\<lambda>x. acc_id x = acc_id a) f (accounts d)"
    and "affected (\<lambda>x. acc_id x = acc_id a \<and> acc_version x = acc_version a) (accounts d) = 1"
proof -
  from assms(2) obtain t where t: "find_account (acc_id a) d = Some (a\<lparr>acc_updatedAt := t\<rparr>)"
    by (auto simp: locked_copy_def)
  have dist: "distinct (List.map acc_id (accounts d))"
    using assms(1) by (simp add: ledger_ok_def)
  have v: "acc_version x = acc_version a" if "x \<in> set (accounts d)" "acc_id x = acc_id a" for x
  proof -
    have "x = a\<lparr>acc_updatedAt := t\<rparr>"
      using find_account_of_row [OF dist that(1)] that(2) t by simp
    then show ?thesis by simp
  qed
  then show "update_rows (\<lambda>x. acc_id x = acc_id a \<and> acc_version x = acc_version a) f (accounts d)
      = update_rows (\<lambda>x. acc_id x = acc_id a) f (accounts d)"
    by (auto simp: update_rows_def)
  show "affected (\<lambda>x. acc_id x = acc_id a \<and> acc_version x = acc_version a) (accounts d) = 1"
    by (rule affected_unique [OF dist, of "a\<lparr>acc_updatedAt := t\<rparr>"])
      (use find_account_in [OF t] in simp_all)
qed

lemma chk_set_balances:
  assumes "0 \<le> x" "0 \<le> y" "is_safe_integer x" "is_safe_integer y"
  shows "list_all chk_account (filter (\<lambda>a. acc_id a = i)
     (set_balances i (decimal_text x) (decimal_text y) v now as))"
  by (induction as) (simp_all add: set_balances_def chk_account_def assms)

lemma update_account_locked:
  assumes "ledger_ok d" and "locked_copy a d"
    and "0 \<le> x" "0 \<le> y" "is_safe_integer x" "is_safe_integer y"
    and "accounts d1 = accounts d"
  shows "update_account (acc_id a) (acc_version a) (decimal_text x) (decimal_text y) v now d1
    = Inr (1, d1\<lparr>accounts := set_balances (acc_id a) (decimal_text x) (decimal_text y) v now (accounts d)\<rparr>)"
  using chk_set_balances [OF assms(3-6), of "acc_id a" v now "accounts d"]
  by (simp add: update_account_def Let_def locked_hit [OF assms(1,2)] assms(7)
      set_balances_def [symmetric])

lemma append_succeeds:
  assumes ok: "ledger_ok d" "locked_copy a d"
    and fresh: "find_entry (in_entryKey i) d = None"
    and run: "account_balances a = Inr b" "planEntry (in_type i) b (in_movement i) = Inr p"
      "entry_row a i p (acc_version a + 1) now = Inr row" "insert_entry row d = Inr d1"
  shows "append a i now d =
    Inr ((\<lparr>res_entry = row, res_replayed = False\<rparr>,
          a\<lparr>acc_availableBalance := le_availableAfter row, acc_reservedBalance := le_reservedAfter row,
             acc_version := acc_version a + 1\<rparr>),
         d\<lparr>entries := entries d @ [row],
            accounts := set_balances (acc_id a) (le_availableAfter row) (le_reservedAfter row)
              (acc_version a + 1) now (accounts d)\<rparr>)"
proof -
  note rf = entry_row_facts [OF run(3)] and pf = planEntry_facts [OF run(2)]
  from run(4) have d1: "d1 = d\<lparr>entries := entries d @ [row]\<rparr>" by (simp add: insert_entry_def)
  have upd: "update_account (acc_id a) (acc_version a) (le_availableAfter row) (le_reservedAfter row)
      (acc_version a + 1) now d1 = Inr (1, d1\<lparr>accounts := set_balances (acc_id a)
        (le_availableAfter row) (le_reservedAfter row) (acc_version a + 1) now (accounts d)\<rparr>)"
    unfolding rf(9,10)
    by (rule update_account_locked [OF ok]) (use rf pf d1 in simp_all)
  have "find_entry (in_entryKey i) (d1\<lparr>accounts := as\<rparr>) = Some row" for as
    using fresh rf(3) unfolding d1 by (simp add: find_entry_def find_row_append)
  then show ?thesis
    unfolding append_def run(1) fresh bindE_Inr option.case run(2,3,4) upd
    by (simp add: d1)
qed

lemma insert_entries_eq:
  "insert_entries rows d = Inr d1 \<Longrightarrow> d1 = d\<lparr>entries := entries d @ rows\<rparr>"
proof (induction rows arbitrary: d)
  case (Cons row rows)
  then obtain d2 where d2: "insert_entry row d = Inr d2" "insert_entries rows d2 = Inr d1"
    by (auto simp: bindE_eq_Inr)
  have "d2 = d\<lparr>entries := entries d @ [row]\<rparr>" using d2(1) by (simp add: insert_entry_def)
  with Cons.IH [OF d2(2)] show ?case by simp
qed simp

lemma insert_entry_accounts:
  assumes "insert_entry row d = Inr d1" and "acc_id ` set as = acc_id ` set (accounts d)"
  shows "insert_entry row (d\<lparr>accounts := as\<rparr>) = Inr (d1\<lparr>accounts := as\<rparr>)"
proof -
  have "(find_account i (d\<lparr>accounts := as\<rparr>) \<noteq> None) = (find_account i d \<noteq> None)" for i
    using assms(2) find_account_exists [of i d] find_account_exists [of i "d\<lparr>accounts := as\<rparr>"]
    by (simp del: not_None_eq)
  then show ?thesis
    using assms(1) unfolding insert_entry_def
    by (cases "le_orderId row") (auto simp: find_entry_def find_order_def simp del: not_None_eq)
qed

lemma insert_entries_accounts:
  "insert_entries rows d = Inr d1 \<Longrightarrow> acc_id ` set as = acc_id ` set (accounts d)
    \<Longrightarrow> insert_entries rows (d\<lparr>accounts := as\<rparr>) = Inr (d1\<lparr>accounts := as\<rparr>)"
proof (induction rows arbitrary: d)
  case (Cons row rows)
  then obtain d2 where d2: "insert_entry row d = Inr d2" "insert_entries rows d2 = Inr d1"
    by (auto simp: bindE_eq_Inr)
  have "accounts d2 = accounts d" using d2(1) by (auto simp: insert_entry_def)
  with Cons.IH [OF d2(2)] Cons.prems(2) insert_entry_accounts [OF d2(1) Cons.prems(2)]
  show ?case by simp
qed simp

lemma entry_row_cong:
  "acc_id a = acc_id b \<Longrightarrow> acc_currency a = acc_currency b \<Longrightarrow> entry_row a i p v now = entry_row b i p v now"
  by (simp add: entry_row_def)

lemma same_effect_cong: "acc_id a = acc_id b \<Longrightarrow> same_effect a i e = same_effect b i e"
  by (simp add: same_effect_def)

text \<open>The account copy and the tables after a batch that wrote some rows.\<close>

definition after_batch_account :: "bankroll_account \<Rightarrow> ledger_entry list \<Rightarrow> balances \<Rightarrow> int \<Rightarrow> bankroll_account" where
  "after_batch_account a rows b v =
     (if rows = [] then a
      else a\<lparr>acc_availableBalance := decimal_text (availableCents b),
             acc_reservedBalance := decimal_text (reservedCents b), acc_version := v\<rparr>)"

definition after_batch_db ::
  "string \<Rightarrow> ledger_entry list \<Rightarrow> balances \<Rightarrow> int \<Rightarrow> int \<Rightarrow> db \<Rightarrow> db" where
  "after_batch_db i rows b v now d =
     (if rows = [] then d
      else d\<lparr>entries := entries d @ rows,
             accounts := set_balances i (decimal_text (availableCents b))
               (decimal_text (reservedCents b)) v now (accounts d)\<rparr>)"

lemma batch_rows_Nil:
  "rows = [] \<Longrightarrow> batch_rows account d now is b v = Inr (rows, b', v') \<Longrightarrow> b' = b \<and> v' = v"
  by (induction "is" arbitrary: b v) (auto simp: bindE_eq_Inr split: option.splits if_splits)

lemma batch_rows_append_all:
  assumes "batch_rows account d now is b v = Inr (rows, b', v')"
    and "insert_entries rows s = Inr s1" and "ledger_ok s" and "locked_copy a s"
    and "acc_id a = acc_id account" and "acc_currency a = acc_currency account"
    and "account_balances a = Inr b" and "acc_version a = v"
    and "distinct (List.map in_entryKey is)"
    and "\<forall>i \<in> set is. find_entry (in_entryKey i) s = find_entry (in_entryKey i) d"
  shows "\<exists>rs. append_all a is now s
    = Inr ((rs, after_batch_account a rows b' v'), after_batch_db (acc_id a) rows b' v' now s)"
  using assms
proof (induction "is" arbitrary: b v rows s a s1)
  case Nil
  then show ?case by (simp add: after_batch_account_def after_batch_db_def)
next
  case (Cons i "is")
  note prems = Cons.prems
  have key: "find_entry (in_entryKey i) s = find_entry (in_entryKey i) d" using prems(10) by simp
  show ?case
  proof (cases "find_entry (in_entryKey i) d")
    case (Some e)
    then have e: "same_effect account i e = Inr True"
      "batch_rows account d now is b v = Inr (rows, b', v')"
      using prems(1) by (auto simp: bindE_eq_Inr split: if_splits)
    have "append a i now s = Inr ((\<lparr>res_entry = e, res_replayed = True\<rparr>, a), s)"
      using Some key e(1) prems(7) same_effect_cong [OF prems(5)] by (simp add: append_def)
    moreover obtain rs where "append_all a is now s
        = Inr ((rs, after_batch_account a rows b' v'), after_batch_db (acc_id a) rows b' v' now s)"
      using Cons.IH [OF e(2) prems(2-8)] prems(9,10) by auto
    ultimately show ?thesis by simp
  next
    case None
    with prems(1) obtain p row rows1 where step:
      "planEntry (in_type i) b (in_movement i) = Inr p"
      "entry_row account i p (v + 1) now = Inr row"
      "batch_rows account d now is \<lparr>availableCents = availableAfterCents p,
         reservedCents = reservedAfterCents p\<rparr> (v + 1) = Inr (rows1, b', v')"
      "rows = row # rows1"
      by (auto simp: bindE_eq_Inr)
    note rf = entry_row_facts [OF step(2)]
    from prems(2) step(4) obtain s2 where s2: "insert_entry row s = Inr s2"
      "insert_entries rows1 s2 = Inr s1" by (auto simp: bindE_eq_Inr)
    have s2': "s2 = s\<lparr>entries := entries s @ [row]\<rparr>" using s2(1) by (simp add: insert_entry_def)
    let ?av = "decimal_text (availableAfterCents p)" and ?re = "decimal_text (reservedAfterCents p)"
    let ?a1 = "a\<lparr>acc_availableBalance := ?av, acc_reservedBalance := ?re, acc_version := v + 1\<rparr>"
    let ?as = "set_balances (acc_id a) ?av ?re (v + 1) now (accounts s)"
    let ?s1 = "s2\<lparr>accounts := ?as\<rparr>"
    have run: "append a i now s = Inr ((\<lparr>res_entry = row, res_replayed = False\<rparr>, ?a1), ?s1)"
      using append_succeeds [OF prems(3,4) _ prems(7) step(1) _ s2(1)] None key
        entry_row_cong [OF prems(5,6)] step(2) prems(8) rf(9,10) s2'
      by simp
    have keep: "ledger_ok ?s1" "locked_copy ?a1 ?s1"
      using append_keeps_ledger_ok [OF prems(3,4) run] by auto
    have ids: "acc_id ` set ?as = acc_id ` set (accounts s2)"
      unfolding list.set_map [symmetric] s2' by simp
    have ins: "insert_entries rows1 ?s1 = Inr (s1\<lparr>accounts := ?as\<rparr>)"
      by (rule insert_entries_accounts [OF s2(2) ids])
    have bal: "account_balances ?a1 = Inr \<lparr>availableCents = availableAfterCents p,
         reservedCents = reservedAfterCents p\<rparr>"
      using rf(11,12) by (simp add: account_balances_Inr toCents_decimal_text)
    have keys: "\<forall>j \<in> set is. find_entry (in_entryKey j) ?s1 = find_entry (in_entryKey j) d"
    proof
      fix j assume j: "j \<in> set is"
      then have "in_entryKey j \<noteq> in_entryKey i" using prems(9) by (auto simp: image_iff)
      then show "find_entry (in_entryKey j) ?s1 = find_entry (in_entryKey j) d"
        using append_find_entry_mono(2) [OF run] prems(10) j by simp
    qed
    obtain rs where rs: "append_all ?a1 is now ?s1
        = Inr ((rs, after_batch_account ?a1 rows1 b' v'), after_batch_db (acc_id ?a1) rows1 b' v' now ?s1)"
      using Cons.IH [OF step(3) ins keep _ _ bal _ _ keys] prems(5,6,9) by auto
    have fin: "rows1 = [] \<Longrightarrow> availableAfterCents p = availableCents b' \<and> reservedAfterCents p = reservedCents b' \<and> v + 1 = v'"
      using batch_rows_Nil [OF _ step(3)] by auto
    have "after_batch_account ?a1 rows1 b' v' = after_batch_account a rows b' v'"
      using fin step(4) by (auto simp: after_batch_account_def)
    moreover have "after_batch_db (acc_id ?a1) rows1 b' v' now ?s1 = after_batch_db (acc_id a) rows b' v' now s"
      using fin step(4) s2' by (auto simp: after_batch_db_def)
    ultimately show ?thesis using run rs by simp
  qed
qed

text \<open>A successful batch is the sequence of single appends, with the same results and tables.\<close>

lemma appendBatch_append_all:
  assumes ok: "ledger_ok d" "locked_copy a d"
    and run: "appendBatch a inputs now d = Inr ((rs, a'), d')"
  shows "append_all a inputs now d = Inr ((rs, a'), d')"
proof (cases "inputs = []")
  case True
  with run show ?thesis by (simp add: appendBatch_def)
next
  case False
  with run have dist: "distinct (List.map in_entryKey inputs)"
    by (auto simp: appendBatch_def split: if_splits)
  from run False dist obtain b0 rows b v where batch:
    "account_balances a = Inr b0" "batch_rows a d now inputs b0 (acc_version a) = Inr (rows, b, v)"
    and rest: "if rows = [] then bindE (batch_results inputs d d) (\<lambda>rs. Inr ((rs, a), d)) = Inr ((rs, a'), d')
      else bindE (insert_entries rows d) (\<lambda>d1. bindE (fromCents (availableCents b)) (\<lambda>av.
        bindE (fromCents (reservedCents b)) (\<lambda>re.
        bindE (update_account (acc_id a) (acc_version a) av re v now d1) (\<lambda>(n, d2).
          if n \<noteq> 1 then Inl (ConflictException ''Compte modifie concurremment : lot d'ecritures annule'')
          else bindE (batch_results inputs d d2) (\<lambda>rs. Inr ((rs, a\<lparr>acc_availableBalance := av,
            acc_reservedBalance := re, acc_version := v\<rparr>), d2)))))) = Inr ((rs, a'), d')"
    by (auto simp: appendBatch_def bindE_eq_Inr split: if_splits)
  obtain s1 where ins: "insert_entries rows d = Inr s1"
    using rest by (cases "rows = []") (auto simp: bindE_eq_Inr)
  obtain rs1 where seq: "append_all a inputs now d
      = Inr ((rs1, after_batch_account a rows b v), after_batch_db (acc_id a) rows b v now d)"
    using batch_rows_append_all [OF batch(2) ins ok _ _ batch(1) _ dist] by auto
  have res: "batch_results inputs d (after_batch_db (acc_id a) rows b v now d) = Inr rs1"
    by (rule batch_results_append_all [OF seq dist])
  show ?thesis
  proof (cases "rows = []")
    case True
    with rest seq res show ?thesis
      by (auto simp: bindE_eq_Inr after_batch_account_def after_batch_db_def)
  next
    case False
    with rest ins obtain av re n d2 rs2 where
      upd: "fromCents (availableCents b) = Inr av" "fromCents (reservedCents b) = Inr re"
        "update_account (acc_id a) (acc_version a) av re v now s1 = Inr (n, d2)"
        "batch_results inputs d d2 = Inr rs2" "rs = rs2" "d' = d2"
        "a' = a\<lparr>acc_availableBalance := av, acc_reservedBalance := re, acc_version := v\<rparr>"
      by (auto simp: bindE_eq_Inr split: if_splits)
    have s1: "s1 = d\<lparr>entries := entries d @ rows\<rparr>" by (rule insert_entries_eq [OF ins])
    have texts: "av = decimal_text (availableCents b)" "re = decimal_text (reservedCents b)"
      using upd(1,2) by (simp_all add: fromCents_Inr_iff)
    have "d2 = after_batch_db (acc_id a) rows b v now d"
      using upd(3) False s1 texts
      by (simp add: update_account_def Let_def locked_hit [OF ok] after_batch_db_def set_balances_def)
    then show ?thesis
      using seq res upd False texts by (simp add: after_batch_account_def)
  qed
qed

lemma appendBatch_keeps_ledger_ok:
  "ledger_ok d \<Longrightarrow> locked_copy a d \<Longrightarrow> appendBatch a inputs now d = Inr ((rs, a'), d')
    \<Longrightarrow> ledger_ok d' \<and> locked_copy a' d'"
  by (blast dest: appendBatch_append_all append_all_keeps_ledger_ok)

section \<open>Opening an account\<close>

lemma decimal_text_0: "decimal_text 0 = ''0.00''"
  by code_simp

lemma insert_account_keeps_ledger_ok:
  assumes ok: "ledger_ok d" and ins: "insert_account a d = Inr d'"
    and zero: "acc_availableBalance a = ''0.00''" "acc_reservedBalance a = ''0.00''"
  shows "ledger_ok d' \<and> find_account (acc_id a) d' = Some a"
proof -
  from ins have d': "d' = d\<lparr>accounts := accounts d @ [a]\<rparr>" and fresh: "find_account (acc_id a) d = None"
    by (auto simp: insert_account_def)
  have new: "acc_id a \<notin> acc_id ` set (accounts d)"
    using fresh find_account_exists [of "acc_id a" d] by auto
  have "account_entries (acc_id a) d = []"
    unfolding account_entries_def filter_empty_conv
    using ok new by (metis ledger_ok_def list_all_iff)
  moreover have "is_safe_integer 0" by (simp add: is_safe_integer_def max_safe_integer_def)
  ultimately have "account_ok a (account_entries (acc_id a) d)"
    using zero canonical_decimal_text [of 0] cents_of_decimal_text [of 0]
    by (simp add: account_ok_def decimal_text_0)
  then show ?thesis
    using ok new d' fresh
    by (auto simp: ledger_ok_def list_all_iff account_entries_def find_account_def find_row_append)
qed

lemma openAccount_ok:
  assumes ok: "ledger_ok d"
    and run: "openAccount newId mode operatorKey currency initial actor now d = Inr (a, d')"
  shows "ledger_ok d'" and "find_account newId d' = Some a"
    and "toCents (acc_availableBalance a) = toCents initial" and "0 < cents_of initial"
    and "acc_reservedBalance a = ''0.00''" and "acc_version a = 2"
    and "find_entry (''open:'' @ newId) d' \<noteq> None"
proof -
  let ?a0 = "\<lparr>acc_id = newId, acc_mode = mode_name mode, acc_operatorKey = operatorKey,
    acc_currency = currency, acc_availableBalance = ''0.00'', acc_reservedBalance = ''0.00'',
    acc_version = 1, acc_updatedAt = now\<rparr>"
  let ?same = "\<lambda>a. acc_mode a = mode_name mode \<and> acc_operatorKey a = operatorKey \<and> acc_currency a = currency"
  from run obtain c d1 created r a1 where s: "toCents initial = Inr c" "0 < c"
    "find_row ?same (accounts d) = None" "insert_account ?a0 d = Inr d1"
    "lockAccountBy (mode_name mode) operatorKey currency d1 = Inr created"
    "append created (open_input (acc_id created) c actor) now d1 = Inr ((r, a1), d')"
    "find_account (acc_id created) d' = Some a"
    by (auto simp: openAccount_def bindE_eq_Inr split: if_splits option.splits)
  have ok1: "ledger_ok d1" and f1: "find_account newId d1 = Some ?a0"
    using insert_account_keeps_ledger_ok [OF ok s(4)] by simp_all
  have "d1 = d\<lparr>accounts := accounts d @ [?a0]\<rparr>" using s(4) by (simp add: insert_account_def)
  then have created: "created = ?a0"
    using s(3,5) by (simp add: lockAccountBy_def find_row_append)
  have copy: "locked_copy ?a0 d1"
    using f1 unfolding locked_copy_def by (intro exI [of _ now]) simp
  note run1 = s(6) [unfolded created]
  show "ledger_ok d'" using append_keeps_ledger_ok [OF ok1 copy run1] by simp
  show "find_account newId d' = Some a" using s(7) created by simp
  have a1: "locked_copy a1 d'" "acc_id a1 = newId"
    using append_keeps_ledger_ok [OF ok1 copy run1] by simp_all
  then obtain t where a: "a = a1\<lparr>acc_updatedAt := t\<rparr>"
    using s(7) created by (auto simp: locked_copy_def)
  show "find_entry (''open:'' @ newId) d' \<noteq> None"
    using append_recorded [OF run1] by (simp add: open_input_def)
  show "0 < cents_of initial" using s(1,2) by (simp add: cents_of_def)
  from run1 have "toCents (acc_availableBalance a1) = Inr c \<and> acc_reservedBalance a1 = ''0.00'' \<and> acc_version a1 = 2"
  proof (cases rule: append_cases)
    case (replayed e)
    from replayed(1) have "e \<in> set (entries d)"
      using s(4) by (auto simp: insert_account_def find_entry_def dest: find_row_SomeD)
    then have "le_accountId e \<in> acc_id ` set (accounts d)"
      using ok by (auto simp: ledger_ok_def list_all_iff)
    moreover have "le_accountId e = newId"
      using replayed(2) by (auto simp: same_effect_def bindE_eq_Inr split: if_splits)
    moreover have "find_account newId d = None"
      using s(4) by (simp add: insert_account_def)
    ultimately show ?thesis
      using find_account_exists [of newId d] by simp
  next
    case (written b p row)
    have b: "availableCents b = 0" "reservedCents b = 0"
      using written(2) toCents_decimal_text [of 0]
      by (auto simp: account_balances_Inr decimal_text_0 is_safe_integer_def max_safe_integer_def)
    have p: "amountCents p = c" "reservedDeltaCents p = 0"
      using planEntry_facts(1) [OF written(3)]
      by (auto simp: open_input_def no_movement_def split: if_splits)
    note rf = entry_row_facts [OF written(4)] and pf = planEntry_facts [OF written(3)]
    show ?thesis
      using written(9) rf pf b p toCents_safe [OF s(1)]
      by (simp add: toCents_decimal_text decimal_text_0)
  qed
  then show "toCents (acc_availableBalance a) = toCents initial" "acc_reservedBalance a = ''0.00''"
    "acc_version a = 2"
    using a s(1) by simp_all
qed

section \<open>The contract of an idempotent journal\<close>

text \<open>
  What the risk engine, the order pipeline and the reconciliation rely on: recording under a
  key writes at most one entry, leaves the old ones in place, and recording the same key again
  writes nothing. The laws are stated for any journal; the client's lemmas follow from them.
\<close>

locale idempotent_journal =
  fixes record_op :: "'inp \<Rightarrow> 'st \<Rightarrow> ('ent \<times> 'st) res"
    and key_of :: "'inp \<Rightarrow> 'key"
    and lookup :: "'key \<Rightarrow> 'st \<Rightarrow> 'ent option"
    and log :: "'st \<Rightarrow> 'ent list"
    and inv :: "'st \<Rightarrow> bool"
  assumes recorded: "inv s \<Longrightarrow> record_op i s = Inr (e, s') \<Longrightarrow> lookup (key_of i) s' = Some e"
    and replay: "inv s \<Longrightarrow> lookup (key_of i) s = Some e \<Longrightarrow> record_op i s = Inr (e', s') \<Longrightarrow> s' = s \<and> e' = e"
    and appended: "inv s \<Longrightarrow> lookup (key_of i) s = None \<Longrightarrow> record_op i s = Inr (e, s') \<Longrightarrow> log s' = log s @ [e]"
    and other_keys: "inv s \<Longrightarrow> record_op i s = Inr (e, s') \<Longrightarrow> k \<noteq> key_of i \<Longrightarrow> lookup k s' = lookup k s"
    and keeps: "inv s \<Longrightarrow> record_op i s = Inr (e, s') \<Longrightarrow> inv s'"
begin

fun record_all :: "'inp list \<Rightarrow> 'st \<Rightarrow> ('ent list \<times> 'st) res" where
  "record_all [] s = Inr ([], s)"
| "record_all (i # is) s =
     bindE (record_op i s) (\<lambda>(e, s1). bindE (record_all is s1) (\<lambda>(es, s2). Inr (e # es, s2)))"

lemma record_all_Cons:
  assumes "record_all (i # is) s = Inr (es, s')"
  obtains e s1 es1 where "record_op i s = Inr (e, s1)" "record_all is s1 = Inr (es1, s')" "es = e # es1"
  using assms by (auto simp: bindE_eq_Inr)

lemma lookup_kept:
  "inv s \<Longrightarrow> record_op i s = Inr (e, s') \<Longrightarrow> lookup k s = Some x \<Longrightarrow> lookup k s' = Some x"
  by (metis other_keys replay)

lemma record_all_keeps:
  "inv s \<Longrightarrow> record_all is s = Inr (es, s') \<Longrightarrow> inv s'"
  by (induction "is" arbitrary: s es) (auto elim!: record_all_Cons dest: keeps simp del: record_all.simps(2))

text \<open>No entry is ever lost or rewritten.\<close>

lemma record_all_lookup_kept:
  "inv s \<Longrightarrow> record_all is s = Inr (es, s') \<Longrightarrow> lookup k s = Some x \<Longrightarrow> lookup k s' = Some x"
proof (induction "is" arbitrary: s es)
  case (Cons i "is")
  from Cons.prems(2) obtain e s1 es1 where
    "record_op i s = Inr (e, s1)" "record_all is s1 = Inr (es1, s')" by (rule record_all_Cons)
  with Cons.IH [of s1 es1] Cons.prems show ?case by (blast intro: keeps lookup_kept)
qed simp

lemma record_all_prefix:
  "inv s \<Longrightarrow> record_all is s = Inr (es, s') \<Longrightarrow> \<exists>new. log s' = log s @ new \<and> length new \<le> length is"
proof (induction "is" arbitrary: s es)
  case (Cons i "is")
  from Cons.prems(2) obtain e s1 es1 where step:
    "record_op i s = Inr (e, s1)" "record_all is s1 = Inr (es1, s')" by (rule record_all_Cons)
  have "inv s1" by (rule keeps [OF Cons.prems(1) step(1)])
  from Cons.IH [OF this step(2)] obtain new where
    new: "log s' = log s1 @ new" "length new \<le> length is" by blast
  show ?case
  proof (cases "lookup (key_of i) s")
    case None
    from appended [OF Cons.prems(1) None step(1)] new show ?thesis
      by (intro exI [of _ "e # new"]) simp
  next
    case (Some x)
    from replay [OF Cons.prems(1) Some step(1)] new show ?thesis
      by (intro exI [of _ new]) simp
  qed
qed simp

text \<open>Running a sequence of recordings again returns the same entries and writes nothing.\<close>

lemma record_all_again:
  assumes "inv s0" and "record_all is s0 = Inr (es0, s)" and "record_all is s = Inr (es, s')"
  shows "s' = s \<and> es = es0"
proof -
  have "s' = s \<and> es = es0"
    if "inv s" "record_all is s = Inr (es, s')" "list_all2 (\<lambda>i e. lookup (key_of i) s = Some e) is es0" for s es0 es
    using that
  proof (induction "is" arbitrary: es es0)
    case (Cons i "is")
    from Cons.prems(2) obtain e s1 es1 where step: "record_op i s = Inr (e, s1)"
      "record_all is s1 = Inr (es1, s')" "es = e # es1" by (rule record_all_Cons)
    from Cons.prems(3) obtain e0 es2 where e0: "es0 = e0 # es2" "lookup (key_of i) s = Some e0"
      "list_all2 (\<lambda>i e. lookup (key_of i) s = Some e) is es2" by (auto simp: list_all2_Cons1)
    from replay [OF Cons.prems(1) e0(2) step(1)] have "s1 = s" "e = e0" by auto
    with Cons.IH [OF Cons.prems(1) _ e0(3)] step e0(1) show ?case by simp
  qed simp
  moreover have "list_all2 (\<lambda>i e. lookup (key_of i) s = Some e) is es0"
    using assms(1,2)
  proof (induction "is" arbitrary: s0 es0)
    case (Cons i "is")
    from Cons.prems(2) obtain e s1 es1 where step: "record_op i s0 = Inr (e, s1)"
      "record_all is s1 = Inr (es1, s)" "es0 = e # es1" by (rule record_all_Cons)
    have "inv s1" by (rule keeps [OF Cons.prems(1) step(1)])
    with Cons.IH [OF this step(2)] step recorded [OF Cons.prems(1) step(1)]
    show ?case by (auto dest: record_all_lookup_kept)
  qed simp
  ultimately show ?thesis
    using assms record_all_keeps by blast
qed

end

text \<open>
  The journal the services use: lock the account, append. \<open>releaseStake\<close> is exactly this, and
  every other caller does it within its own transaction.
\<close>

record post_request =
  post_accountId :: string
  post_input :: append_input
  post_now :: int

definition post :: "post_request \<Rightarrow> ledger_entry tx" where
  "post q d =
     bindE (lockAccount (post_accountId q) d) (\<lambda>account.
     bindE (append account (post_input q) (post_now q) d) (\<lambda>((r, _), d'). Inr (res_entry r, d')))"

lemma post_Inr:
  assumes "post q d = Inr (e, d')"
  obtains a r a' where "find_account (post_accountId q) d = Some a" "locked_copy a d"
    "append a (post_input q) (post_now q) d = Inr ((r, a'), d')" "e = res_entry r"
  using assms by (auto simp: post_def bindE_eq_Inr lockAccount_Inr_iff lockAccount_copy [THEN conjunct1])

interpretation journal: idempotent_journal post "\<lambda>q. in_entryKey (post_input q)" find_entry entries ledger_ok
proof
  fix d q e d' e' k
  assume ok: "ledger_ok d"
  { assume run: "post q d = Inr (e, d')"
    then obtain a r a' where a: "locked_copy a d"
      "append a (post_input q) (post_now q) d = Inr ((r, a'), d')" "e = res_entry r"
      by (rule post_Inr)
    show "find_entry (in_entryKey (post_input q)) d' = Some e"
      using append_recorded [OF a(2)] a(3) by simp
    show "ledger_ok d'" using append_keeps_ledger_ok [OF ok a(1,2)] by simp
    show "k \<noteq> in_entryKey (post_input q) \<Longrightarrow> find_entry k d' = find_entry k d"
      using append_find_entry_mono(2) [OF a(2)] by simp
    show "find_entry (in_entryKey (post_input q)) d = None \<Longrightarrow> entries d' = entries d @ [e]"
      using a(2,3) by (auto elim: append_cases) }
  { assume "find_entry (in_entryKey (post_input q)) d = Some e" "post q d = Inr (e', d')"
    then show "d' = d \<and> e' = e"
      by (auto elim!: post_Inr append_cases) }
qed

end
