(* ===== verification/GatePolicy.thy ===== *)
theory GatePolicy
  imports Database
begin

text \<open>
  Gates and mode transitions (\<open>execution/gate-policy.service.ts\<close>): the shape of a
  transition between modes, the gates it requires, the admissibility of the evidence
  provided, and the recording of evidence.
\<close>

section \<open>Shape of a transition\<close>

datatype transition_direction = UP | DOWN | NONE

record transition_shape =
  shp_direction :: transition_direction
  shp_allowed :: bool

definition transitionShape :: "execution_mode \<Rightarrow> execution_mode \<Rightarrow> transition_shape" where
  "transitionShape from to =
     (let delta = mode_index to - mode_index from
      in if delta = 0 then \<lparr>shp_direction = NONE, shp_allowed = False\<rparr>
         else if delta > 0 then \<lparr>shp_direction = UP, shp_allowed = (delta = 1)\<rparr>
         else \<lparr>shp_direction = DOWN, shp_allowed = (delta = -1 \<or> to = DISABLED)\<rparr>)"

definition requiredGates :: "execution_mode \<Rightarrow> execution_mode \<Rightarrow> gate_key list" where
  "requiredGates from to =
     (if shp_direction (transitionShape from to) = UP then gates_required_to_enter to else [])"

section \<open>Evidence\<close>

fun gate_name :: "gate_key \<Rightarrow> string" where
  "gate_name G1 = ''G1''"
| "gate_name G2 = ''G2''"
| "gate_name G3 = ''G3''"
| "gate_name G4 = ''G4''"
| "gate_name G5 = ''G5''"
| "gate_name G6 = ''G6''"

fun verdict_name :: "gate_verdict \<Rightarrow> string" where
  "verdict_name GO = ''GO''"
| "verdict_name NO_GO = ''NO_GO''"

record evidence_check =
  chk_ok :: bool
  chk_missingGates :: "gate_key list"
  chk_rejected :: "(string \<times> string) list"

text \<open>
  One provided identifier: the gate it covers, or the reason it is refused. The lookup is the
  code's \<open>Map\<close> by identifier, in which a later row replaces an earlier one.
\<close>

definition judge_evidence ::
  "gate_key list \<Rightarrow> gate_evidence list \<Rightarrow> string \<Rightarrow> string \<Rightarrow> string + gate_key" where
  "judge_evidence required found controlId i =
     (case find_row (\<lambda>e. ev_id e = i) (rev found) of
        None \<Rightarrow> Inl ''preuve inconnue''
      | Some e \<Rightarrow>
          if ev_controlId e \<noteq> controlId then Inl ''preuve rattachee a un autre controle''
          else if ev_verdict e \<noteq> GO then Inl (''verdict '' @ verdict_name (ev_verdict e))
          else if ev_approvedByUserId e = [] then Inl ''aucun approbateur''
          else if ev_gateKey e \<notin> set required
          then Inl (''gate '' @ gate_name (ev_gateKey e) @ '' non requise pour cette transition'')
          else Inr (ev_gateKey e))"

fun judge_all ::
  "gate_key list \<Rightarrow> gate_evidence list \<Rightarrow> string \<Rightarrow> string list
     \<Rightarrow> (string \<times> string) list \<times> gate_key list" where
  "judge_all required found controlId [] = ([], [])"
| "judge_all required found controlId (i # is) =
     (case judge_all required found controlId is of (rejected, covered) \<Rightarrow>
        (case judge_evidence required found controlId i of
           Inl reason \<Rightarrow> ((i, reason) # rejected, covered)
         | Inr gate \<Rightarrow> (rejected, gate # covered)))"

definition checkEvidence ::
  "gate_key list \<Rightarrow> string list \<Rightarrow> gate_evidence list \<Rightarrow> string \<Rightarrow> evidence_check" where
  "checkEvidence required providedIds found controlId =
     (case judge_all required found controlId (uniq providedIds) of (rejected, covered) \<Rightarrow>
        (let missing = filter (\<lambda>g. g \<notin> set covered) required
         in \<lparr>chk_ok = (missing = [] \<and> rejected = []), chk_missingGates = missing,
             chk_rejected = rejected\<rparr>))"

text \<open>Recording: the unique index on gate and report, the period check, the foreign key.\<close>

definition record_evidence :: "gate_evidence \<Rightarrow> gate_evidence tx" where
  "record_evidence e d =
     (if ev_periodFrom e \<ge> ev_periodTo e
      then Inl (BadRequestException ''periodFrom doit preceder periodTo'')
      else checked (find_row (\<lambda>c. ctl_id c = ev_controlId e) (controls d) \<noteq> None
                    \<and> find_row (\<lambda>x. ev_id x = ev_id e \<or> (ev_gateKey x = ev_gateKey e
                         \<and> ev_reportHash x = ev_reportHash e)) (evidence d) = None)
             ''execution_gate_evidence'' (e, d\<lparr>evidence := evidence d @ [e]\<rparr>))"

definition assertTransitionAllowed ::
  "string \<Rightarrow> execution_mode \<Rightarrow> execution_mode \<Rightarrow> string list \<Rightarrow> db \<Rightarrow> unit res" where
  "assertTransitionAllowed controlId from to evidenceIds d =
     (let required = requiredGates from to
      in if required = [] then Inr ()
         else (let found = (if evidenceIds = [] then []
                            else filter (\<lambda>e. ev_id e \<in> set evidenceIds) (evidence d))
               in guardE (chk_ok (checkEvidence required evidenceIds found controlId))
                    (BadRequestException (''Transition '' @ mode_name from @ '' -> '' @ mode_name to
                       @ '' refusee : preuves de gate insuffisantes''))))"

section \<open>What an accepted check establishes\<close>

text \<open>An evidence row that proves a gate for a control.\<close>

definition proves_gate :: "string \<Rightarrow> gate_key \<Rightarrow> gate_evidence \<Rightarrow> bool" where
  "proves_gate controlId g e =
     (ev_controlId e = controlId \<and> ev_verdict e = GO \<and> ev_approvedByUserId e \<noteq> [] \<and> ev_gateKey e = g)"

lemma judge_evidence_Inr:
  assumes "judge_evidence required found controlId i = Inr g"
  shows "g \<in> set required" and "\<exists>e \<in> set found. ev_id e = i \<and> proves_gate controlId g e"
  using assms
  by (auto simp: judge_evidence_def proves_gate_def split: option.splits if_splits dest!: find_row_SomeD)

lemma judge_all_spec:
  "judge_all required found controlId is = (rejected, covered) \<Longrightarrow>
     (rejected = [] \<longleftrightarrow> (\<forall>i \<in> set is. \<exists>g. judge_evidence required found controlId i = Inr g))
     \<and> (\<forall>g. g \<in> set covered \<longleftrightarrow> (\<exists>i \<in> set is. judge_evidence required found controlId i = Inr g))"
  by (induction "is" arbitrary: rejected covered) (auto split: prod.splits sum.splits)

lemma checkEvidence_ok_iff:
  "chk_ok (checkEvidence required ids found controlId) \<longleftrightarrow>
     (\<forall>i \<in> set ids. \<exists>g. judge_evidence required found controlId i = Inr g)
     \<and> (\<forall>g \<in> set required. \<exists>i \<in> set ids. judge_evidence required found controlId i = Inr g)"
proof -
  obtain rejected covered where j: "judge_all required found controlId (uniq ids) = (rejected, covered)"
    by fastforce
  from judge_all_spec [OF j] show ?thesis
    by (auto simp: checkEvidence_def j Let_def filter_empty_conv)
qed

lemma checkEvidence_ok_proved:
  assumes "chk_ok (checkEvidence required ids found controlId)" and "g \<in> set required"
  shows "\<exists>e \<in> set found. ev_id e \<in> set ids \<and> proves_gate controlId g e"
proof -
  from assms obtain i where "i \<in> set ids" "judge_evidence required found controlId i = Inr g"
    by (auto simp: checkEvidence_ok_iff)
  with judge_evidence_Inr(2) show ?thesis by blast
qed

lemma assertTransitionAllowed_proved:
  assumes "assertTransitionAllowed controlId from to ids d = Inr u" and "g \<in> set (requiredGates from to)"
  shows "\<exists>e \<in> set (evidence d). ev_id e \<in> set ids \<and> proves_gate controlId g e"
  using assms checkEvidence_ok_proved [of "requiredGates from to" ids _ controlId g]
  by (fastforce simp: assertTransitionAllowed_def Let_def split: if_splits)

lemma transitionShape_up_iff:
  "shp_direction (transitionShape from to) = UP \<longleftrightarrow> from < to"
  "shp_direction (transitionShape from to) = DOWN \<longleftrightarrow> to < from"
  "shp_direction (transitionShape from to) = NONE \<longleftrightarrow> from = to"
  by (cases "from"; cases "to"; simp add: transitionShape_def Let_def less_execution_mode_def)+

lemma transitionShape_up_one:
  "from < to \<Longrightarrow> shp_allowed (transitionShape from to) = (mode_index to = mode_index from + 1)"
  by (auto simp: transitionShape_def Let_def less_execution_mode_def)

end
