(* ===== verification/Systems.thy ===== *)
theory Systems
  imports Prelude
begin

text \<open>
  Labelled transition systems, once for all: reachable states, the invariant rule, and runs.
  The kill switch and the order pipeline are interpretations.
\<close>

locale transition_system =
  fixes init :: "'s \<Rightarrow> bool"
    and step :: "'s \<Rightarrow> 's \<Rightarrow> bool"
begin

inductive reach :: "'s \<Rightarrow> bool" where
  reach_init: "init s \<Longrightarrow> reach s"
| reach_step: "reach s \<Longrightarrow> step s t \<Longrightarrow> reach t"

lemma invariant_rule:
  assumes "reach s" and "\<And>s. init s \<Longrightarrow> I s" and "\<And>s t. reach s \<Longrightarrow> I s \<Longrightarrow> step s t \<Longrightarrow> I t"
  shows "I s"
  using assms(1) by induction (auto intro: assms(2,3))

text \<open>A relation between the states along a run: reflexive and transitive, implied by each step.\<close>

inductive run :: "'s \<Rightarrow> 's \<Rightarrow> bool" where
  run_refl: "run s s"
| run_step: "run s t \<Longrightarrow> step t u \<Longrightarrow> run s u"

lemma run_reach: "run s t \<Longrightarrow> reach s \<Longrightarrow> reach t"
  by (induction rule: run.induct) (auto intro: reach_step)

lemma run_relation:
  assumes "run s t" and "reach s"
    and "\<And>s. R s s" and "\<And>s t u. R s t \<Longrightarrow> R t u \<Longrightarrow> R s u"
    and "\<And>s t. reach s \<Longrightarrow> step s t \<Longrightarrow> R s t"
  shows "R s t"
  using assms(1,2)
proof induction
  case (run_refl s)
  show ?case by (rule assms(3))
next
  case (run_step s t u)
  have "reach t" using run_step by (auto intro: run_reach)
  with run_step show ?case by (blast intro: assms(4,5))
qed

end

text \<open>A system with states in which nothing may be engaged, and a predicate the steps keep.\<close>

locale inductive_system = transition_system init step
  for init :: "'s \<Rightarrow> bool" and step :: "'s \<Rightarrow> 's \<Rightarrow> bool" +
  fixes inv :: "'s \<Rightarrow> bool"
  assumes inv_init: "init s \<Longrightarrow> inv s"
    and inv_step: "inv s \<Longrightarrow> step s t \<Longrightarrow> inv t"
begin

lemma reach_inv: "reach s \<Longrightarrow> inv s"
  by (erule invariant_rule) (auto intro: inv_init inv_step)

lemma run_inv: "run s t \<Longrightarrow> inv s \<Longrightarrow> inv t"
  by (induction rule: run.induct) (auto intro: inv_step)

end

end
