(* ===== verification/Control.thy ===== *)
theory Control
  imports GatePolicy Systems
begin

text \<open>
  The persistent kill switch (\<open>execution/execution-control.service.ts\<close>): reading it fail
  closed, locking it for an engagement, stopping, changing mode, creating risk policies.
\<close>

section \<open>Environment and snapshot\<close>

text \<open>
  What the process reads outside the tables: its clock, the interlock variable, the request's
  trace, MySQL's clock, and whether the control row could be read at all.
\<close>

record env =
  env_now :: int
  env_interlock :: "string option"
  env_traceId :: "string option"
  env_clockBefore :: int
  env_clockAfter :: int
  env_dbNow :: int
  env_controlReadable :: bool

definition isInterlockOpen :: "env \<Rightarrow> bool" where
  "isInterlockOpen e = isRealMoneyInterlockOpen (env_interlock e)"

record control_snapshot =
  snap_readable :: bool
  snap_mode :: execution_mode
  snap_version :: "int option"
  snap_activeRiskPolicyId :: "string option"
  snap_stopReason :: "string option"
  snap_stopSource :: "stop_source option"
  snap_changedByUserId :: "string option"
  snap_changedAt :: "int option"
  snap_realMoneyInterlockOpen :: bool

definition global_scope :: string where "global_scope = ''GLOBAL''"

definition sanitizeReason :: "string \<Rightarrow> string" where
  "sanitizeReason reason = take 500 (trim (squash_control False reason))"

definition toSnapshot :: "execution_control option \<Rightarrow> bool \<Rightarrow> control_snapshot" where
  "toSnapshot control interlockOpen =
     (case control of
        None \<Rightarrow> \<lparr>snap_readable = False, snap_mode = DISABLED, snap_version = None,
          snap_activeRiskPolicyId = None, snap_stopReason = Some ''Ligne de controle absente'',
          snap_stopSource = None, snap_changedByUserId = None, snap_changedAt = None,
          snap_realMoneyInterlockOpen = interlockOpen\<rparr>
      | Some c \<Rightarrow>
          (case execution_mode_of (ctl_mode c) of
             None \<Rightarrow> \<lparr>snap_readable = False, snap_mode = DISABLED, snap_version = Some (ctl_version c),
               snap_activeRiskPolicyId = None,
               snap_stopReason = Some (''Mode inconnu en base : '' @ ctl_mode c),
               snap_stopSource = None, snap_changedByUserId = None,
               snap_changedAt = Some (ctl_changedAt c), snap_realMoneyInterlockOpen = interlockOpen\<rparr>
           | Some m \<Rightarrow> \<lparr>snap_readable = True, snap_mode = m, snap_version = Some (ctl_version c),
               snap_activeRiskPolicyId = ctl_activeRiskPolicyId c,
               snap_stopReason = ctl_stopReason c, snap_stopSource = ctl_stopSource c,
               snap_changedByUserId = ctl_changedByUserId c,
               snap_changedAt = Some (ctl_changedAt c), snap_realMoneyInterlockOpen = interlockOpen\<rparr>))"

definition executionAllowed :: "execution_mode \<Rightarrow> bool \<Rightarrow> bool" where
  "executionAllowed mode interlockOpen =
     (if mode = DISABLED then False else if mode = LIVE_CANARY then interlockOpen else True)"

definition find_control :: "db \<Rightarrow> execution_control option" where
  "find_control d = find_row (\<lambda>c. ctl_scope c = global_scope) (controls d)"

text \<open>\<open>readControl\<close> never raises: an unreadable table reads as stopped.\<close>

definition readControl :: "env \<Rightarrow> db \<Rightarrow> control_snapshot" where
  "readControl e d =
     (if env_controlReadable e then toSnapshot (find_control d) (isInterlockOpen e)
      else (toSnapshot None (isInterlockOpen e))
             \<lparr>snap_stopReason := Some ''Controle illisible (base indisponible)''\<rparr>)"

section \<open>Engaging under the control\<close>

definition lockForExecution :: "env \<Rightarrow> db \<Rightarrow> execution_control res" where
  "lockForExecution e d =
     (if \<not> env_controlReadable e then Inl (ExecutionBlockedError ''Controle illisible'' True)
      else
        (let snapshot = toSnapshot (find_control d) (isInterlockOpen e)
         in if \<not> snap_readable snapshot
            then Inl (ExecutionBlockedError
              (case snap_stopReason snapshot of None \<Rightarrow> ''Controle illisible'' | Some r \<Rightarrow> r) True)
            else if \<not> executionAllowed (snap_mode snapshot) (snap_realMoneyInterlockOpen snapshot)
            then Inl (ExecutionBlockedError
              (if snap_mode snapshot = DISABLED then ''Execution arretee''
               else ''REAL_MONEY_INTERLOCK ferme'') False)
            else of_option (EntityNotFoundError ''ExecutionControl'') (find_control d)))"

text \<open>
  \<open>withSubmissionPermit\<close>: the shared lock is held while \<open>submit\<close> runs, so the permit and
  the call are one step; the call itself does not touch the tables.
\<close>

definition withSubmissionPermit :: "env \<Rightarrow> execution_mode \<Rightarrow> 'a res \<Rightarrow> db \<Rightarrow> 'a res" where
  "withSubmissionPermit e expectedMode submit d =
     bindE (lockForExecution e d) (\<lambda>control.
       if ctl_mode control \<noteq> mode_name expectedMode
       then Inl (ExecutionBlockedError (''Mode passe a '' @ ctl_mode control @ '' avant soumission'') False)
       else submit)"

definition clockDriftMs :: "env \<Rightarrow> rat" where
  "clockDriftMs e = \<bar>of_int (env_dbNow e) - of_int (env_clockBefore e + env_clockAfter e) / 2\<bar>"

definition assertClockWithinTolerance :: "env \<Rightarrow> unit res" where
  "assertClockWithinTolerance e =
     guardE (clockDriftMs e \<le> of_int clock_tolerance_ms)
       (ExecutionBlockedError (''Horloge hors tolerance : '' @ show_int (js_round (clockDriftMs e)) @ '' ms'') False)"

section \<open>Writes\<close>

definition audit :: "env \<Rightarrow> string option \<Rightarrow> string \<Rightarrow> string \<Rightarrow> metadata \<Rightarrow> string \<Rightarrow> db \<Rightarrow> db" where
  "audit e actorUserId action targetId metadata targetType d =
     d\<lparr>audits := audits d @ [\<lparr>aud_actorUserId = actorUserId, aud_action = action,
         aud_targetType = targetType, aud_targetId = targetId, aud_traceId = env_traceId e,
         aud_metadata = metadata\<rparr>]\<rparr>"

definition update_control ::
  "string \<Rightarrow> (execution_control \<Rightarrow> execution_control) \<Rightarrow> db \<Rightarrow> db" where
  "update_control i f d = d\<lparr>controls := update_rows (\<lambda>c. ctl_id c = i) f (controls d)\<rparr>"

definition find_control_by_id :: "string \<Rightarrow> db \<Rightarrow> execution_control res" where
  "find_control_by_id i d =
     of_option (EntityNotFoundError ''ExecutionControl'') (find_row (\<lambda>c. ctl_id c = i) (controls d))"

fun source_name :: "stop_source \<Rightarrow> string" where
  "source_name BOOTSTRAP = ''BOOTSTRAP''"
| "source_name MANUAL = ''MANUAL''"
| "source_name AUTOMATIC = ''AUTOMATIC''"

text \<open>
  \<open>stop\<close>: immediate and idempotent; an absent row is created stopped. \<open>newId\<close> is \<open>UUID()\<close>.
\<close>

definition stop ::
  "env \<Rightarrow> string \<Rightarrow> string \<Rightarrow> string option \<Rightarrow> stop_source \<Rightarrow> int option \<Rightarrow> control_snapshot tx" where
  "stop e newId reason actorUserId source expectedVersion d =
     (let clean = sanitizeReason reason;
          cleanReason = (if clean = [] then ''Arret'' else clean)
      in bindE
       (case find_control d of
          None \<Rightarrow>
            (let row = \<lparr>ctl_id = newId, ctl_scope = global_scope, ctl_mode = ''DISABLED'',
                   ctl_version = 1, ctl_activeRiskPolicyId = None, ctl_stopReason = Some cleanReason,
                   ctl_stopSource = Some source, ctl_changedByUserId = actorUserId,
                   ctl_changedAt = env_dbNow e\<rparr>
             in Inr (row, audit e actorUserId ''EXECUTION_STOP'' newId
                  [(''from'', SNull), (''to'', SStr ''DISABLED''), (''version'', SNum 1),
                   (''source'', SStr (source_name source)), (''reason'', SStr cleanReason),
                   (''recreated'', SBool True)]
                  ''EXECUTION_CONTROL'' (d\<lparr>controls := controls d @ [row]\<rparr>)))
        | Some current \<Rightarrow>
            if ctl_mode current = ''DISABLED'' then Inr (current, d)
            else
              (let d1 = update_control (ctl_id current)
                     (\<lambda>c. c\<lparr>ctl_mode := ''DISABLED'', ctl_version := ctl_version c + 1,
                            ctl_stopReason := Some cleanReason, ctl_stopSource := Some source,
                            ctl_changedByUserId := actorUserId, ctl_changedAt := env_dbNow e\<rparr>) d
               in bindE (find_control_by_id (ctl_id current) d1) (\<lambda>stopped.
                    Inr (stopped, audit e actorUserId ''EXECUTION_STOP'' (ctl_id current)
                      [(''from'', SStr (ctl_mode current)), (''to'', SStr ''DISABLED''),
                       (''version'', SNum (ctl_version stopped)),
                       (''expectedVersion'', (case expectedVersion of None \<Rightarrow> SNull | Some v \<Rightarrow> SNum v)),
                       (''source'', SStr (source_name source)), (''reason'', SStr cleanReason)]
                      ''EXECUTION_CONTROL'' d1))))
       (\<lambda>(control, d'). Inr (toSnapshot (Some control) (isInterlockOpen e), d')))"

fun trigger_name :: "auto_stop_trigger \<Rightarrow> string" where
  "trigger_name CONTROL_UNREADABLE = ''CONTROL_UNREADABLE''"
| "trigger_name STALE_OR_SUSPENDED_ODD = ''STALE_OR_SUSPENDED_ODD''"
| "trigger_name DAILY_LIMIT_REACHED = ''DAILY_LIMIT_REACHED''"
| "trigger_name OPERATOR_BALANCE_MISMATCH = ''OPERATOR_BALANCE_MISMATCH''"
| "trigger_name UNKNOWN_ORDER_TOO_OLD = ''UNKNOWN_ORDER_TOO_OLD''"
| "trigger_name RECEIPT_MISSING = ''RECEIPT_MISSING''"
| "trigger_name RECONCILIATION_LATE = ''RECONCILIATION_LATE''"
| "trigger_name OPERATOR_ERROR_RATE = ''OPERATOR_ERROR_RATE''"
| "trigger_name CLOCK_OUT_OF_TOLERANCE = ''CLOCK_OUT_OF_TOLERANCE''"
| "trigger_name LEDGER_INVARIANT_BROKEN = ''LEDGER_INVARIANT_BROKEN''"
| "trigger_name RECEIPT_INVALID = ''RECEIPT_INVALID''"
| "trigger_name OPERATOR_CONTRACT_VIOLATION = ''OPERATOR_CONTRACT_VIOLATION''"

fun scalar_text :: "scalar \<Rightarrow> string" where
  "scalar_text (SStr s) = s"
| "scalar_text (SNum n) = show_int n"
| "scalar_text (SBool True) = ''true''"
| "scalar_text (SBool False) = ''false''"
| "scalar_text SNull = ''null''"

fun join_with :: "string \<Rightarrow> string list \<Rightarrow> string" where
  "join_with sep [] = []"
| "join_with sep [x] = x"
| "join_with sep (x # y # ys) = x @ sep @ join_with sep (y # ys)"

definition autoStop_reason :: "auto_stop_trigger \<Rightarrow> metadata \<Rightarrow> string" where
  "autoStop_reason trigger details =
     (let detail = join_with '', '' (List.map (\<lambda>(k, v). k @ ''='' @ scalar_text v) details)
      in ''AUTO:'' @ trigger_name trigger @ (if detail = [] then [] else '' ('' @ detail @ '')''))"

text \<open>\<open>autoStop\<close> never raises; its own transaction either commits or leaves the tables.\<close>

definition autoStop :: "env \<Rightarrow> string \<Rightarrow> auto_stop_trigger \<Rightarrow> metadata \<Rightarrow> db \<Rightarrow> bool \<times> db" where
  "autoStop e newId trigger details d =
     (case commit (stop e newId (autoStop_reason trigger details) None AUTOMATIC None) d of
        (Inl _, d') \<Rightarrow> (False, d')
      | (Inr _, d') \<Rightarrow> (True, d'))"

record change_mode_input =
  cm_targetMode :: execution_mode
  cm_reason :: string
  cm_expectedVersion :: int
  cm_gateEvidenceIds :: "string list"

definition changeMode :: "env \<Rightarrow> string \<Rightarrow> change_mode_input \<Rightarrow> string \<Rightarrow> control_snapshot tx" where
  "changeMode e newId input actorUserId d =
     (if cm_targetMode input = DISABLED
      then stop e newId (cm_reason input) (Some actorUserId) MANUAL (Some (cm_expectedVersion input)) d
      else
        (let reason = sanitizeReason (cm_reason input); target = cm_targetMode input in
         bindE (of_option (ServiceUnavailableException
                  ''Controle d'execution absent : seul un arret est possible'') (find_control d)) (\<lambda>current.
         if ctl_version current \<noteq> cm_expectedVersion input
         then Inl (ConflictException (''Version attendue '' @ show_int (cm_expectedVersion input)
                @ '', version actuelle '' @ show_int (ctl_version current)))
         else
           (let from = (case execution_mode_of (ctl_mode current) of None \<Rightarrow> DISABLED | Some m \<Rightarrow> m);
                shape = transitionShape from target in
            if \<not> shp_allowed shape
            then Inl (BadRequestException
              (if shp_direction shape = NONE then ''Le controle est deja en '' @ mode_name from
               else ''Transition '' @ mode_name from @ '' -> '' @ mode_name target @ '' non adjacente''))
            else
              bindE
                (if shp_direction shape = UP
                 then (if ctl_activeRiskPolicyId current = None
                       then Inl (BadRequestException
                         ''Aucune politique de risque active : impossible de quitter DISABLED'')
                       else if target = LIVE_CANARY \<and> \<not> isInterlockOpen e
                       then Inl (ForbiddenException
                         ''REAL_MONEY_INTERLOCK ferme : passage en LIVE_CANARY interdit'')
                       else assertTransitionAllowed (ctl_id current) from target
                              (cm_gateEvidenceIds input) d)
                 else Inr ()) (\<lambda>_.
              (let d1 = update_control (ctl_id current)
                     (\<lambda>c. c\<lparr>ctl_mode := mode_name target, ctl_version := ctl_version c + 1,
                            ctl_stopReason := None, ctl_stopSource := None,
                            ctl_changedByUserId := Some actorUserId, ctl_changedAt := env_dbNow e\<rparr>) d
               in bindE (find_control_by_id (ctl_id current) d1) (\<lambda>updated.
                    Inr (toSnapshot (Some updated) (isInterlockOpen e),
                         audit e (Some actorUserId) ''EXECUTION_MODE_CHANGE'' (ctl_id current)
                           [(''from'', SStr (mode_name from)), (''to'', SStr (mode_name target)),
                            (''version'', SNum (ctl_version updated)),
                            (''expectedVersion'', SNum (cm_expectedVersion input)),
                            (''reason'', SStr reason),
                            (''gateEvidenceIds'', SStr (join_with '','' (uniq (cm_gateEvidenceIds input))))]
                           ''EXECUTION_CONTROL'' d1))))))))"

section \<open>Risk policies\<close>

record create_policy_input =
  cp_currency :: string
  cp_maxStakePerBet :: string
  cp_maxDailyStake :: string
  cp_maxDailyLoss :: string
  cp_maxOpenExposure :: string
  cp_maxQuoteAgeMs :: int
  cp_activate :: bool
  cp_expectedVersion :: "int option"

text \<open>The CHECK constraints of \<open>risk_policies\<close>.\<close>

definition chk_policy :: "risk_policy \<Rightarrow> bool" where
  "chk_policy p =
     (cents_of (pol_maxStakePerBet p) > 0 \<and> cents_of (pol_maxDailyStake p) > 0
      \<and> cents_of (pol_maxDailyLoss p) > 0 \<and> cents_of (pol_maxOpenExposure p) > 0
      \<and> pol_maxQuoteAgeMs p > 0
      \<and> cents_of (pol_maxStakePerBet p) \<le> cents_of (pol_maxDailyStake p)
      \<and> cents_of (pol_maxStakePerBet p) \<le> cents_of (pol_maxOpenExposure p))"

definition next_policy_version :: "db \<Rightarrow> int" where
  "next_policy_version d = foldr max (List.map pol_version (policies d)) 0 + 1"

definition policy_row :: "string \<Rightarrow> create_policy_input \<Rightarrow> int \<Rightarrow> string \<Rightarrow> risk_policy res" where
  "policy_row newId input version actorUserId =
     bindE (store_decimal (cp_maxStakePerBet input)) (\<lambda>s.
     bindE (store_decimal (cp_maxDailyStake input)) (\<lambda>ds.
     bindE (store_decimal (cp_maxDailyLoss input)) (\<lambda>l.
     bindE (store_decimal (cp_maxOpenExposure input)) (\<lambda>x.
       Inr \<lparr>pol_id = newId, pol_version = version, pol_currency = cp_currency input,
            pol_maxStakePerBet = s, pol_maxDailyStake = ds, pol_maxDailyLoss = l,
            pol_maxOpenExposure = x, pol_maxQuoteAgeMs = cp_maxQuoteAgeMs input,
            pol_createdByUserId = Some actorUserId\<rparr>))))"

definition insert_policy :: "risk_policy \<Rightarrow> db \<Rightarrow> db res" where
  "insert_policy p d =
     checked (chk_policy p \<and> find_row (\<lambda>q. pol_id q = pol_id p \<or> pol_version q = pol_version p) (policies d) = None)
       ''risk_policies'' (d\<lparr>policies := policies d @ [p]\<rparr>)"

definition check_activation :: "create_policy_input \<Rightarrow> db \<Rightarrow> unit res" where
  "check_activation input d =
     (if \<not> cp_activate input then Inr ()
      else case find_control d of
        None \<Rightarrow> Inl (ServiceUnavailableException ''Controle d'execution absent'')
      | Some control \<Rightarrow>
          if ctl_mode control \<noteq> ''DISABLED''
          then Inl (ConflictException ''Une politique ne s'active que controle arrete (DISABLED)'')
          else (case cp_expectedVersion input of
                  None \<Rightarrow> Inr ()
                | Some v \<Rightarrow> guardE (ctl_version control = v)
                    (ConflictException (''Version attendue '' @ show_int v
                       @ '', version actuelle '' @ show_int (ctl_version control)))))"

definition createRiskPolicy :: "env \<Rightarrow> string \<Rightarrow> create_policy_input \<Rightarrow> string \<Rightarrow> risk_policy tx" where
  "createRiskPolicy e newId input actorUserId d =
     bindE (check_activation input d) (\<lambda>_.
     bindE (policy_row newId input (next_policy_version d) actorUserId) (\<lambda>policy.
     bindE (insert_policy policy d) (\<lambda>d1.
       let d2 = audit e (Some actorUserId) ''RISK_POLICY_CREATE'' (pol_id policy)
             [(''version'', SNum (pol_version policy)), (''currency'', SStr (pol_currency policy)),
              (''activate'', SBool (cp_activate input))] ''RISK_POLICY'' d1
       in case find_control d of
            None \<Rightarrow> Inr (policy, d2)
          | Some control \<Rightarrow>
              if \<not> cp_activate input then Inr (policy, d2)
              else Inr (policy,
                audit e (Some actorUserId) ''RISK_POLICY_ACTIVATE'' (ctl_id control)
                  [(''riskPolicyId'', SStr (pol_id policy)),
                   (''riskPolicyVersion'', SNum (pol_version policy)),
                   (''version'', SNum (ctl_version control + 1))] ''EXECUTION_CONTROL''
                  (update_control (ctl_id control)
                     (\<lambda>c. c\<lparr>ctl_activeRiskPolicyId := Some (pol_id policy), ctl_version := ctl_version c + 1,
                            ctl_changedByUserId := Some actorUserId, ctl_changedAt := env_dbNow e\<rparr>) d2)))))"

definition find_policy :: "string option \<Rightarrow> db \<Rightarrow> risk_policy option" where
  "find_policy policyId d =
     (case policyId of None \<Rightarrow> None | Some i \<Rightarrow> find_row (\<lambda>p. pol_id p = i) (policies d))"

definition controlId :: "db \<Rightarrow> string option" where
  "controlId d = map_option ctl_id (find_control d)"

end
