(* ===== verification/ControlInvariant.thy ===== *)
theory ControlInvariant
  imports Control
begin

text \<open>
  What the kill switch guarantees: a stop always succeeds and blocks every engagement; a mode
  is reached only one step at a time with its gates proved; and, over every sequence of
  operations, a control above \<open>DISABLED\<close> has a policy and the evidence of all the gates
  below it, and its version identifies its contents.
\<close>

section \<open>Frames: what a control operation may touch\<close>

definition control_frame :: "db \<Rightarrow> db \<Rightarrow> bool" where
  "control_frame d d' =
     (d' = d\<lparr>controls := controls d', policies := policies d', audits := audits d'\<rparr>)"

lemma control_frame_refl [simp, frame_simps]: "control_frame d d"
  by (simp add: control_frame_def)

lemma control_frame_audit [simp, frame_simps]:
  "control_frame d (audit e a act t m ty d') = control_frame d d'"
  by (cases d; cases d') (simp add: control_frame_def audit_def)

lemma control_frame_update [simp, frame_simps]:
  "control_frame d (update_control i f d') = control_frame d d'"
  by (cases d; cases d') (simp add: control_frame_def update_control_def)

lemma control_frame_controls [simp, frame_simps]: "control_frame d (d\<lparr>controls := cs\<rparr>)"
  by (simp add: control_frame_def)

lemma audit_sel [simp, frame_simps]:
  "controls (audit e a act t m ty d) = controls d"
  "policies (audit e a act t m ty d) = policies d"
  "evidence (audit e a act t m ty d) = evidence d"
  "accounts (audit e a act t m ty d) = accounts d"
  "entries (audit e a act t m ty d) = entries d"
  "orders (audit e a act t m ty d) = orders d"
  "decisions (audit e a act t m ty d) = decisions d"
  by (simp_all add: audit_def)

lemma update_control_sel [simp, frame_simps]:
  "controls (update_control i f d) = update_rows (\<lambda>c. ctl_id c = i) f (controls d)"
  "policies (update_control i f d) = policies d"
  "evidence (update_control i f d) = evidence d"
  by (simp_all add: update_control_def)

lemma find_control_audit [simp]: "find_control (audit e a act t m ty d) = find_control d"
  by (simp add: find_control_def)

lemma find_control_update:
  assumes "\<And>c. ctl_scope (f c) = ctl_scope c"
  shows "find_control (update_control i f d)
    = map_option (\<lambda>c. if ctl_id c = i then f c else c) (find_control d)"
  unfolding find_control_def update_control_sel
  by (rule find_row_update_rows) (simp add: assms)

lemma find_control_row: "find_control d = Some c \<Longrightarrow> c \<in> set (controls d) \<and> ctl_scope c = global_scope"
  by (auto simp: find_control_def dest: find_row_SomeD)

lemma find_row_by_id_update:
  assumes "r \<in> set rows" and "\<And>c. ctl_id (f c) = ctl_id c"
  shows "\<exists>c \<in> set rows. ctl_id c = ctl_id r
     \<and> find_row (\<lambda>c. ctl_id c = ctl_id r) (update_rows (\<lambda>c. ctl_id c = ctl_id r) f rows) = Some (f c)"
proof -
  obtain c where c: "find_row (\<lambda>c. ctl_id c = ctl_id r) rows = Some c"
    using assms(1) by (cases "find_row (\<lambda>c. ctl_id c = ctl_id r) rows") (auto simp: find_row_None_iff)
  then have "c \<in> set rows" "ctl_id c = ctl_id r" by (auto dest: find_row_SomeD)
  with c show ?thesis
    by (auto simp: find_row_update_rows [where q = "\<lambda>c. ctl_id c = ctl_id r"] assms(2))
qed

lemma find_control_by_id_updated:
  assumes "find_control d = Some c" and "\<And>c. ctl_id (f c) = ctl_id c"
  obtains r where "r \<in> set (controls d)" and "ctl_id r = ctl_id c"
    and "find_control_by_id (ctl_id c) (update_control (ctl_id c) f d) = Inr (f r)"
  using find_row_by_id_update [of c "controls d" f] find_control_row [OF assms(1)] assms(2)
  by (auto simp: find_control_by_id_def)

section \<open>Stopping\<close>

definition stopped_row :: "env \<Rightarrow> string \<Rightarrow> string option \<Rightarrow> stop_source \<Rightarrow> execution_control \<Rightarrow> execution_control" where
  "stopped_row e reason actor source c =
     c\<lparr>ctl_mode := ''DISABLED'', ctl_version := ctl_version c + 1, ctl_stopReason := Some reason,
       ctl_stopSource := Some source, ctl_changedByUserId := actor, ctl_changedAt := env_dbNow e\<rparr>"

lemma stop_cases:
  obtains (absent) c where "find_control d = None" "ctl_mode c = ''DISABLED''" "ctl_version c = 1"
      "ctl_scope c = global_scope" "ctl_id c = newId" "ctl_activeRiskPolicyId c = None"
      "\<exists>d'. stop e newId reason actor source v d = Inr (toSnapshot (Some c) (isInterlockOpen e), d')
        \<and> controls d' = controls d @ [c] \<and> policies d' = policies d \<and> evidence d' = evidence d
        \<and> control_frame d d' \<and> length (audits d') = length (audits d) + 1"
  | (already) c where "find_control d = Some c" "ctl_mode c = ''DISABLED''"
      "stop e newId reason actor source v d = Inr (toSnapshot (Some c) (isInterlockOpen e), d)"
  | (stopping) c r t where "find_control d = Some c" "ctl_mode c \<noteq> ''DISABLED''"
      "\<exists>d'. stop e newId reason actor source v d
          = Inr (toSnapshot (Some (stopped_row e t actor source r)) (isInterlockOpen e), d')
        \<and> controls d' = update_rows (\<lambda>x. ctl_id x = ctl_id c) (stopped_row e t actor source) (controls d)
        \<and> policies d' = policies d \<and> evidence d' = evidence d
        \<and> control_frame d d' \<and> length (audits d') = length (audits d) + 1"
proof (cases "find_control d")
  case None
  then show ?thesis
    by (intro absent [where c = "\<lparr>ctl_id = newId, ctl_scope = global_scope, ctl_mode = ''DISABLED'',
           ctl_version = 1, ctl_activeRiskPolicyId = None,
           ctl_stopReason = Some (if sanitizeReason reason = [] then ''Arret'' else sanitizeReason reason),
           ctl_stopSource = Some source, ctl_changedByUserId = actor, ctl_changedAt = env_dbNow e\<rparr>"])
      (simp_all add: stop_def Let_def, simp add: audit_def)
next
  case (Some c)
  show ?thesis
  proof (cases "ctl_mode c = ''DISABLED''")
    case True
    with Some show ?thesis by (intro already) (simp_all add: stop_def Let_def)
  next
    case False
    let ?t = "if sanitizeReason reason = [] then ''Arret'' else sanitizeReason reason"
    let ?f = "stopped_row e ?t actor source"
    obtain r where "find_control_by_id (ctl_id c) (update_control (ctl_id c) ?f d) = Inr (?f r)"
      using find_control_by_id_updated [OF Some, of ?f] by (auto simp: stopped_row_def)
    with Some False show ?thesis
      by (intro stopping [where c = c and r = r and t = ?t])
        (simp_all add: stop_def Let_def stopped_row_def [abs_def] cong: if_cong,
         simp add: audit_def update_control_def)
  qed
qed

lemma execution_mode_of_disabled [simp]: "execution_mode_of ''DISABLED'' = Some DISABLED"
  by (simp add: execution_mode_of_def)

lemma toSnapshot_disabled [simp]:
  "ctl_mode c = ''DISABLED'' \<Longrightarrow> snap_mode (toSnapshot (Some c) i) = DISABLED"
  by (simp add: toSnapshot_def)

lemma lock_blocked_when_disabled:
  assumes "\<And>c. find_control d = Some c \<Longrightarrow> ctl_mode c = ''DISABLED''"
  shows "\<exists>m u. lockForExecution e d = Inl (ExecutionBlockedError m u)"
  using assms
  by (cases "find_control d") (auto simp: lockForExecution_def Let_def toSnapshot_def executionAllowed_def)

lemma find_control_append:
  "find_row (\<lambda>c. ctl_scope c = global_scope) (controls d @ [c]) =
     (case find_control d of None \<Rightarrow> (if ctl_scope c = global_scope then Some c else None) | Some x \<Rightarrow> Some x)"
  by (simp add: find_control_def find_row_append split: option.splits)

lemma stop_leaves_disabled:
  "\<exists>snap d'. stop e newId reason actor source v d = Inr (snap, d')
     \<and> snap_mode snap = DISABLED \<and> (\<exists>c. find_control d' = Some c \<and> ctl_mode c = ''DISABLED'')
     \<and> control_frame d d'"
proof (cases rule: stop_cases [of d newId e reason actor source v])
  case (absent c)
  then show ?thesis
    by (auto simp: find_control_def [of "_ :: db"] find_row_append split: option.splits)
next
  case (already c)
  then show ?thesis by auto
next
  case (stopping c r t)
  let ?f = "stopped_row e t actor source"
  from stopping(3) obtain d' where d': "stop e newId reason actor source v d
          = Inr (toSnapshot (Some (?f r)) (isInterlockOpen e), d')"
      "controls d' = update_rows (\<lambda>x. ctl_id x = ctl_id c) ?f (controls d)" "control_frame d d'" by blast
  have "find_control d' = map_option (\<lambda>x. if ctl_id x = ctl_id c then ?f x else x) (find_control d)"
    unfolding find_control_def d'(2)
    by (rule find_row_update_rows) (simp add: stopped_row_def)
  with stopping(1) have "find_control d' = Some (?f c)" by simp
  then have "find_control d' = Some (?f c) \<and> ctl_mode (?f c) = ''DISABLED''" by (simp add: stopped_row_def)
  moreover have "snap_mode (toSnapshot (Some (?f r)) (isInterlockOpen e)) = DISABLED"
    by (simp add: stopped_row_def)
  ultimately show ?thesis using d' by blast
qed

lemma stop_again:
  assumes "find_control d = Some c" and "ctl_mode c = ''DISABLED''"
  shows "stop e newId reason actor source v d = Inr (toSnapshot (Some c) (isInterlockOpen e), d)"
  using assms by (simp add: stop_def Let_def)

lemma autoStop_disables:
  "\<exists>d'. autoStop e newId trigger details d = (True, d')
     \<and> (\<exists>c. find_control d' = Some c \<and> ctl_mode c = ''DISABLED'') \<and> control_frame d d'"
proof -
  obtain snap d' where "stop e newId (autoStop_reason trigger details) None AUTOMATIC None d = Inr (snap, d')"
      "\<exists>c. find_control d' = Some c \<and> ctl_mode c = ''DISABLED''" "control_frame d d'"
    using stop_leaves_disabled [of e newId "autoStop_reason trigger details" None AUTOMATIC None d] by blast
  then show ?thesis by (auto simp: autoStop_def)
qed

lemma autoStop_frame: "autoStop e newId trigger details d = (ok, d') \<Longrightarrow> control_frame d d'"
  using autoStop_disables [of e newId trigger details d] by auto

section \<open>Changing mode\<close>

definition moved_row :: "env \<Rightarrow> string \<Rightarrow> execution_mode \<Rightarrow> execution_control \<Rightarrow> execution_control" where
  "moved_row e actor target c =
     c\<lparr>ctl_mode := mode_name target, ctl_version := ctl_version c + 1, ctl_stopReason := None,
       ctl_stopSource := None, ctl_changedByUserId := Some actor, ctl_changedAt := env_dbNow e\<rparr>"

text \<open>What justifies a move out of a mode: one step, and going up its gates and a policy.\<close>

definition move_justified ::
  "env \<Rightarrow> change_mode_input \<Rightarrow> db \<Rightarrow> execution_control \<Rightarrow> bool" where
  "move_justified e input d c =
     (let from = (case execution_mode_of (ctl_mode c) of None \<Rightarrow> DISABLED | Some m \<Rightarrow> m);
          target = cm_targetMode input
      in \<bar>mode_index target - mode_index from\<bar> = 1 \<and> ctl_version c = cm_expectedVersion input
         \<and> (from < target \<longrightarrow> ctl_activeRiskPolicyId c \<noteq> None
              \<and> (target = LIVE_CANARY \<longrightarrow> isInterlockOpen e)
              \<and> (\<forall>g \<in> set (gates_required_to_enter target).
                   \<exists>x \<in> set (evidence d). ev_id x \<in> set (cm_gateEvidenceIds input) \<and> proves_gate (ctl_id c) g x)))"

lemma transitionShape_allowed_not_disabled:
  "to \<noteq> DISABLED \<Longrightarrow> shp_allowed (transitionShape from to) = (\<bar>mode_index to - mode_index from\<bar> = 1)"
  by (cases "from"; cases "to"; simp add: transitionShape_def)

lemma changeMode_up:
  assumes ok: "changeMode e newId input actor d = Inr (snap, d')"
    and target: "cm_targetMode input \<noteq> DISABLED"
  shows "\<exists>c r. find_control d = Some c \<and> move_justified e input d c
    \<and> snap = toSnapshot (Some (moved_row e actor (cm_targetMode input) r)) (isInterlockOpen e)
    \<and> controls d' = update_rows (\<lambda>x. ctl_id x = ctl_id c) (moved_row e actor (cm_targetMode input)) (controls d)
    \<and> policies d' = policies d \<and> evidence d' = evidence d \<and> control_frame d d'
    \<and> length (audits d') = length (audits d) + 1"
proof -
  let ?f = "moved_row e actor (cm_targetMode input)"
  from ok target obtain c where c: "find_control d = Some c"
    by (auto simp: changeMode_def Let_def bindE_eq_Inr)
  define from_mode where "from_mode = (case execution_mode_of (ctl_mode c) of None \<Rightarrow> DISABLED | Some m \<Rightarrow> m)"
  have f: "(\<lambda>c. c\<lparr>ctl_mode := mode_name (cm_targetMode input), ctl_version := ctl_version c + 1,
       ctl_stopReason := None, ctl_stopSource := None, ctl_changedByUserId := Some actor,
       ctl_changedAt := env_dbNow e\<rparr>) = ?f"
    by (simp add: moved_row_def [abs_def])
  note body = ok [unfolded changeMode_def Let_def from_mode_def [symmetric] f, simplified target c if_False
      of_option_simps bindE_Inr from_mode_def [symmetric]]
  obtain r where r: "find_control_by_id (ctl_id c) (update_control (ctl_id c) ?f d) = Inr (?f r)"
    using find_control_by_id_updated [OF c, of ?f] by (auto simp: moved_row_def)
  from body have version: "ctl_version c = cm_expectedVersion input"
    and shape: "shp_allowed (transitionShape from_mode (cm_targetMode input))"
    by (auto split: if_splits)
  from body version shape obtain m where d': "snap = toSnapshot (Some (?f r)) (isInterlockOpen e)"
      "d' = audit e (Some actor) ''EXECUTION_MODE_CHANGE'' (ctl_id c) m ''EXECUTION_CONTROL''
              (update_control (ctl_id c) ?f d)"
    by (auto simp: r bindE_eq_Inr)
  then have rest: "snap = toSnapshot (Some (?f r)) (isInterlockOpen e)"
      "controls d' = update_rows (\<lambda>x. ctl_id x = ctl_id c) ?f (controls d)"
      "policies d' = policies d" "evidence d' = evidence d" "control_frame d d'"
      "length (audits d') = length (audits d) + 1"
    by simp_all (simp add: audit_def update_control_def)
  have up: "ctl_activeRiskPolicyId c \<noteq> None
        \<and> (cm_targetMode input = LIVE_CANARY \<longrightarrow> isInterlockOpen e)
        \<and> assertTransitionAllowed (ctl_id c) from_mode (cm_targetMode input) (cm_gateEvidenceIds input) d = Inr ()"
    if "from_mode < cm_targetMode input"
    using body version shape that transitionShape_up_iff(1) [of from_mode "cm_targetMode input"]
    by (auto simp: bindE_eq_Inr split: if_splits)
  have "move_justified e input d c"
    unfolding move_justified_def Let_def from_mode_def [symmetric]
    using version shape target up assertTransitionAllowed_proved [of "ctl_id c" from_mode "cm_targetMode input" "cm_gateEvidenceIds input" d "()"]
    by (auto simp: transitionShape_allowed_not_disabled requiredGates_def transitionShape_up_iff)
  with rest c show ?thesis by blast
qed

lemma changeMode_down: "cm_targetMode input = DISABLED \<Longrightarrow>
    changeMode e newId input actor d
      = stop e newId (cm_reason input) (Some actor) MANUAL (Some (cm_expectedVersion input)) d"
  by (simp add: changeMode_def)

section \<open>Policies and evidence\<close>

definition activated_row :: "env \<Rightarrow> string \<Rightarrow> string \<Rightarrow> execution_control \<Rightarrow> execution_control" where
  "activated_row e actor pid c =
     c\<lparr>ctl_activeRiskPolicyId := Some pid, ctl_version := ctl_version c + 1,
       ctl_changedByUserId := Some actor, ctl_changedAt := env_dbNow e\<rparr>"

lemma insert_policy_Inr: "insert_policy p d = Inr d' \<longleftrightarrow>
    chk_policy p \<and> find_row (\<lambda>q. pol_id q = pol_id p \<or> pol_version q = pol_version p) (policies d) = None
    \<and> d' = d\<lparr>policies := policies d @ [p]\<rparr>"
  by (auto simp: insert_policy_def)

lemma createRiskPolicy_effect:
  assumes "createRiskPolicy e newId input actor d = Inr (p, d')"
  shows "policies d' = policies d @ [p] \<and> evidence d' = evidence d \<and> control_frame d d'
    \<and> chk_policy p \<and> pol_id p = newId \<and> pol_version p = next_policy_version d
    \<and> (\<forall>x \<in> set (policies d). pol_id x \<noteq> newId \<and> pol_version x \<noteq> pol_version p)
    \<and> (controls d' = controls d
       \<or> (\<exists>c. find_control d = Some c \<and> ctl_mode c = ''DISABLED''
            \<and> controls d' = update_rows (\<lambda>x. ctl_id x = ctl_id c) (activated_row e actor newId) (controls d)))"
proof -
  from assms obtain d1 where *: "check_activation input d = Inr ()"
      "policy_row newId input (next_policy_version d) actor = Inr p" "insert_policy p d = Inr d1"
    by (auto simp: createRiskPolicy_def bindE_eq_Inr Let_def split: option.splits if_splits)
  from *(2) have p: "pol_id p = newId" "pol_version p = next_policy_version d"
    by (auto simp: policy_row_def bindE_eq_Inr)
  note ins = *(3) [unfolded insert_policy_Inr find_row_None_iff]
  have fc: "find_control d1 = find_control d" using ins by (auto simp: find_control_def)
  show ?thesis
  proof (cases "find_control d")
    case None
    with assms * ins fc p show ?thesis
      by (auto simp: createRiskPolicy_def Let_def) (auto simp: control_frame_def audit_def)
  next
    case (Some c)
    show ?thesis
    proof (cases "cp_activate input")
      case False
      with assms * ins fc p Some show ?thesis
        by (auto simp: createRiskPolicy_def Let_def) (auto simp: control_frame_def audit_def)
    next
      case True
      with *(1) Some have "ctl_mode c = ''DISABLED''"
        by (auto simp: check_activation_def split: if_splits)
      moreover have f: "(\<lambda>c. c\<lparr>ctl_activeRiskPolicyId := Some newId, ctl_version := ctl_version c + 1,
          ctl_changedByUserId := Some actor, ctl_changedAt := env_dbNow e\<rparr>) = activated_row e actor newId"
        by (simp add: activated_row_def [abs_def])
      ultimately show ?thesis using assms * ins fc p Some True
        by (auto simp: createRiskPolicy_def Let_def f)
          (auto simp: control_frame_def audit_def update_control_def)
    qed
  qed
qed

lemma record_evidence_effect: "record_evidence x d = Inr (y, d') \<Longrightarrow>
    y = x \<and> d' = d\<lparr>evidence := evidence d @ [x]\<rparr>"
  by (auto simp: record_evidence_def split: if_splits)

section \<open>The control over time\<close>

text \<open>
  One committed operation on the control, with any environment, arguments and actor; or any
  step of the rest of the backend, which writes neither the control, the policies nor the
  evidence.
\<close>

inductive control_step :: "db \<Rightarrow> db \<Rightarrow> bool" where
  step_stop: "stop e newId reason actor source v d = Inr (snap, d') \<Longrightarrow> control_step d d'"
| step_auto: "autoStop e newId trigger details d = (ok, d') \<Longrightarrow> control_step d d'"
| step_mode: "changeMode e newId input actor' d = Inr (snap, d') \<Longrightarrow> control_step d d'"
| step_policy: "createRiskPolicy e newId input' actor' d = Inr (p, d') \<Longrightarrow> control_step d d'"
| step_evidence: "record_evidence x d = Inr (x', d') \<Longrightarrow> control_step d d'"
| step_other: "controls d' = controls d \<Longrightarrow> policies d' = policies d \<Longrightarrow> evidence d' = evidence d
    \<Longrightarrow> control_step d d'"

inductive_cases control_stepE: "control_step d d'"

definition control_init :: "db \<Rightarrow> bool" where
  "control_init d = (controls d = [])"

text \<open>The evidence that all the gates up to a mode were passed.\<close>

definition gates_proved :: "db \<Rightarrow> string \<Rightarrow> execution_mode \<Rightarrow> bool" where
  "gates_proved d i m =
     (\<forall>k. k \<le> m \<longrightarrow> (\<forall>g \<in> set (gates_required_to_enter k). \<exists>x \<in> set (evidence d). proves_gate i g x))"

definition control_ok :: "db \<Rightarrow> execution_control \<Rightarrow> bool" where
  "control_ok d c =
     (ctl_scope c = global_scope \<and> 1 \<le> ctl_version c
      \<and> (\<exists>m. ctl_mode c = mode_name m \<and> gates_proved d (ctl_id c) m
           \<and> (m \<noteq> DISABLED \<longrightarrow> ctl_activeRiskPolicyId c \<noteq> None))
      \<and> (\<forall>i. ctl_activeRiskPolicyId c = Some i \<longrightarrow> (\<exists>p. find_policy (Some i) d = Some p \<and> chk_policy p)))"

definition controls_ok :: "db \<Rightarrow> bool" where
  "controls_ok d = (controls d = [] \<or> (\<exists>c. controls d = [c] \<and> control_ok d c))"

lemma disabled_least [simp]: "(k \<le> DISABLED) = (k = DISABLED)"
  by (cases k) (simp_all add: less_eq_execution_mode_def)

lemma gates_proved_disabled [simp]: "gates_proved d i DISABLED"
  by (simp add: gates_proved_def)

lemma mode_le_cases: "(k \<le> m) = (k = m \<or> (\<exists>l. mode_index l = mode_index m - 1 \<and> k \<le> l))"
  by (cases k; cases m; auto simp: less_eq_execution_mode_def intro: exI [of _ DISABLED]
      exI [of _ SIMULATION] exI [of _ SANDBOX])

lemma gates_proved_up:
  assumes "gates_proved d i l" and "mode_index m = mode_index l + 1"
    and "\<forall>g \<in> set (gates_required_to_enter m). \<exists>x \<in> set (evidence d). proves_gate i g x"
  shows "gates_proved d i m"
  unfolding gates_proved_def
proof (intro allI impI)
  fix k assume "k \<le> m"
  then consider "k = m" | "k \<le> l"
    using assms(2) mode_le_cases [of k m] by auto
  then show "\<forall>g \<in> set (gates_required_to_enter k). \<exists>x \<in> set (evidence d). proves_gate i g x"
    using assms(1,3) by cases (auto simp: gates_proved_def)
qed

lemma gates_proved_mono:
  assumes "gates_proved d i m" and "l \<le> m" and "set (evidence d) \<subseteq> set (evidence d')"
  shows "gates_proved d' i l"
  unfolding gates_proved_def
proof (intro allI impI ballI)
  fix k g assume "k \<le> l" and g: "g \<in> set (gates_required_to_enter k)"
  with assms(2) have "k \<le> m" by simp
  with assms(1) g have "\<exists>x \<in> set (evidence d). proves_gate i g x" by (simp add: gates_proved_def)
  with assms(3) show "\<exists>x \<in> set (evidence d'). proves_gate i g x" by blast
qed

lemma control_ok_mono:
  assumes "control_ok d c" and "set (evidence d) \<subseteq> set (evidence d')" and "policies d' = policies d @ new"
  shows "control_ok d' c"
proof -
  have "find_policy (Some i) d = Some p \<Longrightarrow> find_policy (Some i) d' = Some p" for i p
    by (simp add: find_policy_def assms(3) find_row_append)
  with assms(1) gates_proved_mono [OF _ order_refl assms(2)] show ?thesis
    unfolding control_ok_def by blast
qed

lemma control_ok_stopped: "control_ok d c \<Longrightarrow> control_ok d (stopped_row e t a s c)"
  by (auto simp: control_ok_def stopped_row_def intro: exI [of _ DISABLED])

lemma control_ok_activated:
  "control_ok d c \<Longrightarrow> find_policy (Some i) d = Some p \<Longrightarrow> chk_policy p \<Longrightarrow> control_ok d (activated_row e a i c)"
  by (auto simp: control_ok_def activated_row_def)

lemma execution_mode_nonneg [simp]: "0 \<le> mode_index m"
  by (cases m) simp_all

lemma control_ok_moved:
  assumes ok: "control_ok d c" and j: "move_justified e input d c" and "cm_targetMode input \<noteq> DISABLED"
  shows "control_ok d (moved_row e a (cm_targetMode input) c)"
proof -
  from ok obtain m where m: "ctl_mode c = mode_name m" "gates_proved d (ctl_id c) m"
      "m \<noteq> DISABLED \<longrightarrow> ctl_activeRiskPolicyId c \<noteq> None"
    by (auto simp: control_ok_def)
  let ?t = "cm_targetMode input"
  from j m(1) have one: "\<bar>mode_index ?t - mode_index m\<bar> = 1"
    and up: "m < ?t \<Longrightarrow> ctl_activeRiskPolicyId c \<noteq> None \<and> (\<forall>g \<in> set (gates_required_to_enter ?t).
        \<exists>x \<in> set (evidence d). proves_gate (ctl_id c) g x)"
    by (auto simp: move_justified_def Let_def)
  have "gates_proved d (ctl_id c) ?t \<and> ctl_activeRiskPolicyId c \<noteq> None"
  proof (cases "m < ?t")
    case True
    with one have "mode_index ?t = mode_index m + 1" by (simp add: less_execution_mode_def)
    with True up m(2) show ?thesis by (auto intro: gates_proved_up)
  next
    case False
    with one have le: "?t \<le> m" "?t \<noteq> m" by (auto simp: less_execution_mode_def less_eq_execution_mode_def)
    with assms(3) have "m \<noteq> DISABLED" by auto
    with m le show ?thesis by (auto intro: gates_proved_mono)
  qed
  with ok show ?thesis by (auto simp: control_ok_def moved_row_def)
qed

lemma controls_ok_find: "controls_ok d \<Longrightarrow> find_control d = Some c \<Longrightarrow> controls d = [c] \<and> control_ok d c"
  by (auto simp: controls_ok_def find_control_def split: if_splits)

lemma controls_ok_absent: "controls_ok d \<Longrightarrow> find_control d = None \<Longrightarrow> controls d = []"
  by (auto simp: controls_ok_def find_control_def control_ok_def)

lemma control_ok_fresh:
  "ctl_mode c = ''DISABLED'' \<Longrightarrow> ctl_scope c = global_scope \<Longrightarrow> ctl_version c = 1
    \<Longrightarrow> ctl_activeRiskPolicyId c = None \<Longrightarrow> control_ok d c"
  by (auto simp: control_ok_def intro: exI [of _ DISABLED])

text \<open>What a step does to the single control row: nothing, a first row, or a version more.\<close>

definition row_step :: "db \<Rightarrow> db \<Rightarrow> bool" where
  "row_step d d' =
     (controls d' = controls d
      \<or> (controls d = [] \<and> length (controls d') = 1)
      \<or> (\<exists>c c'. controls d = [c] \<and> controls d' = [c'] \<and> ctl_version c' = ctl_version c + 1 \<and> ctl_id c' = ctl_id c))"

lemma stop_step_ok:
  assumes ok: "controls_ok d" and st: "stop e newId reason actor source v d = Inr (snap, d')"
  shows "controls_ok d' \<and> row_step d d'"
proof (cases rule: stop_cases [of d newId e reason actor source v])
  case (absent c)
  with st controls_ok_absent [OF ok] show ?thesis
    by (auto simp: controls_ok_def row_step_def intro: control_ok_fresh)
next
  case (already c)
  with st ok show ?thesis by (auto simp: row_step_def)
next
  case (stopping c r t)
  note c = controls_ok_find [OF ok stopping(1)]
  from stopping(3) st c have d': "controls d' = [stopped_row e t actor source c]"
      "policies d' = policies d" "evidence d' = evidence d" by auto
  have "control_ok d' (stopped_row e t actor source c)"
    by (rule control_ok_mono [OF control_ok_stopped, where new = "[]"]) (use c d' in auto)
  with c d' show ?thesis by (auto simp: controls_ok_def row_step_def stopped_row_def)
qed

lemma mode_step_ok:
  assumes ok: "controls_ok d" and st: "changeMode e newId input actor d = Inr (snap, d')"
  shows "controls_ok d' \<and> row_step d d'"
proof (cases "cm_targetMode input = DISABLED")
  case True
  with st stop_step_ok [OF ok] show ?thesis by (auto simp: changeMode_down)
next
  case False
  from changeMode_up [OF st this] obtain c where c: "find_control d = Some c" "move_justified e input d c"
    and d': "controls d' = update_rows (\<lambda>x. ctl_id x = ctl_id c) (moved_row e actor (cm_targetMode input)) (controls d)"
      "policies d' = policies d" "evidence d' = evidence d" by blast
  note row = controls_ok_find [OF ok c(1)]
  with d' have new: "controls d' = [moved_row e actor (cm_targetMode input) c]" by simp
  have "control_ok d' (moved_row e actor (cm_targetMode input) c)"
    by (rule control_ok_mono [OF control_ok_moved, where new = "[]"]) (use row c d' False in auto)
  with row new show ?thesis by (auto simp: controls_ok_def row_step_def moved_row_def)
qed

lemma policy_step_ok:
  assumes ok: "controls_ok d" and st: "createRiskPolicy e newId input actor d = Inr (p, d')"
  shows "controls_ok d' \<and> row_step d d'"
proof -
  note fx = createRiskPolicy_effect [OF st]
  then consider "controls d' = controls d" | c where "find_control d = Some c"
      "controls d' = update_rows (\<lambda>x. ctl_id x = ctl_id c) (activated_row e actor newId) (controls d)"
    by blast
  then show ?thesis
  proof cases
    case 1
    with ok fx control_ok_mono [of d _ d' "[p]"] show ?thesis
      by (auto simp: controls_ok_def row_step_def)
  next
    case 2
    note row = controls_ok_find [OF ok 2(1)]
    with 2 have new: "controls d' = [activated_row e actor newId c]" by simp
    have "control_ok d' c" by (rule control_ok_mono [of d _ _ "[p]"]) (use row fx in auto)
    moreover have "find_policy (Some newId) d' = Some p"
      using fx by (auto simp: find_policy_def find_row_append find_row_None_iff split: option.splits
          dest!: find_row_SomeD)
    ultimately have "control_ok d' (activated_row e actor newId c)"
      by (rule control_ok_activated) (use fx in auto)
    with row new show ?thesis by (auto simp: controls_ok_def row_step_def activated_row_def)
  qed
qed

lemma control_step_ok:
  assumes "controls_ok d" and "control_step d d'"
  shows "controls_ok d' \<and> row_step d d'"
  using assms(2)
proof cases
  case (step_stop e newId reason actor source v snap)
  then show ?thesis using stop_step_ok assms(1) by blast
next
  case (step_auto e newId trigger details ok)
  then have "d' = d \<or> (\<exists>snap. stop e newId (autoStop_reason trigger details) None AUTOMATIC None d = Inr (snap, d'))"
    by (auto simp: autoStop_def commit_def split: sum.splits)
  then show ?thesis
  proof (elim disjE exE)
    assume "d' = d"
    then show ?thesis using assms(1) by (simp add: row_step_def)
  qed (rule stop_step_ok [OF assms(1)])
next
  case (step_mode e newId input actor' snap)
  then show ?thesis using mode_step_ok assms(1) by blast
next
  case (step_policy e newId input' actor' p)
  then show ?thesis using policy_step_ok assms(1) by blast
next
  case (step_evidence x x')
  then show ?thesis using record_evidence_effect [of x d x' d'] assms(1)
    control_ok_mono [of d _ d' "[]"] by (auto simp: controls_ok_def row_step_def)
next
  case step_other
  then show ?thesis using assms(1) control_ok_mono [of d _ d' "[]"]
    by (auto simp: controls_ok_def row_step_def)
qed

interpretation kill_switch: inductive_system control_init control_step controls_ok
  by unfold_locales (simp add: control_init_def controls_ok_def, blast dest: control_step_ok)

text \<open>The version identifies the contents of the control row along every run.\<close>

definition control_row_run :: "db \<Rightarrow> db \<Rightarrow> bool" where
  "control_row_run d d' =
     (\<forall>c. controls d = [c] \<longrightarrow> (\<exists>c'. controls d' = [c'] \<and> ctl_id c' = ctl_id c
         \<and> ctl_version c \<le> ctl_version c' \<and> (ctl_version c' = ctl_version c \<longrightarrow> c' = c)))"

lemma control_row_trans: "control_row_run d d1 \<Longrightarrow> control_row_run d1 d2 \<Longrightarrow> control_row_run d d2"
  unfolding control_row_run_def
proof (intro allI impI)
  fix c
  assume 1: "\<forall>c. controls d = [c] \<longrightarrow> (\<exists>c'. controls d1 = [c'] \<and> ctl_id c' = ctl_id c
         \<and> ctl_version c \<le> ctl_version c' \<and> (ctl_version c' = ctl_version c \<longrightarrow> c' = c))"
    and 2: "\<forall>c. controls d1 = [c] \<longrightarrow> (\<exists>c'. controls d2 = [c'] \<and> ctl_id c' = ctl_id c
         \<and> ctl_version c \<le> ctl_version c' \<and> (ctl_version c' = ctl_version c \<longrightarrow> c' = c))"
    and "controls d = [c]"
  from 1 this(3) obtain c1 where c1: "controls d1 = [c1]" "ctl_id c1 = ctl_id c"
    "ctl_version c \<le> ctl_version c1" "ctl_version c1 = ctl_version c \<longrightarrow> c1 = c" by blast
  from 2 c1(1) obtain c2 where "controls d2 = [c2]" "ctl_id c2 = ctl_id c1"
    "ctl_version c1 \<le> ctl_version c2" "ctl_version c2 = ctl_version c1 \<longrightarrow> c2 = c1" by blast
  with c1 show "\<exists>c'. controls d2 = [c'] \<and> ctl_id c' = ctl_id c
         \<and> ctl_version c \<le> ctl_version c' \<and> (ctl_version c' = ctl_version c \<longrightarrow> c' = c)"
    by (intro exI [of _ c2]) auto
qed

lemma control_row_step: "row_step d d' \<Longrightarrow> control_row_run d d'"
  unfolding row_step_def control_row_run_def by (elim disjE exE conjE) simp_all

lemma run_control_row:
  assumes "kill_switch.run d d'" and "kill_switch.reach d"
  shows "control_row_run d d'"
proof (rule kill_switch.run_relation [OF assms])
  show "control_row_run s s" for s unfolding control_row_run_def by blast
  show "control_row_run s t \<Longrightarrow> control_row_run t u \<Longrightarrow> control_row_run s u" for s t u by (rule control_row_trans)
  show "control_row_run s t" if "kill_switch.reach s" "control_step s t" for s t
    using control_step_ok [OF kill_switch.reach_inv [OF that(1)] that(2)] by (blast intro: control_row_step)
qed

end
