(* ===== verification/Risk.thy ===== *)
theory Risk
  imports LedgerInvariant ControlInvariant
begin

text \<open>
  The risk engine (\<open>execution/risk-engine.service.ts\<close>): the limits of a reservation, the
  reservation itself under the control, its error handling, releases and settlements.
  \<open>Risk_Safety\<close> proves what they guarantee.
\<close>

section \<open>The limits\<close>

record risk_input =
  ri_policy :: risk_policy
  ri_stakeCents :: int
  ri_availableCents :: int
  ri_reservedCents :: int
  ri_dailyStakedCents :: int
  ri_dailySettledPnlCents :: int
  ri_quoteAgeMs :: js_number

datatype risk_verdict =
    RiskOk
  | RiskReject rejection_code risk_limit "auto_stop_trigger option"

definition quote_age_ok :: "js_number \<Rightarrow> int \<Rightarrow> bool" where
  "quote_age_ok age limit =
     (case age of Num x \<Rightarrow> \<not> (x < 0) \<and> \<not> (x > of_int limit) | _ \<Rightarrow> False)"

definition evaluateRisk :: "risk_input \<Rightarrow> risk_verdict res" where
  "evaluateRisk r =
     (let policy = ri_policy r; stake = ri_stakeCents r in
      if \<not> quote_age_ok (ri_quoteAgeMs r) (pol_maxQuoteAgeMs policy)
      then Inr (RiskReject STALE_ODD QUOTE_AGE (Some STALE_OR_SUSPENDED_ODD))
      else if \<not> (stake > 0) then Inr (RiskReject LIMIT_EXCEEDED MAX_STAKE_PER_BET None)
      else bindE (toCents (pol_maxStakePerBet policy)) (\<lambda>maxStake.
        if stake > maxStake then Inr (RiskReject LIMIT_EXCEEDED MAX_STAKE_PER_BET None)
        else bindE (toCents (pol_maxDailyLoss policy)) (\<lambda>maxLoss.
          if max 0 (- ri_dailySettledPnlCents r) \<ge> maxLoss
          then Inr (RiskReject LIMIT_EXCEEDED DAILY_LOSS (Some DAILY_LIMIT_REACHED))
          else bindE (toCents (pol_maxDailyStake policy)) (\<lambda>maxDaily.
            if ri_dailyStakedCents r + stake > maxDaily
            then Inr (RiskReject LIMIT_EXCEEDED DAILY_STAKE
                   (if ri_dailyStakedCents r \<ge> maxDaily then Some DAILY_LIMIT_REACHED else None))
            else bindE (toCents (pol_maxOpenExposure policy)) (\<lambda>maxExposure.
              if ri_reservedCents r + stake > maxExposure
              then Inr (RiskReject LIMIT_EXCEEDED OPEN_EXPOSURE None)
              else if stake > ri_availableCents r
              then Inr (RiskReject LIMIT_EXCEEDED AVAILABLE_BALANCE None)
              else Inr RiskOk)))))"

definition utcDayStart :: "int \<Rightarrow> int" where
  "utcDayStart now = now div ms_per_day * ms_per_day"

section \<open>Requests and results\<close>

record auto_stop_request =
  stop_trigger :: auto_stop_trigger
  stop_details :: metadata

record reserve_stake_request =
  rsv_accountId :: string
  rsv_entryKey :: string
  rsv_stake :: string
  rsv_quoteCapturedAt :: int
  rsv_orderId :: "string option"
  rsv_actorUserId :: "string option"

datatype reservation_result =
    Reserved ledger_entry bool
  | Refused rejection_code "risk_limit option" string

fun limit_name :: "risk_limit \<Rightarrow> string" where
  "limit_name MAX_STAKE_PER_BET = ''MAX_STAKE_PER_BET''"
| "limit_name DAILY_STAKE = ''DAILY_STAKE''"
| "limit_name DAILY_LOSS = ''DAILY_LOSS''"
| "limit_name OPEN_EXPOSURE = ''OPEN_EXPOSURE''"
| "limit_name AVAILABLE_BALANCE = ''AVAILABLE_BALANCE''"
| "limit_name QUOTE_AGE = ''QUOTE_AGE''"

definition stake_input ::
  "ledger_entry_type \<Rightarrow> string \<Rightarrow> int \<Rightarrow> string option \<Rightarrow> string option \<Rightarrow> append_input" where
  "stake_input type key cents orderId actor =
     \<lparr>in_type = type, in_entryKey = key, in_movement = no_movement\<lparr>stakeCents := Some cents\<rparr>,
      in_orderId = orderId, in_actorUserId = actor, in_metadata = None\<rparr>"

section \<open>Reserving\<close>

text \<open>
  The part of \<open>reserveWithin\<close> after the account is locked. The callback \<open>onAutoStop\<close> is
  the first component of the result: it has been called even when the body then throws.
\<close>

definition risk_input_of ::
  "env \<Rightarrow> reserve_stake_request \<Rightarrow> risk_policy \<Rightarrow> bankroll_account \<Rightarrow> db \<Rightarrow> risk_input res" where
  "risk_input_of e q policy account d =
     bindE (dailyAggregates (acc_id account) (utcDayStart (env_now e)) d) (\<lambda>daily.
     bindE (toCents (rsv_stake q)) (\<lambda>stake.
     bindE (toCents (acc_availableBalance account)) (\<lambda>av.
     bindE (toCents (acc_reservedBalance account)) (\<lambda>re.
       Inr \<lparr>ri_policy = policy, ri_stakeCents = stake, ri_availableCents = av, ri_reservedCents = re,
            ri_dailyStakedCents = stakedCents daily, ri_dailySettledPnlCents = settledPnlCents daily,
            ri_quoteAgeMs = Num (of_int (env_now e - rsv_quoteCapturedAt q))\<rparr>))))"

definition reserve_locked ::
  "env \<Rightarrow> reserve_stake_request \<Rightarrow> risk_policy \<Rightarrow> bankroll_account \<Rightarrow> db
     \<Rightarrow> auto_stop_request option \<times> (reservation_result \<times> db) res" where
  "reserve_locked e q policy account d =
     (case bindE (risk_input_of e q policy account d) evaluateRisk of
        Inl err \<Rightarrow> (None, Inl err)
      | Inr (RiskReject code limit cause) \<Rightarrow>
          ((case cause of None \<Rightarrow> None
            | Some t \<Rightarrow> Some \<lparr>stop_trigger = t, stop_details = [(''limit'', SStr (limit_name limit))]\<rparr>),
           Inr (Refused code (Some limit) (''Limite '' @ limit_name limit), d))
      | Inr RiskOk \<Rightarrow>
          (None,
           bindE (toCents (rsv_stake q)) (\<lambda>stake.
           bindE (append account (stake_input RESERVE (rsv_entryKey q) stake (rsv_orderId q) (rsv_actorUserId q))
                    (env_dbNow e) d) (\<lambda>((r, _), d').
             Inr (Reserved (res_entry r) (res_replayed r), d')))))"

definition replay_reservation ::
  "env \<Rightarrow> reserve_stake_request \<Rightarrow> db \<Rightarrow> (reservation_result \<times> db) res" where
  "replay_reservation e q d =
     bindE (lockAccount (rsv_accountId q) d) (\<lambda>account.
     bindE (toCents (rsv_stake q)) (\<lambda>stake.
     bindE (append account (stake_input RESERVE (rsv_entryKey q) stake None None) (env_dbNow e) d)
       (\<lambda>((r, _), d'). Inr (Reserved (res_entry r) True, d'))))"

definition reserveWithin ::
  "env \<Rightarrow> reserve_stake_request \<Rightarrow> db \<Rightarrow> auto_stop_request option \<times> (reservation_result \<times> db) res" where
  "reserveWithin e q d =
     (case lockForExecution e d of
        Inl err \<Rightarrow> (None, Inl err)
      | Inr control \<Rightarrow>
          (case find_entry (rsv_entryKey q) d of
             Some _ \<Rightarrow> (None, replay_reservation e q d)
           | None \<Rightarrow>
               (case assertClockWithinTolerance e of
                  Inl err \<Rightarrow>
                    (Some \<lparr>stop_trigger = CLOCK_OUT_OF_TOLERANCE, stop_details = []\<rparr>, Inl err)
                | Inr _ \<Rightarrow>
                    (case find_policy (ctl_activeRiskPolicyId control) d of
                       None \<Rightarrow>
                         (Some \<lparr>stop_trigger = CONTROL_UNREADABLE,
                                stop_details = [(''cause'', SStr ''politique active absente'')]\<rparr>,
                          Inr (Refused RISK_CHECK_FAILED None ''Aucune politique de risque active'', d))
                     | Some policy \<Rightarrow>
                         (case lockAccount (rsv_accountId q) d of
                            Inl err \<Rightarrow> (None, Inl err)
                          | Inr account \<Rightarrow>
                              if acc_mode account \<noteq> ctl_mode control
                                 \<or> acc_currency account \<noteq> pol_currency policy
                              then (None, Inr (Refused RISK_CHECK_FAILED None
                                     (''Compte '' @ acc_mode account @ ''/'' @ acc_currency account
                                       @ '' incompatible avec '' @ ctl_mode control @ ''/''
                                       @ pol_currency policy), d))
                              else reserve_locked e q policy account d)))))"

text \<open>From an exception to a refusal, and an automatic stop when it is a serious one.\<close>

definition classifyReservationError ::
  "exn \<Rightarrow> auto_stop_request option \<Rightarrow> reservation_result \<times> auto_stop_request option" where
  "classifyReservationError err pending =
     (case err of
        ExecutionBlockedError m unreadable \<Rightarrow>
          (Refused CONTROL_DISABLED None m,
           if unreadable then Some \<lparr>stop_trigger = CONTROL_UNREADABLE, stop_details = []\<rparr> else pending)
      | LedgerRuleError m \<Rightarrow> (Refused RISK_CHECK_FAILED (Some AVAILABLE_BALANCE) m, pending)
      | _ \<Rightarrow>
          if is_http_exception err \<and> pending = None
          then (Refused RISK_CHECK_FAILED None (exn_message err), pending)
          else (Refused RISK_CHECK_FAILED None (exn_message err),
                case pending of Some s \<Rightarrow> Some s
                | None \<Rightarrow> Some \<lparr>stop_trigger = CONTROL_UNREADABLE,
                                stop_details = [(''cause'', SStr ''erreur base'')]\<rparr>))"

definition applyStop :: "env \<Rightarrow> string \<Rightarrow> auto_stop_request option \<Rightarrow> db \<Rightarrow> db" where
  "applyStop e newId s d =
     (case s of None \<Rightarrow> d | Some q \<Rightarrow> snd (autoStop e newId (stop_trigger q) (stop_details q) d))"

definition reserveStake ::
  "env \<Rightarrow> string \<Rightarrow> reserve_stake_request \<Rightarrow> db \<Rightarrow> reservation_result \<times> db" where
  "reserveStake e newId q d =
     (case reserveWithin e q d of
        (pending, Inr (result, d')) \<Rightarrow> (result, applyStop e newId pending d')
      | (pending, Inl err) \<Rightarrow>
          (case classifyReservationError err pending of (result, raised) \<Rightarrow>
             (result, applyStop e newId raised d)))"

section \<open>Releasing and settling\<close>

definition releaseStake ::
  "env \<Rightarrow> string \<Rightarrow> string \<Rightarrow> string \<Rightarrow> string option \<Rightarrow> ledger_entry tx" where
  "releaseStake e accountId entryKey stake orderId d =
     bindE (lockAccount accountId d) (\<lambda>account.
     bindE (toCents stake) (\<lambda>cents.
     bindE (append account (stake_input RELEASE entryKey cents orderId None) (env_dbNow e) d)
       (\<lambda>((r, _), d'). Inr (res_entry r, d'))))"

definition settle_input :: "string \<Rightarrow> int \<Rightarrow> int \<Rightarrow> string option \<Rightarrow> append_input" where
  "settle_input key stake payout orderId =
     \<lparr>in_type = SETTLE, in_entryKey = key,
      in_movement = no_movement\<lparr>stakeCents := Some stake, payoutCents := Some payout\<rparr>,
      in_orderId = orderId, in_actorUserId = None, in_metadata = None\<rparr>"

text \<open>Whether the settled result of the day has reached the largest loss of a policy.\<close>

definition loss_reached :: "risk_policy option \<Rightarrow> daily_aggregates \<Rightarrow> bool res" where
  "loss_reached policy daily =
     (case policy of None \<Rightarrow> Inr False
      | Some p \<Rightarrow> bindE (toCents (pol_maxDailyLoss p)) (\<lambda>m. Inr (max 0 (- settledPnlCents daily) \<ge> m)))"

definition settle_body ::
  "env \<Rightarrow> string \<Rightarrow> string \<Rightarrow> string \<Rightarrow> string \<Rightarrow> string option \<Rightarrow> (ledger_entry \<times> bool) tx" where
  "settle_body e accountId entryKey stake payout orderId d =
     bindE (lockAccount accountId d) (\<lambda>account.
     bindE (toCents stake) (\<lambda>s.
     bindE (toCents payout) (\<lambda>p.
     bindE (append account (settle_input entryKey s p orderId) (env_dbNow e) d) (\<lambda>((r, _), d').
     bindE (dailyAggregates (acc_id account) (utcDayStart (env_now e)) d') (\<lambda>daily.
     bindE (loss_reached (find_policy (snap_activeRiskPolicyId (readControl e d)) d) daily)
       (\<lambda>reached. Inr ((res_entry r, reached), d')))))))"

definition settleStake ::
  "env \<Rightarrow> string \<Rightarrow> string \<Rightarrow> string \<Rightarrow> string \<Rightarrow> string \<Rightarrow> string option \<Rightarrow> ledger_entry tx" where
  "settleStake e newId accountId entryKey stake payout orderId d =
     bindE (settle_body e accountId entryKey stake payout orderId d) (\<lambda>((entry, lossReached), d').
       Inr (entry,
            if lossReached
            then snd (autoStop e newId DAILY_LIMIT_REACHED [(''limit'', SStr ''DAILY_LOSS'')] d')
            else d'))"

definition checkLedgerInvariant :: "env \<Rightarrow> string \<Rightarrow> string \<Rightarrow> bool tx" where
  "checkLedgerInvariant e newId accountId d =
     bindE (verifyInvariant accountId d) (\<lambda>report.
       Inr (rep_ok report,
            if rep_ok report then d
            else snd (autoStop e newId LEDGER_INVARIANT_BROKEN [(''accountId'', SStr accountId)] d)))"

end
