(* ===== verification/RiskSafety.thy ===== *)
theory RiskSafety
  imports Risk
begin

text \<open>
  What the risk engine guarantees: the exact conditions under which a stake is admitted, the
  refusals that stop the execution, the limits that hold once the stake is reserved, and the
  accounting invariant across reservations, releases and settlements.
\<close>

section \<open>The limits, decided\<close>

lemma cents_of_pos: "0 < cents_of s \<Longrightarrow> toCents s = Inr (cents_of s)"
  by (cases "toCents s") (simp_all add: cents_of_def)

lemma chk_policy_toCents:
  assumes "chk_policy p"
  shows "toCents (pol_maxStakePerBet p) = Inr (cents_of (pol_maxStakePerBet p))"
    and "toCents (pol_maxDailyStake p) = Inr (cents_of (pol_maxDailyStake p))"
    and "toCents (pol_maxDailyLoss p) = Inr (cents_of (pol_maxDailyLoss p))"
    and "toCents (pol_maxOpenExposure p) = Inr (cents_of (pol_maxOpenExposure p))"
  using assms by (auto simp: chk_policy_def intro!: cents_of_pos)

text \<open>The specification of an admissible stake.\<close>

definition admissible :: "risk_input \<Rightarrow> bool" where
  "admissible r =
     (let p = ri_policy r; stake = ri_stakeCents r in
      quote_age_ok (ri_quoteAgeMs r) (pol_maxQuoteAgeMs p)
      \<and> 0 < stake \<and> stake \<le> cents_of (pol_maxStakePerBet p)
      \<and> - ri_dailySettledPnlCents r < cents_of (pol_maxDailyLoss p)
      \<and> ri_dailyStakedCents r + stake \<le> cents_of (pol_maxDailyStake p)
      \<and> ri_reservedCents r + stake \<le> cents_of (pol_maxOpenExposure p)
      \<and> stake \<le> ri_availableCents r)"

text \<open>The refusals after which nothing more can be engaged without an operator.\<close>

definition day_is_over :: "risk_input \<Rightarrow> bool" where
  "day_is_over r =
     (let p = ri_policy r; stake = ri_stakeCents r in
      0 < stake \<and> stake \<le> cents_of (pol_maxStakePerBet p)
      \<and> (cents_of (pol_maxDailyLoss p) \<le> - ri_dailySettledPnlCents r
         \<or> cents_of (pol_maxDailyStake p) \<le> ri_dailyStakedCents r))"

lemma evaluateRisk_total:
  assumes "chk_policy (ri_policy r)"
  shows "\<exists>v. evaluateRisk r = Inr v"
  using assms by (simp add: evaluateRisk_def Let_def chk_policy_toCents)

lemma evaluateRisk_decides:
  assumes "chk_policy (ri_policy r)"
  shows "evaluateRisk r = Inr RiskOk \<longleftrightarrow> admissible r"
proof -
  have "0 < cents_of (pol_maxDailyLoss (ri_policy r))" using assms by (simp add: chk_policy_def)
  with assms show ?thesis
    by (auto simp: evaluateRisk_def admissible_def Let_def chk_policy_toCents)
qed

lemma evaluateRisk_stops:
  assumes "chk_policy (ri_policy r)"
  shows "(\<exists>code limit t. evaluateRisk r = Inr (RiskReject code limit (Some t)))
     \<longleftrightarrow> \<not> quote_age_ok (ri_quoteAgeMs r) (pol_maxQuoteAgeMs (ri_policy r)) \<or> day_is_over r"
proof -
  have "0 < cents_of (pol_maxDailyLoss (ri_policy r))" using assms by (simp add: chk_policy_def)
  with assms show ?thesis
    by (auto simp: evaluateRisk_def day_is_over_def Let_def chk_policy_toCents)
qed

section \<open>What an appended stake does to the account\<close>

lemma ledger_ok_cong:
  "accounts d' = accounts d \<Longrightarrow> entries d' = entries d \<Longrightarrow> ledger_ok d' = ledger_ok d"
  by (simp add: ledger_ok_def account_entries_def)

lemma control_frame_tables:
  assumes "control_frame d d'"
  shows "accounts d' = accounts d" "entries d' = entries d" "orders d' = orders d"
    "decisions d' = decisions d" "receipts d' = receipts d" "evidence d' = evidence d"
    "runs d' = runs d" "recRuns d' = recRuns d" "recItems d' = recItems d"
  by (subst assms [unfolded control_frame_def], simp)+

lemma ledger_ok_control_frame: "control_frame d d' \<Longrightarrow> ledger_ok d' = ledger_ok d"
  by (rule ledger_ok_cong) (simp_all only: control_frame_tables)

lemma control_frame_autoStop [simp, frame_simps]: "control_frame d (snd (autoStop e i t m d))"
  using autoStop_disables [of e i t m d] by auto

lemma control_frame_applyStop [simp, frame_simps]: "control_frame d (applyStop e i s d)"
  by (cases s) (simp_all add: applyStop_def)

lemma applyStop_disables: "\<exists>c. find_control (applyStop e i (Some s) d) = Some c \<and> ctl_mode c = ''DISABLED''"
  using autoStop_disables [of e i "stop_trigger s" "stop_details s" d] by (auto simp: applyStop_def)

text \<open>A written entry moves the balances of its account by exactly its effect.\<close>

lemma append_balances:
  assumes ok: "ledger_ok d" and acc: "find_account i d = Some a"
    and run: "append a input now d = Inr ((r, a'), d')" and new: "find_entry (in_entryKey input) d = None"
  obtains amount delta row where "movementEffect (in_type input) (in_movement input) = Inr (amount, delta)"
    and "entries d' = entries d @ [row]" and "res_entry r = row" and "le_accountId row = i"
    and "cents_of (le_amount row) = amount" and "cents_of (le_reservedDelta row) = delta"
    and "le_entryType row = in_type input" and "le_createdAt row = now" and "le_entryKey row = in_entryKey input"
    and "find_account i d' = Some (a'\<lparr>acc_updatedAt := now\<rparr>)"
    and "cents_of (acc_availableBalance a') = cents_of (acc_availableBalance a) + amount"
    and "cents_of (acc_reservedBalance a') = cents_of (acc_reservedBalance a) + delta"
  using run
proof (cases rule: append_cases)
  case (replayed e)
  with new show ?thesis by simp
next
  case (written b p row)
  from acc have id: "acc_id a = i" by (auto dest: find_account_in)
  note pf = planEntry_facts [OF written(3)] and rf = entry_row_facts [OF written(4)]
  from written(2) have b: "availableCents b = cents_of (acc_availableBalance a)"
      "reservedCents b = cents_of (acc_reservedBalance a)"
    by (auto simp: account_balances_Inr cents_of_toCents)
  have "find_account i d' = Some (a'\<lparr>acc_updatedAt := now\<rparr>)"
    unfolding find_account_def written(7,9)
    using acc id by (simp add: find_account_def find_row_update_rows)
  then show ?thesis
    using written pf rf b id
    by (intro that [of "amountCents p" "reservedDeltaCents p" row]) simp_all
qed

lemma staked_since_snoc:
  assumes "entries d' = entries d @ [row]"
  shows "staked_since i t d' = staked_since i t d
    + (if le_accountId row = i \<and> le_createdAt row \<ge> t \<and> le_entryType row = RESERVE
       then cents_of (le_reservedDelta row) else 0)"
  using assms by (simp add: staked_since_def sum_cents_def)

lemma dailyAggregates_Inr:
  "dailyAggregates i t d = Inr g \<Longrightarrow> stakedCents g = staked_since i t d \<and> settledPnlCents g = pnl_since i t d"
  by (auto simp: dailyAggregates_def bindE_eq_Inr toCents_decimal_text split: if_splits)

section \<open>A reservation respects the limits\<close>

text \<open>The limits of a policy, on the books of an account.\<close>

definition within_limits :: "risk_policy \<Rightarrow> string \<Rightarrow> int \<Rightarrow> db \<Rightarrow> bool" where
  "within_limits p i day d =
     (staked_since i day d \<le> cents_of (pol_maxDailyStake p)
      \<and> - pnl_since i day d < cents_of (pol_maxDailyLoss p)
      \<and> (\<exists>a. find_account i d = Some a
           \<and> cents_of (acc_reservedBalance a) \<le> cents_of (pol_maxOpenExposure p)
           \<and> 0 \<le> cents_of (acc_availableBalance a)))"

lemma stake_effect:
  assumes "movementEffect t (in_movement (stake_input t k c x y)) = Inr (am, de)" and "t \<in> {RESERVE, RELEASE}"
  shows "(t = RESERVE \<longrightarrow> am = - c \<and> de = c) \<and> (t = RELEASE \<longrightarrow> am = c \<and> de = - c) \<and> 0 < c"
  using assms by (cases t) (auto simp: stake_input_def no_movement_def isPositiveInteger_def split: if_splits)

lemma in_stake_input [simp]:
  "in_type (stake_input t k c x y) = t" "in_entryKey (stake_input t k c x y) = k"
  by (simp_all add: stake_input_def)

lemma reserve_locked_Reserved:
  assumes "reserve_locked e q p a d = (s, Inr (Reserved entry re, d'))"
  obtains r stake res a' where "risk_input_of e q p a d = Inr r" "evaluateRisk r = Inr RiskOk" "s = None"
    "toCents (rsv_stake q) = Inr stake"
    "append a (stake_input RESERVE (rsv_entryKey q) stake (rsv_orderId q) (rsv_actorUserId q)) (env_dbNow e) d
       = Inr ((res, a'), d')" "entry = res_entry res" "re = res_replayed res"
  using assms
  by (auto simp: reserve_locked_def bindE_eq_Inr split: sum.splits risk_verdict.splits option.splits
      elim!: bindE_elim)

lemma reserve_locked_limits:
  assumes run: "reserve_locked e q p a d = (s, Inr (Reserved entry re, d'))"
    and ok: "ledger_ok d" and pol: "chk_policy p"
    and acc: "find_account (rsv_accountId q) d = Some a" and new: "find_entry (rsv_entryKey q) d = None"
  shows "within_limits p (rsv_accountId q) (utcDayStart (env_now e)) d'"
    and "re = False" and "find_entry (rsv_entryKey q) d' = Some entry"
    and "cents_of (rsv_stake q) \<le> cents_of (pol_maxStakePerBet p)" and "0 < cents_of (rsv_stake q)"
proof -
  let ?i = "rsv_accountId q" and ?day = "utcDayStart (env_now e)"
  from run obtain r stake res a' where r: "risk_input_of e q p a d = Inr r" "evaluateRisk r = Inr RiskOk"
      "toCents (rsv_stake q) = Inr stake"
    and app: "append a (stake_input RESERVE (rsv_entryKey q) stake (rsv_orderId q) (rsv_actorUserId q))
        (env_dbNow e) d = Inr ((res, a'), d')" and re: "entry = res_entry res" "re = res_replayed res"
    by (rule reserve_locked_Reserved)
  from acc have id: "acc_id a = ?i" by (auto dest: find_account_in)
  from r(1,3) id have fields: "ri_policy r = p" "ri_stakeCents r = stake"
      "ri_availableCents r = cents_of (acc_availableBalance a)"
      "ri_reservedCents r = cents_of (acc_reservedBalance a)"
      "ri_dailyStakedCents r = staked_since ?i ?day d" "ri_dailySettledPnlCents r = pnl_since ?i ?day d"
    by (auto simp: risk_input_of_def bindE_eq_Inr cents_of_toCents dest!: dailyAggregates_Inr)
  from r(2) pol fields have adm: "admissible r" by (simp add: evaluateRisk_decides)
  from app new obtain amount delta row where eff:
      "movementEffect RESERVE (in_movement (stake_input RESERVE (rsv_entryKey q) stake (rsv_orderId q)
         (rsv_actorUserId q))) = Inr (amount, delta)"
    and row: "entries d' = entries d @ [row]" "le_accountId row = ?i" "cents_of (le_reservedDelta row) = delta"
      "le_entryType row = RESERVE"
    and after: "find_account ?i d' = Some (a'\<lparr>acc_updatedAt := env_dbNow e\<rparr>)"
      "cents_of (acc_availableBalance a') = cents_of (acc_availableBalance a) + amount"
      "cents_of (acc_reservedBalance a') = cents_of (acc_reservedBalance a) + delta"
    using append_balances [OF ok acc app] by auto
  from stake_effect [OF eff] have am: "amount = - stake" "delta = stake" by simp_all
  have "pnl_since ?i ?day d' = pnl_since ?i ?day d"
    using row by (simp add: pnl_since_def sum_cents_def)
  with adm fields am after row show "within_limits p ?i ?day d'"
    by (auto simp: within_limits_def admissible_def Let_def staked_since_snoc [OF row(1)])
  show "re = False" using append_replayed_iff [OF app] new re by simp
  show "find_entry (rsv_entryKey q) d' = Some entry" using append_recorded [OF app] re by simp
  show "cents_of (rsv_stake q) \<le> cents_of (pol_maxStakePerBet p)" "0 < cents_of (rsv_stake q)"
    using adm fields r(3) by (auto simp: admissible_def Let_def cents_of_toCents)
qed

section \<open>The whole reservation\<close>

lemma lockForExecution_Inr:
  assumes "lockForExecution e d = Inr c"
  obtains m where "find_control d = Some c" "ctl_mode c = mode_name m" "m \<noteq> DISABLED"
    "m = LIVE_CANARY \<longrightarrow> isInterlockOpen e"
proof -
  from assms have c: "find_control d = Some c"
    by (auto simp: lockForExecution_def Let_def split: if_splits)
  with assms obtain m where "execution_mode_of (ctl_mode c) = Some m"
    by (cases "execution_mode_of (ctl_mode c)")
      (auto simp: lockForExecution_def Let_def toSnapshot_def split: if_splits)
  moreover from this assms c have "executionAllowed m (isInterlockOpen e)"
    by (auto simp: lockForExecution_def Let_def toSnapshot_def split: if_splits)
  ultimately show ?thesis
    using c by (intro that [of m])
      (auto simp: execution_mode_of_Some_iff executionAllowed_def split: if_splits)
qed

lemma lockForExecution_error: "lockForExecution e d = Inl err \<Longrightarrow> \<exists>m u. err = ExecutionBlockedError m u"
  by (cases "find_control d")
    (auto simp: lockForExecution_def Let_def toSnapshot_def split: if_splits option.splits)

lemma reserveWithin_new:
  assumes run: "reserveWithin e q d = (s, Inr (Reserved entry re, d'))"
    and new: "find_entry (rsv_entryKey q) d = None"
  obtains c p a where "lockForExecution e d = Inr c" "assertClockWithinTolerance e = Inr ()"
    "find_policy (ctl_activeRiskPolicyId c) d = Some p" "find_account (rsv_accountId q) d = Some a"
    "acc_mode a = ctl_mode c" "acc_currency a = pol_currency p"
    "reserve_locked e q p a d = (s, Inr (Reserved entry re, d'))"
proof -
  from run obtain c where c: "lockForExecution e d = Inr c"
    by (auto simp: reserveWithin_def split: sum.splits)
  with run new obtain u where u: "assertClockWithinTolerance e = Inr u"
    by (auto simp: reserveWithin_def split: sum.splits)
  with run new c obtain p where p: "find_policy (ctl_activeRiskPolicyId c) d = Some p"
    by (auto simp: reserveWithin_def split: sum.splits option.splits)
  with run new c u obtain a where a: "lockAccount (rsv_accountId q) d = Inr a"
    by (auto simp: reserveWithin_def split: sum.splits)
  with run new c u p have "acc_mode a = ctl_mode c \<and> acc_currency a = pol_currency p
      \<and> reserve_locked e q p a d = (s, Inr (Reserved entry re, d'))"
    by (auto simp: reserveWithin_def split: if_splits)
  with c u p a show ?thesis
    by (intro that [of c p a]) (auto simp: lockAccount_Inr_iff)
qed

lemma replay_reservation_same:
  assumes "replay_reservation e q d = Inr (result, d')" and "find_entry (rsv_entryKey q) d = Some x"
  shows "result = Reserved x True \<and> d' = d"
proof -
  from assms(1) obtain a stake r a' where
    app: "append a (stake_input RESERVE (rsv_entryKey q) stake None None) (env_dbNow e) d = Inr ((r, a'), d')"
    and res: "result = Reserved (res_entry r) True"
    by (auto simp: replay_reservation_def elim!: bindE_elim)
  from app assms(2) res show ?thesis
    by (cases rule: append_cases) simp_all
qed

lemma reserve_locked_refused:
  "reserve_locked e q p a d = (s, Inr (Refused code l m, d')) \<Longrightarrow> d' = d"
  by (auto simp: reserve_locked_def elim!: bindE_elim split: sum.splits risk_verdict.splits)

text \<open>A body that returns either refuses and writes nothing, or the entry is in the ledger.\<close>

lemma reserveWithin_refused:
  assumes "reserveWithin e q d = (s, Inr (Refused code l m, d'))"
  shows "d' = d"
  using assms
  by (auto simp: reserveWithin_def replay_reservation_def elim!: bindE_elim
      dest: reserve_locked_refused split: sum.splits option.splits if_splits)

lemma reserveWithin_replayed:
  assumes "reserveWithin e q d = (s, Inr (result, d'))" and "find_entry (rsv_entryKey q) d = Some x"
  shows "result = Reserved x True \<and> d' = d \<and> s = None"
  using assms replay_reservation_same
  by (auto simp: reserveWithin_def split: sum.splits)

lemma reserveWithin_effect:
  assumes run: "reserveWithin e q d = (s, Inr (Reserved entry re, d'))" and ok: "ledger_ok d"
  shows "ledger_ok d' \<and> find_entry (rsv_entryKey q) d' = Some entry
    \<and> d' = d\<lparr>accounts := accounts d', entries := entries d'\<rparr>
    \<and> (\<exists>new. entries d' = entries d @ new)"
proof (cases "find_entry (rsv_entryKey q) d")
  case (Some x)
  with reserveWithin_replayed [OF run Some] ok show ?thesis by simp
next
  case None
  from run None obtain c p a where a: "find_account (rsv_accountId q) d = Some a"
    and lock: "reserve_locked e q p a d = (s, Inr (Reserved entry re, d'))"
    by (rule reserveWithin_new)
  from lock obtain stake r a' where app:
    "append a (stake_input RESERVE (rsv_entryKey q) stake (rsv_orderId q) (rsv_actorUserId q)) (env_dbNow e) d
       = Inr ((r, a'), d')" "entry = res_entry r"
    by (rule reserve_locked_Reserved)
  have copy: "locked_copy a d" using a by (simp add: lockAccount_copy lockAccount_Inr_iff)
  have "d' = d\<lparr>accounts := accounts d', entries := entries d'\<rparr>"
    using app(1) by (cases rule: append_cases) simp_all
  with append_keeps_ledger_ok [OF ok copy app(1)] append_recorded [OF app(1)] append_only [OF app(1)] app(2)
  show ?thesis by simp
qed

lemma reserveWithin_limits:
  assumes run: "reserveWithin e q d = (s, Inr (Reserved entry False, d'))"
    and ok: "ledger_ok d" and ctl: "controls_ok d"
  obtains c p where "lockForExecution e d = Inr c" "find_policy (ctl_activeRiskPolicyId c) d = Some p"
    "assertClockWithinTolerance e = Inr ()"
    "within_limits p (rsv_accountId q) (utcDayStart (env_now e)) d'"
    "0 < cents_of (rsv_stake q)" "cents_of (rsv_stake q) \<le> cents_of (pol_maxStakePerBet p)"
proof -
  have new: "find_entry (rsv_entryKey q) d = None"
    using reserveWithin_replayed [OF run] by (cases "find_entry (rsv_entryKey q) d") auto
  from run new obtain c p a where c: "lockForExecution e d = Inr c" "assertClockWithinTolerance e = Inr ()"
      "find_policy (ctl_activeRiskPolicyId c) d = Some p" and a: "find_account (rsv_accountId q) d = Some a"
    and lock: "reserve_locked e q p a d = (s, Inr (Reserved entry False, d'))"
    by (rule reserveWithin_new)
  from c(1) have "find_control d = Some c" by (rule lockForExecution_Inr)
  with ctl have "control_ok d c" by (auto dest: controls_ok_find)
  with c(3) have "chk_policy p"
    by (cases "ctl_activeRiskPolicyId c") (auto simp: control_ok_def find_policy_def)
  from reserve_locked_limits [OF lock ok this a new] c show ?thesis by (intro that) auto
qed

lemma reserveStake_cases:
  obtains (written) s entry re d1 where "reserveWithin e q d = (s, Inr (Reserved entry re, d1))"
      "reserveStake e newId q d = (Reserved entry re, applyStop e newId s d1)"
  | (refused) s code l m where "reserveStake e newId q d = (Refused code l m, applyStop e newId s d)"
proof (cases "reserveWithin e q d")
  case (Pair s body)
  show ?thesis
  proof (cases body)
    case (Inl err)
    obtain r raised where "classifyReservationError err s = (r, raised)" by fastforce
    moreover from this obtain code l m where "r = Refused code l m"
      by (cases err) (auto simp: classifyReservationError_def split: if_splits)
    ultimately show ?thesis using Pair Inl by (intro refused) (simp add: reserveStake_def)
  next
    case (Inr x)
    then obtain result d1 where x: "body = Inr (result, d1)" by (cases x) auto
    show ?thesis
    proof (cases result)
      case (Reserved entry re)
      with Pair x show ?thesis by (intro written [of s entry re d1]) (simp_all add: reserveStake_def)
    next
      case (Refused code l m)
      with Pair x reserveWithin_refused [of e q d s code l m d1] show ?thesis
        by (intro refused [of code l m s]) (simp add: reserveStake_def)
    qed
  qed
qed

section \<open>Settling\<close>

lemma settle_body_effect:
  assumes "settle_body e i k stake payout oid d = Inr ((entry, reached), d')" and ok: "ledger_ok d"
  shows "ledger_ok d' \<and> find_entry k d' = Some entry
     \<and> d' = d\<lparr>accounts := accounts d', entries := entries d'\<rparr>
     \<and> (\<forall>p. find_policy (snap_activeRiskPolicyId (readControl e d)) d = Some p \<longrightarrow>
           reached = (cents_of (pol_maxDailyLoss p) \<le> max 0 (- pnl_since i (utcDayStart (env_now e)) d')))"
proof -
  from assms(1) obtain a sc pc r a' daily where a: "lockAccount i d = Inr a"
    and app: "append a (settle_input k sc pc oid) (env_dbNow e) d = Inr ((r, a'), d')"
    and daily: "dailyAggregates (acc_id a) (utcDayStart (env_now e)) d' = Inr daily"
    and reached: "loss_reached (find_policy (snap_activeRiskPolicyId (readControl e d)) d) daily = Inr reached"
    and entry: "entry = res_entry r"
    by (auto simp: settle_body_def elim!: bindE_elim)
  have id: "acc_id a = i" and copy: "locked_copy a d" using a by (auto dest: lockAccount_copy)
  have "d' = d\<lparr>accounts := accounts d', entries := entries d'\<rparr>"
    using app by (cases rule: append_cases) simp_all
  moreover have "reached = (cents_of (pol_maxDailyLoss p) \<le> max 0 (- pnl_since i (utcDayStart (env_now e)) d'))"
    if "find_policy (snap_activeRiskPolicyId (readControl e d)) d = Some p" for p
    using reached that daily id
    by (auto simp: loss_reached_def bindE_eq_Inr cents_of_toCents dest: dailyAggregates_Inr)
  ultimately show ?thesis
    using append_keeps_ledger_ok [OF ok copy app] append_recorded [OF app] entry
    by (simp add: settle_input_def)
qed

lemma settleStake_effect:
  assumes run: "settleStake e newId i k stake payout oid d = Inr (entry, d')" and ok: "ledger_ok d"
  obtains d1 reached where "settle_body e i k stake payout oid d = Inr ((entry, reached), d1)"
    "control_frame d1 d'" "ledger_ok d'" "find_entry k d' = Some entry"
    "reached \<Longrightarrow> \<exists>c. find_control d' = Some c \<and> ctl_mode c = ''DISABLED''"
    "\<not> reached \<Longrightarrow> d' = d1"
proof -
  from run obtain reached d1 where b: "settle_body e i k stake payout oid d = Inr ((entry, reached), d1)"
    and d': "d' = (if reached then snd (autoStop e newId DAILY_LIMIT_REACHED [(''limit'', SStr ''DAILY_LOSS'')] d1) else d1)"
    by (auto simp: settleStake_def elim!: bindE_elim)
  have frame: "control_frame d1 d'" by (simp add: d')
  note fx = settle_body_effect [OF b ok]
  have "find_entry k d' = find_entry k d1"
    by (simp add: find_entry_def control_frame_tables [OF frame])
  moreover have "reached \<Longrightarrow> \<exists>c. find_control d' = Some c \<and> ctl_mode c = ''DISABLED''"
    using autoStop_disables [of e newId DAILY_LIMIT_REACHED "[(''limit'', SStr ''DAILY_LOSS'')]" d1]
    by (auto simp: d')
  ultimately show ?thesis
    using fx ledger_ok_control_frame [OF frame] by (intro that [OF b frame]) (simp_all add: d')
qed

end
