(* ===== verification/OperatorPort.thy ===== *)
theory OperatorPort
  imports RiskSafety
begin

text \<open>
  The operator port (\<open>execution/operator.port.ts\<close>): requests, replies, lookups, balances,
  the shape guard of an acceptance, and the port itself as a record of functions over the
  operator's own state. A reply's fields are JSON values, since the guard tests their types.
\<close>

section \<open>Requests and replies\<close>

record quote_target =
  qt_providerFixtureId :: string
  qt_marketKey :: string
  qt_selectionKey :: string
  qt_providerKey :: "string option"
  qt_bookmakerKey :: "string option"

record quote_request =
  qr_target :: quote_target
  qr_at :: int
  qr_maxQuoteAgeMs :: int

record operator_quote =
  oq_snapshotId :: "string option"
  oq_oddValue :: rat
  oq_capturedAt :: int
  oq_available :: bool

record place_order_request =
  po_decisionId :: string
  po_idempotencyKey :: string
  po_operatorKey :: string
  po_fixtureId :: string
  po_providerFixtureId :: string
  po_marketKey :: string
  po_selectionKey :: string
  po_requestedOdd :: rat
  po_minimumOdd :: rat
  po_stake :: string
  po_currency :: string
  po_quoteCapturedAt :: int

record acceptance =
  ac_externalOrderId :: json
  ac_acceptedOdd :: json
  ac_acceptedStake :: json
  ac_acceptedAt :: json
  ac_receiptHash :: json
  ac_rawReceipt :: json

datatype place_order_result =
    PlaceAccepted acceptance
  | PlaceRejected string json
  | PlaceUnknown string

datatype operator_order_status = Op_ACCEPTED | Op_REJECTED | Op_SETTLED | Op_VOIDED

record operator_order =
  oo_externalOrderId :: "string option"
  oo_idempotencyKey :: string
  oo_status :: operator_order_status
  oo_acceptedOdd :: "js_number option"
  oo_acceptedStake :: "string option"
  oo_acceptedAt :: "int option"
  oo_receiptHash :: "string option"
  oo_payout :: "string option"
  oo_settledAt :: "int option"
  oo_rawReceipt :: json

datatype operator_order_lookup =
    Found string operator_order
  | NotFound string
  | LookupFailed string string

record operator_balance =
  ob_currency :: string
  ob_available :: string
  ob_exposure :: string

datatype operator_kind = PAPER | SANDBOX_KIND | LIVE

text \<open>
  A port over the operator's state \<open>'s\<close>: every call yields a value or an exception, and the
  state it leaves; a call that raises may have acted.
\<close>

record 's port =
  port_kind :: operator_kind
  port_operatorKey :: string
  port_getExecutableQuote :: "quote_request \<Rightarrow> 's \<Rightarrow> operator_quote option res \<times> 's"
  port_placeOrder :: "place_order_request \<Rightarrow> 's \<Rightarrow> place_order_result res \<times> 's"
  port_getOrdersByIdempotencyKeys :: "string list \<Rightarrow> 's \<Rightarrow> operator_order_lookup list res \<times> 's"
  port_getBalance :: "string \<Rightarrow> 's \<Rightarrow> operator_balance res \<times> 's"

text \<open>\<open>String(n)\<close> for a number with at most three decimals.\<close>

fun strip_zeros :: "string \<Rightarrow> string" where
  "strip_zeros s = rev (dropWhile (\<lambda>c. c = CHR ''0'') (rev s))"

definition show_odd :: "rat \<Rightarrow> string" where
  "show_odd x =
     (let m = js_round (\<bar>x\<bar> * 1000);
          fr = strip_zeros (pad_start 3 CHR ''0'' (show_nat (nat (m mod 1000))))
      in (if x < 0 then ''-'' else []) @ show_nat (nat (m div 1000))
           @ (if fr = [] then [] else ''.'' @ fr))"

section \<open>The guard of an acceptance\<close>

text \<open>\<open>/^\\d{1,12}(\\.\\d{1,2})?$/\<close>.\<close>

definition stake_text :: "string \<Rightarrow> bool" where
  "stake_text s =
     (let u = takeWhile is_digit s; r = dropWhile is_digit s
      in 1 \<le> length u \<and> length u \<le> 12 \<and> decimal_fraction r \<noteq> None)"

text \<open>\<open>/^[0-9a-f]{64}$/\<close>.\<close>

definition is_hex :: "char \<Rightarrow> bool" where
  "is_hex c = (is_digit c \<or> (97 \<le> (of_char c :: nat) \<and> (of_char c :: nat) \<le> 102))"

definition hash_text :: "string \<Rightarrow> bool" where
  "hash_text s = (length s = 64 \<and> list_all is_hex s)"

definition isWellFormedAcceptance :: "place_order_result \<Rightarrow> bool" where
  "isWellFormedAcceptance result =
     (case result of
        PlaceAccepted a \<Rightarrow>
          (case ac_externalOrderId a of JStr x \<Rightarrow> length x > 0 \<and> length x \<le> 128 | _ \<Rightarrow> False)
          \<and> (case ac_acceptedOdd a of JNum n \<Rightarrow> (case n of Num v \<Rightarrow> v > 1 | _ \<Rightarrow> False) | _ \<Rightarrow> False)
          \<and> (case ac_acceptedStake a of JStr x \<Rightarrow> stake_text x | _ \<Rightarrow> False)
          \<and> (case ac_acceptedAt a of JDate t \<Rightarrow> t \<noteq> None | _ \<Rightarrow> False)
          \<and> (case ac_receiptHash a of JStr x \<Rightarrow> hash_text x | _ \<Rightarrow> False)
      | _ \<Rightarrow> False)"

text \<open>The fields of an acceptance that passed the guard, as \<open>applyPlacementResult\<close> copies them.\<close>

fun text_field :: "json \<Rightarrow> string option" where
  "text_field (JStr s) = Some s"
| "text_field _ = None"

fun number_field :: "json \<Rightarrow> js_number option" where
  "number_field (JNum n) = Some n"
| "number_field _ = None"

fun date_field :: "json \<Rightarrow> int option" where
  "date_field (JDate t) = t"
| "date_field _ = None"

definition accepted_order :: "acceptance \<Rightarrow> operator_order" where
  "accepted_order a =
     \<lparr>oo_externalOrderId = text_field (ac_externalOrderId a), oo_idempotencyKey = [],
      oo_status = Op_ACCEPTED, oo_acceptedOdd = number_field (ac_acceptedOdd a),
      oo_acceptedStake = text_field (ac_acceptedStake a),
      oo_acceptedAt = date_field (ac_acceptedAt a),
      oo_receiptHash = text_field (ac_receiptHash a), oo_payout = None, oo_settledAt = None,
      oo_rawReceipt = ac_rawReceipt a\<rparr>"

lemma isWellFormedAcceptance_fields:
  assumes "isWellFormedAcceptance (PlaceAccepted a)"
  shows "\<exists>x v s t h. oo_externalOrderId (accepted_order a) = Some x \<and> 0 < length x \<and> length x \<le> 128
     \<and> oo_acceptedOdd (accepted_order a) = Some (Num v) \<and> 1 < v
     \<and> oo_acceptedStake (accepted_order a) = Some s \<and> stake_text s
     \<and> oo_acceptedAt (accepted_order a) = Some t
     \<and> oo_receiptHash (accepted_order a) = Some h \<and> hash_text h"
  using assms
  by (auto simp: isWellFormedAcceptance_def accepted_order_def split: json.splits js_number.splits)

text \<open>A stake text is a decimal string of a non-negative safe number of cents.\<close>

lemma nat_of_digits_bound:
  "list_all is_digit ds \<Longrightarrow> nat_of_digits acc ds < (acc + 1) * 10 ^ length ds"
proof (induction ds arbitrary: acc)
  case (Cons c ds)
  then have "nat_of_digits (10 * acc + digit_value c) ds < (10 * acc + digit_value c + 1) * 10 ^ length ds"
    by simp
  also have "\<dots> \<le> (10 * acc + 10) * 10 ^ length ds"
    using digit_value_less [of c] Cons.prems by (intro mult_right_mono) auto
  finally show ?case by (simp add: algebra_simps)
qed simp

lemma stake_text_no_sign: "stake_text s \<Longrightarrow> s \<noteq> [] \<and> is_digit (hd s)"
  by (cases s) (auto simp: stake_text_def Let_def split: if_splits)

lemma fraction_Some: "decimal_fraction r = Some f \<Longrightarrow> list_all is_digit f \<and> length f \<le> 2 \<and> (r = [] \<and> f = [] \<or> r = CHR ''.'' # f \<and> f \<noteq> [])"
  by (auto simp: decimal_fraction_def split: list.splits if_splits)

lemma stake_textE:
  assumes "stake_text s"
  obtains f where "decimal_fraction (dropWhile is_digit s) = Some f" "takeWhile is_digit s \<noteq> []"
    "length (takeWhile is_digit s) \<le> 12"
  using assms by (cases "takeWhile is_digit s") (auto simp: stake_text_def)

lemma stake_text_trim: "stake_text s \<Longrightarrow> trim s = s"
proof (rule trim_no_space)
  assume s: "stake_text s"
  show "s \<noteq> []" "\<not> is_space (hd s)"
    using stake_text_no_sign [OF s] by (auto simp: is_digit_not_space)
  from s obtain f where f: "decimal_fraction (dropWhile is_digit s) = Some f" "takeWhile is_digit s \<noteq> []"
    by (rule stake_textE)
  note fr = fraction_Some [OF f(1)]
  have split: "s = takeWhile is_digit s @ dropWhile is_digit s" by simp
  have "is_digit (last s)"
  proof (cases "dropWhile is_digit s = []")
    case True
    then have "takeWhile is_digit s = s" using split by (metis append_Nil2)
    with f(2) show ?thesis
      by (metis last_in_set set_takeWhileD)
  next
    case False
    with fr have "dropWhile is_digit s = CHR ''.'' # f" "f \<noteq> []" by auto
    then have "last s = last f"
      using split by (metis last_ConsR last_appendR list.distinct(1))
    with fr \<open>f \<noteq> []\<close> show ?thesis by (auto simp: list_all_iff)
  qed
  then show "\<not> is_space (last s)" by (simp add: is_digit_not_space)
qed

lemma stake_text_toCents:
  assumes "stake_text s"
  shows "\<exists>c. toCents s = Inr c \<and> 0 \<le> c"
proof -
  let ?u = "takeWhile is_digit s"
  from assms obtain f where f: "decimal_fraction (dropWhile is_digit s) = Some f"
    and u: "?u \<noteq> []" "length ?u \<le> 12"
    by (rule stake_textE)
  note fr = fraction_Some [OF f]
  have sign: "decimal_sign s = (False, s)"
    using stake_text_no_sign [OF assms] by (cases s) (auto simp: decimal_sign_def)
  have m: "decimal_match (trim s) = Some (False, ?u, f)"
    using u f by (simp add: stake_text_trim [OF assms] decimal_match_def sign)
  have "list_all is_digit ?u" by (auto simp: list_all_iff dest: set_takeWhileD)
  from nat_of_digits_bound [OF this, of 0] have "nat_of_digits 0 ?u < 10 ^ length ?u" by simp
  also have "\<dots> \<le> 10 ^ 12" using u(2) by (intro power_increasing) auto
  finally have a: "nat_of_digits 0 ?u < 10 ^ 12" .
  have "list_all is_digit (pad_end 2 CHR ''0'' f) \<and> length (pad_end 2 CHR ''0'' f) = 2"
    using fr by (auto simp: pad_end_def list_all_iff is_digit_def)
  with nat_of_digits_bound [of "pad_end 2 CHR ''0'' f" 0]
  have b: "nat_of_digits 0 (pad_end 2 CHR ''0'' f) < 100" by simp
  show ?thesis using a b by (simp add: toCents_def m Let_def is_safe_integer_def max_safe_integer_def)
qed

end
