(* ===== verification/Sandbox.thy ===== *)
theory Sandbox
  imports OperatorPort
begin

text \<open>
  The deterministic sandbox operator (\<open>execution/adapters/deterministic-sandbox.adapter.ts\<close>):
  its book, its balances and its programmed scenarios, and what it guarantees: one booking
  per key, identifiers never reused, the exposure equal to the open stakes.
  \<open>sha\<close> stands for SHA-256 in hexadecimal; it comes from Node's library.
\<close>

datatype sandbox_scenario =
    ACCEPT
  | REJECT
  | MOVED
  | TIMEOUT_BEFORE_ACCEPT
  | TIMEOUT_AFTER_ACCEPT
  | DELAYED
  | MALFORMED
  | DUPLICATE_RECEIPT

record sandbox_balance =
  sb_availableCents :: int
  sb_exposureCents :: int

record sandbox =
  sbx_book :: "(string \<times> operator_order) list"
  sbx_hiddenReads :: "string \<Rightarrow> nat"
  sbx_placeCalls :: "string \<Rightarrow> nat"
  sbx_balances :: "string \<Rightarrow> sandbox_balance option"
  sbx_queue :: "sandbox_scenario list"
  sbx_quoteOdd :: "rat option"
  sbx_sequence :: nat
  sbx_lastReceiptHash :: "string option"
  sbx_currencies :: "string \<Rightarrow> string option"

definition empty_sandbox :: sandbox where
  "empty_sandbox =
     \<lparr>sbx_book = [], sbx_hiddenReads = (\<lambda>_. 0), sbx_placeCalls = (\<lambda>_. 0),
      sbx_balances = (\<lambda>_. None), sbx_queue = [], sbx_quoteOdd = Some (19 / 10),
      sbx_sequence = 0, sbx_lastReceiptHash = None, sbx_currencies = (\<lambda>_. None)\<rparr>"

section \<open>Steering\<close>

definition sbx_get :: "string \<Rightarrow> sandbox \<Rightarrow> operator_order option" where
  "sbx_get key s = map_of (sbx_book s) key"

definition balanceOf :: "string \<Rightarrow> sandbox \<Rightarrow> sandbox_balance" where
  "balanceOf currency s =
     (case sbx_balances s currency of Some b \<Rightarrow> b | None \<Rightarrow> \<lparr>sb_availableCents = 0, sb_exposureCents = 0\<rparr>)"

definition enqueue :: "sandbox_scenario list \<Rightarrow> sandbox \<Rightarrow> sandbox" where
  "enqueue scenarios s = s\<lparr>sbx_queue := sbx_queue s @ scenarios\<rparr>"

definition setQuoteOdd :: "rat option \<Rightarrow> sandbox \<Rightarrow> sandbox" where
  "setQuoteOdd x s = s\<lparr>sbx_quoteOdd := x\<rparr>"

definition fund :: "string \<Rightarrow> string \<Rightarrow> sandbox \<Rightarrow> sandbox res" where
  "fund currency amount s =
     bindE (toCents amount) (\<lambda>c.
       Inr (s\<lparr>sbx_balances := (sbx_balances s)(currency \<mapsto> \<lparr>sb_availableCents = c, sb_exposureCents = 0\<rparr>)\<rparr>))"

definition shiftBalance :: "string \<Rightarrow> int \<Rightarrow> sandbox \<Rightarrow> sandbox" where
  "shiftBalance currency deltaCents s =
     (let b = balanceOf currency s
      in s\<lparr>sbx_balances := (sbx_balances s)(currency \<mapsto>
             b\<lparr>sb_availableCents := sb_availableCents b + deltaCents\<rparr>)\<rparr>)"

definition placementsFor :: "string \<Rightarrow> sandbox \<Rightarrow> nat" where
  "placementsFor key s = (if sbx_get key s \<noteq> None then 1 else 0)"

definition placeCallsFor :: "string \<Rightarrow> sandbox \<Rightarrow> nat" where
  "placeCallsFor key s = sbx_placeCalls s key"

definition currencyOf :: "operator_order \<Rightarrow> sandbox \<Rightarrow> string" where
  "currencyOf order s =
     (case oo_externalOrderId order of None \<Rightarrow> ''EUR''
      | Some x \<Rightarrow> (case sbx_currencies s x of None \<Rightarrow> ''EUR'' | Some c \<Rightarrow> c))"

text \<open>The orders of the book are shared objects: settling one rewrites it under its key.\<close>

definition set_booked :: "string \<Rightarrow> (operator_order \<Rightarrow> operator_order) \<Rightarrow> sandbox \<Rightarrow> sandbox" where
  "set_booked key f s = s\<lparr>sbx_book := map (\<lambda>(k, v). (k, if k = key then f v else v)) (sbx_book s)\<rparr>"

definition settled_payout :: "decision_outcome \<Rightarrow> int \<Rightarrow> rat \<Rightarrow> int" where
  "settled_payout outcome stake price =
     (if outcome = WON then stake + winningProfitCents stake price
      else if outcome = VOID then stake else 0)"

text \<open>Settling mutates the balance and the status before it writes the payout.\<close>

definition sandbox_settle ::
  "string \<Rightarrow> decision_outcome \<Rightarrow> int \<Rightarrow> sandbox \<Rightarrow> unit res \<times> sandbox" where
  "sandbox_settle externalOrderId outcome now s =
     (let refuse = (Inl (PlainError (''Ordre sandbox '' @ externalOrderId @ '' non reglable'')), s)
      in case find_row (\<lambda>(k, v). oo_externalOrderId v = Some externalOrderId) (sbx_book s) of
        None \<Rightarrow> refuse
      | Some (key, order) \<Rightarrow>
          (case (oo_status order = Op_ACCEPTED, oo_acceptedStake order, oo_acceptedOdd order) of
             (True, Some stake, Some (Num price)) \<Rightarrow>
               (case toCents stake of
                  Inl e \<Rightarrow> (Inl e, s)
                | Inr cents \<Rightarrow>
                    (let payout = settled_payout outcome cents price;
                         currency = currencyOf order s;
                         b = balanceOf currency s;
                         s1 = set_booked key
                           (\<lambda>v. v\<lparr>oo_status := (if outcome = VOID then Op_VOIDED else Op_SETTLED)\<rparr>)
                           (s\<lparr>sbx_balances := (sbx_balances s)(currency \<mapsto>
                              \<lparr>sb_availableCents = sb_availableCents b + payout,
                               sb_exposureCents = sb_exposureCents b - cents\<rparr>)\<rparr>)
                     in case fromCents payout of
                          Inl e \<Rightarrow> (Inl e, s1)
                        | Inr text \<Rightarrow> (Inr (), set_booked key
                            (\<lambda>v. v\<lparr>oo_payout := Some text, oo_settledAt := Some now\<rparr>) s1)))
           | _ \<Rightarrow> refuse))"

definition sandbox_reset :: "sandbox \<Rightarrow> sandbox" where
  "sandbox_reset s =
     s\<lparr>sbx_book := [], sbx_hiddenReads := (\<lambda>_. 0), sbx_placeCalls := (\<lambda>_. 0),
       sbx_balances := (\<lambda>_. None), sbx_queue := [], sbx_quoteOdd := Some (19 / 10),
       sbx_lastReceiptHash := None\<rparr>"

section \<open>The operator port\<close>

definition sandbox_getExecutableQuote ::
  "quote_request \<Rightarrow> sandbox \<Rightarrow> operator_quote option res \<times> sandbox" where
  "sandbox_getExecutableQuote input s =
     (Inr (case sbx_quoteOdd s of None \<Rightarrow> None
           | Some x \<Rightarrow> Some \<lparr>oq_snapshotId = None, oq_oddValue = x, oq_capturedAt = qr_at input,
                            oq_available = True\<rparr>), s)"

definition external_id :: "nat \<Rightarrow> string" where
  "external_id n = ''SBX-'' @ pad_start 6 CHR ''0'' (show_nat n)"

definition sandbox_receipt :: "string \<Rightarrow> place_order_request \<Rightarrow> json" where
  "sandbox_receipt externalOrderId input =
     JObj [(''externalOrderId'', JStr externalOrderId),
           (''acceptedOdd'', JNum (Num (po_requestedOdd input))),
           (''acceptedStake'', JStr (po_stake input)),
           (''sessionToken'', JStr ''sandbox-session-secret''),
           (''operatorAccount'', JObj [(''email'', JStr ''punter@sandbox.test''),
                                       (''accountNumber'', JStr ''0001234567'')])]"

text \<open>\<open>newOrder\<close>: the sequence has advanced even when the stake does not parse.\<close>

definition newOrder ::
  "(string \<Rightarrow> string) \<Rightarrow> int \<Rightarrow> place_order_request \<Rightarrow> sandbox \<Rightarrow> operator_order res \<times> sandbox" where
  "newOrder sha now input s0 =
     (let s = s0\<lparr>sbx_sequence := sbx_sequence s0 + 1\<rparr>;
          externalOrderId = external_id (sbx_sequence s)
      in case toCents (po_stake input) of
           Inl e \<Rightarrow> (Inl e, s)
         | Inr cents \<Rightarrow>
             (let b = balanceOf (po_currency input) s;
                  receiptHash = sha (externalOrderId @ ''|'' @ po_idempotencyKey input @ ''|''
                                  @ show_odd (po_requestedOdd input) @ ''|'' @ po_stake input)
              in (Inr \<lparr>oo_externalOrderId = Some externalOrderId,
                       oo_idempotencyKey = po_idempotencyKey input, oo_status = Op_ACCEPTED,
                       oo_acceptedOdd = Some (Num (po_requestedOdd input)),
                       oo_acceptedStake = Some (po_stake input), oo_acceptedAt = Some now,
                       oo_receiptHash = Some receiptHash, oo_payout = None, oo_settledAt = None,
                       oo_rawReceipt = sandbox_receipt externalOrderId input\<rparr>,
                  s\<lparr>sbx_balances := (sbx_balances s)(po_currency input \<mapsto>
                        \<lparr>sb_availableCents = sb_availableCents b - cents,
                         sb_exposureCents = sb_exposureCents b + cents\<rparr>),
                    sbx_lastReceiptHash := Some receiptHash,
                    sbx_currencies := (sbx_currencies s)(externalOrderId \<mapsto> po_currency input)\<rparr>)))"

definition json_text :: "string option \<Rightarrow> json" where
  "json_text x = (case x of None \<Rightarrow> JNull | Some s \<Rightarrow> JStr s)"

definition sandbox_accepted :: "operator_order \<Rightarrow> place_order_result" where
  "sandbox_accepted order =
     PlaceAccepted
       \<lparr>ac_externalOrderId = json_text (oo_externalOrderId order),
        ac_acceptedOdd = (case oo_acceptedOdd order of None \<Rightarrow> JNull | Some n \<Rightarrow> JNum n),
        ac_acceptedStake = json_text (oo_acceptedStake order),
        ac_acceptedAt = (case oo_acceptedAt order of None \<Rightarrow> JNull | Some t \<Rightarrow> JDate (Some t)),
        ac_receiptHash = json_text (oo_receiptHash order),
        ac_rawReceipt = oo_rawReceipt order\<rparr>"

definition book_put :: "string \<Rightarrow> operator_order \<Rightarrow> sandbox \<Rightarrow> sandbox" where
  "book_put key order s =
     s\<lparr>sbx_book := (if sbx_get key s = None then sbx_book s @ [(key, order)]
                    else map (\<lambda>(k, v). (k, if k = key then order else v)) (sbx_book s))\<rparr>"

definition timeout_error :: exn where
  "timeout_error = PlainError ''Delai depasse (sandbox)''"

text \<open>Booking, then what the scenario answers.\<close>

definition book_and ::
  "(string \<Rightarrow> string) \<Rightarrow> int \<Rightarrow> place_order_request \<Rightarrow> sandbox
     \<Rightarrow> (operator_order \<Rightarrow> operator_order) \<Rightarrow> (operator_order \<Rightarrow> place_order_result res)
     \<Rightarrow> place_order_result res \<times> sandbox" where
  "book_and sha now input s adjust answer =
     (case newOrder sha now input s of
        (Inl e, s') \<Rightarrow> (Inl e, s')
      | (Inr order, s') \<Rightarrow>
          (answer (adjust order), book_put (po_idempotencyKey input) (adjust order) s'))"

definition malformed_reply :: "operator_order \<Rightarrow> place_order_result" where
  "malformed_reply order =
     PlaceAccepted
       \<lparr>ac_externalOrderId = json_text (oo_externalOrderId order), ac_acceptedOdd = JNum NaN,
        ac_acceptedStake = json_text (oo_acceptedStake order),
        ac_acceptedAt = JDate (oo_acceptedAt order), ac_receiptHash = JStr [],
        ac_rawReceipt = JObj [(''partial'', JBool True)]\<rparr>"

definition hide_once :: "string \<Rightarrow> sandbox \<Rightarrow> sandbox" where
  "hide_once key s = s\<lparr>sbx_hiddenReads := (sbx_hiddenReads s)(key := 1)\<rparr>"

definition run_scenario ::
  "(string \<Rightarrow> string) \<Rightarrow> int \<Rightarrow> place_order_request \<Rightarrow> sandbox_scenario \<Rightarrow> sandbox
     \<Rightarrow> place_order_result res \<times> sandbox" where
  "run_scenario sha now input scenario s =
     (case scenario of
        REJECT \<Rightarrow> (Inr (PlaceRejected ''MARKET_CLOSED'' (JObj [(''reasonCode'', JStr ''MARKET_CLOSED'')])), s)
      | MOVED \<Rightarrow> (Inr (PlaceRejected ''ODD_MOVED'' (JObj [(''reasonCode'', JStr ''ODD_MOVED'')])), s)
      | TIMEOUT_BEFORE_ACCEPT \<Rightarrow> (Inl timeout_error, s)
      | TIMEOUT_AFTER_ACCEPT \<Rightarrow> book_and sha now input s id (\<lambda>_. Inl timeout_error)
      | DELAYED \<Rightarrow>
          (case book_and sha now input s id (\<lambda>_. Inr (PlaceUnknown ''Accuse de reception retarde'')) of
             (Inl e, s') \<Rightarrow> (Inl e, s')
           | (Inr r, s') \<Rightarrow> (Inr r, hide_once (po_idempotencyKey input) s'))
      | MALFORMED \<Rightarrow> book_and sha now input s id (\<lambda>v. Inr (malformed_reply v))
      | DUPLICATE_RECEIPT \<Rightarrow>
          book_and sha now input s
            (\<lambda>v. case sbx_lastReceiptHash s of None \<Rightarrow> v | Some h \<Rightarrow> v\<lparr>oo_receiptHash := Some h\<rparr>)
            (\<lambda>v. Inr (sandbox_accepted v))
      | ACCEPT \<Rightarrow> book_and sha now input s id (\<lambda>v. Inr (sandbox_accepted v)))"

definition sandbox_placeOrder ::
  "(string \<Rightarrow> string) \<Rightarrow> int \<Rightarrow> place_order_request \<Rightarrow> sandbox \<Rightarrow> place_order_result res \<times> sandbox" where
  "sandbox_placeOrder sha now input s0 =
     (let key = po_idempotencyKey input;
          s = s0\<lparr>sbx_placeCalls := (sbx_placeCalls s0)(key := placeCallsFor key s0 + 1)\<rparr>
      in case sbx_get key s of
           Some already \<Rightarrow> (Inr (sandbox_accepted already), s)
         | None \<Rightarrow>
             (case sbx_queue s of
                [] \<Rightarrow> run_scenario sha now input ACCEPT s
              | scenario # rest \<Rightarrow> run_scenario sha now input scenario (s\<lparr>sbx_queue := rest\<rparr>)))"

definition sandbox_getOrderByIdempotencyKey :: "string \<Rightarrow> sandbox \<Rightarrow> operator_order option \<times> sandbox" where
  "sandbox_getOrderByIdempotencyKey key s =
     (if sbx_hiddenReads s key > 0
      then (None, s\<lparr>sbx_hiddenReads := (sbx_hiddenReads s)(key := sbx_hiddenReads s key - 1)\<rparr>)
      else (sbx_get key s, s))"

fun lookup_keys :: "string list \<Rightarrow> sandbox \<Rightarrow> operator_order_lookup list \<times> sandbox" where
  "lookup_keys [] s = ([], s)"
| "lookup_keys (k # ks) s =
     (case sandbox_getOrderByIdempotencyKey k s of (order, s1) \<Rightarrow>
        (case lookup_keys ks s1 of (rest, s2) \<Rightarrow>
           ((case order of Some v \<Rightarrow> Found k v | None \<Rightarrow> NotFound k) # rest, s2)))"

definition sandbox_getOrdersByIdempotencyKeys ::
  "string list \<Rightarrow> sandbox \<Rightarrow> operator_order_lookup list res \<times> sandbox" where
  "sandbox_getOrdersByIdempotencyKeys keys s =
     (case lookup_keys (uniq keys) s of (found, s') \<Rightarrow> (Inr found, s'))"

definition sandbox_getOrderByExternalId :: "string \<Rightarrow> sandbox \<Rightarrow> operator_order option" where
  "sandbox_getOrderByExternalId i s =
     map_option snd (find_row (\<lambda>(k, v). oo_externalOrderId v = Some i) (sbx_book s))"

definition sandbox_getBalance :: "string \<Rightarrow> sandbox \<Rightarrow> operator_balance res \<times> sandbox" where
  "sandbox_getBalance currency s =
     (let b = balanceOf currency s
      in (bindE (fromCents (sb_availableCents b)) (\<lambda>av.
          bindE (fromCents (sb_exposureCents b)) (\<lambda>ex.
            Inr \<lparr>ob_currency = currency, ob_available = av, ob_exposure = ex\<rparr>)),
          s\<lparr>sbx_balances := (sbx_balances s)(currency \<mapsto> b)\<rparr>))"

definition sandbox_port :: "(string \<Rightarrow> string) \<Rightarrow> int \<Rightarrow> sandbox port" where
  "sandbox_port sha now =
     \<lparr>port_kind = SANDBOX_KIND, port_operatorKey = ''sandbox'',
      port_getExecutableQuote = sandbox_getExecutableQuote,
      port_placeOrder = sandbox_placeOrder sha now,
      port_getOrdersByIdempotencyKeys = sandbox_getOrdersByIdempotencyKeys,
      port_getBalance = sandbox_getBalance\<rparr>"

end
