(* ===== verification/Samples.thy ===== *)
theory Samples
  imports Sandbox
begin

text \<open>
  A concrete state the witnesses evaluate: a control in \<open>SANDBOX\<close> with its policy and the
  evidence of the gates G1, G2 and G3, one account of 100.00 opened by one entry, a run and an
  eligible decision.
\<close>

definition sample_env :: env where
  "sample_env = \<lparr>env_now = 2000000, env_interlock = None, env_traceId = None,
     env_clockBefore = 2000000, env_clockAfter = 2000000, env_dbNow = 2000000,
     env_controlReadable = True\<rparr>"

definition sample_control :: execution_control where
  "sample_control = \<lparr>ctl_id = ''c1'', ctl_scope = ''GLOBAL'', ctl_mode = ''SANDBOX'', ctl_version = 4,
     ctl_activeRiskPolicyId = Some ''p1'', ctl_stopReason = None, ctl_stopSource = None,
     ctl_changedByUserId = Some ''u1'', ctl_changedAt = 1000\<rparr>"

definition sample_policy :: risk_policy where
  "sample_policy = \<lparr>pol_id = ''p1'', pol_version = 1, pol_currency = ''EUR'',
     pol_maxStakePerBet = ''10.00'', pol_maxDailyStake = ''50.00'', pol_maxDailyLoss = ''20.00'',
     pol_maxOpenExposure = ''30.00'', pol_maxQuoteAgeMs = 60000, pol_createdByUserId = Some ''u1''\<rparr>"

definition sample_evidence :: "gate_key \<Rightarrow> string \<Rightarrow> gate_evidence" where
  "sample_evidence g i = \<lparr>ev_id = i, ev_controlId = ''c1'', ev_gateKey = g, ev_periodFrom = 0,
     ev_periodTo = 500, ev_metrics = JNull, ev_reportHash = i, ev_verdict = GO,
     ev_approvedByUserId = ''u2'', ev_approvedAt = 900\<rparr>"

definition sample_account :: bankroll_account where
  "sample_account = \<lparr>acc_id = ''a1'', acc_mode = ''SANDBOX'', acc_operatorKey = ''sandbox'',
     acc_currency = ''EUR'', acc_availableBalance = ''100.00'', acc_reservedBalance = ''0.00'',
     acc_version = 2, acc_updatedAt = 500\<rparr>"

definition sample_entry :: ledger_entry where
  "sample_entry = \<lparr>le_accountId = ''a1'', le_orderId = None, le_entryKey = ''open:a1'',
     le_entryType = ADJUSTMENT, le_amount = ''100.00'', le_reservedDelta = ''0.00'',
     le_availableAfter = ''100.00'', le_reservedAfter = ''0.00'', le_currency = ''EUR'',
     le_accountVersion = 2, le_actorUserId = None, le_metadata = None, le_createdAt = 500\<rparr>"

definition sample_strategy :: backtest_strategy where
  "sample_strategy = \<lparr>bs_name = ''s'', bs_version = ''v1'', bs_entryRules = default_config, bs_markets = [''Buts match''],
     bs_minEdgePct = 1, bs_minConfidence = 0, bs_stakingType = FLAT, bs_stakingAmount = 10,
     bs_odds = \<lparr>so_source = [''ODDS_SNAPSHOT''], so_executionLatencyMs = 1000, so_maxQuoteAgeMs = None,
                so_bookmakerKey = None\<rparr>, bs_bankroll = 100\<rparr>"

definition sample_risk :: risk_snapshot where
  "sample_risk = \<lparr>rk_maxQuoteAgeMs = 120000, rk_executionLatencyMs = 1000, rk_bookmakerKey = None,
     rk_maxStakePerBet = Some ''10.00'', rk_maxOpenExposure = Some ''15.00''\<rparr>"

definition sample_run :: simulation_run where
  "sample_run = \<lparr>run_id = ''r1'', run_idempotencyKey = ''k'', run_name = ''n'', run_strategyVersion = ''v1'',
     run_strategySnapshot = sample_strategy, run_riskSnapshot = sample_risk, run_configHash = ''h'',
     run_currency = ''EUR'', run_initialBankroll = ''100.00'', run_status = Run_RUNNING,
     run_requestedByUserId = None, run_startedAt = 0, run_stoppedAt = None, run_lastTickAt = None,
     run_createdAt = 0\<rparr>"

definition sample_decision :: bet_decision where
  "sample_decision = \<lparr>dec_id = ''d1'', dec_simulationRunId = ''r1'', dec_signalKey = ''s1'',
     dec_idempotencyKey = ''i1'', dec_fixtureId = ''f1'', dec_providerFixtureId = ''77'',
     dec_teamId = None, dec_isHomeTeam = True, dec_marketType = ''m'', dec_marketKey = ''TEAM_GOAL_1H'',
     dec_selectionKey = ''HOME_YES'', dec_selection = ''s'', dec_ruleName = ''n'',
     dec_elapsedAtDecision = None, dec_minAcceptableOdd = 3 / 2, dec_status = Dec_ELIGIBLE,
     dec_rejectionCode = None, dec_decidedAt = 1990000, dec_currency = ''EUR'', dec_stake = Some ''5.00'',
     dec_decisionOddsSnapshotId = None, dec_decisionOdd = Some 2, dec_decisionProviderKey = None,
     dec_decisionBookmakerKey = None, dec_decisionObservedAt = Some 1990000,
     dec_decisionReceivedAt = Some 1990000, dec_executionDueAt = None,
     dec_executableOddsSnapshotId = None, dec_executableOdd = None, dec_executableObservedAt = None,
     dec_executableReceivedAt = None, dec_slippagePct = None, dec_executedAt = None,
     dec_outcome = None, dec_profit = None, dec_settledAt = None\<rparr>"

definition sample_db :: db where
  "sample_db = \<lparr>controls = [sample_control], policies = [sample_policy],
     evidence = [sample_evidence G1 ''e1'', sample_evidence G2 ''e2'', sample_evidence G3 ''e3''], audits = [],
     accounts = [sample_account], entries = [sample_entry], runs = [sample_run],
     decisions = [sample_decision], orders = [], receipts = [], recRuns = [], recItems = []\<rparr>"

definition sample_sha :: "string \<Rightarrow> string" where
  "sample_sha s = replicate 64 CHR ''a''"

definition sample_ports :: "execution_mode \<Rightarrow> sandbox port option" where
  "sample_ports m = (if m = SANDBOX then Some (sandbox_port sample_sha 2000000) else None)"

definition sample_market :: sandbox where
  "sample_market = empty_sandbox\<lparr>sbx_balances := (\<lambda>c. if c = ''EUR''
     then Some \<lparr>sb_availableCents = 10000, sb_exposureCents = 0\<rparr> else None)\<rparr>"

lemmas sample_defs = sample_db_def sample_env_def sample_control_def sample_policy_def
  sample_evidence_def sample_account_def sample_entry_def sample_run_def sample_decision_def

end
