(* ===== verification/SampleState.thy ===== *)
theory SampleState
  imports Samples LedgerInvariant ControlInvariant
begin

text \<open>The sample state satisfies the invariants of the ledger and of the kill switch.\<close>

lemma sample_ledger_ok: "ledger_ok sample_db"
  by code_simp

lemma sample_gates_proved: "gates_proved sample_db ''c1'' SANDBOX"
  unfolding gates_proved_def
proof (intro allI impI ballI)
  have all: "list_all (\<lambda>k. list_all (\<lambda>g. list_ex (proves_gate ''c1'' g) (evidence sample_db))
      (gates_required_to_enter k)) [DISABLED, SIMULATION, SANDBOX]"
    by code_simp
  fix k g assume "k \<le> SANDBOX" and "g \<in> set (gates_required_to_enter k)"
  with all show "\<exists>x \<in> set (evidence sample_db). proves_gate ''c1'' g x"
    by (cases k) (auto simp: less_eq_execution_mode_def list_all_iff list_ex_iff)
qed

lemma sample_ctl: "controls sample_db = [sample_control]" "ctl_id sample_control = ''c1''"
  "ctl_scope sample_control = global_scope" "ctl_version sample_control = 4"
  "ctl_mode sample_control = mode_name SANDBOX" "ctl_activeRiskPolicyId sample_control = Some ''p1''"
  "find_policy (Some ''p1'') sample_db = Some sample_policy" "chk_policy sample_policy"
  by code_simp+

lemma sample_controls_ok: "controls_ok sample_db"
proof -
  have "control_ok sample_db sample_control"
    unfolding control_ok_def using sample_ctl sample_gates_proved by (auto intro!: exI [of _ SANDBOX])
  then show ?thesis using sample_ctl(1) by (simp add: controls_ok_def)
qed

end
