(* ===== verification/LedgerProperties.thy ===== *)
theory LedgerProperties
  imports SampleState
begin

text \<open>
  The properties of the money conversion, of the receipt redactor and of the ledger, each with
  a witness on the sample state.
\<close>

section \<open>Money and receipts\<close>


text \<open>
  C40: a redacted receipt is bounded in depth, width and number of keys, holds no prototype
  key, no number that is not finite, and masks every value under a sensitive key.
\<close>

lemma redacted_receipt_clean: "clean_json max_depth (redactReceipt 0 j)"
  using redactReceipt_clean [of 0 j] by simp

section \<open>The ledger\<close>

text \<open>
  C35: the available and the reserved balance never become negative, a reservation and a
  release move money between them without changing their sum, and a settlement changes the sum
  by the payout less the stake.
\<close>

lemma plan_conserves:
  assumes "planEntry t b m = Inr p"
  shows "0 \<le> availableAfterCents p \<and> 0 \<le> reservedAfterCents p
    \<and> (t \<in> {RESERVE, RELEASE} \<longrightarrow>
         availableAfterCents p + reservedAfterCents p = availableCents b + reservedCents b)
    \<and> (t = SETTLE \<longrightarrow> (\<exists>stake payout. stakeCents m = Some stake \<and> payoutCents m = Some payout
         \<and> availableAfterCents p + reservedAfterCents p
             = availableCents b + reservedCents b + payout - stake))"
proof -
  note f = planEntry_facts [OF assms]
  have "amountCents p + reservedDeltaCents p = 0" if "t \<in> {RESERVE, RELEASE}"
    using movementEffect_total [OF f(1) that] .
  moreover have "\<exists>stake payout. stakeCents m = Some stake \<and> payoutCents m = Some payout
      \<and> amountCents p = payout \<and> reservedDeltaCents p = - stake" if "t = SETTLE"
    using f(1) that by (auto split: option.splits if_splits)
  ultimately show ?thesis using f(2-5) by auto
qed

lemma plan_conserves_witness:
  "planEntry SETTLE \<lparr>availableCents = 9500, reservedCents = 500\<rparr>
     (no_movement\<lparr>stakeCents := Some 500, payoutCents := Some 900\<rparr>)
   = Inr \<lparr>amountCents = 900, reservedDeltaCents = - 500, availableAfterCents = 10400, reservedAfterCents = 0\<rparr>
   \<and> (0::int) \<le> 10400"
proof -
  have run: "planEntry SETTLE \<lparr>availableCents = 9500, reservedCents = 500\<rparr>
      (no_movement\<lparr>stakeCents := Some 500, payoutCents := Some 900\<rparr>)
    = Inr \<lparr>amountCents = 900, reservedDeltaCents = - 500, availableAfterCents = 10400, reservedAfterCents = 0\<rparr>"
    by code_simp
  with plan_conserves [OF run] show ?thesis by simp
qed

text \<open>
  C8: appending under a lock keeps the books consistent (every account equals the sum of its
  entries and its last entry, versions increase, keys are unique); it only ever adds at most
  one entry at the end, the entry is then found under its key, and a key already present is
  replayed without any change.
\<close>

lemma append_sound:
  assumes "ledger_ok d" and "lockAccount i d = Inr a" and "append a inp now d = Inr ((r, a'), d')"
  shows "ledger_ok d' \<and> find_entry (in_entryKey inp) d' = Some (res_entry r)
    \<and> res_replayed r = (find_entry (in_entryKey inp) d \<noteq> None)
    \<and> entries d' = entries d @ (if res_replayed r then [] else [res_entry r])
    \<and> (res_replayed r \<longrightarrow> d' = d)"
proof -
  have "locked_copy a d" using assms(2) by (auto dest: lockAccount_copy)
  note keeps = append_keeps_ledger_ok [OF assms(1) this assms(3)] append_recorded [OF assms(3)]
  from assms(3) show ?thesis
  proof (cases rule: append_cases)
    case (replayed e)
    with keeps show ?thesis by simp
  next
    case (written b p row)
    with keeps show ?thesis by simp
  qed
qed

definition sample_reserve_input :: append_input where
  "sample_reserve_input = stake_input RESERVE ''reserve:k'' 500 None None"

definition sample_append :: "append_result \<times> bankroll_account \<times> db" where
  "sample_append = (case append sample_account sample_reserve_input 600 sample_db of
     Inr ((r, a), d) \<Rightarrow> (r, a, d)
   | Inl _ \<Rightarrow> (\<lparr>res_entry = sample_entry, res_replayed = True\<rparr>, sample_account, empty_db))"

lemma append_sound_witness:
  "case sample_append of (r, a', d') \<Rightarrow>
     ledger_ok d' \<and> find_entry ''reserve:k'' d' = Some (res_entry r) \<and> \<not> res_replayed r
     \<and> entries d' = entries sample_db @ [res_entry r]"
proof -
  obtain r a' d' where s: "sample_append = (r, a', d')" by (cases sample_append) auto
  have "isl (append sample_account sample_reserve_input 600 sample_db) = False" by code_simp
  with s have run: "append sample_account sample_reserve_input 600 sample_db = Inr ((r, a'), d')"
    by (auto simp: sample_append_def split: sum.splits prod.splits)
  have "ledger_ok sample_db" by code_simp
  moreover have "lockAccount ''a1'' sample_db = Inr sample_account" by code_simp
  moreover have "find_entry (in_entryKey sample_reserve_input) sample_db = None" by code_simp
  moreover have "in_entryKey sample_reserve_input = ''reserve:k''" by code_simp
  ultimately show ?thesis using append_sound [OF _ _ run] by (auto simp: s)
qed

text \<open>
  Retrying is harmless: recording again, in order, any list of postings that has just been
  recorded succeeds only by returning the same entries, and changes nothing at all.
\<close>

lemma postings_replayed:
  assumes "ledger_ok d" and "journal.record_all qs d = Inr (es, d1)"
    and "journal.record_all qs d1 = Inr (es', d2)"
  shows "d2 = d1 \<and> es' = es"
  by (rule journal.record_all_again [OF assms])

definition sample_posting :: post_request where
  "sample_posting = \<lparr>post_accountId = ''a1'', post_input = sample_reserve_input, post_now = 600\<rparr>"

definition sample_posted :: "ledger_entry \<times> db" where
  "sample_posted = (case post sample_posting sample_db of Inr x \<Rightarrow> x | Inl _ \<Rightarrow> (sample_entry, empty_db))"

lemma sample_posted_runs:
  "post sample_posting sample_db = Inr (fst sample_posted, snd sample_posted)"
  "post sample_posting (snd sample_posted) = Inr (fst sample_posted, snd sample_posted)"
  by code_simp+

lemma postings_replayed_witness:
  "journal.record_all [sample_posting] (snd sample_posted) = Inr ([fst sample_posted], snd sample_posted)
   \<and> snd sample_posted = snd sample_posted \<and> [fst sample_posted] = [fst sample_posted]"
proof -
  have 1: "journal.record_all [sample_posting] sample_db = Inr ([fst sample_posted], snd sample_posted)"
    "journal.record_all [sample_posting] (snd sample_posted) = Inr ([fst sample_posted], snd sample_posted)"
    by (simp_all add: sample_posted_runs case_prod_beta)
  from postings_replayed [OF sample_ledger_ok 1] 1 show ?thesis by simp
qed

text \<open>
  The batched append, which writes the entries in one statement and the account once, has
  exactly the result and the effect of appending the entries one after the other.
\<close>

lemma batch_is_sequence:
  assumes "ledger_ok d" and "lockAccount i d = Inr a" and "appendBatch a inputs now d = Inr ((rs, a'), d')"
  shows "append_all a inputs now d = Inr ((rs, a'), d')"
proof -
  have "locked_copy a d" using assms(2) by (auto dest: lockAccount_copy)
  from appendBatch_append_all [OF assms(1) this assms(3)] show ?thesis .
qed

definition sample_batch :: "append_input list" where
  "sample_batch = [sample_reserve_input, stake_input RELEASE ''release:k'' 200 None None]"

lemma batch_is_sequence_witness:
  "append_all sample_account sample_batch 600 sample_db = appendBatch sample_account sample_batch 600 sample_db"
proof -
  have "\<not> isl (appendBatch sample_account sample_batch 600 sample_db)" by code_simp
  then obtain x where "appendBatch sample_account sample_batch 600 sample_db = Inr x"
    by (cases "appendBatch sample_account sample_batch 600 sample_db") auto
  moreover obtain rs a' d' where "x = ((rs, a'), d')" by (cases x) auto
  moreover have "lockAccount ''a1'' sample_db = Inr sample_account" by code_simp
  ultimately show ?thesis using batch_is_sequence [OF sample_ledger_ok] by auto
qed

text \<open>
  On consistent books the code's own check reports no divergence, for every account.
\<close>

lemma check_agrees:
  assumes "ledger_ok d" and "find_account i d = Some a"
  shows "\<exists>rep. verifyInvariant i d = Inr rep \<and> rep_ok rep
     \<and> availableCents (rep_account rep) = cents_of (acc_availableBalance a)
     \<and> reservedCents (rep_account rep) = cents_of (acc_reservedBalance a)"
proof -
  obtain rep where rep: "verifyInvariant i d = Inr rep" "rep_ok rep" using verifyInvariant_ok [OF assms] by blast
  have "account_balances a = Inr (rep_account rep)"
    using rep(1) assms(2)
    by (auto simp: verifyInvariant_def Let_def bindE_eq_Inr split: option.splits)
  with rep show ?thesis by (auto simp: account_balances_Inr cents_of_toCents)
qed

lemma check_agrees_witness:
  "\<exists>rep. verifyInvariant ''a1'' sample_db = Inr rep \<and> rep_ok rep
     \<and> availableCents (rep_account rep) = cents_of (acc_availableBalance sample_account)
     \<and> reservedCents (rep_account rep) = cents_of (acc_reservedBalance sample_account)"
proof (rule check_agrees [OF sample_ledger_ok])
  show "find_account ''a1'' sample_db = Some sample_account" by code_simp
qed

text \<open>
  Opening an account on consistent books keeps them consistent and leaves an account that
  holds exactly the requested balance, nothing reserved, with its opening entry recorded.
\<close>

lemma opened_account:
  assumes "ledger_ok d" and "openAccount newId mode operatorKey currency initial actor now d = Inr (a, d')"
  shows "ledger_ok d' \<and> find_account newId d' = Some a \<and> toCents (acc_availableBalance a) = toCents initial
    \<and> 0 < cents_of initial \<and> acc_reservedBalance a = ''0.00'' \<and> find_entry (''open:'' @ newId) d' \<noteq> None"
  using openAccount_ok [OF assms] by simp

definition sample_opened :: "bankroll_account \<times> db" where
  "sample_opened = (case openAccount ''a2'' SIMULATION ''paper'' ''EUR'' ''12.5'' None 700 sample_db of
     Inr x \<Rightarrow> x | Inl _ \<Rightarrow> (sample_account, empty_db))"

lemma opened_account_witness:
  "ledger_ok (snd sample_opened) \<and> find_account ''a2'' (snd sample_opened) = Some (fst sample_opened)
    \<and> acc_availableBalance (fst sample_opened) = ''12.50''"
proof -
  have run: "openAccount ''a2'' SIMULATION ''paper'' ''EUR'' ''12.5'' None 700 sample_db
      = Inr (fst sample_opened, snd sample_opened)"
    by code_simp
  have "acc_availableBalance (fst sample_opened) = ''12.50''" by code_simp
  with opened_account [OF sample_ledger_ok run] show ?thesis by blast
qed

end
