(* ===== verification/ControlProperties.thy ===== *)
theory ControlProperties
  imports Samples ControlInvariant
begin

text \<open>
  The properties of the kill switch and of the risk policies, with their witnesses.
\<close>

section \<open>Stopping\<close>

text \<open>
  A stop, manual or automatic, never fails: it leaves the control disabled, and from then
  on every engagement is refused, whatever the environment, until the mode is changed; stopping
  again answers with a stopped control and changes nothing; and a stop touches nothing but the
  control, the policies and the audit trail.
\<close>

lemma stop_blocks:
  "\<exists>snap d'. stop e newId reason actor source v d = Inr (snap, d') \<and> snap_mode snap = DISABLED
     \<and> (\<exists>m u. lockForExecution e' d' = Inl (ExecutionBlockedError m u))
     \<and> snap_mode (readControl e' d') = DISABLED
     \<and> (\<exists>snap'. stop e2 newId2 reason2 actor2 source2 v2 d' = Inr (snap', d') \<and> snap_mode snap' = DISABLED)
     \<and> d' = d\<lparr>controls := controls d', policies := policies d', audits := audits d'\<rparr>"
proof -
  from stop_leaves_disabled [of e newId reason actor source v d] obtain snap d' c where
    s: "stop e newId reason actor source v d = Inr (snap, d')" "snap_mode snap = DISABLED"
      "find_control d' = Some c" "ctl_mode c = ''DISABLED''" "control_frame d d'"
    by blast
  have "\<exists>m u. lockForExecution e' d' = Inl (ExecutionBlockedError m u)"
    by (rule lock_blocked_when_disabled) (simp add: s)
  moreover have "snap_mode (readControl e' d') = DISABLED"
    using s by (simp add: readControl_def) (simp add: toSnapshot_def)
  moreover from stop_again [OF s(3,4)] s(4)
  have "\<exists>snap'. stop e2 newId2 reason2 actor2 source2 v2 d' = Inr (snap', d') \<and> snap_mode snap' = DISABLED"
    by (auto simp: toSnapshot_def)
  ultimately show ?thesis using s by (auto simp: control_frame_def)
qed

section \<open>Changing mode\<close>







section \<open>The control over time\<close>

text \<open>
  C11: in every state that stops, mode changes, policies and evidence can reach, in any order
  and with the rest of the backend running, there is at most one control, its mode is a known
  one, every gate required up to that mode is proved by evidence attached to it, and above
  \<open>DISABLED\<close> it has an active policy that satisfies the constraints of policies.
\<close>

lemma reachable_control_proved:
  assumes "kill_switch.reach d" and "c \<in> set (controls d)"
  shows "controls d = [c] \<and> find_control d = Some c
    \<and> (\<exists>m. ctl_mode c = mode_name m \<and> gates_proved d (ctl_id c) m
         \<and> (m = DISABLED \<or> (\<exists>p. find_policy (ctl_activeRiskPolicyId c) d = Some p \<and> chk_policy p)))"
proof -
  from kill_switch.reach_inv [OF assms(1)] assms(2) have c: "controls d = [c]" "control_ok d c"
    by (auto simp: controls_ok_def)
  then obtain m where m: "ctl_mode c = mode_name m" "gates_proved d (ctl_id c) m"
      "m \<noteq> DISABLED \<longrightarrow> ctl_activeRiskPolicyId c \<noteq> None" by (auto simp: control_ok_def)
  have "\<exists>p. find_policy (ctl_activeRiskPolicyId c) d = Some p \<and> chk_policy p" if "m \<noteq> DISABLED"
    using c(2) m(3) that by (auto simp: control_ok_def)
  with c m show ?thesis by (auto simp: find_control_def control_ok_def)
qed

definition sample_policy_input :: create_policy_input where
  "sample_policy_input = \<lparr>cp_currency = ''EUR'', cp_maxStakePerBet = ''10'', cp_maxDailyStake = ''50'',
     cp_maxDailyLoss = ''20'', cp_maxOpenExposure = ''30'', cp_maxQuoteAgeMs = 60000, cp_activate = True,
     cp_expectedVersion = Some 1\<rparr>"

definition tx_state :: "'a tx \<Rightarrow> db \<Rightarrow> db" where
  "tx_state f d = snd (commit f d)"

definition sample_path :: "db list" where
  "sample_path =
     (let d1 = tx_state (stop sample_env ''c1'' ''boot'' None BOOTSTRAP None) empty_db;
          d2 = tx_state (createRiskPolicy sample_env ''p1'' sample_policy_input ''u1'') d1;
          d3 = tx_state (record_evidence (sample_evidence G1 ''e1'')) d2;
          d4 = tx_state (record_evidence (sample_evidence G2 ''e2'')) d3;
          d5 = tx_state (changeMode sample_env ''n'' \<lparr>cm_targetMode = SIMULATION, cm_reason = ''go'',
                 cm_expectedVersion = 2, cm_gateEvidenceIds = [''e1'', ''e2'']\<rparr> ''u1'') d4
      in [d1, d2, d3, d4, d5])"

lemma commit_step:
  "(\<And>x d'. f d = Inr (x, d') \<Longrightarrow> control_step d d') \<Longrightarrow> control_step d (tx_state f d)"
  by (auto simp: tx_state_def commit_def split: sum.splits intro: step_other)

lemma sample_path_reached: "kill_switch.reach (sample_path ! 4)"
proof -
  have 0: "kill_switch.reach empty_db"
    by (rule kill_switch.reach_init) (simp add: control_init_def empty_db_def)
  note go = kill_switch.reach_step [OF _ commit_step]
  show ?thesis
    unfolding sample_path_def Let_def
    by (simp, intro go 0) (auto intro: control_step.intros)
qed

lemma reachable_control_proved_witness:
  "\<exists>c. find_control (sample_path ! 4) = Some c \<and> ctl_mode c = ''SIMULATION''
     \<and> gates_proved (sample_path ! 4) (ctl_id c) SIMULATION"
proof -
  have "\<exists>c. controls (sample_path ! 4) = [c] \<and> ctl_mode c = ''SIMULATION''"
  proof -
    have "map ctl_mode (controls (sample_path ! 4)) = [''SIMULATION'']" by code_simp
    then show ?thesis by (auto simp: map_eq_Cons_conv)
  qed
  then obtain c where c: "controls (sample_path ! 4) = [c]" "ctl_mode c = ''SIMULATION''" by blast
  then have "c \<in> set (controls (sample_path ! 4))" by simp
  from reachable_control_proved [OF sample_path_reached this] c obtain m where
    "find_control (sample_path ! 4) = Some c" "ctl_mode c = mode_name m" "gates_proved (sample_path ! 4) (ctl_id c) m"
    by blast
  moreover have "m = SIMULATION" using calculation(2) c(2) by (cases m) auto
  ultimately show ?thesis using c by auto
qed

text \<open>
  Along any run from a reachable state the control keeps its identity, its version never
  decreases, and a version read twice guarantees that nothing of the row changed in between:
  the expected version a caller sends is a sound check.
\<close>

lemma version_identifies_control:
  assumes "kill_switch.reach d" and "kill_switch.run d d'" and "controls d = [c]"
  shows "\<exists>c'. controls d' = [c'] \<and> ctl_id c' = ctl_id c \<and> ctl_version c \<le> ctl_version c'
    \<and> (ctl_version c' = ctl_version c \<longrightarrow> c' = c)"
  using run_control_row [OF assms(2,1)] assms(3) by (auto simp: control_row_run_def)

lemma version_identifies_control_witness:
  "\<exists>c c'. controls (sample_path ! 4) = [c] \<and> controls (tx_state (stop sample_env ''n'' ''x'' None MANUAL None) (sample_path ! 4)) = [c']
     \<and> ctl_id c' = ctl_id c \<and> ctl_version c < ctl_version c'"
proof -
  let ?d = "sample_path ! 4" and ?d' = "tx_state (stop sample_env ''n'' ''x'' None MANUAL None) (sample_path ! 4)"
  have "length (controls ?d) = 1" by code_simp
  then obtain c where c: "controls ?d = [c]" by (auto simp: length_Suc_conv)
  have "kill_switch.run ?d ?d'"
    by (rule kill_switch.run_step [OF kill_switch.run_refl commit_step]) (auto intro: step_stop)
  from version_identifies_control [OF sample_path_reached this c] obtain c' where
    c': "controls ?d' = [c']" "ctl_id c' = ctl_id c" "ctl_version c \<le> ctl_version c'" by blast
  have "map ctl_version (controls ?d) \<noteq> map ctl_version (controls ?d')" by code_simp
  with c c' show ?thesis by auto
qed

end
