(* ===== verification/RiskProperties.thy ===== *)
theory RiskProperties
  imports RiskSafety SampleState
begin

text \<open>
  What the risk engine guarantees: which requests it admits, which refusals also stop the
  execution, what a granted reservation leaves in the books, that a refusal writes nothing in
  them, and what a settlement that reaches the largest loss of the day does.
\<close>

definition sample_risk :: "int \<Rightarrow> int \<Rightarrow> risk_input" where
  "sample_risk stake pnl = \<lparr>ri_policy = sample_policy, ri_stakeCents = stake, ri_availableCents = 10000,
     ri_reservedCents = 0, ri_dailyStakedCents = 0, ri_dailySettledPnlCents = pnl, ri_quoteAgeMs = Num 0\<rparr>"

text \<open>
  Under a policy that satisfies its table's constraints the limits are always evaluated
  without an error; a stake is admitted exactly when the quote is fresh, the stake is positive and
  within the largest stake, the loss of the day is below the largest loss, and the stakes of the
  day, the open exposure and the available balance all leave room for it; and a refusal also asks
  for an automatic stop exactly when the quote is not fresh, or when the stake itself is
  acceptable and the day is over: its largest loss or its largest stake reached.
\<close>

lemma limits_decide:
  assumes "chk_policy (ri_policy r)"
  shows "\<exists>v. evaluateRisk r = Inr v \<and> (v = RiskOk \<longleftrightarrow> admissible r)
    \<and> ((\<exists>code limit t. v = RiskReject code limit (Some t))
        = (\<not> quote_age_ok (ri_quoteAgeMs r) (pol_maxQuoteAgeMs (ri_policy r)) \<or> day_is_over r))"
  using evaluateRisk_total [OF assms] evaluateRisk_decides [OF assms] evaluateRisk_stops [OF assms] by auto

lemma limits_decide_witness:
  "admissible (sample_risk 500 0) \<and> evaluateRisk (sample_risk 500 0) = Inr RiskOk
    \<and> \<not> admissible (sample_risk 1001 0)
    \<and> (\<exists>code limit t. evaluateRisk (sample_risk 500 (- 2000)) = Inr (RiskReject code limit (Some t)))"
proof -
  have "chk_policy (ri_policy (sample_risk 500 0))" and a: "admissible (sample_risk 500 0)"
    and "\<not> admissible (sample_risk 1001 0)" by code_simp+
  moreover have "chk_policy (ri_policy (sample_risk 500 (- 2000)))" and "day_is_over (sample_risk 500 (- 2000))"
    by code_simp+
  ultimately show ?thesis
    using limits_decide [of "sample_risk 500 0"] limits_decide [of "sample_risk 500 (- 2000)"] by auto
qed

text \<open>
  C9: a new reservation is granted only while execution is allowed, with the clock in tolerance;
  after it, its entry is in the books under its key, the books are consistent, and the account is
  within every limit of the active policy: open exposure, stakes of the day, loss of the day.
\<close>

lemma granted_within_limits:
  assumes "ledger_ok d" and "controls_ok d"
    and "reserveWithin e q d = (s, Inr (Reserved entry False, d'))"
  shows "\<exists>c p. lockForExecution e d = Inr c \<and> find_policy (ctl_activeRiskPolicyId c) d = Some p
    \<and> assertClockWithinTolerance e = Inr ()
    \<and> within_limits p (rsv_accountId q) (utcDayStart (env_now e)) d'
    \<and> 0 < cents_of (rsv_stake q) \<and> cents_of (rsv_stake q) \<le> cents_of (pol_maxStakePerBet p)
    \<and> ledger_ok d' \<and> find_entry (rsv_entryKey q) d' = Some entry"
proof -
  from reserveWithin_limits [OF assms(3,1,2)] obtain c p where
    "lockForExecution e d = Inr c" "find_policy (ctl_activeRiskPolicyId c) d = Some p"
    "assertClockWithinTolerance e = Inr ()"
    "within_limits p (rsv_accountId q) (utcDayStart (env_now e)) d'"
    "0 < cents_of (rsv_stake q)" "cents_of (rsv_stake q) \<le> cents_of (pol_maxStakePerBet p)" .
  with reserveWithin_effect [OF assms(3,1)] show ?thesis by blast
qed

definition sample_request :: "string \<Rightarrow> reserve_stake_request" where
  "sample_request stake = \<lparr>rsv_accountId = ''a1'', rsv_entryKey = ''reserve:k1'', rsv_stake = stake,
     rsv_quoteCapturedAt = 1990000, rsv_orderId = None, rsv_actorUserId = None\<rparr>"

definition sample_grant :: ledger_entry where
  "sample_grant = sample_entry\<lparr>le_entryKey := ''reserve:k1'', le_entryType := RESERVE, le_amount := ''-5.00'',
     le_reservedDelta := ''5.00'', le_availableAfter := ''95.00'', le_reservedAfter := ''5.00'',
     le_accountVersion := 3, le_createdAt := 2000000\<rparr>"

definition sample_granted :: db where
  "sample_granted = sample_db\<lparr>
     accounts := [sample_account\<lparr>acc_availableBalance := ''95.00'', acc_reservedBalance := ''5.00'', acc_version := 3,
       acc_updatedAt := 2000000\<rparr>],
     entries := [sample_entry, sample_grant]\<rparr>"

definition sample_refused :: "reservation_result \<times> db" where
  "sample_refused = reserveStake sample_env ''n'' (sample_request ''11.00'') sample_db"

text \<open>The same account, with a largest loss of 5.00 a day, when its bet is lost.\<close>

definition sample_at_risk :: db where
  "sample_at_risk = sample_granted\<lparr>policies := [sample_policy\<lparr>pol_maxDailyLoss := ''5.00''\<rparr>]\<rparr>"

definition sample_losing :: "(ledger_entry \<times> db) res" where
  "sample_losing = settleStake sample_env ''n'' ''a1'' ''settle:k1'' ''5.00'' ''0'' None sample_at_risk"

lemma sample_risk_evaluated:
  "reserveWithin sample_env (sample_request ''5.00'') sample_db = (None, Inr (Reserved sample_grant False, sample_granted))"
  "reserveWithin sample_env (sample_request ''5.00'') sample_granted = (None, Inr (Reserved sample_grant True, sample_granted))"
  "fst sample_refused = Refused LIMIT_EXCEEDED (Some MAX_STAKE_PER_BET) ''Limite MAX_STAKE_PER_BET''"
  "ledger_ok sample_at_risk"
  "case sample_losing of Inl _ \<Rightarrow> False | Inr (entry, d') \<Rightarrow>
     le_amount entry = ''0.00'' \<and> pnl_since ''a1'' (utcDayStart (env_now sample_env)) d' = - 500"
  "find_policy (snap_activeRiskPolicyId (readControl sample_env sample_at_risk)) sample_at_risk
     = Some (sample_policy\<lparr>pol_maxDailyLoss := ''5.00''\<rparr>)"
  "cents_of ''5.00'' = 500"
  by code_simp+

lemma granted_within_limits_witness:
  "le_reservedDelta sample_grant = ''5.00''
   \<and> (\<exists>c p. lockForExecution sample_env sample_db = Inr c \<and> find_policy (ctl_activeRiskPolicyId c) sample_db = Some p
        \<and> within_limits p ''a1'' (utcDayStart 2000000) sample_granted)"
proof -
  have "rsv_accountId (sample_request ''5.00'') = ''a1''" "env_now sample_env = 2000000"
    by (simp_all add: sample_request_def sample_env_def)
  then have "\<exists>c p. lockForExecution sample_env sample_db = Inr c \<and> find_policy (ctl_activeRiskPolicyId c) sample_db = Some p
        \<and> within_limits p ''a1'' (utcDayStart 2000000) sample_granted"
    using granted_within_limits [OF sample_ledger_ok sample_controls_ok sample_risk_evaluated(1)] by metis
  then show ?thesis by (simp add: sample_grant_def)
qed

text \<open>
  A refused reservation, whatever the cause (a limit, a stopped control, an unknown account,
  a failing database), writes nothing in the books nor in the pipeline's tables: the most it does
  is to stop the execution.
\<close>

lemma refusal_writes_nothing:
  assumes "reserveStake e newId q d = (Refused code limit reason, d')"
  shows "control_frame d d' \<and> accounts d' = accounts d \<and> entries d' = entries d \<and> orders d' = orders d"
proof (cases rule: reserveStake_cases [of e q d newId])
  case (written s entry re d1)
  with assms show ?thesis by simp
next
  case (refused s code' l m)
  with assms have "d' = applyStop e newId s d" by simp
  then have "control_frame d d'" by simp
  with control_frame_tables [OF this] show ?thesis by simp
qed

lemma refusal_writes_nothing_witness:
  "entries (snd sample_refused) = entries sample_db \<and> fst sample_refused = Refused LIMIT_EXCEEDED (Some MAX_STAKE_PER_BET) ''Limite MAX_STAKE_PER_BET''"
proof -
  note f = sample_risk_evaluated(3)
  from f have "reserveStake sample_env ''n'' (sample_request ''11.00'') sample_db
      = (Refused LIMIT_EXCEEDED (Some MAX_STAKE_PER_BET) ''Limite MAX_STAKE_PER_BET'', snd sample_refused)"
    by (simp add: sample_refused_def prod_eq_iff)
  from refusal_writes_nothing [OF this] f show ?thesis by simp
qed

text \<open>
  Asking again for a reservation that has been made returns the same entry, and changes
  nothing at all, however the limits have moved in between.
\<close>

lemma reservation_replayed:
  assumes "reserveWithin e q d = (s, Inr (result, d'))" and "find_entry (rsv_entryKey q) d = Some x"
  shows "result = Reserved x True \<and> d' = d \<and> s = None"
  by (rule reserveWithin_replayed [OF assms])

lemma reservation_replayed_witness:
  "\<exists>x. find_entry ''reserve:k1'' sample_granted = Some x
    \<and> reserveWithin sample_env (sample_request ''5.00'') sample_granted = (None, Inr (Reserved x True, sample_granted))"
proof -
  have "rsv_entryKey (sample_request ''5.00'') = ''reserve:k1''" by (simp add: sample_request_def)
  moreover have "find_entry ''reserve:k1'' sample_granted = Some sample_grant"
    by (simp add: find_entry_def sample_granted_def sample_grant_def sample_entry_def)
  ultimately show ?thesis using reservation_replayed [OF sample_risk_evaluated(2)] sample_risk_evaluated(2) by simp
qed

text \<open>
  A settlement is recorded even when the execution is stopped; the books stay consistent, and
  if after it the loss of the day has reached the largest loss of the active policy, the
  execution is stopped when the call returns.
\<close>

lemma loss_stops:
  assumes "ledger_ok d" and "settleStake e newId i k stake payout oid d = Inr (entry, d')"
  shows "ledger_ok d' \<and> find_entry k d' = Some entry
    \<and> (\<forall>p. find_policy (snap_activeRiskPolicyId (readControl e d)) d = Some p
         \<longrightarrow> cents_of (pol_maxDailyLoss p) \<le> max 0 (- pnl_since i (utcDayStart (env_now e)) d')
         \<longrightarrow> (\<exists>c. find_control d' = Some c \<and> ctl_mode c = ''DISABLED''))"
proof -
  from settleStake_effect [OF assms(2,1)] obtain d1 reached where
    body: "settle_body e i k stake payout oid d = Inr ((entry, reached), d1)"
    and frame: "control_frame d1 d'" and ok: "ledger_ok d'" "find_entry k d' = Some entry"
    and st: "reached \<Longrightarrow> \<exists>c. find_control d' = Some c \<and> ctl_mode c = ''DISABLED''"
    by blast
  have "pnl_since i t d' = pnl_since i t d1" for t
    using control_frame_tables [OF frame] by (simp add: pnl_since_def sum_cents_def)
  with settle_body_effect [OF body assms(1)] ok st show ?thesis by auto
qed

lemma loss_stops_witness:
  "\<exists>entry d'. sample_losing = Inr (entry, d') \<and> le_amount entry = ''0.00''
     \<and> (\<exists>c. find_control d' = Some c \<and> ctl_mode c = ''DISABLED'')"
proof -
  from sample_risk_evaluated(5) obtain entry d' where run: "sample_losing = Inr (entry, d')" "le_amount entry = ''0.00''"
    "pnl_since ''a1'' (utcDayStart (env_now sample_env)) d' = - 500"
    by (auto split: sum.splits)
  moreover note loss_stops [OF sample_risk_evaluated(4) run(1) [unfolded sample_losing_def]]
  ultimately show ?thesis using sample_risk_evaluated(6,7) by auto
qed

end
