(* ===== verification/SandboxSafety.thy ===== *)
theory SandboxSafety
  imports Sandbox
begin

text \<open>
  What the sandbox operator guarantees, over any sequence of placements, readings and
  settlements: one booking per key, identifiers never reused, and an exposure equal to the
  stakes of the open bookings of its currency.
\<close>

section \<open>Identifiers\<close>

lemma nat_of_digits_zeros: "nat_of_digits 0 (replicate n CHR ''0'' @ s) = nat_of_digits 0 s"
  by (induction n) (simp_all add: digit_value_def)

lemma external_id_inj [simp]: "(external_id m = external_id n) = (m = n)"
proof
  assume "external_id m = external_id n"
  then have "nat_of_digits 0 (pad_start 6 CHR ''0'' (show_nat m))
           = nat_of_digits 0 (pad_start 6 CHR ''0'' (show_nat n))"
    by (simp add: external_id_def)
  then show "m = n" by (simp add: pad_start_def nat_of_digits_zeros)
qed simp

section \<open>The invariant\<close>

definition booked_ids :: "sandbox \<Rightarrow> string option list" where
  "booked_ids s = List.map (\<lambda>(k, v). oo_externalOrderId v) (sbx_book s)"

definition open_stake :: "(string \<Rightarrow> string option) \<Rightarrow> string \<Rightarrow> string \<times> operator_order \<Rightarrow> int" where
  "open_stake currencies c = (\<lambda>(k, v).
     if oo_status v = Op_ACCEPTED
        \<and> (case oo_externalOrderId v of None \<Rightarrow> ''EUR''
           | Some x \<Rightarrow> (case currencies x of None \<Rightarrow> ''EUR'' | Some y \<Rightarrow> y)) = c
     then (case oo_acceptedStake v of None \<Rightarrow> 0 | Some t \<Rightarrow> cents_of t) else 0)"

definition book_row_ok :: "nat \<Rightarrow> string \<times> operator_order \<Rightarrow> bool" where
  "book_row_ok n = (\<lambda>(k, v). oo_idempotencyKey v = k
     \<and> (\<exists>i. 1 \<le> i \<and> i \<le> n \<and> oo_externalOrderId v = Some (external_id i))
     \<and> (\<exists>t. oo_acceptedStake v = Some t \<and> (\<exists>c. toCents t = Inr c))
     \<and> (\<exists>x. oo_acceptedOdd v = Some (Num x)))"

definition exposure_ok :: "sandbox \<Rightarrow> bool" where
  "exposure_ok s =
     (\<forall>c. sb_exposureCents (balanceOf c s)
          = sum_list (List.map (open_stake (sbx_currencies s) c) (sbx_book s)))"

definition sandbox_ok :: "sandbox \<Rightarrow> bool" where
  "sandbox_ok s =
     (distinct (List.map fst (sbx_book s)) \<and> distinct (booked_ids s)
      \<and> list_all (book_row_ok (sbx_sequence s)) (sbx_book s) \<and> exposure_ok s)"

lemma currencyOf_open:
  "open_stake (sbx_currencies s) c (k, v) =
     (if oo_status v = Op_ACCEPTED \<and> currencyOf v s = c
      then (case oo_acceptedStake v of None \<Rightarrow> 0 | Some t \<Rightarrow> cents_of t) else 0)"
  by (simp add: open_stake_def currencyOf_def)

lemma empty_sandbox_ok: "sandbox_ok empty_sandbox"
  by (simp add: sandbox_ok_def empty_sandbox_def booked_ids_def exposure_ok_def balanceOf_def)

lemma sandbox_ok_cong:
  assumes "sbx_book t = sbx_book s" "sbx_sequence t = sbx_sequence s" "sbx_balances t = sbx_balances s"
    "sbx_currencies t = sbx_currencies s"
  shows "sandbox_ok t = sandbox_ok s"
  using assms by (simp add: sandbox_ok_def booked_ids_def exposure_ok_def balanceOf_def)

lemma book_row_ok_mono: "book_row_ok m r \<Longrightarrow> m \<le> n \<Longrightarrow> book_row_ok n r"
  by (force simp: book_row_ok_def)

lemma sbx_get_None: "sbx_get k s = None \<longleftrightarrow> k \<notin> fst ` set (sbx_book s)"
  by (simp add: sbx_get_def map_of_eq_None_iff)

section \<open>Placing\<close>

lemma newOrder_cases:
  obtains (unreadable) x where "newOrder sha now input s = (Inl x, s\<lparr>sbx_sequence := sbx_sequence s + 1\<rparr>)"
  | (created) c v s' where "newOrder sha now input s = (Inr v, s')" "toCents (po_stake input) = Inr c"
      "oo_externalOrderId v = Some (external_id (sbx_sequence s + 1))" "oo_status v = Op_ACCEPTED"
      "oo_idempotencyKey v = po_idempotencyKey input" "oo_acceptedStake v = Some (po_stake input)"
      "oo_acceptedOdd v = Some (Num (po_requestedOdd input))" "oo_acceptedAt v = Some now"
      "sbx_book s' = sbx_book s" "sbx_sequence s' = sbx_sequence s + 1"
      "sbx_placeCalls s' = sbx_placeCalls s" "sbx_queue s' = sbx_queue s"
      "sbx_currencies s' = (sbx_currencies s)(external_id (sbx_sequence s + 1) \<mapsto> po_currency input)"
      "\<And>x. balanceOf x s' = (if x = po_currency input
         then \<lparr>sb_availableCents = sb_availableCents (balanceOf x s) - c,
               sb_exposureCents = sb_exposureCents (balanceOf x s) + c\<rparr> else balanceOf x s)"
proof (cases "toCents (po_stake input)")
  case (Inl x)
  then show ?thesis by (intro unreadable [of x]) (simp add: newOrder_def)
next
  case (Inr c)
  then obtain v s' where e: "newOrder sha now input s = (Inr v, s')"
    by (simp add: newOrder_def Let_def)
  show ?thesis
    by (rule created [OF e Inr]) (use e Inr in \<open>auto simp: newOrder_def Let_def balanceOf_def\<close>)
qed

lemma book_put_new: "sbx_get k s = None \<Longrightarrow> sbx_book (book_put k v s) = sbx_book s @ [(k, v)]"
  by (simp add: book_put_def)

lemma book_put_sel [simp]:
  "sbx_sequence (book_put k v s) = sbx_sequence s" "sbx_currencies (book_put k v s) = sbx_currencies s"
  "sbx_balances (book_put k v s) = sbx_balances s" "sbx_placeCalls (book_put k v s) = sbx_placeCalls s"
  by (simp_all add: book_put_def)

lemma sbx_get_book_cong: "sbx_book t = sbx_book s \<Longrightarrow> sbx_get k t = sbx_get k s"
  by (simp add: sbx_get_def)

text \<open>Only the receipt of a booked order may differ from the one created.\<close>

definition keeps_order :: "(operator_order \<Rightarrow> operator_order) \<Rightarrow> bool" where
  "keeps_order f = (\<forall>v. \<exists>h. f v = v\<lparr>oo_receiptHash := h\<rparr>)"

lemma keeps_order_id [simp]: "keeps_order id"
  unfolding keeps_order_def
proof
  fix v :: operator_order
  have "id v = v\<lparr>oo_receiptHash := oo_receiptHash v\<rparr>" by simp
  then show "\<exists>h. id v = v\<lparr>oo_receiptHash := h\<rparr>" by blast
qed

lemma keeps_order_duplicate [simp]:
  "keeps_order (\<lambda>v. case x of None \<Rightarrow> v | Some h \<Rightarrow> v\<lparr>oo_receiptHash := Some h\<rparr>)"
  using keeps_order_id by (cases x) (auto simp: keeps_order_def)

lemma book_and_ok:
  assumes ok: "sandbox_ok s" and free: "sbx_get (po_idempotencyKey input) s = None" and f: "keeps_order f"
  shows "sandbox_ok (snd (book_and sha now input s f g))"
proof (cases rule: newOrder_cases [of sha now input s])
  case (unreadable x)
  have "sandbox_ok (s\<lparr>sbx_sequence := sbx_sequence s + 1\<rparr>)"
    using ok by (auto simp: sandbox_ok_def booked_ids_def exposure_ok_def balanceOf_def list_all_iff
        intro: book_row_ok_mono)
  then show ?thesis by (simp add: book_and_def unreadable)
next
  case (created c v s')
  obtain h where h: "f v = v\<lparr>oo_receiptHash := h\<rparr>" using f by (auto simp: keeps_order_def)
  let ?k = "po_idempotencyKey input" and ?n = "sbx_sequence s + 1"
  let ?t = "book_put ?k (f v) s'"
  have snd: "snd (book_and sha now input s f g) = ?t" by (simp add: book_and_def created(1))
  have book: "sbx_book ?t = sbx_book s @ [(?k, f v)]"
    using free created(9) by (simp add: book_put_new sbx_get_def)
  from ok have rows: "list_all (book_row_ok (sbx_sequence s)) (sbx_book s)" by (simp add: sandbox_ok_def)
  have old_ids: "oo_externalOrderId w \<noteq> Some (external_id ?n)" if "(k, w) \<in> set (sbx_book s)" for k w
    using rows that by (fastforce simp: list_all_iff book_row_ok_def)
  have ext: "oo_externalOrderId (f v) = Some (external_id ?n)" using created(3) by (simp add: h)
  have "distinct (List.map fst (sbx_book ?t))"
    using ok free by (simp add: book sandbox_ok_def sbx_get_None)
  moreover have "distinct (booked_ids ?t)"
  proof -
    have "Some (external_id ?n) \<notin> set (booked_ids s)"
    proof
      assume "Some (external_id ?n) \<in> set (booked_ids s)"
      then obtain k w where "(k, w) \<in> set (sbx_book s)" "Some (external_id ?n) = oo_externalOrderId w"
        by (auto simp: booked_ids_def)
      with old_ids [of k w] show False by simp
    qed
    moreover have "booked_ids ?t = booked_ids s @ [oo_externalOrderId (f v)]"
      by (simp add: booked_ids_def book)
    ultimately show ?thesis using ok by (simp add: sandbox_ok_def ext)
  qed
  moreover have "list_all (book_row_ok (sbx_sequence ?t)) (sbx_book ?t)"
  proof -
    have "book_row_ok ?n (?k, f v)" using created by (auto simp: book_row_ok_def h)
    moreover have "book_row_ok ?n r" if "r \<in> set (sbx_book s)" for r
      using rows that by (auto simp: list_all_iff intro: book_row_ok_mono)
    moreover have "sbx_sequence ?t = ?n" using created(10) by simp
    ultimately show ?thesis by (simp add: book list_all_iff)
  qed
  moreover have "exposure_ok ?t"
    unfolding exposure_ok_def
  proof
    fix x
    have "open_stake (sbx_currencies ?t) x r = open_stake (sbx_currencies s) x r" if "r \<in> set (sbx_book s)" for r
    proof -
      obtain k w where kw: "r = (k, w)" by (cases r)
      with rows that obtain i where i: "oo_externalOrderId w = Some (external_id i)" "i \<le> sbx_sequence s"
        by (auto simp: list_all_iff book_row_ok_def)
      with created(13) show ?thesis by (simp add: kw open_stake_def)
    qed
    then have old: "List.map (open_stake (sbx_currencies ?t) x) (sbx_book s)
        = List.map (open_stake (sbx_currencies s) x) (sbx_book s)"
      by simp
    have new: "open_stake (sbx_currencies ?t) x (?k, f v) = (if x = po_currency input then c else 0)"
      using created by (auto simp: open_stake_def h cents_of_toCents)
    have "balanceOf x ?t = balanceOf x s'" by (simp add: balanceOf_def)
    then show "sb_exposureCents (balanceOf x ?t) = sum_list (List.map (open_stake (sbx_currencies ?t) x) (sbx_book ?t))"
      using ok by (simp add: book old new created(14) sandbox_ok_def exposure_ok_def del: book_put_sel)
  qed
  ultimately show ?thesis by (simp add: snd sandbox_ok_def del: book_put_sel)
qed

lemma book_and_mono:
  assumes "sbx_get (po_idempotencyKey input) s = None" and "sbx_get k s = Some v"
  shows "sbx_get k (snd (book_and sha now input s f g)) = Some v"
proof (cases rule: newOrder_cases [of sha now input s])
  case (unreadable x)
  with assms(2) show ?thesis by (simp add: book_and_def sbx_get_def)
next
  case (created c w s')
  with assms show ?thesis
    by (simp add: book_and_def book_put_new sbx_get_book_cong [OF created(9)])
      (simp add: sbx_get_def book_put_def created(9))
qed

lemma run_scenario_ok:
  assumes ok: "sandbox_ok s" and free: "sbx_get (po_idempotencyKey input) s = None"
  shows "sandbox_ok (snd (run_scenario sha now input scenario s))"
proof -
  note keeps = book_and_ok [OF ok free]
  have hide: "sandbox_ok (hide_once k t) = sandbox_ok t" for k t
    by (rule sandbox_ok_cong) (simp_all add: hide_once_def)
  have plain: "sandbox_ok (snd (book_and sha now input s id g))" for g by (rule keeps) simp
  let ?b = "book_and sha now input s id (\<lambda>_. Inr (PlaceUnknown ''Accuse de reception retarde''))"
  have "snd (run_scenario sha now input DELAYED s) \<in> {snd ?b, hide_once (po_idempotencyKey input) (snd ?b)}"
    by (auto simp: run_scenario_def split: prod.splits sum.splits)
  then have "sandbox_ok (snd (run_scenario sha now input DELAYED s))"
    using plain hide by auto
  then show ?thesis using ok plain
    by (cases scenario) (simp_all add: run_scenario_def keeps)
qed

lemma run_scenario_mono:
  assumes "sbx_get (po_idempotencyKey input) s = None" and "sbx_get k s = Some v"
  shows "sbx_get k (snd (run_scenario sha now input scenario s)) = Some v"
proof -
  note keeps = book_and_mono [OF assms]
  let ?b = "book_and sha now input s id (\<lambda>_. Inr (PlaceUnknown ''Accuse de reception retarde''))"
  have "snd (run_scenario sha now input DELAYED s) \<in> {snd ?b, hide_once (po_idempotencyKey input) (snd ?b)}"
    by (auto simp: run_scenario_def split: prod.splits sum.splits)
  moreover have "sbx_get k (hide_once x t) = sbx_get k t" for x t
    by (simp add: sbx_get_def hide_once_def)
  ultimately have "sbx_get k (snd (run_scenario sha now input DELAYED s)) = Some v"
    using keeps by auto
  then show ?thesis using assms(2)
    by (cases scenario) (simp_all add: run_scenario_def keeps)
qed

lemma placeOrder_booked:
  assumes "sbx_get (po_idempotencyKey input) s = Some v"
  shows "sandbox_placeOrder sha now input s
    = (Inr (sandbox_accepted v),
       s\<lparr>sbx_placeCalls := (sbx_placeCalls s)(po_idempotencyKey input := placeCallsFor (po_idempotencyKey input) s + 1)\<rparr>)"
  using assms by (simp add: sandbox_placeOrder_def Let_def sbx_get_def)

lemma placeOrder_new:
  assumes "sbx_get (po_idempotencyKey input) s = None"
  obtains t scenario where "sbx_book t = sbx_book s" "sbx_sequence t = sbx_sequence s"
    "sbx_balances t = sbx_balances s" "sbx_currencies t = sbx_currencies s"
    "sbx_placeCalls t = (sbx_placeCalls s)(po_idempotencyKey input := placeCallsFor (po_idempotencyKey input) s + 1)"
    "sandbox_placeOrder sha now input s = run_scenario sha now input scenario t"
proof (cases "sbx_queue s")
  case Nil
  with assms show ?thesis
    by (intro that [of "s\<lparr>sbx_placeCalls := (sbx_placeCalls s)(po_idempotencyKey input := placeCallsFor (po_idempotencyKey input) s + 1)\<rparr>" ACCEPT])
      (simp_all add: sandbox_placeOrder_def Let_def sbx_get_def)
next
  case (Cons x xs)
  with assms show ?thesis
    by (intro that [of "s\<lparr>sbx_placeCalls := (sbx_placeCalls s)(po_idempotencyKey input := placeCallsFor (po_idempotencyKey input) s + 1), sbx_queue := xs\<rparr>" x])
      (simp_all add: sandbox_placeOrder_def Let_def sbx_get_def)
qed

lemma placeOrder_ok:
  assumes ok: "sandbox_ok s"
  shows "sandbox_ok (snd (sandbox_placeOrder sha now input s))"
proof (cases "sbx_get (po_idempotencyKey input) s")
  case (Some v)
  have "sandbox_ok (s\<lparr>sbx_placeCalls := p\<rparr>) = sandbox_ok s" for p by (rule sandbox_ok_cong) simp_all
  with ok show ?thesis by (simp add: placeOrder_booked [OF Some])
next
  case None
  then obtain t scenario where t: "sbx_book t = sbx_book s" "sbx_sequence t = sbx_sequence s"
    "sbx_balances t = sbx_balances s" "sbx_currencies t = sbx_currencies s"
    "sandbox_placeOrder sha now input s = run_scenario sha now input scenario t"
    by (rule placeOrder_new)
  have "sandbox_ok t" using ok sandbox_ok_cong [OF t(1-4)] by simp
  moreover have "sbx_get (po_idempotencyKey input) t = None" using None by (simp add: sbx_get_def t(1))
  ultimately show ?thesis by (simp add: t(5) run_scenario_ok)
qed

lemma placeOrder_mono:
  assumes "sbx_get k s = Some v"
  shows "sbx_get k (snd (sandbox_placeOrder sha now input s)) = Some v"
proof (cases "sbx_get (po_idempotencyKey input) s")
  case (Some w)
  with assms show ?thesis by (simp add: placeOrder_booked [OF Some] sbx_get_def)
next
  case None
  then obtain t scenario where t: "sbx_book t = sbx_book s"
    "sandbox_placeOrder sha now input s = run_scenario sha now input scenario t"
    by (rule placeOrder_new)
  moreover have "sbx_get (po_idempotencyKey input) t = None" "sbx_get k t = Some v"
    using None assms by (simp_all add: sbx_get_def t(1))
  ultimately show ?thesis by (simp add: run_scenario_mono)
qed

section \<open>Settling\<close>

lemma set_booked_keys: "List.map fst (sbx_book (set_booked k f s)) = List.map fst (sbx_book s)"
  by (simp add: set_booked_def comp_def case_prod_beta)

definition same_terms :: "operator_order \<Rightarrow> operator_order \<Rightarrow> bool" where
  "same_terms v w =
     (oo_externalOrderId w = oo_externalOrderId v \<and> oo_idempotencyKey w = oo_idempotencyKey v
      \<and> oo_acceptedOdd w = oo_acceptedOdd v \<and> oo_acceptedStake w = oo_acceptedStake v
      \<and> oo_acceptedAt w = oo_acceptedAt v \<and> oo_receiptHash w = oo_receiptHash v
      \<and> oo_rawReceipt w = oo_rawReceipt v)"

lemma same_terms_refl [simp]: "same_terms v v"
  by (simp add: same_terms_def)

lemma same_terms_trans: "same_terms u v \<Longrightarrow> same_terms v w \<Longrightarrow> same_terms u w"
  by (simp add: same_terms_def)

lemma sbx_get_set_booked:
  "sbx_get k (set_booked j f s) = map_option (\<lambda>v. if k = j then f v else v) (sbx_get k s)"
proof -
  have "map_of (map (\<lambda>(k, v). (k, if k = j then f v else v)) b) k
      = map_option (\<lambda>v. if k = j then f v else v) (map_of b k)" for b
    by (induction b) auto
  then show ?thesis by (simp add: sbx_get_def set_booked_def)
qed

lemma sum_list_replace:
  assumes "distinct (List.map fst xs)" and "(k, v) \<in> set xs"
  shows "sum_list (List.map g (map (\<lambda>(j, w). (j, if j = k then f w else w)) xs))
    = sum_list (List.map g xs) - g (k, v) + (g (k, f v) :: int)"
  using assms
proof (induction xs)
  case (Cons x xs)
  obtain j w where x: "x = (j, w)" by (cases x)
  show ?case
  proof (cases "j = k")
    case True
    then have "w = v" "k \<notin> fst ` set xs" using Cons.prems x by (auto simp: rev_image_eqI)
    then have "map (\<lambda>(j, w). (j, if j = k then f w else w)) xs = xs"
      by (intro map_idI) (auto simp: rev_image_eqI)
    with True \<open>w = v\<close> show ?thesis by (simp add: x)
  next
    case False
    with Cons x show ?thesis by auto
  qed
qed simp

lemma set_booked_twice: "set_booked k g (set_booked k f s) = set_booked k (g \<circ> f) s"
  by (simp add: set_booked_def comp_def case_prod_beta)

lemma settle_cases:
  obtains (kept) r where "sandbox_settle i outcome now s = (r, s)"
  | (settled) key v stake price c r f where
      "(key, v) \<in> set (sbx_book s)" "oo_externalOrderId v = Some i" "oo_status v = Op_ACCEPTED"
      "oo_acceptedStake v = Some stake" "toCents stake = Inr c" "oo_acceptedOdd v = Some (Num price)"
      "sandbox_settle i outcome now s = (r, set_booked key f
          (s\<lparr>sbx_balances := (sbx_balances s)(currencyOf v s \<mapsto>
            \<lparr>sb_availableCents = sb_availableCents (balanceOf (currencyOf v s) s) + settled_payout outcome c price,
             sb_exposureCents = sb_exposureCents (balanceOf (currencyOf v s) s) - c\<rparr>)\<rparr>))"
      "\<And>w. same_terms w (f w)" "\<And>w. oo_status (f w) = (if outcome = VOID then Op_VOIDED else Op_SETTLED)"
proof (cases "find_row (\<lambda>(k, v). oo_externalOrderId v = Some i) (sbx_book s)")
  case None
  then show ?thesis by (intro kept) (simp add: sandbox_settle_def Let_def)
next
  case (Some kv)
  obtain key v where kv: "kv = (key, v)" by (cases kv)
  from Some kv have row: "(key, v) \<in> set (sbx_book s)" "oo_externalOrderId v = Some i"
    by (auto dest: find_row_SomeD)
  show ?thesis
  proof (cases "\<exists>stake price c. oo_status v = Op_ACCEPTED \<and> oo_acceptedStake v = Some stake
      \<and> oo_acceptedOdd v = Some (Num price) \<and> toCents stake = Inr c")
    case True
    then obtain stake price c where v: "oo_status v = Op_ACCEPTED" "oo_acceptedStake v = Some stake"
      "oo_acceptedOdd v = Some (Num price)" "toCents stake = Inr c" by blast
    let ?g = "\<lambda>v. v\<lparr>oo_status := (if outcome = VOID then Op_VOIDED else Op_SETTLED)\<rparr>"
    let ?h = "\<lambda>x v. v\<lparr>oo_payout := Some x, oo_settledAt := Some now\<rparr>"
    show ?thesis
    proof (cases "fromCents (settled_payout outcome c price)")
      case (Inl x)
      show ?thesis
        by (rule settled [OF row v(1,2,4,3), of "Inl x" ?g])
          (simp_all add: sandbox_settle_def Let_def Some kv v Inl same_terms_def)
    next
      case (Inr x)
      show ?thesis
        by (rule settled [OF row v(1,2,4,3), of "Inr ()" "?h x \<circ> ?g"])
          (simp_all add: sandbox_settle_def Let_def Some kv v Inr same_terms_def set_booked_twice)
    qed
  next
    case False
    then show ?thesis using Some kv
      by (intro kept [of "fst (sandbox_settle i outcome now s)"])
        (auto simp: sandbox_settle_def Let_def split: sum.splits option.splits js_number.splits bool.splits)
  qed
qed

lemma open_stake_map:
  assumes "\<And>w. same_terms w (f w)" and "\<And>w. oo_status (f w) \<noteq> Op_ACCEPTED"
  shows "open_stake cur x (k, f v) = 0"
  using assms by (simp add: open_stake_def)

lemma settle_ok:
  assumes ok: "sandbox_ok s"
  shows "sandbox_ok (snd (sandbox_settle i outcome now s))"
proof (cases rule: settle_cases [of i outcome now s])
  case (kept r)
  with ok show ?thesis by simp
next
  case (settled key v stake price c r f)
  define t where "t = snd (sandbox_settle i outcome now s)"
  have book: "sbx_book t = map (\<lambda>(k, w). (k, if k = key then f w else w)) (sbx_book s)"
    and seq: "sbx_sequence t = sbx_sequence s" and cur: "sbx_currencies t = sbx_currencies s"
    by (simp_all add: t_def settled(7) set_booked_def)
  have dist: "distinct (List.map fst (sbx_book s))" using ok by (simp add: sandbox_ok_def)
  have terms: "same_terms w (if k = key then f w else w)" for k w using settled(8) by simp
  have ids: "booked_ids t = booked_ids s"
    using terms by (auto simp: booked_ids_def book same_terms_def)
  have "book_row_ok n (k, f w) = book_row_ok n (k, w)" for n k w
    using settled(8) [of w] by (simp add: book_row_ok_def same_terms_def)
  with ok have rows: "list_all (book_row_ok (sbx_sequence t)) (sbx_book t)"
    by (auto simp: book seq sandbox_ok_def list_all_iff)
  have "exposure_ok t"
    unfolding exposure_ok_def
  proof
    fix x
    have zero: "open_stake (sbx_currencies s) x (key, f v) = 0"
      by (rule open_stake_map) (use settled(8,9) in auto)
    have old: "open_stake (sbx_currencies s) x (key, v) = (if currencyOf v s = x then c else 0)"
      using settled(3-5) by (simp add: currencyOf_open cents_of_toCents)
    have "sb_exposureCents (balanceOf x t)
        = sb_exposureCents (balanceOf x s) - (if currencyOf v s = x then c else 0)"
      by (simp add: t_def settled(7) set_booked_def balanceOf_def)
    also have "\<dots> = sum_list (List.map (open_stake (sbx_currencies t) x) (sbx_book t))"
      using ok old zero sum_list_replace [OF dist settled(1), of "open_stake (sbx_currencies s) x" f]
      by (simp add: book cur sandbox_ok_def exposure_ok_def)
    finally show "sb_exposureCents (balanceOf x t) = sum_list (List.map (open_stake (sbx_currencies t) x) (sbx_book t))" .
  qed
  with rows ids ok show ?thesis
    by (simp add: sandbox_ok_def t_def [symmetric] book comp_def case_prod_beta)
qed

lemma settle_mono:
  assumes "sbx_get k s = Some v"
  shows "\<exists>w. sbx_get k (snd (sandbox_settle i outcome now s)) = Some w \<and> same_terms v w"
proof (cases rule: settle_cases [of i outcome now s])
  case (kept r)
  with assms show ?thesis by simp
next
  case (settled key w stake price c r f)
  show ?thesis using assms settled(8)
    by (cases "k = key") (simp_all add: settled(7) sbx_get_set_booked, simp_all add: sbx_get_def)
qed

section \<open>The market over time\<close>

text \<open>The calls the pipeline and a campaign make on the sandbox.\<close>

inductive sandbox_step :: "(string \<Rightarrow> string) \<Rightarrow> sandbox \<Rightarrow> sandbox \<Rightarrow> bool" for sha where
  sbx_place: "sandbox_step sha s (snd (sandbox_placeOrder sha now input s))"
| sbx_settle: "sandbox_step sha s (snd (sandbox_settle i outcome now s))"
| sbx_lookup: "sandbox_step sha s (snd (sandbox_getOrdersByIdempotencyKeys keys s))"
| sbx_balance: "sandbox_step sha s (snd (sandbox_getBalance c s))"
| sbx_shift: "sandbox_step sha s (shiftBalance c n s)"
| sbx_enqueue: "sandbox_step sha s (enqueue xs s)"
| sbx_quote: "sandbox_step sha s (setQuoteOdd x s)"

lemma getOrder_book:
  "\<exists>h. snd (sandbox_getOrderByIdempotencyKey k s) = s\<lparr>sbx_hiddenReads := h\<rparr>"
proof (cases "sbx_hiddenReads s k > 0")
  case False
  have "s = s\<lparr>sbx_hiddenReads := sbx_hiddenReads s\<rparr>" by simp
  with False show ?thesis by (intro exI [of _ "sbx_hiddenReads s"]) (simp add: sandbox_getOrderByIdempotencyKey_def)
qed (auto simp: sandbox_getOrderByIdempotencyKey_def)

lemma lookup_keys_book: "\<exists>h. snd (lookup_keys ks s) = s\<lparr>sbx_hiddenReads := h\<rparr>"
proof (induction ks arbitrary: s)
  case Nil
  have "s = s\<lparr>sbx_hiddenReads := sbx_hiddenReads s\<rparr>" by simp
  then show ?case by (intro exI [of _ "sbx_hiddenReads s"]) simp
next
  case (Cons k ks)
  obtain h where h: "snd (sandbox_getOrderByIdempotencyKey k s) = s\<lparr>sbx_hiddenReads := h\<rparr>"
    using getOrder_book by blast
  with Cons [of "s\<lparr>sbx_hiddenReads := h\<rparr>"] show ?case
    by (auto split: prod.splits)
qed

lemma sandbox_step_ok:
  assumes "sandbox_ok s" and "sandbox_step sha s t"
  shows "sandbox_ok t"
  using assms(2)
proof cases
  case (sbx_lookup keys)
  have "t = snd (lookup_keys (uniq keys) s)"
    by (simp add: sbx_lookup sandbox_getOrdersByIdempotencyKeys_def split: prod.splits)
  then obtain h where "t = s\<lparr>sbx_hiddenReads := h\<rparr>" using lookup_keys_book [of "uniq keys" s] by auto
  with assms(1) show ?thesis by (subst sandbox_ok_cong [of t s]) simp_all
next
  case (sbx_place now input)
  with assms(1) show ?thesis by (simp add: placeOrder_ok)
next
  case (sbx_settle i outcome now)
  with assms(1) show ?thesis by (simp add: settle_ok)
next
  case (sbx_balance c)
  have "balanceOf x t = balanceOf x s" for x
    by (simp add: sbx_balance sandbox_getBalance_def Let_def balanceOf_def)
  with assms(1) show ?thesis
    by (simp add: sandbox_ok_def booked_ids_def exposure_ok_def) (simp add: sbx_balance sandbox_getBalance_def Let_def)
next
  case (sbx_shift c n)
  have "sb_exposureCents (balanceOf x t) = sb_exposureCents (balanceOf x s)" for x
    by (simp add: sbx_shift shiftBalance_def Let_def balanceOf_def)
  with assms(1) show ?thesis
    by (simp add: sandbox_ok_def booked_ids_def exposure_ok_def) (simp add: sbx_shift shiftBalance_def Let_def)
qed (use assms(1) in \<open>auto simp: enqueue_def setQuoteOdd_def
       sandbox_ok_def booked_ids_def exposure_ok_def balanceOf_def\<close>)

interpretation market: inductive_system "\<lambda>s. s = empty_sandbox" "sandbox_step sha" sandbox_ok for sha
  by unfold_locales (auto simp: empty_sandbox_ok intro: sandbox_step_ok)

end
