(* ===== verification/MarketProperties.thy ===== *)
theory MarketProperties
  imports SandboxSafety Samples
begin

text \<open>
  What the deterministic sandbox guarantees to the pipeline: a consistent book in every reachable
  state, placements that are idempotent by key, and bookings that are never lost or rewritten.
\<close>

definition sample_order_request :: place_order_request where
  "sample_order_request = \<lparr>po_decisionId = ''d1'', po_idempotencyKey = ''k1'', po_operatorKey = ''sandbox'',
     po_fixtureId = ''f1'', po_providerFixtureId = ''77'', po_marketKey = ''TEAM_GOAL_1H'',
     po_selectionKey = ''HOME_YES'', po_requestedOdd = 2, po_minimumOdd = 3 / 2, po_stake = ''5.00'',
     po_currency = ''EUR'', po_quoteCapturedAt = 1990000\<rparr>"

definition sample_booked :: sandbox where
  "sample_booked = snd (sandbox_placeOrder sample_sha 2000000 sample_order_request empty_sandbox)"

text \<open>
  In every state the sandbox can reach, whatever scenarios are queued, no key and no external
  identifier is booked twice, every booked order carries its own key, an identifier already drawn
  and readable terms, and in each currency the exposure is the sum of the open stakes.
\<close>

lemma market_consistent:
  assumes "market.reach sha s"
  shows "distinct (List.map fst (sbx_book s)) \<and> distinct (booked_ids s)
    \<and> list_all (book_row_ok (sbx_sequence s)) (sbx_book s)
    \<and> sb_exposureCents (balanceOf c s) = sum_list (List.map (open_stake (sbx_currencies s) c) (sbx_book s))"
  using market.reach_inv [OF assms] by (simp add: sandbox_ok_def exposure_ok_def)

lemma market_consistent_witness:
  "sb_exposureCents (balanceOf ''EUR'' sample_booked) = 500
   \<and> sum_list (List.map (open_stake (sbx_currencies sample_booked) ''EUR'') (sbx_book sample_booked)) = 500
   \<and> distinct (booked_ids sample_booked)"
proof -
  have "market.reach sample_sha sample_booked"
    unfolding sample_booked_def by (intro market.reach_step [OF market.reach_init sbx_place]) simp
  moreover have "sb_exposureCents (balanceOf ''EUR'' sample_booked) = 500" by code_simp
  ultimately show ?thesis using market_consistent [of sample_sha sample_booked "''EUR''"] by simp
qed

text \<open>
  An operator never books a key twice: placing a key that is booked answers with the booked
  order, and changes nothing but the count of the calls.
\<close>

lemma placement_idempotent:
  assumes "sbx_get (po_idempotencyKey input) s = Some v"
  shows "sandbox_placeOrder sha now input s
    = (Inr (sandbox_accepted v),
       s\<lparr>sbx_placeCalls := (sbx_placeCalls s)(po_idempotencyKey input := placeCallsFor (po_idempotencyKey input) s + 1)\<rparr>)"
  by (rule placeOrder_booked [OF assms])

lemma placement_idempotent_witness:
  "sbx_book (snd (sandbox_placeOrder sample_sha 2000001 sample_order_request sample_booked)) = sbx_book sample_booked
   \<and> placeCallsFor ''k1'' (snd (sandbox_placeOrder sample_sha 2000001 sample_order_request sample_booked)) = 2"
proof -
  have "sbx_get (po_idempotencyKey sample_order_request) sample_booked \<noteq> None"
    and "placeCallsFor ''k1'' (snd (sandbox_placeOrder sample_sha 2000001 sample_order_request sample_booked)) = 2"
    by code_simp+
  then show ?thesis using placement_idempotent by fastforce
qed

text \<open>Along a run of the sandbox a booking stays, whatever its steps.\<close>

lemma market_run_keeps:
  assumes "market.run sha s t" and "sbx_get k s = Some v"
  shows "\<exists>w. sbx_get k t = Some w \<and> same_terms v w"
  using assms
proof (induction rule: market.run.induct)
  case (run_refl s)
  then show ?case by auto
next
  case (run_step s t u)
  then obtain w where w: "sbx_get k t = Some w" "same_terms v w" by auto
  have same: "\<exists>x. sbx_get k u = Some x \<and> same_terms w x" if "sbx_book u = sbx_book t"
    using w(1) sbx_get_book_cong [OF that] by auto
  from run_step.hyps(2) have "\<exists>x. sbx_get k u = Some x \<and> same_terms w x"
  proof cases
    case (sbx_place now input)
    with placeOrder_mono [OF w(1)] show ?thesis by auto
  next
    case (sbx_settle i outcome now)
    with settle_mono [OF w(1)] show ?thesis by auto
  next
    case (sbx_lookup keys)
    with lookup_keys_book [of "uniq keys" t] show ?thesis
      by (intro same) (auto simp: sandbox_getOrdersByIdempotencyKeys_def split: prod.splits)
  qed (rule same; simp add: sandbox_getBalance_def shiftBalance_def enqueue_def setQuoteOdd_def Let_def)+
  with w(2) show ?case using same_terms_trans by blast
qed

text \<open>
  Whatever the sandbox does afterwards, an order once booked stays booked under its key with
  the same identifier, odd, stake and receipt; only its settlement changes.
\<close>

lemma bookings_kept:
  assumes "market.run sha s t" and "sbx_get k s = Some v"
  shows "\<exists>w. sbx_get k t = Some w \<and> same_terms v w"
  by (rule market_run_keeps [OF assms])

definition sample_settled :: sandbox where
  "sample_settled = snd (sandbox_settle ''SBX-000001'' WON 2000002 sample_booked)"

lemma bookings_kept_witness:
  "\<exists>v w. sbx_get ''k1'' sample_booked = Some v \<and> sbx_get ''k1'' sample_settled = Some w \<and> same_terms v w
     \<and> oo_status v = Op_ACCEPTED \<and> oo_status w = Op_SETTLED \<and> oo_payout w = Some ''10.00''"
proof -
  have "market.run sample_sha sample_booked sample_settled"
    unfolding sample_settled_def by (intro market.run_step [OF market.run_refl] sbx_settle)
  moreover have "case (sbx_get ''k1'' sample_booked, sbx_get ''k1'' sample_settled) of
      (Some v, Some w) \<Rightarrow> oo_status v = Op_ACCEPTED \<and> oo_status w = Op_SETTLED \<and> oo_payout w = Some ''10.00''
    | _ \<Rightarrow> False" by code_simp
  ultimately show ?thesis using bookings_kept
    by (fastforce split: option.splits)
qed

end
