(* ===== verification/Orders.thy ===== *)
theory Orders
  imports OperatorPort
begin

text \<open>
  The order pipeline (\<open>execution/order-execution.service.ts\<close>): reservation, re-check,
  single submission, placement results, acceptances, settlements, the way out of \<open>UNKNOWN\<close>,
  and the recovery of interrupted work. A method with several transactions is an action: a
  function from the tables to a result and the tables it leaves, error or not; each
  transaction inside it is a \<open>commit\<close>. \<open>sha\<close> is SHA-256 in hexadecimal, from Node's library.
\<close>

section \<open>Actions\<close>

type_synonym 'a act = "db \<Rightarrow> 'a res \<times> db"

definition bindA :: "'a act \<Rightarrow> ('a \<Rightarrow> 'b act) \<Rightarrow> 'b act" where
  "bindA m f d = (case m d of (Inl e, d') \<Rightarrow> (Inl e, d') | (Inr x, d') \<Rightarrow> f x d')"

definition returnA :: "'a \<Rightarrow> 'a act" where "returnA x d = (Inr x, d)"

definition liftE :: "'a res \<Rightarrow> 'a act" where "liftE r d = (r, d)"

text \<open>A read: no transaction, no effect.\<close>

definition readA :: "(db \<Rightarrow> 'a res) \<Rightarrow> 'a act" where "readA f d = (f d, d)"

section \<open>Keys and outcomes\<close>

definition orderIdempotencyKey ::
  "(string \<Rightarrow> string) \<Rightarrow> string \<Rightarrow> string \<Rightarrow> string \<Rightarrow> string \<Rightarrow> string \<Rightarrow> string \<Rightarrow> int \<Rightarrow> string" where
  "orderIdempotencyKey sha mode operatorKey fixtureId marketKey selectionKey strategyVersion decidedAt =
     sha (join_with ''|'' [mode, operatorKey, fixtureId, marketKey, selectionKey, strategyVersion,
                           show_int (decidedAt div decision_bucket_ms)])"

definition settlementOutcome :: "string \<Rightarrow> string \<Rightarrow> (decision_outcome \<times> int) res" where
  "settlementOutcome stake payout =
     bindE (toCents stake) (\<lambda>s.
     bindE (toCents payout) (\<lambda>p.
       if p = s then Inr (VOID, 0) else Inr (if p - s > 0 then WON else LOST, p - s)))"

definition rejection_by_operator_reason :: "string \<Rightarrow> rejection_code option" where
  "rejection_by_operator_reason r =
     (if r = ''ODD_MOVED'' then Some ODD_MOVED
      else if r = ''NO_QUOTE'' then Some NO_EXECUTABLE_ODD
      else if r = ''MARKET_SUSPENDED'' then Some SUSPENDED_MARKET
      else None)"

datatype unknown_resolution =
    Un_ACCEPTED | Un_SETTLED | Un_REJECTED | Un_DECLARED_NOT_PLACED | Un_PENDING | Un_TOO_OLD
  | Un_RECONCILIATION_REQUIRED

definition portFor :: "(execution_mode \<Rightarrow> 's port option) \<Rightarrow> string \<Rightarrow> 's port res" where
  "portFor ports mode =
     of_option (ExecutionBlockedError (''Aucun adaptateur operateur pour le mode '' @ mode) False)
       (case execution_mode_of mode of
          None \<Rightarrow> None
        | Some m \<Rightarrow> if m \<noteq> LIVE_CANARY then ports m else None)"

text \<open>
  \<open>boundedSubmission\<close>: \<open>late\<close> says that the answer came after the limit. The operator has
  then acted, or not; the answer is lost.
\<close>

definition boundedSubmission :: "bool \<Rightarrow> int \<Rightarrow> 'a res \<Rightarrow> 'a res" where
  "boundedSubmission late timeoutMs call =
     (if late then Inl (PlainError (''Delai de soumission depasse ('' @ show_int timeoutMs @ '' ms)'')) else call)"

section \<open>Writing orders\<close>

text \<open>\<open>UNIQUE (operator_key, external_order_id)\<close>; MySQL ignores the rows without an identifier.\<close>

fun external_keys :: "bet_order list \<Rightarrow> (string \<times> string) list" where
  "external_keys [] = []"
| "external_keys (r # rs) =
     (case ord_externalOrderId r of None \<Rightarrow> external_keys rs
      | Some x \<Rightarrow> (ord_operatorKey r, x) # external_keys rs)"

definition update_orders ::
  "(bet_order \<Rightarrow> bool) \<Rightarrow> (bet_order \<Rightarrow> bet_order) \<Rightarrow> db \<Rightarrow> (nat \<times> db) res" where
  "update_orders p f d =
     (let rows = update_rows p f (orders d)
      in checked (list_all (\<lambda>r. p r \<longrightarrow> chk_order (f r)) (orders d) \<and> distinct (external_keys rows))
           ''bet_orders'' (affected p (orders d), d\<lparr>orders := rows\<rparr>))"

definition get_order :: "string \<Rightarrow> db \<Rightarrow> bet_order res" where
  "get_order i d = of_option (EntityNotFoundError ''BetOrder'') (find_order i d)"

text \<open>\<open>transition\<close>: versioned; a stale version raises.\<close>

definition transition ::
  "env \<Rightarrow> string \<Rightarrow> int \<Rightarrow> (bet_order \<Rightarrow> bet_order) \<Rightarrow> db \<Rightarrow> db res" where
  "transition e orderId expectedVersion patch d =
     bindE (update_orders (\<lambda>r. ord_id r = orderId \<and> ord_version r = expectedVersion)
              (\<lambda>r. (patch r)\<lparr>ord_version := ord_version r + 1, ord_updatedAt := env_dbNow e\<rparr>) d) (\<lambda>(n, d').
       if n \<noteq> 1 then Inl (PlainError (''Ordre '' @ orderId @ '' modifie concurremment'')) else Inr d')"

definition rejectDecision ::
  "string \<Rightarrow> rejection_code \<Rightarrow> decision_status option \<Rightarrow> db \<Rightarrow> db res" where
  "rejectDecision decisionId code onlyFrom d =
     update_decisions
       (\<lambda>r. dec_id r = decisionId \<and> (case onlyFrom of None \<Rightarrow> True | Some s \<Rightarrow> dec_status r = s))
       (\<lambda>r. r\<lparr>dec_status := Dec_REJECTED, dec_rejectionCode := Some code\<rparr>) d"

definition reserve_key :: "bet_order \<Rightarrow> string" where "reserve_key r = ''reserve:'' @ ord_idempotencyKey r"
definition release_key :: "bet_order \<Rightarrow> string" where "release_key r = ''release:'' @ ord_idempotencyKey r"
definition partial_key :: "bet_order \<Rightarrow> string" where "partial_key r = ''release-partial:'' @ ord_idempotencyKey r"
definition settle_key :: "bet_order \<Rightarrow> string" where "settle_key r = ''settle:'' @ ord_idempotencyKey r"

text \<open>\<open>cancel\<close>: release the stake if it was reserved, reject the order and its decision.\<close>

definition release_reserved :: "env \<Rightarrow> bet_order \<Rightarrow> db \<Rightarrow> db res" where
  "release_reserved e order d =
     (if find_entry (reserve_key order) d = None then Inr d
      else bindE (lockAccount (ord_accountId order) d) (\<lambda>account.
           bindE (toCents (ord_requestedStake order)) (\<lambda>cents.
           bindE (append account (stake_input RELEASE (release_key order) cents (Some (ord_id order)) None)
                    (env_dbNow e) d) (\<lambda>(_, d'). Inr d'))))"

definition rejected_order :: "rejection_code \<Rightarrow> string \<Rightarrow> bet_order \<Rightarrow> bet_order" where
  "rejected_order code reason r =
     r\<lparr>ord_status := Ord_REJECTED, ord_rejectionCode := Some code, ord_statusReason := Some (take 255 reason)\<rparr>"

definition cancel_body ::
  "env \<Rightarrow> string \<Rightarrow> order_status list \<Rightarrow> rejection_code \<Rightarrow> string \<Rightarrow> unit tx" where
  "cancel_body e orderId from code reason d =
     bindE (get_order orderId d) (\<lambda>order.
       if ord_status order \<notin> set from then Inr ((), d)
       else bindE (release_reserved e order d) (\<lambda>d1.
            bindE (transition e (ord_id order) (ord_version order) (rejected_order code reason) d1) (\<lambda>d2.
            bindE (rejectDecision (ord_decisionId order) code None d2) (\<lambda>d3. Inr ((), d3)))))"

definition cancel ::
  "env \<Rightarrow> string \<Rightarrow> order_status list \<Rightarrow> rejection_code \<Rightarrow> string \<Rightarrow> bet_order act" where
  "cancel e orderId from code reason =
     bindA (commit (cancel_body e orderId from code reason)) (\<lambda>_. readA (get_order orderId))"

definition cancelReserved :: "env \<Rightarrow> bet_order \<Rightarrow> rejection_code \<Rightarrow> string \<Rightarrow> bet_order act" where
  "cancelReserved e order code reason = cancel e (ord_id order) [Ord_RESERVED] code reason"

definition cancelSubmitting :: "env \<Rightarrow> bet_order \<Rightarrow> rejection_code \<Rightarrow> string \<Rightarrow> bet_order act" where
  "cancelSubmitting e order code reason =
     cancel e (ord_id order) [Ord_SUBMITTING, Ord_RESERVED] code reason"

definition cancelUnknown :: "env \<Rightarrow> bet_order \<Rightarrow> rejection_code \<Rightarrow> string \<Rightarrow> unit act" where
  "cancelUnknown e order code reason =
     bindA (cancel e (ord_id order) [Ord_UNKNOWN] code reason) (\<lambda>_. returnA ())"

section \<open>1. Atomic reservation\<close>

definition find_run :: "string \<Rightarrow> db \<Rightarrow> simulation_run res" where
  "find_run i d =
     of_option (EntityNotFoundError ''SimulationRun'') (find_row (\<lambda>r. run_id r = i) (runs d))"

definition order_of_decision ::
  "string \<Rightarrow> string \<Rightarrow> string \<Rightarrow> string \<Rightarrow> string \<Rightarrow> bet_decision \<Rightarrow> string \<Rightarrow> rat \<Rightarrow> int \<Rightarrow> int \<Rightarrow> bet_order" where
  "order_of_decision orderId accountId mode operatorKey key decision stake price observedAt now =
     \<lparr>ord_id = orderId, ord_decisionId = dec_id decision, ord_accountId = accountId, ord_mode = mode,
      ord_operatorKey = operatorKey, ord_idempotencyKey = key, ord_externalOrderId = None,
      ord_status = Ord_RESERVED, ord_rejectionCode = None, ord_statusReason = None,
      ord_fixtureId = dec_fixtureId decision, ord_providerFixtureId = dec_providerFixtureId decision,
      ord_marketKey = dec_marketKey decision, ord_selectionKey = dec_selectionKey decision,
      ord_currency = dec_currency decision, ord_requestedStake = stake, ord_requestedOdd = price,
      ord_minimumOdd = dec_minAcceptableOdd decision, ord_quoteCapturedAt = observedAt,
      ord_acceptedOdd = None, ord_acceptedStake = None, ord_acceptedAt = None, ord_payout = None,
      ord_submittedAt = None, ord_unknownSince = None, ord_settledAt = None, ord_version = 1,
      ord_createdAt = now, ord_updatedAt = now\<rparr>"

text \<open>
  After the order row is inserted: reserve the stake; a refusal rejects the order and the
  decision in the same transaction.
\<close>

definition reserve_stake_for ::
  "env \<Rightarrow> bet_order \<Rightarrow> db \<Rightarrow> auto_stop_request option \<times> (bet_order option \<times> db) res" where
  "reserve_stake_for e order d =
     (case reserveWithin e \<lparr>rsv_accountId = ord_accountId order, rsv_entryKey = reserve_key order,
             rsv_stake = ord_requestedStake order, rsv_quoteCapturedAt = ord_quoteCapturedAt order,
             rsv_orderId = Some (ord_id order), rsv_actorUserId = None\<rparr> d of
        (pending, Inl err) \<Rightarrow> (pending, Inl err)
      | (pending, Inr (Refused code limit reason, d1)) \<Rightarrow>
          (pending,
           bindE (transition e (ord_id order) 1 (rejected_order code reason) d1) (\<lambda>d2.
           bindE (rejectDecision (ord_decisionId order) code None d2) (\<lambda>d3.
           bindE (get_order (ord_id order) d3) (\<lambda>r. Inr (Some r, d3)))))
      | (pending, Inr (Reserved entry replayed, d1)) \<Rightarrow>
          (pending,
           bindE (update_decisions (\<lambda>r. dec_id r = ord_decisionId order)
                    (\<lambda>r. r\<lparr>dec_status := Dec_ORDER_RESERVED\<rparr>) d1) (\<lambda>d2.
           bindE (get_order (ord_id order) d2) (\<lambda>r. Inr (Some r, d2)))))"

definition reserve_decision ::
  "(string \<Rightarrow> string) \<Rightarrow> env \<Rightarrow> string \<Rightarrow> string \<Rightarrow> string \<Rightarrow> string \<Rightarrow> bet_decision \<Rightarrow> db
     \<Rightarrow> auto_stop_request option \<times> (bet_order option \<times> db) res" where
  "reserve_decision sha e orderId accountId mode operatorKey decision d =
     (case (dec_decisionOdd decision, dec_stake decision, dec_decisionObservedAt decision) of
        (Some price, Some stake, Some observedAt) \<Rightarrow>
          (case find_run (dec_simulationRunId decision) d of
             Inl err \<Rightarrow> (None, Inl err)
           | Inr run \<Rightarrow>
               (let key = orderIdempotencyKey sha mode operatorKey (dec_fixtureId decision)
                        (dec_marketKey decision) (dec_selectionKey decision)
                        (run_strategyVersion run) (dec_decidedAt decision)
                in if find_row (\<lambda>r. ord_idempotencyKey r = key) (orders d) \<noteq> None
                   then (None, bindE (rejectDecision (dec_id decision) RISK_CHECK_FAILED None d)
                                 (\<lambda>d1. Inr (None, d1)))
                   else
                     (let order = order_of_decision orderId accountId mode operatorKey key decision
                                    stake price observedAt (env_dbNow e)
                      in case insert_order order d of
                           Inl err \<Rightarrow> (None, Inl err)
                         | Inr d1 \<Rightarrow> reserve_stake_for e order d1)))
      | _ \<Rightarrow> (None, bindE (rejectDecision (dec_id decision) NO_EXECUTABLE_ODD None d)
                      (\<lambda>d1. Inr (None, d1))))"

definition reserve_body ::
  "(string \<Rightarrow> string) \<Rightarrow> (execution_mode \<Rightarrow> 's port option) \<Rightarrow> env \<Rightarrow> string \<Rightarrow> string \<Rightarrow> string \<Rightarrow> db
     \<Rightarrow> auto_stop_request option \<times> (bet_order option \<times> db) res" where
  "reserve_body sha ports e orderId decisionId accountId d =
     (case find_row (\<lambda>r. ord_decisionId r = decisionId) (orders d) of
        Some existing \<Rightarrow> (None, Inr (Some existing, d))
      | None \<Rightarrow>
          (case bindE (lockForExecution e d) (\<lambda>control.
                bindE (portFor ports (ctl_mode control)) (\<lambda>port.
                bindE (of_option (NotFoundException (''Decision '' @ decisionId @ '' introuvable''))
                         (find_decision decisionId d)) (\<lambda>decision.
                  Inr (ctl_mode control, port_operatorKey port, decision)))) of
             Inl err \<Rightarrow> (None, Inl err)
           | Inr (mode, operatorKey, decision) \<Rightarrow>
               if dec_status decision \<noteq> Dec_ELIGIBLE then (None, Inr (None, d))
               else reserve_decision sha e orderId accountId mode operatorKey decision d))"

text \<open>
  \<open>reserve\<close>: an exception is classified, the decision is rejected if it is still eligible,
  and a serious cause stops the execution.
\<close>

definition reserve ::
  "(string \<Rightarrow> string) \<Rightarrow> (execution_mode \<Rightarrow> 's port option) \<Rightarrow> env \<Rightarrow> string \<Rightarrow> string \<Rightarrow> string \<Rightarrow> string
     \<Rightarrow> bet_order option act" where
  "reserve sha ports e newId orderId decisionId accountId d =
     (case reserve_body sha ports e orderId decisionId accountId d of
        (pending, Inr (order, d1)) \<Rightarrow> (Inr order, applyStop e newId pending d1)
      | (pending, Inl err) \<Rightarrow>
          (case classifyReservationError err pending of
             (Refused code limit reason, raised) \<Rightarrow>
               (case rejectDecision decisionId code (Some Dec_ELIGIBLE) d of
                  Inl err' \<Rightarrow> (Inl err', d)
                | Inr d1 \<Rightarrow> (Inr None, applyStop e newId raised d1))
           | (Reserved _ _, raised) \<Rightarrow> (Inr None, applyStop e newId raised d)))"

section \<open>2. Re-check before submitting\<close>

text \<open>The quote is read before the transaction; a failing read counts as no quote.\<close>

definition submit_quote :: "env \<Rightarrow> 's port \<Rightarrow> bet_order \<Rightarrow> 's \<Rightarrow> operator_quote option \<times> 's" where
  "submit_quote e port order s =
     (case port_getExecutableQuote port
             \<lparr>qr_target = \<lparr>qt_providerFixtureId = ord_providerFixtureId order,
                qt_marketKey = ord_marketKey order, qt_selectionKey = ord_selectionKey order,
                qt_providerKey = None, qt_bookmakerKey = None\<rparr>,
              qr_at = env_now e, qr_maxQuoteAgeMs = 600000\<rparr> s of
        (Inl _, s') \<Rightarrow> (None, s')
      | (Inr q, s') \<Rightarrow> (q, s'))"

datatype check_result =
    Proceed bet_order
  | Withdraw rejection_code string "auto_stop_request option" bet_order

definition order_detail :: "string \<Rightarrow> metadata" where
  "order_detail orderId = [(''orderId'', SStr orderId)]"

definition check_quote ::
  "env \<Rightarrow> execution_control \<Rightarrow> operator_quote option \<Rightarrow> bet_order \<Rightarrow> check_result tx" where
  "check_quote e control quote current d =
     (case quote of
        None \<Rightarrow> Inr (Withdraw NO_EXECUTABLE_ODD ''Aucune cote executable avant soumission'' None current, d)
      | Some q \<Rightarrow>
          if \<not> oq_available q
          then Inr (Withdraw NO_EXECUTABLE_ODD ''Aucune cote executable avant soumission'' None current, d)
          else
            (let age = env_now e - oq_capturedAt q;
                 fresh = (case find_policy (ctl_activeRiskPolicyId control) d of None \<Rightarrow> False
                          | Some p \<Rightarrow> \<not> (age < 0) \<and> \<not> (age > pol_maxQuoteAgeMs p))
             in if \<not> fresh
                then Inr (Withdraw STALE_ODD ''Cote perimee avant soumission''
                       (Some \<lparr>stop_trigger = STALE_OR_SUSPENDED_ODD,
                              stop_details = order_detail (ord_id current)\<rparr>) current, d)
                else if oq_oddValue q < ord_minimumOdd current
                then Inr (Withdraw ODD_MOVED (''Cote '' @ show_odd (oq_oddValue q) @ '' sous le minimum ''
                       @ show_odd (ord_minimumOdd current)) None current, d)
                else
                  bindE (transition e (ord_id current) (ord_version current)
                           (\<lambda>r. r\<lparr>ord_status := Ord_SUBMITTING, ord_requestedOdd := store_odd (oq_oddValue q),
                                  ord_submittedAt := Some (env_now e)\<rparr>) d) (\<lambda>d1.
                  bindE (get_order (ord_id current) d1) (\<lambda>r. Inr (Proceed r, d1)))))"

definition submit_check ::
  "env \<Rightarrow> string \<Rightarrow> operator_quote option \<Rightarrow> check_result tx" where
  "submit_check e orderId quote d =
     bindE (lockForExecution e d) (\<lambda>control.
     bindE (get_order orderId d) (\<lambda>current.
       if ord_status current \<noteq> Ord_RESERVED then Inr (Proceed current, d)
       else if ctl_mode control \<noteq> ord_mode current
       then Inr (Withdraw CONTROL_DISABLED (''Mode passe a '' @ ctl_mode control) None current, d)
       else check_quote e control quote current d))"

text \<open>An exception of the check withdraws the order; an unreadable control also stops everything.\<close>

definition check_error :: "exn \<Rightarrow> bet_order \<Rightarrow> check_result" where
  "check_error err reserved =
     (case err of
        ExecutionBlockedError m unreadable \<Rightarrow>
          Withdraw CONTROL_DISABLED (redactErrorMessage err)
            (if unreadable then Some \<lparr>stop_trigger = CONTROL_UNREADABLE, stop_details = []\<rparr> else None)
            reserved
      | _ \<Rightarrow> Withdraw RISK_CHECK_FAILED (redactErrorMessage err) None reserved)"

definition submit_checked ::
  "env \<Rightarrow> bet_order \<Rightarrow> operator_quote option \<Rightarrow> db \<Rightarrow> check_result \<times> db" where
  "submit_checked e reserved quote d =
     (case commit (submit_check e (ord_id reserved) quote) d of
        (Inl err, d') \<Rightarrow> (check_error err reserved, d')
      | (Inr r, d') \<Rightarrow> (r, d'))"

section \<open>3. Acceptances\<close>

text \<open>Writing a number to a \<open>DECIMAL(8,3)\<close> column: a value that is not finite or too large is refused.\<close>

definition store_js_odd :: "js_number \<Rightarrow> rat res" where
  "store_js_odd n =
     (case n of
        Num x \<Rightarrow> if \<bar>store_odd x\<bar> < 100000 then Inr (store_odd x)
                 else Inl (QueryFailedError ''Out of range value for column'')
      | _ \<Rightarrow> Inl (QueryFailedError ''Incorrect decimal value''))"

fun show_js_number :: "js_number \<Rightarrow> string" where
  "show_js_number NaN = ''NaN''"
| "show_js_number PosInf = ''Infinity''"
| "show_js_number NegInf = ''-Infinity''"
| "show_js_number (Num x) = show_odd x"

definition show_optional :: "('a \<Rightarrow> string) \<Rightarrow> 'a option \<Rightarrow> string" where
  "show_optional f x = (case x of None \<Rightarrow> ''null'' | Some v \<Rightarrow> f v)"

definition acceptanceViolation :: "bet_order \<Rightarrow> operator_order \<Rightarrow> string option res" where
  "acceptanceViolation order accepted =
     (if (case oo_receiptHash accepted of None \<Rightarrow> True | Some h \<Rightarrow> \<not> hash_text h)
      then Inr (Some ''Recu absent ou illisible'')
      else if (case oo_externalOrderId accepted of None \<Rightarrow> True | Some x \<Rightarrow> x = [])
      then Inr (Some ''Identifiant externe absent'')
      else if (case oo_acceptedOdd accepted of None \<Rightarrow> True | Some n \<Rightarrow> \<not> js_ge n (ord_minimumOdd order))
      then Inr (Some (''Cote acceptee '' @ show_optional show_js_number (oo_acceptedOdd accepted)
             @ '' sous le minimum '' @ show_odd (ord_minimumOdd order)))
      else
        (let incoherent = Some (''Mise acceptee '' @ show_optional id (oo_acceptedStake accepted) @ '' incoherente'')
         in case oo_acceptedStake accepted of
              None \<Rightarrow> Inr incoherent
            | Some t \<Rightarrow>
                if \<not> stake_text t then Inr incoherent
                else bindE (toCents t) (\<lambda>c.
                  if c \<le> 0 then Inr incoherent
                  else bindE (toCents (ord_requestedStake order)) (\<lambda>q.
                    Inr (if c > q then incoherent else None)))))"

definition receipt_taken :: "operator_order \<Rightarrow> db \<Rightarrow> bool" where
  "receipt_taken accepted d =
     (case oo_receiptHash accepted of None \<Rightarrow> False
      | Some h \<Rightarrow> find_row (\<lambda>r. rcp_receiptHash r = h) (receipts d) \<noteq> None)"

definition external_taken :: "bet_order \<Rightarrow> operator_order \<Rightarrow> db \<Rightarrow> bool" where
  "external_taken order accepted d =
     (case oo_externalOrderId accepted of None \<Rightarrow> False
      | Some x \<Rightarrow> find_row (\<lambda>r. ord_operatorKey r = ord_operatorKey order
                              \<and> ord_externalOrderId r = Some x) (orders d) \<noteq> None)"

definition contract_breach ::
  "env \<Rightarrow> bet_order \<Rightarrow> operator_order \<Rightarrow> string option \<Rightarrow> bool \<Rightarrow> auto_stop_request option tx" where
  "contract_breach e order accepted violation receiptTaken d =
     bindE (transition e (ord_id order) (ord_version order)
       (\<lambda>r. r\<lparr>ord_status := Ord_RECONCILIATION_REQUIRED,
              ord_statusReason := Some (take 255
                (case violation of Some v \<Rightarrow> v
                 | None \<Rightarrow> if receiptTaken then ''Recu deja utilise par un autre ordre''
                           else ''Identifiant externe deja utilise'')),
              ord_unknownSince := Some (case ord_unknownSince order of Some t \<Rightarrow> t | None \<Rightarrow> env_now e)\<rparr>) d)
       (\<lambda>d1. Inr (Some
          \<lparr>stop_trigger = (if receiptTaken \<or> oo_receiptHash accepted = None \<or> oo_receiptHash accepted = Some []
                           then RECEIPT_INVALID else OPERATOR_CONTRACT_VIOLATION),
           stop_details = order_detail (ord_id order)\<rparr>, d1))"

definition release_unused :: "env \<Rightarrow> bet_order \<Rightarrow> string \<Rightarrow> db \<Rightarrow> db res" where
  "release_unused e order acceptedStake d =
     bindE (toCents (ord_requestedStake order)) (\<lambda>q.
     bindE (toCents acceptedStake) (\<lambda>c.
       if q - c > 0
       then bindE (lockAccount (ord_accountId order) d) (\<lambda>account.
            bindE (append account (stake_input RELEASE (partial_key order) (q - c) (Some (ord_id order)) None)
                     (env_dbNow e) d) (\<lambda>(_, d'). Inr d'))
       else Inr d))"

text \<open>Slippage in percent, to four decimals.\<close>

definition slippage :: "rat \<Rightarrow> rat \<Rightarrow> rat" where
  "slippage acceptedOdd decisionOdd =
     of_int (js_round ((acceptedOdd - decisionOdd) / decisionOdd * 1000000)) / 10000"

definition decision_executed :: "env \<Rightarrow> bet_order \<Rightarrow> js_number \<Rightarrow> db \<Rightarrow> db res" where
  "decision_executed e order acceptedOdd d =
     bindE (of_option (EntityNotFoundError ''BetDecision'') (find_decision (ord_decisionId order) d)) (\<lambda>decision.
     bindE (store_js_odd acceptedOdd) (\<lambda>price.
       update_decisions (\<lambda>r. dec_id r = dec_id decision)
         (\<lambda>r. r\<lparr>dec_executableOdd := Some price, dec_executedAt := Some (env_now e),
                dec_slippagePct := (case (dec_decisionOdd decision, acceptedOdd) of
                   (Some x, Num v) \<Rightarrow> Some (slippage v x) | _ \<Rightarrow> None)\<rparr>) d))"

definition accept_order ::
  "env \<Rightarrow> bet_order \<Rightarrow> operator_order \<Rightarrow> string \<Rightarrow> js_number \<Rightarrow> string \<Rightarrow> db \<Rightarrow> db res" where
  "accept_order e order accepted hash acceptedOdd acceptedStake d =
     bindE (insert_receipt \<lparr>rcp_orderId = ord_id order, rcp_receiptHash = hash,
              rcp_redactedPayload = redactReceipt 0 (oo_rawReceipt accepted),
              rcp_createdAt = env_dbNow e\<rparr> d) (\<lambda>d1.
     bindE (store_js_odd acceptedOdd) (\<lambda>price.
     bindE (store_decimal acceptedStake) (\<lambda>stake.
     bindE (transition e (ord_id order) (ord_version order)
       (\<lambda>r. r\<lparr>ord_status := Ord_ACCEPTED, ord_externalOrderId := oo_externalOrderId accepted,
              ord_acceptedOdd := Some price, ord_acceptedStake := Some stake,
              ord_acceptedAt := oo_acceptedAt accepted, ord_statusReason := None\<rparr>) d1) (\<lambda>d2.
     bindE (release_unused e order acceptedStake d2) (\<lambda>d3.
       decision_executed e order acceptedOdd d3)))))"

definition acceptance_body ::
  "env \<Rightarrow> string \<Rightarrow> operator_order \<Rightarrow> auto_stop_request option tx" where
  "acceptance_body e orderId accepted d =
     bindE (get_order orderId d) (\<lambda>order.
       if ord_status order \<notin> {Ord_SUBMITTING, Ord_UNKNOWN, Ord_RESERVED} then Inr (None, d)
       else bindE (acceptanceViolation order accepted) (\<lambda>violation.
         if violation \<noteq> None \<or> receipt_taken accepted d \<or> external_taken order accepted d
         then contract_breach e order accepted violation (receipt_taken accepted d) d
         else
           (case (oo_receiptHash accepted, oo_acceptedOdd accepted, oo_acceptedStake accepted) of
              (Some hash, Some price, Some stake) \<Rightarrow>
                bindE (accept_order e order accepted hash price stake d) (\<lambda>d'. Inr (None, d'))
            | _ \<Rightarrow> Inl (PlainError ''TypeError''))))"

definition applyAcceptance :: "env \<Rightarrow> string \<Rightarrow> string \<Rightarrow> operator_order \<Rightarrow> bet_order act" where
  "applyAcceptance e newId orderId accepted =
     bindA (commit (acceptance_body e orderId accepted)) (\<lambda>stopping d.
       (get_order orderId (applyStop e newId stopping d), applyStop e newId stopping d))"

section \<open>4. Submission and placement results\<close>

definition unknown_body :: "env \<Rightarrow> string \<Rightarrow> string \<Rightarrow> unit tx" where
  "unknown_body e orderId reason d =
     bindE (get_order orderId d) (\<lambda>order.
       if ord_status order \<noteq> Ord_SUBMITTING then Inr ((), d)
       else bindE (transition e (ord_id order) (ord_version order)
              (\<lambda>r. r\<lparr>ord_status := Ord_UNKNOWN, ord_unknownSince := Some (env_now e),
                     ord_statusReason := Some (redactErrorMessage (PlainError reason))\<rparr>) d) (\<lambda>d1. Inr ((), d1)))"

definition applyPlacementResult ::
  "env \<Rightarrow> string \<Rightarrow> string \<Rightarrow> place_order_result \<Rightarrow> bet_order act" where
  "applyPlacementResult e newId orderId result0 =
     (let result = (case result0 of
            PlaceAccepted a \<Rightarrow> if isWellFormedAcceptance result0 then result0
                               else PlaceUnknown ''Reponse d'acceptation malformee''
          | _ \<Rightarrow> result0)
      in case result of
           PlaceAccepted a \<Rightarrow> applyAcceptance e newId orderId (accepted_order a)
         | PlaceRejected reasonCode raw \<Rightarrow>
             bindA (readA (get_order orderId)) (\<lambda>order.
               cancelSubmitting e order
                 (case rejection_by_operator_reason reasonCode of None \<Rightarrow> OPERATOR_UNAVAILABLE | Some c \<Rightarrow> c)
                 (take 255 (''Refus operateur '' @ reasonCode)))
         | PlaceUnknown reason \<Rightarrow>
             bindA (commit (unknown_body e orderId reason)) (\<lambda>_. readA (get_order orderId)))"

definition place_request :: "bet_order \<Rightarrow> place_order_request" where
  "place_request order =
     \<lparr>po_decisionId = ord_decisionId order, po_idempotencyKey = ord_idempotencyKey order,
      po_operatorKey = ord_operatorKey order, po_fixtureId = ord_fixtureId order,
      po_providerFixtureId = ord_providerFixtureId order, po_marketKey = ord_marketKey order,
      po_selectionKey = ord_selectionKey order, po_requestedOdd = ord_requestedOdd order,
      po_minimumOdd = ord_minimumOdd order, po_stake = ord_requestedStake order,
      po_currency = ord_currency order, po_quoteCapturedAt = ord_quoteCapturedAt order\<rparr>"

text \<open>The permit is checked under the shared lock that is held during the call.\<close>

definition submit_place ::
  "env \<Rightarrow> 's port \<Rightarrow> bool \<Rightarrow> execution_mode \<Rightarrow> bet_order \<Rightarrow> db \<Rightarrow> 's \<Rightarrow> place_order_result res \<times> 's" where
  "submit_place e port late mode order d s =
     (case withSubmissionPermit e mode (Inr ()) d of
        Inl err \<Rightarrow> (Inl err, s)
      | Inr _ \<Rightarrow> (case port_placeOrder port (place_request order) s of (r, s') \<Rightarrow>
                    (boundedSubmission late submission_timeout_ms r, s')))"

definition submit_conclude ::
  "env \<Rightarrow> string \<Rightarrow> bet_order \<Rightarrow> place_order_result res \<Rightarrow> bet_order act" where
  "submit_conclude e newId order result d =
     (case result of
        Inl (ExecutionBlockedError m unreadable) \<Rightarrow>
          cancelSubmitting e order CONTROL_DISABLED ''Arret juste avant soumission''
            (if unreadable then snd (autoStop e newId CONTROL_UNREADABLE (order_detail (ord_id order)) d) else d)
      | Inl err \<Rightarrow> applyPlacementResult e newId (ord_id order) (PlaceUnknown (redactErrorMessage err)) d
      | Inr r \<Rightarrow> applyPlacementResult e newId (ord_id order) r d)"

text \<open>
  \<open>submit\<close>: the environments are those of the check, of the permit and of the persistence.
\<close>

definition submit ::
  "(execution_mode \<Rightarrow> 's port option) \<Rightarrow> env \<Rightarrow> env \<Rightarrow> env \<Rightarrow> string \<Rightarrow> bool \<Rightarrow> string \<Rightarrow> db \<times> 's
     \<Rightarrow> bet_order res \<times> db \<times> 's" where
  "submit ports e1 e2 e3 newId late orderId w =
     (let (d, s) = w in
      case get_order orderId d of
        Inl err \<Rightarrow> (Inl err, d, s)
      | Inr reserved \<Rightarrow>
          if ord_status reserved \<noteq> Ord_RESERVED then (Inr reserved, d, s)
          else
            (case portFor ports (ord_mode reserved) of
               Inl _ \<Rightarrow> (let (r, d') = cancelReserved e1 reserved CONTROL_DISABLED ''Mode sans adaptateur'' d
                         in (r, d', s))
             | Inr port \<Rightarrow>
                 (let (quote, s1) = submit_quote e1 port reserved s;
                      (outcome, d1) = submit_checked e1 reserved quote d
                  in case outcome of
                       Withdraw code reason stopping order \<Rightarrow>
                         (let (r, d2) = cancelReserved e1 order code reason (applyStop e1 newId stopping d1)
                          in (r, d2, s1))
                     | Proceed order \<Rightarrow>
                         if ord_status order \<noteq> Ord_SUBMITTING then (Inr order, d1, s1)
                         else (case execution_mode_of (ord_mode order) of
                                 None \<Rightarrow>
                                   (let (r, d2) = cancelSubmitting e2 order CONTROL_DISABLED
                                          ''Mode d'execution invalide avant soumission'' d1
                                    in (r, d2, s1))
                               | Some mode \<Rightarrow>
                                   (let (result, s2) = submit_place e2 port late mode order d1 s1;
                                        (r, d2) = submit_conclude e3 newId order result d1
                                    in (r, d2, s2))))))"

section \<open>5. Settlement\<close>

definition settle_order_body ::
  "env \<Rightarrow> string \<Rightarrow> operator_order \<Rightarrow> string \<Rightarrow> decision_outcome \<Rightarrow> int \<Rightarrow> unit tx" where
  "settle_order_body e orderId oo payout outcome profitCents d =
     bindE (get_order orderId d) (\<lambda>current.
       if ord_status current \<noteq> Ord_ACCEPTED then Inr ((), d)
       else
         (let settledAt = (case oo_settledAt oo of Some t \<Rightarrow> t | None \<Rightarrow> env_now e)
          in bindE (store_decimal payout) (\<lambda>stored.
             bindE (transition e (ord_id current) (ord_version current)
               (\<lambda>r. r\<lparr>ord_status := (if outcome = VOID then Ord_VOIDED else Ord_SETTLED),
                      ord_payout := Some stored, ord_settledAt := Some settledAt\<rparr>) d) (\<lambda>d1.
             bindE (fromCents profitCents) (\<lambda>profit.
             bindE (update_decisions (\<lambda>r. dec_id r = ord_decisionId current)
               (\<lambda>r. r\<lparr>dec_status := Dec_COMPLETED, dec_outcome := Some outcome,
                      dec_profit := Some profit, dec_settledAt := Some settledAt\<rparr>) d1) (\<lambda>d2.
               Inr ((), d2)))))))"

text \<open>\<open>settleStake\<close> commits on its own, before the transaction that closes the order.\<close>

definition settleFromOperator :: "env \<Rightarrow> string \<Rightarrow> string \<Rightarrow> operator_order \<Rightarrow> bet_order act" where
  "settleFromOperator e newId orderId oo =
     bindA (readA (get_order orderId)) (\<lambda>order.
       if ord_status order \<noteq> Ord_ACCEPTED then returnA order
       else
         (case (oo_status oo \<in> {Op_SETTLED, Op_VOIDED}, oo_payout oo, ord_acceptedStake order) of
            (True, Some payout, Some stake) \<Rightarrow>
              if \<not> stake_text payout then returnA order
              else
                bindA (commit (settleStake e newId (ord_accountId order) (settle_key order) stake payout
                                 (Some (ord_id order)))) (\<lambda>_.
                bindA (liftE (settlementOutcome stake payout)) (\<lambda>(outcome, profitCents).
                bindA (commit (settle_order_body e orderId oo payout outcome profitCents)) (\<lambda>_.
                  readA (get_order orderId))))
          | (True, Some payout, None) \<Rightarrow>
              if \<not> stake_text payout then returnA order else liftE (Inl (PlainError ''TypeError''))
          | _ \<Rightarrow> returnA order))"

section \<open>6. The way out of UNKNOWN\<close>

definition resolveUnknown ::
  "env \<Rightarrow> string \<Rightarrow> bet_order \<Rightarrow> operator_order option \<Rightarrow> int \<Rightarrow> unknown_resolution act" where
  "resolveUnknown e newId order answer now =
     (if ord_status order \<noteq> Ord_UNKNOWN then returnA Un_PENDING
      else
        (let age = now - (case ord_unknownSince order of Some t \<Rightarrow> t | None \<Rightarrow> ord_updatedAt order) in
         case answer of
           Some oo \<Rightarrow>
             if oo_status oo = Op_REJECTED
             then bindA (cancelUnknown e order OPERATOR_UNAVAILABLE ''Refus confirme par lecture operateur'')
                    (\<lambda>_. returnA Un_REJECTED)
             else
               bindA (applyAcceptance e newId (ord_id order) oo) (\<lambda>accepted.
                 if ord_status accepted = Ord_RECONCILIATION_REQUIRED
                 then returnA Un_RECONCILIATION_REQUIRED
                 else if oo_status oo \<in> {Op_SETTLED, Op_VOIDED}
                 then bindA (settleFromOperator e newId (ord_id order) oo) (\<lambda>_. returnA Un_SETTLED)
                 else returnA Un_ACCEPTED)
         | None \<Rightarrow>
             if age \<ge> unknown_max_age_ms
             then (\<lambda>d. (Inr Un_TOO_OLD,
                        snd (autoStop e newId UNKNOWN_ORDER_TOO_OLD (order_detail (ord_id order)) d)))
             else if age \<ge> unknown_grace_ms
             then bindA (cancelUnknown e order OPERATOR_UNAVAILABLE
                           ''Absent chez l'operateur apres le delai de grace'')
                    (\<lambda>_. returnA Un_DECLARED_NOT_PLACED)
             else returnA Un_PENDING))"

section \<open>7. Recovery of interrupted work\<close>

definition is_stale :: "int \<Rightarrow> bet_order \<Rightarrow> bool" where
  "is_stale now r =
     (ord_status r = Ord_SUBMITTING
      \<and> (case ord_submittedAt r of None \<Rightarrow> False | Some t \<Rightarrow> t < now - submitting_stale_ms))"

definition recoverStaleSubmissions :: "env \<Rightarrow> int \<Rightarrow> nat act" where
  "recoverStaleSubmissions e now =
     bindA (readA (\<lambda>d. Inr (List.map ord_id (filter (is_stale now) (orders d))))) (\<lambda>stale.
       if stale = [] then returnA 0
       else commit (\<lambda>d. update_orders (\<lambda>r. ord_id r \<in> set stale \<and> ord_status r = Ord_SUBMITTING)
              (\<lambda>r. r\<lparr>ord_status := Ord_UNKNOWN, ord_unknownSince := ord_submittedAt r,
                     ord_statusReason := Some ''Soumission interrompue : resultat inconnu'',
                     ord_version := ord_version r + 1, ord_updatedAt := env_dbNow e\<rparr>) d))"

text \<open>\<open>ORDER BY id ASC\<close>, by character codes.\<close>

fun text_le :: "string \<Rightarrow> string \<Rightarrow> bool" where
  "text_le [] t = True"
| "text_le (c # cs) [] = False"
| "text_le (c # cs) (x # xs) =
     ((of_char c :: nat) < of_char x \<or> (c = x \<and> text_le cs xs))"

fun insert_by_id :: "bet_order \<Rightarrow> bet_order list \<Rightarrow> bet_order list" where
  "insert_by_id r [] = [r]"
| "insert_by_id r (x # xs) =
     (if text_le (ord_id r) (ord_id x) then r # x # xs else x # insert_by_id r xs)"

definition sort_by_id :: "bet_order list \<Rightarrow> bet_order list" where
  "sort_by_id rs = foldr insert_by_id rs []"

definition release_inputs :: "bet_order list \<Rightarrow> append_input list res" where
  "release_inputs =
     mapE (\<lambda>r. bindE (toCents (ord_requestedStake r)) (\<lambda>c.
       Inr (stake_input RELEASE (release_key r) c (Some (ord_id r)) None)))"

definition batch_releasable :: "string list \<Rightarrow> db \<Rightarrow> bet_order list" where
  "batch_releasable ids d =
     filter (\<lambda>r. find_entry (reserve_key r) d \<noteq> None)
       (sort_by_id (filter (\<lambda>r. ord_id r \<in> set ids \<and> ord_status r = Ord_RESERVED) (orders d)))"

definition reject_batch :: "env \<Rightarrow> bet_order list \<Rightarrow> db \<Rightarrow> db res" where
  "reject_batch e releasable d =
     bindE (update_orders (\<lambda>r. ord_id r \<in> set (List.map ord_id releasable) \<and> ord_status r = Ord_RESERVED)
       (\<lambda>r. (rejected_order OPERATOR_UNAVAILABLE ''Reservation abandonnee avant soumission'' r)
               \<lparr>ord_version := ord_version r + 1, ord_updatedAt := env_dbNow e\<rparr>) d) (\<lambda>(_, d1).
       update_decisions (\<lambda>r. dec_id r \<in> set (List.map ord_decisionId releasable))
         (\<lambda>r. r\<lparr>dec_status := Dec_REJECTED, dec_rejectionCode := Some OPERATOR_UNAVAILABLE\<rparr>) d1)"

definition cancel_batch_body :: "env \<Rightarrow> string list \<Rightarrow> string list tx" where
  "cancel_batch_body e ids d =
     (let found = filter (\<lambda>r. ord_id r \<in> set ids \<and> ord_status r = Ord_RESERVED) (orders d);
          releasable = batch_releasable ids d;
          cancelled = List.map ord_id releasable
      in if found = [] then Inr ([], d)
         else
           (case uniq (List.map ord_accountId (sort_by_id found)) of
              [accountId] \<Rightarrow>
                bindE (lockAccount accountId d) (\<lambda>account.
                bindE (release_inputs releasable) (\<lambda>inputs.
                bindE (appendBatch account inputs (env_dbNow e) d) (\<lambda>(_, d1).
                  if cancelled = [] then Inr ([], d1)
                  else bindE (reject_batch e releasable d1) (\<lambda>d3. Inr (cancelled, d3)))))
            | _ \<Rightarrow> Inl (PlainError ''Un lot d'annulation doit cibler un seul compte'')))"

definition cancelAbandonedBatch :: "env \<Rightarrow> string list \<Rightarrow> string list act" where
  "cancelAbandonedBatch e orderIds =
     (if uniq orderIds = [] then returnA [] else commit (cancel_batch_body e (uniq orderIds)))"

definition cancelAbandoned :: "env \<Rightarrow> string \<Rightarrow> bool act" where
  "cancelAbandoned e orderId =
     bindA (cancelAbandonedBatch e [orderId]) (\<lambda>done. returnA (orderId \<in> set done))"

definition ledgerInvariantOk :: "string \<Rightarrow> bool act" where
  "ledgerInvariantOk accountId =
     readA (\<lambda>d. bindE (verifyInvariant accountId d) (\<lambda>report. Inr (rep_ok report)))"

section \<open>The whole pipeline\<close>

text \<open>\<open>executeDecision\<close>: may be called again; returns the existing order, never resubmits.\<close>

definition executeDecision ::
  "(string \<Rightarrow> string) \<Rightarrow> (execution_mode \<Rightarrow> 's port option) \<Rightarrow> env \<Rightarrow> env \<Rightarrow> env \<Rightarrow> env \<Rightarrow> string \<Rightarrow> bool
     \<Rightarrow> string \<Rightarrow> string \<Rightarrow> string \<Rightarrow> db \<times> 's \<Rightarrow> bet_order option res \<times> db \<times> 's" where
  "executeDecision sha ports e0 e1 e2 e3 newId late orderId decisionId accountId w =
     (let (d, s) = w in
      case reserve sha ports e0 newId orderId decisionId accountId d of
        (Inl err, d1) \<Rightarrow> (Inl err, d1, s)
      | (Inr None, d1) \<Rightarrow> (Inr None, d1, s)
      | (Inr (Some order), d1) \<Rightarrow>
          if ord_status order \<noteq> Ord_RESERVED then (Inr (Some order), d1, s)
          else (case submit ports e1 e2 e3 newId late (ord_id order) (d1, s) of
                  (Inl err, w') \<Rightarrow> (Inl err, w')
                | (Inr r, w') \<Rightarrow> (Inr (Some r), w')))"

end
