(* ===== verification/OrdersInvariant.thy ===== *)
theory OrdersInvariant
  imports Orders
begin

text \<open>
  What every operation of the pipeline keeps: the tables of orders stay consistent, the ledger
  keeps its invariant, and each order only moves forward in the graph of statuses, with its
  terms unchanged and its version counting its changes.
\<close>

section \<open>The graph of statuses\<close>

text \<open>The direct moves of an order.\<close>

fun status_next :: "order_status \<Rightarrow> order_status list" where
  "status_next Ord_RESERVED = [Ord_SUBMITTING, Ord_REJECTED, Ord_ACCEPTED, Ord_RECONCILIATION_REQUIRED]"
| "status_next Ord_SUBMITTING = [Ord_ACCEPTED, Ord_REJECTED, Ord_UNKNOWN, Ord_RECONCILIATION_REQUIRED]"
| "status_next Ord_UNKNOWN = [Ord_ACCEPTED, Ord_REJECTED, Ord_RECONCILIATION_REQUIRED]"
| "status_next Ord_ACCEPTED = [Ord_SETTLED, Ord_VOIDED]"
| "status_next Ord_REJECTED = []"
| "status_next Ord_SETTLED = []"
| "status_next Ord_VOIDED = []"
| "status_next Ord_RECONCILIATION_REQUIRED = []"

definition later :: "order_status \<Rightarrow> order_status \<Rightarrow> bool" where
  "later a b = (\<lambda>x y. y \<in> set (status_next x))\<^sup>*\<^sup>* a b"

lemma later_refl [simp]: "later a a"
  by (simp add: later_def)

lemma later_trans: "later a b \<Longrightarrow> later b c \<Longrightarrow> later a c"
  unfolding later_def by (rule rtranclp_trans)

lemma later_next: "b \<in> set (status_next a) \<Longrightarrow> later a b"
  by (auto simp: later_def)

lemma later_step: "later a c \<longleftrightarrow> a = c \<or> (\<exists>b \<in> set (status_next a). later b c)"
proof
  assume "later a c"
  then show "a = c \<or> (\<exists>b \<in> set (status_next a). later b c)"
    unfolding later_def by (cases rule: converse_rtranclpE) auto
next
  assume "a = c \<or> (\<exists>b \<in> set (status_next a). later b c)"
  then show "later a c"
    unfolding later_def by (auto intro: converse_rtranclp_into_rtranclp)
qed

lemma later_terminal:
  "later Ord_REJECTED s = (s = Ord_REJECTED)"
  "later Ord_SETTLED s = (s = Ord_SETTLED)"
  "later Ord_VOIDED s = (s = Ord_VOIDED)"
  "later Ord_RECONCILIATION_REQUIRED s = (s = Ord_RECONCILIATION_REQUIRED)"
  by (auto simp: later_step [of Ord_REJECTED] later_step [of Ord_SETTLED] later_step [of Ord_VOIDED]
      later_step [of Ord_RECONCILIATION_REQUIRED])

lemma later_from:
  "later Ord_ACCEPTED s = (s \<in> {Ord_ACCEPTED, Ord_SETTLED, Ord_VOIDED})"
  "later Ord_UNKNOWN s = (s \<in> {Ord_UNKNOWN, Ord_ACCEPTED, Ord_REJECTED, Ord_RECONCILIATION_REQUIRED,
      Ord_SETTLED, Ord_VOIDED})"
  "later Ord_SUBMITTING s = (s \<noteq> Ord_RESERVED)"
  "later Ord_RESERVED s"
proof -
  show a: "later Ord_ACCEPTED s = (s \<in> {Ord_ACCEPTED, Ord_SETTLED, Ord_VOIDED})" for s
    by (subst later_step) (auto simp: later_terminal)
  show u: "later Ord_UNKNOWN s = (s \<in> {Ord_UNKNOWN, Ord_ACCEPTED, Ord_REJECTED, Ord_RECONCILIATION_REQUIRED,
      Ord_SETTLED, Ord_VOIDED})" for s
    by (subst later_step) (auto simp: later_terminal a)
  show b: "later Ord_SUBMITTING s = (s \<noteq> Ord_RESERVED)" for s
    by (subst later_step) (cases s; auto simp: later_terminal a u)
  show "later Ord_RESERVED s"
    by (subst later_step) (auto simp: b)
qed

section \<open>Rows over time\<close>

text \<open>What never changes in an order.\<close>

definition same_order :: "bet_order \<Rightarrow> bet_order \<Rightarrow> bool" where
  "same_order r r' =
     (ord_id r' = ord_id r \<and> ord_decisionId r' = ord_decisionId r \<and> ord_accountId r' = ord_accountId r
      \<and> ord_mode r' = ord_mode r \<and> ord_operatorKey r' = ord_operatorKey r
      \<and> ord_idempotencyKey r' = ord_idempotencyKey r \<and> ord_fixtureId r' = ord_fixtureId r
      \<and> ord_providerFixtureId r' = ord_providerFixtureId r \<and> ord_marketKey r' = ord_marketKey r
      \<and> ord_selectionKey r' = ord_selectionKey r \<and> ord_currency r' = ord_currency r
      \<and> ord_requestedStake r' = ord_requestedStake r \<and> ord_minimumOdd r' = ord_minimumOdd r
      \<and> ord_quoteCapturedAt r' = ord_quoteCapturedAt r \<and> ord_createdAt r' = ord_createdAt r)"

lemma same_order_refl [simp]: "same_order r r"
  by (simp add: same_order_def)

lemma same_order_trans: "same_order a b \<Longrightarrow> same_order b c \<Longrightarrow> same_order a c"
  by (simp add: same_order_def)

lemma same_order_keys:
  "same_order r r' \<Longrightarrow> ord_id r' = ord_id r \<and> ord_decisionId r' = ord_decisionId r
     \<and> ord_idempotencyKey r' = ord_idempotencyKey r \<and> ord_accountId r' = ord_accountId r"
  by (simp add: same_order_def)

definition row_run :: "bet_order \<Rightarrow> bet_order \<Rightarrow> bool" where
  "row_run r r' =
     (same_order r r' \<and> later (ord_status r) (ord_status r') \<and> ord_version r \<le> ord_version r'
      \<and> (ord_version r' = ord_version r \<longrightarrow> r' = r))"

lemma row_run_refl [simp]: "row_run r r"
  by (simp add: row_run_def)

lemma row_run_trans: "row_run a b \<Longrightarrow> row_run b c \<Longrightarrow> row_run a c"
  unfolding row_run_def using later_trans same_order_trans
  by (smt (verit, ccfv_SIG))

definition born :: "bet_order \<Rightarrow> bool" where
  "born r = (\<exists>s. ord_status s = Ord_RESERVED \<and> ord_version s = 1 \<and> row_run s r)"

definition orders_run :: "db \<Rightarrow> db \<Rightarrow> bool" where
  "orders_run d d' =
     (\<exists>rows new. orders d' = rows @ new \<and> list_all2 row_run (orders d) rows \<and> list_all born new)"

lemma orders_run_same: "orders d' = orders d \<Longrightarrow> orders_run d d'"
  unfolding orders_run_def by (intro exI [of _ "orders d"] exI [of _ "[]"]) (simp add: list_all2_refl)

lemma orders_run_refl [simp]: "orders_run d d"
  by (rule orders_run_same) simp

lemma born_run: "born r \<Longrightarrow> row_run r r' \<Longrightarrow> born r'"
  unfolding born_def using row_run_trans by blast

lemma orders_run_trans:
  assumes "orders_run a b" and "orders_run b c"
  shows "orders_run a c"
proof -
  from assms obtain rows new rows2 new2 where 1: "orders b = rows @ new" "list_all2 row_run (orders a) rows"
      "list_all born new" and 2: "orders c = rows2 @ new2" "list_all2 row_run (rows @ new) rows2" "list_all born new2"
    by (auto simp: orders_run_def)
  from 2(2) obtain x y where xy: "rows2 = x @ y" "list_all2 row_run rows x" "list_all2 row_run new y"
    by (auto simp: list_all2_append1)
  have "list_all2 row_run (orders a) x"
    by (rule list_all2_trans [OF row_run_trans 1(2) xy(2)])
  moreover have "list_all born y"
    using 1(3) xy(3) by (auto simp: list_all_length list_all2_conv_all_nth intro: born_run)
  ultimately show ?thesis
    unfolding orders_run_def using 2 xy by (intro exI [of _ x] exI [of _ "y @ new2"]) simp
qed

lemma orders_run_row:
  assumes "orders_run d d'" and "r \<in> set (orders d)"
  shows "\<exists>r' \<in> set (orders d'). row_run r r'"
proof -
  from assms(1) obtain rows new where 1: "orders d' = rows @ new" "list_all2 row_run (orders d) rows"
    by (auto simp: orders_run_def)
  from assms(2) obtain i where i: "i < length (orders d)" "orders d ! i = r" by (auto simp: in_set_conv_nth)
  with 1(2) have "row_run r (rows ! i)" "rows ! i \<in> set rows"
    by (auto simp: list_all2_conv_all_nth)
  with 1(1) show ?thesis by auto
qed

section \<open>Consistency of the tables\<close>

definition orders_ok :: "db \<Rightarrow> bool" where
  "orders_ok d =
     (distinct (List.map ord_id (orders d)) \<and> distinct (List.map ord_idempotencyKey (orders d))
      \<and> distinct (List.map ord_decisionId (orders d)) \<and> list_all chk_order (orders d)
      \<and> distinct (external_keys (orders d)))"

definition pipeline_ok :: "db \<Rightarrow> bool" where
  "pipeline_ok d = (ledger_ok d \<and> orders_ok d)"

text \<open>One step of anything: if the tables are consistent they stay so, and orders move forward.\<close>

definition op_keeps :: "db \<Rightarrow> db \<Rightarrow> bool" where
  "op_keeps d d' = (pipeline_ok d \<longrightarrow> pipeline_ok d' \<and> orders_run d d')"

lemma op_keeps_refl [simp]: "op_keeps d d"
  by (simp add: op_keeps_def)

lemma op_keeps_trans: "op_keeps a b \<Longrightarrow> op_keeps b c \<Longrightarrow> op_keeps a c"
  unfolding op_keeps_def using orders_run_trans by blast

definition keepsA :: "'a act \<Rightarrow> bool" where
  "keepsA m = (\<forall>d. op_keeps d (snd (m d)))"

definition keepsT :: "'a tx \<Rightarrow> bool" where
  "keepsT m = (\<forall>d x d'. m d = Inr (x, d') \<longrightarrow> op_keeps d d')"

lemma keepsA_I: "(\<And>d r d'. m d = (r, d') \<Longrightarrow> op_keeps d d') \<Longrightarrow> keepsA m"
  unfolding keepsA_def by (metis prod.collapse)

lemma keepsA_D: "keepsA m \<Longrightarrow> m d = (r, d') \<Longrightarrow> op_keeps d d'"
  unfolding keepsA_def by (metis snd_conv)

lemma keepsT_I: "(\<And>d x d'. m d = Inr (x, d') \<Longrightarrow> op_keeps d d') \<Longrightarrow> keepsT m"
  by (auto simp: keepsT_def)

lemma keepsA_commit [intro]: "keepsT m \<Longrightarrow> keepsA (commit m)"
  by (rule keepsA_I) (auto simp: keepsT_def elim: commit_cases)

lemma keepsA_bindA [intro]: "keepsA m \<Longrightarrow> (\<And>x. keepsA (f x)) \<Longrightarrow> keepsA (bindA m f)"
  unfolding keepsA_def bindA_def
  by (auto split: prod.splits sum.splits) (metis op_keeps_trans snd_conv)+

lemma keepsA_simple [simp, intro]: "keepsA (returnA x)" "keepsA (readA g)" "keepsA (liftE r)"
  by (simp_all add: keepsA_def returnA_def readA_def liftE_def)

lemma pipeline_ok_cong:
  assumes "accounts d' = accounts d" "entries d' = entries d" "orders d' = orders d"
  shows "pipeline_ok d' = pipeline_ok d"
  using assms ledger_ok_cong [of d' d] by (simp add: pipeline_ok_def orders_ok_def)

lemma op_keeps_frame:
  assumes "accounts d' = accounts d" "entries d' = entries d" "orders d' = orders d"
  shows "op_keeps d d'"
  using assms by (simp add: op_keeps_def pipeline_ok_cong [OF assms] orders_run_same)

lemma op_keeps_control: "control_frame d d' \<Longrightarrow> op_keeps d d'"
  by (rule op_keeps_frame) (simp_all only: control_frame_tables)

lemma op_keeps_stop [simp]: "op_keeps d (applyStop e i s d)" "op_keeps d (snd (autoStop e i t m d))"
  by (simp_all add: op_keeps_control)

lemma op_keeps_append:
  assumes "lockAccount i d = Inr a" and "append a inp now d = Inr ((r, a'), d')"
  shows "op_keeps d d'"
proof -
  have "locked_copy a d" using assms(1) by (auto dest: lockAccount_copy)
  with append_keeps_ledger_ok [OF _ this assms(2)] append_frame(7) [OF assms(2)] show ?thesis
    by (auto simp: op_keeps_def pipeline_ok_def orders_ok_def orders_run_same)
qed

lemma op_keeps_ledger:
  assumes "ledger_ok d \<Longrightarrow> ledger_ok d'" and "orders d' = orders d"
  shows "op_keeps d d'"
  using assms by (auto simp: op_keeps_def pipeline_ok_def orders_ok_def orders_run_same)

section \<open>The statements on orders\<close>

definition bump :: "env \<Rightarrow> (bet_order \<Rightarrow> bet_order) \<Rightarrow> bet_order \<Rightarrow> bet_order" where
  "bump e patch r = (patch r)\<lparr>ord_version := ord_version r + 1, ord_updatedAt := env_dbNow e\<rparr>"

lemma update_orders_Inr:
  "update_orders p f d = Inr (n, d') \<longleftrightarrow>
     d' = d\<lparr>orders := update_rows p f (orders d)\<rparr> \<and> n = affected p (orders d)
     \<and> (\<forall>r \<in> set (orders d). p r \<longrightarrow> chk_order (f r)) \<and> distinct (external_keys (update_rows p f (orders d)))"
  by (auto simp: update_orders_def Let_def list_all_iff)

lemma find_order_row: "find_order i d = Some r \<Longrightarrow> r \<in> set (orders d) \<and> ord_id r = i"
  by (auto simp: find_order_def dest: find_row_SomeD)

lemma get_order_Inr [simp]: "(get_order i d = Inr r) = (find_order i d = Some r)"
  by (simp add: get_order_def)

lemma distinct_key_eq: "distinct (List.map k xs) \<Longrightarrow> x \<in> set xs \<Longrightarrow> y \<in> set xs \<Longrightarrow> k x = k y \<Longrightarrow> x = y"
  by (auto simp: distinct_map inj_on_def)

text \<open>Updating some rows, each one forward: the general statement.\<close>

lemma op_keeps_update:
  assumes up: "update_orders p f d = Inr (n, d')"
    and step: "\<And>r. pipeline_ok d \<Longrightarrow> r \<in> set (orders d) \<Longrightarrow> p r \<Longrightarrow> row_run r (f r)"
  shows "op_keeps d d'"
  unfolding op_keeps_def
proof
  assume ok: "pipeline_ok d"
  have d': "d' = d\<lparr>orders := update_rows p f (orders d)\<rparr>"
    and chk: "\<forall>r \<in> set (orders d). p r \<longrightarrow> chk_order (f r)"
    and ext: "distinct (external_keys (update_rows p f (orders d)))"
    using up by (auto simp: update_orders_Inr)
  have same: "same_order r (f r)" if "r \<in> set (orders d)" "p r" for r
    using step [OF ok that] by (simp add: row_run_def)
  have keys: "List.map ord_id (orders d') = List.map ord_id (orders d)"
    "List.map ord_idempotencyKey (orders d') = List.map ord_idempotencyKey (orders d)"
    "List.map ord_decisionId (orders d') = List.map ord_decisionId (orders d)"
    using same by (auto simp: d' update_rows_def dest: same_order_keys)
  have "list_all chk_order (orders d')"
    using ok chk by (auto simp: d' update_rows_def list_all_iff pipeline_ok_def orders_ok_def)
  with ok keys ext have "orders_ok d'"
    by (simp add: pipeline_ok_def orders_ok_def) (simp add: d')
  moreover have "ledger_ok d'"
    using ok by (subst ledger_ok_cong [of _ d]) (simp_all add: d' pipeline_ok_def)
  moreover have "list_all2 row_run (orders d) (orders d')"
    using step [OF ok] by (auto simp: d' update_rows_def list_all2_conv_all_nth)
  then have "orders_run d d'"
    unfolding orders_run_def by (intro exI [of _ "orders d'"] exI [of _ "[]"]) simp
  ultimately show "pipeline_ok d' \<and> orders_run d d'" by (simp add: pipeline_ok_def)
qed

lemma transition_Inr:
  assumes "transition e i v patch d = Inr d'"
  shows "update_orders (\<lambda>r. ord_id r = i \<and> ord_version r = v) (bump e patch) d = Inr (1, d')"
  using assms by (auto simp: transition_def bindE_eq_Inr bump_def [abs_def] split: if_splits)

lemma op_keeps_transition:
  assumes tr: "transition e (ord_id r) v patch d = Inr d'"
    and r: "find_order (ord_id r) d = Some r"
    and same: "same_order r (patch r)"
    and st: "ord_status (patch r) \<in> set (status_next (ord_status r))"
  shows "op_keeps d d'"
proof (rule op_keeps_update [OF transition_Inr [OF tr]])
  fix x assume ok: "pipeline_ok d" and x: "x \<in> set (orders d)" "ord_id x = ord_id r \<and> ord_version x = v"
  then have "x = r"
    using distinct_key_eq [of ord_id "orders d" x r] find_order_row [OF r]
    by (auto simp: pipeline_ok_def orders_ok_def)
  with same later_next [OF st] show "row_run x (bump e patch x)"
    by (simp add: row_run_def bump_def same_order_def)
qed

text \<open>The row a versioned transition of a found order leaves, and what it does not touch.\<close>

lemma transition_frame:
  assumes "transition e i v patch d = Inr d'"
  shows "accounts d' = accounts d" "entries d' = entries d" "decisions d' = decisions d"
    "receipts d' = receipts d" "controls d' = controls d"
  using transition_Inr [OF assms] by (auto simp: update_orders_Inr)

lemma find_order_transition:
  assumes tr: "transition e (ord_id r) (ord_version r) patch d = Inr d'"
    and r: "find_order (ord_id r) d = Some r" and patch: "\<And>x. ord_id (patch x) = ord_id x"
  shows "find_order (ord_id r) d' = Some (bump e patch r)"
proof -
  let ?p = "\<lambda>x. ord_id x = ord_id r \<and> ord_version x = ord_version r"
  have "orders d' = update_rows ?p (bump e patch) (orders d)"
    using transition_Inr [OF tr] by (auto simp: update_orders_Inr)
  moreover have "find_row (\<lambda>x. ord_id x = ord_id r) (update_rows ?p (bump e patch) (orders d))
      = map_option (\<lambda>x. if ?p x then bump e patch x else x) (find_row (\<lambda>x. ord_id x = ord_id r) (orders d))"
    by (rule find_row_update_rows) (simp add: bump_def patch)
  ultimately show ?thesis using r by (simp add: find_order_def)
qed

section \<open>Decisions and receipts\<close>

lemma update_decisions_frame:
  assumes "update_decisions p f d = Inr d'"
  shows "accounts d' = accounts d" "entries d' = entries d" "orders d' = orders d"
    "receipts d' = receipts d" "controls d' = controls d"
  using assms by (auto simp: update_decisions_def)

lemma op_keeps_decisions: "update_decisions p f d = Inr d' \<Longrightarrow> op_keeps d d'"
  by (rule op_keeps_frame) (simp_all add: update_decisions_frame)

lemma op_keeps_rejectDecision: "rejectDecision i c o' d = Inr d' \<Longrightarrow> op_keeps d d'"
  unfolding rejectDecision_def by (rule op_keeps_decisions)

lemma insert_receipt_frame:
  assumes "insert_receipt r d = Inr d'"
  shows "accounts d' = accounts d" "entries d' = entries d" "orders d' = orders d" "controls d' = controls d"
    "receipts d' = receipts d @ [r]"
  using assms by (auto simp: insert_receipt_def)

section \<open>Cancelling\<close>

lemma release_reserved_keeps:
  assumes "release_reserved e r d = Inr d'"
  shows "op_keeps d d' \<and> orders d' = orders d"
proof (cases "find_entry (reserve_key r) d = None")
  case True
  with assms show ?thesis by (simp add: release_reserved_def)
next
  case False
  with assms obtain a c x where "lockAccount (ord_accountId r) d = Inr a"
    "append a (stake_input RELEASE (release_key r) c (Some (ord_id r)) None) (env_dbNow e) d = Inr (x, d')"
    by (auto simp: release_reserved_def elim!: bindE_elim)
  then show ?thesis
    by (cases x) (auto intro: op_keeps_append dest: append_frame(7))
qed

lemma same_order_rejected [simp]: "same_order r (rejected_order c m r)"
  by (simp add: same_order_def rejected_order_def)

lemma rejected_order_status [simp]:
  "ord_status (rejected_order c m r) = Ord_REJECTED" "ord_id (rejected_order c m r) = ord_id r"
  by (simp_all add: rejected_order_def)

lemma find_order_cong: "orders d' = orders d \<Longrightarrow> find_order i d' = find_order i d"
  by (simp add: find_order_def)

lemma keepsT_cancel_body:
  assumes "set from \<subseteq> {Ord_RESERVED, Ord_SUBMITTING, Ord_UNKNOWN}"
  shows "keepsT (cancel_body e i from code reason)"
proof (rule keepsT_I)
  fix d x d' assume run: "cancel_body e i from code reason d = Inr (x, d')"
  then obtain r where r: "find_order i d = Some r" by (auto simp: cancel_body_def elim!: bindE_elim)
  then have id: "ord_id r = i" by (auto dest: find_order_row)
  show "op_keeps d d'"
  proof (cases "ord_status r \<in> set from")
    case False
    with run r show ?thesis by (auto simp: cancel_body_def elim!: bindE_elim)
  next
    case True
    with run r id obtain d1 d2 where d1: "release_reserved e r d = Inr d1"
      and d2: "transition e (ord_id r) (ord_version r) (rejected_order code reason) d1 = Inr d2"
      and d3: "rejectDecision (ord_decisionId r) code None d2 = Inr d'"
      by (auto simp: cancel_body_def elim!: bindE_elim)
    note rel = release_reserved_keeps [OF d1]
    have "op_keeps d1 d2"
    proof (rule op_keeps_transition [OF d2])
      show "find_order (ord_id r) d1 = Some r" using r id rel find_order_cong [of d1 d] by simp
    qed (use True assms in auto)
    with rel op_keeps_rejectDecision [OF d3] show ?thesis by (blast intro: op_keeps_trans)
  qed
qed

lemma keepsA_cancel:
  "set from \<subseteq> {Ord_RESERVED, Ord_SUBMITTING, Ord_UNKNOWN} \<Longrightarrow> keepsA (cancel e i from code reason)"
  unfolding cancel_def by (intro keepsA_bindA keepsA_commit keepsT_cancel_body) auto

lemma keepsA_cancels [intro]:
  "keepsA (cancelReserved e r code reason)" "keepsA (cancelSubmitting e r code reason)"
  "keepsA (cancelUnknown e r code reason)"
  unfolding cancelReserved_def cancelSubmitting_def cancelUnknown_def
  by (auto intro!: keepsA_cancel)

section \<open>Reserving\<close>

lemma external_keys_append [simp]: "external_keys (xs @ ys) = external_keys xs @ external_keys ys"
  by (induction xs) (auto split: option.splits)

lemma op_keeps_insert:
  assumes ins: "insert_order r d = Inr d'"
    and new: "ord_status r = Ord_RESERVED" "ord_version r = 1" "ord_externalOrderId r = None"
  shows "op_keeps d d'"
  unfolding op_keeps_def
proof
  assume ok: "pipeline_ok d"
  from ins have d': "d' = d\<lparr>orders := orders d @ [r]\<rparr>" and chk: "chk_order r"
    and free: "find_order (ord_id r) d = None" "\<forall>x \<in> set (orders d). ord_idempotencyKey x \<noteq> ord_idempotencyKey r
      \<and> ord_decisionId x \<noteq> ord_decisionId r"
    by (auto simp: insert_order_def find_row_None_iff)
  have "orders_ok d'"
    using ok chk free new by (auto simp: pipeline_ok_def orders_ok_def d' find_order_def find_row_None_iff)
  moreover have "ledger_ok d'"
    using ok by (subst ledger_ok_cong [of _ d]) (simp_all add: d' pipeline_ok_def)
  moreover have "born r" using new by (auto simp: born_def intro: exI [of _ r])
  then have "orders_run d d'"
    unfolding orders_run_def by (intro exI [of _ "orders d"] exI [of _ "[r]"]) (simp add: d' list_all2_refl)
  ultimately show "pipeline_ok d' \<and> orders_run d d'" by (simp add: pipeline_ok_def)
qed

lemma insert_order_found:
  "insert_order r d = Inr d' \<Longrightarrow> find_order (ord_id r) d' = Some r"
  by (auto simp: insert_order_def find_order_def find_row_append)

lemma op_keeps_reserveWithin:
  assumes "reserveWithin e q d = (s, Inr (result, d'))"
  shows "op_keeps d d' \<and> orders d' = orders d"
proof (cases result)
  case (Refused c l m)
  with assms reserveWithin_refused [of e q d s c l m d'] show ?thesis by simp
next
  case (Reserved entry re)
  show ?thesis
  proof (cases "find_entry (rsv_entryKey q) d")
    case (Some x)
    with assms reserveWithin_replayed [OF assms Some] show ?thesis by simp
  next
    case None
    from assms Reserved None obtain c p a where a: "find_account (rsv_accountId q) d = Some a"
      and lock: "reserve_locked e q p a d = (s, Inr (Reserved entry re, d'))"
      by (auto elim: reserveWithin_new)
    from lock obtain stake r a' where
      "append a (stake_input RESERVE (rsv_entryKey q) stake (rsv_orderId q) (rsv_actorUserId q)) (env_dbNow e) d
         = Inr ((r, a'), d')"
      by (rule reserve_locked_Reserved)
    with a show ?thesis
      by (auto intro: op_keeps_append dest: append_frame(7) simp: lockAccount_Inr_iff)
  qed
qed

lemma reserve_stake_for_keeps:
  assumes run: "reserve_stake_for e r d = (s, Inr (x, d'))"
    and r: "find_order (ord_id r) d = Some r" "ord_status r = Ord_RESERVED"
  shows "op_keeps d d'"
proof -
  let ?q = "\<lparr>rsv_accountId = ord_accountId r, rsv_entryKey = reserve_key r,
             rsv_stake = ord_requestedStake r, rsv_quoteCapturedAt = ord_quoteCapturedAt r,
             rsv_orderId = Some (ord_id r), rsv_actorUserId = None\<rparr>"
  from run obtain result d1 where w: "reserveWithin e ?q d = (s, Inr (result, d1))"
    by (auto simp: reserve_stake_for_def split: prod.splits sum.splits reservation_result.splits)
  note k = op_keeps_reserveWithin [OF w]
  show ?thesis
  proof (cases result)
    case (Refused c l m)
    with run w obtain d2 where d2: "transition e (ord_id r) 1 (rejected_order c m) d1 = Inr d2"
      "rejectDecision (ord_decisionId r) c None d2 = Inr d'"
      by (auto simp: reserve_stake_for_def elim!: bindE_elim)
    have "op_keeps d1 d2"
    proof (rule op_keeps_transition [OF d2(1)])
      show "find_order (ord_id r) d1 = Some r" using r(1) k find_order_cong [of d1 d] by simp
    qed (use r(2) in auto)
    with k op_keeps_rejectDecision [OF d2(2)] show ?thesis by (blast intro: op_keeps_trans)
  next
    case (Reserved entry re)
    with run w obtain f p where "update_decisions p f d1 = Inr d'"
      by (auto simp: reserve_stake_for_def elim!: bindE_elim)
    with k op_keeps_decisions show ?thesis by (blast intro: op_keeps_trans)
  qed
qed

lemma reserve_decision_keeps:
  assumes "reserve_decision sha e oid acc mode op dec d = (s, Inr (x, d'))"
  shows "op_keeps d d'"
proof -
  have reject: "op_keeps d d1" if "rejectDecision i c f d = Inr d1" for i c f d1
    using that by (rule op_keeps_rejectDecision)
  show ?thesis
  proof (cases "dec_decisionOdd dec = None \<or> dec_stake dec = None \<or> dec_decisionObservedAt dec = None")
    case True
    with assms reject show ?thesis
      by (auto simp: reserve_decision_def split: option.splits elim!: bindE_elim)
  next
    case False
    then obtain price stake seen where t: "dec_decisionOdd dec = Some price" "dec_stake dec = Some stake"
      "dec_decisionObservedAt dec = Some seen" by auto
    with assms obtain run where run: "find_run (dec_simulationRunId dec) d = Inr run"
      by (auto simp: reserve_decision_def split: sum.splits)
    define key where "key = orderIdempotencyKey sha mode op (dec_fixtureId dec) (dec_marketKey dec)
        (dec_selectionKey dec) (run_strategyVersion run) (dec_decidedAt dec)"
    define r where "r = order_of_decision oid acc mode op key dec stake price seen (env_dbNow e)"
    show ?thesis
    proof (cases "find_row (\<lambda>r. ord_idempotencyKey r = key) (orders d)")
      case (Some y)
      with assms t run reject show ?thesis
        by (auto simp: reserve_decision_def key_def Let_def elim!: bindE_elim)
    next
      case None
      with assms t run obtain d1 where d1: "insert_order r d = Inr d1"
        and rest: "reserve_stake_for e r d1 = (s, Inr (x, d'))"
        by (auto simp: reserve_decision_def key_def r_def Let_def split: sum.splits)
      have "op_keeps d d1"
        by (rule op_keeps_insert [OF d1]) (simp_all add: r_def order_of_decision_def)
      moreover have "op_keeps d1 d'"
        by (rule reserve_stake_for_keeps [OF rest insert_order_found [OF d1]])
          (simp add: r_def order_of_decision_def)
      ultimately show ?thesis by (rule op_keeps_trans)
    qed
  qed
qed

lemma reserve_body_keeps:
  assumes "reserve_body sha ports e oid did acc d = (s, Inr (x, d'))"
  shows "op_keeps d d'"
  using assms reserve_decision_keeps
  by (auto simp: reserve_body_def split: option.splits sum.splits prod.splits if_splits)

lemma keepsA_reserve: "keepsA (reserve sha ports e newId oid did acc)"
proof (rule keepsA_I)
  fix d r d' assume run: "reserve sha ports e newId oid did acc d = (r, d')"
  obtain s body where b: "reserve_body sha ports e oid did acc d = (s, body)" by fastforce
  show "op_keeps d d'"
  proof (cases body)
    case (Inr x)
    then obtain y d1 where y: "body = Inr (y, d1)" by (cases x) auto
    with run b have "d' = applyStop e newId s d1" by (simp add: reserve_def)
    moreover have "op_keeps d d1" using reserve_body_keeps b y by blast
    ultimately show ?thesis by (auto intro: op_keeps_trans)
  next
    case (Inl err)
    obtain res raised where c: "classifyReservationError err s = (res, raised)" by fastforce
    show ?thesis
    proof (cases res)
      case (Reserved a b')
      with run b Inl c show ?thesis by (auto simp: reserve_def)
    next
      case (Refused code l m)
      with run b Inl c have "d' = d \<or> (\<exists>d1. rejectDecision did code (Some Dec_ELIGIBLE) d = Inr d1
          \<and> d' = applyStop e newId raised d1)"
        by (auto simp: reserve_def split: sum.splits)
      then show ?thesis by (auto intro: op_keeps_trans op_keeps_rejectDecision)
    qed
  qed
qed

section \<open>Checking and placing\<close>

lemma check_quote_keeps:
  assumes "check_quote e c q r d = Inr (x, d')"
    and r: "find_order (ord_id r) d = Some r" "ord_status r = Ord_RESERVED"
  shows "op_keeps d d'"
proof (cases "d' = d")
  case False
  with assms(1) obtain patch where tr: "transition e (ord_id r) (ord_version r) patch d = Inr d'"
    and patch: "patch = (\<lambda>r. r\<lparr>ord_status := Ord_SUBMITTING, ord_requestedOdd := store_odd (oq_oddValue (the q)),
                               ord_submittedAt := Some (env_now e)\<rparr>)"
    by (auto simp: check_quote_def Let_def split: option.splits if_splits elim!: bindE_elim)
  show ?thesis
    by (rule op_keeps_transition [OF tr r(1)]) (simp_all add: patch same_order_def r(2))
qed simp

lemma keepsT_submit_check: "keepsT (submit_check e i q)"
proof (rule keepsT_I)
  fix d x d' assume run: "submit_check e i q d = Inr (x, d')"
  then obtain c r where r: "find_order i d = Some r" "lockForExecution e d = Inr c"
    by (auto simp: submit_check_def elim!: bindE_elim)
  have "d' = d \<or> (ord_status r = Ord_RESERVED \<and> check_quote e c q r d = Inr (x, d'))"
    using run r by (auto simp: submit_check_def get_order_def split: if_splits)
  with r check_quote_keeps [of e c q r d x d'] show "op_keeps d d'"
    by (auto dest: find_order_row)
qed

lemma keepsT_unknown_body: "keepsT (unknown_body e i reason)"
proof (rule keepsT_I)
  fix d x d' assume run: "unknown_body e i reason d = Inr (x, d')"
  then obtain r where r: "find_order i d = Some r" by (auto simp: unknown_body_def elim!: bindE_elim)
  show "op_keeps d d'"
  proof (cases "ord_status r = Ord_SUBMITTING")
    case True
    with run r have tr: "transition e (ord_id r) (ord_version r)
        (\<lambda>r. r\<lparr>ord_status := Ord_UNKNOWN, ord_unknownSince := Some (env_now e),
               ord_statusReason := Some (redactErrorMessage (PlainError reason))\<rparr>) d = Inr d'"
      by (auto simp: unknown_body_def elim!: bindE_elim)
    show ?thesis
      by (rule op_keeps_transition [OF tr])
        (use r True in \<open>auto simp: same_order_def dest: find_order_row\<close>)
  next
    case False
    with run r show ?thesis by (auto simp: unknown_body_def get_order_def)
  qed
qed

section \<open>Accepting\<close>

definition accepting_status :: "order_status \<Rightarrow> bool" where
  "accepting_status s = (s \<in> {Ord_SUBMITTING, Ord_UNKNOWN, Ord_RESERVED})"

lemma accepting_next:
  "accepting_status s \<Longrightarrow> Ord_ACCEPTED \<in> set (status_next s) \<and> Ord_RECONCILIATION_REQUIRED \<in> set (status_next s)"
  by (cases s) (auto simp: accepting_status_def)

lemma acceptance_cases:
  assumes "acceptance_body e i accepted d = Inr (s, d')"
  obtains (late) r where "find_order i d = Some r" "\<not> accepting_status (ord_status r)" "s = None" "d' = d"
  | (breach) r v where "find_order i d = Some r" "accepting_status (ord_status r)"
      "acceptanceViolation r accepted = Inr v" "v \<noteq> None \<or> receipt_taken accepted d \<or> external_taken r accepted d"
      "contract_breach e r accepted v (receipt_taken accepted d) d = Inr (s, d')"
  | (accept) r hash price stake where "find_order i d = Some r" "accepting_status (ord_status r)"
      "acceptanceViolation r accepted = Inr None" "\<not> receipt_taken accepted d" "\<not> external_taken r accepted d"
      "oo_receiptHash accepted = Some hash" "oo_acceptedOdd accepted = Some price"
      "oo_acceptedStake accepted = Some stake" "s = None"
      "accept_order e r accepted hash price stake d = Inr d'"
proof -
  from assms obtain r where r: "find_order i d = Some r"
    by (auto simp: acceptance_body_def elim!: bindE_elim)
  show ?thesis
  proof (cases "accepting_status (ord_status r)")
    case False
    with assms r late show ?thesis
      by (auto simp: acceptance_body_def get_order_def accepting_status_def)
  next
    case True
    with assms r obtain v where v: "acceptanceViolation r accepted = Inr v"
      by (auto simp: acceptance_body_def get_order_def accepting_status_def bindE_eq_Inr)
    show ?thesis
    proof (cases "v \<noteq> None \<or> receipt_taken accepted d \<or> external_taken r accepted d")
      case bad: True
      with assms r True v have "contract_breach e r accepted v (receipt_taken accepted d) d = Inr (s, d')"
        by (auto simp: acceptance_body_def get_order_def accepting_status_def)
      with r True v bad show ?thesis by (rule breach)
    next
      case False
      with assms r True v obtain hash price stake where "oo_receiptHash accepted = Some hash"
        "oo_acceptedOdd accepted = Some price" "oo_acceptedStake accepted = Some stake" "s = None"
        "accept_order e r accepted hash price stake d = Inr d'"
        by (auto simp: acceptance_body_def get_order_def accepting_status_def elim!: bindE_elim
            split: option.splits)
      with r True v False show ?thesis by (intro accept) auto
    qed
  qed
qed

lemma op_keeps_breach:
  assumes run: "contract_breach e r accepted v taken d = Inr (s, d')"
    and r: "find_order (ord_id r) d = Some r" "accepting_status (ord_status r)"
  shows "op_keeps d d'"
proof -
  from run obtain patch where tr: "transition e (ord_id r) (ord_version r) patch d = Inr d'"
    and patch: "\<And>x. same_order x (patch x)" "\<And>x. ord_status (patch x) = Ord_RECONCILIATION_REQUIRED"
    by (auto simp: contract_breach_def same_order_def elim!: bindE_elim)
  show ?thesis
    by (rule op_keeps_transition [OF tr r(1)]) (use patch r(2) accepting_next in auto)
qed

definition accepted_row :: "operator_order \<Rightarrow> rat \<Rightarrow> string \<Rightarrow> bet_order \<Rightarrow> bet_order" where
  "accepted_row accepted price stake r =
     r\<lparr>ord_status := Ord_ACCEPTED, ord_externalOrderId := oo_externalOrderId accepted,
       ord_acceptedOdd := Some price, ord_acceptedStake := Some stake,
       ord_acceptedAt := oo_acceptedAt accepted, ord_statusReason := None\<rparr>"

lemma accepted_row_sel [simp]:
  "same_order r (accepted_row accepted price stake r)" "ord_status (accepted_row accepted price stake r) = Ord_ACCEPTED"
  "ord_id (accepted_row accepted price stake r) = ord_id r"
  by (simp_all add: accepted_row_def same_order_def)

lemma accept_order_steps:
  assumes "accept_order e r accepted hash n t d = Inr d'"
  obtains d1 d2 d3 price stake where
    "insert_receipt \<lparr>rcp_orderId = ord_id r, rcp_receiptHash = hash,
       rcp_redactedPayload = redactReceipt 0 (oo_rawReceipt accepted), rcp_createdAt = env_dbNow e\<rparr> d = Inr d1"
    "store_js_odd n = Inr price" "store_decimal t = Inr stake"
    "transition e (ord_id r) (ord_version r) (accepted_row accepted price stake) d1 = Inr d2"
    "release_unused e r t d2 = Inr d3" "decision_executed e r n d3 = Inr d'"
  using assms by (auto simp: accept_order_def accepted_row_def [abs_def] elim!: bindE_elim)

lemma release_unused_keeps:
  assumes "release_unused e r t d = Inr d'"
  shows "op_keeps d d' \<and> orders d' = orders d"
proof (cases "d' = d")
  case False
  with assms obtain a c x where "lockAccount (ord_accountId r) d = Inr a"
    "append a (stake_input RELEASE (partial_key r) c (Some (ord_id r)) None) (env_dbNow e) d = Inr (x, d')"
    by (auto simp: release_unused_def split: if_splits elim!: bindE_elim)
  then show ?thesis
    by (cases x) (auto intro: op_keeps_append dest: append_frame(7))
qed simp

lemma decision_executed_frame:
  assumes "decision_executed e r n d = Inr d'"
  shows "accounts d' = accounts d" "entries d' = entries d" "orders d' = orders d"
  using assms by (auto simp: decision_executed_def elim!: bindE_elim dest: update_decisions_frame)

lemma op_keeps_accept:
  assumes run: "accept_order e r accepted hash n t d = Inr d'"
    and r: "find_order (ord_id r) d = Some r" "accepting_status (ord_status r)"
  shows "op_keeps d d'"
  using run
proof (rule accept_order_steps)
  fix d1 d2 d3 price stake
  assume 1: "insert_receipt \<lparr>rcp_orderId = ord_id r, rcp_receiptHash = hash,
       rcp_redactedPayload = redactReceipt 0 (oo_rawReceipt accepted), rcp_createdAt = env_dbNow e\<rparr> d = Inr d1"
    and 2: "transition e (ord_id r) (ord_version r) (accepted_row accepted price stake) d1 = Inr d2"
    and 3: "release_unused e r t d2 = Inr d3" and 4: "decision_executed e r n d3 = Inr d'"
  have "op_keeps d d1" by (rule op_keeps_frame) (use insert_receipt_frame [OF 1] in simp_all)
  moreover have "op_keeps d1 d2"
  proof (rule op_keeps_transition [OF 2])
    show "find_order (ord_id r) d1 = Some r"
      using r(1) insert_receipt_frame(3) [OF 1] by (simp add: find_order_def)
  qed (use r(2) accepting_next in auto)
  moreover have "op_keeps d2 d3" using release_unused_keeps [OF 3] by simp
  moreover have "op_keeps d3 d'" by (rule op_keeps_frame) (use decision_executed_frame [OF 4] in simp_all)
  ultimately show ?thesis by (blast intro: op_keeps_trans)
qed

lemma keepsT_acceptance: "keepsT (acceptance_body e i accepted)"
proof (rule keepsT_I)
  fix d s d' assume "acceptance_body e i accepted d = Inr (s, d')"
  then show "op_keeps d d'"
  proof (cases rule: acceptance_cases)
    case (late r)
    then show ?thesis by simp
  next
    case (breach r v)
    then show ?thesis using op_keeps_breach [OF breach(5)] by (auto dest: find_order_row)
  next
    case (accept r hash price stake)
    then show ?thesis using op_keeps_accept [OF accept(10)] by (auto dest: find_order_row)
  qed
qed

lemma keepsA_applyAcceptance: "keepsA (applyAcceptance e newId i accepted)"
  unfolding applyAcceptance_def
  by (intro keepsA_bindA keepsA_commit keepsT_acceptance) (simp add: keepsA_def)

lemma keepsA_applyPlacementResult: "keepsA (applyPlacementResult e newId i result)"
proof -
  have "keepsA (bindA (commit (unknown_body e i m)) (\<lambda>_. readA (get_order i)))" for m
    by (intro keepsA_bindA keepsA_commit keepsT_unknown_body) auto
  moreover have "keepsA (bindA (readA (get_order i)) (\<lambda>order. cancelSubmitting e order c m))" for c m
    by (intro keepsA_bindA) auto
  ultimately show ?thesis
    using keepsA_applyAcceptance
    by (cases result) (auto simp: applyPlacementResult_def)
qed

lemma keepsA_submit_conclude: "keepsA (submit_conclude e newId r result)"
proof (rule keepsA_I)
  fix d x d' assume run: "submit_conclude e newId r result d = (x, d')"
  have place: "op_keeps d d'" if "applyPlacementResult e newId (ord_id r) y d = (x, d')" for y
    using that keepsA_D [OF keepsA_applyPlacementResult] by blast
  have cancel: "op_keeps d d'" if "cancelSubmitting e r c m (if u then snd (autoStop e newId t m' d) else d) = (x, d')" for c m u t m'
    using keepsA_D [OF keepsA_cancels(2) that] by (cases u) (auto intro: op_keeps_trans [OF op_keeps_stop(2)])
  show "op_keeps d d'"
  proof (cases result)
    case (Inr y)
    with run place show ?thesis by (simp add: submit_conclude_def)
  next
    case (Inl err)
    with run place cancel show ?thesis
      by (cases err) (auto simp: submit_conclude_def)
  qed
qed

section \<open>Settling and resolving\<close>

lemma op_keeps_settleStake:
  assumes "settleStake e newId i k stake payout oid d = Inr (entry, d')"
  shows "op_keeps d d'"
proof -
  from assms obtain reached d1 where b: "settle_body e i k stake payout oid d = Inr ((entry, reached), d1)"
    and d': "d' = (if reached then snd (autoStop e newId DAILY_LIMIT_REACHED [(''limit'', SStr ''DAILY_LOSS'')] d1) else d1)"
    by (auto simp: settleStake_def elim!: bindE_elim)
  from b obtain a s p x where "lockAccount i d = Inr a" "append a (settle_input k s p oid) (env_dbNow e) d = Inr (x, d1)"
    by (auto simp: settle_body_def elim!: bindE_elim)
  then have "op_keeps d d1" by (cases x) (auto intro: op_keeps_append)
  then show ?thesis using d' by (auto intro: op_keeps_trans)
qed

lemma keepsT_settleStake: "keepsT (settleStake e newId i k stake payout oid)"
  by (rule keepsT_I) (rule op_keeps_settleStake)

lemma keepsT_settle_order: "keepsT (settle_order_body e i oo payout outcome profit)"
proof (rule keepsT_I)
  fix d x d' assume run: "settle_order_body e i oo payout outcome profit d = Inr (x, d')"
  then obtain r where r: "find_order i d = Some r" by (auto simp: settle_order_body_def elim!: bindE_elim)
  show "op_keeps d d'"
  proof (cases "ord_status r = Ord_ACCEPTED")
    case False
    with run r show ?thesis by (auto simp: settle_order_body_def get_order_def)
  next
    case True
    with run r obtain d1 patch f p where tr: "transition e (ord_id r) (ord_version r) patch d = Inr d1"
      and patch: "\<And>x. same_order x (patch x)" "\<And>x. ord_status (patch x) = (if outcome = VOID then Ord_VOIDED else Ord_SETTLED)"
      and dec: "update_decisions f p d1 = Inr d'"
      by (auto simp: settle_order_body_def get_order_def Let_def same_order_def elim!: bindE_elim)
    have "op_keeps d d1"
      by (rule op_keeps_transition [OF tr]) (use r True patch in \<open>auto dest: find_order_row\<close>)
    then show ?thesis using op_keeps_decisions [OF dec] by (rule op_keeps_trans)
  qed
qed

lemma keepsA_settleFromOperator: "keepsA (settleFromOperator e newId i oo)"
  unfolding settleFromOperator_def
  by (intro keepsA_bindA keepsA_simple)
    (auto split: bool.splits option.splits prod.splits
      intro!: keepsA_bindA keepsA_commit keepsT_settleStake keepsT_settle_order)

lemma keepsA_autoStop [intro]: "keepsA (\<lambda>d. (r, snd (autoStop e i t m d)))"
  by (simp add: keepsA_def)

lemma keepsA_resolveUnknown: "keepsA (resolveUnknown e newId r answer now)"
  unfolding resolveUnknown_def Let_def
  by (auto split: option.splits intro!: keepsA_bindA keepsA_cancels keepsA_applyAcceptance keepsA_settleFromOperator)

section \<open>Recovering\<close>

lemma keepsA_recoverStaleSubmissions: "keepsA (recoverStaleSubmissions e now)"
proof -
  have "keepsT (\<lambda>d. update_orders (\<lambda>r. ord_id r \<in> set stale \<and> ord_status r = Ord_SUBMITTING)
              (\<lambda>r. r\<lparr>ord_status := Ord_UNKNOWN, ord_unknownSince := ord_submittedAt r,
                     ord_statusReason := Some ''Soumission interrompue : resultat inconnu'',
                     ord_version := ord_version r + 1, ord_updatedAt := env_dbNow e\<rparr>) d)" for stale
    by (rule keepsT_I, erule op_keeps_update) (auto simp: row_run_def same_order_def later_from)
  then show ?thesis
    unfolding recoverStaleSubmissions_def by (auto intro!: keepsA_bindA keepsA_commit)
qed

lemma op_keeps_appendBatch:
  assumes "lockAccount i d = Inr a" and "appendBatch a inputs now d = Inr ((rs, a'), d')"
  shows "op_keeps d d' \<and> orders d' = orders d"
proof -
  have copy: "locked_copy a d" using assms(1) by (auto dest: lockAccount_copy)
  have "orders d' = orders d"
    using assms(2)
    by (auto simp: appendBatch_def update_account_def Let_def split: if_splits elim!: bindE_elim
        dest!: insert_entries_eq)
  with appendBatch_keeps_ledger_ok [OF _ copy assms(2)] show ?thesis
    by (auto intro: op_keeps_ledger)
qed

lemma op_keeps_reject_batch:
  assumes "reject_batch e rs d = Inr d'"
  shows "op_keeps d d'"
proof -
  let ?f = "\<lambda>r. (rejected_order OPERATOR_UNAVAILABLE ''Reservation abandonnee avant soumission'' r)
               \<lparr>ord_version := ord_version r + 1, ord_updatedAt := env_dbNow e\<rparr>"
  from assms obtain p n d1 q f where up: "update_orders p ?f d = Inr (n, d1)"
    and p: "\<And>r. p r \<Longrightarrow> ord_status r = Ord_RESERVED" and dec: "update_decisions q f d1 = Inr d'"
    unfolding reject_batch_def by (elim bindE_elim) (auto split: prod.splits)
  have "row_run r (?f r)" if "p r" for r
    using p [OF that] by (simp add: row_run_def same_order_def later_from rejected_order_def)
  then have "op_keeps d d1" by (intro op_keeps_update [OF up])
  then show ?thesis using op_keeps_decisions [OF dec] by (rule op_keeps_trans)
qed

lemma keepsT_cancel_batch: "keepsT (cancel_batch_body e ids)"
proof (rule keepsT_I)
  fix d x d' assume run: "cancel_batch_body e ids d = Inr (x, d')"
  show "op_keeps d d'"
  proof (cases "d' = d")
    case False
    with run obtain acc a inputs y d1 where a: "lockAccount acc d = Inr a"
      and ap: "appendBatch a inputs (env_dbNow e) d = Inr (y, d1)"
      and rest: "d' = d1 \<or> reject_batch e (batch_releasable ids d) d1 = Inr d'"
      unfolding cancel_batch_body_def
      by (auto simp: Let_def split: if_splits list.splits elim!: bindE_elim)
    have "op_keeps d d1" using op_keeps_appendBatch [OF a] ap by (cases y) auto
    with rest show ?thesis using op_keeps_reject_batch by (auto intro: op_keeps_trans)
  qed simp
qed

lemma keepsA_cancelAbandonedBatch: "keepsA (cancelAbandonedBatch e ids)"
  unfolding cancelAbandonedBatch_def by (auto intro: keepsT_cancel_batch)

end
