(* ===== verification/Reconciliation.thy ===== *)
theory Reconciliation
  imports Orders "HOL-Library.Product_Lexorder" "HOL-Library.List_Lexorder" "HOL-Library.Char_ord"
begin

text \<open>
  Reconciliation (\<open>execution/reconciliation.service.ts\<close>): the comparison of local orders with
  the operator's, the balance and the ledger, run by run, and the automatic stop it asks for.
  The operator's state is threaded through the two places where its port is called.
\<close>

section \<open>Looking orders up at the operator\<close>

record start_reconciliation_input =
  sr_accountId :: string
  sr_from :: int
  sr_to :: int
  sr_idempotencyKey :: "string option"

type_synonym lookups = "string \<Rightarrow> operator_order_lookup option"

definition open_statuses :: "order_status list" where
  "open_statuses = [Ord_RESERVED, Ord_SUBMITTING, Ord_UNKNOWN, Ord_ACCEPTED, Ord_RECONCILIATION_REQUIRED]"

definition lookup_statuses :: "order_status list" where
  "lookup_statuses = [Ord_UNKNOWN, Ord_ACCEPTED, Ord_SETTLED, Ord_VOIDED, Ord_REJECTED, Ord_RECONCILIATION_REQUIRED]"

fun lookup_key :: "operator_order_lookup \<Rightarrow> string" where
  "lookup_key (Found k _) = k"
| "lookup_key (NotFound k) = k"
| "lookup_key (LookupFailed k _) = k"

text \<open>
  Every key asked for gets an answer: the operator's last one for it, or a failure. An exception
  of the port makes every lookup a failure.
\<close>

definition lookupOperatorOrders :: "'s port \<Rightarrow> string list \<Rightarrow> 's \<Rightarrow> lookups \<times> 's" where
  "lookupOperatorOrders port keys s =
     (let uniqueKeys = uniq keys in
      if uniqueKeys = [] then (\<lambda>_. None, s)
      else (case port_getOrdersByIdempotencyKeys port uniqueKeys s of
              (Inl err, s') \<Rightarrow>
                (\<lambda>k. if k \<in> set uniqueKeys then Some (LookupFailed k (redactErrorMessage err)) else None, s')
            | (Inr results, s') \<Rightarrow>
                (\<lambda>k. if k \<in> set uniqueKeys
                     then Some (case find_row (\<lambda>r. lookup_key r = k) (rev results) of
                                  Some r \<Rightarrow> r
                                | None \<Rightarrow> LookupFailed k ''Reponse operateur incomplete'')
                     else None, s')))"

section \<open>Drafts of items\<close>

definition item ::
  "string option \<Rightarrow> reconciliation_item_type \<Rightarrow> reconciliation_result \<Rightarrow> severity \<Rightarrow> string \<Rightarrow> json \<Rightarrow> json
     \<Rightarrow> reconciliation_item" where
  "item orderId itemType result sev detail expected observed =
     \<lparr>itm_orderId = orderId, itm_itemType = itemType, itm_result = result, itm_severity = sev,
      itm_detail = take 255 detail, itm_expected = expected, itm_observed = observed\<rparr>"

fun order_status_name :: "order_status \<Rightarrow> string" where
  "order_status_name Ord_RESERVED = ''RESERVED''"
| "order_status_name Ord_SUBMITTING = ''SUBMITTING''"
| "order_status_name Ord_UNKNOWN = ''UNKNOWN''"
| "order_status_name Ord_ACCEPTED = ''ACCEPTED''"
| "order_status_name Ord_REJECTED = ''REJECTED''"
| "order_status_name Ord_SETTLED = ''SETTLED''"
| "order_status_name Ord_VOIDED = ''VOIDED''"
| "order_status_name Ord_RECONCILIATION_REQUIRED = ''RECONCILIATION_REQUIRED''"

fun operator_status_name :: "operator_order_status \<Rightarrow> string" where
  "operator_status_name Op_ACCEPTED = ''ACCEPTED''"
| "operator_status_name Op_REJECTED = ''REJECTED''"
| "operator_status_name Op_SETTLED = ''SETTLED''"
| "operator_status_name Op_VOIDED = ''VOIDED''"

definition json_optional :: "('a \<Rightarrow> json) \<Rightarrow> 'a option \<Rightarrow> json" where
  "json_optional f x = (case x of None \<Rightarrow> JNull | Some v \<Rightarrow> f v)"

text \<open>The evidence: never the raw receipt.\<close>

definition operatorView :: "operator_order option \<Rightarrow> json" where
  "operatorView oo = json_optional (\<lambda>v. JObj
     [(''externalOrderId'', json_optional JStr (oo_externalOrderId v)),
      (''status'', JStr (operator_status_name (oo_status v))),
      (''acceptedOdd'', json_optional JNum (oo_acceptedOdd v)),
      (''acceptedStake'', json_optional JStr (oo_acceptedStake v)),
      (''payout'', json_optional JStr (oo_payout v))]) oo"

definition local_view :: "bet_order \<Rightarrow> json" where
  "local_view r = JObj
     [(''status'', JStr (order_status_name (ord_status r))),
      (''externalOrderId'', json_optional JStr (ord_externalOrderId r)),
      (''acceptedStake'', json_optional JStr (ord_acceptedStake r)),
      (''acceptedOdd'', json_optional (\<lambda>x. JNum (Num x)) (ord_acceptedOdd r)),
      (''payout'', json_optional JStr (ord_payout r))]"

section \<open>Comparing one order\<close>

text \<open>\<open>!==\<close> between the operator's odd and the stored one.\<close>

fun odd_differs :: "js_number option \<Rightarrow> rat option \<Rightarrow> bool" where
  "odd_differs None None = False"
| "odd_differs (Some n) (Some x) = (\<not> js_num_eq n (Num x))"
| "odd_differs _ _ = True"

definition terms_differ :: "bet_order \<Rightarrow> operator_order \<Rightarrow> bool" where
  "terms_differ r v =
     (oo_externalOrderId v \<noteq> ord_externalOrderId r \<or> oo_acceptedStake v \<noteq> ord_acceptedStake r
      \<or> odd_differs (oo_acceptedOdd v) (ord_acceptedOdd r) \<or> oo_status v = Op_REJECTED)"

definition accepted_item :: "bet_order \<Rightarrow> operator_order option \<Rightarrow> bool \<Rightarrow> reconciliation_item" where
  "accepted_item r oo tracked =
     (case oo of
        None \<Rightarrow>
          item (Some (ord_id r)) It_ORDER Res_MISSING_AT_OPERATOR (if tracked then CRITICAL else WARNING)
            (if tracked then ''Ordre accepte introuvable chez l'operateur''
             else ''Operateur papier sans historique persistant'') (local_view r) JNull
      | Some v \<Rightarrow>
          if terms_differ r v
          then item (Some (ord_id r)) It_ORDER Res_MISMATCH CRITICAL ''Ordre different chez l'operateur''
                 (local_view r) (operatorView oo)
          else item (Some (ord_id r)) It_ORDER Res_MATCH INFO ''Ordre concordant'' JNull JNull)"

definition settled_items :: "bet_order \<Rightarrow> operator_order option \<Rightarrow> string list \<Rightarrow> reconciliation_item list" where
  "settled_items r oo ledgerKeys =
     (if settle_key r \<notin> set ledgerKeys
      then [item (Some (ord_id r)) It_LEDGER Res_MISSING_LOCALLY CRITICAL
              ''Ordre regle sans ecriture de reglement'' JNull JNull] else [])
     @ (case oo of None \<Rightarrow> []
        | Some v \<Rightarrow> if oo_payout v \<noteq> ord_payout r
                    then [item (Some (ord_id r)) It_SETTLEMENT Res_MISMATCH CRITICAL ''Gain regle different''
                            (local_view r) (operatorView oo)] else [])"

definition rejected_items :: "bet_order \<Rightarrow> operator_order option \<Rightarrow> string list \<Rightarrow> reconciliation_item list" where
  "rejected_items r oo ledgerKeys =
     (case oo of None \<Rightarrow> []
      | Some v \<Rightarrow> if oo_status v \<noteq> Op_REJECTED
                  then [item (Some (ord_id r)) It_ORDER Res_MISMATCH CRITICAL
                          ''Ordre refuse localement mais present chez l'operateur''
                          (local_view r) (operatorView oo)] else [])
     @ (if reserve_key r \<in> set ledgerKeys \<and> release_key r \<notin> set ledgerKeys
        then [item (Some (ord_id r)) It_LEDGER Res_MISSING_LOCALLY CRITICAL
                ''Ordre refuse dont la mise n'a pas ete relachee'' JNull JNull] else [])"

definition compareOrder ::
  "bet_order \<Rightarrow> operator_order option \<Rightarrow> bool \<Rightarrow> string list \<Rightarrow> bool \<Rightarrow> reconciliation_item list" where
  "compareOrder r oo hasReceipt ledgerKeys operatorTracked =
     (if ord_status r \<in> {Ord_ACCEPTED, Ord_SETTLED, Ord_VOIDED}
      then accepted_item r oo operatorTracked
           # (if \<not> hasReceipt
              then [item (Some (ord_id r)) It_RECEIPT Res_MISSING_LOCALLY CRITICAL
                      ''Acceptation sans recu'' JNull JNull] else [])
           @ (if reserve_key r \<notin> set ledgerKeys
              then [item (Some (ord_id r)) It_LEDGER Res_MISSING_LOCALLY CRITICAL
                      ''Acceptation sans reservation au ledger'' JNull JNull] else [])
           @ (if ord_status r \<noteq> Ord_ACCEPTED then settled_items r oo ledgerKeys else [])
      else [])
     @ (if ord_status r = Ord_REJECTED then rejected_items r oo ledgerKeys else [])
     @ (if ord_status r = Ord_RECONCILIATION_REQUIRED
        then [item (Some (ord_id r)) It_ORDER Res_MISMATCH CRITICAL
                (case ord_statusReason r of Some t \<Rightarrow> t | None \<Rightarrow> ''Intervention manuelle requise'')
                (local_view r) (operatorView oo)]
        else [])"

text \<open>The most precise cause among the critical items.\<close>

definition critical_items :: "reconciliation_item list \<Rightarrow> reconciliation_item list" where
  "critical_items items = filter (\<lambda>i. itm_severity i = CRITICAL) items"

definition stopTriggerFor :: "reconciliation_item list \<Rightarrow> auto_stop_trigger option" where
  "stopTriggerFor items =
     (let critical = critical_items items in
      if critical = [] then None
      else if list_ex (\<lambda>i. str_includes (itm_detail i) ''LOOKUP_FAILED'') critical then Some OPERATOR_ERROR_RATE
      else if list_ex (\<lambda>i. itm_itemType i = It_BALANCE) critical then Some OPERATOR_BALANCE_MISMATCH
      else if list_ex (\<lambda>i. itm_itemType i = It_RECEIPT) critical then Some RECEIPT_MISSING
      else if list_ex (\<lambda>i. itm_itemType i = It_LEDGER) critical then Some LEDGER_INVARIANT_BROKEN
      else if list_ex (\<lambda>i. str_includes (itm_detail i) ''UNKNOWN'') critical then Some UNKNOWN_ORDER_TOO_OLD
      else Some OPERATOR_CONTRACT_VIOLATION)"

section \<open>Opening runs\<close>

text \<open>
  \<open>INSERT IGNORE\<close> of one run: a row whose key is taken, or that the table's check or foreign key
  refuses, is silently not inserted.
\<close>

definition run_key :: "start_reconciliation_input \<Rightarrow> string" where
  "run_key input =
     (case sr_idempotencyKey input of Some k \<Rightarrow> k
      | None \<Rightarrow> sr_accountId input @ '':'' @ iso_string (sr_from input) @ '':'' @ iso_string (sr_to input))"

definition new_run ::
  "env \<Rightarrow> string \<Rightarrow> start_reconciliation_input \<Rightarrow> string option \<Rightarrow> reconciliation_run" where
  "new_run e newId input requestedBy =
     \<lparr>rec_id = newId, rec_idempotencyKey = run_key input, rec_accountId = sr_accountId input,
      rec_rangeFrom = sr_from input, rec_rangeTo = sr_to input, rec_status = Rec_RUNNING,
      rec_criticalCount = 0, rec_summary = JNull, rec_error = None, rec_requestedByUserId = requestedBy,
      rec_createdAt = env_dbNow e, rec_completedAt = None\<rparr>"

definition run_insertable :: "reconciliation_run \<Rightarrow> db \<Rightarrow> bool" where
  "run_insertable r d =
     (find_row (\<lambda>x. rec_id x = rec_id r \<or> rec_idempotencyKey x = rec_idempotencyKey r) (recRuns d) = None
      \<and> find_account (rec_accountId r) d \<noteq> None \<and> rec_rangeFrom r < rec_rangeTo r)"

definition insert_ignore_run :: "reconciliation_run \<Rightarrow> db \<Rightarrow> db" where
  "insert_ignore_run r d = (if run_insertable r d then d\<lparr>recRuns := recRuns d @ [r]\<rparr> else d)"

definition find_run_by_key :: "string \<Rightarrow> db \<Rightarrow> reconciliation_run option" where
  "find_run_by_key k d = find_row (\<lambda>r. rec_idempotencyKey r = k) (recRuns d)"

definition openRun ::
  "env \<Rightarrow> string \<Rightarrow> start_reconciliation_input \<Rightarrow> string option \<Rightarrow> (reconciliation_run \<times> bool) act" where
  "openRun e newId input requestedBy d =
     (if find_account (sr_accountId input) d = None
      then (Inl (NotFoundException (''Compte '' @ sr_accountId input @ '' introuvable'')), d)
      else
        (let row = new_run e newId input requestedBy; d' = insert_ignore_run row d
         in (bindE (of_option (EntityNotFoundError ''ReconciliationRun'') (find_run_by_key (run_key input) d'))
               (\<lambda>r. Inr (r, run_insertable row d)), d')))"

text \<open>\<open>openBatch\<close>: a run is created when its key was absent before the insertion.\<close>

definition openBatch ::
  "env \<Rightarrow> (string \<Rightarrow> string) \<Rightarrow> start_reconciliation_input list \<Rightarrow> string option
     \<Rightarrow> (reconciliation_run list \<times> string list) act" where
  "openBatch e idFor inputs requestedBy d =
     (if inputs = [] then (Inr ([], []), d)
      else case find_row (\<lambda>i. find_account i d = None) (uniq (List.map sr_accountId inputs)) of
        Some missing \<Rightarrow> (Inl (NotFoundException (''Compte '' @ missing @ '' introuvable'')), d)
      | None \<Rightarrow>
          (let keys = List.map run_key inputs;
               existing = filter (\<lambda>r. rec_idempotencyKey r \<in> set keys) (recRuns d);
               d' = fold (\<lambda>input. insert_ignore_run (new_run e (idFor (run_key input)) input requestedBy)) inputs d;
               found = filter (\<lambda>r. rec_idempotencyKey r \<in> set keys) (recRuns d')
           in (Inr (found, List.map rec_id
                 (filter (\<lambda>r. rec_idempotencyKey r \<notin> rec_idempotencyKey ` set existing) found)), d')))"

section \<open>Executing a run\<close>

text \<open>\<open>cancelAbandonedReservations\<close>: reservations that were never submitted.\<close>

definition abandoned_ids :: "string \<Rightarrow> int \<Rightarrow> db \<Rightarrow> string list" where
  "abandoned_ids accountId now d =
     List.map ord_id (filter (\<lambda>r. ord_accountId r = accountId \<and> ord_status r = Ord_RESERVED
        \<and> now - ord_updatedAt r \<ge> submitting_stale_ms) (orders d))"

definition cancelAbandonedReservations :: "env \<Rightarrow> string \<Rightarrow> int \<Rightarrow> reconciliation_item list act" where
  "cancelAbandonedReservations e accountId now =
     bindA (readA (\<lambda>d. Inr (abandoned_ids accountId now d))) (\<lambda>abandoned.
       if abandoned = [] then returnA []
       else bindA (cancelAbandonedBatch e abandoned) (\<lambda>cancelled.
         returnA (List.map (\<lambda>i. item (Some i) It_ORDER Res_RESOLVED WARNING
                                 ''Reservation jamais soumise relachee'' JNull JNull) cancelled)))"

text \<open>First reading: the orders of the range and the open orders of the account, oldest first.\<close>

definition reconcile_rows :: "reconciliation_run \<Rightarrow> string \<Rightarrow> db \<Rightarrow> bet_order list" where
  "reconcile_rows run accountId d =
     sort_key (\<lambda>r. (ord_createdAt r, ord_id r))
       (filter (\<lambda>r. ord_accountId r = accountId
          \<and> (rec_rangeFrom run \<le> ord_createdAt r \<and> ord_createdAt r < rec_rangeTo run
             \<or> ord_status r \<in> set open_statuses)) (orders d))"

definition reconcile_prepare ::
  "(execution_mode \<Rightarrow> 's port option) \<Rightarrow> env \<Rightarrow> reconciliation_run \<Rightarrow> int
     \<Rightarrow> (string \<times> 's port \<times> reconciliation_item list \<times> bet_order list) act" where
  "reconcile_prepare ports e run now =
     bindA (readA (\<lambda>d. of_option (EntityNotFoundError ''BankrollAccount'') (find_account (rec_accountId run) d)))
       (\<lambda>account.
     bindA (liftE (portFor ports (acc_mode account))) (\<lambda>port.
     bindA (recoverStaleSubmissions e now) (\<lambda>_.
     bindA (cancelAbandonedReservations e (acc_id account) now) (\<lambda>drafts.
     bindA (readA (\<lambda>d. Inr (reconcile_rows run (acc_id account) d))) (\<lambda>rows.
       returnA (acc_id account, port, drafts, rows))))))"

definition lookup_rows :: "bet_order list \<Rightarrow> bet_order list" where
  "lookup_rows = filter (\<lambda>r. ord_status r \<in> set lookup_statuses)"

fun failure_reason :: "operator_order_lookup option \<Rightarrow> string option" where
  "failure_reason None = Some ''Resultat absent''"
| "failure_reason (Some (LookupFailed _ reason)) = Some reason"
| "failure_reason (Some _) = None"

fun found_order :: "operator_order_lookup option \<Rightarrow> operator_order option" where
  "found_order (Some (Found _ oo)) = Some oo"
| "found_order _ = None"

definition failed_lookup_items :: "lookups \<Rightarrow> bet_order list \<Rightarrow> reconciliation_item list" where
  "failed_lookup_items found rows =
     List.concat (List.map (\<lambda>r. case failure_reason (found (ord_idempotencyKey r)) of None \<Rightarrow> []
        | Some reason \<Rightarrow> [item (Some (ord_id r)) It_ORDER Res_PENDING CRITICAL
                            (''LOOKUP_FAILED : '' @ reason) JNull JNull]) (lookup_rows rows))"

fun resolution_name :: "unknown_resolution \<Rightarrow> string" where
  "resolution_name Un_ACCEPTED = ''ACCEPTED''"
| "resolution_name Un_SETTLED = ''SETTLED''"
| "resolution_name Un_REJECTED = ''REJECTED''"
| "resolution_name Un_DECLARED_NOT_PLACED = ''DECLARED_NOT_PLACED''"
| "resolution_name Un_PENDING = ''PENDING''"
| "resolution_name Un_TOO_OLD = ''TOO_OLD''"
| "resolution_name Un_RECONCILIATION_REQUIRED = ''RECONCILIATION_REQUIRED''"

definition resolution_item ::
  "bet_order \<Rightarrow> operator_order option \<Rightarrow> unknown_resolution \<Rightarrow> reconciliation_item" where
  "resolution_item r oo u =
     item (Some (ord_id r)) It_ORDER
       (if u = Un_PENDING then Res_PENDING
        else if u \<in> {Un_TOO_OLD, Un_RECONCILIATION_REQUIRED} then Res_MISMATCH else Res_RESOLVED)
       (if u \<in> {Un_TOO_OLD, Un_RECONCILIATION_REQUIRED} then CRITICAL
        else if u = Un_PENDING then WARNING else INFO)
       (''UNKNOWN -> '' @ resolution_name u) JNull (operatorView oo)"

definition settlement_item :: "bet_order \<Rightarrow> operator_order \<Rightarrow> reconciliation_item" where
  "settlement_item r v =
     item (Some (ord_id r)) It_SETTLEMENT Res_RESOLVED INFO
       (''Reglement operateur '' @ operator_status_name (oo_status v)) JNull (operatorView (Some v))"

text \<open>
  One ambiguous or accepted order, with the operator's answer: at most one resolution and one
  item. A lookup that failed is left for a later run.
\<close>

definition resolve_row ::
  "env \<Rightarrow> string \<Rightarrow> int \<Rightarrow> lookups \<Rightarrow> bet_order \<Rightarrow> (unknown_resolution list \<times> reconciliation_item list) act" where
  "resolve_row e newId now found r =
     (let l = found (ord_idempotencyKey r); oo = found_order l in
      if ord_status r \<notin> {Ord_UNKNOWN, Ord_ACCEPTED} \<or> failure_reason l \<noteq> None then returnA ([], [])
      else if ord_status r = Ord_UNKNOWN
      then bindA (resolveUnknown e newId r oo now) (\<lambda>u. returnA ([u], [resolution_item r oo u]))
      else (case oo of
              Some v \<Rightarrow>
                if oo_status v \<in> {Op_SETTLED, Op_VOIDED}
                then bindA (settleFromOperator e newId (ord_id r) v) (\<lambda>_. returnA ([], [settlement_item r v]))
                else returnA ([], [])
            | None \<Rightarrow> returnA ([], [])))"

fun resolve_rows ::
  "(string \<Rightarrow> env) \<Rightarrow> string \<Rightarrow> int \<Rightarrow> lookups \<Rightarrow> bet_order list
     \<Rightarrow> (unknown_resolution list \<times> reconciliation_item list) act" where
  "resolve_rows es newId now found [] = returnA ([], [])"
| "resolve_rows es newId now found (r # rs) =
     bindA (resolve_row (es (ord_id r)) newId now found r) (\<lambda>(us, items).
     bindA (resolve_rows es newId now found rs) (\<lambda>(us', items').
       returnA (us @ us', items @ items')))"

text \<open>Second reading: the rows as they are now, their receipts and their ledger keys.\<close>

definition fresh_rows :: "string list \<Rightarrow> db \<Rightarrow> bet_order list" where
  "fresh_rows ids d = filter (\<lambda>r. ord_id r \<in> set ids) (orders d)"

definition ledger_keys :: "string \<Rightarrow> string list \<Rightarrow> db \<Rightarrow> string list" where
  "ledger_keys accountId ids d =
     List.map le_entryKey (filter (\<lambda>x. le_accountId x = accountId
        \<and> (case le_orderId x of None \<Rightarrow> False | Some i \<Rightarrow> i \<in> set ids)) (entries d))"

definition compare_row ::
  "lookups \<Rightarrow> string list \<Rightarrow> bool \<Rightarrow> db \<Rightarrow> bet_order \<Rightarrow> reconciliation_item list" where
  "compare_row found ledgerKeys operatorTracked d r =
     (let l = (if ord_status r \<in> set lookup_statuses then found (ord_idempotencyKey r) else None) in
      if ord_status r = Ord_UNKNOWN \<or> (l \<noteq> None \<and> failure_reason l \<noteq> None) then []
      else compareOrder r (found_order l)
             (find_row (\<lambda>x. rcp_orderId x = ord_id r) (receipts d) \<noteq> None) ledgerKeys operatorTracked)"

definition compare_rows ::
  "lookups \<Rightarrow> string \<Rightarrow> bool \<Rightarrow> string list \<Rightarrow> db \<Rightarrow> reconciliation_item list" where
  "compare_rows found accountId operatorTracked ids d =
     List.concat (List.map (compare_row found (ledger_keys accountId ids d) operatorTracked d) (fresh_rows ids d))"

text \<open>The balance; \<open>&&\<close> stops at the first difference, and an unreadable amount raises.\<close>

definition balance_same :: "operator_balance \<Rightarrow> bankroll_account \<Rightarrow> bool res" where
  "balance_same b a =
     (if ob_currency b \<noteq> acc_currency a then Inr False
      else bindE (toCents (ob_available b)) (\<lambda>x.
           bindE (toCents (acc_availableBalance a)) (\<lambda>y.
             if x \<noteq> y then Inr False
             else bindE (toCents (ob_exposure b)) (\<lambda>u.
                  bindE (toCents (acc_reservedBalance a)) (\<lambda>v. Inr (u = v))))))"

definition ambiguous :: "bet_order list \<Rightarrow> nat" where
  "ambiguous rows = length (filter (\<lambda>r. ord_status r \<in> {Ord_RESERVED, Ord_SUBMITTING, Ord_UNKNOWN}) rows)"

definition unreadable_balance :: "exn \<Rightarrow> reconciliation_item" where
  "unreadable_balance err =
     item None It_BALANCE Res_PENDING CRITICAL
       (''Solde operateur illisible : '' @ redactErrorMessage err) JNull JNull"

definition balance_items ::
  "'s port \<Rightarrow> bankroll_account \<Rightarrow> bet_order list \<Rightarrow> 's \<Rightarrow> reconciliation_item list \<times> 's" where
  "balance_items port a rows s =
     (if port_kind port = PAPER then ([], s)
      else if ambiguous rows > 0
      then ([item None It_BALANCE Res_PENDING WARNING
               (''Solde non comparable : '' @ show_nat (ambiguous rows) @ '' ordre(s) en attente de resolution'')
               JNull JNull], s)
      else case port_getBalance port (acc_currency a) s of
        (Inl err, s') \<Rightarrow> ([unreadable_balance err], s')
      | (Inr b, s') \<Rightarrow>
          (let expected = JObj [(''available'', JStr (acc_availableBalance a)), (''exposure'', JStr (acc_reservedBalance a))];
               observed = JObj [(''available'', JStr (ob_available b)), (''exposure'', JStr (ob_exposure b))]
           in case balance_same b a of
                Inl err \<Rightarrow> ([unreadable_balance err], s')
              | Inr True \<Rightarrow> ([item None It_BALANCE Res_MATCH INFO ''Solde concordant'' expected observed], s')
              | Inr False \<Rightarrow>
                  ([item None It_BALANCE Res_MISMATCH CRITICAL ''Solde operateur divergent'' expected observed], s')))"

section \<open>Concluding a run\<close>

text \<open>\<open>acc[k] = (acc[k] ?? 0) + 1\<close> over a list, in order of first occurrence.\<close>

definition counts :: "string list \<Rightarrow> json" where
  "counts ks = JObj (List.map (\<lambda>k. (k, JNum (Num (of_nat (length (filter (\<lambda>x. x = k) ks)))))) (uniq ks))"

fun result_name :: "reconciliation_result \<Rightarrow> string" where
  "result_name Res_MATCH = ''MATCH''"
| "result_name Res_RESOLVED = ''RESOLVED''"
| "result_name Res_MISMATCH = ''MISMATCH''"
| "result_name Res_MISSING_AT_OPERATOR = ''MISSING_AT_OPERATOR''"
| "result_name Res_MISSING_LOCALLY = ''MISSING_LOCALLY''"
| "result_name Res_PENDING = ''PENDING''"

definition summary_of :: "nat \<Rightarrow> unknown_resolution list \<Rightarrow> reconciliation_item list \<Rightarrow> json" where
  "summary_of n us items =
     JObj [(''orders'', JNum (Num (of_nat n))), (''resolutions'', counts (List.map resolution_name us)),
           (''byResult'', counts (List.map (\<lambda>i. result_name (itm_result i)) items)),
           (''criticalCount'', JNum (Num (of_nat (length (critical_items items)))))]"

definition update_run ::
  "string \<Rightarrow> (reconciliation_run \<Rightarrow> reconciliation_run) \<Rightarrow> db \<Rightarrow> db" where
  "update_run i f d = d\<lparr>recRuns := update_rows (\<lambda>r. rec_id r = i \<and> rec_status r = Rec_RUNNING) f (recRuns d)\<rparr>"

definition complete_run ::
  "env \<Rightarrow> string \<Rightarrow> json \<Rightarrow> reconciliation_item list \<Rightarrow> unit tx" where
  "complete_run e i summary items d =
     bindE (checked (find_row (\<lambda>r. rec_id r = i) (recRuns d) \<noteq> None
              \<and> list_all (\<lambda>x. case itm_orderId x of None \<Rightarrow> True | Some j \<Rightarrow> find_order j d \<noteq> None) items)
              ''reconciliation_items'' (d\<lparr>recItems := recItems d @ List.map (\<lambda>x. (i, x)) items\<rparr>)) (\<lambda>d1.
       Inr ((), update_run i (\<lambda>r. r\<lparr>rec_status := Rec_COMPLETED, rec_criticalCount := length (critical_items items),
                 rec_summary := summary, rec_completedAt := Some (env_now e)\<rparr>) d1))"

definition reconcile_conclude ::
  "env \<Rightarrow> string \<Rightarrow> string \<Rightarrow> nat \<Rightarrow> unknown_resolution list \<Rightarrow> reconciliation_item list \<Rightarrow> unit act" where
  "reconcile_conclude e newId i n us items =
     bindA (commit (complete_run e i (summary_of n us items) items)) (\<lambda>_ d.
       (Inr (), case stopTriggerFor items of None \<Rightarrow> d
                | Some t \<Rightarrow> snd (autoStop e newId t [(''reconciliationRunId'', SStr i)] d)))"

text \<open>The \<open>try\<close> block. \<open>es\<close> gives the environment in which each order is resolved.\<close>

definition reconcile_body ::
  "(execution_mode \<Rightarrow> 's port option) \<Rightarrow> env \<Rightarrow> (string \<Rightarrow> env) \<Rightarrow> env \<Rightarrow> string \<Rightarrow> reconciliation_run \<Rightarrow> int
     \<Rightarrow> db \<times> 's \<Rightarrow> unit res \<times> db \<times> 's" where
  "reconcile_body ports e1 es e2 newId run now w =
     (let (d, s) = w in
      case reconcile_prepare ports e1 run now d of
        (Inl err, d1) \<Rightarrow> (Inl err, d1, s)
      | (Inr (accountId, port, drafts, rows), d1) \<Rightarrow>
          (let (found, s1) = lookupOperatorOrders port (List.map ord_idempotencyKey (lookup_rows rows)) s
           in case resolve_rows es newId now found rows d1 of
                (Inl err, d2) \<Rightarrow> (Inl err, d2, s1)
              | (Inr (us, resolved), d2) \<Rightarrow>
                  (case find_account accountId d2 of
                     None \<Rightarrow> (Inl (EntityNotFoundError ''BankrollAccount''), d2, s1)
                   | Some a \<Rightarrow>
                       (let ids = List.map ord_id rows;
                            (balance, s2) = balance_items port a (fresh_rows ids d2) s1
                        in case ledgerInvariantOk (acc_id a) d2 of
                             (Inl err, d3) \<Rightarrow> (Inl err, d3, s2)
                           | (Inr ok, d3) \<Rightarrow>
                               (let items = drafts @ failed_lookup_items found rows @ resolved
                                      @ compare_rows found accountId (port_kind port \<noteq> PAPER) ids d2 @ balance
                                      @ (if ok then [] else [item None It_LEDGER Res_MISMATCH CRITICAL
                                                               ''Invariant du ledger rompu'' JNull JNull]);
                                    (r, d4) = reconcile_conclude e2 newId (rec_id run) (length rows) us items d3
                                in (r, d4, s2))))))"

definition get_reconciliation_run :: "string \<Rightarrow> db \<Rightarrow> reconciliation_run res" where
  "get_reconciliation_run i d =
     of_option (EntityNotFoundError ''ReconciliationRun'') (find_row (\<lambda>r. rec_id r = i) (recRuns d))"

text \<open>The \<open>catch\<close> block: the run fails and the execution stops.\<close>

definition fail_run :: "env \<Rightarrow> string \<Rightarrow> string \<Rightarrow> exn \<Rightarrow> db \<Rightarrow> db" where
  "fail_run e newId i err d =
     snd (autoStop e newId RECONCILIATION_LATE [(''reconciliationRunId'', SStr i), (''cause'', SStr ''echec'')]
       (update_run i (\<lambda>r. r\<lparr>rec_status := Rec_FAILED, rec_error := Some (redactErrorMessage err),
                            rec_completedAt := Some (env_now e)\<rparr>) d))"

definition execute ::
  "(execution_mode \<Rightarrow> 's port option) \<Rightarrow> env \<Rightarrow> (string \<Rightarrow> env) \<Rightarrow> env \<Rightarrow> string \<Rightarrow> string \<Rightarrow> int \<Rightarrow> db \<times> 's
     \<Rightarrow> reconciliation_run res \<times> db \<times> 's" where
  "execute ports e1 es e2 newId i now w =
     (let (d, s) = w in
      case get_reconciliation_run i d of
        Inl err \<Rightarrow> (Inl err, d, s)
      | Inr run \<Rightarrow>
          if rec_status run \<noteq> Rec_RUNNING then (Inr run, d, s)
          else (case reconcile_body ports e1 es e2 newId run now (d, s) of
                  (Inr _, d1, s1) \<Rightarrow> (get_reconciliation_run i d1, d1, s1)
                | (Inl err, d1, s1) \<Rightarrow>
                    (let d2 = fail_run e2 newId i err d1 in (get_reconciliation_run i d2, d2, s1))))"

text \<open>\<open>getRun\<close>: the run and its items, the critical ones first (\<open>severity ASC\<close> is alphabetical).\<close>

fun severity_rank :: "severity \<Rightarrow> nat" where
  "severity_rank CRITICAL = 0"
| "severity_rank INFO = 1"
| "severity_rank WARNING = 2"

definition getRun :: "string \<Rightarrow> db \<Rightarrow> (reconciliation_run \<times> reconciliation_item list) res" where
  "getRun i d =
     bindE (of_option (NotFoundException (''Reconciliation '' @ i @ '' introuvable''))
              (find_row (\<lambda>r. rec_id r = i) (recRuns d))) (\<lambda>r.
       Inr (r, sort_key (\<lambda>x. severity_rank (itm_severity x))
                 (List.map snd (filter (\<lambda>(j, x). j = i) (recItems d)))))"

end
