(* ===== verification/Statements.thy ===== *)
theory Statements
  imports OrdersInvariant
begin

text \<open>
  Every write of the pipeline is made by a few statements: an append to the ledger, an insertion
  or an update of orders, receipts and decisions, a stop. A relation between the tables before
  and after that holds for each of them, and composes, holds for every service method. The
  interface is the locale \<open>statement_relation\<close>, an extension of \<open>table_relation\<close>; the journal (append-only), the audit trail
  (append-only) and the reconciliation tables (untouched) are interpretations.
\<close>

section \<open>Actions that stay in a relation\<close>

definition closedA :: "(db \<Rightarrow> db \<Rightarrow> bool) \<Rightarrow> 'a act \<Rightarrow> bool" where
  "closedA R m = (\<forall>d. R d (snd (m d)))"

definition closedT :: "(db \<Rightarrow> db \<Rightarrow> bool) \<Rightarrow> 'a tx \<Rightarrow> bool" where
  "closedT R m = (\<forall>d x d'. m d = Inr (x, d') \<longrightarrow> R d d')"

lemma closedA_D: "closedA R m \<Longrightarrow> m d = (r, d') \<Longrightarrow> R d d'"
  unfolding closedA_def by (metis snd_conv)

lemma closedT_D: "closedT R m \<Longrightarrow> m d = Inr (x, d') \<Longrightarrow> R d d'"
  unfolding closedT_def by blast

lemma closedT_I: "(\<And>d x d'. m d = Inr (x, d') \<Longrightarrow> R d d') \<Longrightarrow> closedT R m"
  by (auto simp: closedT_def)

section \<open>The interface\<close>

locale table_relation =
  fixes R :: "db \<Rightarrow> db \<Rightarrow> bool"
  assumes R_refl: "R d d"
    and R_trans: "R a b \<Longrightarrow> R b c \<Longrightarrow> R a c"
    and R_autoStop: "R d (snd (autoStop e newId trigger details d))"
begin

lemma R_applyStop: "R d (applyStop e newId s d)"
  by (cases s) (simp_all add: applyStop_def R_refl R_autoStop)

lemma closedA_simple: "closedA R (returnA x)" "closedA R (readA g)" "closedA R (liftE r)"
  by (simp_all add: closedA_def returnA_def readA_def liftE_def R_refl)

lemma closedA_commit: "closedT R m \<Longrightarrow> closedA R (commit m)"
  by (auto simp: closedA_def closedT_def commit_def R_refl split: sum.splits)

lemma closedA_bindA: "closedA R m \<Longrightarrow> (\<And>x. closedA R (f x)) \<Longrightarrow> closedA R (bindA m f)"
  unfolding closedA_def bindA_def
  by (auto split: prod.splits sum.splits) (metis R_trans snd_conv)+

lemma closedA_stop: "closedA R (\<lambda>d. (r, snd (autoStop e i t m d)))"
  by (simp add: closedA_def R_autoStop)

end

text \<open>The relations that every statement of the pipeline respects.\<close>

locale statement_relation = table_relation R
  for R :: "db \<Rightarrow> db \<Rightarrow> bool" +
  assumes R_append: "append account input now d = Inr (x, d') \<Longrightarrow> R d d'"
    and R_appendBatch: "appendBatch account inputs now d = Inr (y, d') \<Longrightarrow> R d d'"
    and R_insert_order: "insert_order r d = Inr d' \<Longrightarrow> R d d'"
    and R_update_orders: "update_orders p f d = Inr (n, d') \<Longrightarrow> R d d'"
    and R_update_decisions: "update_decisions q g d = Inr d' \<Longrightarrow> R d d'"
    and R_insert_receipt: "insert_receipt t d = Inr d' \<Longrightarrow> R d d'"
begin

lemma R_transition: "transition e i v patch d = Inr d' \<Longrightarrow> R d d'"
  by (auto simp: transition_def bindE_eq_Inr split: if_splits dest: R_update_orders)

lemma R_rejectDecision: "rejectDecision i c s d = Inr d' \<Longrightarrow> R d d'"
  unfolding rejectDecision_def by (rule R_update_decisions)

lemma R_release_reserved: "release_reserved e r d = Inr d' \<Longrightarrow> R d d'"
  unfolding release_reserved_def
  by (auto split: if_splits elim!: bindE_elim intro: R_refl R_append)

lemma R_cancel_body: "closedT R (cancel_body e i from code reason)"
proof (rule closedT_I)
  fix d x d' assume run: "cancel_body e i from code reason d = Inr (x, d')"
  then obtain r where r: "find_order i d = Some r" by (auto simp: cancel_body_def elim!: bindE_elim)
  show "R d d'"
  proof (cases "ord_status r \<in> set from")
    case False
    with run r show ?thesis by (auto simp: cancel_body_def get_order_def R_refl)
  next
    case True
    with run r obtain d1 d2 where "release_reserved e r d = Inr d1"
      "transition e (ord_id r) (ord_version r) (rejected_order code reason) d1 = Inr d2"
      "rejectDecision (ord_decisionId r) code None d2 = Inr d'"
      by (auto simp: cancel_body_def get_order_def elim!: bindE_elim)
    then show ?thesis by (blast intro: R_trans R_release_reserved R_transition R_rejectDecision)
  qed
qed

lemma R_cancels:
  "closedA R (cancel e i from code reason)" "closedA R (cancelReserved e r code reason)"
  "closedA R (cancelSubmitting e r code reason)" "closedA R (cancelUnknown e r code reason)"
  unfolding cancel_def cancelReserved_def cancelSubmitting_def cancelUnknown_def
  by (intro closedA_bindA closedA_commit R_cancel_body closedA_simple)+

lemma R_reserveWithin: "reserveWithin e q d = (s, Inr (result, d')) \<Longrightarrow> R d d'"
  unfolding reserveWithin_def reserve_locked_def replay_reservation_def
  by (auto split: sum.splits option.splits if_splits risk_verdict.splits prod.splits
      elim!: bindE_elim intro: R_refl R_append)

lemma R_reserve_stake_for: "reserve_stake_for e r d = (s, Inr (x, d')) \<Longrightarrow> R d d'"
  unfolding reserve_stake_for_def
  by (auto split: prod.splits sum.splits reservation_result.splits elim!: bindE_elim
      intro: R_trans [OF R_reserveWithin R_update_decisions]
        R_trans [OF R_reserveWithin R_trans [OF R_transition R_rejectDecision]])

lemma R_reserve_decision: "reserve_decision sha e oid acc mode op dec d = (s, Inr (x, d')) \<Longrightarrow> R d d'"
  unfolding reserve_decision_def Let_def
  by (auto split: option.splits sum.splits if_splits elim!: bindE_elim
      intro: R_rejectDecision R_trans [OF R_insert_order R_reserve_stake_for])

lemma R_reserve: "closedA R (reserve sha ports e newId oid did acc)"
proof -
  have body: "reserve_body sha ports e oid did acc d = (s, Inr (x, d')) \<Longrightarrow> R d d'" for d s x d'
    unfolding reserve_body_def
    by (auto split: option.splits sum.splits if_splits prod.splits intro: R_refl R_reserve_decision)
  show ?thesis
    unfolding closedA_def reserve_def
    by (auto split: prod.splits sum.splits reservation_result.splits
        intro: R_refl R_applyStop R_trans [OF body R_applyStop] R_trans [OF R_rejectDecision R_applyStop])
qed

lemma R_check_quote: "check_quote e c q r d = Inr (x, d') \<Longrightarrow> R d d'"
  unfolding check_quote_def Let_def
  by (auto split: option.splits if_splits elim!: bindE_elim intro: R_refl R_transition)

lemma R_submit_checked: "R d (snd (submit_checked e r q d))"
proof -
  have "closedT R (submit_check e (ord_id r) q)"
    by (rule closedT_I) (auto simp: submit_check_def split: if_splits elim!: bindE_elim intro: R_refl R_check_quote)
  then have "closedA R (commit (submit_check e (ord_id r) q))" by (rule closedA_commit)
  then show ?thesis
    by (auto simp: submit_checked_def split: prod.splits sum.splits dest: closedA_D)
qed

lemma R_accept_order: "accept_order e r a h n t d = Inr d' \<Longrightarrow> R d d'"
  unfolding accept_order_def release_unused_def decision_executed_def
  by (auto split: if_splits elim!: bindE_elim
      intro: R_trans [OF R_insert_receipt R_trans [OF R_transition R_update_decisions]]
        R_trans [OF R_insert_receipt R_trans [OF R_transition R_trans [OF R_append R_update_decisions]]])

lemma R_contract_breach: "contract_breach e r a v taken d = Inr (x, d') \<Longrightarrow> R d d'"
  unfolding contract_breach_def by (elim bindE_elim) (auto dest: R_transition)

lemma R_applyAcceptance: "closedA R (applyAcceptance e newId i a)"
proof -
  have "closedT R (acceptance_body e i a)"
    by (rule closedT_I, erule acceptance_cases)
      (simp_all add: R_refl R_contract_breach R_accept_order)
  then have "closedA R (commit (acceptance_body e i a))" by (rule closedA_commit)
  then show ?thesis
    unfolding applyAcceptance_def by (rule closedA_bindA) (simp add: closedA_def R_applyStop)
qed

lemma R_applyPlacementResult: "closedA R (applyPlacementResult e newId i result)"
proof -
  have "closedT R (unknown_body e i reason)" for reason
    by (rule closedT_I) (auto simp: unknown_body_def split: if_splits elim!: bindE_elim intro: R_refl R_transition)
  then show ?thesis
    unfolding applyPlacementResult_def Let_def
    by (auto split: place_order_result.splits
        intro!: closedA_bindA closedA_commit closedA_simple R_applyAcceptance R_cancels)
qed

lemma R_submit_conclude: "closedA R (submit_conclude e newId r result)"
proof -
  have stop: "R d (snd (m (snd (autoStop e newId t details d))))" if "closedA R m" for m :: "bet_order act" and t details d
    by (rule R_trans [OF R_autoStop that [unfolded closedA_def, rule_format]])
  show ?thesis
    unfolding closedA_def submit_conclude_def
    using R_applyPlacementResult R_cancels(3) stop [OF R_cancels(3)]
    by (auto simp: closedA_def split: sum.splits exn.splits)
qed

text \<open>A whole submission, with any operator.\<close>

lemma R_submit: "R d (fst (snd (submit ports e1 e2 e3 newId late i (d, s))))"
proof (cases "find_order i d")
  case None
  then show ?thesis by (simp add: submit_def get_order_def Let_def R_refl)
next
  case (Some r)
  show ?thesis
  proof (cases "ord_status r = Ord_RESERVED")
    case False
    with Some show ?thesis by (simp add: submit_def get_order_def Let_def R_refl)
  next
    case True
    show ?thesis
    proof (cases "portFor ports (ord_mode r)")
      case (Inl err)
      obtain z d2 where z: "cancelReserved e1 r CONTROL_DISABLED ''Mode sans adaptateur'' d = (z, d2)"
        by fastforce
      with R_cancels(2) have "R d d2" by (blast dest: closedA_D)
      with \<open>find_order i d = Some r\<close> True Inl z show ?thesis by (simp add: submit_def get_order_def Let_def)
    next
      case (Inr p)
      obtain q s1 where q: "submit_quote e1 p r s = (q, s1)" by fastforce
      obtain out d1 where c: "submit_checked e1 r q d = (out, d1)" by fastforce
      have 1: "R d d1" using R_submit_checked [of d e1 r q] c by simp
      show ?thesis
      proof (cases out)
        case (Withdraw code reason st y)
        obtain z d2 where z: "cancelReserved e1 y code reason (applyStop e1 newId st d1) = (z, d2)" by fastforce
        with R_cancels(2) have "R (applyStop e1 newId st d1) d2" by (blast dest: closedA_D)
        with 1 R_applyStop have "R d d2" by (blast intro: R_trans)
        with \<open>find_order i d = Some r\<close> True Inr q c Withdraw z show ?thesis by (simp add: submit_def get_order_def Let_def)
      next
        case (Proceed y)
        show ?thesis
        proof (cases "execution_mode_of (ord_mode y)")
          case None
          obtain z d2 where z: "cancelSubmitting e2 y CONTROL_DISABLED
              ''Mode d'execution invalide avant soumission'' d1 = (z, d2)" by fastforce
          with R_cancels(3) have "R d1 d2" by (blast dest: closedA_D)
          with \<open>find_order i d = Some r\<close> True Inr q c Proceed None z 1 show ?thesis
            by (auto simp: submit_def get_order_def Let_def intro: R_trans)
        next
          case (Some m)
          obtain res s2 where p: "submit_place e2 p late m y d1 s1 = (res, s2)" by fastforce
          obtain z d2 where z: "submit_conclude e3 newId y res d1 = (z, d2)" by fastforce
          with R_submit_conclude have "R d1 d2" by (blast dest: closedA_D)
          with \<open>find_order i d = Some r\<close> True Inr q c Proceed Some p z 1 show ?thesis
            by (auto simp: submit_def get_order_def Let_def intro: R_trans)
        qed
      qed
    qed
  qed
qed

lemma R_settleFromOperator: "closedA R (settleFromOperator e newId i oo)"
proof -
  have "closedT R (settleStake e newId acc k stake payout oid)" for acc k stake payout oid
    by (rule closedT_I)
      (auto simp: settleStake_def settle_body_def split: if_splits elim!: bindE_elim
        intro: R_append R_trans [OF R_append R_autoStop])
  moreover have "closedT R (settle_order_body e i oo payout outcome profit)" for payout outcome profit
    by (rule closedT_I)
      (auto simp: settle_order_body_def Let_def split: if_splits elim!: bindE_elim
        intro: R_refl R_trans [OF R_transition R_update_decisions])
  ultimately show ?thesis
    unfolding settleFromOperator_def
    by (auto split: option.splits bool.splits intro!: closedA_bindA closedA_commit closedA_simple)
qed

lemma R_resolveUnknown: "closedA R (resolveUnknown e newId r answer now)"
  unfolding resolveUnknown_def Let_def
  by (auto split: option.splits
      intro!: closedA_bindA closedA_simple closedA_stop R_cancels R_applyAcceptance R_settleFromOperator)

lemma R_recoverStaleSubmissions: "closedA R (recoverStaleSubmissions e now)"
  unfolding recoverStaleSubmissions_def
  by (auto intro!: closedA_bindA closedA_simple closedA_commit closedT_I intro: R_update_orders)

lemma R_cancelAbandonedBatch: "closedA R (cancelAbandonedBatch e ids)"
proof -
  have rej: "reject_batch e rs d = Inr d' \<Longrightarrow> R d d'" for rs d d'
    unfolding reject_batch_def
    by (auto elim!: bindE_elim split: prod.splits intro: R_trans [OF R_update_orders R_update_decisions])
  have "closedT R (cancel_batch_body e is)" for "is"
    by (rule closedT_I)
      (auto simp: cancel_batch_body_def Let_def split: if_splits list.splits elim!: bindE_elim
        intro: R_refl R_appendBatch R_trans [OF R_appendBatch rej])
  then show ?thesis
    unfolding cancelAbandonedBatch_def by (auto intro!: closedA_simple closedA_commit)
qed

end

section \<open>What no statement of the pipeline touches\<close>

definition untouched :: "db \<Rightarrow> db \<Rightarrow> bool" where
  "untouched d d' =
     (recRuns d' = recRuns d \<and> recItems d' = recItems d \<and> evidence d' = evidence d \<and> runs d' = runs d)"

text \<open>The ledger, the receipts and the audit trail are only ever extended.\<close>

definition only_grows :: "db \<Rightarrow> db \<Rightarrow> bool" where
  "only_grows d d' =
     (\<exists>es rs as. entries d' = entries d @ es \<and> receipts d' = receipts d @ rs \<and> audits d' = audits d @ as)"

lemma only_grows_same:
  "entries d' = entries d \<Longrightarrow> receipts d' = receipts d \<Longrightarrow> audits d' = audits d \<Longrightarrow> only_grows d d'"
  by (auto simp: only_grows_def)

lemma only_grows_trans: "only_grows a b \<Longrightarrow> only_grows b c \<Longrightarrow> only_grows a c"
  by (auto simp: only_grows_def)

lemma stop_audits:
  assumes "stop e newId reason actor source v d = Inr (snap, d')"
  shows "\<exists>as. audits d' = audits d @ as"
  using assms
  by (auto simp: stop_def Let_def audit_def update_control_def bindE_eq_Inr split: option.splits if_splits)

lemma autoStop_audits: "\<exists>as. audits (snd (autoStop e newId t m d)) = audits d @ as"
  by (auto simp: autoStop_def commit_def split: sum.splits dest: stop_audits)

lemma append_rows: "append account input now d = Inr (x, d') \<Longrightarrow> \<exists>es. entries d' = entries d @ es"
  by (cases x) (auto elim: append_cases)

lemma append_sel:
  assumes "append account input now d = Inr (x, d')"
  shows "untouched d d'" "receipts d' = receipts d" "audits d' = audits d" "orders d' = orders d" "decisions d' = decisions d"
  using append_frame [of account input now d "fst x" "snd x" d'] assms by (simp_all add: untouched_def)

lemma appendBatch_sel:
  assumes "appendBatch account inputs now d = Inr (y, d')"
  shows "untouched d d'" "receipts d' = receipts d" "audits d' = audits d" "orders d' = orders d"
    "\<exists>es. entries d' = entries d @ es"
  using assms
  by (auto simp: appendBatch_def update_account_def untouched_def Let_def split: if_splits elim!: bindE_elim
      dest!: insert_entries_eq)

lemma row_statements:
  "insert_order r d = Inr d' \<Longrightarrow> untouched d d' \<and> only_grows d d'"
  "update_orders p f d = Inr (n, d') \<Longrightarrow> untouched d d' \<and> only_grows d d'"
  "update_decisions q g d = Inr d' \<Longrightarrow> untouched d d' \<and> only_grows d d'"
  "insert_receipt t d = Inr d' \<Longrightarrow> untouched d d' \<and> only_grows d d'"
  by (auto simp: insert_order_def update_orders_def update_decisions_def insert_receipt_def Let_def
      untouched_def only_grows_def)

lemma untouched_autoStop: "untouched d (snd (autoStop e newId t m d))"
  unfolding untouched_def by (intro conjI; rule control_frame_tables; rule control_frame_autoStop)

lemma only_grows_autoStop: "only_grows d (snd (autoStop e newId t m d))"
proof -
  let ?d = "snd (autoStop e newId t m d)"
  have "entries ?d = entries d" "receipts ?d = receipts d" by (rule control_frame_tables, simp)+
  with autoStop_audits [of e newId t m d] show ?thesis unfolding only_grows_def by (metis append_Nil2)
qed

interpretation aside: statement_relation untouched
proof unfold_locales
  show "untouched d d" for d by (simp add: untouched_def)
  show "untouched a b \<Longrightarrow> untouched b c \<Longrightarrow> untouched a c" for a b c by (simp add: untouched_def)
qed (simp_all add: append_sel(1) appendBatch_sel(1) row_statements untouched_autoStop)

lemma only_grows_entries:
  "entries d' = entries d @ es \<Longrightarrow> receipts d' = receipts d \<Longrightarrow> audits d' = audits d \<Longrightarrow> only_grows d d'"
  by (auto simp: only_grows_def)

interpretation records: statement_relation only_grows
proof unfold_locales
  show "only_grows d d" for d by (simp add: only_grows_def)
  show "only_grows a b \<Longrightarrow> only_grows b c \<Longrightarrow> only_grows a c" for a b c by (rule only_grows_trans)
  show "only_grows d d'" if "append account input now d = Inr (x, d')" for account input now d x d'
    using append_rows [OF that] append_sel(2,3) [OF that] by (blast intro: only_grows_entries)
  show "only_grows d d'" if "appendBatch account inputs now d = Inr (x, d')" for account inputs now d x d'
    using appendBatch_sel(2,3,5) [OF that] by (blast intro: only_grows_entries)
qed (simp_all add: row_statements only_grows_autoStop)

end
