(* ===== verification/ReconciliationSafety.thy ===== *)
theory ReconciliationSafety
  imports Reconciliation Statements
begin

text \<open>
  What a reconciliation run keeps and guarantees: the invariants of the pipeline, no placement,
  a stop for every critical item and every failure, and runs that are executed once.
\<close>

section \<open>What a run keeps\<close>

text \<open>The services a run calls, for any relation they all respect.\<close>

locale resolving_relation = table_relation R
  for R :: "db \<Rightarrow> db \<Rightarrow> bool" +
  assumes svc_recover: "closedA R (recoverStaleSubmissions e now)"
    and svc_abandon: "closedA R (cancelAbandonedBatch e ids)"
    and svc_resolve: "closedA R (resolveUnknown e newId r answer now)"
    and svc_settle: "closedA R (settleFromOperator e newId i oo)"
begin

lemma R_prepare: "closedA R (reconcile_prepare ports e run now)"
  unfolding reconcile_prepare_def cancelAbandonedReservations_def
  by (auto intro!: closedA_bindA closedA_simple svc_recover svc_abandon)

lemma R_resolve_row: "closedA R (resolve_row e newId now found r)"
  unfolding resolve_row_def Let_def
  by (auto split: option.splits intro!: closedA_bindA closedA_simple svc_resolve svc_settle)

lemma R_resolve_rows: "closedA R (resolve_rows es newId now found rs)"
  by (induction rs) (auto intro!: closedA_bindA closedA_simple R_resolve_row)

end

text \<open>And the writes of the run's own tables.\<close>

locale service_relation = resolving_relation R
  for R :: "db \<Rightarrow> db \<Rightarrow> bool" +
  assumes svc_runs: "R d (d\<lparr>recRuns := x\<rparr>)"
    and svc_items: "R d (d\<lparr>recItems := y\<rparr>)"
begin

lemma R_update_run: "R d (update_run i f d)"
  by (simp add: update_run_def svc_runs)

lemma R_complete_run: "closedT R (complete_run e i summary items)"
proof (rule closedT_I)
  fix d x d' assume "complete_run e i summary items d = Inr (x, d')"
  then obtain f where "d' = update_run i f (d\<lparr>recItems := recItems d @ List.map (\<lambda>x. (i, x)) items\<rparr>)"
    by (auto simp: complete_run_def elim!: bindE_elim)
  then show "R d d'" by (simp add: R_trans [OF svc_items R_update_run])
qed

lemma R_conclude: "closedA R (reconcile_conclude e newId i n us items)"
  unfolding reconcile_conclude_def
  by (rule closedA_bindA [OF closedA_commit [OF R_complete_run]])
    (auto simp: closedA_def R_refl R_autoStop split: option.splits)

lemma R_invariant_read: "snd (ledgerInvariantOk i d) = d"
  by (simp add: ledgerInvariantOk_def readA_def)

lemma R_body: "R d (fst (snd (reconcile_body ports e1 es e2 newId run now (d, s))))"
proof -
  obtain x d1 where 1: "reconcile_prepare ports e1 run now d = (x, d1)" by fastforce
  have d1: "R d d1" by (rule closedA_D [OF R_prepare 1])
  show ?thesis
  proof (cases x)
    case (Inl err)
    with 1 d1 show ?thesis by (simp add: reconcile_body_def)
  next
    case (Inr y)
    obtain acc port drafts rows where y: "y = (acc, port, drafts, rows)" by (metis prod_cases4)
    obtain found s1 where l: "lookupOperatorOrders port (List.map ord_idempotencyKey (lookup_rows rows)) s = (found, s1)"
      by fastforce
    obtain z d2 where 2: "resolve_rows es newId now found rows d1 = (z, d2)" by fastforce
    have d2: "R d d2" using d1 closedA_D [OF R_resolve_rows 2] by (rule R_trans)
    show ?thesis
    proof (cases z)
      case (Inl err)
      with 1 Inr y l 2 d2 show ?thesis by (simp add: reconcile_body_def Let_def)
    next
      case (Inr u)
      obtain us resolved where u: "u = (us, resolved)" by fastforce
      show ?thesis
      proof (cases "find_account acc d2")
        case None
        with 1 \<open>x = Inr y\<close> y l 2 Inr u d2 show ?thesis by (simp add: reconcile_body_def Let_def)
      next
        case (Some a)
        obtain balance s2 where b: "balance_items port a (fresh_rows (List.map ord_id rows) d2) s1 = (balance, s2)"
          by fastforce
        obtain ok d3 where 3: "ledgerInvariantOk (acc_id a) d2 = (ok, d3)" by fastforce
        have "d3 = d2" using R_invariant_read [of "acc_id a" d2] 3 by simp
        then show ?thesis
          using 1 \<open>x = Inr y\<close> y l 2 Inr u d2 Some b 3 R_trans [OF d2 closedA_D [OF R_conclude]]
          by (cases ok) (auto simp: reconcile_body_def Let_def split: prod.splits)
      qed
    qed
  qed
qed

lemma R_fail_run: "R d (fail_run e newId i err d)"
  unfolding fail_run_def by (rule R_trans [OF R_update_run R_autoStop])

lemma R_execute: "R d (fst (snd (execute ports e1 es e2 newId i now (d, s))))"
proof (cases "get_reconciliation_run i d")
  case (Inl err)
  then show ?thesis by (simp add: execute_def R_refl)
next
  case (Inr run)
  obtain x d1 s1 where b: "reconcile_body ports e1 es e2 newId run now (d, s) = (x, d1, s1)" by (metis prod_cases3)
  have "R d d1" using R_body [of d ports e1 es e2 newId run now s] b by simp
  with Inr b show ?thesis
    by (cases x) (auto simp: execute_def Let_def R_refl intro: R_trans [OF _ R_fail_run])
qed

end

lemma keepsA_closedA: "keepsA m \<Longrightarrow> closedA op_keeps m"
  by (simp add: keepsA_def closedA_def)

interpretation reconciled: service_relation op_keeps
proof unfold_locales
  show "op_keeps a b \<Longrightarrow> op_keeps b c \<Longrightarrow> op_keeps a c" for a b c by (rule op_keeps_trans)
qed (simp_all add: keepsA_closedA keepsA_recoverStaleSubmissions keepsA_cancelAbandonedBatch
    keepsA_resolveUnknown keepsA_settleFromOperator op_keeps_frame)

interpretation recorded: service_relation only_grows
  by unfold_locales (simp_all add: records.R_recoverStaleSubmissions records.R_cancelAbandonedBatch
    records.R_resolveUnknown records.R_settleFromOperator only_grows_def)

interpretation resolved: resolving_relation untouched
  by unfold_locales (simp_all add: aside.R_recoverStaleSubmissions aside.R_cancelAbandonedBatch
    aside.R_resolveUnknown aside.R_settleFromOperator)

section \<open>How a run ends\<close>

lemma stopTriggerFor_None: "(stopTriggerFor items = None) = (critical_items items = [])"
  by (simp add: stopTriggerFor_def Let_def)

text \<open>Everything before the conclusion leaves the run's own tables alone.\<close>

lemma reconcile_body_cases:
  assumes "reconcile_body ports e1 es e2 newId run now (d, s) = (x, d', s')"
  obtains (raised) err where "x = Inl err" "untouched d d'"
  | (concluded) d2 n us items where "untouched d d2"
      "reconcile_conclude e2 newId (rec_id run) n us items d2 = (Inr (), d')" "x = Inr ()"
proof -
  obtain y d1 where 1: "reconcile_prepare ports e1 run now d = (y, d1)" by fastforce
  have d1: "untouched d d1" by (rule closedA_D [OF resolved.R_prepare 1])
  show ?thesis
  proof (cases y)
    case (Inl err)
    with 1 d1 assms show ?thesis by (intro raised) (auto simp: reconcile_body_def)
  next
    case (Inr v)
    obtain acc port drafts rows where v: "v = (acc, port, drafts, rows)" by (metis prod_cases4)
    obtain found s1 where l: "lookupOperatorOrders port (List.map ord_idempotencyKey (lookup_rows rows)) s = (found, s1)"
      by fastforce
    obtain z d2 where 2: "resolve_rows es newId now found rows d1 = (z, d2)" by fastforce
    have d2: "untouched d d2" using d1 closedA_D [OF resolved.R_resolve_rows 2] by (rule aside.R_trans)
    show ?thesis
    proof (cases z)
      case (Inl err)
      with 1 Inr v l 2 d2 assms show ?thesis by (intro raised) (auto simp: reconcile_body_def Let_def)
    next
      case (Inr u)
      obtain us resolved where u: "u = (us, resolved)" by fastforce
      show ?thesis
      proof (cases "find_account acc d2")
        case None
        with 1 \<open>y = Inr v\<close> v l 2 Inr u d2 assms show ?thesis
          by (intro raised) (auto simp: reconcile_body_def Let_def)
      next
        case (Some a)
        obtain balance s2 where b: "balance_items port a (fresh_rows (List.map ord_id rows) d2) s1 = (balance, s2)"
          by fastforce
        obtain ok where 3: "ledgerInvariantOk (acc_id a) d2 = (ok, d2)"
          by (simp add: ledgerInvariantOk_def readA_def)
        show ?thesis
        proof (cases ok)
          case (Inl err)
          with 1 \<open>y = Inr v\<close> v l 2 \<open>z = Inr u\<close> u d2 Some b 3 assms show ?thesis
            by (intro raised) (auto simp: reconcile_body_def Let_def)
        next
          case (Inr good)
          obtain items where c: "reconcile_conclude e2 newId (rec_id run) (length rows) us items d2 = (x, d')"
            using 1 \<open>y = Inr v\<close> v l 2 \<open>z = Inr u\<close> u Some b 3 Inr assms
            by (auto simp: reconcile_body_def Let_def split: prod.splits)
          show ?thesis
          proof (cases x)
            case (Inl err)
            with c have "d' = d2"
              by (auto simp: reconcile_conclude_def bindA_def commit_def split: sum.splits prod.splits)
            with d2 Inl show ?thesis by (intro raised) auto
          next
            case (Inr w)
            with c d2 show ?thesis by (intro concluded) auto
          qed
        qed
      qed
    qed
  qed
qed

lemma find_update_run:
  assumes "find_row (\<lambda>r. rec_id r = i) (recRuns d) = Some r" and "rec_status r = Rec_RUNNING"
    and "\<And>r. rec_id (f r) = rec_id r"
  shows "find_row (\<lambda>r. rec_id r = i) (recRuns (update_run i f d)) = Some (f r)"
  using assms find_row_update_rows [of "\<lambda>r. rec_id r = i \<and> rec_status r = Rec_RUNNING" "\<lambda>r. rec_id r = i" f "recRuns d"]
  by (auto simp: update_run_def dest: find_row_SomeD)

lemma recRuns_autoStop [simp]: "recRuns (snd (autoStop e newId t m d)) = recRuns d"
  by (rule control_frame_tables(8)) simp

lemma autoStop_ends_disabled: "\<exists>c. find_control (snd (autoStop e newId t m d)) = Some c \<and> ctl_mode c = ''DISABLED''"
  using applyStop_disables [of e newId "\<lparr>stop_trigger = t, stop_details = m\<rparr>" d] by (simp add: applyStop_def)

definition is_stopped :: "db \<Rightarrow> bool" where
  "is_stopped d = (\<exists>c. find_control d = Some c \<and> ctl_mode c = ''DISABLED'')"

text \<open>
  A run that was \<open>RUNNING\<close> ends: completed with the number of its critical items, or failed; and
  the execution is stopped if it failed or found one.
\<close>

lemma execute_ends:
  assumes run: "get_reconciliation_run i d = Inr run" "rec_status run = Rec_RUNNING"
    and ex: "execute ports e1 es e2 newId i now (d, s) = (r, d', s')"
  shows "\<exists>run'. r = Inr run' \<and> get_reconciliation_run i d' = Inr run' \<and> rec_status run' \<noteq> Rec_RUNNING
    \<and> (rec_status run' = Rec_FAILED \<or> 0 < rec_criticalCount run' \<longrightarrow> is_stopped d')"
proof -
  obtain x d1 s1 where b: "reconcile_body ports e1 es e2 newId run now (d, s) = (x, d1, s1)" by (metis prod_cases3)
  have row: "find_row (\<lambda>r. rec_id r = i) (recRuns d) = Some run" and id: "rec_id run = i"
    using run(1) by (auto simp: get_reconciliation_run_def dest: find_row_SomeD)
  from b show ?thesis
  proof (cases rule: reconcile_body_cases)
    case (raised err)
    let ?f = "\<lambda>r. r\<lparr>rec_status := Rec_FAILED, rec_error := Some (redactErrorMessage err),
                   rec_completedAt := Some (env_now e2)\<rparr>"
    have "recRuns d1 = recRuns d" using raised(2) by (simp add: untouched_def)
    with row have "find_row (\<lambda>r. rec_id r = i) (recRuns (update_run i ?f d1)) = Some (?f run)"
      by (intro find_update_run) (simp_all add: run(2))
    then have "get_reconciliation_run i (fail_run e2 newId i err d1) = Inr (?f run)"
      by (simp add: get_reconciliation_run_def fail_run_def)
    moreover have "is_stopped (fail_run e2 newId i err d1)"
      unfolding is_stopped_def fail_run_def by (rule autoStop_ends_disabled)
    moreover have "r = get_reconciliation_run i (fail_run e2 newId i err d1)" "d' = fail_run e2 newId i err d1"
      using ex run b raised(1) by (auto simp: execute_def Let_def)
    ultimately show ?thesis by auto
  next
    case (concluded d2 n us items)
    let ?f = "\<lambda>r. r\<lparr>rec_status := Rec_COMPLETED, rec_criticalCount := length (critical_items items),
                 rec_summary := summary_of n us items, rec_completedAt := Some (env_now e2)\<rparr>"
    have end_state: "r = get_reconciliation_run i d1" "d' = d1"
      using ex run b concluded(3) by (auto simp: execute_def Let_def)
    from concluded(2) id obtain d3 where d3: "complete_run e2 i (summary_of n us items) items d2 = Inr ((), d3)"
      and d1: "d1 = (case stopTriggerFor items of None \<Rightarrow> d3
                | Some t \<Rightarrow> snd (autoStop e2 newId t [(''reconciliationRunId'', SStr i)] d3))"
      by (auto simp: reconcile_conclude_def bindA_def commit_def split: sum.splits prod.splits)
    have "recRuns d2 = recRuns d" using concluded(1) by (simp add: untouched_def)
    with row have "find_row (\<lambda>r. rec_id r = i)
        (recRuns (update_run i ?f (d2\<lparr>recItems := recItems d2 @ List.map (\<lambda>x. (i, x)) items\<rparr>))) = Some (?f run)"
      by (intro find_update_run) (simp_all add: run(2))
    then have "get_reconciliation_run i d1 = Inr (?f run)"
      using d3 by (auto simp: d1 complete_run_def get_reconciliation_run_def elim!: bindE_elim split: option.splits)
    moreover have "is_stopped d1" if "critical_items items \<noteq> []"
      using that stopTriggerFor_None [of items] by (auto simp: d1 is_stopped_def autoStop_ends_disabled)
    ultimately show ?thesis using end_state by auto
  qed
qed

lemma execute_again:
  assumes "get_reconciliation_run i d = Inr run" and "rec_status run \<noteq> Rec_RUNNING"
  shows "execute ports e1 es e2 newId i now (d, s) = (Inr run, d, s)"
  using assms by (simp add: execute_def)

section \<open>Comparing\<close>

text \<open>An order agrees with the operator's answer, its receipt and its ledger keys.\<close>

definition order_agrees :: "bet_order \<Rightarrow> operator_order option \<Rightarrow> bool \<Rightarrow> string list \<Rightarrow> bool \<Rightarrow> bool" where
  "order_agrees r oo hasReceipt ledgerKeys tracked =
     (case ord_status r of
        Ord_REJECTED \<Rightarrow>
          (case oo of None \<Rightarrow> True | Some v \<Rightarrow> oo_status v = Op_REJECTED)
          \<and> (reserve_key r \<in> set ledgerKeys \<longrightarrow> release_key r \<in> set ledgerKeys)
      | Ord_RECONCILIATION_REQUIRED \<Rightarrow> False
      | s \<Rightarrow>
          s \<in> {Ord_ACCEPTED, Ord_SETTLED, Ord_VOIDED} \<longrightarrow>
            (case oo of None \<Rightarrow> \<not> tracked | Some v \<Rightarrow> \<not> terms_differ r v)
            \<and> hasReceipt \<and> reserve_key r \<in> set ledgerKeys
            \<and> (s \<noteq> Ord_ACCEPTED \<longrightarrow> settle_key r \<in> set ledgerKeys
                 \<and> (case oo of None \<Rightarrow> True | Some v \<Rightarrow> oo_payout v = ord_payout r)))"

lemma item_severity [simp]: "itm_severity (item i t r sev m x y) = sev"
  by (simp add: item_def)

lemma compareOrder_clean:
  "critical_items (compareOrder r oo hasReceipt ledgerKeys tracked) = []
     \<longleftrightarrow> order_agrees r oo hasReceipt ledgerKeys tracked"
  by (cases "ord_status r"; cases oo)
    (auto simp: compareOrder_def order_agrees_def critical_items_def accepted_item_def settled_items_def rejected_items_def)

section \<open>Opening twice\<close>

lemma openRun_again:
  assumes "openRun e newId input by d = (Inr (r, created), d')"
  shows "openRun e2 newId2 input by2 d' = (Inr (r, False), d') \<and> find_run_by_key (run_key input) d' = Some r
    \<and> (created = (find_run_by_key (run_key input) d = None))"
proof -
  let ?row = "new_run e newId input by"
  have acc: "find_account (sr_accountId input) d \<noteq> None" and d': "d' = insert_ignore_run ?row d"
    and r: "find_run_by_key (run_key input) d' = Some r" and c: "created = run_insertable ?row d"
    using assms by (auto simp: openRun_def Let_def split: if_splits elim!: bindE_elim)
  have key: "rec_idempotencyKey (new_run e' n' input b') = run_key input" for e' n' b' by (simp add: new_run_def)
  have taken: "\<not> run_insertable (new_run e2 newId2 input by2) d'"
  proof -
    from r obtain x where "x \<in> set (recRuns d')" "rec_idempotencyKey x = run_key input"
      by (auto simp: find_run_by_key_def dest: find_row_SomeD)
    then show ?thesis by (auto simp: run_insertable_def find_row_None_iff key)
  qed
  have "created = (find_run_by_key (run_key input) d = None)"
  proof
    assume created
    then show "find_run_by_key (run_key input) d = None"
      using c by (auto simp: run_insertable_def find_run_by_key_def find_row_None_iff key)
  next
    assume none: "find_run_by_key (run_key input) d = None"
    show created
    proof (rule ccontr)
      assume "\<not> created"
      with c d' have "d' = d" by (simp add: insert_ignore_run_def)
      with none r show False by simp
    qed
  qed
  moreover have "find_account (sr_accountId input) d' \<noteq> None"
    using acc by (simp add: d' insert_ignore_run_def find_account_def)
  ultimately show ?thesis using r taken by (simp add: openRun_def Let_def insert_ignore_run_def)
qed

end
