(* ===== verification/Pipeline.thy ===== *)
theory Pipeline
  imports OrdersInvariant SandboxSafety ReconciliationSafety
begin

text \<open>
  The pipeline over time, with an operator: what holds when the calls to \<open>submit\<close> for an
  order do not overlap (each order is placed at most once, whatever else happens), and what
  two overlapping calls do.
\<close>

section \<open>Counting the calls to an operator\<close>

text \<open>Any port, instrumented: the second component counts the calls to \<open>placeOrder\<close> per key.\<close>

definition counted :: "'s port \<Rightarrow> ('s \<times> (string \<Rightarrow> nat)) port" where
  "counted p =
     \<lparr>port_kind = port_kind p, port_operatorKey = port_operatorKey p,
      port_getExecutableQuote = (\<lambda>q (s, n). case port_getExecutableQuote p q s of (r, s') \<Rightarrow> (r, s', n)),
      port_placeOrder = (\<lambda>q (s, n). case port_placeOrder p q s of (r, s') \<Rightarrow>
         (r, s', n(po_idempotencyKey q := n (po_idempotencyKey q) + 1))),
      port_getOrdersByIdempotencyKeys =
        (\<lambda>ks (s, n). case port_getOrdersByIdempotencyKeys p ks s of (r, s') \<Rightarrow> (r, s', n)),
      port_getBalance = (\<lambda>c (s, n). case port_getBalance p c s of (r, s') \<Rightarrow> (r, s', n))\<rparr>"

definition counted_ports ::
  "(execution_mode \<Rightarrow> 's port option) \<Rightarrow> execution_mode \<Rightarrow> ('s \<times> (string \<Rightarrow> nat)) port option" where
  "counted_ports ports m = map_option counted (ports m)"

type_synonym 's world = "db \<times> 's \<times> (string \<Rightarrow> nat)"

section \<open>Steps\<close>

text \<open>
  One complete call of a service, by any actor, in any environment: the pipeline's own methods,
  the control's, or anything that leaves orders and ledger alone.
\<close>

inductive pipeline_step :: "'s world \<Rightarrow> 's world \<Rightarrow> bool" where
  pipe_reserve: "reserve sha (ports :: execution_mode \<Rightarrow> 's port option) e newId oid did acc d = (r, d')
     \<Longrightarrow> pipeline_step (d, s, n) (d', s, n)"
| pipe_submit: "submit (counted_ports ports) e1 e2 e3 newId late i (d, s, n) = (r, d', s', n')
     \<Longrightarrow> pipeline_step (d, s, n) (d', s', n')"
| pipe_resolve: "resolveUnknown e newId ord answer now d = (u, d') \<Longrightarrow> pipeline_step (d, s, n) (d', s, n)"
| pipe_settle: "settleFromOperator e newId i oo d = (r, d') \<Longrightarrow> pipeline_step (d, s, n) (d', s, n)"
| pipe_recover: "recoverStaleSubmissions e now d = (c, d') \<Longrightarrow> pipeline_step (d, s, n) (d', s, n)"
| pipe_abandon: "cancelAbandonedBatch e ids d = (c', d') \<Longrightarrow> pipeline_step (d, s, n) (d', s, n)"
| pipe_reconcile: "execute (counted_ports ports) e1 es e2 newId i now (d, s, n) = (x, d', s', n')
     \<Longrightarrow> pipeline_step (d, s, n) (d', s', n')"
| pipe_other: "accounts d' = accounts d \<Longrightarrow> entries d' = entries d \<Longrightarrow> orders d' = orders d
     \<Longrightarrow> pipeline_step (d, s, n) (d', s', n)"

text \<open>Every key has been placed at most once, and only for an order that has left \<open>RESERVED\<close>.\<close>

definition placed_once :: "db \<Rightarrow> (string \<Rightarrow> nat) \<Rightarrow> bool" where
  "placed_once d n =
     (\<forall>k. n k \<le> 1 \<and> (n k \<noteq> 0 \<longrightarrow> (\<exists>r \<in> set (orders d). ord_idempotencyKey r = k \<and> ord_status r \<noteq> Ord_RESERVED)))"

fun world_ok :: "'s world \<Rightarrow> bool" where
  "world_ok (d, s, n) = (pipeline_ok d \<and> placed_once d n)"

lemma later_not_reserved: "later a b \<Longrightarrow> a \<noteq> Ord_RESERVED \<Longrightarrow> b \<noteq> Ord_RESERVED"
  by (cases a) (auto simp: later_from later_terminal)

lemma placed_once_run:
  assumes "placed_once d n" and "orders_run d d'"
  shows "placed_once d' n"
  unfolding placed_once_def
proof (intro allI conjI impI)
  fix k
  show "n k \<le> 1" using assms(1) by (simp add: placed_once_def)
  assume "n k \<noteq> 0"
  with assms(1) obtain r where "r \<in> set (orders d)" "ord_idempotencyKey r = k" "ord_status r \<noteq> Ord_RESERVED"
    by (auto simp: placed_once_def)
  moreover from this orders_run_row [OF assms(2)] obtain r' where "r' \<in> set (orders d')" "row_run r r'" by blast
  ultimately show "\<exists>r \<in> set (orders d'). ord_idempotencyKey r = k \<and> ord_status r \<noteq> Ord_RESERVED"
    using later_not_reserved by (auto simp: row_run_def same_order_def)
qed

lemma world_ok_keeps:
  assumes "world_ok (d, s, n)" and "op_keeps d d'"
  shows "world_ok (d', s', n)"
  using assms placed_once_run by (auto simp: op_keeps_def)

lemma world_keeps:
  "op_keeps d d' \<Longrightarrow> pipeline_ok d \<Longrightarrow> placed_once d n \<Longrightarrow> pipeline_ok d' \<and> placed_once d' n"
  using placed_once_run by (auto simp: op_keeps_def)

section \<open>A whole submission\<close>

lemma submit_checked_keeps: "op_keeps d (snd (submit_checked e r q d))"
  using keepsA_commit [OF keepsT_submit_check [of e "ord_id r" q]]
  by (auto simp: submit_checked_def keepsA_def split: prod.splits sum.splits) (metis snd_conv)+

lemma check_quote_proceed:
  assumes "check_quote e c q r d = Inr (Proceed x, d')" and r: "find_order (ord_id r) d = Some r"
  shows "find_order (ord_id r) d' = Some x \<and> ord_status x = Ord_SUBMITTING
    \<and> ord_idempotencyKey x = ord_idempotencyKey r \<and> ord_id x = ord_id r"
proof -
  from assms(1) obtain q' where q: "q = Some q'" by (cases q) (auto simp: check_quote_def)
  from assms(1) have tr: "transition e (ord_id r) (ord_version r)
      (\<lambda>r. r\<lparr>ord_status := Ord_SUBMITTING, ord_requestedOdd := store_odd (oq_oddValue q'),
             ord_submittedAt := Some (env_now e)\<rparr>) d = Inr d'" and x: "find_order (ord_id r) d' = Some x"
    by (auto simp: check_quote_def q Let_def split: if_splits elim!: bindE_elim)
  from find_order_transition [OF tr r] x show ?thesis by (simp add: bump_def)
qed

text \<open>A check that proceeds on a reserved order has moved exactly that order to \<open>SUBMITTING\<close>.\<close>

lemma submit_checked_proceed:
  assumes run: "submit_checked e r q d = (Proceed x, d')"
    and r: "find_order (ord_id r) d = Some r" "ord_status r = Ord_RESERVED"
  shows "find_order (ord_id r) d' = Some x \<and> ord_status x = Ord_SUBMITTING
    \<and> ord_idempotencyKey x = ord_idempotencyKey r"
proof -
  from run have "submit_check e (ord_id r) q d = Inr (Proceed x, d')"
    by (auto simp: submit_checked_def commit_def check_error_def split: sum.splits exn.splits)
  then obtain c where "check_quote e c q r d = Inr (Proceed x, d')"
    using r by (auto simp: submit_check_def get_order_def bindE_eq_Inr split: if_splits)
  with r check_quote_proceed show ?thesis by blast
qed

lemma counted_quote:
  "snd (snd (submit_quote e (counted p) r (s, n))) = n"
  by (auto simp: submit_quote_def counted_def split: prod.splits sum.splits)

lemma counted_place:
  assumes "submit_place e (counted p) late m r d (s, n) = (x, s', n')"
  shows "n' = n \<or> n' = n(ord_idempotencyKey r := n (ord_idempotencyKey r) + 1)"
  using assms by (auto simp: submit_place_def counted_def place_request_def split: sum.splits prod.splits)

lemma portFor_counted:
  "portFor (counted_ports ports) m = (case portFor ports m of Inl x \<Rightarrow> Inl x | Inr p \<Rightarrow> Inr (counted p))"
  by (auto simp: portFor_def counted_ports_def of_option_def split: option.splits)

text \<open>
  What a whole submission does: it either leaves the count alone, or it found the order
  \<open>RESERVED\<close>, moved it to \<open>SUBMITTING\<close>, and placed it once.
\<close>

lemma submit_cases:
  assumes "submit (counted_ports ports) e1 e2 e3 newId late i (d, s, n) = (x, d', s', n')"
  obtains (silent) "op_keeps d d'" "n' = n"
  | (placed) r y d1 where "find_order i d = Some r" "ord_status r = Ord_RESERVED" "op_keeps d d1"
      "find_order i d1 = Some y" "ord_status y = Ord_SUBMITTING"
      "ord_idempotencyKey y = ord_idempotencyKey r" "op_keeps d1 d'"
      "n' = n \<or> n' = n(ord_idempotencyKey r := n (ord_idempotencyKey r) + 1)"
proof (cases "find_order i d")
  case None
  with assms show ?thesis by (intro silent) (auto simp: submit_def get_order_def)
next
  case (Some r)
  then have id: "ord_id r = i" by (auto dest: find_order_row)
  show ?thesis
  proof (cases "ord_status r = Ord_RESERVED")
    case False
    with Some assms show ?thesis by (intro silent) (auto simp: submit_def get_order_def)
  next
    case True
    show ?thesis
    proof (cases "portFor ports (ord_mode r)")
      case (Inl err)
      with True Some assms show ?thesis
        by (intro silent)
          (auto simp: submit_def get_order_def portFor_counted Let_def split: prod.splits
            dest: keepsA_D [OF keepsA_cancels(1)])
    next
      case (Inr p)
      obtain q s1 n1 where q: "submit_quote e1 (counted p) r (s, n) = (q, s1, n1)" by (metis prod_cases3)
      have n1: "n1 = n" using counted_quote [of e1 p r s n] q by simp
      obtain out d1 where c: "submit_checked e1 r q d = (out, d1)" by fastforce
      have keep1: "op_keeps d d1" using submit_checked_keeps [of d e1 r q] c by simp
      show ?thesis
      proof (cases out)
        case (Withdraw code reason st y)
        with True Some assms Inr q c n1 obtain d2 where
          "cancelReserved e1 y code reason (applyStop e1 newId st d1) = (x, d')" "n' = n"
          by (auto simp: submit_def get_order_def portFor_counted Let_def split: prod.splits)
        note end_state = this
        have "op_keeps (applyStop e1 newId st d1) d'" by (rule keepsA_D [OF keepsA_cancels(1) end_state(1)])
        with keep1 have "op_keeps d d'" by (blast intro: op_keeps_trans op_keeps_stop(1))
        then show ?thesis using end_state(2) by (rule silent)
      next
        case (Proceed y)
        from submit_checked_proceed [OF c [unfolded Proceed]] Some True id
        have y: "find_order i d1 = Some y" "ord_status y = Ord_SUBMITTING"
          "ord_idempotencyKey y = ord_idempotencyKey r" by auto
        have "op_keeps d1 d' \<and> (n' = n \<or> n' = n(ord_idempotencyKey r := n (ord_idempotencyKey r) + 1))"
        proof (cases "execution_mode_of (ord_mode y)")
          case None
          with True Some assms Inr q c n1 Proceed y show ?thesis
            by (auto simp: submit_def get_order_def portFor_counted Let_def split: prod.splits
                dest: keepsA_D [OF keepsA_cancels(2)])
        next
          case (Some m)
          obtain res s2 n2 where p: "submit_place e2 (counted p) late m y d1 (s1, n1) = (res, s2, n2)"
            by (metis prod_cases3)
          obtain z d2 where z: "submit_conclude e3 newId y res d1 = (z, d2)" by fastforce
          from \<open>find_order i d = Some r\<close> True assms Inr q c Proceed y Some p z
          have "d' = d2" "n' = n2"
            by (auto simp: submit_def get_order_def portFor_counted Let_def)
          with keepsA_D [OF keepsA_submit_conclude z] counted_place [OF p] n1 y show ?thesis by auto
        qed
        then show ?thesis by (intro placed [OF Some True keep1 y]) auto
      qed
    qed
  qed
qed

text \<open>A reconciliation run asks and compares; it never places.\<close>

lemma counted_lookup: "snd (snd (lookupOperatorOrders (counted p) keys (s, n))) = n"
  by (auto simp: lookupOperatorOrders_def counted_def Let_def split: prod.splits sum.splits)

lemma counted_balance: "snd (snd (balance_items (counted p) a rows (s, n))) = n"
  by (auto simp: balance_items_def counted_def Let_def split: prod.splits sum.splits bool.splits)

lemma prepare_port:
  assumes "reconcile_prepare (counted_ports ports) e run now d = (Inr (acc, port, drafts, rows), d')"
  shows "\<exists>p. port = counted p"
  using assms
  by (auto simp: reconcile_prepare_def bindA_def readA_def liftE_def returnA_def portFor_counted
      split: prod.splits sum.splits)

lemma counted_execute:
  assumes "execute (counted_ports ports) e1 es e2 newId i now (d, s, n) = (x, d', s', n')"
  shows "n' = n"
proof (cases "get_reconciliation_run i d")
  case (Inl err)
  with assms show ?thesis by (simp add: execute_def)
next
  case (Inr run)
  have "snd (snd (snd (reconcile_body (counted_ports ports) e1 es e2 newId run now (d, s, n)))) = n"
  proof -
    obtain y d1 where 1: "reconcile_prepare (counted_ports ports) e1 run now d = (y, d1)" by fastforce
    show ?thesis
    proof (cases y)
      case (Inl err)
      with 1 show ?thesis by (simp add: reconcile_body_def)
    next
      case (Inr v)
      obtain acc port drafts rows where v: "v = (acc, port, drafts, rows)" by (metis prod_cases4)
      with 1 Inr prepare_port obtain p where p: "port = counted p" by blast
      obtain found s1 n1 where l: "lookupOperatorOrders port (List.map ord_idempotencyKey (lookup_rows rows)) (s, n)
          = (found, s1, n1)" by (metis prod_cases3)
      have "n1 = n" using counted_lookup [of p _ s n] l p by (metis snd_conv)
      moreover have "snd (snd (balance_items port a x (s1, n1))) = n1" for a x
        unfolding p by (rule counted_balance)
      ultimately show ?thesis
        using 1 Inr v l
        by (auto simp: reconcile_body_def Let_def split: prod.splits sum.splits option.splits) (metis snd_conv)+
    qed
  qed
  with Inr assms show ?thesis
    by (auto simp: execute_def Let_def split: if_splits prod.splits sum.splits)
qed

lemma execute_keeps: "execute ports e1 es e2 newId i now (d, s) = (x, d', s') \<Longrightarrow> op_keeps d d'"
  using reconciled.R_execute [of d ports e1 es e2 newId i now s] by simp

lemma pipeline_step_ok:
  assumes "pipeline_step v w" and "world_ok v"
  shows "world_ok w"
  using assms
proof cases
  case (pipe_submit ports e1 e2 e3 newId late i d s n r d' s' n')
  from pipe_submit(3) show ?thesis
  proof (cases rule: submit_cases)
    case silent
    have "world_ok (d, s, n)" using assms(2) pipe_submit by simp
    from world_ok_keeps [OF this silent(1)] show ?thesis by (simp add: pipe_submit(2) silent(2))
  next
    case (placed r y d1)
    let ?k = "ord_idempotencyKey r"
    have ok: "world_ok (d, s, n)" using assms(2) pipe_submit by simp
    have ok1: "world_ok (d1, s, n)" by (rule world_ok_keeps [OF ok placed(3)])
    have count: "placed_once d1 n'" if "n ?k = 0"
      unfolding placed_once_def
    proof
      fix k
      have y: "y \<in> set (orders d1)" using find_order_row [OF placed(4)] by simp
      show "n' k \<le> 1 \<and> (n' k \<noteq> 0 \<longrightarrow> (\<exists>r \<in> set (orders d1). ord_idempotencyKey r = k \<and> ord_status r \<noteq> Ord_RESERVED))"
      proof (cases "k = ?k")
        case True
        with that y placed(5,6,8) show ?thesis by (auto intro!: bexI [of _ y])
      next
        case False
        with ok1 placed(8) show ?thesis by (auto simp: placed_once_def)
      qed
    qed
    have "n ?k = 0"
    proof (rule ccontr)
      assume "n ?k \<noteq> 0"
      with ok obtain x where "x \<in> set (orders d)" "ord_idempotencyKey x = ?k" "ord_status x \<noteq> Ord_RESERVED"
        by (auto simp: placed_once_def)
      moreover from ok find_order_row [OF placed(1)] have "distinct (List.map ord_idempotencyKey (orders d))" "r \<in> set (orders d)"
        by (auto simp: pipeline_ok_def orders_ok_def)
      ultimately show False using placed(2) distinct_key_eq [of ord_idempotencyKey "orders d" x r] by auto
    qed
    then have "placed_once d1 n'" by (rule count)
    with ok1 have "world_ok (d1, s', n')" by simp
    from world_ok_keeps [OF this placed(7)] show ?thesis by (simp add: pipe_submit)
  qed
next
  case (pipe_reconcile ports e1 es e2 newId i now d s n x d' s' n')
  have "op_keeps d d'" "n' = n" using execute_keeps [OF pipe_reconcile(3)] counted_execute [OF pipe_reconcile(3)] by auto
  with assms(2) pipe_reconcile(1,2) show ?thesis using world_ok_keeps by metis
qed (auto dest: world_keeps dest!: keepsA_D [OF keepsA_reserve] keepsA_D [OF keepsA_resolveUnknown]
    keepsA_D [OF keepsA_settleFromOperator] keepsA_D [OF keepsA_recoverStaleSubmissions]
    keepsA_D [OF keepsA_cancelAbandonedBatch] op_keeps_frame)

definition world_init :: "'s world \<Rightarrow> bool" where
  "world_init w = (case w of (d, s, n) \<Rightarrow> pipeline_ok d \<and> orders d = [] \<and> n = (\<lambda>_. 0))"

interpretation pipeline: inductive_system world_init pipeline_step world_ok
  by unfold_locales (auto simp: world_init_def placed_once_def intro: pipeline_step_ok)

section \<open>Two overlapping submissions\<close>

text \<open>
  Two workers call \<open>submit\<close> on the same order: both read it \<open>RESERVED\<close>, both read a quote,
  then run their checks one after the other. The second check finds the order already
  \<open>SUBMITTING\<close> and returns it; its status is the one the caller tests next, so both workers
  place the order.
\<close>

record overlap =
  ov_first :: "place_order_result res"
  ov_second :: "place_order_result res"
  ov_db :: db
  ov_market :: sandbox

definition overlapping_submit ::
  "env \<Rightarrow> sandbox port \<Rightarrow> execution_mode \<Rightarrow> bet_order \<Rightarrow> db \<Rightarrow> sandbox \<Rightarrow> overlap option" where
  "overlapping_submit e port mode reserved d s =
     (let (qa, s1) = submit_quote e port reserved s;
          (qb, s2) = submit_quote e port reserved s1;
          (outa, d1) = submit_checked e reserved qa d;
          (outb, d2) = submit_checked e reserved qb d1
      in case (outa, outb) of
           (Proceed a, Proceed b) \<Rightarrow>
             if ord_status a = Ord_SUBMITTING \<and> ord_status b = Ord_SUBMITTING
             then (let (ra, s3) = submit_place e port False mode a d2 s2;
                       (_, d3) = submit_conclude e ''n'' a ra d2;
                       (rb, s4) = submit_place e port False mode b d3 s3;
                       (_, d4) = submit_conclude e ''n'' b rb d3
                   in Some \<lparr>ov_first = ra, ov_second = rb, ov_db = d4, ov_market = s4\<rparr>)
             else None
         | _ \<Rightarrow> None)"

text \<open>What the two workers leave behind.\<close>

definition phantom_bet :: "overlap \<Rightarrow> bool" where
  "phantom_bet v =
     list_ex (\<lambda>r. ord_status r = Ord_REJECTED
        \<and> placeCallsFor (ord_idempotencyKey r) (ov_market v) = 2
        \<and> find_entry (release_key r) (ov_db v) \<noteq> None
        \<and> (case sbx_get (ord_idempotencyKey r) (ov_market v) of
             Some v \<Rightarrow> oo_status v = Op_ACCEPTED | None \<Rightarrow> False)) (orders (ov_db v))"

end
