(* ===== verification/PipelineSamples.thy ===== *)
theory PipelineSamples
  imports Pipeline SampleState
begin

text \<open>
  A concrete run of the pipeline the witnesses evaluate: the sample decision is reserved as an
  order, submitted to the sandbox and accepted at 1.90; the tables after each step are written out.
\<close>

definition sample_key :: string where
  "sample_key = replicate 64 CHR ''a''"

definition sample_order :: bet_order where
  "sample_order = \<lparr>ord_id = ''o1'', ord_decisionId = ''d1'', ord_accountId = ''a1'', ord_mode = ''SANDBOX'',
     ord_operatorKey = ''sandbox'', ord_idempotencyKey = sample_key, ord_externalOrderId = None,
     ord_status = Ord_RESERVED, ord_rejectionCode = None, ord_statusReason = None, ord_fixtureId = ''f1'',
     ord_providerFixtureId = ''77'', ord_marketKey = ''TEAM_GOAL_1H'', ord_selectionKey = ''HOME_YES'',
     ord_currency = ''EUR'', ord_requestedStake = ''5.00'', ord_requestedOdd = 2, ord_minimumOdd = 3 / 2,
     ord_quoteCapturedAt = 1990000, ord_acceptedOdd = None, ord_acceptedStake = None, ord_acceptedAt = None,
     ord_payout = None, ord_submittedAt = None, ord_unknownSince = None, ord_settledAt = None, ord_version = 1,
     ord_createdAt = 2000000, ord_updatedAt = 2000000\<rparr>"

definition sample_reserved_db :: db where
  "sample_reserved_db = sample_db\<lparr>
     accounts := [sample_account\<lparr>acc_availableBalance := ''95.00'', acc_reservedBalance := ''5.00'', acc_version := 3,
       acc_updatedAt := 2000000\<rparr>],
     entries := [sample_entry, sample_entry\<lparr>le_orderId := Some ''o1'', le_entryKey := ''reserve:'' @ sample_key,
       le_entryType := RESERVE, le_amount := ''-5.00'', le_reservedDelta := ''5.00'', le_availableAfter := ''95.00'',
       le_reservedAfter := ''5.00'', le_accountVersion := 3, le_createdAt := 2000000\<rparr>],
     decisions := [sample_decision\<lparr>dec_status := Dec_ORDER_RESERVED\<rparr>], orders := [sample_order]\<rparr>"

definition sample_accepted_order :: bet_order where
  "sample_accepted_order = sample_order\<lparr>ord_externalOrderId := Some ''SBX-000001'', ord_status := Ord_ACCEPTED,
     ord_requestedOdd := 19 / 10, ord_acceptedOdd := Some (19 / 10), ord_acceptedStake := Some ''5.00'',
     ord_acceptedAt := Some 2000000, ord_submittedAt := Some 2000000, ord_version := 3\<rparr>"

definition sample_world :: "sandbox world" where
  "sample_world = (sample_db, sample_market, (\<lambda>_. 0))"

definition sample_reserved_world :: "sandbox world" where
  "sample_reserved_world = (sample_reserved_db, sample_market, (\<lambda>_. 0))"

definition sample_submitted :: "bet_order res \<times> sandbox world" where
  "sample_submitted = submit (counted_ports sample_ports) sample_env sample_env sample_env ''n'' False ''o1''
     sample_reserved_world"

definition sample_submitted_db :: db where
  "sample_submitted_db = fst (snd sample_submitted)"

lemma sample_reserve:
  "reserve sample_sha sample_ports sample_env ''n'' ''o1'' ''d1'' ''a1'' sample_db = (Inr (Some sample_order), sample_reserved_db)"
  by code_simp

lemma sample_submit:
  "fst sample_submitted = Inr sample_accepted_order \<and> orders sample_submitted_db = [sample_accepted_order]
    \<and> snd (snd (snd sample_submitted)) sample_key = 1"
  by code_simp

section \<open>Two overlapping submissions\<close>

definition sample_overlap :: "overlap option" where
  "sample_overlap = overlapping_submit sample_env (sandbox_port sample_sha 2000000) SANDBOX sample_order
     sample_reserved_db (enqueue [REJECT] sample_market)"

lemma sample_overlap_phantom: "case sample_overlap of Some v \<Rightarrow> phantom_bet v | None \<Rightarrow> False"
  by code_simp

end
