(* ===== verification/PipelineProperties.thy ===== *)
theory PipelineProperties
  imports PipelineSamples
begin

text \<open>
  What the order pipeline guarantees over any sequence of complete calls, and what it does not
  guarantee for two overlapping ones.
\<close>

text \<open>
  C1: in every state that complete calls can reach (reservations, submissions, resolutions,
  settlements, recoveries, cancellations, reconciliation runs, in any order and any environment, with any operator),
  the operator has been asked to place each idempotency key at most once, and only for an order
  that has left \<open>RESERVED\<close>.
\<close>

lemma placed_at_most_once:
  assumes "pipeline.reach (d, s, n)"
  shows "n k \<le> 1 \<and> (n k = 1 \<longrightarrow> (\<exists>r \<in> set (orders d). ord_idempotencyKey r = k \<and> ord_status r \<noteq> Ord_RESERVED))"
  using pipeline.reach_inv [OF assms] by (auto simp: placed_once_def)

lemma sample_world_init: "world_init sample_world"
  by (simp add: world_init_def sample_world_def pipeline_ok_def orders_ok_def sample_ledger_ok)
    (simp add: sample_db_def)

lemma sample_reserve_step: "pipeline_step sample_world sample_reserved_world"
  using pipe_reserve [OF sample_reserve] by (simp add: sample_world_def sample_reserved_world_def)

lemma sample_submit_step: "pipeline_step sample_reserved_world (snd sample_submitted)"
  unfolding sample_submitted_def sample_reserved_world_def
  by (cases "submit (counted_ports sample_ports) sample_env sample_env sample_env ''n'' False ''o1''
       (sample_reserved_db, sample_market, \<lambda>_. 0)")
    (auto intro: pipe_submit)

lemma sample_reached: "pipeline.reach sample_reserved_world" "pipeline.reach (snd sample_submitted)"
  by (blast intro: pipeline.reach_init pipeline.reach_step sample_world_init sample_reserve_step sample_submit_step)+

lemma placed_at_most_once_witness:
  "\<exists>d s n. snd sample_submitted = (d, s, n) \<and> n sample_key = 1 \<and> n ''other'' \<le> 1"
proof -
  obtain d s n where w: "snd sample_submitted = (d, s, n)" by (metis prod_cases3)
  with placed_at_most_once [of d s n "''other''"] sample_reached(2) sample_submit show ?thesis by simp
qed

text \<open>
  C34: in every reachable state the books are consistent, and in the table of orders the
  identifiers, the idempotency keys, the decisions and the operator's identifiers are all unique,
  and every order satisfies the constraints of its table.
\<close>

lemma reachable_tables_consistent:
  assumes "pipeline.reach (d, s, n)"
  shows "ledger_ok d \<and> distinct (List.map ord_id (orders d)) \<and> distinct (List.map ord_idempotencyKey (orders d))
    \<and> distinct (List.map ord_decisionId (orders d)) \<and> list_all chk_order (orders d)
    \<and> distinct (external_keys (orders d))"
  using pipeline.reach_inv [OF assms] by (simp add: pipeline_ok_def orders_ok_def)

lemma reachable_tables_consistent_witness:
  "ledger_ok sample_submitted_db \<and> list_all chk_order (orders sample_submitted_db)
   \<and> List.map ord_status (orders sample_submitted_db) = [Ord_ACCEPTED]"
proof -
  obtain d s n where w: "snd sample_submitted = (d, s, n)" by (metis prod_cases3)
  moreover have "List.map ord_status (orders sample_submitted_db) = [Ord_ACCEPTED]"
    using sample_submit by (simp add: sample_accepted_order_def)
  ultimately show ?thesis
    using reachable_tables_consistent [of d s n] sample_reached(2) by (simp add: sample_submitted_db_def)
qed

lemma pipeline_step_run:
  assumes "pipeline_step v w" and "world_ok v"
  shows "orders_run (fst v) (fst w)"
proof -
  have run: "op_keeps d d' \<Longrightarrow> pipeline_ok d \<Longrightarrow> orders_run d d'" for d d'
    by (simp add: op_keeps_def)
  from assms show ?thesis
  proof cases
    case (pipe_submit ports e1 e2 e3 newId late i d s n r d' s' n')
    have ok: "pipeline_ok d" using assms(2) pipe_submit by simp
    from pipe_submit(3) have "op_keeps d d'"
      by (cases rule: submit_cases) (blast intro: op_keeps_trans)+
    with ok pipe_submit show ?thesis by (simp add: run)
  next
    case (pipe_reconcile ports e1 es e2 newId i now d s n x d' s' n')
    with assms(2) run [OF execute_keeps [OF pipe_reconcile(3)]] show ?thesis by simp
  qed (auto intro!: run dest: keepsA_D [OF keepsA_reserve] keepsA_D [OF keepsA_resolveUnknown]
      keepsA_D [OF keepsA_settleFromOperator] keepsA_D [OF keepsA_recoverStaleSubmissions]
      keepsA_D [OF keepsA_cancelAbandonedBatch] op_keeps_frame)
qed

lemma pipeline_run_orders:
  assumes "pipeline.run v w" and "pipeline.reach v"
  shows "orders_run (fst v) (fst w)"
  using assms
  by (rule pipeline.run_relation) (auto intro: orders_run_trans pipeline_step_run pipeline.reach_inv)

text \<open>
  C10: along any run an order is never lost; its account, mode, key, selection, stake and minimum
  odd never change; its status only moves forward in the graph of statuses (so a rejected,
  settled, voided or disputed order stays so); and its version counts its changes.
\<close>

lemma orders_only_advance:
  assumes "pipeline.reach (d, s, n)" and "pipeline.run (d, s, n) (d', s', n')" and "r \<in> set (orders d)"
  shows "\<exists>r' \<in> set (orders d'). same_order r r' \<and> later (ord_status r) (ord_status r')
    \<and> ord_version r \<le> ord_version r' \<and> (ord_version r' = ord_version r \<longrightarrow> r' = r)"
  using orders_run_row [OF _ assms(3)] pipeline_run_orders [OF assms(2,1)] by (auto simp: row_run_def)

lemma orders_only_advance_witness:
  "\<exists>r' \<in> set (orders sample_submitted_db). same_order sample_order r' \<and> later Ord_RESERVED (ord_status r')
     \<and> ord_version r' \<ge> 1"
proof -
  obtain d s n where w: "snd sample_submitted = (d, s, n)" by (metis prod_cases3)
  have "pipeline.run sample_reserved_world (snd sample_submitted)"
    by (rule pipeline.run_step [OF pipeline.run_refl sample_submit_step])
  then have run: "pipeline.run (sample_reserved_db, sample_market, (\<lambda>_. 0)) (d, s, n)"
    by (simp add: sample_reserved_world_def w)
  have "sample_order \<in> set (orders sample_reserved_db)" by (simp add: sample_reserved_db_def)
  moreover have "ord_status sample_order = Ord_RESERVED" "ord_version sample_order = 1"
    by (simp_all add: sample_order_def)
  ultimately show ?thesis
    using orders_only_advance [OF sample_reached(1) [unfolded sample_reserved_world_def] run, of sample_order] w
    by (auto simp: sample_submitted_db_def)
qed

lemma submit_check_blocked:
  assumes "lockForExecution e d = Inl err"
  shows "submit_check e i q d = Inl err"
  using assms by (simp add: submit_check_def)

lemma submit_blocked:
  assumes block: "lockForExecution e1 d = Inl err"
    and run: "submit (counted_ports ports) e1 e2 e3 newId late i (d, s, n) = (r, d', s', n')"
  shows "n' = n"
proof (cases "find_order i d")
  case None
  with run show ?thesis by (auto simp: submit_def get_order_def)
next
  case (Some x)
  have out: "\<exists>code reason st. submit_checked e1 x q d = (Withdraw code reason st x, d)" for q
    using block by (auto simp: submit_checked_def commit_def submit_check_blocked check_error_def
        split: exn.splits)
  show ?thesis
  proof (cases "portFor ports (ord_mode x)")
    case (Inl y)
    with Some run show ?thesis
      by (auto simp: submit_def get_order_def portFor_counted Let_def split: prod.splits if_splits)
  next
    case (Inr p)
    obtain q s1 n1 where q: "submit_quote e1 (counted p) x (s, n) = (q, s1, n1)" by (metis prod_cases3)
    have "n1 = n" using counted_quote [of e1 p x s n] q by simp
    with Some run Inr q out [of q] show ?thesis
      by (auto simp: submit_def get_order_def portFor_counted Let_def split: prod.splits if_splits)
  qed
qed

text \<open>
  C2: the kill switch. While the control is absent or \<open>DISABLED\<close>, a submission never asks any
  operator to place anything; and when the stop comes between the check and the placement, the
  permit refuses: the call is not made and the operator's state does not change.
\<close>

lemma stopped_never_places:
  assumes "find_control d = None \<or> (\<exists>c. find_control d = Some c \<and> ctl_mode c = ''DISABLED'')"
  shows "(submit (counted_ports ports) e1 e2 e3 newId late i (d, s, n) = (r, d', s', n') \<longrightarrow> n' = n)
    \<and> (\<exists>m u. submit_place e (counted p) late mode x d (s, n) = (Inl (ExecutionBlockedError m u), s, n))"
proof -
  have block: "\<exists>m u. lockForExecution e0 d = Inl (ExecutionBlockedError m u)" for e0
    using assms by (intro lock_blocked_when_disabled) auto
  from block [of e] have "\<exists>m u. submit_place e (counted p) late mode x d (s, n) = (Inl (ExecutionBlockedError m u), s, n)"
    by (auto simp: submit_place_def withSubmissionPermit_def)
  moreover obtain m u where "lockForExecution e1 d = Inl (ExecutionBlockedError m u)" using block [of e1] by blast
  from submit_blocked [OF this]
  have "submit (counted_ports ports) e1 e2 e3 newId late i (d, s, n) = (r, d', s', n') \<longrightarrow> n' = n"
    by (intro impI)
  ultimately show ?thesis by blast
qed

definition sample_stopped_reserved :: db where
  "sample_stopped_reserved = sample_reserved_db\<lparr>controls := [sample_control\<lparr>ctl_mode := ''DISABLED''\<rparr>]\<rparr>"

definition sample_stopped_submit :: "bet_order res \<times> sandbox world" where
  "sample_stopped_submit = submit (counted_ports sample_ports) sample_env sample_env sample_env ''n'' False ''o1''
     (sample_stopped_reserved, sample_market, (\<lambda>_. 0))"

lemma stopped_never_places_witness:
  "snd (snd (snd sample_stopped_submit)) = (\<lambda>_. 0)
   \<and> List.map ord_status (orders (fst (snd sample_stopped_submit))) = [Ord_REJECTED]"
proof -
  obtain r d s n where w: "sample_stopped_submit = (r, d, s, n)" by (metis prod_cases4)
  have "find_control sample_stopped_reserved = Some (sample_control\<lparr>ctl_mode := ''DISABLED''\<rparr>)"
    by (simp add: find_control_def global_scope_def sample_stopped_reserved_def sample_control_def)
  then have "find_control sample_stopped_reserved = None
      \<or> (\<exists>c. find_control sample_stopped_reserved = Some c \<and> ctl_mode c = ''DISABLED'')" by simp
  from stopped_never_places [OF this, of sample_ports sample_env sample_env sample_env "''n''" False "''o1''"
      sample_market "\<lambda>_. 0" r d s n] w
  have "n = (\<lambda>_. 0)" by (simp add: sample_stopped_submit_def)
  moreover have "List.map ord_status (orders (fst (snd sample_stopped_submit))) = [Ord_REJECTED]" by code_simp
  ultimately show ?thesis by (simp add: w)
qed


end
