(* ===== verification/ReconciliationProperties.thy ===== *)
theory ReconciliationProperties
  imports PipelineProperties
begin

text \<open>
  What reconciliation guarantees: a run always ends, and stops the execution when it fails or
  finds something critical; it is executed once; and its comparison finds exactly the
  disagreements it looks for. Three properties describe where it is wrong.
\<close>

definition sample_input :: start_reconciliation_input where
  "sample_input = \<lparr>sr_accountId = ''a1'', sr_from = 0, sr_to = 5000000, sr_idempotencyKey = Some ''run-1''\<rparr>"

definition sample_opened_run :: "(reconciliation_run \<times> bool) res \<times> db" where
  "sample_opened_run = openRun sample_env ''run1'' sample_input None sample_db"

text \<open>A run for an account whose mode has no operator.\<close>

definition sample_executed :: "reconciliation_run res \<times> db \<times> sandbox" where
  "sample_executed = execute (\<lambda>_. None) sample_env (\<lambda>_. sample_env) sample_env ''n'' ''run1'' 2000000
     (snd sample_opened_run, empty_sandbox)"


text \<open>Both are evaluated once.\<close>

lemma sample_run_evaluated:
  "case get_reconciliation_run ''run1'' (snd sample_opened_run) of Inl _ \<Rightarrow> False | Inr run \<Rightarrow> rec_status run = Rec_RUNNING"
  "case fst sample_executed of Inl _ \<Rightarrow> False | Inr run' \<Rightarrow> rec_status run' = Rec_FAILED"
  "case fst sample_opened_run of Inl _ \<Rightarrow> False | Inr (r, created) \<Rightarrow> created"
  by code_simp+

lemma sample_run_opened:
  "\<exists>run. get_reconciliation_run ''run1'' (snd sample_opened_run) = Inr run \<and> rec_status run = Rec_RUNNING"
  using sample_run_evaluated(1) by (auto split: sum.splits)


text \<open>
  A run is executed once: executing it again, in any environment and with any operator,
  returns the same ended run and changes neither the tables nor the operator's state.
\<close>

lemma run_executed_once:
  assumes "get_reconciliation_run i d = Inr run" and "rec_status run = Rec_RUNNING"
    and "execute ports e1 es e2 newId i now (d, s) = (r, d', s')"
  shows "execute ports' e3 es' e4 newId' i now' (d', t) = (r, d', t)"
proof -
  from execute_ends [OF assms] obtain run' where "r = Inr run'" "get_reconciliation_run i d' = Inr run'"
    "rec_status run' \<noteq> Rec_RUNNING" by blast
  then show ?thesis by (simp add: execute_again)
qed

lemma run_executed_once_witness:
  "execute sample_ports sample_env (\<lambda>_. sample_env) sample_env ''m'' ''run1'' 2000009 (fst (snd sample_executed), empty_sandbox)
    = (fst sample_executed, fst (snd sample_executed), empty_sandbox)"
proof -
  obtain r d s where w: "sample_executed = (r, d, s)" by (metis prod_cases3)
  from sample_run_opened obtain run where run: "get_reconciliation_run ''run1'' (snd sample_opened_run) = Inr run"
    "rec_status run = Rec_RUNNING" by blast
  from run_executed_once [OF run w [unfolded sample_executed_def]] show ?thesis by (simp add: w)
qed

text \<open>
  Opening is idempotent: the run created for a key is the one every later request with the
  key gets, marked as not created, and nothing is written.
\<close>

lemma opening_idempotent:
  assumes "openRun e newId input by d = (Inr (r, created), d')"
  shows "openRun e2 newId2 input by2 d' = (Inr (r, False), d') \<and> find_run_by_key (run_key input) d' = Some r
    \<and> (created = (find_run_by_key (run_key input) d = None))"
  by (rule openRun_again [OF assms])

lemma opening_idempotent_witness:
  "\<exists>r. fst sample_opened_run = Inr (r, True)
     \<and> openRun sample_env ''run2'' sample_input (Some ''u1'') (snd sample_opened_run) = (Inr (r, False), snd sample_opened_run)"
proof -
  from sample_run_evaluated(3) obtain r where "fst sample_opened_run = Inr (r, True)" by (auto split: sum.splits)
  then have run: "openRun sample_env ''run1'' sample_input None sample_db = (Inr (r, True), snd sample_opened_run)"
    by (simp add: sample_opened_run_def prod_eq_iff)
  from opening_idempotent [OF run] \<open>fst sample_opened_run = Inr (r, True)\<close> show ?thesis by blast
qed


lemma pipeline_step_entries:
  assumes "pipeline_step v w"
  shows "\<exists>es. entries (fst w) = entries (fst v) @ es"
proof -
  have grows: "only_grows d d' \<Longrightarrow> \<exists>es. entries d' = entries d @ es" for d d'
    by (auto simp: only_grows_def)
  from assms show ?thesis
  proof cases
    case (pipe_submit ports e1 e2 e3 newId late i d s n r d' s' n')
    with grows [OF records.R_submit [of d "counted_ports ports" e1 e2 e3 newId late i "(s, n)"]] show ?thesis by simp
  next
    case (pipe_reconcile ports e1 es e2 newId i now d s n x d' s' n')
    with grows [OF recorded.R_execute [of d "counted_ports ports" e1 es e2 newId i now "(s, n)"]] show ?thesis by simp
  qed (auto intro!: grows dest: closedA_D [OF records.R_reserve] closedA_D [OF records.R_resolveUnknown]
      closedA_D [OF records.R_settleFromOperator] closedA_D [OF records.R_recoverStaleSubmissions]
      closedA_D [OF records.R_cancelAbandonedBatch])
qed

lemma pipeline_run_entries: "pipeline.run v w \<Longrightarrow> \<exists>es. entries (fst w) = entries (fst v) @ es"
  by (induction rule: pipeline.run.induct) (simp, use pipeline_step_entries in fastforce)

text \<open>
  C7: the journal is append-only: along any run of the whole pipeline, reconciliation included, no
  entry of the ledger is ever changed, removed or reordered.
\<close>

lemma journal_append_only:
  assumes "pipeline.run (d, s, n) (d', s', n')"
  shows "\<exists>es. entries d' = entries d @ es"
  using pipeline_run_entries [OF assms] by simp

lemma journal_append_only_witness:
  "(\<exists>es. entries sample_reserved_db = entries sample_db @ es) \<and> length (entries sample_reserved_db) = 2"
proof -
  have "pipeline.run sample_world sample_reserved_world"
    by (rule pipeline.run_step [OF pipeline.run_refl sample_reserve_step])
  moreover have "length (entries sample_reserved_db) = 2" by (simp add: sample_reserved_db_def)
  ultimately show ?thesis
    using journal_append_only [of sample_db sample_market "\<lambda>_. 0" sample_reserved_db sample_market "\<lambda>_. 0"]
    by (simp add: sample_world_def sample_reserved_world_def)
qed

section \<open>Where a run is wrong\<close>

text \<open>
  An order that is accepted between the two readings of a run (it was being submitted at the
  first, so that the operator was not asked about it) is reported as missing at the operator, a
  critical item that stops the execution, whatever the operator knows.
\<close>

lemma accepted_meanwhile_reported_missing:
  assumes "lookupOperatorOrders port (List.map ord_idempotencyKey (lookup_rows rows)) s = (found, s')"
    and "r \<in> set (fresh_rows (List.map ord_id rows) d)" and "ord_status r = Ord_ACCEPTED"
    and "ord_idempotencyKey r \<notin> ord_idempotencyKey ` set (lookup_rows rows)"
  shows "\<exists>x \<in> set (compare_rows found accountId True (List.map ord_id rows) d).
    itm_orderId x = Some (ord_id r) \<and> itm_result x = Res_MISSING_AT_OPERATOR \<and> itm_severity x = CRITICAL"
proof -
  have "found (ord_idempotencyKey r) = None"
    using assms(1,4) by (auto simp: lookupOperatorOrders_def Let_def split: if_splits prod.splits sum.splits)
  then have "accepted_item r None True \<in> set (compare_row found (ledger_keys accountId (List.map ord_id rows) d) True d r)"
    using assms(3) by (simp add: compare_row_def compareOrder_def)
  with assms(2) have "accepted_item r None True \<in> set (compare_rows found accountId True (List.map ord_id rows) d)"
    by (auto simp: compare_rows_def)
  then show ?thesis by (intro bexI) (simp_all add: accepted_item_def item_def)
qed

lemma accepted_meanwhile_reported_missing_witness:
  "\<exists>x \<in> set (compare_rows (\<lambda>_. None) ''a1'' True [''o1''] sample_submitted_db).
     itm_result x = Res_MISSING_AT_OPERATOR \<and> itm_severity x = CRITICAL"
proof -
  let ?rows = "[sample_order\<lparr>ord_status := Ord_SUBMITTING\<rparr>]"
  have rows: "lookup_rows ?rows = []" "ord_id sample_order = ''o1''" "ord_id sample_accepted_order = ''o1''"
    "ord_status sample_accepted_order = Ord_ACCEPTED"
    by (simp_all add: lookup_rows_def lookup_statuses_def sample_order_def sample_accepted_order_def)
  have "lookupOperatorOrders (sandbox_port sample_sha 0) (List.map ord_idempotencyKey (lookup_rows ?rows)) empty_sandbox
      = (\<lambda>_. None, empty_sandbox)" by (simp add: rows lookupOperatorOrders_def)
  from accepted_meanwhile_reported_missing [OF this, of sample_accepted_order sample_submitted_db "''a1''"] rows sample_submit
  show ?thesis by (auto simp: fresh_rows_def)
qed

text \<open>
  An operator that declares an accepted order settled without a readable payout settles
  nothing: the tables do not change; the run nevertheless records the settlement as resolved, with
  the lowest severity, so that no run ever stops for it.
\<close>

lemma unreadable_payout_reported_resolved:
  assumes "find_order (ord_id r) d = Some r" and "ord_status r = Ord_ACCEPTED"
    and "found (ord_idempotencyKey r) = Some (Found k v)" and "oo_status v \<in> {Op_SETTLED, Op_VOIDED}"
    and "oo_payout v = None \<or> (\<exists>t. oo_payout v = Some t \<and> \<not> stake_text t)"
  shows "\<exists>x. resolve_row e newId now found r d = (Inr ([], [x]), d)
    \<and> itm_result x = Res_RESOLVED \<and> itm_severity x = INFO"
proof -
  have "settleFromOperator e newId (ord_id r) v d = (Inr r, d)"
    using assms by (auto simp: settleFromOperator_def bindA_def readA_def returnA_def get_order_def split: option.splits)
  then have "resolve_row e newId now found r d = (Inr ([], [settlement_item r v]), d)"
    using assms(2-4) by (auto simp: resolve_row_def Let_def bindA_def returnA_def)
  then show ?thesis by (simp add: settlement_item_def item_def)
qed

definition sample_answer :: operator_order where
  "sample_answer = \<lparr>oo_externalOrderId = Some ''SBX-000001'', oo_idempotencyKey = ''k'', oo_status = Op_SETTLED,
     oo_acceptedOdd = Some (Num 2), oo_acceptedStake = Some ''5.00'', oo_acceptedAt = Some 0, oo_receiptHash = None,
     oo_payout = None, oo_settledAt = None, oo_rawReceipt = JNull\<rparr>"

lemma sample_answer_sel: "oo_status sample_answer = Op_SETTLED" "oo_payout sample_answer = None"
  by code_simp+

lemma unreadable_payout_reported_resolved_witness:
  "\<exists>x. resolve_row sample_env ''n'' 2000000 (\<lambda>k. Some (Found k sample_answer)) sample_accepted_order sample_submitted_db
      = (Inr ([], [x]), sample_submitted_db) \<and> itm_severity x = INFO"
proof -
  have "ord_id sample_accepted_order = ''o1''" "ord_status sample_accepted_order = Ord_ACCEPTED"
    by (simp_all add: sample_accepted_order_def sample_order_def)
  then have "\<exists>x. resolve_row sample_env ''n'' 2000000 (\<lambda>k. Some (Found k sample_answer)) sample_accepted_order sample_submitted_db
      = (Inr ([], [x]), sample_submitted_db) \<and> itm_result x = Res_RESOLVED \<and> itm_severity x = INFO"
    by (intro unreadable_payout_reported_resolved [where v = sample_answer and k = "ord_idempotencyKey sample_accepted_order"])
      (simp_all add: sample_submit find_order_def sample_answer_sel)
  then show ?thesis by blast
qed

definition sample_terse :: operator_order where
  "sample_terse = \<lparr>oo_externalOrderId = Some ''X1'', oo_idempotencyKey = ''k'', oo_status = Op_ACCEPTED,
     oo_acceptedOdd = Some (Num 2), oo_acceptedStake = Some ''5'', oo_acceptedAt = Some 2000000,
     oo_receiptHash = Some (replicate 64 CHR ''b''), oo_payout = None, oo_settledAt = None, oo_rawReceipt = JNull\<rparr>"

definition sample_accepted :: "bet_order res \<times> db" where
  "sample_accepted = applyAcceptance sample_env ''n'' ''o1'' sample_terse sample_reserved_db"

text \<open>
  Amounts are compared as text. An operator that accepts a stake of 5 euros as 5 without decimals is obeyed
  (the order is accepted, its stake stored as 5.00), and from then on the comparison with the
  operator's own unchanged order is a critical mismatch.
\<close>

theorem equal_amounts_reported_different:
  "\<exists>r. fst sample_accepted = Inr r \<and> ord_status r = Ord_ACCEPTED \<and> ord_acceptedStake r = Some ''5.00''
     \<and> toCents ''5'' = toCents ''5.00''
     \<and> \<not> order_agrees r (Some sample_terse) True [reserve_key r] True
     \<and> critical_items (compareOrder r (Some sample_terse) True [reserve_key r] True) \<noteq> []"
proof -
  have "case fst sample_accepted of Inl _ \<Rightarrow> False
      | Inr r \<Rightarrow> ord_status r = Ord_ACCEPTED \<and> ord_acceptedStake r = Some ''5.00''
          \<and> critical_items (compareOrder r (Some sample_terse) True [reserve_key r] True) \<noteq> []"
    by code_simp
  then obtain r where "fst sample_accepted = Inr r" "ord_status r = Ord_ACCEPTED" "ord_acceptedStake r = Some ''5.00''"
    "critical_items (compareOrder r (Some sample_terse) True [reserve_key r] True) \<noteq> []"
    by (auto split: sum.splits)
  moreover have "toCents ''5'' = toCents ''5.00''" by code_simp
  ultimately show ?thesis using compareOrder_clean by blast
qed

end
