(* ===== verification/Values.thy ===== *)
theory Values
  imports Redactor "HOL-Library.Multiset" "HOL-Library.Product_Lexorder" "HOL-Library.List_Lexorder" "HOL-Library.Char_ord"
begin

text \<open>
  What the services outside \<open>execution\<close> use of the language: \<open>Number(x)\<close> on values read from JSON
  columns, comparisons of numbers that may not be finite, reading a property of a JSON value, and
  \<open>localeCompare\<close>. Finite numbers are rationals, as everywhere in the development.
\<close>

section \<open>\<open>Number(x)\<close>\<close>

text \<open>The decimal part of the numeric string grammar: digits, fraction, exponent.\<close>

definition number_exponent :: "string \<Rightarrow> int option" where
  "number_exponent s =
     (case s of
        [] \<Rightarrow> Some 0
      | c # t \<Rightarrow>
          if c = CHR ''e'' \<or> c = CHR ''E'' then
            (let neg = (case t of d # _ \<Rightarrow> d = CHR ''-'' | [] \<Rightarrow> False);
                 ds = (case t of d # u \<Rightarrow> if d = CHR ''-'' \<or> d = CHR ''+'' then u else t | [] \<Rightarrow> t)
             in if ds \<noteq> [] \<and> list_all is_digit ds
                then Some ((if neg then -1 else 1) * int (nat_of_digits 0 ds)) else None)
          else None)"

definition scale10 :: "rat \<Rightarrow> int \<Rightarrow> rat" where
  "scale10 x k = (if k \<ge> 0 then x * 10 ^ nat k else x / 10 ^ nat (- k))"

definition number_unsigned :: "string \<Rightarrow> js_number" where
  "number_unsigned s =
     (if s = ''Infinity'' then PosInf
      else
        let ip = takeWhile is_digit s; r = dropWhile is_digit s;
            fp = (case r of c # t \<Rightarrow> if c = CHR ''.'' then takeWhile is_digit t else [] | [] \<Rightarrow> []);
            rest = (case r of c # t \<Rightarrow> if c = CHR ''.'' then dropWhile is_digit t else r | [] \<Rightarrow> [])
        in if ip = [] \<and> fp = [] then NaN
           else case number_exponent rest of
                  None \<Rightarrow> NaN
                | Some k \<Rightarrow> Num (scale10 (of_nat (nat_of_digits 0 (ip @ fp))) (k - int (length fp))))"

fun js_neg :: "js_number \<Rightarrow> js_number" where
  "js_neg NaN = NaN" | "js_neg PosInf = NegInf" | "js_neg NegInf = PosInf" | "js_neg (Num x) = Num (- x)"

text \<open>\<open>0x\<close>, \<open>0o\<close> and \<open>0b\<close> literals take no sign.\<close>

definition radix_digit :: "char \<Rightarrow> nat" where
  "radix_digit c =
     (let n = of_char c :: nat in
      if is_digit c then n - 48 else if 97 \<le> n \<and> n \<le> 102 then n - 87 else if 65 \<le> n \<and> n \<le> 70 then n - 55 else 99)"

definition number_radix :: "nat \<Rightarrow> string \<Rightarrow> js_number" where
  "number_radix b ds =
     (if ds \<noteq> [] \<and> list_all (\<lambda>c. radix_digit c < b) ds
      then Num (of_nat (fold (\<lambda>c n. n * b + radix_digit c) ds 0)) else NaN)"

definition number_of_text :: "string \<Rightarrow> js_number" where
  "number_of_text t =
     (let s = trim t in
      if s = [] then Num 0
      else case s of
        c # u \<Rightarrow>
          if c = CHR ''-'' then js_neg (number_unsigned u)
          else if c = CHR ''+'' then number_unsigned u
          else if c = CHR ''0'' \<and> u \<noteq> [] \<and> hd u \<in> {CHR ''x'', CHR ''X''} then number_radix 16 (tl u)
          else if c = CHR ''0'' \<and> u \<noteq> [] \<and> hd u \<in> {CHR ''o'', CHR ''O''} then number_radix 8 (tl u)
          else if c = CHR ''0'' \<and> u \<noteq> [] \<and> hd u \<in> {CHR ''b'', CHR ''B''} then number_radix 2 (tl u)
          else number_unsigned s)"

text \<open>An array is converted through its text, so only the empty one and those of one element count.\<close>

fun js_Number :: "json \<Rightarrow> js_number" where
  "js_Number JNull = Num 0"
| "js_Number JUndefined = NaN"
| "js_Number (JBool b) = Num (if b then 1 else 0)"
| "js_Number (JNum n) = n"
| "js_Number (JStr s) = number_of_text s"
| "js_Number (JDate (Some t)) = Num (of_int t)"
| "js_Number (JDate None) = NaN"
| "js_Number (JArr []) = Num 0"
| "js_Number (JArr [JNull]) = Num 0"
| "js_Number (JArr [JUndefined]) = Num 0"
| "js_Number (JArr [JNum n]) = n"
| "js_Number (JArr [JStr s]) = number_of_text s"
| "js_Number (JArr [JArr xs]) = js_Number (JArr xs)"
| "js_Number (JArr _) = NaN"
| "js_Number (JObj _) = NaN"
| "js_Number JOther = NaN"

fun js_positive :: "js_number \<Rightarrow> bool" where
  "js_positive (Num x) = (x > 0)" | "js_positive PosInf = True" | "js_positive _ = False"

fun js_less_than :: "js_number \<Rightarrow> rat \<Rightarrow> bool" where
  "js_less_than (Num x) y = (x < y)" | "js_less_than NegInf _ = True" | "js_less_than _ _ = False"

text \<open>\<open>v[k]\<close>, \<open>undefined\<close> where there is no such property.\<close>

fun json_get :: "string \<Rightarrow> json \<Rightarrow> json" where
  "json_get k (JObj kvs) = (case map_of kvs k of None \<Rightarrow> JUndefined | Some v \<Rightarrow> v)"
| "json_get _ _ = JUndefined"

section \<open>\<open>localeCompare\<close>\<close>

text \<open>
  The root collation of ASCII text: first the letters without their case, in the order white space,
  punctuation, symbols, digits, letters; then, for texts equal so far, small letters before
  capital ones. Comparing two texts is comparing their keys.
\<close>

definition collation_order :: string where
  "collation_order = [CHR 0x09, CHR 0x0A, CHR 0x0B, CHR 0x0C, CHR 0x0D]
     @ '' _-,;:!?.'' @ [CHR 0x27, CHR 0x22] @ ''()[]{}@*/'' @ [CHR 0x5C] @ ''&#%'' @ [CHR 0x60] @ ''^+<=>|~$0123456789''"

definition is_upper :: "char \<Rightarrow> bool" where
  "is_upper c = (65 \<le> (of_char c :: nat) \<and> (of_char c :: nat) \<le> 90)"

definition lower :: "char \<Rightarrow> char" where
  "lower c = (if is_upper c then char_of ((of_char c :: nat) + 32) else c)"

definition collation_weight :: "char \<Rightarrow> nat" where
  "collation_weight c =
     (case find_row (\<lambda>p. fst p = c) (zip collation_order [0..<length collation_order]) of
        Some (_, i) \<Rightarrow> i
      | None \<Rightarrow> 100 + of_char (lower c))"

definition locale_key :: "string \<Rightarrow> nat list \<times> bool list" where
  "locale_key s = (List.map collation_weight s, List.map is_upper s)"

definition locale_less :: "string \<Rightarrow> string \<Rightarrow> bool" where
  "locale_less s t = (locale_key s < locale_key t)"

text \<open>The collation distinguishes any two texts, so sorting by it is sorting by a total order.\<close>

lemma collation_weight_inj:
  assumes "collation_weight c = collation_weight d" and "is_upper c = is_upper d"
  shows "c = d"
proof -
  have nth: "\<And>i. i < length collation_order \<Longrightarrow> collation_order ! i \<in> set collation_order" by simp
  have len: "length collation_order = 48" by code_simp
  have hit: "\<exists>i < 48. collation_weight x = i \<and> collation_order ! i = x" if "x \<in> set collation_order" for x
  proof -
    from that obtain i where "i < length collation_order" "collation_order ! i = x" by (auto simp: in_set_conv_nth)
    then have "(x, i) \<in> set (zip collation_order [0..<length collation_order])" by (auto simp: set_zip intro!: exI [of _ i])
    then have "find_row (\<lambda>p. fst p = x) (zip collation_order [0..<length collation_order]) \<noteq> None"
      by (auto simp: find_row_None_iff intro!: bexI [of _ "(x, i)"])
    then obtain p where p: "find_row (\<lambda>p. fst p = x) (zip collation_order [0..<length collation_order]) = Some p" by blast
    then have "p \<in> set (zip collation_order [0..<length collation_order])" "fst p = x" by (auto dest: find_row_SomeD)
    then obtain j where "j < 48" "p = (x, j)" "collation_order ! j = x" by (auto simp: set_zip len)
    then show ?thesis using p by (auto simp: collation_weight_def)
  qed
  have miss: "collation_weight x = 100 + of_char (lower x)" if "x \<notin> set collation_order" for x
  proof -
    have "find_row (\<lambda>p. fst p = x) (zip collation_order [0..<length collation_order]) = None"
      using that by (auto simp: find_row_None_iff dest: set_zip_leftD)
    then show ?thesis by (simp add: collation_weight_def)
  qed
  have lower_inj: "x = y" if "lower x = lower y" "is_upper x = is_upper y" for x y
  proof (cases "is_upper x")
    case True
    then have "(of_char x :: nat) + 32 < 256" "(of_char y :: nat) + 32 < 256" using that(2) by (auto simp: is_upper_def)
    moreover have "(of_char (lower x) :: nat) = of_char (lower y)" using that(1) by simp
    ultimately have "(of_char x :: nat) = of_char y" using that(2) True by (simp add: lower_def)
    then show ?thesis by simp
  qed (use that in \<open>simp add: lower_def\<close>)
  show ?thesis
  proof (cases "c \<in> set collation_order"; cases "d \<in> set collation_order")
    assume "c \<in> set collation_order" "d \<in> set collation_order"
    then show ?thesis using hit assms(1) by metis
  next
    assume "c \<notin> set collation_order" "d \<notin> set collation_order"
    then show ?thesis using miss lower_inj assms by simp
  next
    assume c: "c \<in> set collation_order" "d \<notin> set collation_order"
    from hit [OF c(1)] have "collation_weight c < 48" by blast
    then show ?thesis using miss [OF c(2)] assms(1) by simp
  next
    assume c: "c \<notin> set collation_order" "d \<in> set collation_order"
    from hit [OF c(2)] have "collation_weight d < 48" by blast
    then show ?thesis using miss [OF c(1)] assms(1) by simp
  qed
qed

lemma locale_key_inj: "(locale_key s = locale_key t) = (s = t)"
proof
  assume "locale_key s = locale_key t"
  then have "List.map collation_weight s = List.map collation_weight t" "List.map is_upper s = List.map is_upper t"
    by (simp_all add: locale_key_def)
  then show "s = t"
  proof (induction s arbitrary: t)
    case (Cons c s)
    then show ?case by (cases t) (auto intro: collation_weight_inj)
  qed simp
qed simp

text \<open>Sorting commutes with selecting, and does not depend on the order of rows with distinct keys.\<close>

lemma sort_key_perm:
  fixes k :: "'a \<Rightarrow> 'b :: linorder"
  assumes "mset xs = mset ys" and "inj_on k (set xs)"
  shows "sort_key k xs = sort_key k ys"
  using assms by (intro sort_key_inj_key_eq) simp_all

end
