(* ===== verification/Stats.thy ===== *)
theory Stats
  imports Values
begin

text \<open>
  Statistics of a match (\<open>common/utils/stats.utils.ts\<close>), read from the JSON payload of a snapshot in
  either of its formats. The \<open>type\<close> of an entry is a text or absent, as the types of the code say.
  Arithmetic on the values is exact.
\<close>

section \<open>Numbers\<close>

fun js_add :: "js_number \<Rightarrow> js_number \<Rightarrow> js_number" where
  "js_add (Num x) (Num y) = Num (x + y)"
| "js_add NaN _ = NaN"
| "js_add _ NaN = NaN"
| "js_add PosInf NegInf = NaN"
| "js_add NegInf PosInf = NaN"
| "js_add PosInf _ = PosInf"
| "js_add NegInf _ = NegInf"
| "js_add _ PosInf = PosInf"
| "js_add _ NegInf = NegInf"

definition js_sub :: "js_number \<Rightarrow> js_number \<Rightarrow> js_number" where
  "js_sub x y = js_add x (js_neg y)"

text \<open>Multiplication by a positive constant.\<close>

fun js_scale :: "rat \<Rightarrow> js_number \<Rightarrow> js_number" where
  "js_scale k (Num x) = Num (k * x)" | "js_scale k v = v"

text \<open>\<open>Math.max(0, x)\<close>.\<close>

fun js_max0 :: "js_number \<Rightarrow> js_number" where
  "js_max0 (Num x) = Num (max 0 x)" | "js_max0 NegInf = Num 0" | "js_max0 PosInf = PosInf" | "js_max0 NaN = NaN"

definition toNumber :: "json \<Rightarrow> js_number option" where
  "toNumber v =
     (if v = JNull \<or> v = JUndefined \<or> v = JStr [] then None
      else if js_Number v = NaN then None else Some (js_Number v))"

section \<open>Entries\<close>

fun json_array :: "json \<Rightarrow> json list" where
  "json_array (JArr xs) = xs" | "json_array _ = []"

fun is_array :: "json \<Rightarrow> bool" where
  "is_array (JArr _) = True" | "is_array _ = False"

text \<open>The type of an entry, lower-cased; an empty text counts as none.\<close>

definition entry_type :: "json \<Rightarrow> string option" where
  "entry_type entry =
     (case json_get ''type'' entry of JStr t \<Rightarrow> if t = [] then None else Some (List.map lower t) | _ \<Rightarrow> None)"

definition getStatValue :: "json \<Rightarrow> string list \<Rightarrow> js_number" where
  "getStatValue payload names =
     (if payload = JNull then Num 0
      else case find_row (\<lambda>e. case entry_type e of None \<Rightarrow> False | Some t \<Rightarrow> t \<in> set (List.map (List.map lower) names))
                  (json_array (json_get ''statistics'' payload)) of
             Some e \<Rightarrow> (case toNumber (json_get ''value'' e) of None \<Rightarrow> Num 0 | Some n \<Rightarrow> n)
           | None \<Rightarrow>
               (case find_row (\<lambda>n. toNumber (json_get n payload) \<noteq> None) names of
                  None \<Rightarrow> Num 0
                | Some n \<Rightarrow> (case toNumber (json_get n payload) of None \<Rightarrow> Num 0 | Some v \<Rightarrow> v)))"

definition total_shots_types :: "string list" where
  "total_shots_types = [''total shots'', ''shots total'']"

definition entry_number :: "json list \<Rightarrow> string \<Rightarrow> js_number" where
  "entry_number entries t =
     (case find_row (\<lambda>e. entry_type e = Some t) entries of None \<Rightarrow> NaN | Some e \<Rightarrow> js_Number (json_get ''value'' e))"

definition flat_shots :: "json \<Rightarrow> js_number option" where
  "flat_shots stats =
     (let direct = json_get ''total_shots'' stats;
          flat = (if direct = JNull \<or> direct = JUndefined then json_get ''shots'' stats else direct)
      in if flat = JUndefined \<or> js_Number flat = NaN then None else Some (js_Number flat))"

definition extractTotalShots :: "json \<Rightarrow> js_number option" where
  "extractTotalShots stats =
     (let entries = json_array (json_get ''statistics'' stats);
          onTarget = entry_number entries ''on target'';
          offTarget = entry_number entries ''off target''
      in case find_row (\<lambda>e. (\<exists>t \<in> set total_shots_types. entry_type e = Some t)
                \<and> js_Number (json_get ''value'' e) \<noteq> NaN) entries of
           Some e \<Rightarrow> Some (js_Number (json_get ''value'' e))
         | None \<Rightarrow>
             if onTarget \<noteq> NaN \<and> offTarget \<noteq> NaN
             then Some (js_add onTarget offTarget)
             else if onTarget \<noteq> NaN then Some onTarget else flat_shots stats)"

definition computePressureIndex :: "json \<Rightarrow> js_number" where
  "computePressureIndex payload =
     (if payload = JNull then Num 0
      else let attacks = getStatValue payload [''Attacks''];
               dangerousAttacks = getStatValue payload [''Dangerous Attacks''];
               onTarget = getStatValue payload [''On Target'', ''Shots on Goal''];
               offTarget = getStatValue payload [''Off Target'', ''Shots off Goal''];
               corners = getStatValue payload [''Corner Kicks'', ''Corners'']
           in js_sub (js_add (js_add (js_add (js_scale (14 / 10) dangerousAttacks) (js_scale 2 onTarget))
                                     (js_scale (12 / 10) corners))
                             (js_scale (15 / 100) attacks))
                     (js_scale (4 / 10) offTarget))"

section \<open>What is read is a number\<close>

lemma toNumber_not_NaN: "toNumber v = Some n \<Longrightarrow> n \<noteq> NaN"
  by (auto simp: toNumber_def split: if_splits)

lemma getStatValue_not_NaN: "getStatValue payload names \<noteq> NaN"
  by (auto simp: getStatValue_def split: option.splits dest: toNumber_not_NaN)

end
