(* ===== verification/Rules.thy ===== *)
theory Rules
  imports SmartRules Stats
begin

text \<open>
  The rule evaluator (\<open>recommendations/rules/rules-evaluator.ts\<close>), shared by the live signals and the
  replay of the backtest. The reasons shown to the user are left out.
\<close>

section \<open>Types\<close>

definition first_half_statuses :: "string list" where "first_half_statuses = [''1H'', ''LIVE'']"

definition second_half_statuses :: "string list" where "second_half_statuses = [''2H'', ''LIVE'']"

record team_signals =
  ti_teamId :: int
  ti_teamName :: string
  ti_totalShots :: "js_number option"
  ti_shotsOnTarget :: "js_number option"
  ti_pressureIndex :: "js_number option"

type_synonym both_sides = "js_number \<times> js_number"

record rule_input =
  re_elapsed :: int
  re_statusShort :: string
  re_home :: team_signals
  re_away :: team_signals
  re_htShots :: "both_sides option"
  re_htOnTarget :: "both_sides option"
  re_htPressure :: "both_sides option"
  re_scoreHome :: "int option"
  re_scoreAway :: "int option"

record rule_match =
  rm_teamId :: int
  rm_isHomeTeam :: bool
  rm_teamName :: string
  rm_marketType :: string
  rm_selection :: string
  rm_ruleName :: string
  rm_minAcceptableOdd :: rat
  rm_edgePct :: rat
  rm_confidenceScore :: int
  rm_signalThreshold :: int
  rm_signal :: signal_type
  rm_elapsed :: int
  rm_shotsCount :: js_number

section \<open>Pieces\<close>

definition signalValue :: "team_signals \<Rightarrow> signal_type \<Rightarrow> js_number option" where
  "signalValue team signal =
     (case signal of ON_TARGET \<Rightarrow> ti_shotsOnTarget team | PRESSURE_INDEX \<Rightarrow> ti_pressureIndex team
      | TOTAL_SHOTS \<Rightarrow> ti_totalShots team)"

definition findMatchedRule :: "half_rule list \<Rightarrow> int \<Rightarrow> js_number \<Rightarrow> int \<Rightarrow> half_rule option" where
  "findMatchedRule rules elapsed shots thresholdOffset =
     find_row (\<lambda>r. elapsed < hr_maxElapsed r \<and> js_ge shots (of_int (hr_minShots r + thresholdOffset))) rules"

datatype score_state = Leading | Trailing | Drawing

definition scoreStateOf :: "rule_input \<Rightarrow> bool \<Rightarrow> score_state" where
  "scoreStateOf input isHomeTeam =
     (case (if isHomeTeam then re_scoreHome input else re_scoreAway input,
            if isHomeTeam then re_scoreAway input else re_scoreHome input) of
        (Some gf, Some ga) \<Rightarrow> if gf > ga then Leading else if gf < ga then Trailing else Drawing
      | _ \<Rightarrow> Drawing)"

definition thresholdOffsetFor :: "rule_input \<Rightarrow> smart_rules_config \<Rightarrow> bool \<Rightarrow> int" where
  "thresholdOffsetFor input config isHomeTeam =
     (case cfg_scoreStateModifiers config of
        None \<Rightarrow> 0
      | Some mods \<Rightarrow>
          (case scoreStateOf input isHomeTeam of
             Leading \<Rightarrow> mod_leading mods | Trailing \<Rightarrow> mod_trailing mods | Drawing \<Rightarrow> mod_drawing mods))"

definition htBaselineFor :: "rule_input \<Rightarrow> signal_type \<Rightarrow> both_sides" where
  "htBaselineFor input signal =
     (case (case signal of ON_TARGET \<Rightarrow> re_htOnTarget input | PRESSURE_INDEX \<Rightarrow> re_htPressure input
              | TOTAL_SHOTS \<Rightarrow> re_htShots input) of
        None \<Rightarrow> (Num 0, Num 0) | Some x \<Rightarrow> x)"

text \<open>\<open>Math.max(...rules.map(r => r.maxElapsed))\<close>, \<open>None\<close> for minus infinity.\<close>

definition max_window :: "half_rule list \<Rightarrow> int option" where
  "max_window rules =
     (case rules of [] \<Rightarrow> None | r # rs \<Rightarrow> Some (fold (\<lambda>x m. max (hr_maxElapsed x) m) rs (hr_maxElapsed r)))"

definition before_window :: "int \<Rightarrow> int option \<Rightarrow> bool" where
  "before_window elapsed w = (case w of None \<Rightarrow> False | Some m \<Rightarrow> elapsed < m)"

definition config_signal :: "smart_rules_config \<Rightarrow> signal_type" where
  "config_signal config = default_to TOTAL_SHOTS (cfg_signal config)"

section \<open>Evaluation\<close>

text \<open>A match of a rule: the part common to the three markets.\<close>

definition rule_match_of ::
  "rule_input \<Rightarrow> team_signals \<Rightarrow> bool \<Rightarrow> js_number \<Rightarrow> int \<Rightarrow> signal_type \<Rightarrow> string \<Rightarrow> string \<Rightarrow> odds_config \<Rightarrow> rule_match" where
  "rule_match_of input team isHomeTeam shots threshold signal market suffix odds =
     \<lparr>rm_teamId = ti_teamId team, rm_isHomeTeam = isHomeTeam, rm_teamName = ti_teamName team,
      rm_marketType = market, rm_selection = ti_teamName team @ suffix, rm_ruleName = ''shots-pressure'',
      rm_minAcceptableOdd = oc_min odds, rm_edgePct = oc_edgePct odds, rm_confidenceScore = oc_confidence odds,
      rm_signalThreshold = threshold, rm_signal = signal, rm_elapsed = re_elapsed input, rm_shotsCount = shots\<rparr>"

definition first_half_team :: "rule_input \<Rightarrow> smart_rules_config \<Rightarrow> team_signals \<times> bool \<Rightarrow> rule_match list" where
  "first_half_team input config t =
     (let (team, isHomeTeam) = t; signal = config_signal config; offset = thresholdOffsetFor input config isHomeTeam
      in case signalValue team signal of
           None \<Rightarrow> []
         | Some shots \<Rightarrow>
             (case findMatchedRule (cfg_firstHalfRules config) (re_elapsed input) shots offset of
                None \<Rightarrow> []
              | Some rule \<Rightarrow>
                  [rule_match_of input team isHomeTeam shots (hr_minShots rule + offset) signal
                     ''Buts 1ere mi-temps'' '' marque avant la mi-temps (+0.5)'' (od_firstHalfHT (cfg_odds config)),
                   rule_match_of input team isHomeTeam shots (hr_minShots rule + offset) signal
                     ''Buts match'' '' marque dans le match (+0.5)'' (od_firstHalfFT (cfg_odds config))]))"

definition evaluateFirstHalf :: "rule_input \<Rightarrow> smart_rules_config \<Rightarrow> rule_match list" where
  "evaluateFirstHalf input config =
     (if re_statusShort input \<notin> set first_half_statuses \<or> re_elapsed input < 1
         \<or> \<not> before_window (re_elapsed input) (max_window (cfg_firstHalfRules config))
      then []
      else concat (List.map (first_half_team input config) [(re_home input, True), (re_away input, False)]))"

definition second_half_team ::
  "rule_input \<Rightarrow> smart_rules_config \<Rightarrow> team_signals \<times> bool \<times> js_number \<Rightarrow> rule_match list" where
  "second_half_team input config t =
     (let (team, isHomeTeam, htBaseline) = t; signal = config_signal config;
          offset = thresholdOffsetFor input config isHomeTeam
      in case signalValue team signal of
           None \<Rightarrow> []
         | Some v \<Rightarrow>
             (let shots = js_max0 (js_sub v htBaseline)
              in case findMatchedRule [cfg_secondHalfRule config] (re_elapsed input) shots offset of
                   None \<Rightarrow> []
                 | Some rule \<Rightarrow>
                     [rule_match_of input team isHomeTeam shots (hr_minShots rule + offset) signal
                        ''Buts 2eme mi-temps'' '' marque en 2eme mi-temps (+0.5)'' (od_secondHalf (cfg_odds config))]))"

definition evaluateSecondHalf :: "rule_input \<Rightarrow> smart_rules_config \<Rightarrow> rule_match list" where
  "evaluateSecondHalf input config =
     (if re_statusShort input \<notin> set second_half_statuses \<or> re_elapsed input < 45
         \<or> re_elapsed input \<ge> hr_maxElapsed (cfg_secondHalfRule config)
      then []
      else let baseline = htBaselineFor input (config_signal config)
           in concat (List.map (second_half_team input config)
                [(re_home input, True, fst baseline), (re_away input, False, snd baseline)]))"

definition evaluateRules :: "rule_input \<Rightarrow> smart_rules_config \<Rightarrow> rule_match list" where
  "evaluateRules input config = evaluateFirstHalf input config @ evaluateSecondHalf input config"

section \<open>The window that decides\<close>

lemma js_ge_mono: "js_ge v y \<Longrightarrow> x \<le> y \<Longrightarrow> js_ge v x"
  by (cases v) auto

text \<open>With rules the controller accepts, only the tightest window that is still open counts.\<close>

lemma findMatchedRule_tightest:
  assumes "consistent_rules rules"
  shows "findMatchedRule rules elapsed v offset =
    (case find_row (\<lambda>r. elapsed < hr_maxElapsed r) rules of
       None \<Rightarrow> None
     | Some r \<Rightarrow> if js_ge v (of_int (hr_minShots r + offset)) then Some r else None)"
  using assms
proof (induction rules)
  case (Cons r rs)
  then have rest: "consistent_rules rs" "\<forall>x \<in> set rs. hr_minShots r \<le> hr_minShots x" by (auto simp: consistent_rules_def)
  show ?case
  proof (cases "elapsed < hr_maxElapsed r \<and> \<not> js_ge v (of_int (hr_minShots r + offset))")
    case True
    then have "find_row (\<lambda>x. elapsed < hr_maxElapsed x \<and> js_ge v (of_int (hr_minShots x + offset))) rs = None"
      using rest(2) by (force simp: find_row_None_iff dest: js_ge_mono [where x = "of_int (hr_minShots r + offset)"])
    with True show ?thesis by (simp add: findMatchedRule_def)
  next
    case False
    with Cons.IH [OF rest(1)] show ?thesis by (auto simp: findMatchedRule_def)
  qed
qed (simp add: findMatchedRule_def)

text \<open>Every rule decides for some minute.\<close>

lemma tightest_reached:
  assumes "consistent_rules rules" and "r \<in> set rules"
  shows "find_row (\<lambda>x. hr_maxElapsed r - 1 < hr_maxElapsed x) rules = Some r"
  using assms
proof (induction rules)
  case (Cons x rs)
  then show ?case by (auto simp: consistent_rules_def)
qed simp

lemma before_window_iff: "before_window elapsed (max_window rules) = (\<exists>r \<in> set rules. elapsed < hr_maxElapsed r)"
proof -
  have "elapsed < fold (\<lambda>x m. max (hr_maxElapsed x) m) rs m = (elapsed < m \<or> (\<exists>r \<in> set rs. elapsed < hr_maxElapsed r))"
    for rs :: "half_rule list" and m
    by (induction rs arbitrary: m) auto
  then show ?thesis by (cases rules) (auto simp: before_window_def max_window_def)
qed

section \<open>The matches of an input\<close>

lemma evaluateFirstHalf_late:
  "\<not> before_window (re_elapsed input) (max_window (cfg_firstHalfRules config)) \<Longrightarrow> evaluateFirstHalf input config = []"
  by (simp add: evaluateFirstHalf_def)

lemma evaluateSecondHalf_early: "re_elapsed input < 45 \<Longrightarrow> evaluateSecondHalf input config = []"
  by (simp add: evaluateSecondHalf_def)

text \<open>What a side contributes: nothing, or its matches in the order of the markets.\<close>

definition match_key :: "rule_match \<Rightarrow> bool \<times> string" where
  "match_key m = (rm_isHomeTeam m, rm_marketType m)"

lemma first_half_team_keys:
  "List.map match_key (first_half_team input config (team, h)) = []
    \<or> List.map match_key (first_half_team input config (team, h)) = [(h, ''Buts 1ere mi-temps''), (h, ''Buts match'')]"
  by (auto simp: first_half_team_def Let_def rule_match_of_def match_key_def split: option.split)

lemma second_half_team_keys:
  "List.map match_key (second_half_team input config (team, h, b)) = []
    \<or> List.map match_key (second_half_team input config (team, h, b)) = [(h, ''Buts 2eme mi-temps'')]"
  by (auto simp: second_half_team_def Let_def rule_match_of_def match_key_def split: option.split)

lemma first_half_team_fields:
  "m \<in> set (first_half_team input config (team, h)) \<Longrightarrow>
     rm_teamId m = ti_teamId team \<and> rm_isHomeTeam m = h \<and> rm_elapsed m = re_elapsed input"
  by (auto simp: first_half_team_def Let_def rule_match_of_def split: option.splits)

lemma second_half_team_fields:
  "m \<in> set (second_half_team input config (team, h, b)) \<Longrightarrow>
     rm_teamId m = ti_teamId team \<and> rm_isHomeTeam m = h \<and> rm_elapsed m = re_elapsed input"
  by (auto simp: second_half_team_def Let_def rule_match_of_def split: option.splits)

lemma evaluateRules_cases:
  assumes "m \<in> set (evaluateRules input config)"
  obtains (first) team h where "(team, h) \<in> {(re_home input, True), (re_away input, False)}"
      "m \<in> set (first_half_team input config (team, h))"
    | (second) team h b where "(team, h) \<in> {(re_home input, True), (re_away input, False)}"
      "m \<in> set (second_half_team input config (team, h, b))"
proof -
  have "m \<in> set (first_half_team input config (re_home input, True)) \<or> m \<in> set (first_half_team input config (re_away input, False))
    \<or> (\<exists>b. m \<in> set (second_half_team input config (re_home input, True, b)))
    \<or> (\<exists>b. m \<in> set (second_half_team input config (re_away input, False, b)))"
    using assms by (auto simp: evaluateRules_def evaluateFirstHalf_def evaluateSecondHalf_def Let_def split: if_splits)
  then show thesis using first second by blast
qed

lemma evaluateRules_team:
  assumes "m \<in> set (evaluateRules input config)"
  shows "rm_teamId m = (if rm_isHomeTeam m then ti_teamId (re_home input) else ti_teamId (re_away input))"
    "rm_elapsed m = re_elapsed input"
  using assms by (cases rule: evaluateRules_cases; auto dest: first_half_team_fields second_half_team_fields)+

lemma evaluateRules_market:
  assumes "m \<in> set (evaluateRules input config)"
  shows "rm_marketType m \<in> {''Buts 1ere mi-temps'', ''Buts match'', ''Buts 2eme mi-temps''}"
  using assms
proof (cases rule: evaluateRules_cases)
  case (first team h)
  then have "match_key m \<in> set (List.map match_key (first_half_team input config (team, h)))" by simp
  then show ?thesis using first_half_team_keys [of input config team h] by (auto simp: match_key_def simp del: set_map)
next
  case (second team h b)
  then have "match_key m \<in> set (List.map match_key (second_half_team input config (team, h, b)))" by simp
  then show ?thesis using second_half_team_keys [of input config team h b] by (auto simp: match_key_def simp del: set_map)
qed

text \<open>One match at most for a side and a market.\<close>

lemma evaluateRules_distinct: "distinct (List.map match_key (evaluateRules input config))"
proof -
  let ?f = "\<lambda>t. List.map match_key (first_half_team input config t)"
  let ?s = "\<lambda>t. List.map match_key (second_half_team input config t)"
  have "distinct (?f (re_home input, True) @ ?f (re_away input, False)
      @ ?s (re_home input, True, b) @ ?s (re_away input, False, c))" for b c
    using first_half_team_keys [of input config "re_home input" True] first_half_team_keys [of input config "re_away input" False]
      second_half_team_keys [of input config "re_home input" True b] second_half_team_keys [of input config "re_away input" False c]
    by (elim disjE) (simp_all del: set_map)
  from this [of "fst (htBaselineFor input (config_signal config))" "snd (htBaselineFor input (config_signal config))"]
  show ?thesis by (auto simp: evaluateRules_def evaluateFirstHalf_def evaluateSecondHalf_def Let_def simp del: set_map)
qed

end
