(* ===== verification/Quotes.thy ===== *)
theory Quotes
  imports OperatorPort Values
begin

text \<open>
  Executable quotes (\<open>odds/executable-quote.service.ts\<close>, \<open>odds/odds.types.ts\<close>): the candidates loaded
  from the odds snapshots and the choice of the latest admissible one. The odd of a snapshot is a
  \<open>DECIMAL\<close> column, always a finite number.
\<close>

section \<open>Types\<close>

definition default_max_quote_age_ms :: int where "default_max_quote_age_ms = 120000"

record odds_snapshot =
  os_id :: string
  os_fixtureId :: string
  os_providerFixtureId :: string
  os_providerKey :: "string option"
  os_bookmakerKey :: "string option"
  os_marketKey :: "string option"
  os_selectionKey :: "string option"
  os_oddValue :: rat
  os_observedAt :: "int option"
  os_receivedAt :: "int option"
  os_available :: "bool option"

record executable_quote =
  eq_snapshotId :: string
  eq_providerKey :: string
  eq_fixtureId :: string
  eq_providerFixtureId :: string
  eq_bookmakerKey :: string
  eq_marketKey :: string
  eq_selectionKey :: string
  eq_oddValue :: rat
  eq_observedAt :: int
  eq_receivedAt :: int
  eq_available :: bool

record quote_lookup =
  ql_target :: quote_target
  ql_at :: int
  ql_maxQuoteAgeMs :: int

record candidates_query =
  cq_providerFixtureIds :: "string list"
  cq_receivedFrom :: int
  cq_receivedTo :: int

definition quoteTargetForRuleMarket :: "string \<Rightarrow> string \<Rightarrow> bool \<Rightarrow> quote_target option" where
  "quoteTargetForRuleMarket providerFixtureId marketType isHomeTeam =
     (let side = (if isHomeTeam then ''HOME'' else ''AWAY'');
          target = (\<lambda>market selection. Some \<lparr>qt_providerFixtureId = providerFixtureId, qt_marketKey = market,
                      qt_selectionKey = selection, qt_providerKey = None, qt_bookmakerKey = None\<rparr>)
      in if marketType = ''Buts 1ere mi-temps'' then target ''TEAM_GOAL_1H'' (side @ ''_YES'')
         else if marketType = ''Buts 2eme mi-temps'' then target ''TEAM_GOAL_2H'' (side @ ''_YES'')
         else if marketType = ''Buts match'' then target ''TEAM_GOALS_FT'' (side @ ''_OVER_0.5'')
         else None)"

section \<open>Loading candidates\<close>

text \<open>The conditions of the query that do not depend on its arguments; \<open>NULL\<close> satisfies none.\<close>

definition executable_row :: "odds_snapshot \<Rightarrow> bool" where
  "executable_row r =
     (os_providerKey r \<noteq> None \<and> os_bookmakerKey r \<noteq> None \<and> os_marketKey r \<noteq> None \<and> os_selectionKey r \<noteq> None
      \<and> os_available r = Some True \<and> os_oddValue r > 1
      \<and> (case (os_observedAt r, os_receivedAt r) of (Some t, Some u) \<Rightarrow> t \<le> u | _ \<Rightarrow> False))"

definition in_window :: "candidates_query \<Rightarrow> odds_snapshot \<Rightarrow> bool" where
  "in_window q r =
     (os_providerFixtureId r \<in> set (cq_providerFixtureIds q)
      \<and> (case os_receivedAt r of None \<Rightarrow> False | Some t \<Rightarrow> cq_receivedFrom q \<le> t \<and> t \<le> cq_receivedTo q))"

definition toExecutableQuote :: "odds_snapshot \<Rightarrow> executable_quote" where
  "toExecutableQuote r =
     \<lparr>eq_snapshotId = os_id r, eq_providerKey = the (os_providerKey r), eq_fixtureId = os_fixtureId r,
      eq_providerFixtureId = os_providerFixtureId r, eq_bookmakerKey = the (os_bookmakerKey r),
      eq_marketKey = the (os_marketKey r), eq_selectionKey = the (os_selectionKey r),
      eq_oddValue = os_oddValue r, eq_observedAt = the (os_observedAt r), eq_receivedAt = the (os_receivedAt r),
      eq_available = True\<rparr>"

definition loadCandidates :: "odds_snapshot list \<Rightarrow> candidates_query \<Rightarrow> executable_quote list" where
  "loadCandidates snapshots q =
     (if cq_providerFixtureIds q = [] then []
      else List.map toExecutableQuote
        (sort_key (\<lambda>r. (- the (os_observedAt r), - the (os_receivedAt r), os_id r))
           (filter (\<lambda>r. in_window q r \<and> executable_row r) snapshots)))"

section \<open>Choosing the latest\<close>

definition on_target :: "quote_target \<Rightarrow> executable_quote \<Rightarrow> bool" where
  "on_target target quote =
     (eq_providerFixtureId quote = qt_providerFixtureId target \<and> eq_marketKey quote = qt_marketKey target
      \<and> eq_selectionKey quote = qt_selectionKey target
      \<and> (case qt_providerKey target of None \<Rightarrow> True | Some k \<Rightarrow> eq_providerKey quote = k)
      \<and> (case qt_bookmakerKey target of None \<Rightarrow> True | Some k \<Rightarrow> eq_bookmakerKey quote = k))"

definition admissible :: "quote_lookup \<Rightarrow> executable_quote \<Rightarrow> bool" where
  "admissible lookup quote =
     (on_target (ql_target lookup) quote
      \<and> (let ageMs = ql_at lookup - eq_observedAt quote
         in eq_available quote \<and> eq_oddValue quote > 1 \<and> eq_observedAt quote \<le> eq_receivedAt quote
            \<and> eq_receivedAt quote \<le> ql_at lookup \<and> ageMs \<ge> 0 \<and> ageMs \<le> ql_maxQuoteAgeMs lookup))"

text \<open>The comparison function of the sort, as a key: the latest observation first.\<close>

definition quote_rank ::
  "executable_quote \<Rightarrow> int \<times> int \<times> (nat list \<times> bool list) \<times> (nat list \<times> bool list) \<times> (nat list \<times> bool list)" where
  "quote_rank q = (- eq_observedAt q, - eq_receivedAt q, locale_key (eq_providerKey q),
                   locale_key (eq_bookmakerKey q), locale_key (eq_snapshotId q))"

definition selectLatest :: "executable_quote list \<Rightarrow> quote_lookup \<Rightarrow> executable_quote option" where
  "selectLatest candidates lookup =
     (case sort_key quote_rank (filter (admissible lookup) candidates) of
        [] \<Rightarrow> None
      | q # _ \<Rightarrow> Some q)"

section \<open>What the choice guarantees\<close>

lemma selectLatest_None: "(selectLatest candidates lookup = None) = (\<forall>q \<in> set candidates. \<not> admissible lookup q)"
proof -
  have "(sort_key quote_rank (filter (admissible lookup) candidates) = [])
      = (set (sort_key quote_rank (filter (admissible lookup) candidates)) = {})" by (simp only: set_empty)
  then show ?thesis by (auto simp: selectLatest_def split: list.splits)
qed

lemma selectLatest_Some:
  assumes "selectLatest candidates lookup = Some q"
  shows "q \<in> set candidates" "admissible lookup q"
    "\<And>p. p \<in> set candidates \<Longrightarrow> admissible lookup p \<Longrightarrow> quote_rank q \<le> quote_rank p"
proof -
  obtain qs where qs: "sort_key quote_rank (filter (admissible lookup) candidates) = q # qs"
    using assms by (auto simp: selectLatest_def split: list.splits)
  have set: "set (q # qs) = {p \<in> set candidates. admissible lookup p}"
    unfolding qs [symmetric] by simp
  then show "q \<in> set candidates" "admissible lookup q" by auto
  have "sorted (List.map quote_rank (q # qs))" unfolding qs [symmetric] by simp
  then show "quote_rank q \<le> quote_rank p" if "p \<in> set candidates" "admissible lookup p" for p
    using set that by auto
qed

text \<open>The choice does not depend on the order of the candidates.\<close>

lemma selectLatest_perm:
  assumes "mset candidates = mset candidates'" and "inj_on eq_snapshotId (set candidates)"
  shows "selectLatest candidates lookup = selectLatest candidates' lookup"
proof -
  have "inj_on quote_rank (set candidates)"
    using assms(2) by (auto simp: inj_on_def quote_rank_def locale_key_inj)
  then have inj: "inj_on quote_rank (set (filter (admissible lookup) candidates))"
    by (rule inj_on_subset) auto
  have "sort_key quote_rank (filter (admissible lookup) candidates)
      = sort_key quote_rank (filter (admissible lookup) candidates')"
    by (rule sort_key_perm [OF _ inj]) (simp add: assms(1))
  then show ?thesis by (simp add: selectLatest_def)
qed

text \<open>
  Nothing is missed by loading only the window: for a lookup at \<open>at\<close> with a maximal age, the
  snapshots received from \<open>at - maxQuoteAgeMs\<close> to \<open>at\<close> for its fixture decide.
\<close>

definition all_candidates :: "odds_snapshot list \<Rightarrow> executable_quote list" where
  "all_candidates snapshots = List.map toExecutableQuote
     (sort_key (\<lambda>r. (- the (os_observedAt r), - the (os_receivedAt r), os_id r)) (filter executable_row snapshots))"

lemma admissible_in_window:
  assumes "admissible lookup (toExecutableQuote r)" and "executable_row r"
    and "qt_providerFixtureId (ql_target lookup) \<in> set (cq_providerFixtureIds q)"
    and "cq_receivedFrom q \<le> ql_at lookup - ql_maxQuoteAgeMs lookup" and "ql_at lookup \<le> cq_receivedTo q"
  shows "in_window q r"
  using assms
  by (auto simp: admissible_def on_target_def in_window_def executable_row_def toExecutableQuote_def Let_def
      split: option.splits)

lemma window_is_enough:
  assumes "qt_providerFixtureId (ql_target lookup) \<in> set (cq_providerFixtureIds q)"
    and "cq_receivedFrom q \<le> ql_at lookup - ql_maxQuoteAgeMs lookup" and "ql_at lookup \<le> cq_receivedTo q"
  shows "selectLatest (loadCandidates snapshots q) lookup = selectLatest (all_candidates snapshots) lookup"
proof -
  let ?k = "\<lambda>r. (- the (os_observedAt r), - the (os_receivedAt r), os_id r)"
  have nonempty: "cq_providerFixtureIds q \<noteq> []" using assms(1) by auto
  have "filter (\<lambda>r. admissible lookup (toExecutableQuote r)) (filter (\<lambda>r. in_window q r \<and> executable_row r) snapshots)
      = filter (\<lambda>r. admissible lookup (toExecutableQuote r)) (filter executable_row snapshots)"
    using admissible_in_window [OF _ _ assms] by (auto simp: filter_filter intro: filter_cong)
  then have "filter (admissible lookup) (loadCandidates snapshots q) = filter (admissible lookup) (all_candidates snapshots)"
    by (simp add: loadCandidates_def all_candidates_def nonempty filter_map comp_def filter_sort)
  then show ?thesis by (simp add: selectLatest_def)
qed

end
