(* ===== verification/Outcomes.thy ===== *)
theory Outcomes
  imports Rules
begin

text \<open>
  The outcome of a bet from the state of its match (\<open>recommendations/rules/outcome-resolver.ts\<close>, the
  halftime score of \<open>common/utils/stats.utils.ts\<close>, \<open>finalStateOf\<close> of the simulation).
\<close>

record resolvable_bet =
  rb_marketType :: string
  rb_isHomeTeam :: bool

record final_state =
  fs_statusShort :: string
  fs_scoreHome :: "int option"
  fs_scoreAway :: "int option"
  fs_htScoreHome :: "js_number option"
  fs_htScoreAway :: "js_number option"

definition post_ht_statuses :: "string list" where
  "post_ht_statuses = [''HT'', ''2H'', ''ET'', ''BT'', ''P'', ''FT'', ''AET'', ''PEN'', ''AWD'', ''WO'']"

definition finished_statuses :: "string list" where
  "finished_statuses = [''FT'', ''AET'', ''PEN'', ''AWD'', ''WO'']"

definition void_statuses :: "string list" where
  "void_statuses = [''CANC'', ''PST'', ''INT'', ''SUSP'', ''ABD'', ''TBD'', ''WO'']"

definition scored :: "int option \<Rightarrow> bool" where
  "scored score = (case score of None \<Rightarrow> False | Some n \<Rightarrow> n > 0)"

text \<open>\<open>currentScore - htScore > 0\<close>.\<close>

fun second_half_goal :: "int \<Rightarrow> js_number \<Rightarrow> bool" where
  "second_half_goal current (Num ht) = (of_int current - ht > 0)"
| "second_half_goal current NegInf = True"
| "second_half_goal current _ = False"

definition resolveOutcome :: "resolvable_bet \<Rightarrow> final_state \<Rightarrow> decision_outcome option" where
  "resolveOutcome bet state =
     (let status = fs_statusShort state;
          score = (if rb_isHomeTeam bet then fs_scoreHome state else fs_scoreAway state);
          htScore = (if rb_isHomeTeam bet then fs_htScoreHome state else fs_htScoreAway state)
      in if status \<in> set void_statuses then Some LOST
         else if rb_marketType bet = ''Buts 1ere mi-temps'' then
           (if status \<in> set first_half_statuses then (if scored score then Some WON else None)
            else if status \<in> set post_ht_statuses then
              (case htScore of None \<Rightarrow> None | Some n \<Rightarrow> Some (if js_positive n then WON else LOST))
            else None)
         else if rb_marketType bet = ''Buts match'' then
           (if scored score then Some WON
            else if status \<in> set finished_statuses then Some LOST else None)
         else if rb_marketType bet = ''Buts 2eme mi-temps'' then
           (if (case (score, htScore) of
                  (Some current, Some ht) \<Rightarrow> second_half_goal current ht
                | (Some current, None) \<Rightarrow> status \<in> set finished_statuses \<and> current > 0
                | _ \<Rightarrow> False)
            then Some WON
            else if status \<in> set finished_statuses then Some LOST else None)
         else None)"

text \<open>A match that was called off refunds the stake unless the outcome was already decided.\<close>

definition resolveSettlement :: "resolvable_bet \<Rightarrow> final_state \<Rightarrow> decision_outcome option" where
  "resolveSettlement bet state =
     (if fs_statusShort state \<in> set void_statuses
      then (case resolveOutcome bet (state\<lparr>fs_statusShort := ''2H''\<rparr>) of None \<Rightarrow> Some VOID | Some x \<Rightarrow> Some x)
      else resolveOutcome bet state)"

section \<open>The state of a fixture\<close>

record fixture =
  fx_id :: string
  fx_providerFixtureId :: string
  fx_leagueId :: "int option"
  fx_season :: "int option"
  fx_homeTeamId :: "int option"
  fx_awayTeamId :: "int option"
  fx_homeTeamName :: "string option"
  fx_awayTeamName :: "string option"
  fx_statusShort :: "string option"
  fx_scoreHome :: "int option"
  fx_scoreAway :: "int option"
  fx_elapsed :: "int option"
  fx_raw :: json
  fx_lastSyncedAt :: int

definition finite_or_infinite :: "json \<Rightarrow> js_number option" where
  "finite_or_infinite v = (if js_Number v = NaN then None else Some (js_Number v))"

definition extractHtScore :: "json \<Rightarrow> bool \<Rightarrow> js_number option" where
  "extractHtScore raw isHome =
     (let direct = json_get (if isHome then ''match_hometeam_halftime_score'' else ''match_awayteam_halftime_score'') raw;
          val = json_get (if isHome then ''home'' else ''away'') (json_get ''halftime'' (json_get ''score'' raw))
      in case (if direct \<noteq> JUndefined \<and> direct \<noteq> JStr [] then finite_or_infinite direct else None) of
           Some n \<Rightarrow> Some n
         | None \<Rightarrow> (if val \<noteq> JNull \<and> val \<noteq> JUndefined then finite_or_infinite val else None))"

definition finalStateOf :: "fixture \<Rightarrow> final_state" where
  "finalStateOf f =
     (let raw = (if fx_raw f = JNull then JObj [] else fx_raw f)
      in \<lparr>fs_statusShort = (case fx_statusShort f of None \<Rightarrow> [] | Some s \<Rightarrow> s),
          fs_scoreHome = fx_scoreHome f, fs_scoreAway = fx_scoreAway f,
          fs_htScoreHome = extractHtScore raw True, fs_htScoreAway = extractHtScore raw False\<rparr>)"

end
