(* ===== verification/Signals.thy ===== *)
theory Signals
  imports Rules Quotes Outcomes
begin

text \<open>
  The live signals (\<open>recommendations/smart-suggestions.service.ts\<close>): the fixtures of each half, the
  latest statistics of each team, the evaluation of the rules, the base rate shown as confidence,
  the quotes, and the coupons saved and resolved afterwards. The reasons shown to the user and the
  logs are left out. A query without an order returns the rows in the order of the table.
\<close>

section \<open>Tables\<close>

record stats_snapshot =
  sn_id :: string
  sn_fixtureId :: string
  sn_teamId :: "int option"
  sn_half :: "string option"
  sn_elapsed :: "int option"
  sn_stats :: json
  sn_snapshotAt :: int

record base_rate =
  br_leagueId :: int
  br_season :: int
  br_market :: string
  br_signal :: string
  br_threshold :: int
  br_sampleSize :: int
  br_observedRate :: rat

record live_data =
  ld_fixtures :: "fixture list"
  ld_stats :: "stats_snapshot list"
  ld_baseRates :: "base_rate list"

section \<open>Signals\<close>

record suggestion =
  ls_id :: string
  ls_fixtureId :: string
  ls_fixtureLabel :: string
  ls_marketType :: string
  ls_selection :: string
  ls_minAcceptableOdd :: rat
  ls_edgePct :: rat
  ls_confidenceScore :: "int option"
  ls_baseRateSampleSize :: "int option"
  ls_ruleName :: string
  ls_elapsed :: "int option"
  ls_shotsCount :: js_number
  ls_teamId :: "int option"
  ls_teamName :: string
  ls_isHomeTeam :: bool

record live_signal = suggestion +
  ls_providerFixtureId :: string
  ls_quoteTarget :: quote_target

record smart_suggestion = suggestion +
  ls_currentOdd :: rat

record snapshot_signals =
  ss_totalShots :: "js_number option"
  ss_shotsOnTarget :: js_number
  ss_pressureIndex :: js_number

definition snapshotSignals :: "json \<Rightarrow> snapshot_signals" where
  "snapshotSignals stats =
     \<lparr>ss_totalShots = extractTotalShots stats,
      ss_shotsOnTarget = getStatValue stats [''On Target'', ''Shots on Goal''],
      ss_pressureIndex = computePressureIndex stats\<rparr>"

section \<open>Base rates\<close>

definition market_base_rate :: "string \<Rightarrow> string option" where
  "market_base_rate m =
     (if m = ''Buts 1ere mi-temps'' then Some ''goal_1h'' else if m = ''Buts match'' then Some ''goal_ft''
      else if m = ''Buts 2eme mi-temps'' then Some ''goal_2h'' else None)"

definition signal_base_rate :: "signal_type \<Rightarrow> string" where
  "signal_base_rate s =
     (case s of TOTAL_SHOTS \<Rightarrow> ''total_shots'' | ON_TARGET \<Rightarrow> ''on_target'' | PRESSURE_INDEX \<Rightarrow> ''pressure_index'')"

definition baseRateKey :: "int \<Rightarrow> int \<Rightarrow> string \<Rightarrow> int \<Rightarrow> string" where
  "baseRateKey leagueId season market threshold =
     join_with ''|'' [show_int leagueId, show_int season, market, show_int threshold]"

text \<open>The map built from the rows, the last one of a key first.\<close>

type_synonym rate_lookup = "(string \<times> rat \<times> int) list"

definition buildLookup :: "base_rate list \<Rightarrow> (int \<times> int) list \<Rightarrow> string \<Rightarrow> rate_lookup" where
  "buildLookup rates pairs signal =
     rev (List.map (\<lambda>r. (baseRateKey (br_leagueId r) (br_season r) (br_market r) (br_threshold r),
                         (br_observedRate r, br_sampleSize r)))
       (filter (\<lambda>r. br_signal r = signal \<and> br_leagueId r \<in> set (List.map fst pairs)
                  \<and> br_season r \<in> set (List.map snd pairs)) rates))"

definition resolveBaseRate :: "fixture \<Rightarrow> string \<Rightarrow> int \<Rightarrow> rate_lookup \<Rightarrow> int option \<times> int option" where
  "resolveBaseRate f marketType signalThreshold lookup =
     (case (market_base_rate marketType, fx_leagueId f, fx_season f) of
        (Some market, Some leagueId, Some season) \<Rightarrow>
          (case map_of lookup (baseRateKey leagueId season market signalThreshold) of
             None \<Rightarrow> (None, None)
           | Some (rate, sample) \<Rightarrow> (Some (js_round (rate * 100)), Some sample))
      | _ \<Rightarrow> (None, None))"

section \<open>Statistics of a fixture\<close>

definition latest_first :: "stats_snapshot list \<Rightarrow> stats_snapshot list" where
  "latest_first rows = sort_key (\<lambda>s. - sn_snapshotAt s) rows"

text \<open>The first row of a team in the order given; team 0 counts as no team.\<close>

definition team_snapshot :: "stats_snapshot list \<Rightarrow> string \<Rightarrow> int \<Rightarrow> stats_snapshot option" where
  "team_snapshot rows fixtureId teamId =
     (if teamId = 0 then None
      else find_row (\<lambda>s. sn_fixtureId s = fixtureId \<and> sn_teamId s = Some teamId) rows)"

definition known_fixture :: "stats_snapshot list \<Rightarrow> string \<Rightarrow> bool" where
  "known_fixture rows fixtureId =
     list_ex (\<lambda>s. sn_fixtureId s = fixtureId \<and> sn_teamId s \<noteq> None \<and> sn_teamId s \<noteq> Some 0) rows"

definition buildHtBaseline :: "stats_snapshot list \<Rightarrow> fixture list \<Rightarrow> string \<Rightarrow> int \<Rightarrow> snapshot_signals option" where
  "buildHtBaseline stats fixtures fixtureId teamId =
     map_option (\<lambda>s. snapshotSignals (sn_stats s))
       (team_snapshot (latest_first (filter (\<lambda>s. sn_fixtureId s \<in> fx_id ` set fixtures
            \<and> (case sn_elapsed s of None \<Rightarrow> False | Some t \<Rightarrow> t \<le> 45)) stats)) fixtureId teamId)"

definition team_input :: "int \<Rightarrow> string option \<Rightarrow> stats_snapshot option \<Rightarrow> team_signals" where
  "team_input teamId name snap =
     \<lparr>ti_teamId = teamId, ti_teamName = default_to ''Equipe'' name,
      ti_totalShots = (case snap of None \<Rightarrow> None | Some s \<Rightarrow> ss_totalShots (snapshotSignals (sn_stats s))),
      ti_shotsOnTarget = map_option (\<lambda>s. ss_shotsOnTarget (snapshotSignals (sn_stats s))) snap,
      ti_pressureIndex = map_option (\<lambda>s. ss_pressureIndex (snapshotSignals (sn_stats s))) snap\<rparr>"

type_synonym ht_baseline = "string \<Rightarrow> int \<Rightarrow> snapshot_signals option"

definition baseline_pair :: "(snapshot_signals \<Rightarrow> js_number) \<Rightarrow> ht_baseline \<Rightarrow> string \<Rightarrow> int \<Rightarrow> int \<Rightarrow> both_sides" where
  "baseline_pair value b fixtureId homeId awayId =
     (let at_team = (\<lambda>t. case b fixtureId t of None \<Rightarrow> Num 0 | Some s \<Rightarrow> value s)
      in (at_team homeId, at_team awayId))"

definition fixture_input ::
  "stats_snapshot list \<Rightarrow> ht_baseline option \<Rightarrow> fixture \<Rightarrow> int \<Rightarrow> int \<Rightarrow> rule_input" where
  "fixture_input rows htBaseline f homeId awayId =
     (let pair = (\<lambda>value. map_option (\<lambda>b. baseline_pair value b (fx_id f) homeId awayId) htBaseline)
      in \<lparr>re_elapsed = default_to 0 (fx_elapsed f), re_statusShort = default_to [] (fx_statusShort f),
          re_home = team_input homeId (fx_homeTeamName f) (team_snapshot rows (fx_id f) homeId),
          re_away = team_input awayId (fx_awayTeamName f) (team_snapshot rows (fx_id f) awayId),
          re_htShots = pair (\<lambda>s. default_to (Num 0) (ss_totalShots s)),
          re_htOnTarget = pair ss_shotsOnTarget, re_htPressure = pair ss_pressureIndex,
          re_scoreHome = fx_scoreHome f, re_scoreAway = fx_scoreAway f\<rparr>)"

section \<open>Evaluation\<close>

definition signal_of :: "string \<Rightarrow> rate_lookup \<Rightarrow> fixture \<Rightarrow> nat \<times> rule_match \<Rightarrow> live_signal option" where
  "signal_of halfSuffix lookup f im =
     (let (i, m) = im in
      case quoteTargetForRuleMarket (fx_providerFixtureId f) (rm_marketType m) (rm_isHomeTeam m) of
        None \<Rightarrow> None
      | Some target \<Rightarrow>
          (let (confidence, sample) = resolveBaseRate f (rm_marketType m) (rm_signalThreshold m) lookup
           in Some \<lparr>ls_id = join_with ''-'' [''smart'', halfSuffix, fx_id f, show_int (rm_teamId m), if i = 0 then ''a'' else ''b''],
                    ls_fixtureId = fx_id f,
                    ls_fixtureLabel = default_to ''?'' (fx_homeTeamName f) @ '' vs '' @ default_to ''?'' (fx_awayTeamName f),
                    ls_marketType = rm_marketType m, ls_selection = rm_selection m,
                    ls_minAcceptableOdd = rm_minAcceptableOdd m, ls_edgePct = rm_edgePct m,
                    ls_confidenceScore = confidence, ls_baseRateSampleSize = sample, ls_ruleName = rm_ruleName m,
                    ls_elapsed = Some (rm_elapsed m), ls_shotsCount = rm_shotsCount m, ls_teamId = Some (rm_teamId m),
                    ls_teamName = rm_teamName m, ls_isHomeTeam = rm_isHomeTeam m,
                    ls_providerFixtureId = fx_providerFixtureId f, ls_quoteTarget = target\<rparr>))"

text \<open>The matches grouped by team, in the order of the first match of each, with their position.\<close>

definition by_team :: "rule_match list \<Rightarrow> (nat \<times> rule_match) list" where
  "by_team matches =
     concat (List.map (\<lambda>t. let ms = filter (\<lambda>m. rm_teamId m = t) matches in zip [0..<length ms] ms)
       (uniq (List.map rm_teamId matches)))"

definition fixture_signals ::
  "stats_snapshot list \<Rightarrow> smart_rules_config \<Rightarrow> string \<Rightarrow> ht_baseline option \<Rightarrow> rate_lookup \<Rightarrow> fixture \<Rightarrow> live_signal list" where
  "fixture_signals rows config halfSuffix htBaseline lookup f =
     (if \<not> known_fixture rows (fx_id f) then []
      else case fx_homeTeamId f of None \<Rightarrow> []
      | Some homeId \<Rightarrow>
          (case fx_awayTeamId f of None \<Rightarrow> []
           | Some awayId \<Rightarrow>
               List.map_filter (signal_of halfSuffix lookup f)
                 (by_team (evaluateRules (fixture_input rows htBaseline f homeId awayId) config))))"

definition evaluateFixturesWithRules ::
  "live_data \<Rightarrow> fixture list \<Rightarrow> smart_rules_config \<Rightarrow> string \<Rightarrow> ht_baseline option \<Rightarrow> live_signal list" where
  "evaluateFixturesWithRules ld fixtures config halfSuffix htBaseline =
     (let rows = latest_first (filter (\<lambda>s. sn_fixtureId s \<in> fx_id ` set fixtures) (ld_stats ld));
          pairs = List.map_filter (\<lambda>f. case (fx_leagueId f, fx_season f) of (Some l, Some s) \<Rightarrow> Some (l, s) | _ \<Rightarrow> None) fixtures;
          lookup = buildLookup (ld_baseRates ld) pairs (signal_base_rate (config_signal config))
      in concat (List.map (fixture_signals rows config halfSuffix htBaseline lookup) fixtures))"

definition live_fixtures :: "string list \<Rightarrow> (int \<Rightarrow> bool) \<Rightarrow> int \<Rightarrow> fixture list \<Rightarrow> fixture list" where
  "live_fixtures statuses in_period clock fixtures =
     filter (\<lambda>f. (case fx_statusShort f of None \<Rightarrow> False | Some s \<Rightarrow> s \<in> set statuses)
               \<and> (case fx_elapsed f of None \<Rightarrow> False | Some t \<Rightarrow> in_period t)
               \<and> fx_lastSyncedAt f \<ge> clock - 120000) fixtures"

definition getFirstHalfSuggestions :: "live_data \<Rightarrow> int \<Rightarrow> smart_rules_config \<Rightarrow> live_signal list" where
  "getFirstHalfSuggestions ld clock config =
     evaluateFixturesWithRules ld
       (live_fixtures first_half_statuses
          (\<lambda>t. t \<ge> 1 \<and> before_window t (max_window (cfg_firstHalfRules config))) clock (ld_fixtures ld))
       config ''fh'' None"

definition getSecondHalfSuggestions :: "live_data \<Rightarrow> int \<Rightarrow> smart_rules_config \<Rightarrow> live_signal list" where
  "getSecondHalfSuggestions ld clock config =
     (let fixtures = live_fixtures second_half_statuses
            (\<lambda>t. t \<ge> 45 \<and> t < hr_maxElapsed (cfg_secondHalfRule config)) clock (ld_fixtures ld)
      in evaluateFixturesWithRules ld fixtures config ''sh'' (Some (buildHtBaseline (ld_stats ld) fixtures)))"

definition evaluateLiveSignals :: "live_data \<Rightarrow> int \<Rightarrow> smart_rules_config \<Rightarrow> live_signal list" where
  "evaluateLiveSignals ld clock config =
     getFirstHalfSuggestions ld clock config @ getSecondHalfSuggestions ld clock config"

section \<open>Quotes\<close>

definition priced :: "live_signal \<Rightarrow> rat \<Rightarrow> smart_suggestion" where
  "priced s price = suggestion.extend (suggestion.truncate s) (smart_suggestion.fields price)"

definition attachExecutableQuotes :: "odds_snapshot list \<Rightarrow> int \<Rightarrow> live_signal list \<Rightarrow> smart_suggestion list" where
  "attachExecutableQuotes snapshots now suggestions =
     (let candidates = loadCandidates snapshots
            \<lparr>cq_providerFixtureIds = uniq (List.map ls_providerFixtureId suggestions),
             cq_receivedFrom = now - default_max_quote_age_ms, cq_receivedTo = now\<rparr>
      in List.map_filter (\<lambda>s.
           case selectLatest candidates \<lparr>ql_target = ls_quoteTarget s, ql_at = now,
                                         ql_maxQuoteAgeMs = default_max_quote_age_ms\<rparr> of
             None \<Rightarrow> None
           | Some q \<Rightarrow> if eq_oddValue q < ls_minAcceptableOdd s then None else Some (priced s (eq_oddValue q)))
         suggestions)"

end
