(* ===== verification/Simulation.thy ===== *)
theory Simulation
  imports Orders Signals
begin

text \<open>
  The continuous simulation (\<open>simulation/simulation.service.ts\<close>): a run freezes a strategy and a
  risk policy; each tick executes the virtual orders whose latency has elapsed, settles those
  whose match is resolved, and decides the new signals within the virtual bankroll. The
  live data, the odds snapshots and the fixtures, which other services write, are arguments.
\<close>

section \<open>Keys and arithmetic\<close>

definition no_result_after_ms :: int where "no_result_after_ms = 24 * 60 * 60 * 1000"

type_synonym quote_selector = "quote_target \<Rightarrow> int \<Rightarrow> executable_quote option"

definition signalKeyOf :: "(string \<Rightarrow> string) \<Rightarrow> string \<Rightarrow> live_signal \<Rightarrow> string" where
  "signalKeyOf sha runId s =
     sha (join_with ''|'' [runId, ls_fixtureId s, (case ls_teamId s of None \<Rightarrow> [] | Some t \<Rightarrow> show_int t),
                           ls_marketType s])"

definition decisionKeyOf :: "(string \<Rightarrow> string) \<Rightarrow> string \<Rightarrow> string \<Rightarrow> string \<Rightarrow> string" where
  "decisionKeyOf sha runId signalKey kind = sha (join_with ''|'' [runId, signalKey, kind])"

definition round_to :: "nat \<Rightarrow> rat \<Rightarrow> rat" where
  "round_to decimals x = of_int (js_round (x * 10 ^ decimals)) / 10 ^ decimals"

record bankroll_state =
  bk_initialCents :: int
  bk_realizedProfitCents :: int
  bk_openExposureCents :: int
  bk_availableCents :: int

definition bankroll_state_of :: "int \<Rightarrow> int \<Rightarrow> int \<Rightarrow> bankroll_state" where
  "bankroll_state_of initial realized opened =
     \<lparr>bk_initialCents = initial, bk_realizedProfitCents = realized, bk_openExposureCents = opened,
      bk_availableCents = initial + realized - opened\<rparr>"

text \<open>The loop of \<open>bankrollFromJournal\<close> over the rows of the journal.\<close>

fun journal_totals :: "bet_decision list \<Rightarrow> int \<Rightarrow> int \<Rightarrow> (int \<times> int) res" where
  "journal_totals [] realized opened = Inr (realized, opened)"
| "journal_totals (r # rs) realized opened =
     bindE (case (dec_status r, dec_profit r) of (Dec_COMPLETED, Some p) \<Rightarrow> toCents p | _ \<Rightarrow> Inr 0) (\<lambda>p.
     bindE (case (dec_status r, dec_stake r) of (Dec_ORDER_RESERVED, Some s) \<Rightarrow> toCents s | _ \<Rightarrow> Inr 0) (\<lambda>s.
       journal_totals rs (realized + p) (opened + s)))"

definition bankrollFromJournal :: "string \<Rightarrow> bet_decision list \<Rightarrow> bankroll_state res" where
  "bankrollFromJournal initialBankroll rows =
     bindE (toCents initialBankroll) (\<lambda>initial.
     bindE (journal_totals rows 0 0) (\<lambda>(realized, opened). Inr (bankroll_state_of initial realized opened)))"

definition requestedStakeCents :: "backtest_strategy \<Rightarrow> int \<Rightarrow> int" where
  "requestedStakeCents strategy available =
     (if bs_stakingType strategy = PERCENT_BANKROLL
      then available * js_round (bs_stakingAmount strategy * 100) div 10000
      else js_round (bs_stakingAmount strategy * 100))"

section \<open>Deciding new signals\<close>

record simulation_context =
  sc_runId :: string
  sc_currency :: string
  sc_strategy :: backtest_strategy
  sc_risk :: risk_snapshot

definition quoteFields :: "executable_quote \<Rightarrow> bet_decision \<Rightarrow> bet_decision" where
  "quoteFields q r = r\<lparr>dec_decisionOddsSnapshotId := Some (eq_snapshotId q), dec_decisionOdd := Some (eq_oddValue q),
     dec_decisionProviderKey := Some (eq_providerKey q), dec_decisionBookmakerKey := Some (eq_bookmakerKey q),
     dec_decisionObservedAt := Some (eq_observedAt q), dec_decisionReceivedAt := Some (eq_receivedAt q)\<rparr>"

definition base_decision :: "simulation_context \<Rightarrow> live_signal \<Rightarrow> string \<Rightarrow> int \<Rightarrow> bet_decision" where
  "base_decision c s key now =
     \<lparr>dec_id = [], dec_simulationRunId = sc_runId c, dec_signalKey = key, dec_idempotencyKey = [],
      dec_fixtureId = ls_fixtureId s, dec_providerFixtureId = ls_providerFixtureId s, dec_teamId = ls_teamId s,
      dec_isHomeTeam = ls_isHomeTeam s, dec_marketType = ls_marketType s,
      dec_marketKey = qt_marketKey (ls_quoteTarget s), dec_selectionKey = qt_selectionKey (ls_quoteTarget s),
      dec_selection = ls_selection s, dec_ruleName = ls_ruleName s, dec_elapsedAtDecision = ls_elapsed s,
      dec_minAcceptableOdd = ls_minAcceptableOdd s, dec_status = Dec_REJECTED, dec_rejectionCode = None,
      dec_decidedAt = now, dec_currency = sc_currency c, dec_stake = None, dec_decisionOddsSnapshotId = None,
      dec_decisionOdd = None, dec_decisionProviderKey = None, dec_decisionBookmakerKey = None,
      dec_decisionObservedAt = None, dec_decisionReceivedAt = None, dec_executionDueAt = None,
      dec_executableOddsSnapshotId = None, dec_executableOdd = None, dec_executableObservedAt = None,
      dec_executableReceivedAt = None, dec_slippagePct = None, dec_executedAt = None, dec_outcome = None,
      dec_profit = None, dec_settledAt = None\<rparr>"

text \<open>The signals the strategy retains, each with its key, in the order of their keys.\<close>

definition eligible_signals ::
  "(string \<Rightarrow> string) \<Rightarrow> simulation_context \<Rightarrow> live_signal list \<Rightarrow> (live_signal \<times> string) list" where
  "eligible_signals sha c signals =
     (let b = sc_strategy c in
      sort_key (\<lambda>(s, key). locale_key key)
        (List.map (\<lambda>s. (s, signalKeyOf sha (sc_runId c) s))
          (filter (\<lambda>s. ls_marketType s \<in> set (bs_markets b) \<and> ls_edgePct s \<ge> bs_minEdgePct b
             \<and> (bs_minConfidence b \<le> 0
                \<or> (case ls_confidenceScore s of None \<Rightarrow> False | Some v \<Rightarrow> of_int v \<ge> bs_minConfidence b))) signals)))"

fun rejection_name :: "rejection_code \<Rightarrow> string" where
  "rejection_name NO_EXECUTABLE_ODD = ''NO_EXECUTABLE_ODD''"
| "rejection_name BELOW_MIN_ODD = ''BELOW_MIN_ODD''"
| "rejection_name ODD_MOVED = ''ODD_MOVED''"
| "rejection_name LIMIT_EXCEEDED = ''LIMIT_EXCEEDED''"
| "rejection_name STALE_ODD = ''STALE_ODD''"
| "rejection_name SUSPENDED_MARKET = ''SUSPENDED_MARKET''"
| "rejection_name CONTROL_DISABLED = ''CONTROL_DISABLED''"
| "rejection_name RISK_CHECK_FAILED = ''RISK_CHECK_FAILED''"
| "rejection_name OPERATOR_UNAVAILABLE = ''OPERATOR_UNAVAILABLE''"

text \<open>What the loop accumulates: the signals decided, the known keys, the rows, the bankroll.\<close>

record plan_state =
  pl_decided :: "string list"
  pl_known :: "string list"
  pl_rows :: "bet_decision list"
  pl_bankroll :: bankroll_state

definition reject_signal ::
  "(string \<Rightarrow> string) \<Rightarrow> string \<Rightarrow> string \<Rightarrow> rejection_code \<Rightarrow> bet_decision \<Rightarrow> plan_state \<Rightarrow> plan_state" where
  "reject_signal sha runId key code row st =
     (let idempotencyKey = decisionKeyOf sha runId key (''REJECTED:'' @ rejection_name code) in
      if idempotencyKey \<in> set (pl_known st) then st
      else st\<lparr>pl_known := idempotencyKey # pl_known st,
              pl_rows := pl_rows st @ [row\<lparr>dec_idempotencyKey := idempotencyKey, dec_status := Dec_REJECTED,
                                           dec_rejectionCode := Some code\<rparr>]\<rparr>)"

definition quote_target_of :: "simulation_context \<Rightarrow> live_signal \<Rightarrow> quote_target" where
  "quote_target_of c s =
     (case rk_bookmakerKey (sc_risk c) of
        Some k \<Rightarrow> if k = [] then ls_quoteTarget s else (ls_quoteTarget s)\<lparr>qt_bookmakerKey := Some k\<rparr>
      | None \<Rightarrow> ls_quoteTarget s)"

text \<open>\<open>None\<close> is the \<open>Infinity\<close> of an absent limit.\<close>

definition optional_cents :: "string option \<Rightarrow> int option res" where
  "optional_cents x = (case x of None \<Rightarrow> Inr None | Some t \<Rightarrow> bindE (toCents t) (\<lambda>c. Inr (Some c)))"

definition capped :: "int \<Rightarrow> int option \<Rightarrow> int" where
  "capped x limit = (case limit of None \<Rightarrow> x | Some l \<Rightarrow> min x l)"

definition plan_stake ::
  "backtest_strategy \<Rightarrow> int option \<Rightarrow> int option \<Rightarrow> bankroll_state \<Rightarrow> int" where
  "plan_stake strategy maxStake maxExposure b =
     capped (capped (min (requestedStakeCents strategy (bk_availableCents b)) (bk_availableCents b)) maxStake)
       (map_option (\<lambda>m. m - bk_openExposureCents b) maxExposure)"

definition reserve_signal ::
  "(string \<Rightarrow> string) \<Rightarrow> simulation_context \<Rightarrow> string \<Rightarrow> nat \<Rightarrow> int \<Rightarrow> bet_decision \<Rightarrow> int \<Rightarrow> plan_state \<Rightarrow> plan_state res" where
  "reserve_signal sha c key attempt amount row now st =
     bindE (fromCents amount) (\<lambda>stake.
       Inr (st\<lparr>pl_bankroll := (pl_bankroll st)\<lparr>
                 bk_availableCents := bk_availableCents (pl_bankroll st) - amount,
                 bk_openExposureCents := bk_openExposureCents (pl_bankroll st) + amount\<rparr>,
               pl_rows := pl_rows st @ [row\<lparr>
                 dec_idempotencyKey := decisionKeyOf sha (sc_runId c) key (''ORDER:'' @ show_nat attempt),
                 dec_status := Dec_ORDER_RESERVED, dec_stake := Some stake,
                 dec_executionDueAt := Some (now + rk_executionLatencyMs (sc_risk c))\<rparr>]\<rparr>))"

definition plan_signal ::
  "(string \<Rightarrow> string) \<Rightarrow> simulation_context \<Rightarrow> bet_decision list \<Rightarrow> int option \<Rightarrow> int option \<Rightarrow> quote_selector \<Rightarrow> int
     \<Rightarrow> live_signal \<times> string \<Rightarrow> plan_state \<Rightarrow> plan_state res" where
  "plan_signal sha c existing maxStake maxExposure selectQuote now sk st0 =
     (let (s, key) = sk in
      if key \<in> set (pl_decided st0) then Inr st0
      else
        let st = st0\<lparr>pl_decided := key # pl_decided st0\<rparr>;
            history = filter (\<lambda>r. dec_signalKey r = key) existing;
            base = base_decision c s key now
        in if list_ex (\<lambda>r. dec_status r = Dec_ORDER_RESERVED \<or> dec_status r = Dec_COMPLETED) history then Inr st
           else case selectQuote (quote_target_of c s) now of
             None \<Rightarrow> Inr (reject_signal sha (sc_runId c) key NO_EXECUTABLE_ODD base st)
           | Some q \<Rightarrow>
               if eq_oddValue q < ls_minAcceptableOdd s
               then Inr (reject_signal sha (sc_runId c) key BELOW_MIN_ODD (quoteFields q base) st)
               else
                 let amount = plan_stake (sc_strategy c) maxStake maxExposure (pl_bankroll st)
                 in if \<not> amount > 0
                    then Inr (reject_signal sha (sc_runId c) key LIMIT_EXCEEDED (quoteFields q base) st)
                    else reserve_signal sha c key (length (filter (\<lambda>r. dec_stake r \<noteq> None) history)) amount
                           (quoteFields q base) now st)"

fun plan_signals ::
  "(live_signal \<times> string \<Rightarrow> plan_state \<Rightarrow> plan_state res) \<Rightarrow> (live_signal \<times> string) list \<Rightarrow> plan_state \<Rightarrow> plan_state res" where
  "plan_signals f [] st = Inr st"
| "plan_signals f (x # xs) st = bindE (f x st) (plan_signals f xs)"

definition planNewDecisions ::
  "(string \<Rightarrow> string) \<Rightarrow> live_signal list \<Rightarrow> simulation_context \<Rightarrow> bet_decision list \<Rightarrow> bankroll_state \<Rightarrow> quote_selector
     \<Rightarrow> int \<Rightarrow> bet_decision list res" where
  "planNewDecisions sha signals c existing bankroll selectQuote now =
     bindE (optional_cents (rk_maxStakePerBet (sc_risk c))) (\<lambda>maxStake.
     bindE (optional_cents (rk_maxOpenExposure (sc_risk c))) (\<lambda>maxExposure.
     bindE (plan_signals (plan_signal sha c existing maxStake maxExposure selectQuote now)
              (eligible_signals sha c signals)
              \<lparr>pl_decided = [], pl_known = List.map dec_idempotencyKey existing, pl_rows = [], pl_bankroll = bankroll\<rparr>)
       (\<lambda>st. Inr (pl_rows st))))"

section \<open>Executing and settling\<close>

text \<open>
  \<open>planExecution\<close> and \<open>planSettlement\<close> give the row with their partial update applied, or \<open>None\<close> for
  no change.
\<close>

definition execution_target :: "bet_decision \<Rightarrow> quote_target" where
  "execution_target r =
     \<lparr>qt_providerFixtureId = dec_providerFixtureId r, qt_marketKey = dec_marketKey r,
      qt_selectionKey = dec_selectionKey r, qt_providerKey = dec_decisionProviderKey r,
      qt_bookmakerKey = dec_decisionBookmakerKey r\<rparr>"

definition planExecution :: "bet_decision \<Rightarrow> quote_selector \<Rightarrow> int \<Rightarrow> bet_decision option" where
  "planExecution row selectQuote now =
     (case dec_executionDueAt row of
        None \<Rightarrow> None
      | Some due \<Rightarrow>
          if dec_status row \<noteq> Dec_ORDER_RESERVED \<or> dec_executableOdd row \<noteq> None \<or> due > now then None
          else case selectQuote (execution_target row) due of
            None \<Rightarrow> Some (row\<lparr>dec_status := Dec_REJECTED, dec_rejectionCode := Some NO_EXECUTABLE_ODD,
                             dec_executedAt := Some now\<rparr>)
          | Some q \<Rightarrow>
              let executed = row\<lparr>dec_executableOddsSnapshotId := Some (eq_snapshotId q),
                    dec_executableOdd := Some (eq_oddValue q), dec_executableObservedAt := Some (eq_observedAt q),
                    dec_executableReceivedAt := Some (eq_receivedAt q),
                    dec_slippagePct := map_option (\<lambda>x. round_to 4 ((eq_oddValue q - x) / x * 100)) (dec_decisionOdd row),
                    dec_executedAt := Some now\<rparr>
              in if eq_oddValue q < dec_minAcceptableOdd row
                 then Some (executed\<lparr>dec_status := Dec_REJECTED, dec_rejectionCode := Some ODD_MOVED\<rparr>)
                 else Some executed)"

definition settlement_outcome :: "bet_decision \<Rightarrow> fixture option \<Rightarrow> int \<Rightarrow> decision_outcome option" where
  "settlement_outcome row fixture now =
     (let resolved = (case fixture of None \<Rightarrow> None
            | Some f \<Rightarrow> resolveSettlement
                \<lparr>rb_marketType = dec_marketType row, rb_isHomeTeam = dec_isHomeTeam row\<rparr> (finalStateOf f))
      in if resolved = None \<and> now - dec_decidedAt row \<ge> no_result_after_ms then Some NO_RESULT else resolved)"

definition profit_cents :: "decision_outcome \<Rightarrow> int \<Rightarrow> rat \<Rightarrow> int" where
  "profit_cents outcome amount price =
     (if outcome = WON then winningProfitCents amount price else if outcome = LOST then - amount else 0)"

definition planSettlement :: "bet_decision \<Rightarrow> fixture option \<Rightarrow> int \<Rightarrow> bet_decision option res" where
  "planSettlement row fixture now =
     (case (dec_executableOdd row, dec_stake row) of
        (Some price, Some stake) \<Rightarrow>
          if dec_status row \<noteq> Dec_ORDER_RESERVED then Inr None
          else (case settlement_outcome row fixture now of
                  None \<Rightarrow> Inr None
                | Some outcome \<Rightarrow>
                    bindE (toCents stake) (\<lambda>amount.
                    bindE (fromCents (profit_cents outcome amount price)) (\<lambda>profit.
                      Inr (Some (row\<lparr>dec_status := Dec_COMPLETED, dec_outcome := Some outcome,
                                      dec_profit := Some profit, dec_settledAt := Some now\<rparr>)))))
      | _ \<Rightarrow> Inr None)"

section \<open>Runs\<close>

text \<open>
  \<open>start\<close>: the configuration's hash and the fresh identifier are arguments; the insertion is an
  \<open>INSERT IGNORE\<close>, the row is then read back by its key and compared by hash.
\<close>

record start_input =
  si_idempotencyKey :: string
  si_name :: string
  si_strategyVersion :: string
  si_strategy :: backtest_strategy
  si_currency :: string
  si_initialBankroll :: string
  si_maxQuoteAgeMs :: int
  si_executionLatencyMs :: int
  si_bookmakerKey :: "string option"
  si_maxStakePerBet :: "string option"
  si_maxOpenExposure :: "string option"

record run_config =
  cf_name :: string
  cf_strategyVersion :: string
  cf_strategy :: backtest_strategy
  cf_risk :: risk_snapshot
  cf_currency :: string
  cf_initialBankroll :: string

definition normal_amount :: "string \<Rightarrow> string res" where
  "normal_amount t = bindE (toCents t) fromCents"

definition normal_optional :: "string option \<Rightarrow> string option res" where
  "normal_optional x = (case x of None \<Rightarrow> Inr None | Some t \<Rightarrow> bindE (normal_amount t) (\<lambda>u. Inr (Some u)))"

definition start_config :: "start_input \<Rightarrow> run_config res" where
  "start_config input =
     bindE (normal_optional (si_maxStakePerBet input)) (\<lambda>maxStake.
     bindE (normal_optional (si_maxOpenExposure input)) (\<lambda>maxExposure.
     bindE (normal_amount (si_initialBankroll input)) (\<lambda>initial.
       Inr \<lparr>cf_name = si_name input, cf_strategyVersion = si_strategyVersion input,
            cf_strategy = (si_strategy input)\<lparr>bs_version := si_strategyVersion input\<rparr>,
            cf_risk = \<lparr>rk_maxQuoteAgeMs = si_maxQuoteAgeMs input, rk_executionLatencyMs = si_executionLatencyMs input,
                      rk_bookmakerKey = si_bookmakerKey input, rk_maxStakePerBet = maxStake,
                      rk_maxOpenExposure = maxExposure\<rparr>,
            cf_currency = si_currency input, cf_initialBankroll = initial\<rparr>)))"

definition new_simulation_run :: "env \<Rightarrow> string \<Rightarrow> string option \<Rightarrow> string \<Rightarrow> string \<Rightarrow> run_config \<Rightarrow> simulation_run" where
  "new_simulation_run e newId requestedBy key hash c =
     \<lparr>run_id = newId, run_idempotencyKey = key, run_name = cf_name c, run_strategyVersion = cf_strategyVersion c,
      run_strategySnapshot = cf_strategy c, run_riskSnapshot = cf_risk c, run_configHash = hash,
      run_currency = cf_currency c, run_initialBankroll = cf_initialBankroll c, run_status = Run_RUNNING,
      run_requestedByUserId = requestedBy, run_startedAt = env_now e, run_stoppedAt = None, run_lastTickAt = None,
      run_createdAt = env_dbNow e\<rparr>"

definition insert_ignore_simulation :: "simulation_run \<Rightarrow> db \<Rightarrow> db" where
  "insert_ignore_simulation r d =
     (if find_row (\<lambda>x. run_id x = run_id r \<or> run_idempotencyKey x = run_idempotencyKey r) (runs d) = None
         \<and> cents_of (run_initialBankroll r) > 0
      then d\<lparr>runs := runs d @ [r]\<rparr> else d)"

definition start_simulation ::
  "(run_config \<Rightarrow> string) \<Rightarrow> env \<Rightarrow> string \<Rightarrow> start_input \<Rightarrow> string option \<Rightarrow> simulation_run act" where
  "start_simulation hashOf e newId input requestedBy d =
     (case start_config input of
        Inl err \<Rightarrow> (Inl err, d)
      | Inr c \<Rightarrow>
          (let d' = insert_ignore_simulation
                 (new_simulation_run e newId requestedBy (si_idempotencyKey input) (hashOf c) c) d
           in (bindE (of_option (EntityNotFoundError ''SimulationRun'')
                       (find_row (\<lambda>r. run_idempotencyKey r = si_idempotencyKey input) (runs d'))) (\<lambda>r.
                 if run_configHash r \<noteq> hashOf c
                 then Inl (ConflictException ''Cette cle d'idempotence a deja servi a demarrer un run different'')
                 else Inr r), d')))"

definition update_run_row :: "string \<Rightarrow> (simulation_run \<Rightarrow> simulation_run) \<Rightarrow> db \<Rightarrow> db" where
  "update_run_row i f d = d\<lparr>runs := update_rows (\<lambda>r. run_id r = i) f (runs d)\<rparr>"

definition get_simulation_run :: "string \<Rightarrow> db \<Rightarrow> simulation_run res" where
  "get_simulation_run i d =
     of_option (NotFoundException (''Simulation '' @ i @ '' introuvable'')) (find_row (\<lambda>r. run_id r = i) (runs d))"

definition stop_body :: "env \<Rightarrow> string \<Rightarrow> simulation_run tx" where
  "stop_body e i d =
     bindE (get_simulation_run i d) (\<lambda>r.
       if run_status r = Run_RUNNING
       then let r' = r\<lparr>run_status := Run_STOPPED, run_stoppedAt := Some (env_now e)\<rparr>
            in Inr (r', update_run_row i (\<lambda>x. x\<lparr>run_status := Run_STOPPED, run_stoppedAt := Some (env_now e)\<rparr>) d)
       else Inr (r, d))"

definition stop_simulation :: "env \<Rightarrow> string \<Rightarrow> simulation_run act" where
  "stop_simulation e i = commit (stop_body e i)"

definition activeRunIds :: "db \<Rightarrow> string list" where
  "activeRunIds d =
     sort_key (\<lambda>i. i) (List.map run_id (filter (\<lambda>r. run_status r = Run_RUNNING
        \<or> list_ex (\<lambda>x. dec_simulationRunId x = run_id r \<and> dec_status x = Dec_ORDER_RESERVED) (decisions d)) (runs d)))"

definition listRuns :: "int \<Rightarrow> db \<Rightarrow> simulation_run list" where
  "listRuns limit d = take (nat (min (max limit 1) 100)) (sort_key (\<lambda>r. - run_createdAt r) (runs d))"

section \<open>A tick\<close>

text \<open>The rows as the \<open>DECIMAL\<close> columns keep them.\<close>

definition stored_decision :: "bet_decision \<Rightarrow> bet_decision" where
  "stored_decision r = r\<lparr>dec_minAcceptableOdd := store_odd (dec_minAcceptableOdd r),
     dec_decisionOdd := map_option store_odd (dec_decisionOdd r),
     dec_executableOdd := map_option store_odd (dec_executableOdd r)\<rparr>"

definition run_decisions :: "string \<Rightarrow> db \<Rightarrow> bet_decision list" where
  "run_decisions i d = filter (\<lambda>r. dec_simulationRunId r = i) (decisions d)"

text \<open>\<open>bankrollOf\<close>: the sums computed by the database, rendered as decimal text and read back.\<close>

definition sum_cents :: "(bet_decision \<Rightarrow> string option) \<Rightarrow> decision_status \<Rightarrow> bet_decision list \<Rightarrow> int" where
  "sum_cents amount status rows =
     sum_list (List.map (\<lambda>r. case amount r of None \<Rightarrow> 0 | Some t \<Rightarrow> cents_of t) (filter (\<lambda>r. dec_status r = status) rows))"

definition bankrollOf :: "simulation_run \<Rightarrow> db \<Rightarrow> bankroll_state res" where
  "bankrollOf r d =
     bindE (toCents (run_initialBankroll r)) (\<lambda>initial.
     bindE (toCents (decimal_text (sum_cents dec_profit Dec_COMPLETED (run_decisions (run_id r) d)))) (\<lambda>realized.
     bindE (toCents (decimal_text (sum_cents dec_stake Dec_ORDER_RESERVED (run_decisions (run_id r) d)))) (\<lambda>opened.
       Inr (bankroll_state_of initial realized opened))))"

text \<open>
  The rows changed by a tick: the open rows in order, each with its execution, then its
  settlement. The list of a phase pairs each row with whether it has changed.
\<close>

definition executed_rows :: "quote_selector \<Rightarrow> int \<Rightarrow> bet_decision list \<Rightarrow> (bet_decision \<times> bool) list" where
  "executed_rows selectQuote now =
     List.map (\<lambda>r. case planExecution r selectQuote now of None \<Rightarrow> (r, False) | Some r' \<Rightarrow> (r', True))"

definition to_settle :: "bet_decision \<Rightarrow> bool" where
  "to_settle r = (dec_status r = Dec_ORDER_RESERVED \<and> dec_executableOdd r \<noteq> None)"

fun settled_rows ::
  "(string \<Rightarrow> fixture option) \<Rightarrow> int \<Rightarrow> (bet_decision \<times> bool) list \<Rightarrow> ((bet_decision \<times> bool) list \<times> nat) res" where
  "settled_rows fixtureById now [] = Inr ([], 0)"
| "settled_rows fixtureById now ((r, changed) # rs) =
     bindE (if to_settle r then planSettlement r (fixtureById (dec_fixtureId r)) now else Inr None) (\<lambda>s.
     bindE (settled_rows fixtureById now rs) (\<lambda>(rs', n).
       Inr (case s of None \<Rightarrow> ((r, changed) # rs', n) | Some r' \<Rightarrow> ((r', True) # rs', n + 1))))"

text \<open>
  \<open>upsert(changed, ['id'])\<close>: the rows were read in the same transaction, so each of them updates
  the row with its identifier.
\<close>

definition upsert_decisions :: "bet_decision list \<Rightarrow> db \<Rightarrow> db res" where
  "upsert_decisions changed d =
     checked (list_all (\<lambda>r. chk_decision (stored_decision r)) changed) ''bet_decisions''
       (d\<lparr>decisions := List.map (\<lambda>x. case find_row (\<lambda>r. dec_id r = dec_id x) changed of
            None \<Rightarrow> x | Some r \<Rightarrow> stored_decision r) (decisions d)\<rparr>)"

fun insert_ignore_decisions :: "(string \<Rightarrow> string) \<Rightarrow> bet_decision list \<Rightarrow> db \<Rightarrow> db" where
  "insert_ignore_decisions idFor [] d = d"
| "insert_ignore_decisions idFor (r # rs) d =
     (let row = stored_decision (r\<lparr>dec_id := idFor (dec_idempotencyKey r)\<rparr>) in
      insert_ignore_decisions idFor rs
        (if find_row (\<lambda>x. dec_id x = dec_id row \<or> dec_idempotencyKey x = dec_idempotencyKey row) (decisions d) = None
            \<and> find_row (\<lambda>x. run_id x = dec_simulationRunId row) (runs d) \<noteq> None \<and> chk_decision row
         then d\<lparr>decisions := decisions d @ [row]\<rparr> else d))"

record tick_counts =
  tk_decided :: nat
  tk_executed :: nat
  tk_settled :: nat

text \<open>
  The candidates of the tick: those of the fixtures of the signals and of the open orders, received
  since the earliest due date less the maximal age.
\<close>

definition tick_candidates ::
  "odds_snapshot list \<Rightarrow> risk_snapshot \<Rightarrow> live_signal list \<Rightarrow> bet_decision list \<Rightarrow> int \<Rightarrow> executable_quote list" where
  "tick_candidates snapshots risk signals opened now =
     (let ids = uniq (List.map ls_providerFixtureId signals @ List.map dec_providerFixtureId opened);
          earliest = fold min (List.map_filter dec_executionDueAt opened) now
      in loadCandidates snapshots \<lparr>cq_providerFixtureIds = ids,
           cq_receivedFrom = earliest - rk_maxQuoteAgeMs risk, cq_receivedTo = now\<rparr>)"

definition tick_select ::
  "odds_snapshot list \<Rightarrow> risk_snapshot \<Rightarrow> live_signal list \<Rightarrow> bet_decision list \<Rightarrow> int \<Rightarrow> quote_selector" where
  "tick_select snapshots risk signals opened now =
     (let candidates = tick_candidates snapshots risk signals opened now
      in (\<lambda>target t. selectLatest candidates
            \<lparr>ql_target = target, ql_at = t, ql_maxQuoteAgeMs = rk_maxQuoteAgeMs risk\<rparr>))"

definition open_decisions :: "string \<Rightarrow> db \<Rightarrow> bet_decision list" where
  "open_decisions i d = filter (\<lambda>r. dec_status r = Dec_ORDER_RESERVED) (run_decisions i d)"

definition signal_history :: "(string \<Rightarrow> string) \<Rightarrow> string \<Rightarrow> live_signal list \<Rightarrow> db \<Rightarrow> bet_decision list" where
  "signal_history sha i signals d =
     filter (\<lambda>r. dec_signalKey r \<in> set (uniq (List.map (signalKeyOf sha i) signals))) (run_decisions i d)"

text \<open>The new decisions of a tick, on the bankroll left by its executions and settlements (\<open>d1\<close>).\<close>

definition tick_new_rows ::
  "(string \<Rightarrow> string) \<Rightarrow> backtest_strategy \<Rightarrow> simulation_run \<Rightarrow> live_signal list \<Rightarrow> bet_decision list \<Rightarrow> quote_selector
     \<Rightarrow> int \<Rightarrow> db \<Rightarrow> bet_decision list res" where
  "tick_new_rows sha strategy run signals history selectQuote now d1 =
     (if signals = [] then Inr []
      else bindE (bankrollOf run d1) (\<lambda>bankroll.
             planNewDecisions sha signals
               \<lparr>sc_runId = run_id run, sc_currency = run_currency run, sc_strategy = strategy,
                sc_risk = run_riskSnapshot run\<rparr>
               history bankroll selectQuote now))"

text \<open>The transaction of a tick; \<open>signals\<close> were read before it, with the strategy.\<close>

definition tick_body ::
  "(string \<Rightarrow> string) \<Rightarrow> odds_snapshot list \<Rightarrow> fixture list \<Rightarrow> (string \<Rightarrow> string) \<Rightarrow> backtest_strategy
     \<Rightarrow> live_signal list \<Rightarrow> string \<Rightarrow> int \<Rightarrow> tick_counts option tx" where
  "tick_body sha snapshots fixtures idFor strategy signals runId now d =
     (case find_row (\<lambda>r. run_id r = runId) (runs d) of
        None \<Rightarrow> Inr (None, d)
      | Some run \<Rightarrow>
          (let candidateSignals = (if run_status run = Run_RUNNING then signals else []);
               selectQuote = tick_select snapshots (run_riskSnapshot run) candidateSignals (open_decisions runId d) now;
               executed = executed_rows selectQuote now (open_decisions runId d)
           in bindE (settled_rows (\<lambda>i. find_row (\<lambda>f. fx_id f = i) fixtures) now executed) (\<lambda>settled.
              bindE (upsert_decisions (List.map fst (filter snd (fst settled))) d) (\<lambda>d1.
              bindE (tick_new_rows sha strategy run candidateSignals (signal_history sha runId candidateSignals d)
                       selectQuote now d1) (\<lambda>newRows.
                Inr (Some \<lparr>tk_decided = length newRows, tk_executed = length (filter snd executed),
                           tk_settled = snd settled\<rparr>,
                     update_run_row runId (\<lambda>r. r\<lparr>run_lastTickAt := Some now\<rparr>)
                       (insert_ignore_decisions idFor newRows d1)))))))"

definition tick ::
  "(string \<Rightarrow> string) \<Rightarrow> live_data \<Rightarrow> int \<Rightarrow> odds_snapshot list \<Rightarrow> fixture list \<Rightarrow> (string \<Rightarrow> string)
     \<Rightarrow> string \<Rightarrow> int \<Rightarrow> tick_counts option act" where
  "tick sha ld clock snapshots fixtures idFor runId now d =
     (case find_row (\<lambda>r. run_id r = runId) (runs d) of
        None \<Rightarrow> (Inr None, d)
      | Some snapshot \<Rightarrow>
          (let strategy = run_strategySnapshot snapshot;
               signals = (if run_status snapshot = Run_RUNNING
                          then evaluateLiveSignals ld clock (bs_entryRules strategy) else [])
           in commit (tick_body sha snapshots fixtures idFor strategy signals runId now) d))"

end
