(* ===== verification/SimulationSafety.thy ===== *)
theory SimulationSafety
  imports Simulation Systems
begin

text \<open>
  The virtual bankroll of a run is never overdrawn: what a decision contributes to it, how each
  phase of a tick changes the contribution of a row, what the planning of new decisions may spend,
  and the invariant of the reachable states of the simulation.
\<close>

section \<open>What a decision contributes\<close>

definition amount_of :: "string option \<Rightarrow> int" where
  "amount_of x = (case x of None \<Rightarrow> 0 | Some t \<Rightarrow> cents_of t)"

definition staked :: "bet_decision \<Rightarrow> int" where
  "staked r = (if dec_status r = Dec_ORDER_RESERVED then amount_of (dec_stake r) else 0)"

definition earned :: "bet_decision \<Rightarrow> int" where
  "earned r = (if dec_status r = Dec_COMPLETED then amount_of (dec_profit r) else 0)"

definition exposure_cents :: "string \<Rightarrow> db \<Rightarrow> int" where
  "exposure_cents i d = (\<Sum>r\<leftarrow>run_decisions i d. staked r)"

definition available_cents :: "simulation_run \<Rightarrow> db \<Rightarrow> int" where
  "available_cents r d = cents_of (run_initialBankroll r) + (\<Sum>x\<leftarrow>run_decisions (run_id r) d. earned x - staked x)"

lemma sum_cents_profit: "sum_cents dec_profit Dec_COMPLETED rows = (\<Sum>r\<leftarrow>rows. earned r)"
  by (induction rows) (auto simp: sum_cents_def earned_def amount_of_def split: option.splits)

lemma sum_cents_stake: "sum_cents dec_stake Dec_ORDER_RESERVED rows = (\<Sum>r\<leftarrow>rows. staked r)"
  by (induction rows) (auto simp: sum_cents_def staked_def amount_of_def split: option.splits)

text \<open>The bankroll computed by the database, when it is computed, is the one of the rows.\<close>

lemma toCents_text: "toCents (decimal_text c) = Inr n \<Longrightarrow> n = c"
  by (simp add: toCents_decimal_text split: if_splits)

lemma bankrollOf_value:
  assumes "bankrollOf r d = Inr b"
  shows "bk_availableCents b = available_cents r d" "bk_openExposureCents b = exposure_cents (run_id r) d"
    "bk_initialCents b = cents_of (run_initialBankroll r)"
  using assms
  by (auto simp: bankrollOf_def bindE_eq_Inr bankroll_state_of_def available_cents_def exposure_cents_def
      sum_cents_profit sum_cents_stake sum_list_subtractf cents_of_toCents dest!: toCents_text)

section \<open>Rows that advance\<close>

text \<open>The odd at which an open decision was executed pays at least the stake back.\<close>

definition pays :: "bet_decision \<Rightarrow> bool" where
  "pays r = (dec_status r = Dec_ORDER_RESERVED \<longrightarrow> (\<forall>x. dec_executableOdd r = Some x \<longrightarrow> x \<ge> 1))"

definition advances :: "bet_decision \<Rightarrow> bet_decision \<Rightarrow> bool" where
  "advances r r' =
     (dec_id r' = dec_id r \<and> dec_simulationRunId r' = dec_simulationRunId r
      \<and> dec_idempotencyKey r' = dec_idempotencyKey r
      \<and> staked r' \<le> staked r \<and> earned r - staked r \<le> earned r' - staked r' \<and> (pays r \<longrightarrow> pays r'))"

lemma advances_refl [simp]: "advances r r"
  by (simp add: advances_def)

lemma advances_trans: "advances r s \<Longrightarrow> advances s t \<Longrightarrow> advances r t"
  by (auto simp: advances_def)

lemma store_odd_one: "x \<ge> 1 \<Longrightarrow> store_odd x \<ge> 1"
  using store_odd_mono_pos [of 1 x] store_odd_millis [of 1000] by simp

lemma stored_advances: "advances r (stored_decision r)"
  by (auto simp: advances_def stored_decision_def staked_def earned_def pays_def store_odd_one)

lemma winningProfitCents_nonneg: "0 \<le> stake \<Longrightarrow> 1 \<le> price \<Longrightarrow> 0 \<le> winningProfitCents stake price"
proof -
  assume "0 \<le> stake" "1 \<le> price"
  have "js_round (of_int 1000) \<le> js_round (price * 1000)" using \<open>1 \<le> price\<close> by (intro js_round_mono) simp
  then have "1000 \<le> js_round (price * 1000)" by (simp only: js_round_of_int)
  then have "(0::rat) \<le> of_int (stake * (js_round (price * 1000) - 1000)) / 1000"
    using \<open>0 \<le> stake\<close> by (simp add: zero_le_mult_iff)
  from js_round_mono [OF this] show ?thesis
    using js_round_of_int [of 0] by (simp add: winningProfitCents_def Let_def)
qed

lemma selectLatest_odd: "selectLatest candidates lookup = Some q \<Longrightarrow> eq_oddValue q > 1"
  by (drule selectLatest_Some(2)) (simp add: admissible_def Let_def)

lemma planExecution_advances:
  assumes "planExecution r selectQuote now = Some r'"
    and "\<And>target t q. selectQuote target t = Some q \<Longrightarrow> eq_oddValue q > 1"
    and "0 \<le> amount_of (dec_stake r)"
  shows "advances r r'"
  using assms(1,3)
  by (auto simp: planExecution_def advances_def staked_def earned_def pays_def Let_def dest!: assms(2)
      split: option.splits if_splits)

lemma planSettlement_advances:
  assumes "planSettlement r f now = Inr (Some r')" and "pays r" and "0 \<le> amount_of (dec_stake r)"
  shows "advances r r'"
proof -
  obtain price stake oc c profit where r: "dec_executableOdd r = Some price" "dec_stake r = Some stake"
      "dec_status r = Dec_ORDER_RESERVED" "toCents stake = Inr c"
    and p: "fromCents (profit_cents oc c price) = Inr profit"
    and r': "r' = r\<lparr>dec_status := Dec_COMPLETED, dec_outcome := Some oc, dec_profit := Some profit, dec_settledAt := Some now\<rparr>"
    using assms(1) by (auto simp: planSettlement_def bindE_eq_Inr split: option.splits if_splits)
  have c: "cents_of stake = c" using r(4) by (rule cents_of_toCents)
  then have "0 \<le> c" using assms(3) r(2) by (simp add: amount_of_def)
  moreover have "1 \<le> price" using assms(2) r by (simp add: pays_def)
  ultimately have "cents_of profit \<ge> - c"
    using cents_of_toCents [OF toCents_fromCents [OF p]] winningProfitCents_nonneg [of c price]
    by (auto simp: profit_cents_def)
  then show ?thesis using \<open>0 \<le> c\<close> r c
    by (simp add: r' advances_def staked_def earned_def pays_def amount_of_def)
qed

text \<open>A row whose stake is known not to be negative stays so.\<close>

definition solid :: "bet_decision \<Rightarrow> bool" where
  "solid r = (pays r \<and> 0 \<le> amount_of (dec_stake r))"

lemma planExecution_stake: "planExecution r selectQuote now = Some r' \<Longrightarrow> dec_stake r' = dec_stake r"
  by (auto simp: planExecution_def Let_def split: option.splits if_splits)

lemma planSettlement_stake: "planSettlement r f now = Inr (Some r') \<Longrightarrow> dec_stake r' = dec_stake r"
  by (auto simp: planSettlement_def bindE_eq_Inr split: option.splits if_splits)

definition grows :: "bet_decision \<Rightarrow> bet_decision \<Rightarrow> bool" where
  "grows r r' = (solid r \<longrightarrow> advances r r' \<and> solid r')"

lemma grows_refl [simp]: "grows r r" by (simp add: grows_def)

lemma grows_trans: "grows r s \<Longrightarrow> grows s t \<Longrightarrow> grows r t"
  by (auto simp: grows_def intro: advances_trans)

lemma stored_grows: "grows r (stored_decision r)"
  using stored_advances [of r] by (auto simp: grows_def solid_def advances_def) (simp add: stored_decision_def)

lemma executed_rows_grow:
  assumes "\<And>target t q. selectQuote target t = Some q \<Longrightarrow> eq_oddValue q > 1"
  shows "list_all2 (\<lambda>r x. grows r (fst x)) rows (executed_rows selectQuote now rows)"
proof -
  have "grows r r'" if "planExecution r selectQuote now = Some r'" for r r'
    using planExecution_advances [OF that assms] planExecution_stake [OF that]
    by (auto simp: grows_def solid_def advances_def)
  then show ?thesis
    by (auto simp: executed_rows_def list_all2_conv_all_nth split: option.splits)
qed

lemma settled_rows_Cons:
  assumes "settled_rows fixtureById now (x # rows) = Inr (out, n)"
  obtains s rest m where
    "(if to_settle (fst x) then planSettlement (fst x) (fixtureById (dec_fixtureId (fst x))) now else Inr None) = Inr s"
    and "settled_rows fixtureById now rows = Inr (rest, m)"
    and "out = (case s of None \<Rightarrow> x | Some r' \<Rightarrow> (r', True)) # rest"
proof -
  obtain a b where x: "x = (a, b)" by (cases x)
  obtain s where s: "(if to_settle a then planSettlement a (fixtureById (dec_fixtureId a)) now else Inr None) = Inr s"
    and r: "bindE (settled_rows fixtureById now rows) (\<lambda>(rs', n).
       Inr (case s of None \<Rightarrow> ((a, b) # rs', n) | Some r' \<Rightarrow> ((r', True) # rs', n + 1))) = Inr (out, n)"
    using assms unfolding x settled_rows.simps by (rule bindE_elim)
  obtain rest m where "settled_rows fixtureById now rows = Inr (rest, m)"
    "out = (case s of None \<Rightarrow> x | Some r' \<Rightarrow> (r', True)) # rest"
    using r by (auto simp: x bindE_eq_Inr split: option.splits)
  with s show ?thesis by (intro that) (simp_all only: x fst_conv)
qed

lemma settled_rows_grow:
  assumes "settled_rows fixtureById now rows = Inr (rows', n)"
  shows "list_all2 (\<lambda>x y. grows (fst x) (fst y)) rows rows'"
  using assms
proof (induction rows arbitrary: rows' n)
  case (Cons x rows)
  obtain s rest m where s: "(if to_settle (fst x)
        then planSettlement (fst x) (fixtureById (dec_fixtureId (fst x))) now else Inr None) = Inr s"
    and rs: "settled_rows fixtureById now rows = Inr (rest, m)"
    and out: "rows' = (case s of None \<Rightarrow> x | Some r' \<Rightarrow> (r', True)) # rest"
    using Cons.prems by (rule settled_rows_Cons)
  have "grows (fst x) r'" if "s = Some r'" for r'
  proof -
    have "planSettlement (fst x) (fixtureById (dec_fixtureId (fst x))) now = Inr (Some r')"
      using s that by (simp split: if_splits)
    from planSettlement_advances [OF this] planSettlement_stake [OF this] show ?thesis
      by (auto simp: grows_def solid_def advances_def)
  qed
  then show ?case using Cons.IH [OF rs] by (auto simp: out split: option.splits)
qed simp

section \<open>What the planning may spend\<close>

text \<open>The state of the planning loop against the bankroll it started from.\<close>

definition plan_ok :: "string \<Rightarrow> int option \<Rightarrow> bankroll_state \<Rightarrow> plan_state \<Rightarrow> bool" where
  "plan_ok runId maxExposure b st =
     (0 \<le> bk_availableCents (pl_bankroll st)
      \<and> bk_availableCents (pl_bankroll st) + (\<Sum>r\<leftarrow>pl_rows st. staked r) = bk_availableCents b
      \<and> bk_openExposureCents (pl_bankroll st) = bk_openExposureCents b + (\<Sum>r\<leftarrow>pl_rows st. staked r)
      \<and> (\<forall>m. maxExposure = Some m \<longrightarrow> bk_openExposureCents (pl_bankroll st) \<le> max m (bk_openExposureCents b))
      \<and> (\<forall>r \<in> set (pl_rows st). dec_simulationRunId r = runId \<and> dec_executableOdd r = None \<and> earned r = 0
           \<and> 0 \<le> amount_of (dec_stake r)))"

lemma reject_signal_ok:
  assumes "plan_ok runId m b st" and "dec_simulationRunId row = runId" "dec_executableOdd row = None" "dec_stake row = None"
  shows "plan_ok runId m b (reject_signal sha runId' key code row st)"
  using assms by (auto simp: reject_signal_def Let_def plan_ok_def staked_def earned_def amount_of_def)

lemma base_decision_sel [simp]:
  "dec_simulationRunId (base_decision c s key now) = sc_runId c" "dec_executableOdd (base_decision c s key now) = None"
  "dec_stake (base_decision c s key now) = None"
  by (simp_all add: base_decision_def)

lemma quoteFields_sel [simp]:
  "dec_simulationRunId (quoteFields q r) = dec_simulationRunId r" "dec_executableOdd (quoteFields q r) = dec_executableOdd r"
  "dec_stake (quoteFields q r) = dec_stake r"
  by (simp_all add: quoteFields_def)

lemma reserve_signal_ok:
  assumes "plan_ok (sc_runId c) m b st" and "reserve_signal sha c key n amount row now st = Inr st'"
    and "dec_simulationRunId row = sc_runId c" "dec_executableOdd row = None"
    and "0 < amount" "amount \<le> bk_availableCents (pl_bankroll st)"
    and "\<And>x. m = Some x \<Longrightarrow> amount \<le> x - bk_openExposureCents (pl_bankroll st)"
  shows "plan_ok (sc_runId c) m b st'"
proof -
  obtain stake where "fromCents amount = Inr stake"
    and st': "st' = st\<lparr>pl_bankroll := (pl_bankroll st)\<lparr>
                 bk_availableCents := bk_availableCents (pl_bankroll st) - amount,
                 bk_openExposureCents := bk_openExposureCents (pl_bankroll st) + amount\<rparr>,
               pl_rows := pl_rows st @ [row\<lparr>
                 dec_idempotencyKey := decisionKeyOf sha (sc_runId c) key (''ORDER:'' @ show_nat n),
                 dec_status := Dec_ORDER_RESERVED, dec_stake := Some stake,
                 dec_executionDueAt := Some (now + rk_executionLatencyMs (sc_risk c))\<rparr>]\<rparr>"
    using assms(2) by (auto simp: reserve_signal_def bindE_eq_Inr)
  moreover have "cents_of stake = amount" using \<open>fromCents amount = Inr stake\<close> by (simp add: cents_of_toCents)
  ultimately show ?thesis using assms(1,3-7)
    by (force simp: plan_ok_def staked_def earned_def amount_of_def)
qed

lemma plan_stake_bounds:
  "plan_stake b maxStake maxExposure k \<le> bk_availableCents k"
  "maxExposure = Some x \<Longrightarrow> plan_stake b maxStake maxExposure k \<le> x - bk_openExposureCents k"
  by (auto simp: plan_stake_def capped_def split: option.splits)

lemma plan_signal_ok:
  assumes "plan_ok (sc_runId c) m b st" and "plan_signal sha c existing maxStake m selectQuote now sk st = Inr st'"
  shows "plan_ok (sc_runId c) m b st'"
proof -
  obtain s key where sk: "sk = (s, key)" by (cases sk)
  have marked: "plan_ok (sc_runId c) m b (st\<lparr>pl_decided := key # pl_decided st\<rparr>)"
    using assms(1) by (auto simp: plan_ok_def)
  show ?thesis using assms
    by (auto simp: plan_signal_def sk Let_def marked intro!: reject_signal_ok
        split: if_splits option.splits elim!: reserve_signal_ok [OF marked] intro: plan_stake_bounds [simplified])
qed

lemma plan_signals_ok:
  assumes "plan_signals f xs st = Inr st'" and "I st"
    and "\<And>x st st'. f x st = Inr st' \<Longrightarrow> I st \<Longrightarrow> I st'"
  shows "I st'"
  using assms(1,2)
proof (induction xs arbitrary: st)
  case (Cons x xs)
  then obtain st1 where "f x st = Inr st1" "plan_signals f xs st1 = Inr st'" by (auto simp: bindE_eq_Inr)
  with Cons.IH Cons.prems(2) show ?case by (blast intro: assms(3))
qed simp

lemma planNewDecisions_bounds:
  assumes "planNewDecisions sha signals c existing b selectQuote now = Inr rows" and "0 \<le> bk_availableCents b"
  shows "(\<Sum>r\<leftarrow>rows. staked r) \<le> bk_availableCents b"
    and "rk_maxOpenExposure (sc_risk c) = Some m \<Longrightarrow>
      bk_openExposureCents b + (\<Sum>r\<leftarrow>rows. staked r) \<le> max (cents_of m) (bk_openExposureCents b)"
    and "r \<in> set rows \<Longrightarrow> dec_simulationRunId r = sc_runId c \<and> dec_executableOdd r = None \<and> earned r = 0
      \<and> 0 \<le> amount_of (dec_stake r)"
proof -
  obtain maxStake maxExposure st where ms: "optional_cents (rk_maxStakePerBet (sc_risk c)) = Inr maxStake"
    and me: "optional_cents (rk_maxOpenExposure (sc_risk c)) = Inr maxExposure"
    and st: "plan_signals (plan_signal sha c existing maxStake maxExposure selectQuote now) (eligible_signals sha c signals)
      \<lparr>pl_decided = [], pl_known = List.map dec_idempotencyKey existing, pl_rows = [], pl_bankroll = b\<rparr> = Inr st"
    and rows: "rows = pl_rows st"
    using assms(1) by (auto simp: planNewDecisions_def bindE_eq_Inr)
  have "plan_ok (sc_runId c) maxExposure b st"
    by (rule plan_signals_ok [OF st, where I = "plan_ok (sc_runId c) maxExposure b"])
      (simp add: plan_ok_def assms(2), blast intro: plan_signal_ok)
  moreover have "maxExposure = map_option cents_of (rk_maxOpenExposure (sc_risk c))"
    using me by (auto simp: optional_cents_def bindE_eq_Inr cents_of_toCents split: option.splits)
  ultimately show "(\<Sum>r\<leftarrow>rows. staked r) \<le> bk_availableCents b"
    "rk_maxOpenExposure (sc_risk c) = Some m \<Longrightarrow>
      bk_openExposureCents b + (\<Sum>r\<leftarrow>rows. staked r) \<le> max (cents_of m) (bk_openExposureCents b)"
    "r \<in> set rows \<Longrightarrow> dec_simulationRunId r = sc_runId c \<and> dec_executableOdd r = None \<and> earned r = 0
      \<and> 0 \<le> amount_of (dec_stake r)"
    by (auto simp: plan_ok_def rows)
qed

section \<open>The tables\<close>

definition run_within :: "db \<Rightarrow> simulation_run \<Rightarrow> bool" where
  "run_within d r =
     (0 \<le> available_cents r d
      \<and> (\<forall>m. rk_maxOpenExposure (run_riskSnapshot r) = Some m \<longrightarrow> exposure_cents (run_id r) d \<le> max 0 (cents_of m)))"

definition simulation_ok :: "db \<Rightarrow> bool" where
  "simulation_ok d =
     (distinct (List.map run_id (runs d)) \<and> distinct (List.map dec_id (decisions d))
      \<and> (\<forall>x \<in> set (decisions d). solid x \<and> chk_decision x \<and> dec_simulationRunId x \<in> run_id ` set (runs d))
      \<and> (\<forall>r \<in> set (runs d). run_within d r))"

lemma sum_run_decisions:
  "(\<Sum>x\<leftarrow>run_decisions i d. f x) = (\<Sum>x\<leftarrow>decisions d. if dec_simulationRunId x = i then f x else (0::int))"
  by (simp add: run_decisions_def sum_list_map_filter')

text \<open>Writing the rows that advanced leaves each run with at least as much, and no more exposed.\<close>

lemma upsert_cases:
  assumes "upsert_decisions changed d = Inr d'" and "list_all2 grows opened changed'"
    and "set changed \<subseteq> set changed'" and "set opened \<subseteq> set (decisions d)"
    and "simulation_ok d"
  shows "\<exists>f. d' = d\<lparr>decisions := List.map f (decisions d)\<rparr>
    \<and> (\<forall>x \<in> set (decisions d). advances x (f x) \<and> solid (f x) \<and> chk_decision (f x))"
proof (intro exI conjI ballI)
  let ?f = "\<lambda>x. case find_row (\<lambda>r. dec_id r = dec_id x) changed of None \<Rightarrow> x | Some r \<Rightarrow> stored_decision r"
  show "d' = d\<lparr>decisions := List.map ?f (decisions d)\<rparr>" using assms(1) by (simp add: upsert_decisions_def)
  fix x assume x: "x \<in> set (decisions d)"
  have solid: "solid y" "chk_decision y" if "y \<in> set (decisions d)" for y
    using assms(5) that by (simp_all add: simulation_ok_def)
  have dist: "distinct (List.map dec_id (decisions d))" using assms(5) by (simp add: simulation_ok_def)
  have "advances x (?f x) \<and> solid (?f x) \<and> chk_decision (?f x)"
  proof (cases "find_row (\<lambda>r. dec_id r = dec_id x) changed")
    case None
    then show ?thesis using solid [OF x] by simp
  next
    case (Some r)
    then have "r \<in> set changed'" and id: "dec_id r = dec_id x" and "r \<in> set changed"
      using assms(3) by (auto dest: find_row_SomeD)
    then have "chk_decision (stored_decision r)" using assms(1) by (simp add: upsert_decisions_def list_all_iff)
    from \<open>r \<in> set changed'\<close> obtain k where "k < length changed'" "changed' ! k = r" by (auto simp: in_set_conv_nth)
    then obtain y where y: "y \<in> set opened" "grows y r"
      using list_all2_nthD2 [OF assms(2), of k] list_all2_lengthD [OF assms(2)] \<open>changed' ! k = r\<close> by (metis nth_mem)
    then have "advances y r" "solid r" using assms(4) solid by (auto simp: grows_def)
    then have "dec_id y = dec_id x" using id by (simp add: advances_def)
    then have "y = x" using dist y(1) assms(4) x by (auto simp: distinct_map dest: inj_onD)
    then show ?thesis using \<open>advances y r\<close> \<open>solid r\<close> \<open>chk_decision (stored_decision r)\<close> stored_grows [of r] Some
      by (auto simp: grows_def intro: advances_trans)
  qed
  then show "advances x (?f x)" "solid (?f x)" "chk_decision (?f x)" by simp_all
qed

lemma map_advances_ok:
  assumes "simulation_ok d" and "\<And>x. x \<in> set (decisions d) \<Longrightarrow> advances x (f x) \<and> solid (f x) \<and> chk_decision (f x)"
  shows "simulation_ok (d\<lparr>decisions := List.map f (decisions d)\<rparr>)" (is "simulation_ok ?d")
proof -
  have less: "(\<Sum>x\<leftarrow>run_decisions i d. earned x - staked x) \<le> (\<Sum>x\<leftarrow>run_decisions i ?d. earned x - staked x)" for i
    unfolding sum_run_decisions using assms(2) by (auto simp: comp_def advances_def intro!: sum_list_mono)
  have more: "(\<Sum>x\<leftarrow>run_decisions i ?d. staked x) \<le> (\<Sum>x\<leftarrow>run_decisions i d. staked x)" for i
    unfolding sum_run_decisions using assms(2) by (auto simp: comp_def advances_def intro!: sum_list_mono)
  have "run_within ?d r" if "run_within d r" for r
    using that less [of "run_id r"] more [of "run_id r"]
    by (auto simp: run_within_def available_cents_def exposure_cents_def intro: order_trans)
  moreover have "List.map dec_id (List.map f (decisions d)) = List.map dec_id (decisions d)"
    using assms(2) by (simp add: advances_def)
  ultimately show ?thesis using assms by (auto simp: simulation_ok_def advances_def simp del: map_map)
qed

text \<open>Inserting planned rows takes from the bankroll of their run what they stake, at most.\<close>

lemma stored_staked [simp]: "staked (stored_decision r) = staked r" "earned (stored_decision r) = earned r"
  "dec_id (stored_decision r) = dec_id r" "dec_simulationRunId (stored_decision r) = dec_simulationRunId r"
  "dec_stake (stored_decision r) = dec_stake r"
  by (simp_all add: stored_decision_def staked_def earned_def)

lemma stored_unexecuted: "dec_executableOdd r = None \<Longrightarrow> dec_executableOdd (stored_decision r) = None"
  by (simp add: stored_decision_def)

lemma set_id_staked [simp]: "staked (r\<lparr>dec_id := i\<rparr>) = staked r" "earned (r\<lparr>dec_id := i\<rparr>) = earned r"
  by (simp_all add: staked_def earned_def)

definition slack_ok :: "string \<Rightarrow> int \<Rightarrow> db \<Rightarrow> bool" where
  "slack_ok i budget d =
     (distinct (List.map run_id (runs d)) \<and> distinct (List.map dec_id (decisions d))
      \<and> (\<forall>x \<in> set (decisions d). solid x \<and> chk_decision x \<and> dec_simulationRunId x \<in> run_id ` set (runs d))
      \<and> (\<forall>r \<in> set (runs d). run_id r \<noteq> i \<longrightarrow> run_within d r)
      \<and> (\<forall>r \<in> set (runs d). run_id r = i \<longrightarrow> budget \<le> available_cents r d
          \<and> (\<forall>m. rk_maxOpenExposure (run_riskSnapshot r) = Some m \<longrightarrow>
               exposure_cents i d + budget \<le> max 0 (cents_of m))))"

lemma insert_ignore_ok:
  assumes "slack_ok i (\<Sum>r\<leftarrow>rows. staked r) d"
    and "\<And>r. r \<in> set rows \<Longrightarrow> dec_simulationRunId r = i \<and> dec_executableOdd r = None \<and> earned r = 0
           \<and> 0 \<le> amount_of (dec_stake r)"
  shows "simulation_ok (insert_ignore_decisions idFor rows d)"
  using assms
proof (induction rows arbitrary: d)
  case Nil
  then show ?case by (auto simp: slack_ok_def simulation_ok_def run_within_def)
next
  case (Cons r rows)
  let ?row = "stored_decision (r\<lparr>dec_id := idFor (dec_idempotencyKey r)\<rparr>)"
  have r: "dec_simulationRunId r = i" "dec_executableOdd r = None" "earned r = 0" "0 \<le> amount_of (dec_stake r)"
    using Cons.prems(2) [of r] by simp_all
  have nonneg: "0 \<le> staked r" using r(4) by (simp add: staked_def)
  show ?case
  proof (cases "find_row (\<lambda>x. dec_id x = dec_id ?row \<or> dec_idempotencyKey x = dec_idempotencyKey ?row) (decisions d) = None
            \<and> find_row (\<lambda>x. run_id x = dec_simulationRunId ?row) (runs d) \<noteq> None \<and> chk_decision ?row")
    case False
    have "slack_ok i (\<Sum>r\<leftarrow>rows. staked r) d" using Cons.prems(1) nonneg by (auto simp: slack_ok_def dest: bspec)
    then have "simulation_ok (insert_ignore_decisions idFor rows d)" using Cons.prems(2) by (intro Cons.IH) auto
    then show ?thesis using False by (auto simp: Let_def)
  next
    case True
    define row where "row = ?row"
    let ?d = "d\<lparr>decisions := decisions d @ [row]\<rparr>"
    have row: "staked row = staked r" "earned row = 0" "dec_simulationRunId row = i" "solid row" "chk_decision row"
      using r True by (auto simp: row_def solid_def pays_def stored_unexecuted)
    have fresh: "dec_id row \<notin> dec_id ` set (decisions d)" using True by (auto simp: row_def find_row_None_iff)
    have owner: "i \<in> run_id ` set (runs d)" using True r(1) by (auto simp: find_row_None_iff intro: rev_image_eqI)
    have "run_decisions j ?d = run_decisions j d @ (if j = i then [row] else [])" for j
      using row(3) by (simp add: run_decisions_def)
    then have avail: "available_cents x ?d = available_cents x d - (if run_id x = i then staked r else 0)"
      and expo: "exposure_cents j ?d = exposure_cents j d + (if j = i then staked r else 0)" for x j
      using row(1,2) by (auto simp: available_cents_def exposure_cents_def)
    have "slack_ok i (\<Sum>r\<leftarrow>rows. staked r) ?d"
      using Cons.prems(1) fresh owner row
      by (auto simp: slack_ok_def run_within_def avail expo algebra_simps dest: bspec)
    then have "simulation_ok (insert_ignore_decisions idFor rows ?d)" using Cons.prems(2) by (intro Cons.IH) auto
    then show ?thesis using True by (simp add: Let_def row_def)
  qed
qed

section \<open>The tick\<close>

lemma run_decisions_update [simp]:
  "run_decisions i (update_run_row j f d) = run_decisions i d" "decisions (update_run_row j f d) = decisions d"
  by (simp_all add: update_run_row_def run_decisions_def)

lemma update_run_row_ok:
  assumes "simulation_ok d"
    and "\<And>r. run_id (f r) = run_id r \<and> run_initialBankroll (f r) = run_initialBankroll r
      \<and> run_riskSnapshot (f r) = run_riskSnapshot r"
  shows "simulation_ok (update_run_row i f d)" (is "simulation_ok ?d")
proof -
  have ids: "List.map run_id (runs ?d) = List.map run_id (runs d)"
    using assms(2) by (simp add: update_run_row_def map_update_rows)
  have within: "run_within ?d (f r) = run_within d r" "run_within ?d r = run_within d r" for r
    using assms(2) [of r] by (simp_all add: run_within_def available_cents_def exposure_cents_def)
  have "run_within ?d r" if "r \<in> set (runs ?d)" for r
    using that assms(1) within
    by (auto simp: update_run_row_def set_update_rows simulation_ok_def split: if_splits)
  moreover have "run_id ` set (runs ?d) = run_id ` set (runs d)"
    using ids by (metis set_map)
  ultimately show ?thesis using assms(1) ids by (simp add: simulation_ok_def)
qed

lemma tick_select_odd: "tick_select snapshots risk signals opened now target t = Some q \<Longrightarrow> eq_oddValue q > 1"
  by (auto simp: tick_select_def Let_def dest: selectLatest_odd)

lemma tick_body_cases:
  assumes "tick_body sha snapshots fixtures idFor strategy signals i now d = Inr (r, d')"
  obtains (missing) "find_row (\<lambda>r. run_id r = i) (runs d) = None" "r = None" "d' = d"
  | (ticked) run selectQuote candidateSignals settled n d1 newRows
    where "find_row (\<lambda>r. run_id r = i) (runs d) = Some run"
      and "candidateSignals = (if run_status run = Run_RUNNING then signals else [])"
      and "selectQuote = tick_select snapshots (run_riskSnapshot run) candidateSignals (open_decisions i d) now"
      and "settled_rows (\<lambda>i. find_row (\<lambda>f. fx_id f = i) fixtures) now
        (executed_rows selectQuote now (open_decisions i d)) = Inr (settled, n)"
      and "upsert_decisions (List.map fst (filter snd settled)) d = Inr d1"
      and "tick_new_rows sha strategy run candidateSignals (signal_history sha i candidateSignals d) selectQuote now d1
        = Inr newRows"
      and "d' = update_run_row i (\<lambda>r. r\<lparr>run_lastTickAt := Some now\<rparr>) (insert_ignore_decisions idFor newRows d1)"
      and "r = Some \<lparr>tk_decided = length newRows,
        tk_executed = length (filter snd (executed_rows selectQuote now (open_decisions i d))), tk_settled = n\<rparr>"
proof (cases "find_row (\<lambda>r. run_id r = i) (runs d)")
  case None
  then have "r = None" "d' = d" using assms by (auto simp: tick_body_def)
  with None show ?thesis by (rule missing)
next
  case (Some run)
  show ?thesis
    using assms unfolding tick_body_def Some option.case Let_def
    by (elim bindE_elim) (auto intro!: ticked [OF Some refl refl])
qed

text \<open>The tables between the two halves of a tick: the rows that were open have advanced.\<close>

lemma tick_middle_ok:
  assumes "simulation_ok d" and "\<And>target t q. selectQuote target t = Some q \<Longrightarrow> eq_oddValue q > 1"
    and "settled_rows fixtureById now (executed_rows selectQuote now (open_decisions i d)) = Inr (settled, n)"
    and "upsert_decisions (List.map fst (filter snd settled)) d = Inr d1"
  shows "simulation_ok d1 \<and> runs d1 = runs d"
proof -
  have "list_all2 (\<lambda>r x. grows r (fst x)) (open_decisions i d) (executed_rows selectQuote now (open_decisions i d))"
    by (rule executed_rows_grow) (erule assms(2))
  from list_all2_trans [where ?P3.0 = "\<lambda>r x. grows r (fst x)", OF _ this settled_rows_grow [OF assms(3)]]
  have "list_all2 grows (open_decisions i d) (List.map fst settled)"
    by (simp add: list_all2_map2) (blast intro: grows_trans)
  moreover have "set (List.map fst (filter snd settled)) \<subseteq> set (List.map fst settled)" by auto
  moreover have "set (open_decisions i d) \<subseteq> set (decisions d)" by (auto simp: open_decisions_def run_decisions_def)
  ultimately obtain f where "d1 = d\<lparr>decisions := List.map f (decisions d)\<rparr>"
    "\<And>x. x \<in> set (decisions d) \<Longrightarrow> advances x (f x) \<and> solid (f x) \<and> chk_decision (f x)"
    using upsert_cases [OF assms(4) _ _ _ assms(1)] by metis
  then show ?thesis using map_advances_ok [OF assms(1)] by simp
qed

lemma tick_new_rows_ok:
  assumes "simulation_ok d1" and "run \<in> set (runs d1)"
    and "tick_new_rows sha strategy run signals history selectQuote now d1 = Inr newRows"
  shows "simulation_ok (insert_ignore_decisions idFor newRows d1)"
proof (cases "signals = []")
  case True
  then show ?thesis using assms by (simp add: tick_new_rows_def)
next
  case False
  obtain b where b: "bankrollOf run d1 = Inr b"
    and p: "planNewDecisions sha signals
      \<lparr>sc_runId = run_id run, sc_currency = run_currency run, sc_strategy = strategy, sc_risk = run_riskSnapshot run\<rparr>
      history b selectQuote now = Inr newRows"
    using assms(3) False by (auto simp: tick_new_rows_def bindE_eq_Inr)
  have within: "run_within d1 run" using assms(1,2) by (simp add: simulation_ok_def)
  then have avail: "0 \<le> bk_availableCents b" using bankrollOf_value [OF b] by (simp add: run_within_def)
  note bounds = planNewDecisions_bounds [OF p avail]
  have unique: "r = run" if "r \<in> set (runs d1)" "run_id r = run_id run" for r
    using assms(1,2) that by (auto simp: simulation_ok_def distinct_map dest: inj_onD)
  have "slack_ok (run_id run) (\<Sum>r\<leftarrow>newRows. staked r) d1"
    unfolding slack_ok_def
  proof (intro conjI ballI impI allI)
    fix r assume "r \<in> set (runs d1)" "run_id r = run_id run"
    then have eq: "r = run" by (rule unique)
    show "(\<Sum>r\<leftarrow>newRows. staked r) \<le> available_cents r d1"
      using bounds(1) bankrollOf_value [OF b] by (simp add: eq)
    fix m assume m: "rk_maxOpenExposure (run_riskSnapshot r) = Some m"
    then have "exposure_cents (run_id run) d1 \<le> max 0 (cents_of m)" using within by (simp add: eq run_within_def)
    then show "exposure_cents (run_id run) d1 + (\<Sum>r\<leftarrow>newRows. staked r) \<le> max 0 (cents_of m)"
      using bounds(2) [of m] m bankrollOf_value [OF b] by (simp add: eq)
  qed (use assms(1) in \<open>auto simp: simulation_ok_def\<close>)
  then show ?thesis using bounds(3) by (intro insert_ignore_ok) auto
qed

lemma tick_body_ok:
  assumes "simulation_ok d" and "tick_body sha snapshots fixtures idFor strategy signals i now d = Inr (r, d')"
  shows "simulation_ok d'"
  using assms(2)
proof (cases rule: tick_body_cases)
  case missing
  then show ?thesis using assms(1) by simp
next
  case (ticked run selectQuote candidateSignals settled n d1 newRows)
  have "simulation_ok d1 \<and> runs d1 = runs d"
    by (rule tick_middle_ok [OF assms(1) _ ticked(4,5)]) (simp add: ticked(3) tick_select_odd)
  moreover have "run \<in> set (runs d)" using ticked(1) by (auto dest: find_row_SomeD)
  ultimately have "simulation_ok (insert_ignore_decisions idFor newRows d1)"
    using ticked(6) by (auto intro: tick_new_rows_ok)
  then show ?thesis unfolding ticked(7) by (rule update_run_row_ok) simp
qed

section \<open>Reachable states\<close>

definition simulation_init :: "db \<Rightarrow> bool" where
  "simulation_init d = (runs d = [] \<and> decisions d = [])"

inductive simulation_step :: "db \<Rightarrow> db \<Rightarrow> bool" where
  sim_start: "start_simulation hashOf e newId input requestedBy d = (r, d') \<Longrightarrow> simulation_step d d'"
| sim_stop: "stop_simulation e i d = (r, d') \<Longrightarrow> simulation_step d d'"
| sim_tick: "tick_body sha snapshots fixtures idFor strategy signals i now d = Inr (r, d') \<Longrightarrow> simulation_step d d'"

lemma insert_run_ok:
  assumes "simulation_ok d"
  shows "simulation_ok (insert_ignore_simulation r d)"
proof (cases "find_row (\<lambda>x. run_id x = run_id r \<or> run_idempotencyKey x = run_idempotencyKey r) (runs d) = None
    \<and> cents_of (run_initialBankroll r) > 0")
  case True
  let ?d = "d\<lparr>runs := runs d @ [r]\<rparr>"
  have same: "run_decisions j ?d = run_decisions j d" for j by (simp add: run_decisions_def)
  have fresh: "run_id r \<notin> run_id ` set (runs d)" using True by (auto simp: find_row_None_iff)
  then have "run_decisions (run_id r) d = []"
    using assms unfolding run_decisions_def simulation_ok_def filter_empty_conv by metis
  then have "run_within ?d r" using True by (simp add: run_within_def available_cents_def exposure_cents_def same)
  moreover have "run_within ?d x = run_within d x" for x
    by (simp add: run_within_def available_cents_def exposure_cents_def same)
  ultimately show ?thesis using assms fresh True
    by (auto simp: insert_ignore_simulation_def simulation_ok_def)
qed (use assms in \<open>auto simp: insert_ignore_simulation_def\<close>)

lemma simulation_step_ok: "simulation_step d d' \<Longrightarrow> simulation_ok d \<Longrightarrow> simulation_ok d'"
proof (induction rule: simulation_step.induct)
  case (sim_start hashOf e newId input requestedBy d r d')
  then show ?case by (auto simp: start_simulation_def Let_def insert_run_ok split: sum.splits)
next
  case (sim_stop e i d r d')
  then show ?case
    by (auto simp: stop_simulation_def commit_def stop_body_def get_simulation_run_def Let_def bindE_def of_option_def
        intro!: update_run_row_ok split: sum.splits option.splits if_splits)
next
  case (sim_tick sha snapshots fixtures idFor strategy signals i now d r d')
  then show ?case by (blast intro: tick_body_ok)
qed

interpretation simulation: inductive_system simulation_init simulation_step simulation_ok
  by unfold_locales (auto simp: simulation_init_def simulation_ok_def dest: simulation_step_ok)

section \<open>What a tick leaves open\<close>

text \<open>
  A decision a tick may leave open: it waits for its latency, or it is executed, its match is not
  resolved and it is less than a day old.
\<close>

definition may_stay_open :: "int \<Rightarrow> bet_decision \<Rightarrow> bool" where
  "may_stay_open now r =
     (if dec_executableOdd r = None then (\<forall>t. dec_executionDueAt r = Some t \<longrightarrow> now < t)
      else now - dec_decidedAt r < no_result_after_ms)"

definition treated :: "int \<Rightarrow> bet_decision \<Rightarrow> bet_decision \<times> bool \<Rightarrow> bool" where
  "treated now r x =
     (dec_id (fst x) = dec_id r \<and> (\<not> snd x \<longrightarrow> fst x = r)
      \<and> (dec_status (fst x) = Dec_ORDER_RESERVED \<longrightarrow> may_stay_open now (fst x)))"

lemma executed_row_cases:
  assumes "dec_status r = Dec_ORDER_RESERVED"
  shows "case planExecution r selectQuote now of
      None \<Rightarrow> dec_executableOdd r = None \<longrightarrow> may_stay_open now r
    | Some r' \<Rightarrow> dec_id r' = dec_id r \<and> dec_stake r' = dec_stake r
        \<and> (dec_status r' = Dec_ORDER_RESERVED \<longrightarrow> dec_executableOdd r' \<noteq> None)"
  using assms by (auto simp: planExecution_def may_stay_open_def Let_def split: option.splits if_splits)

lemma settled_row_cases:
  assumes "planSettlement r f now = Inr s" and "to_settle r" and "dec_stake r \<noteq> None"
  shows "case s of None \<Rightarrow> may_stay_open now r
    | Some r' \<Rightarrow> dec_id r' = dec_id r \<and> dec_status r' = Dec_COMPLETED"
proof -
  obtain price stake where r: "dec_executableOdd r = Some price" "dec_stake r = Some stake" "dec_status r = Dec_ORDER_RESERVED"
    using assms(2,3) by (auto simp: to_settle_def)
  have "settlement_outcome r f now \<noteq> None" if "\<not> may_stay_open now r"
    using that r by (auto simp: settlement_outcome_def may_stay_open_def Let_def)
  then show ?thesis using assms(1) r
    by (auto simp: planSettlement_def bindE_eq_Inr split: option.splits)
qed

lemma settled_rows_treated:
  assumes "settled_rows fixtureById now (executed_rows selectQuote now rows) = Inr (out, n)"
    and "\<And>r. r \<in> set rows \<Longrightarrow> dec_status r = Dec_ORDER_RESERVED \<and> dec_stake r \<noteq> None"
  shows "list_all2 (treated now) rows out"
  using assms
proof (induction rows arbitrary: out n)
  case (Cons r rows)
  have r: "dec_status r = Dec_ORDER_RESERVED" "dec_stake r \<noteq> None" using Cons.prems(2) [of r] by simp_all
  define e where "e = (case planExecution r selectQuote now of None \<Rightarrow> (r, False) | Some r' \<Rightarrow> (r', True))"
  have "executed_rows selectQuote now (r # rows) = e # executed_rows selectQuote now rows"
    by (simp add: executed_rows_def e_def)
  then obtain s rest m where s: "(if to_settle (fst e)
        then planSettlement (fst e) (fixtureById (dec_fixtureId (fst e))) now else Inr None) = Inr s"
    and rs: "settled_rows fixtureById now (executed_rows selectQuote now rows) = Inr (rest, m)"
    and out: "out = (case s of None \<Rightarrow> e | Some r' \<Rightarrow> (r', True)) # rest"
    using Cons.prems(1) by (metis settled_rows_Cons)
  have e: "dec_stake (fst e) = dec_stake r" "dec_id (fst e) = dec_id r" "\<not> snd e \<longrightarrow> fst e = r"
    "dec_status (fst e) = Dec_ORDER_RESERVED \<longrightarrow> dec_executableOdd (fst e) = None \<longrightarrow> may_stay_open now (fst e)"
    using executed_row_cases [OF r(1), where selectQuote = selectQuote and now = now]
    by (auto simp: e_def split: option.splits)
  have "treated now r (case s of None \<Rightarrow> e | Some r' \<Rightarrow> (r', True))"
  proof (cases "to_settle (fst e)")
    case True
    then have "planSettlement (fst e) (fixtureById (dec_fixtureId (fst e))) now = Inr s" using s by simp
    from settled_row_cases [OF this True] have "case s of None \<Rightarrow> may_stay_open now (fst e)
      | Some r' \<Rightarrow> dec_id r' = dec_id (fst e) \<and> dec_status r' = Dec_COMPLETED" using e(1) r(2) by simp
    then show ?thesis using e(2,3) by (auto simp: treated_def split: option.splits)
  next
    case False
    then show ?thesis using s e by (auto simp: treated_def to_settle_def)
  qed
  then show ?case using Cons.IH [OF rs] Cons.prems(2) by (simp add: out)
qed (simp add: executed_rows_def)

lemma may_stay_open_stored [simp]: "may_stay_open now (stored_decision r) = may_stay_open now r"
  by (simp add: may_stay_open_def stored_decision_def)

lemma stored_status [simp]: "dec_status (stored_decision r) = dec_status r"
  by (simp add: stored_decision_def)

text \<open>Inserting decisions adds rows with new identifiers after those that were there.\<close>

lemma insert_ignore_appends:
  "\<exists>new. decisions (insert_ignore_decisions idFor rows d) = decisions d @ new
     \<and> runs (insert_ignore_decisions idFor rows d) = runs d
     \<and> (\<forall>x \<in> set new. dec_id x \<notin> dec_id ` set (decisions d))"
proof (induction rows arbitrary: d)
  case (Cons r rows)
  let ?row = "stored_decision (r\<lparr>dec_id := idFor (dec_idempotencyKey r)\<rparr>)"
  let ?fresh = "find_row (\<lambda>x. dec_id x = dec_id ?row \<or> dec_idempotencyKey x = dec_idempotencyKey ?row) (decisions d) = None
            \<and> find_row (\<lambda>x. run_id x = dec_simulationRunId ?row) (runs d) \<noteq> None \<and> chk_decision ?row"
  let ?d = "if ?fresh then d\<lparr>decisions := decisions d @ [?row]\<rparr> else d"
  obtain new where new: "decisions (insert_ignore_decisions idFor rows ?d) = decisions ?d @ new"
    "runs (insert_ignore_decisions idFor rows ?d) = runs ?d" "\<forall>x \<in> set new. dec_id x \<notin> dec_id ` set (decisions ?d)"
    using Cons.IH [of ?d] by blast
  have step: "insert_ignore_decisions idFor (r # rows) d = insert_ignore_decisions idFor rows ?d" by (simp add: Let_def)
  show ?case
  proof (cases ?fresh)
    case True
    then have "dec_id ?row \<notin> dec_id ` set (decisions d)" by (auto simp: find_row_None_iff)
    with new show ?thesis unfolding step if_P [OF True]
      by (intro exI [of _ "?row # new"]) auto
  next
    case False
    with new show ?thesis unfolding step by auto
  qed
qed simp

lemma tick_leaves_open:
  assumes "simulation_ok d" and "tick_body sha snapshots fixtures idFor strategy signals i now d = Inr (Some k, d')"
    and "x \<in> set (decisions d')" and "dec_id x \<in> dec_id ` set (decisions d)"
    and "dec_simulationRunId x = i" and "dec_status x = Dec_ORDER_RESERVED"
  shows "may_stay_open now x"
  using assms(2)
proof (cases rule: tick_body_cases)
  case (ticked run selectQuote candidateSignals settled n d1 newRows)
  let ?changed = "List.map fst (filter snd settled)"
  let ?f = "\<lambda>x. case find_row (\<lambda>r. dec_id r = dec_id x) ?changed of None \<Rightarrow> x | Some r \<Rightarrow> stored_decision r"
  have d1: "decisions d1 = List.map ?f (decisions d)" using ticked(5) by (auto simp: upsert_decisions_def)
  have opened: "dec_status r = Dec_ORDER_RESERVED \<and> dec_stake r \<noteq> None \<and> r \<in> set (decisions d)"
    if "r \<in> set (open_decisions i d)" for r
  proof -
    have r: "r \<in> set (decisions d)" "dec_status r = Dec_ORDER_RESERVED"
      using that by (simp_all add: open_decisions_def run_decisions_def)
    then have "chk_decision r" using assms(1) by (simp add: simulation_ok_def)
    then show ?thesis using r by (auto simp: chk_decision_def split: option.splits)
  qed
  have treated: "list_all2 (treated now) (open_decisions i d) settled"
    by (rule settled_rows_treated [OF ticked(4)]) (use opened in blast)
  have pairs: "\<exists>r \<in> set (open_decisions i d). treated now r z" if "z \<in> set settled" for z
    using treated that by (metis in_set_conv_nth list_all2_conv_all_nth)
  have same_id: "dec_id (?f y) = dec_id y" for y
    by (auto dest: find_row_SomeD split: option.splits)
  have "List.map dec_id (decisions d1) = List.map dec_id (decisions d)"
    unfolding d1 map_map by (rule map_cong [OF refl]) (simp only: comp_apply same_id)
  then have "dec_id ` set (decisions d1) = dec_id ` set (decisions d)" by (metis set_map)
  then have "x \<in> set (decisions d1)"
    using insert_ignore_appends [of idFor newRows d1] assms(3,4) ticked(7) by auto
  then obtain y where y: "y \<in> set (decisions d)" "x = ?f y" by (auto simp: d1)
  show ?thesis
  proof (cases "find_row (\<lambda>r. dec_id r = dec_id y) ?changed")
    case (Some s)
    have "s \<in> set ?changed" using find_row_SomeD [OF Some] by simp
    then obtain z where "z \<in> set settled" "fst z = s" by auto
    then show ?thesis using pairs [of z] assms(6) y(2) Some by (auto simp: treated_def)
  next
    case None
    then have x: "x = y" using y(2) by simp
    then have "y \<in> set (open_decisions i d)" using y(1) assms(5,6) by (simp add: open_decisions_def run_decisions_def)
    then obtain z where z: "z \<in> set settled" "treated now y z"
      using treated by (metis in_set_conv_nth list_all2_conv_all_nth)
    moreover have "fst z \<in> set ?changed" if "snd z" using that z(1) by force
    ultimately have "\<not> snd z" using None by (auto simp: find_row_None_iff treated_def simp del: set_map)
    then show ?thesis using z(2) x assms(6) by (auto simp: treated_def)
  qed
qed (use assms in auto)

section \<open>A run that is stopped\<close>

lemma tick_stopped:
  assumes "tick_body sha snapshots fixtures idFor strategy signals i now d = Inr (Some k, d')"
    and "find_row (\<lambda>r. run_id r = i) (runs d) = Some run" and "run_status run = Run_STOPPED"
  shows "tk_decided k = 0 \<and> List.map dec_id (decisions d') = List.map dec_id (decisions d)"
  using assms(1)
proof (cases rule: tick_body_cases)
  case (ticked run' selectQuote candidateSignals settled n d1 newRows)
  then have "newRows = []" using assms(2,3) by (simp add: tick_new_rows_def)
  moreover have "List.map dec_id (decisions d1) = List.map dec_id (decisions d)"
    using ticked(5) by (auto simp: upsert_decisions_def stored_decision_def dest!: find_row_SomeD split: option.splits)
  ultimately show ?thesis using ticked(7,8) by simp
qed simp

lemma stop_leaves_stopped:
  assumes "stop_simulation e i d = (Inr run, d')"
  shows "\<exists>r. find_row (\<lambda>r. run_id r = i) (runs d') = Some r \<and> run_status r = Run_STOPPED"
proof -
  obtain r where r: "find_row (\<lambda>r. run_id r = i) (runs d) = Some r"
    and d': "d' = (if run_status r = Run_RUNNING
      then update_run_row i (\<lambda>x. x\<lparr>run_status := Run_STOPPED, run_stoppedAt := Some (env_now e)\<rparr>) d else d)"
    using assms by (auto simp: stop_simulation_def commit_def stop_body_def get_simulation_run_def bindE_def of_option_def
        Let_def split: sum.splits option.splits if_splits)
  have "run_id r = i" using find_row_SomeD [OF r] by simp
  moreover have "run_status r = Run_STOPPED" if "run_status r \<noteq> Run_RUNNING"
    using that by (cases "run_status r") auto
  ultimately show ?thesis
    by (auto simp: d' r update_run_row_def find_row_update_rows)
qed

section \<open>What a tick can quote\<close>

lemma fold_min_le: "fold min xs (a :: int) \<le> a" "x \<in> set xs \<Longrightarrow> fold min xs a \<le> x"
proof -
  have *: "fold min xs b \<le> b \<and> (\<forall>x \<in> set xs. fold min xs b \<le> x)" for b
  proof (induction xs arbitrary: b)
    case (Cons x xs)
    from Cons [of "min x b"] show ?case by auto
  qed simp
  show "fold min xs a \<le> a" "x \<in> set xs \<Longrightarrow> fold min xs a \<le> x" using * by blast+
qed

lemma tick_select_open:
  assumes "r \<in> set opened" and "dec_executionDueAt r = Some due" and "due \<le> now"
  shows "tick_select snapshots risk signals opened now (execution_target r) due
    = selectLatest (all_candidates snapshots)
        \<lparr>ql_target = execution_target r, ql_at = due, ql_maxQuoteAgeMs = rk_maxQuoteAgeMs risk\<rparr>"
proof -
  have "due \<in> set (List.map_filter dec_executionDueAt opened)"
    using assms(1,2) by (force simp: List.map_filter_def)
  then have "fold min (List.map_filter dec_executionDueAt opened) now \<le> due" by (rule fold_min_le)
  then show ?thesis
    unfolding tick_select_def Let_def tick_candidates_def
    using assms by (intro window_is_enough) (auto simp: execution_target_def)
qed

lemma tick_select_signal:
  assumes "s \<in> set signals" and "qt_providerFixtureId target = ls_providerFixtureId s"
  shows "tick_select snapshots risk signals opened now target now
    = selectLatest (all_candidates snapshots)
        \<lparr>ql_target = target, ql_at = now, ql_maxQuoteAgeMs = rk_maxQuoteAgeMs risk\<rparr>"
  unfolding tick_select_def Let_def tick_candidates_def
  using assms fold_min_le(1) [of "List.map_filter dec_executionDueAt opened" now]
  by (intro window_is_enough) auto

end
