(* ===== verification/SimulationReports.thy ===== *)
theory SimulationReports
  imports SimulationSafety
begin

text \<open>
  Reading a simulation (\<open>summarizeJournal\<close>, \<open>getRun\<close>, \<open>listDecisions\<close> and \<open>summary\<close> of
  \<open>simulation/simulation.service.ts\<close>): the report of a run computed from its journal, and the pages of
  its decisions. A page's cursor is the pair of values \<open>encodeCursor\<close> writes.
\<close>

section \<open>The report\<close>

definition max_decisions_page :: int where "max_decisions_page = 200"

record simulation_summary =
  sm_runId :: string
  sm_status :: run_status
  sm_currency :: string
  sm_initial :: string
  sm_available :: string
  sm_openExposure :: string
  sm_equity :: string
  sm_realized :: string
  sm_turnover :: string
  sm_total :: nat
  sm_byStatus :: "(decision_status \<times> nat) list"
  sm_rejectionsByCode :: "(rejection_code \<times> nat) list"
  sm_settledTotal :: nat
  sm_won :: nat
  sm_lost :: nat
  sm_void :: nat
  sm_noResult :: nat
  sm_hitRatePct :: "rat option"
  sm_roiPct :: "rat option"
  sm_maxDrawdownPct :: rat
  sm_configuredMs :: int
  sm_avgObservedMs :: "int option"
  sm_avgSlippagePct :: "rat option"
  sm_signalsTotal :: nat
  sm_withExecutableOdd :: nat
  sm_coveragePct :: "rat option"

text \<open>\<open>acc[k] = (acc[k] ?? 0) + 1\<close>, in order of first occurrence.\<close>

definition tally :: "'a list \<Rightarrow> ('a \<times> nat) list" where
  "tally ks = List.map (\<lambda>k. (k, length (filter (\<lambda>x. x = k) ks))) (uniq ks)"

text \<open>\<open>toCents(x!)\<close>: a \<open>null\<close> has no \<open>trim\<close> method.\<close>

definition required_cents :: "string option \<Rightarrow> int res" where
  "required_cents x = (case x of None \<Rightarrow> Inl (PlainError ''TypeError'') | Some t \<Rightarrow> toCents t)"

text \<open>The settled rows in the order of their settlement; the column is set on every completed row.\<close>

definition settlement_order :: "bet_decision \<Rightarrow> int \<times> nat list \<times> bool list" where
  "settlement_order r = ((case dec_settledAt r of None \<Rightarrow> 0 | Some t \<Rightarrow> t), locale_key (dec_id r))"

definition settled_decisions :: "bet_decision list \<Rightarrow> bet_decision list" where
  "settled_decisions rows = sort_key settlement_order (filter (\<lambda>r. dec_status r = Dec_COMPLETED) rows)"

record equity_walk =
  ew_turnover :: int
  ew_equity :: int
  ew_peak :: int
  ew_drawdown :: rat

definition walk_step :: "int \<Rightarrow> int \<Rightarrow> equity_walk \<Rightarrow> equity_walk" where
  "walk_step turnover profit w =
     (let equity = ew_equity w + profit; peak = max (ew_peak w) equity
      in \<lparr>ew_turnover = ew_turnover w + turnover, ew_equity = equity, ew_peak = peak,
          ew_drawdown = (if peak > 0 then max (ew_drawdown w) (of_int (peak - equity) / of_int peak * 100)
                         else ew_drawdown w)\<rparr>)"

fun walk :: "bet_decision list \<Rightarrow> equity_walk \<Rightarrow> equity_walk res" where
  "walk [] w = Inr w"
| "walk (r # rs) w =
     bindE (if dec_outcome r = Some WON \<or> dec_outcome r = Some LOST then required_cents (dec_stake r) else Inr 0) (\<lambda>t.
     bindE (required_cents (dec_profit r)) (\<lambda>p. walk rs (walk_step t p w)))"

definition mean :: "rat list \<Rightarrow> rat option" where
  "mean xs = (if xs = [] then None else Some (sum_list xs / of_nat (length xs)))"

definition percent :: "nat \<Rightarrow> nat \<Rightarrow> rat option" where
  "percent part whole = (if whole > 0 then Some (round_to 2 (of_nat part / of_nat whole * 100)) else None)"

definition was_executed :: "bet_decision \<Rightarrow> bool" where
  "was_executed r = (dec_executableOdd r \<noteq> None \<and> dec_executedAt r \<noteq> None)"

definition covered_signals :: "bet_decision list \<Rightarrow> string list" where
  "covered_signals rows =
     filter (\<lambda>k. list_ex (\<lambda>r. dec_signalKey r = k \<and> dec_rejectionCode r \<noteq> Some NO_EXECUTABLE_ODD) rows)
       (uniq (List.map dec_signalKey rows))"

definition outcome_count :: "decision_outcome \<Rightarrow> bet_decision list \<Rightarrow> nat" where
  "outcome_count oc rows = length (filter (\<lambda>r. dec_outcome r = Some oc) rows)"

definition report_of ::
  "simulation_run \<Rightarrow> bet_decision list \<Rightarrow> bankroll_state \<Rightarrow> equity_walk \<Rightarrow> string \<Rightarrow> string \<Rightarrow> string \<Rightarrow> string
     \<Rightarrow> string \<Rightarrow> string \<Rightarrow> simulation_summary" where
  "report_of run rows b w initial available exposure equity realized turnover =
     (let settled = settled_decisions rows;
          won = outcome_count WON settled; lost = outcome_count LOST settled;
          executed = filter was_executed rows;
          signals = uniq (List.map dec_signalKey rows)
      in \<lparr>sm_runId = run_id run, sm_status = run_status run, sm_currency = run_currency run,
          sm_initial = initial, sm_available = available, sm_openExposure = exposure, sm_equity = equity,
          sm_realized = realized, sm_turnover = turnover, sm_total = length rows,
          sm_byStatus = tally (List.map dec_status rows),
          sm_rejectionsByCode = tally (List.map_filter dec_rejectionCode rows),
          sm_settledTotal = length settled, sm_won = won, sm_lost = lost,
          sm_void = outcome_count VOID settled, sm_noResult = outcome_count NO_RESULT settled,
          sm_hitRatePct = percent won (won + lost),
          sm_roiPct = (if ew_turnover w > 0
             then Some (round_to 2 (of_int (bk_realizedProfitCents b) / of_int (ew_turnover w) * 100)) else None),
          sm_maxDrawdownPct = round_to 2 (ew_drawdown w),
          sm_configuredMs = rk_executionLatencyMs (run_riskSnapshot run),
          sm_avgObservedMs = map_option js_round (mean (List.map
             (\<lambda>r. of_int (the (dec_executedAt r) - dec_decidedAt r)) executed)),
          sm_avgSlippagePct = map_option (round_to 4) (mean (List.map_filter dec_slippagePct executed)),
          sm_signalsTotal = length signals, sm_withExecutableOdd = length (covered_signals rows),
          sm_coveragePct = percent (length (covered_signals rows)) (length signals)\<rparr>)"

definition summarizeJournal :: "simulation_run \<Rightarrow> bet_decision list \<Rightarrow> simulation_summary res" where
  "summarizeJournal run rows =
     bindE (bankrollFromJournal (run_initialBankroll run) rows) (\<lambda>b.
     bindE (walk (settled_decisions rows)
              \<lparr>ew_turnover = 0, ew_equity = bk_initialCents b, ew_peak = bk_initialCents b, ew_drawdown = 0\<rparr>) (\<lambda>w.
     bindE (fromCents (bk_initialCents b)) (\<lambda>initial.
     bindE (fromCents (bk_availableCents b)) (\<lambda>available.
     bindE (fromCents (bk_openExposureCents b)) (\<lambda>exposure.
     bindE (fromCents (bk_initialCents b + bk_realizedProfitCents b)) (\<lambda>equity.
     bindE (fromCents (bk_realizedProfitCents b)) (\<lambda>realized.
     bindE (fromCents (ew_turnover w)) (\<lambda>turnover.
       Inr (report_of run rows b w initial available exposure equity realized turnover)))))))))"

definition summary :: "string \<Rightarrow> db \<Rightarrow> simulation_summary res" where
  "summary i d = bindE (get_simulation_run i d) (\<lambda>run. summarizeJournal run (run_decisions i d))"

section \<open>The pages of the decisions\<close>

record decision_filters =
  df_cursor :: "(int \<times> string) option"
  df_limit :: int
  df_status :: "decision_status option"
  df_marketType :: "string option"
  df_from :: "int option"
  df_to :: "int option"

definition passes :: "decision_filters \<Rightarrow> bet_decision \<Rightarrow> bool" where
  "passes f r =
     ((case df_status f of None \<Rightarrow> True | Some s \<Rightarrow> dec_status r = s)
      \<and> (case df_marketType f of None \<Rightarrow> True | Some m \<Rightarrow> m = [] \<or> dec_marketType r = m)
      \<and> (case df_from f of None \<Rightarrow> True | Some t \<Rightarrow> dec_decidedAt r \<ge> t)
      \<and> (case df_to f of None \<Rightarrow> True | Some t \<Rightarrow> dec_decidedAt r < t))"

definition after_cursor :: "(int \<times> string) option \<Rightarrow> bet_decision \<Rightarrow> bool" where
  "after_cursor c r =
     (case c of None \<Rightarrow> True
      | Some (t, i) \<Rightarrow> dec_decidedAt r < t \<or> dec_decidedAt r = t \<and> dec_id r < i)"

definition newest_first :: "bet_decision list \<Rightarrow> bet_decision list" where
  "newest_first rows = rev (sort_key (\<lambda>r. (dec_decidedAt r, dec_id r)) rows)"

definition encodeCursor :: "bet_decision \<Rightarrow> int \<times> string" where
  "encodeCursor r = (dec_decidedAt r, dec_id r)"

definition page_size :: "decision_filters \<Rightarrow> nat" where
  "page_size f = nat (min (max (df_limit f) 1) max_decisions_page)"

text \<open>A page and the cursor of the next one; the code reads one row more than it returns.\<close>

definition listDecisions ::
  "string \<Rightarrow> decision_filters \<Rightarrow> db \<Rightarrow> (bet_decision list \<times> (int \<times> string) option) res" where
  "listDecisions i f d =
     bindE (get_simulation_run i d) (\<lambda>_.
       let limit = page_size f;
           rows = take (limit + 1) (newest_first
             (filter (\<lambda>r. passes f r \<and> after_cursor (df_cursor f) r) (run_decisions i d)));
           page = take limit rows
       in Inr (page, if length rows > limit then Some (encodeCursor (last page)) else None))"

text \<open>A reader that follows the cursors; \<open>fuel\<close> bounds the number of pages it asks for.\<close>

fun all_pages :: "nat \<Rightarrow> string \<Rightarrow> decision_filters \<Rightarrow> db \<Rightarrow> bet_decision list res" where
  "all_pages 0 i f d = Inl (PlainError ''fuel'')"
| "all_pages (Suc n) i f d =
     bindE (listDecisions i f d) (\<lambda>(page, next_cursor).
       case next_cursor of
         None \<Rightarrow> Inr page
       | Some c \<Rightarrow> bindE (all_pages n i (f\<lparr>df_cursor := Some c\<rparr>) d) (\<lambda>rest. Inr (page @ rest)))"

section \<open>The bankroll of the report and the bankroll of the database\<close>

text \<open>Amounts that can be read, as the \<open>DECIMAL\<close> columns render them.\<close>

definition readable :: "string option \<Rightarrow> bool" where
  "readable x = (case x of None \<Rightarrow> True | Some t \<Rightarrow> toCents t = Inr (cents_of t))"

definition readable_row :: "bet_decision \<Rightarrow> bool" where
  "readable_row r = (readable (dec_stake r) \<and> readable (dec_profit r))"

lemma toCents_value: "toCents t = Inr c \<Longrightarrow> c = cents_of t"
  by (simp add: cents_of_toCents)

lemma journal_totals_value:
  "journal_totals rows realized opened = Inr (a, b) \<Longrightarrow>
     a = realized + (\<Sum>r\<leftarrow>rows. earned r) \<and> b = opened + (\<Sum>r\<leftarrow>rows. staked r)"
proof (induction rows arbitrary: realized opened)
  case (Cons r rows)
  obtain p t where "(case (dec_status r, dec_profit r) of (Dec_COMPLETED, Some p) \<Rightarrow> toCents p | _ \<Rightarrow> Inr 0) = Inr p"
    and "(case (dec_status r, dec_stake r) of (Dec_ORDER_RESERVED, Some s) \<Rightarrow> toCents s | _ \<Rightarrow> Inr 0) = Inr t"
    and rest: "journal_totals rows (realized + p) (opened + t) = Inr (a, b)"
    using Cons.prems by (auto simp: bindE_eq_Inr)
  then have "p = earned r" "t = staked r"
    by (auto simp: earned_def staked_def amount_of_def dest: toCents_value
        split: decision_status.splits option.splits)
  then show ?case using Cons.IH [OF rest] by simp
qed simp

lemma journal_totals_readable:
  "list_all readable_row rows \<Longrightarrow>
     journal_totals rows realized opened = Inr (realized + (\<Sum>r\<leftarrow>rows. earned r), opened + (\<Sum>r\<leftarrow>rows. staked r))"
proof (induction rows arbitrary: realized opened)
  case (Cons r rows)
  then have "(case (dec_status r, dec_profit r) of (Dec_COMPLETED, Some p) \<Rightarrow> toCents p | _ \<Rightarrow> Inr 0) = Inr (earned r)"
    "(case (dec_status r, dec_stake r) of (Dec_ORDER_RESERVED, Some s) \<Rightarrow> toCents s | _ \<Rightarrow> Inr 0) = Inr (staked r)"
    by (auto simp: earned_def staked_def amount_of_def readable_row_def readable_def
        split: decision_status.splits option.splits)
  then show ?case using Cons by (simp add: algebra_simps)
qed simp

lemma bankrollFromJournal_value:
  "bankrollFromJournal initial rows = Inr b \<Longrightarrow>
     b = bankroll_state_of (cents_of initial) (\<Sum>r\<leftarrow>rows. earned r) (\<Sum>r\<leftarrow>rows. staked r)"
  by (auto simp: bankrollFromJournal_def bindE_eq_Inr dest!: journal_totals_value toCents_value)

section \<open>The walk along the settled rows\<close>

lemma walk_value:
  "walk rows w = Inr w' \<Longrightarrow> ew_equity w' = ew_equity w + (\<Sum>r\<leftarrow>rows. amount_of (dec_profit r))
     \<and> ew_drawdown w \<le> ew_drawdown w' \<and> ew_peak w \<le> ew_peak w'"
proof (induction rows arbitrary: w)
  case (Cons r rows)
  then obtain t p where p: "required_cents (dec_profit r) = Inr p" and rest: "walk rows (walk_step t p w) = Inr w'"
    by (auto simp: bindE_eq_Inr)
  have "p = amount_of (dec_profit r)"
    using p by (auto simp: required_cents_def amount_of_def dest: toCents_value split: option.splits)
  moreover have "ew_drawdown w \<le> ew_drawdown (walk_step t p w)" "ew_peak w \<le> ew_peak (walk_step t p w)"
    "ew_equity (walk_step t p w) = ew_equity w + p" by (simp_all add: walk_step_def Let_def)
  ultimately show ?case using Cons.IH [OF rest] by auto
qed simp

lemma sum_settled: "(\<Sum>r\<leftarrow>settled_decisions rows. amount_of (dec_profit r)) = (\<Sum>r\<leftarrow>rows. earned r)"
proof -
  have "(\<Sum>r\<leftarrow>settled_decisions rows. amount_of (dec_profit r))
      = sum_mset (image_mset (\<lambda>r. amount_of (dec_profit r)) (mset (settled_decisions rows)))"
    by (simp add: sum_mset_sum_list flip: mset_map)
  also have "\<dots> = (\<Sum>r\<leftarrow>filter (\<lambda>r. dec_status r = Dec_COMPLETED) rows. amount_of (dec_profit r))"
    by (simp add: settled_decisions_def sum_mset_sum_list flip: mset_map mset_filter)
  also have "\<dots> = (\<Sum>r\<leftarrow>rows. earned r)" by (induction rows) (auto simp: earned_def)
  finally show ?thesis .
qed

lemma round_to_of_int [simp]: "round_to n (of_int k) = of_int k"
proof -
  have "(of_int k * 10 ^ n :: rat) = of_int (k * 10 ^ n)" by simp
  then have "js_round (of_int k * 10 ^ n) = k * 10 ^ n" by (simp only: js_round_of_int)
  then show ?thesis by (simp add: round_to_def)
qed

lemma round_to_mono: "x \<le> y \<Longrightarrow> round_to n x \<le> round_to n y"
  by (simp add: round_to_def divide_right_mono js_round_mono)

lemma percent_bounds: "percent a b = Some x \<Longrightarrow> a \<le> b \<Longrightarrow> 0 \<le> x \<and> x \<le> 100"
proof -
  assume x: "percent a b = Some x" and "a \<le> b"
  then have "0 < b" and x: "x = round_to 2 (of_nat a / of_nat b * 100)" by (simp_all add: percent_def split: if_splits)
  moreover have "(of_nat a / of_nat b * 100 :: rat) \<le> of_int 100" "of_int 0 \<le> (of_nat a / of_nat b * 100 :: rat)"
    using \<open>0 < b\<close> \<open>a \<le> b\<close> by (simp_all add: field_simps)
  then have "round_to 2 (of_nat a / of_nat b * 100) \<le> of_int 100" "of_int 0 \<le> round_to 2 (of_nat a / of_nat b * 100)"
    by (metis round_to_mono round_to_of_int)+
  ultimately show ?thesis by simp
qed

lemma tally_total: "(\<Sum>x\<leftarrow>tally ks. snd x) = length ks"
proof -
  have "length (filter (\<lambda>x. x \<in> set us) ks) = (\<Sum>u\<leftarrow>us. length (filter (\<lambda>x. x = u) ks))" if "distinct us" for us
    using that
  proof (induction us)
    case (Cons u us)
    have "length (filter (\<lambda>x. x = u \<or> x \<in> set us) ks)
        = length (filter (\<lambda>x. x = u) ks) + length (filter (\<lambda>x. x \<in> set us) ks)"
      using Cons.prems by (induction ks) auto
    then show ?case using Cons by simp
  qed simp
  from this [of "uniq ks"] show ?thesis by (simp add: tally_def comp_def)
qed

lemma outcome_counts:
  "outcome_count WON rows + outcome_count LOST rows + outcome_count VOID rows + outcome_count NO_RESULT rows \<le> length rows"
  by (induction rows) (auto simp: outcome_count_def)

section \<open>Following the cursors\<close>

lemma after_cursor_key:
  "after_cursor None r" "after_cursor (Some c) r = ((dec_decidedAt r, dec_id r) < c)"
  by (cases c) (auto simp: after_cursor_def)

lemma newest_first_filter: "newest_first (filter p rows) = filter p (newest_first rows)"
  by (simp add: newest_first_def rev_filter flip: filter_sort)

text \<open>Along the list the keys decrease strictly, so a cursor cuts it where its row stands.\<close>

lemma newest_first_decreasing:
  assumes "distinct (List.map dec_id rows)"
  shows "sorted_wrt (\<lambda>a b. (dec_decidedAt b, dec_id b) < (dec_decidedAt a, dec_id a)) (newest_first rows)"
proof -
  let ?k = "\<lambda>r. (dec_decidedAt r, dec_id r)"
  have "distinct (List.map ?k rows)" using assms by (auto simp: distinct_map inj_on_def)
  then have "distinct (List.map ?k (sort_key ?k rows))"
    by (simp add: distinct_map)
  moreover have "sorted (List.map ?k (sort_key ?k rows))" by simp
  ultimately have "sorted_wrt (<) (List.map ?k (sort_key ?k rows))"
    by (simp add: strict_sorted_iff)
  then show ?thesis by (simp add: newest_first_def sorted_wrt_rev sorted_wrt_map)
qed

lemma cut_decreasing:
  assumes "sorted_wrt (\<lambda>a b. (k b :: 'b :: linorder) < k a) (xs @ y # ys)"
  shows "filter (\<lambda>r. k r < k y) (xs @ y # ys) = ys"
  using assms by (auto simp: sorted_wrt_append filter_empty_conv intro!: filter_True)

lemma next_page:
  assumes "sorted_wrt (\<lambda>a b. (dec_decidedAt b, dec_id b) < (dec_decidedAt a, dec_id a)) rows"
    and "0 < n" and "n < length rows"
  shows "filter (after_cursor (Some (encodeCursor (last (take n rows))))) rows = drop n rows"
proof -
  obtain m where n: "n = Suc m" using assms(2) by (cases n) auto
  have "take n rows = take m rows @ [rows ! m]" using assms(3) by (simp add: n take_Suc_conv_app_nth)
  then have last: "last (take n rows) = rows ! m" by simp
  have rows: "rows = take m rows @ rows ! m # drop n rows" using assms(3) by (simp add: n id_take_nth_drop)
  have "filter (\<lambda>r. (dec_decidedAt r, dec_id r) < (dec_decidedAt (rows ! m), dec_id (rows ! m))) rows = drop n rows"
    using cut_decreasing [of "\<lambda>r. (dec_decidedAt r, dec_id r)" "take m rows" "rows ! m" "drop n rows"] assms(1) rows by simp
  moreover have "after_cursor (Some c) = (\<lambda>r. (dec_decidedAt r, dec_id r) < c)" for c
    by (rule ext) (rule after_cursor_key)
  ultimately show ?thesis by (simp only: last encodeCursor_def)
qed

lemma after_cursor_trans:
  assumes "after_cursor c x" and "after_cursor (Some (encodeCursor x)) r"
  shows "after_cursor c r"
proof (cases c)
  case None
  then show ?thesis by (simp add: after_cursor_def)
next
  case (Some k)
  have "(dec_decidedAt r, dec_id r) < (dec_decidedAt x, dec_id x)"
    using assms(2) by (simp only: after_cursor_key(2) encodeCursor_def)
  also have "\<dots> < k" using assms(1) by (simp only: Some after_cursor_key(2))
  finally show ?thesis by (simp only: Some after_cursor_key(2))
qed

lemma all_pages_from:
  assumes "get_simulation_run i d = Inr run"
    and "sorted_wrt (\<lambda>a b. (dec_decidedAt b, dec_id b) < (dec_decidedAt a, dec_id a)) rows"
    and "newest_first (filter (passes f) (run_decisions i d)) = rows"
    and "filter (after_cursor (df_cursor f)) rows = rest" and "length rest < fuel"
  shows "all_pages fuel i f d = Inr rest"
  using assms
proof (induction fuel arbitrary: f rest)
  case (Suc fuel)
  define n where "n = page_size f"
  have "0 < n" by (simp add: n_def page_size_def max_decisions_page_def)
  have rest: "newest_first (filter (\<lambda>r. passes f r \<and> after_cursor (df_cursor f) r) (run_decisions i d)) = rest"
    using Suc.prems(3,4) by (simp add: filter_filter newest_first_filter conj_commute flip: filter_filter)
  have sorted: "sorted_wrt (\<lambda>a b. (dec_decidedAt b, dec_id b) < (dec_decidedAt a, dec_id a)) rest"
    using Suc.prems(2,4) sorted_wrt_filter by blast
  show ?case
  proof (cases "n < length rest")
    case False
    then show ?thesis
      by (simp add: listDecisions_def Suc.prems(1) rest Let_def flip: n_def)
  next
    case True
    let ?c = "encodeCursor (last (take n rest))"
    have size: "page_size f = n" by (simp add: n_def)
    have "n < length (take (n + 1) rest)" "take n (take (n + 1) rest) = take n rest"
      using True by (simp_all add: min_absorb1)
    then have page: "listDecisions i f d = Inr (take n rest, Some ?c)"
      by (simp only: listDecisions_def Suc.prems(1) rest Let_def size bindE_Inr if_True)
    have "filter (after_cursor (Some ?c)) rest = drop n rest" using sorted \<open>0 < n\<close> True by (rule next_page)
    moreover have "filter (after_cursor (Some ?c)) rows = filter (after_cursor (Some ?c)) rest"
    proof -
      have "take n rest \<noteq> []" using True \<open>0 < n\<close> by auto
      then have "last (take n rest) \<in> set rest" by (rule in_set_takeD [OF last_in_set])
      then have "after_cursor (df_cursor f) (last (take n rest))" unfolding Suc.prems(4) [symmetric] by simp
      then have "after_cursor (Some ?c) r \<Longrightarrow> after_cursor (df_cursor f) r" for r
        by (rule after_cursor_trans)
      then have "(\<lambda>r. after_cursor (df_cursor f) r \<and> after_cursor (Some ?c) r) = after_cursor (Some ?c)" by (intro ext) blast
      then show ?thesis unfolding Suc.prems(4) [symmetric] filter_filter by simp
    qed
    ultimately have "all_pages fuel i (f\<lparr>df_cursor := Some ?c\<rparr>) d = Inr (drop n rest)"
      using Suc.prems True \<open>0 < n\<close> by (intro Suc.IH) (auto simp: passes_def)
    then show ?thesis by (simp add: page)
  qed
qed simp

end
