(* ===== verification/Paper.thy ===== *)
theory Paper
  imports Sandbox Quotes Outcomes Systems
begin

text \<open>
  The paper operator (\<open>execution/adapters/paper-operator.adapter.ts\<close>): orders are accepted at the
  odd observed in the snapshots when it holds the minimum, and settled from the state of the
  fixture when they are looked up. The book is an in-memory \<open>Map\<close>, kept here in insertion order.
  The snapshots, the fixtures and the clock a call sees are its environment.
\<close>

section \<open>State\<close>

record paper_booking =
  pb_order :: operator_order
  pb_fixtureId :: string
  pb_marketKey :: string
  pb_isHomeTeam :: bool

type_synonym paper = "(string \<times> paper_booking) list"

record paper_env =
  pe_snapshots :: "odds_snapshot list"
  pe_fixtures :: "fixture list"
  pe_now :: int

definition market_type_by_key :: "string \<Rightarrow> string option" where
  "market_type_by_key k =
     (if k = ''TEAM_GOAL_1H'' then Some ''Buts 1ere mi-temps''
      else if k = ''TEAM_GOAL_2H'' then Some ''Buts 2eme mi-temps''
      else if k = ''TEAM_GOALS_FT'' then Some ''Buts match'' else None)"

definition set_booking :: "string \<Rightarrow> operator_order \<Rightarrow> paper \<Rightarrow> paper" where
  "set_booking key v book = List.map (\<lambda>(k, b). (k, if k = key then b\<lparr>pb_order := v\<rparr> else b)) book"

section \<open>Quotes and placement\<close>

definition paper_quote :: "paper_env \<Rightarrow> quote_request \<Rightarrow> operator_quote option" where
  "paper_quote pe input =
     (let candidates = loadCandidates (pe_snapshots pe)
            \<lparr>cq_providerFixtureIds = [qt_providerFixtureId (qr_target input)],
             cq_receivedFrom = qr_at input - qr_maxQuoteAgeMs input, cq_receivedTo = qr_at input\<rparr>
      in map_option (\<lambda>q. \<lparr>oq_snapshotId = Some (eq_snapshotId q), oq_oddValue = eq_oddValue q,
                          oq_capturedAt = eq_observedAt q, oq_available = eq_available q\<rparr>)
           (selectLatest candidates \<lparr>ql_target = qr_target input, ql_at = qr_at input,
                                    ql_maxQuoteAgeMs = qr_maxQuoteAgeMs input\<rparr>))"

definition paper_getExecutableQuote ::
  "paper_env \<Rightarrow> quote_request \<Rightarrow> paper \<Rightarrow> operator_quote option res \<times> paper" where
  "paper_getExecutableQuote pe input book = (Inr (paper_quote pe input), book)"

definition placement_quote :: "paper_env \<Rightarrow> place_order_request \<Rightarrow> operator_quote option" where
  "placement_quote pe input =
     paper_quote pe \<lparr>qr_target = \<lparr>qt_providerFixtureId = po_providerFixtureId input, qt_marketKey = po_marketKey input,
                                 qt_selectionKey = po_selectionKey input, qt_providerKey = None, qt_bookmakerKey = None\<rparr>,
                     qr_at = pe_now pe, qr_maxQuoteAgeMs = max 1 (pe_now pe - po_quoteCapturedAt input) + 60000\<rparr>"

definition paper_order :: "(string \<Rightarrow> string) \<Rightarrow> int \<Rightarrow> place_order_request \<Rightarrow> rat \<Rightarrow> operator_order" where
  "paper_order sha now input price =
     (let externalOrderId = ''PAPER-'' @ take 24 (po_idempotencyKey input)
      in \<lparr>oo_externalOrderId = Some externalOrderId, oo_idempotencyKey = po_idempotencyKey input,
          oo_status = Op_ACCEPTED, oo_acceptedOdd = Some (Num price), oo_acceptedStake = Some (po_stake input),
          oo_acceptedAt = Some now,
          oo_receiptHash = Some (sha (join_with ''|'' [externalOrderId, po_idempotencyKey input, show_odd price,
                                                      po_stake input])),
          oo_payout = None, oo_settledAt = None,
          oo_rawReceipt = JObj [(''externalOrderId'', JStr externalOrderId), (''odd'', JNum (Num price)),
                               (''stake'', JStr (po_stake input))]\<rparr>)"

text \<open>\<open>toResult\<close>: the fields of the booked order, whatever has become of it since.\<close>

definition toResult :: "operator_order \<Rightarrow> place_order_result" where
  "toResult order = sandbox_accepted order"

definition paper_placeOrder ::
  "(string \<Rightarrow> string) \<Rightarrow> paper_env \<Rightarrow> place_order_request \<Rightarrow> paper \<Rightarrow> place_order_result res \<times> paper" where
  "paper_placeOrder sha pe input book =
     (case map_of book (po_idempotencyKey input) of
        Some b \<Rightarrow> (Inr (toResult (pb_order b)), book)
      | None \<Rightarrow>
          (case placement_quote pe input of
             None \<Rightarrow> (Inr (PlaceRejected ''NO_QUOTE''
                        (JObj [(''idempotencyKey'', JStr (po_idempotencyKey input))])), book)
           | Some q \<Rightarrow>
               if oq_oddValue q < po_minimumOdd input
               then (Inr (PlaceRejected ''ODD_MOVED''
                       (JObj [(''idempotencyKey'', JStr (po_idempotencyKey input)),
                              (''odd'', JNum (Num (oq_oddValue q)))])), book)
               else
                 (let order = paper_order sha (pe_now pe) input (oq_oddValue q)
                  in (Inr (toResult order),
                      book @ [(po_idempotencyKey input,
                        \<lparr>pb_order = order, pb_fixtureId = po_fixtureId input, pb_marketKey = po_marketKey input,
                         pb_isHomeTeam = starts_with (po_selectionKey input) ''HOME''\<rparr>)]))))"

section \<open>Settlement on lookup\<close>

text \<open>What the fixture says of a booking; \<open>None\<close> leaves the order as it is.\<close>

definition booking_outcome :: "fixture list \<Rightarrow> string \<Rightarrow> string \<Rightarrow> bool \<Rightarrow> decision_outcome option" where
  "booking_outcome fixtures fixtureId marketKey isHomeTeam =
     (case (find_row (\<lambda>f. fx_id f = fixtureId) fixtures, market_type_by_key marketKey) of
        (Some f, Some m) \<Rightarrow> resolveSettlement \<lparr>rb_marketType = m, rb_isHomeTeam = isHomeTeam\<rparr> (finalStateOf f)
      | _ \<Rightarrow> None)"

text \<open>
  \<open>refreshSettlementFromFixture\<close>: the result with the order as the call leaves it (the status is
  written before the payout is rendered).
\<close>

definition refreshSettlement :: "paper_env \<Rightarrow> paper_booking \<Rightarrow> operator_order res \<times> operator_order" where
  "refreshSettlement pe b =
     (let order = pb_order b in
      if oo_status order \<noteq> Op_ACCEPTED then (Inr order, order)
      else case booking_outcome (pe_fixtures pe) (pb_fixtureId b) (pb_marketKey b) (pb_isHomeTeam b) of
        None \<Rightarrow> (Inr order, order)
      | Some outcome \<Rightarrow>
          (case (oo_acceptedStake order, oo_acceptedOdd order) of
             (Some stake, Some (Num price)) \<Rightarrow>
               (case toCents stake of
                  Inl e \<Rightarrow> (Inl e, order)
                | Inr cents \<Rightarrow>
                    (let order1 = order\<lparr>oo_status := (if outcome = VOID then Op_VOIDED else Op_SETTLED)\<rparr>
                     in case fromCents (settled_payout outcome cents price) of
                          Inl e \<Rightarrow> (Inl e, order1)
                        | Inr t \<Rightarrow> (let order2 = order1\<lparr>oo_payout := Some t, oo_settledAt := Some (pe_now pe)\<rparr>
                                   in (Inr order2, order2))))
           | _ \<Rightarrow> (Inl (PlainError ''TypeError''), order)))"

fun paper_lookup :: "paper_env \<Rightarrow> string list \<Rightarrow> paper \<Rightarrow> operator_order_lookup list res \<times> paper" where
  "paper_lookup pe [] book = (Inr [], book)"
| "paper_lookup pe (k # ks) book =
     (case map_of book k of
        None \<Rightarrow> (case paper_lookup pe ks book of
                  (Inl e, book') \<Rightarrow> (Inl e, book') | (Inr rest, book') \<Rightarrow> (Inr (NotFound k # rest), book'))
      | Some b \<Rightarrow>
          (case refreshSettlement pe b of
             (Inl e, order) \<Rightarrow> (Inl e, set_booking k order book)
           | (Inr v, order) \<Rightarrow>
               (case paper_lookup pe ks (set_booking k order book) of
                  (Inl e, book') \<Rightarrow> (Inl e, book') | (Inr rest, book') \<Rightarrow> (Inr (Found k v # rest), book'))))"

definition paper_getOrdersByIdempotencyKeys ::
  "paper_env \<Rightarrow> string list \<Rightarrow> paper \<Rightarrow> operator_order_lookup list res \<times> paper" where
  "paper_getOrdersByIdempotencyKeys pe keys book = paper_lookup pe (uniq keys) book"

definition paper_getOrderByIdempotencyKey ::
  "paper_env \<Rightarrow> string \<Rightarrow> paper \<Rightarrow> operator_order option res \<times> paper" where
  "paper_getOrderByIdempotencyKey pe key book =
     (case paper_getOrdersByIdempotencyKeys pe [key] book of
        (Inl e, book') \<Rightarrow> (Inl e, book')
      | (Inr [Found _ v], book') \<Rightarrow> (Inr (Some v), book')
      | (Inr _, book') \<Rightarrow> (Inr None, book'))"

definition paper_getOrderByExternalId ::
  "paper_env \<Rightarrow> string \<Rightarrow> paper \<Rightarrow> operator_order option res \<times> paper" where
  "paper_getOrderByExternalId pe i book =
     (case find_row (\<lambda>(k, b). oo_externalOrderId (pb_order b) = Some i) book of
        None \<Rightarrow> (Inr None, book)
      | Some (k, b) \<Rightarrow>
          (case refreshSettlement pe b of (r, order) \<Rightarrow>
             (case r of Inl e \<Rightarrow> Inl e | Inr v \<Rightarrow> Inr (Some v), set_booking k order book)))"

definition paper_getBalance :: "string \<Rightarrow> paper \<Rightarrow> operator_balance res \<times> paper" where
  "paper_getBalance currency book = (Inl (PlainError ''Solde non suivi par l'operateur papier''), book)"

definition paper_port :: "(string \<Rightarrow> string) \<Rightarrow> paper_env \<Rightarrow> paper port" where
  "paper_port sha pe =
     \<lparr>port_kind = PAPER, port_operatorKey = ''paper'',
      port_getExecutableQuote = paper_getExecutableQuote pe,
      port_placeOrder = paper_placeOrder sha pe,
      port_getOrdersByIdempotencyKeys = paper_getOrdersByIdempotencyKeys pe,
      port_getBalance = paper_getBalance\<rparr>"

section \<open>The booking book as an abstract book of bets\<close>

text \<open>
  What the operator promises: a bet is an odd, a stake and what it is on, and it is open until it
  has a payout. Placing adds an open bet under a new key; looking up settles the open bets whose
  match is decided.
\<close>

record paper_bet =
  bt_odd :: rat
  bt_stakeCents :: int
  bt_fixtureId :: string
  bt_marketKey :: string
  bt_isHomeTeam :: bool
  bt_payout :: "int option"

definition settle_bet :: "fixture list \<Rightarrow> paper_bet \<Rightarrow> paper_bet" where
  "settle_bet fixtures b =
     (case (bt_payout b, booking_outcome fixtures (bt_fixtureId b) (bt_marketKey b) (bt_isHomeTeam b)) of
        (None, Some outcome) \<Rightarrow> b\<lparr>bt_payout := Some (settled_payout outcome (bt_stakeCents b) (bt_odd b))\<rparr>
      | _ \<Rightarrow> b)"

fun odd_of :: "js_number option \<Rightarrow> rat" where
  "odd_of (Some (Num x)) = x" | "odd_of _ = 0"

definition bet_of :: "paper_booking \<Rightarrow> paper_bet" where
  "bet_of b = \<lparr>bt_odd = odd_of (oo_acceptedOdd (pb_order b)),
     bt_stakeCents = (case oo_acceptedStake (pb_order b) of None \<Rightarrow> 0 | Some t \<Rightarrow> cents_of t),
     bt_fixtureId = pb_fixtureId b, bt_marketKey = pb_marketKey b, bt_isHomeTeam = pb_isHomeTeam b,
     bt_payout = map_option cents_of (oo_payout (pb_order b))\<rparr>"

definition bets_of :: "paper \<Rightarrow> string \<Rightarrow> paper_bet option" where
  "bets_of book k = map_option bet_of (map_of book k)"

definition place_bet ::
  "operator_quote option \<Rightarrow> place_order_request \<Rightarrow> (string \<Rightarrow> paper_bet option) \<Rightarrow> string \<Rightarrow> paper_bet option" where
  "place_bet quote input bets =
     (case (bets (po_idempotencyKey input), quote) of
        (None, Some q) \<Rightarrow>
          if oq_oddValue q < po_minimumOdd input then bets
          else bets(po_idempotencyKey input \<mapsto>
                 \<lparr>bt_odd = oq_oddValue q, bt_stakeCents = cents_of (po_stake input), bt_fixtureId = po_fixtureId input,
                  bt_marketKey = po_marketKey input,
                  bt_isHomeTeam = starts_with (po_selectionKey input) ''HOME'', bt_payout = None\<rparr>)
      | _ \<Rightarrow> bets)"

definition settle_bets ::
  "fixture list \<Rightarrow> string list \<Rightarrow> (string \<Rightarrow> paper_bet option) \<Rightarrow> string \<Rightarrow> paper_bet option" where
  "settle_bets fixtures keys bets k = (if k \<in> set keys then map_option (settle_bet fixtures) (bets k) else bets k)"

text \<open>The books the operator reaches: every order complete, and with a payout exactly when it is not open.\<close>

definition booking_ok :: "string \<times> paper_booking \<Rightarrow> bool" where
  "booking_ok kb =
     (let v = pb_order (snd kb) in
      (\<exists>x. oo_externalOrderId v = Some x \<and> 0 < length x \<and> length x \<le> 128)
      \<and> (\<exists>x > 1. oo_acceptedOdd v = Some (Num x))
      \<and> (\<exists>t. oo_acceptedStake v = Some t \<and> stake_text t)
      \<and> oo_acceptedAt v \<noteq> None \<and> (\<exists>h. oo_receiptHash v = Some h \<and> hash_text h)
      \<and> oo_status v \<in> {Op_ACCEPTED, Op_SETTLED, Op_VOIDED}
      \<and> (oo_status v = Op_ACCEPTED) = (oo_payout v = None))"

definition paper_ok :: "paper \<Rightarrow> bool" where
  "paper_ok book = (distinct (List.map fst book) \<and> list_all booking_ok book)"

lemma paper_ok_get: "paper_ok book \<Longrightarrow> map_of book k = Some b \<Longrightarrow> booking_ok (k, b)"
  by (auto simp: paper_ok_def list_all_iff dest: map_of_SomeD)

lemma map_of_set_booking:
  "map_of (set_booking key v book) k
    = (if k = key then map_option (\<lambda>b. b\<lparr>pb_order := v\<rparr>) (map_of book k) else map_of book k)"
  by (induction book) (auto simp: set_booking_def)

lemma set_booking_ok:
  assumes "paper_ok book" and "map_of book key = Some b" and "booking_ok (key, b\<lparr>pb_order := v\<rparr>)"
  shows "paper_ok (set_booking key v book)"
proof -
  have keys: "List.map fst (set_booking key v book) = List.map fst book"
    by (auto simp: set_booking_def)
  have "booking_ok (k, c)" if "(k, c) \<in> set (set_booking key v book)" for k c
  proof -
    have "map_of (set_booking key v book) k = Some c"
      using that assms(1) keys by (auto simp: paper_ok_def intro: map_of_is_SomeI)
    then show ?thesis
      using assms by (auto simp: map_of_set_booking dest: paper_ok_get split: if_splits)
  qed
  then show ?thesis using assms(1) keys by (auto simp: paper_ok_def list_all_iff)
qed

lemma selectLatest_above_one: "selectLatest candidates lookup = Some q \<Longrightarrow> eq_oddValue q > 1"
  by (drule selectLatest_Some(2)) (simp add: admissible_def Let_def)

lemma placement_quote_odd: "placement_quote pe input = Some q \<Longrightarrow> oq_oddValue q > 1"
  by (auto simp: placement_quote_def paper_quote_def Let_def dest: selectLatest_above_one)

lemma paper_order_ok:
  assumes "stake_text (po_stake input)" and "\<And>t. hash_text (sha t)" and "1 < price"
  shows "booking_ok (key, \<lparr>pb_order = paper_order sha now input price, pb_fixtureId = f, pb_marketKey = m, pb_isHomeTeam = h\<rparr>)"
  using assms by (simp add: booking_ok_def paper_order_def Let_def)

lemma toResult_well_formed: "booking_ok (k, b) \<Longrightarrow> isWellFormedAcceptance (toResult (pb_order b))"
  by (auto simp: booking_ok_def Let_def toResult_def sandbox_accepted_def isWellFormedAcceptance_def json_text_def)

lemma paper_placeOrder_cases:
  assumes "paper_placeOrder sha pe input book = (r, book')"
  obtains (known) b where "map_of book (po_idempotencyKey input) = Some b" "r = Inr (toResult (pb_order b))" "book' = book"
  | (refused) reason raw where "map_of book (po_idempotencyKey input) = None" "r = Inr (PlaceRejected reason raw)" "book' = book"
  | (booked) q b where "map_of book (po_idempotencyKey input) = None" "placement_quote pe input = Some q"
      "po_minimumOdd input \<le> oq_oddValue q"
      "b = \<lparr>pb_order = paper_order sha (pe_now pe) input (oq_oddValue q), pb_fixtureId = po_fixtureId input,
            pb_marketKey = po_marketKey input, pb_isHomeTeam = starts_with (po_selectionKey input) ''HOME''\<rparr>"
      "r = Inr (toResult (pb_order b))" "book' = book @ [(po_idempotencyKey input, b)]"
  using assms
  by (auto simp: paper_placeOrder_def Let_def not_less split: option.splits if_splits)

lemma paper_placeOrder_ok:
  assumes "paper_placeOrder sha pe input book = (r, book')" and "paper_ok book"
    and "stake_text (po_stake input)" and "\<And>t. hash_text (sha t)"
  shows "paper_ok book'" and "r = Inr (PlaceAccepted a) \<Longrightarrow> isWellFormedAcceptance (PlaceAccepted a)"
proof -
  have "paper_ok book' \<and> (\<forall>a. r = Inr (PlaceAccepted a) \<longrightarrow> isWellFormedAcceptance (PlaceAccepted a))"
    using assms(1)
  proof (cases rule: paper_placeOrder_cases)
    case (known b)
    then show ?thesis using assms(2) toResult_well_formed [OF paper_ok_get [OF assms(2) known(1)]] by auto
  next
    case (refused reason raw)
    then show ?thesis using assms(2) by simp
  next
    case (booked q b)
    have ok: "booking_ok (po_idempotencyKey input, b)"
      unfolding booked(4) by (rule paper_order_ok) (use assms(3,4) booked(2) placement_quote_odd in auto)
    have "po_idempotencyKey input \<notin> fst ` set book" using booked(1) by (simp add: map_of_eq_None_iff)
    then show ?thesis using booked(5,6) ok assms(2) toResult_well_formed [OF ok] by (auto simp: paper_ok_def)
  qed
  then show "paper_ok book'" "r = Inr (PlaceAccepted a) \<Longrightarrow> isWellFormedAcceptance (PlaceAccepted a)" by auto
qed

text \<open>A settlement that is rendered settles the bet; one that cannot be rendered is the only error.\<close>

lemma refreshSettlement_ok:
  assumes "booking_ok (k, b)" and "refreshSettlement pe b = (Inr v, v')"
  shows "v' = v \<and> booking_ok (k, b\<lparr>pb_order := v\<rparr>) \<and> bet_of (b\<lparr>pb_order := v\<rparr>) = settle_bet (pe_fixtures pe) (bet_of b)"
proof -
  from assms(1) obtain x t h where b: "oo_acceptedOdd (pb_order b) = Some (Num x)" "1 < x"
    "oo_acceptedStake (pb_order b) = Some t" "stake_text t"
    "oo_status (pb_order b) \<in> {Op_ACCEPTED, Op_SETTLED, Op_VOIDED}"
    "(oo_status (pb_order b) = Op_ACCEPTED) = (oo_payout (pb_order b) = None)"
    by (auto simp: booking_ok_def Let_def)
  obtain c where c: "toCents t = Inr c" using stake_text_toCents [OF b(4)] by blast
  show ?thesis
  proof (cases "oo_status (pb_order b) = Op_ACCEPTED")
    case False
    then have "v = pb_order b" "v' = pb_order b" using assms(2) by (auto simp: refreshSettlement_def Let_def)
    moreover have "bt_payout (bet_of b) \<noteq> None" using False b(6) by (simp add: bet_of_def)
    ultimately show ?thesis using assms(1) by (auto simp: settle_bet_def split: option.splits)
  next
    case True
    then show ?thesis using assms b c
      by (auto simp: refreshSettlement_def Let_def bet_of_def settle_bet_def booking_ok_def cents_of_toCents
          split: option.splits sum.splits if_splits)
  qed
qed

lemma paper_lookup_other:
  "paper_lookup pe ks book = (r, book') \<Longrightarrow> k \<notin> set ks \<Longrightarrow> map_of book' k = map_of book k"
  by (induction ks arbitrary: book r)
    (auto simp: map_of_set_booking split: option.splits prod.splits sum.splits)

lemma paper_lookup_refines:
  assumes "paper_ok book" and "paper_lookup pe ks book = (Inr out, book')" and "distinct ks"
  shows "paper_ok book'
    \<and> (\<forall>k. bets_of book' k = (if k \<in> set ks then map_option (settle_bet (pe_fixtures pe)) (bets_of book k) else bets_of book k))
    \<and> List.map (\<lambda>l. case l of Found k v \<Rightarrow> (k, Some v) | NotFound k \<Rightarrow> (k, None) | LookupFailed k _ \<Rightarrow> (k, None)) out
      = List.map (\<lambda>k. (k, map_option pb_order (map_of book' k))) ks"
  using assms
proof (induction ks arbitrary: book out)
  case (Cons k ks)
  show ?case
  proof (cases "map_of book k")
    case None
    then obtain rest where rest: "paper_lookup pe ks book = (Inr rest, book')" "out = NotFound k # rest"
      using Cons.prems(2) by (auto split: prod.splits sum.splits)
    note IH = Cons.IH [OF Cons.prems(1) rest(1)]
    have "map_of book' k = None"
      using IH Cons.prems(3) None by (auto simp: bets_of_def dest!: spec [of _ k])
    then show ?thesis using IH Cons.prems(3) rest(2) None by (auto simp: bets_of_def)
  next
    case (Some b)
    then obtain v v' rest where v: "refreshSettlement pe b = (Inr v, v')"
      and rest: "paper_lookup pe ks (set_booking k v' book) = (Inr rest, book')" "out = Found k v # rest"
      using Cons.prems(2) by (auto split: prod.splits sum.splits)
    have ok: "booking_ok (k, b)" using Cons.prems(1) Some by (rule paper_ok_get)
    from refreshSettlement_ok [OF ok v] have v': "v' = v"
      and b': "booking_ok (k, b\<lparr>pb_order := v\<rparr>)" "bet_of (b\<lparr>pb_order := v\<rparr>) = settle_bet (pe_fixtures pe) (bet_of b)" by simp_all
    have "paper_ok (set_booking k v' book)" using Cons.prems(1) Some b'(1) unfolding v' by (rule set_booking_ok)
    note IH = Cons.IH [OF this rest(1)]
    have same: "bets_of (set_booking k v book) j = (if j = k then Some (settle_bet (pe_fixtures pe) (bet_of b)) else bets_of book j)" for j
      using b'(2) Some by (simp add: bets_of_def map_of_set_booking)
    have k: "k \<notin> set ks" "distinct ks" using Cons.prems(3) by simp_all
    have kept: "map_of book' k = Some (b\<lparr>pb_order := v\<rparr>)"
      using paper_lookup_other [OF rest(1) k(1)] Some by (simp add: map_of_set_booking v')
    show ?thesis using IH [OF k(2)] k(1) kept Some unfolding v' same
      by (auto simp: rest(2) b'(2) bets_of_def)
  qed
qed (simp add: bets_of_def)

lemma paper_place_refines:
  "bets_of (snd (paper_placeOrder sha pe input book)) = place_bet (placement_quote pe input) input (bets_of book)"
proof -
  obtain r book' where p: "paper_placeOrder sha pe input book = (r, book')" by (cases "paper_placeOrder sha pe input book")
  have "bets_of book' = place_bet (placement_quote pe input) input (bets_of book)"
  proof (cases "map_of book (po_idempotencyKey input)")
    case (Some b)
    then show ?thesis using p by (auto simp: paper_placeOrder_def place_bet_def bets_of_def)
  next
    case None
    have append: "bets_of (book @ [(k, b)]) = (bets_of book)(k \<mapsto> bet_of b)" if "map_of book k = None" for k b
      using that by (auto simp: bets_of_def map_add_def split: option.splits)
    have free: "bets_of book (po_idempotencyKey input) = None" using None by (simp add: bets_of_def)
    show ?thesis using p None
      by (auto simp: paper_placeOrder_def place_bet_def Let_def append free bet_of_def paper_order_def split: option.splits if_splits)
  qed
  then show ?thesis by (simp add: p)
qed

lemma paper_lookup_settles:
  assumes "paper_ok book" and "paper_getOrdersByIdempotencyKeys pe keys book = (Inr out, book')"
  shows "bets_of book' = settle_bets (pe_fixtures pe) keys (bets_of book)" and "paper_ok book'"
  using paper_lookup_refines [OF assms(1) assms(2) [unfolded paper_getOrdersByIdempotencyKeys_def]]
  by (auto simp: settle_bets_def fun_eq_iff)

section \<open>Reachable books\<close>

text \<open>Requests carry the stake text of an order, and SHA-256 is 64 hexadecimal digits.\<close>

inductive paper_step :: "paper \<Rightarrow> paper \<Rightarrow> bool" where
  paper_place: "stake_text (po_stake input) \<Longrightarrow> (\<And>t. hash_text (sha t)) \<Longrightarrow>
     paper_placeOrder sha pe input book = (r, book') \<Longrightarrow> paper_step book book'"
| paper_looked: "paper_getOrdersByIdempotencyKeys pe keys book = (Inr out, book') \<Longrightarrow> paper_step book book'"

interpretation desk: inductive_system "\<lambda>book. book = []" paper_step paper_ok
proof unfold_locales
  show "book = [] \<Longrightarrow> paper_ok book" for book by (simp add: paper_ok_def)
  show "paper_ok book' " if "paper_ok book" "paper_step book book'" for book book'
    using that(2,1) by cases (blast intro: paper_placeOrder_ok(1) paper_lookup_settles(2))+
qed

end
