(* ===== verification/SimulationSamples.thy ===== *)
theory SimulationSamples
  imports Samples SimulationReports Paper
begin

text \<open>
  A concrete simulation the witnesses evaluate: a run started from empty tables, one live signal
  quoted at 2.00, the tick that decides it, the tick that executes and settles it.
\<close>

definition sim_input :: start_input where
  "sim_input = \<lparr>si_idempotencyKey = ''k1'', si_name = ''n'', si_strategyVersion = ''v1'', si_strategy = sample_strategy,
     si_currency = ''EUR'', si_initialBankroll = ''100'', si_maxQuoteAgeMs = 120000, si_executionLatencyMs = 1000,
     si_bookmakerKey = None, si_maxStakePerBet = Some ''10'', si_maxOpenExposure = Some ''15''\<rparr>"

definition sim_snapshot :: odds_snapshot where
  "sim_snapshot = \<lparr>os_id = ''q1'', os_fixtureId = ''f1'', os_providerFixtureId = ''77'', os_providerKey = Some ''p'',
     os_bookmakerKey = Some ''b'', os_marketKey = Some ''TEAM_GOALS_FT'', os_selectionKey = Some ''HOME_OVER_0.5'',
     os_oddValue = 2, os_observedAt = Some 1990000, os_receivedAt = Some 1995000, os_available = Some True\<rparr>"

definition sim_target :: quote_target where
  "sim_target = \<lparr>qt_providerFixtureId = ''77'', qt_marketKey = ''TEAM_GOALS_FT'', qt_selectionKey = ''HOME_OVER_0.5'',
     qt_providerKey = None, qt_bookmakerKey = None\<rparr>"

definition sim_signal :: live_signal where
  "sim_signal = \<lparr>ls_id = ''smart-fh-f1-1-b'', ls_fixtureId = ''f1'', ls_fixtureLabel = ''A vs B'', ls_marketType = ''Buts match'',
     ls_selection = ''s'', ls_minAcceptableOdd = 3 / 2, ls_edgePct = 5, ls_confidenceScore = None,
     ls_baseRateSampleSize = None, ls_ruleName = ''r'', ls_elapsed = None, ls_shotsCount = Num 5, ls_teamId = None,
     ls_teamName = ''A'', ls_isHomeTeam = True, ls_providerFixtureId = ''77'', ls_quoteTarget = sim_target\<rparr>"

definition sim_fixture :: fixture where
  "sim_fixture = \<lparr>fx_id = ''f1'', fx_providerFixtureId = ''77'', fx_leagueId = None, fx_season = None,
     fx_homeTeamId = Some 1, fx_awayTeamId = Some 2, fx_homeTeamName = Some ''A'', fx_awayTeamName = Some ''B'',
     fx_statusShort = Some ''FT'', fx_scoreHome = Some 1, fx_scoreAway = Some 0, fx_elapsed = Some 90,
     fx_raw = JNull, fx_lastSyncedAt = 1990000\<rparr>"

definition sim_sha :: "string \<Rightarrow> string" where "sim_sha t = t"

text \<open>The run as its start inserts it, the decision its first tick takes, and the tables after each step.\<close>

definition sim_run :: simulation_run where
  "sim_run = sample_run\<lparr>run_idempotencyKey := ''k1'', run_startedAt := 2000000, run_createdAt := 2000000\<rparr>"

definition sim_open :: bet_decision where
  "sim_open = sample_decision\<lparr>dec_signalKey := ''r1|f1||Buts match'', dec_idempotencyKey := ''r1|r1|f1||Buts match|ORDER:0'',
     dec_marketType := ''Buts match'', dec_marketKey := ''TEAM_GOALS_FT'', dec_selectionKey := ''HOME_OVER_0.5'',
     dec_ruleName := ''r'', dec_status := Dec_ORDER_RESERVED, dec_decidedAt := 2000000, dec_stake := Some ''10.00'',
     dec_decisionOddsSnapshotId := Some ''q1'', dec_decisionProviderKey := Some ''p'',
     dec_decisionBookmakerKey := Some ''b'', dec_decisionReceivedAt := Some 1995000,
     dec_executionDueAt := Some 2001000\<rparr>"

definition sim_held :: bet_decision where
  "sim_held = sim_open\<lparr>dec_executableOddsSnapshotId := Some ''q1'', dec_executableOdd := Some 2,
     dec_executableObservedAt := Some 1990000, dec_executableReceivedAt := Some 1995000,
     dec_slippagePct := Some 0, dec_executedAt := Some 2001000\<rparr>"

definition sim_won :: bet_decision where
  "sim_won = sim_held\<lparr>dec_status := Dec_COMPLETED, dec_outcome := Some WON, dec_profit := Some ''10.00'',
     dec_settledAt := Some 2001000\<rparr>"

definition sim_started :: db where
  "sim_started = empty_db\<lparr>runs := [sim_run]\<rparr>"

definition sim_decided :: db where
  "sim_decided = empty_db\<lparr>runs := [sim_run\<lparr>run_lastTickAt := Some 2000000\<rparr>], decisions := [sim_open]\<rparr>"

definition sim_executed :: db where
  "sim_executed = empty_db\<lparr>runs := [sim_run\<lparr>run_lastTickAt := Some 2001000\<rparr>], decisions := [sim_held]\<rparr>"

definition sim_settled :: db where
  "sim_settled = empty_db\<lparr>runs := [sim_run\<lparr>run_lastTickAt := Some 2001000\<rparr>], decisions := [sim_won]\<rparr>"

lemma sim_evaluated:
  "start_simulation (\<lambda>_. ''h'') sample_env ''r1'' sim_input None empty_db = (Inr sim_run, sim_started)"
  "tick_body sim_sha [sim_snapshot] [] (\<lambda>k. ''d1'') sample_strategy [sim_signal] ''r1'' 2000000 sim_started
     = Inr (Some \<lparr>tk_decided = 1, tk_executed = 0, tk_settled = 0\<rparr>, sim_decided)"
  "tick_body sim_sha [sim_snapshot] [] (\<lambda>k. ''d2'') sample_strategy [] ''r1'' 2001000 sim_decided
     = Inr (Some \<lparr>tk_decided = 0, tk_executed = 1, tk_settled = 0\<rparr>, sim_executed)"
  "tick_body sim_sha [sim_snapshot] [sim_fixture] (\<lambda>k. ''d2'') sample_strategy [] ''r1'' 2001000 sim_decided
     = Inr (Some \<lparr>tk_decided = 0, tk_executed = 1, tk_settled = 1\<rparr>, sim_settled)"
  by code_simp+

end
