(* ===== verification/Coupons.thy ===== *)
theory Coupons
  imports Signals
begin

text \<open>
  What the live service saves (\<open>recommendations/smart-suggestions.service.ts\<close>): the current
  recommendations, replaced at each evaluation, and the coupons, created once and resolved from the
  state of their match. New identifiers are an argument, numbered in the order of the insertion.
\<close>

section \<open>Rows\<close>

datatype recommendation_status = Rc_NEW | Rc_ACTIVE | Rc_REJECTED

record bet_recommendation =
  rc_fixtureId :: string
  rc_marketType :: string
  rc_selection :: string
  rc_currentOdd :: rat
  rc_minAcceptableOdd :: rat
  rc_edgePct :: rat
  rc_confidenceScore :: "int option"
  rc_baseRateSampleSize :: "int option"
  rc_status :: recommendation_status

datatype coupon_status = Cp_PENDING | Cp_WON | Cp_LOST

record smart_coupon =
  cp_id :: string
  cp_fixtureId :: string
  cp_homeTeamName :: "string option"
  cp_awayTeamName :: "string option"
  cp_teamId :: "int option"
  cp_teamName :: "string option"
  cp_isHomeTeam :: bool
  cp_marketType :: string
  cp_selection :: string
  cp_currentOdd :: "rat option"
  cp_minAcceptableOdd :: "rat option"
  cp_edgePct :: "rat option"
  cp_confidenceScore :: "int option"
  cp_baseRateSampleSize :: "int option"
  cp_ruleName :: "string option"
  cp_elapsedAtSuggestion :: "int option"
  cp_shotsCount :: "js_number option"
  cp_status :: coupon_status
  cp_resolvedAt :: "int option"

record live_book =
  lb_recommendations :: "bet_recommendation list"
  lb_coupons :: "smart_coupon list"

definition auto_market_types :: "string list" where
  "auto_market_types = [''Buts 1ere mi-temps'', ''Buts match'', ''Buts 2eme mi-temps'']"

section \<open>Saving\<close>

definition recommendation_of :: "smart_suggestion \<Rightarrow> bet_recommendation" where
  "recommendation_of s =
     \<lparr>rc_fixtureId = ls_fixtureId s, rc_marketType = ls_marketType s, rc_selection = ls_selection s,
      rc_currentOdd = store_odd (ls_currentOdd s), rc_minAcceptableOdd = store_odd (ls_minAcceptableOdd s),
      rc_edgePct = ls_edgePct s, rc_confidenceScore = ls_confidenceScore s,
      rc_baseRateSampleSize = ls_baseRateSampleSize s, rc_status = Rc_NEW\<rparr>"

definition saveRecommendations :: "smart_suggestion list \<Rightarrow> live_book \<Rightarrow> live_book" where
  "saveRecommendations suggestions b =
     (if suggestions = [] then b
      else b\<lparr>lb_recommendations :=
             filter (\<lambda>r. \<not> (rc_fixtureId r \<in> ls_fixtureId ` set suggestions \<and> rc_status r = Rc_NEW
                          \<and> rc_marketType r \<in> set auto_market_types)) (lb_recommendations b)
             @ List.map recommendation_of suggestions\<rparr>)"

text \<open>\<open>s.split(sep)\<close> for a separator that is not empty; the counter skips its other characters.\<close>

fun split_go :: "nat \<Rightarrow> string \<Rightarrow> string \<Rightarrow> string \<Rightarrow> string list" where
  "split_go k sep acc [] = [rev acc]"
| "split_go (Suc k) sep acc (c # cs) = split_go k sep acc cs"
| "split_go 0 sep acc (c # cs) =
     (if starts_with (c # cs) sep then rev acc # split_go (length sep - 1) sep [] cs
      else split_go 0 sep (c # acc) cs)"

definition split_label :: "string \<Rightarrow> string option \<times> string option" where
  "split_label label =
     (case split_go 0 '' vs '' [] label of
        home # away # _ \<Rightarrow> (Some (trim home), Some (trim away))
      | [home] \<Rightarrow> (Some (trim home), None)
      | [] \<Rightarrow> (None, None))"

definition coupon_text :: "string \<Rightarrow> int option \<Rightarrow> string \<Rightarrow> string" where
  "coupon_text fixtureId teamId market =
     join_with ''|'' [fixtureId, (case teamId of None \<Rightarrow> [] | Some t \<Rightarrow> show_int t), market]"

text \<open>The columns of odds and edges keep two decimals.\<close>

definition two_decimals :: "rat \<Rightarrow> rat" where
  "two_decimals x = of_int (js_round (x * 100)) / 100"

definition coupon_of :: "string \<Rightarrow> smart_suggestion \<Rightarrow> smart_coupon" where
  "coupon_of newId s =
     (let (home, away) = split_label (ls_fixtureLabel s) in
      \<lparr>cp_id = newId, cp_fixtureId = ls_fixtureId s, cp_homeTeamName = home, cp_awayTeamName = away,
       cp_teamId = ls_teamId s, cp_teamName = Some (ls_teamName s), cp_isHomeTeam = ls_isHomeTeam s,
       cp_marketType = ls_marketType s, cp_selection = ls_selection s,
       cp_currentOdd = Some (two_decimals (ls_currentOdd s)),
       cp_minAcceptableOdd = Some (two_decimals (ls_minAcceptableOdd s)),
       cp_edgePct = Some (two_decimals (ls_edgePct s)), cp_confidenceScore = ls_confidenceScore s,
       cp_baseRateSampleSize = ls_baseRateSampleSize s, cp_ruleName = Some (ls_ruleName s),
       cp_elapsedAtSuggestion = ls_elapsed s, cp_shotsCount = Some (ls_shotsCount s),
       cp_status = Cp_PENDING, cp_resolvedAt = None\<rparr>)"

definition new_suggestions :: "smart_suggestion list \<Rightarrow> smart_coupon list \<Rightarrow> smart_suggestion list" where
  "new_suggestions suggestions coupons =
     (let existing = filter (\<lambda>c. cp_fixtureId c \<in> ls_fixtureId ` set suggestions) coupons;
          existingKeys = List.map (\<lambda>c. coupon_text (cp_fixtureId c) (cp_teamId c) (cp_marketType c)) existing
      in filter (\<lambda>s. coupon_text (ls_fixtureId s) (ls_teamId s) (ls_marketType s) \<notin> set existingKeys) suggestions)"

definition saveCoupons :: "(nat \<Rightarrow> string) \<Rightarrow> smart_suggestion list \<Rightarrow> live_book \<Rightarrow> live_book" where
  "saveCoupons newIds suggestions b =
     (if suggestions = [] then b
      else let toInsert = new_suggestions suggestions (lb_coupons b)
           in b\<lparr>lb_coupons := lb_coupons b
                  @ List.map (\<lambda>(i, s). coupon_of (newIds i) s) (zip [0..<length toInsert] toInsert)\<rparr>)"

section \<open>Resolution\<close>

definition coupon_outcome :: "fixture list \<Rightarrow> smart_coupon \<Rightarrow> coupon_status option" where
  "coupon_outcome fixtures c =
     (case find_row (\<lambda>f. fx_id f = cp_fixtureId c) fixtures of
        None \<Rightarrow> None
      | Some f \<Rightarrow>
          (case resolveOutcome \<lparr>rb_marketType = cp_marketType c, rb_isHomeTeam = cp_isHomeTeam c\<rparr> (finalStateOf f) of
             Some WON \<Rightarrow> Some Cp_WON
           | Some LOST \<Rightarrow> Some Cp_LOST
           | _ \<Rightarrow> None))"

definition resolve_coupon :: "fixture list \<Rightarrow> int \<Rightarrow> smart_coupon \<Rightarrow> smart_coupon" where
  "resolve_coupon fixtures now c =
     (if cp_status c = Cp_PENDING
      then case coupon_outcome fixtures c of
             None \<Rightarrow> c | Some st \<Rightarrow> c\<lparr>cp_status := st, cp_resolvedAt := Some now\<rparr>
      else c)"

definition resolveSettledCoupons :: "fixture list \<Rightarrow> int \<Rightarrow> live_book \<Rightarrow> live_book" where
  "resolveSettledCoupons fixtures now b = b\<lparr>lb_coupons := List.map (resolve_coupon fixtures now) (lb_coupons b)\<rparr>"

section \<open>A passage\<close>

definition getAllSuggestions ::
  "rules_state \<Rightarrow> live_data \<Rightarrow> odds_snapshot list \<Rightarrow> int \<Rightarrow> smart_suggestion list" where
  "getAllSuggestions rules ld snapshots now =
     attachExecutableQuotes snapshots now (evaluateLiveSignals ld now (getConfig rules))"

definition evaluateAndSave ::
  "rules_state \<Rightarrow> live_data \<Rightarrow> odds_snapshot list \<Rightarrow> (nat \<Rightarrow> string) \<Rightarrow> int \<Rightarrow> live_book \<Rightarrow> live_book" where
  "evaluateAndSave rules ld snapshots newIds now b =
     (let suggestions = getAllSuggestions rules ld snapshots now
      in resolveSettledCoupons (ld_fixtures ld) now (saveCoupons newIds suggestions (saveRecommendations suggestions b)))"

text \<open>A page of the history and the number of all coupons; the newest first, in the order of insertion.\<close>

definition getCouponHistory :: "nat \<Rightarrow> nat \<Rightarrow> live_book \<Rightarrow> smart_coupon list \<times> nat" where
  "getCouponHistory limit offset b = (take limit (drop offset (rev (lb_coupons b))), length (lb_coupons b))"

end
