(* ===== verification/LiveSafety.thy ===== *)
theory LiveSafety
  imports Coupons Systems
begin

text \<open>
  What the live service keeps: the signals of an evaluation are distinct as long as the windows of
  the two halves do not overlap, a coupon is created once, and a verdict is final.
\<close>

section \<open>Lists with keys\<close>

lemma distinct_keys_map_filter:
  assumes "\<And>x y. f x = Some y \<Longrightarrow> k y = k' x" and "distinct (List.map k' xs)"
  shows "distinct (List.map k (List.map_filter f xs))"
proof -
  have keys: "set (List.map k (List.map_filter f ys)) \<subseteq> set (List.map k' ys)" for ys
    by (induction ys) (auto simp: List.map_filter_simps dest: assms(1) split: option.splits)
  from assms(2) show ?thesis
  proof (induction xs)
    case (Cons x xs)
    show ?case
    proof (cases "f x")
      case (Some y)
      then have "k y = k' x" by (rule assms(1))
      then have "k y \<notin> set (List.map k (List.map_filter f xs))" using Cons.prems keys [of xs] by auto
      with Cons Some show ?thesis by (simp add: List.map_filter_simps)
    qed (use Cons in \<open>simp add: List.map_filter_simps\<close>)
  qed (simp add: List.map_filter_simps)
qed

text \<open>Groups with different labels, each without repetition.\<close>

lemma distinct_keys_concat:
  assumes "\<And>x. x \<in> set xs \<Longrightarrow> distinct (List.map k (g x))" and "distinct (List.map u xs)"
    and "\<And>x y. x \<in> set xs \<Longrightarrow> y \<in> set (g x) \<Longrightarrow> t (k y) = u x"
  shows "distinct (List.map k (concat (List.map g xs)))"
  using assms
proof (induction xs)
  case (Cons x xs)
  have "k y \<noteq> k z" if "y \<in> set (g x)" "z \<in> set (concat (List.map g xs))" for y z
  proof
    assume same: "k y = k z"
    from that(2) obtain x' where x': "x' \<in> set xs" "z \<in> set (g x')" by auto
    have "u x = u x'"
      using Cons.prems(3) [of x y] Cons.prems(3) [of x' z] that(1) x' same by simp
    with x'(1) Cons.prems(2) show False by (auto simp: image_iff)
  qed
  moreover have "distinct (List.map k (concat (List.map g xs)))" using Cons by simp
  ultimately show ?case using Cons.prems(1) [of x] by (auto simp: distinct_append simp del: set_concat)
qed simp

section \<open>Signals of a fixture\<close>

definition signal_key :: "'a suggestion_scheme \<Rightarrow> string \<times> int option \<times> string" where
  "signal_key s = (ls_fixtureId s, ls_teamId s, ls_marketType s)"

lemma signal_of_Some:
  assumes "signal_of halfSuffix lookup f (i, m) = Some s"
  shows "signal_key s = (fx_id f, Some (rm_teamId m), rm_marketType m)"
    "qt_providerFixtureId (ls_quoteTarget s) = ls_providerFixtureId s"
    "ls_providerFixtureId s = fx_providerFixtureId f"
  using assms
  by (auto simp: signal_of_def signal_key_def quoteTargetForRuleMarket_def Let_def split: option.splits prod.splits if_splits)

lemma by_team_distinct:
  assumes "distinct (List.map (\<lambda>m. (rm_teamId m, rm_marketType m)) matches)"
  shows "distinct (List.map (\<lambda>im. (rm_teamId (snd im), rm_marketType (snd im))) (by_team matches))"
  unfolding by_team_def Let_def
proof (rule distinct_keys_concat [where t = fst and u = "\<lambda>x. x"])
  fix t
  have "List.map (\<lambda>im. (rm_teamId (snd im), rm_marketType (snd im))) (zip [0..<length ms] ms)
      = List.map (\<lambda>m. (rm_teamId m, rm_marketType m)) ms" for ms :: "rule_match list"
    by (rule nth_equalityI) auto
  then show "distinct (List.map (\<lambda>im. (rm_teamId (snd im), rm_marketType (snd im)))
      (zip [0..<length (filter (\<lambda>m. rm_teamId m = t) matches)] (filter (\<lambda>m. rm_teamId m = t) matches)))"
    using assms by (simp add: distinct_map_filter)
qed (auto dest!: set_zip_rightD)

lemma set_by_team: "snd ` set (by_team matches) \<subseteq> set matches"
  by (auto simp: by_team_def Let_def dest!: set_zip_rightD)

lemma fixture_matches_distinct:
  assumes "ti_teamId (re_home input) \<noteq> ti_teamId (re_away input)"
  shows "distinct (List.map (\<lambda>m. (rm_teamId m, rm_marketType m)) (evaluateRules input config))"
proof -
  have "inj_on (\<lambda>m. (rm_teamId m, rm_marketType m)) (set (evaluateRules input config))"
  proof (rule inj_onI)
    fix a b assume ab: "a \<in> set (evaluateRules input config)" "b \<in> set (evaluateRules input config)"
      "(rm_teamId a, rm_marketType a) = (rm_teamId b, rm_marketType b)"
    have "rm_isHomeTeam a = rm_isHomeTeam b"
      using evaluateRules_team(1) [OF ab(1)] evaluateRules_team(1) [OF ab(2)] ab(3) assms by (auto split: if_splits)
    then have "match_key a = match_key b" using ab(3) by (simp add: match_key_def)
    then show "a = b" using evaluateRules_distinct [of input config] ab(1,2) by (auto simp: distinct_map dest: inj_onD)
  qed
  then show ?thesis using evaluateRules_distinct [of input config] by (auto simp: distinct_map)
qed

lemma fixture_signals_key:
  "s \<in> set (fixture_signals rows config halfSuffix b lookup f) \<Longrightarrow> fst (signal_key s) = fx_id f"
  by (auto simp: fixture_signals_def set_map_filter dest: signal_of_Some split: option.splits if_splits)

lemma fixture_signals_distinct:
  assumes "\<And>h. fx_homeTeamId f = Some h \<Longrightarrow> fx_awayTeamId f \<noteq> Some h"
  shows "distinct (List.map signal_key (fixture_signals rows config halfSuffix b lookup f))"
proof -
  have "distinct (List.map signal_key (List.map_filter (signal_of halfSuffix lookup f)
      (by_team (evaluateRules (fixture_input rows b f homeId awayId) config))))"
    if "homeId \<noteq> awayId" for homeId awayId
  proof (rule distinct_keys_map_filter [where k' = "\<lambda>im. (fx_id f, Some (rm_teamId (snd im)), rm_marketType (snd im))"])
    have "distinct (List.map (\<lambda>im. (rm_teamId (snd im), rm_marketType (snd im)))
        (by_team (evaluateRules (fixture_input rows b f homeId awayId) config)))"
      by (intro by_team_distinct fixture_matches_distinct)
        (simp add: fixture_input_def team_input_def Let_def that)
    then show "distinct (List.map (\<lambda>im. (fx_id f, Some (rm_teamId (snd im)), rm_marketType (snd im)))
        (by_team (evaluateRules (fixture_input rows b f homeId awayId) config)))"
      by (auto simp: distinct_map inj_on_def)
  qed (auto dest: signal_of_Some)
  then show ?thesis using assms by (auto simp: fixture_signals_def split: option.split)
qed

section \<open>Signals of an evaluation\<close>

definition fixtures_ok :: "fixture list \<Rightarrow> bool" where
  "fixtures_ok fixtures =
     (distinct (List.map fx_id fixtures)
      \<and> list_all (\<lambda>f. fx_homeTeamId f = None \<or> fx_homeTeamId f \<noteq> fx_awayTeamId f) fixtures)"

definition windows_apart :: "smart_rules_config \<Rightarrow> bool" where
  "windows_apart config = list_all (\<lambda>r. hr_maxElapsed r \<le> 45) (cfg_firstHalfRules config)"

lemma evaluateFixtures_key:
  "s \<in> set (evaluateFixturesWithRules ld fixtures config halfSuffix b) \<Longrightarrow> fst (signal_key s) \<in> fx_id ` set fixtures"
  by (auto simp: evaluateFixturesWithRules_def Let_def dest!: fixture_signals_key)

lemma evaluateFixtures_distinct:
  assumes "fixtures_ok fixtures"
  shows "distinct (List.map signal_key (evaluateFixturesWithRules ld fixtures config halfSuffix b))"
  unfolding evaluateFixturesWithRules_def Let_def
proof (rule distinct_keys_concat [where t = fst and u = fx_id])
  fix f assume "f \<in> set fixtures"
  then show "distinct (List.map signal_key (fixture_signals
      (latest_first (filter (\<lambda>s. sn_fixtureId s \<in> fx_id ` set fixtures) (ld_stats ld))) config halfSuffix b
      (buildLookup (ld_baseRates ld)
        (List.map_filter (\<lambda>f. case (fx_leagueId f, fx_season f) of (Some l, Some s) \<Rightarrow> Some (l, s) | _ \<Rightarrow> None) fixtures)
        (signal_base_rate (config_signal config))) f))"
    using assms by (intro fixture_signals_distinct) (auto simp: fixtures_ok_def list_all_iff)
qed (use assms in \<open>auto simp: fixtures_ok_def dest: fixture_signals_key\<close>)

lemma live_fixtures_ok: "fixtures_ok fixtures \<Longrightarrow> fixtures_ok (live_fixtures statuses p clock fixtures)"
  by (auto simp: fixtures_ok_def live_fixtures_def distinct_map_filter list_all_iff)

lemma evaluateLiveSignals_distinct:
  assumes "fixtures_ok (ld_fixtures ld)" and "windows_apart config"
  shows "distinct (List.map signal_key (evaluateLiveSignals ld clock config))"
proof -
  let ?p = "\<lambda>t. t \<ge> 1 \<and> before_window t (max_window (cfg_firstHalfRules config))"
  let ?q = "\<lambda>t. t \<ge> 45 \<and> t < hr_maxElapsed (cfg_secondHalfRule config)"
  let ?first = "live_fixtures first_half_statuses ?p clock (ld_fixtures ld)"
  let ?second = "live_fixtures second_half_statuses ?q clock (ld_fixtures ld)"
  have "fx_id f \<noteq> fx_id g" if in_halves: "f \<in> set ?first" "g \<in> set ?second" for f g
  proof
    assume same: "fx_id f = fx_id g"
    have "f \<in> set (ld_fixtures ld)" "g \<in> set (ld_fixtures ld)" using in_halves by (auto simp: live_fixtures_def)
    with same assms(1) have "f = g" by (auto simp: fixtures_ok_def distinct_map dest: inj_onD)
    moreover obtain t where "fx_elapsed f = Some t" "?p t" using in_halves(1) by (auto simp: live_fixtures_def split: option.splits)
    moreover have "t < 45" using \<open>?p t\<close> assms(2) by (force simp: before_window_iff windows_apart_def list_all_iff)
    moreover obtain u where "fx_elapsed g = Some u" "?q u" using in_halves(2) by (auto simp: live_fixtures_def split: option.splits)
    ultimately show False by simp
  qed
  then have "fst (signal_key s) \<noteq> fst (signal_key s')"
    if "s \<in> set (getFirstHalfSuggestions ld clock config)" "s' \<in> set (getSecondHalfSuggestions ld clock config)" for s s'
    using that evaluateFixtures_key [of s ld ?first config "''fh''" None]
      evaluateFixtures_key [of s' ld ?second config "''sh''" "Some (buildHtBaseline (ld_stats ld) ?second)"]
    by (fastforce simp: getFirstHalfSuggestions_def getSecondHalfSuggestions_def Let_def)
  then have "signal_key ` set (getFirstHalfSuggestions ld clock config)
      \<inter> signal_key ` set (getSecondHalfSuggestions ld clock config) = {}" by fastforce
  moreover have "distinct (List.map signal_key (getFirstHalfSuggestions ld clock config))"
    unfolding getFirstHalfSuggestions_def by (intro evaluateFixtures_distinct live_fixtures_ok assms(1))
  moreover have "distinct (List.map signal_key (getSecondHalfSuggestions ld clock config))"
    unfolding getSecondHalfSuggestions_def Let_def by (intro evaluateFixtures_distinct live_fixtures_ok assms(1))
  ultimately show ?thesis by (simp add: evaluateLiveSignals_def)
qed

lemma evaluateFixtures_target:
  "s \<in> set (evaluateFixturesWithRules ld fixtures config halfSuffix b)
    \<Longrightarrow> qt_providerFixtureId (ls_quoteTarget s) = ls_providerFixtureId s"
  by (auto simp: evaluateFixturesWithRules_def fixture_signals_def set_map_filter Let_def dest: signal_of_Some
      split: option.splits if_splits)

lemma evaluateLiveSignals_target:
  "s \<in> set (evaluateLiveSignals ld clock config) \<Longrightarrow> qt_providerFixtureId (ls_quoteTarget s) = ls_providerFixtureId s"
  by (auto simp: evaluateLiveSignals_def getFirstHalfSuggestions_def getSecondHalfSuggestions_def Let_def
      dest: evaluateFixtures_target)

section \<open>Coupons\<close>

definition coupon_key :: "smart_coupon \<Rightarrow> string \<times> int option \<times> string" where
  "coupon_key c = (cp_fixtureId c, cp_teamId c, cp_marketType c)"

definition book_ok :: "live_book \<Rightarrow> bool" where
  "book_ok b = distinct (List.map coupon_key (lb_coupons b))"

lemma priced_key: "signal_key (priced s price) = signal_key s"
  by (simp add: priced_def signal_key_def suggestion.defs)

lemma attach_distinct:
  assumes "distinct (List.map signal_key suggestions)"
  shows "distinct (List.map signal_key (attachExecutableQuotes snapshots now suggestions))"
  unfolding attachExecutableQuotes_def Let_def
  by (rule distinct_keys_map_filter [OF _ assms]) (auto simp: priced_key split: option.splits if_splits)

lemma coupon_of_key: "coupon_key (coupon_of i s) = signal_key s"
  by (simp add: coupon_of_def coupon_key_def signal_key_def split: prod.split)

lemma new_suggestions_new:
  assumes "s \<in> set (new_suggestions suggestions coupons)"
  shows "s \<in> set suggestions" "signal_key s \<notin> coupon_key ` set coupons"
proof -
  show member: "s \<in> set suggestions" using assms by (simp add: new_suggestions_def Let_def)
  show "signal_key s \<notin> coupon_key ` set coupons"
  proof
    assume "signal_key s \<in> coupon_key ` set coupons"
    then obtain c where c: "c \<in> set coupons" "cp_fixtureId c = ls_fixtureId s" "cp_teamId c = ls_teamId s"
        "cp_marketType c = ls_marketType s"
      by (auto simp: signal_key_def coupon_key_def)
    then have "c \<in> set (filter (\<lambda>c. cp_fixtureId c \<in> ls_fixtureId ` set suggestions) coupons)" using member by simp
    then have "coupon_text (cp_fixtureId c) (cp_teamId c) (cp_marketType c) \<in> set (List.map
        (\<lambda>c. coupon_text (cp_fixtureId c) (cp_teamId c) (cp_marketType c))
        (filter (\<lambda>c. cp_fixtureId c \<in> ls_fixtureId ` set suggestions) coupons))"
      unfolding set_map by (rule imageI)
    moreover have "coupon_text (ls_fixtureId s) (ls_teamId s) (ls_marketType s) \<notin> set (List.map
        (\<lambda>c. coupon_text (cp_fixtureId c) (cp_teamId c) (cp_marketType c))
        (filter (\<lambda>c. cp_fixtureId c \<in> ls_fixtureId ` set suggestions) coupons))"
      using assms unfolding new_suggestions_def Let_def by (simp only: set_filter mem_Collect_eq simp_thms)
    ultimately show False using c by (simp only: simp_thms)
  qed
qed

lemma coupons_of_keys:
  "List.map coupon_key (List.map (\<lambda>(i, s). coupon_of (newIds i) s) (zip [n..<n + length ss] ss)) = List.map signal_key ss"
  by (rule nth_equalityI) (auto simp: coupon_of_key)

lemma saveCoupons_ok:
  assumes "book_ok b" and "distinct (List.map signal_key suggestions)"
  shows "book_ok (saveCoupons newIds suggestions b)"
proof -
  let ?new = "new_suggestions suggestions (lb_coupons b)"
  have "distinct (List.map signal_key ?new)"
    using assms(2) by (simp add: new_suggestions_def Let_def distinct_map_filter)
  moreover have "coupon_key ` set (lb_coupons b) \<inter> signal_key ` set ?new = {}"
    using new_suggestions_new(2) by fastforce
  ultimately have "distinct (List.map coupon_key (lb_coupons b) @ List.map signal_key ?new)"
    using assms(1) by (simp add: book_ok_def)
  then show ?thesis
    using coupons_of_keys [of newIds 0 ?new] assms(1) by (simp add: book_ok_def saveCoupons_def Let_def del: map_map)
qed

lemma resolve_coupon_key: "coupon_key (resolve_coupon fixtures now c) = coupon_key c"
  by (simp add: resolve_coupon_def coupon_key_def split: option.split)

lemma resolve_ok: "book_ok b \<Longrightarrow> book_ok (resolveSettledCoupons fixtures now b)"
  by (simp add: book_ok_def resolveSettledCoupons_def comp_def resolve_coupon_key)

lemma saveRecommendations_coupons [simp]: "lb_coupons (saveRecommendations suggestions b) = lb_coupons b"
  by (simp add: saveRecommendations_def)

text \<open>A book that has grown: the coupons stay, in their order, and a verdict is final.\<close>

definition same_terms :: "smart_coupon \<Rightarrow> smart_coupon \<Rightarrow> bool" where
  "same_terms c c' = (c'\<lparr>cp_status := cp_status c, cp_resolvedAt := cp_resolvedAt c\<rparr> = c)"

definition coupon_kept :: "smart_coupon \<Rightarrow> smart_coupon \<Rightarrow> bool" where
  "coupon_kept c c' =
     (c' = c \<or> cp_status c = Cp_PENDING \<and> cp_status c' \<noteq> Cp_PENDING \<and> same_terms c c')"

definition book_grows :: "live_book \<Rightarrow> live_book \<Rightarrow> bool" where
  "book_grows b b' =
     (length (lb_coupons b) \<le> length (lb_coupons b')
      \<and> (\<forall>i < length (lb_coupons b). coupon_kept (lb_coupons b ! i) (lb_coupons b' ! i)))"

lemma coupon_kept_trans: "coupon_kept c d \<Longrightarrow> coupon_kept d e \<Longrightarrow> coupon_kept c e"
  by (auto simp: coupon_kept_def)

lemma book_grows_trans: "book_grows b c \<Longrightarrow> book_grows c d \<Longrightarrow> book_grows b d"
  unfolding book_grows_def by (meson coupon_kept_trans less_le_trans order_trans)

lemma book_grows_refl: "book_grows b b"
  by (simp add: book_grows_def coupon_kept_def)

lemma save_grows: "book_grows b (saveCoupons newIds suggestions b)"
  by (simp add: book_grows_def saveCoupons_def coupon_kept_def nth_append Let_def)

lemma resolve_kept: "coupon_kept c (resolve_coupon fixtures now c)"
proof -
  have "coupon_outcome fixtures c = Some st \<Longrightarrow> st \<noteq> Cp_PENDING" for st
    by (auto simp: coupon_outcome_def split: option.splits decision_outcome.splits)
  then show ?thesis by (auto simp: coupon_kept_def same_terms_def resolve_coupon_def split: option.split)
qed

lemma resolve_grows: "book_grows b (resolveSettledCoupons fixtures now b)"
  by (simp add: book_grows_def resolveSettledCoupons_def resolve_kept)

section \<open>The live service over time\<close>

text \<open>
  A step is an evaluation, with whatever configuration, data, quotes and clock, or a resolution.
  The tables of fixtures have one row per identifier and two different teams per match, and the
  windows of the first half end by minute 45, as in the default configuration.
\<close>

inductive live_step :: "live_book \<Rightarrow> live_book \<Rightarrow> bool" where
  live_evaluate: "fixtures_ok (ld_fixtures ld) \<Longrightarrow> windows_apart (getConfig rules)
    \<Longrightarrow> live_step b (evaluateAndSave rules ld snapshots newIds now b)"
| live_resolve: "live_step b (resolveSettledCoupons fixtures now b)"

definition live_init :: "live_book \<Rightarrow> bool" where "live_init b = (lb_coupons b = [])"

lemma evaluateAndSave_ok:
  assumes "fixtures_ok (ld_fixtures ld)" and "windows_apart (getConfig rules)" and "book_ok b"
  shows "book_ok (evaluateAndSave rules ld snapshots newIds now b)"
proof -
  have "distinct (List.map signal_key (getAllSuggestions rules ld snapshots now))"
    unfolding getAllSuggestions_def by (intro attach_distinct evaluateLiveSignals_distinct assms(1,2))
  moreover have "book_ok (saveRecommendations s b)" for s using assms(3) by (simp add: book_ok_def)
  ultimately show ?thesis by (simp add: evaluateAndSave_def Let_def resolve_ok saveCoupons_ok)
qed

lemma evaluateAndSave_grows: "book_grows b (evaluateAndSave rules ld snapshots newIds now b)"
proof -
  have "book_grows b (saveRecommendations s b)" for s by (simp add: book_grows_def coupon_kept_def)
  then show ?thesis
    unfolding evaluateAndSave_def Let_def by (blast intro: book_grows_trans save_grows resolve_grows)
qed

interpretation live: inductive_system live_init live_step book_ok
  by unfold_locales (auto simp: live_init_def book_ok_def [where b = b for b] elim!: live_step.cases
      intro: evaluateAndSave_ok [unfolded book_ok_def] resolve_ok [unfolded book_ok_def])

lemma live_run_grows: "live.run b b' \<Longrightarrow> live.reach b \<Longrightarrow> book_grows b b'"
  by (erule live.run_relation) (auto intro: book_grows_refl book_grows_trans evaluateAndSave_grows resolve_grows
      elim!: live_step.cases)

end
