(* ===== verification/LiveSamples.thy ===== *)
theory LiveSamples
  imports LiveSafety
begin

text \<open>
  A concrete evening the witnesses evaluate: one live match, the statistics of its home team, a base
  rate and a quote, under the default settings and under settings with a wide first-half window.
\<close>

text \<open>A match at minute 50 whose home team shot six times, all in the first half.\<close>

definition live_shots :: "int \<Rightarrow> int \<Rightarrow> rat \<Rightarrow> stats_snapshot" where
  "live_shots elapsed at_ms n =
     \<lparr>sn_id = ''s'', sn_fixtureId = ''f1'', sn_teamId = Some 1, sn_half = None, sn_elapsed = Some elapsed,
      sn_stats = JObj [(''total_shots'', JNum (Num n))], sn_snapshotAt = at_ms\<rparr>"

definition live_match :: "int \<Rightarrow> fixture" where
  "live_match elapsed =
     \<lparr>fx_id = ''f1'', fx_providerFixtureId = ''77'', fx_leagueId = Some 3, fx_season = Some 2026,
      fx_homeTeamId = Some 1, fx_awayTeamId = Some 2, fx_homeTeamName = Some ''A'', fx_awayTeamName = Some ''B'',
      fx_statusShort = Some ''LIVE'', fx_scoreHome = Some 0, fx_scoreAway = Some 0, fx_elapsed = Some elapsed,
      fx_raw = JNull, fx_lastSyncedAt = 1990000\<rparr>"

definition live_evening :: "int \<Rightarrow> live_data" where
  "live_evening elapsed =
     \<lparr>ld_fixtures = [live_match elapsed], ld_stats = [live_shots 8 500000 6, live_shots elapsed 1990000 6],
      ld_baseRates = [\<lparr>br_leagueId = 3, br_season = 2026, br_market = ''goal_ft'', br_signal = ''total_shots'',
        br_threshold = 5, br_sampleSize = 40, br_observedRate = 7 / 10\<rparr>]\<rparr>"

definition live_quotes :: "odds_snapshot list" where
  "live_quotes = [\<lparr>os_id = ''q1'', os_fixtureId = ''f1'', os_providerFixtureId = ''77'', os_providerKey = Some ''p'',
     os_bookmakerKey = Some ''b'', os_marketKey = Some ''TEAM_GOALS_FT'', os_selectionKey = Some ''HOME_OVER_0.5'',
     os_oddValue = 2, os_observedAt = Some 1990000, os_receivedAt = Some 1995000, os_available = Some True\<rparr>]"

definition default_update :: update_rules where
  "default_update = \<lparr>ur_signal = None, ur_scoreStateModifiers = None, ur_firstHalfRules = cfg_firstHalfRules default_config,
     ur_secondHalfRule = cfg_secondHalfRule default_config, ur_odds = None\<rparr>"

definition wide_update :: update_rules where
  "wide_update = default_update\<lparr>ur_firstHalfRules := [\<lparr>hr_maxElapsed = 60, hr_minShots = 5\<rparr>]\<rparr>"

definition wide_config :: smart_rules_config where
  "wide_config = default_config\<lparr>cfg_firstHalfRules := [\<lparr>hr_maxElapsed = 60, hr_minShots = 5\<rparr>]\<rparr>"

definition empty_book :: live_book where
  "empty_book = \<lparr>lb_recommendations = [], lb_coupons = []\<rparr>"

definition saved_book :: live_book where
  "saved_book = evaluateAndSave None (live_evening 9) live_quotes (\<lambda>i. ''c'' @ show_nat i) 2000000 empty_book"

lemma live_evaluated:
  "put_rules default_update None = Inr (default_config, Some default_config)"
  "List.map signal_key (evaluateLiveSignals (live_evening 9) 2000000 default_config)
     = [(''f1'', Some 1, ''Buts 1ere mi-temps''), (''f1'', Some 1, ''Buts match'')]"
  "List.map ls_confidenceScore (evaluateLiveSignals (live_evening 9) 2000000 default_config) = [None, Some 70]"
  "List.map coupon_key (lb_coupons saved_book) = [(''f1'', Some 1, ''Buts match'')]"
  "put_rules wide_update None = Inr (wide_config, Some wide_config)"
  "List.map signal_key (getFirstHalfSuggestions (live_evening 50) 2000000 wide_config)
     = [(''f1'', Some 1, ''Buts 1ere mi-temps''), (''f1'', Some 1, ''Buts match''), (''f1'', Some 1, ''Buts 2eme mi-temps'')]"
  "List.map signal_key (getSecondHalfSuggestions (live_evening 50) 2000000 wide_config)
     = [(''f1'', Some 1, ''Buts 1ere mi-temps''), (''f1'', Some 1, ''Buts match'')]"
  by code_simp+

end
