(* ===== verification/SimulationProperties.thy ===== *)
theory SimulationProperties
  imports SimulationSamples LiveSamples
begin

text \<open>
  The claims about the continuous simulation, its quotes and reports, and about the paper operator.
\<close>

lemma sim_reached: "simulation.reach sim_started" "simulation.reach sim_decided"
proof -
  show started: "simulation.reach sim_started"
    by (rule simulation.reach_step [OF simulation.reach_init sim_start [OF sim_evaluated(1)]])
      (simp add: simulation_init_def empty_db_def)
  show "simulation.reach sim_decided"
    by (rule simulation.reach_step [OF started sim_tick [OF sim_evaluated(2)]])
qed

section \<open>The bankroll\<close>

text \<open>
  C3: a simulation is never overdrawn: in every state reached from empty tables by starts, stops
  and ticks, in any order, with any signals, quotes and fixtures, each run has a non-negative
  available bankroll, and its open stakes are within the maximal exposure frozen at its start.
\<close>

lemma simulation_never_overdrawn:
  assumes "simulation.reach d" and "r \<in> set (runs d)"
  shows "0 \<le> available_cents r d
    \<and> (\<forall>m. rk_maxOpenExposure (run_riskSnapshot r) = Some m \<longrightarrow> exposure_cents (run_id r) d \<le> max 0 (cents_of m))"
  using simulation.reach_inv [OF assms(1)] assms(2) by (simp add: simulation_ok_def run_within_def)

lemma simulation_never_overdrawn_witness:
  "\<exists>r \<in> set (runs sim_decided). 0 \<le> available_cents r sim_decided \<and> available_cents r sim_decided = 9000"
proof -
  have "available_cents (hd (runs sim_decided)) sim_decided = 9000" by code_simp
  moreover have "hd (runs sim_decided) \<in> set (runs sim_decided)" by (simp add: sim_decided_def)
  ultimately show ?thesis using simulation_never_overdrawn [OF sim_reached(2)] by blast
qed

text \<open>
  The bankroll the database sums is the one recomputed from the journal, as long as the
  amounts of the journal can be read and the totals are safe integers.
\<close>

lemma bankroll_agrees:
  assumes "list_all readable_row (run_decisions (run_id r) d)"
    and "is_safe_integer (sum_cents dec_profit Dec_COMPLETED (run_decisions (run_id r) d))"
    and "is_safe_integer (sum_cents dec_stake Dec_ORDER_RESERVED (run_decisions (run_id r) d))"
  shows "bankrollOf r d = bankrollFromJournal (run_initialBankroll r) (run_decisions (run_id r) d)"
  using assms
  by (simp add: bankrollOf_def bankrollFromJournal_def toCents_decimal_text journal_totals_readable
      sum_cents_profit sum_cents_stake)

lemma bankroll_agrees_witness:
  "bankrollOf sim_run sim_decided = bankrollFromJournal (run_initialBankroll sim_run) (run_decisions (run_id sim_run) sim_decided)
    \<and> length (run_decisions (run_id sim_run) sim_decided) = 1"
proof
  show "bankrollOf sim_run sim_decided = bankrollFromJournal (run_initialBankroll sim_run) (run_decisions (run_id sim_run) sim_decided)"
    by (rule bankroll_agrees) code_simp+
  show "length (run_decisions (run_id sim_run) sim_decided) = 1" by code_simp
qed

section \<open>Ticks\<close>

text \<open>
  C13: once a run is stopped no tick decides anything for it, even a tick that had read its
  signals before the stop: no decision is added and none is lost.
\<close>

lemma stopped_run_decides_nothing:
  assumes "stop_simulation e i d = (Inr run, d1)"
    and "tick_body sha snapshots fixtures idFor strategy signals i now d1 = Inr (Some k, d2)"
  shows "tk_decided k = 0 \<and> List.map dec_id (decisions d2) = List.map dec_id (decisions d1)"
  using stop_leaves_stopped [OF assms(1)] tick_stopped [OF assms(2)] by blast

definition sim_stopped :: "simulation_run res \<times> db" where
  "sim_stopped = stop_simulation sample_env ''r1'' sim_started"

definition sim_late :: "(tick_counts option \<times> db) res" where
  "sim_late = tick_body sim_sha [sim_snapshot] [] (\<lambda>k. ''d1'') sample_strategy [sim_signal] ''r1'' 2000000 (snd sim_stopped)"

lemma stopped_run_decides_nothing_witness:
  "\<exists>k d2. sim_late = Inr (Some k, d2) \<and> tk_decided k = 0"
proof -
  have "case fst sim_stopped of Inl _ \<Rightarrow> False | Inr _ \<Rightarrow> True"
    and "case sim_late of Inl _ \<Rightarrow> False | Inr (k, _) \<Rightarrow> k \<noteq> None" by code_simp+
  then obtain run k d2 where stopped: "sim_stopped = (Inr run, snd sim_stopped)" and late: "sim_late = Inr (Some k, d2)"
    by (auto simp: prod_eq_iff split: sum.splits)
  have "tk_decided k = 0"
    using stopped_run_decides_nothing [of sample_env "''r1''" sim_started run "snd sim_stopped"]
      stopped late by (simp add: sim_stopped_def sim_late_def)
  with late show ?thesis by blast
qed



text \<open>
  A tick quotes as if it had read every snapshot: for an open order whose latency has elapsed,
  and for a signal, the quote chosen among the candidates it loads is the one chosen among all the
  executable snapshots of the table.
\<close>

lemma tick_sees_every_quote:
  assumes "r \<in> set opened" and "dec_executionDueAt r = Some due" and "due \<le> now"
    and "s \<in> set (evaluateLiveSignals ld clock config)"
  shows "tick_select snapshots risk (evaluateLiveSignals ld clock config) opened now (execution_target r) due
      = selectLatest (all_candidates snapshots)
          \<lparr>ql_target = execution_target r, ql_at = due, ql_maxQuoteAgeMs = rk_maxQuoteAgeMs risk\<rparr>
    \<and> tick_select snapshots risk (evaluateLiveSignals ld clock config) opened now (ls_quoteTarget s) now
      = selectLatest (all_candidates snapshots)
          \<lparr>ql_target = ls_quoteTarget s, ql_at = now, ql_maxQuoteAgeMs = rk_maxQuoteAgeMs risk\<rparr>"
  using tick_select_open [OF assms(1-3)] tick_select_signal [OF assms(4) evaluateLiveSignals_target [OF assms(4)]]
  by blast

definition sim_waiting :: bet_decision where
  "sim_waiting = sample_decision\<lparr>dec_executionDueAt := Some 2000000\<rparr>"

lemma tick_sees_every_quote_witness:
  "tick_select [sim_snapshot] sample_risk (evaluateLiveSignals (live_evening 9) 2000000 default_config) [sim_waiting]
      2000000 (execution_target sim_waiting) 2000000
    = selectLatest (all_candidates [sim_snapshot])
        \<lparr>ql_target = execution_target sim_waiting, ql_at = 2000000, ql_maxQuoteAgeMs = 120000\<rparr>
    \<and> evaluateLiveSignals (live_evening 9) 2000000 default_config \<noteq> []"
proof -
  have "evaluateLiveSignals (live_evening 9) 2000000 default_config \<noteq> []"
    using live_evaluated(2) by (cases "evaluateLiveSignals (live_evening 9) 2000000 default_config") simp_all
  then show ?thesis
    using tick_sees_every_quote [of sim_waiting "[sim_waiting]" 2000000 2000000
        "hd (evaluateLiveSignals (live_evening 9) 2000000 default_config)" "live_evening 9" 2000000 default_config]
    by (simp add: sim_waiting_def sample_risk_def)
qed

section \<open>Reading a run\<close>

text \<open>
  C36: following the cursors of the decisions of a run ends, and the pages, put together, are all the
  decisions that pass the filters, newest first, each exactly once.
\<close>

lemma pages_are_complete:
  assumes "get_simulation_run i d = Inr run" and "distinct (List.map dec_id (decisions d))"
    and "length (decisions d) < fuel" and "df_cursor f = None"
  shows "all_pages fuel i f d = Inr (newest_first (filter (passes f) (run_decisions i d)))"
proof (rule all_pages_from [OF assms(1) _ refl])
  have "distinct (List.map dec_id (filter (passes f) (run_decisions i d)))"
    using assms(2) by (simp add: run_decisions_def distinct_map_filter)
  then show "sorted_wrt (\<lambda>a b. (dec_decidedAt b, dec_id b) < (dec_decidedAt a, dec_id a))
      (newest_first (filter (passes f) (run_decisions i d)))" by (rule newest_first_decreasing)
  show "filter (after_cursor (df_cursor f)) (newest_first (filter (passes f) (run_decisions i d)))
      = newest_first (filter (passes f) (run_decisions i d))" by (simp add: assms(4) after_cursor_def)
  show "length (newest_first (filter (passes f) (run_decisions i d))) < fuel"
    using assms(3) le_less_trans [OF length_filter_le [of "\<lambda>r. dec_simulationRunId r = i \<and> passes f r" "decisions d"]]
    by (simp add: newest_first_def run_decisions_def conj_commute)
qed

definition sim_two :: db where
  "sim_two = sample_db\<lparr>decisions := [sample_decision, sample_decision\<lparr>dec_id := ''d2'', dec_idempotencyKey := ''i2''\<rparr>]\<rparr>"

definition one_per_page :: decision_filters where
  "one_per_page = \<lparr>df_cursor = None, df_limit = 0, df_status = None, df_marketType = None, df_from = None, df_to = None\<rparr>"

lemma pages_are_complete_witness:
  "all_pages 3 ''r1'' one_per_page sim_two = Inr (newest_first (filter (passes one_per_page) (run_decisions ''r1'' sim_two)))
    \<and> length (newest_first (filter (passes one_per_page) (run_decisions ''r1'' sim_two))) = 2"
proof -
  have "length (newest_first (filter (passes one_per_page) (run_decisions ''r1'' sim_two))) = 2" by code_simp
  moreover have "get_simulation_run ''r1'' sim_two = Inr sample_run"
    by (simp add: get_simulation_run_def sim_two_def sample_db_def sample_run_def)
  ultimately show ?thesis
    using pages_are_complete [of "''r1''" sim_two sample_run 3 one_per_page]
    by (simp add: sim_two_def sample_decision_def one_per_page_def)
qed

text \<open>
  The report of a run adds up: available and engaged amounts make the equity, which is the initial
  bankroll and the realised profit; every decision is counted under one status; the rates are
  percentages and the drawdown is not negative.
\<close>

lemma report_adds_up:
  assumes "summary i d = Inr s"
  shows "cents_of (sm_available s) + cents_of (sm_openExposure s) = cents_of (sm_equity s)
    \<and> cents_of (sm_equity s) = cents_of (sm_initial s) + cents_of (sm_realized s)
    \<and> (\<Sum>x\<leftarrow>sm_byStatus s. snd x) = sm_total s
    \<and> sm_won s + sm_lost s + sm_void s + sm_noResult s \<le> sm_settledTotal s
    \<and> (\<forall>x. sm_hitRatePct s = Some x \<longrightarrow> 0 \<le> x \<and> x \<le> 100)
    \<and> (\<forall>x. sm_coveragePct s = Some x \<longrightarrow> 0 \<le> x \<and> x \<le> 100)
    \<and> 0 \<le> sm_maxDrawdownPct s"
proof -
  obtain run b w initial available exposure equity realized turnover where
    b: "bankrollFromJournal (run_initialBankroll run) (run_decisions i d) = Inr b"
    and w: "walk (settled_decisions (run_decisions i d))
              \<lparr>ew_turnover = 0, ew_equity = bk_initialCents b, ew_peak = bk_initialCents b, ew_drawdown = 0\<rparr> = Inr w"
    and texts: "fromCents (bk_initialCents b) = Inr initial" "fromCents (bk_availableCents b) = Inr available"
      "fromCents (bk_openExposureCents b) = Inr exposure"
      "fromCents (bk_initialCents b + bk_realizedProfitCents b) = Inr equity"
      "fromCents (bk_realizedProfitCents b) = Inr realized"
    and s: "s = report_of run (run_decisions i d) b w initial available exposure equity realized turnover"
    using assms by (auto simp: summary_def summarizeJournal_def bindE_eq_Inr)
  have cents: "cents_of initial = bk_initialCents b" "cents_of available = bk_availableCents b"
      "cents_of exposure = bk_openExposureCents b"
      "cents_of equity = bk_initialCents b + bk_realizedProfitCents b" "cents_of realized = bk_realizedProfitCents b"
    using texts by (simp_all add: cents_of_toCents)
  have avail: "bk_availableCents b + bk_openExposureCents b = bk_initialCents b + bk_realizedProfitCents b"
    using bankrollFromJournal_value [OF b] by (simp add: bankroll_state_of_def)
  have "of_int 0 \<le> ew_drawdown w" using walk_value [OF w] by simp
  then have "of_int 0 \<le> round_to 2 (ew_drawdown w)" by (metis round_to_mono round_to_of_int)
  moreover have "length (covered_signals (run_decisions i d)) \<le> length (uniq (List.map dec_signalKey (run_decisions i d)))"
    by (simp add: covered_signals_def)
  ultimately show ?thesis
    using outcome_counts [of "settled_decisions (run_decisions i d)"]
    by (auto simp: s report_of_def Let_def cents avail tally_total dest: percent_bounds)
qed

lemma report_adds_up_witness:
  "\<exists>s. summary ''r1'' sim_settled = Inr s \<and> cents_of (sm_available s) + cents_of (sm_openExposure s) = cents_of (sm_equity s)
     \<and> sm_equity s = ''110.00''"
proof -
  have "case summary ''r1'' sim_settled of Inl _ \<Rightarrow> False | Inr s \<Rightarrow> sm_equity s = ''110.00''" by code_simp
  then obtain s where "summary ''r1'' sim_settled = Inr s" "sm_equity s = ''110.00''" by (auto split: sum.splits)
  with report_adds_up [of "''r1''" sim_settled s] show ?thesis by blast
qed

section \<open>Outcomes\<close>

text \<open>
  A goal scored in the first half wins the first-half bet while the half is played; the same goal
  does not when the match is interrupted before the break: the bet is refunded.
\<close>

lemma first_half_goal_refunded:
  assumes "0 < n" and "status \<in> set void_statuses"
  shows "resolveSettlement \<lparr>rb_marketType = ''Buts 1ere mi-temps'', rb_isHomeTeam = True\<rparr>
      \<lparr>fs_statusShort = ''1H'', fs_scoreHome = Some n, fs_scoreAway = a, fs_htScoreHome = None, fs_htScoreAway = None\<rparr> = Some WON
    \<and> resolveSettlement \<lparr>rb_marketType = ''Buts 1ere mi-temps'', rb_isHomeTeam = True\<rparr>
      \<lparr>fs_statusShort = status, fs_scoreHome = Some n, fs_scoreAway = a, fs_htScoreHome = None, fs_htScoreAway = None\<rparr> = Some VOID"
  using assms
  by (simp add: resolveSettlement_def resolveOutcome_def Let_def void_statuses_def first_half_statuses_def
      post_ht_statuses_def scored_def)

lemma first_half_goal_refunded_witness:
  "resolveSettlement \<lparr>rb_marketType = ''Buts 1ere mi-temps'', rb_isHomeTeam = True\<rparr>
      \<lparr>fs_statusShort = ''INT'', fs_scoreHome = Some 1, fs_scoreAway = None, fs_htScoreHome = None, fs_htScoreAway = None\<rparr> = Some VOID"
  by (rule first_half_goal_refunded [THEN conjunct2]) (simp_all add: void_statuses_def)

text \<open>
  A halftime score sent as \<open>null\<close> is read as zero: at the break the first-half bet is lost
  instead of waiting for the score.
\<close>

theorem null_halftime_score_loses:
  "extractHtScore (JObj [(''match_hometeam_halftime_score'', JNull)]) True = Some (Num 0)
   \<and> extractHtScore (JObj [(''match_hometeam_halftime_score'', JStr [])]) True = None
   \<and> resolveSettlement \<lparr>rb_marketType = ''Buts 1ere mi-temps'', rb_isHomeTeam = True\<rparr>
       (finalStateOf (f\<lparr>fx_statusShort := Some ''HT'',
          fx_raw := JObj [(''match_hometeam_halftime_score'', JNull)]\<rparr>)) = Some LOST"
  by (simp add: extractHtScore_def finite_or_infinite_def finalStateOf_def resolveSettlement_def resolveOutcome_def
      void_statuses_def first_half_statuses_def post_ht_statuses_def Let_def)

section \<open>The paper operator\<close>

text \<open>
  C37: an acceptance of the paper operator always passes the guard of the pipeline: whatever book it
  has reached, its identifier, odd, stake, date and receipt hash are complete and well formed.
\<close>

lemma paper_replies_well_formed:
  assumes "desk.reach book" and "stake_text (po_stake input)" and "\<And>t. hash_text (sha t)"
    and "paper_placeOrder sha pe input book = (Inr (PlaceAccepted a), book')"
  shows "isWellFormedAcceptance (PlaceAccepted a)"
  using paper_placeOrder_ok(2) [OF assms(4) desk.reach_inv [OF assms(1)] assms(2,3)] by simp

definition paper_request :: place_order_request where
  "paper_request = \<lparr>po_decisionId = ''d1'', po_idempotencyKey = ''k1'', po_operatorKey = ''paper'', po_fixtureId = ''f1'',
     po_providerFixtureId = ''77'', po_marketKey = ''TEAM_GOALS_FT'', po_selectionKey = ''HOME_OVER_0.5'',
     po_requestedOdd = 2, po_minimumOdd = 3 / 2, po_stake = ''5.00'', po_currency = ''EUR'', po_quoteCapturedAt = 1990000\<rparr>"

definition paper_world :: paper_env where
  "paper_world = \<lparr>pe_snapshots = [sim_snapshot], pe_fixtures = [sim_fixture], pe_now = 2000000\<rparr>"

definition paper_booked :: "place_order_result res \<times> paper" where
  "paper_booked = paper_placeOrder sample_sha paper_world paper_request []"

lemma sample_sha_hash: "hash_text (sample_sha t)"
  by (simp add: sample_sha_def hash_text_def is_hex_def list_all_iff)

lemma paper_stake: "stake_text (po_stake paper_request)" by code_simp

lemma paper_booked_result: "\<exists>a. paper_booked = (Inr (PlaceAccepted a), snd paper_booked)"
proof -
  have "case fst paper_booked of Inr (PlaceAccepted a) \<Rightarrow> True | _ \<Rightarrow> False" by code_simp
  then show ?thesis by (auto simp: prod_eq_iff split: sum.splits place_order_result.splits)
qed

lemma paper_replies_well_formed_witness:
  "\<exists>a. fst paper_booked = Inr (PlaceAccepted a) \<and> isWellFormedAcceptance (PlaceAccepted a)"
proof -
  obtain a where a: "paper_booked = (Inr (PlaceAccepted a), snd paper_booked)" using paper_booked_result by blast
  have "desk.reach []" by (rule desk.reach_init) simp
  from paper_replies_well_formed [OF this paper_stake sample_sha_hash a [unfolded paper_booked_def]] a
  show ?thesis by (metis fst_conv)
qed

text \<open>
  C5: the paper operator implements a book of bets: seen as odds, stakes and payouts by key, placing
  an order adds an open bet under a new key at the odd quoted, or changes nothing, and a lookup
  that answers settles exactly the open bets among its keys whose match is decided.
\<close>

lemma paper_refines_bets:
  assumes "desk.reach book" and "paper_getOrdersByIdempotencyKeys pe keys book = (Inr out, book')"
  shows "bets_of (snd (paper_placeOrder sha pe input book)) = place_bet (placement_quote pe input) input (bets_of book)
    \<and> bets_of book' = settle_bets (pe_fixtures pe) keys (bets_of book)"
  using paper_place_refines paper_lookup_settles(1) [OF desk.reach_inv [OF assms(1)] assms(2)] by blast

lemma paper_refines_bets_witness:
  "\<exists>out. paper_getOrdersByIdempotencyKeys paper_world [''k1''] (snd paper_booked)
      = (Inr out, snd (paper_getOrdersByIdempotencyKeys paper_world [''k1''] (snd paper_booked)))
    \<and> bets_of (snd (paper_getOrdersByIdempotencyKeys paper_world [''k1''] (snd paper_booked)))
      = settle_bets [sim_fixture] [''k1''] (bets_of (snd paper_booked))"
proof -
  obtain a where a: "paper_booked = (Inr (PlaceAccepted a), snd paper_booked)" using paper_booked_result by blast
  have "desk.reach (snd paper_booked)"
  proof (rule desk.reach_step)
    show "desk.reach []" by (rule desk.reach_init) simp
    show "paper_step [] (snd paper_booked)"
      using a unfolding paper_booked_def by (rule paper_place [OF paper_stake sample_sha_hash])
  qed
  moreover have "case fst (paper_getOrdersByIdempotencyKeys paper_world [''k1''] (snd paper_booked)) of Inl _ \<Rightarrow> False | Inr _ \<Rightarrow> True"
    by code_simp
  then obtain out where out: "paper_getOrdersByIdempotencyKeys paper_world [''k1''] (snd paper_booked)
      = (Inr out, snd (paper_getOrdersByIdempotencyKeys paper_world [''k1''] (snd paper_booked)))"
    by (auto simp: prod_eq_iff split: sum.splits)
  ultimately have "bets_of (snd (paper_getOrdersByIdempotencyKeys paper_world [''k1''] (snd paper_booked)))
      = settle_bets (pe_fixtures paper_world) [''k1''] (bets_of (snd paper_booked))"
    using paper_refines_bets by blast
  then show ?thesis using out by (auto simp: paper_world_def)
qed

end
