(* ===== verification/LiveProperties.thy ===== *)
theory LiveProperties
  imports LiveSamples
begin

text \<open>
  The claims about the live rules, the settings that configure them, the signals and the coupons.
\<close>

section \<open>The rules\<close>




section \<open>The coupons\<close>

text \<open>
  C15: a suggestion becomes a coupon once: over any sequence of evaluations and resolutions, with
  first-half windows that end by minute 45, no two coupons have the same match, team and market; a
  coupon is never lost, keeps its terms, and once won or lost stays exactly as it is.
\<close>

lemma coupons_created_once:
  assumes "live.reach b" and "live.run b b'"
  shows "distinct (List.map coupon_key (lb_coupons b'))
    \<and> length (lb_coupons b) \<le> length (lb_coupons b')
    \<and> (\<forall>i < length (lb_coupons b). coupon_kept (lb_coupons b ! i) (lb_coupons b' ! i))"
  using live.reach_inv [OF live.run_reach [OF assms(2,1)]] live_run_grows [OF assms(2,1)]
  by (simp add: book_ok_def book_grows_def)

lemma coupons_created_once_witness:
  "length (lb_coupons saved_book) = 1
    \<and> distinct (List.map coupon_key (lb_coupons (resolveSettledCoupons [live_match 9] 2000001 saved_book)))"
proof -
  have "live.reach empty_book" by (rule live.reach_init) (simp add: live_init_def empty_book_def)
  moreover have ok: "fixtures_ok (ld_fixtures (live_evening 9))" "windows_apart (getConfig None)" by code_simp+
  ultimately have "live.reach saved_book"
    unfolding saved_book_def by (blast intro: live.reach_step live_evaluate)
  moreover have "live.run saved_book (resolveSettledCoupons [live_match 9] 2000001 saved_book)"
    by (rule live.run_step [OF live.run_refl live_resolve])
  moreover have "length (lb_coupons saved_book) = 1" using arg_cong [OF live_evaluated(4), of length] by simp
  ultimately show ?thesis using coupons_created_once by blast
qed

section \<open>Where the rules are wrong\<close>

text \<open>
  The two halves are evaluated on both lists of fixtures. A configuration the controller accepts,
  with a first-half window that goes beyond minute 45, raises first-half signals in the second half,
  each of them twice, and a second-half signal although no shot was taken since the break: the list
  of the first half has no halftime baseline.
\<close>

theorem wide_window_counts_twice:
  "put_rules wide_update None = Inr (wide_config, Some wide_config)
   \<and> List.map signal_key (evaluateLiveSignals (live_evening 50) 2000000 wide_config)
     = [(''f1'', Some 1, ''Buts 1ere mi-temps''), (''f1'', Some 1, ''Buts match''), (''f1'', Some 1, ''Buts 2eme mi-temps''),
        (''f1'', Some 1, ''Buts 1ere mi-temps''), (''f1'', Some 1, ''Buts match'')]"
  using live_evaluated(5-7) by (simp add: evaluateLiveSignals_def)

text \<open>
  A goal of the second half wins a first-half bet while the match is live: the provider reports
  the same status, \<open>LIVE\<close>, in both halves. The same bet, on the same scores, is lost once the match
  is over.
\<close>

lemma second_half_goal_wins_first_half_bet:
  assumes "0 < n"
  shows "resolveSettlement \<lparr>rb_marketType = ''Buts 1ere mi-temps'', rb_isHomeTeam = True\<rparr>
      \<lparr>fs_statusShort = ''LIVE'', fs_scoreHome = Some n, fs_scoreAway = a, fs_htScoreHome = Some (Num 0), fs_htScoreAway = b\<rparr> = Some WON
    \<and> resolveSettlement \<lparr>rb_marketType = ''Buts 1ere mi-temps'', rb_isHomeTeam = True\<rparr>
      \<lparr>fs_statusShort = ''FT'', fs_scoreHome = Some n, fs_scoreAway = a, fs_htScoreHome = Some (Num 0), fs_htScoreAway = b\<rparr> = Some LOST"
  using assms
  by (simp add: resolveSettlement_def resolveOutcome_def Let_def void_statuses_def first_half_statuses_def
      post_ht_statuses_def scored_def)

lemma second_half_goal_wins_first_half_bet_witness:
  "resolveSettlement \<lparr>rb_marketType = ''Buts 1ere mi-temps'', rb_isHomeTeam = True\<rparr>
      \<lparr>fs_statusShort = ''LIVE'', fs_scoreHome = Some 1, fs_scoreAway = None, fs_htScoreHome = Some (Num 0), fs_htScoreAway = None\<rparr> = Some WON"
  by (rule second_half_goal_wins_first_half_bet [THEN conjunct1]) simp

end
