(* ===== verification/Kpis.thy ===== *)
theory Kpis
  imports Database Values
begin

text \<open>
  Staking and indicators of a backtest (\<open>backtest/kpis-calculator.ts\<close>, \<open>backtest/backtest.types.ts\<close>).
  The doubles of the code are exact rationals; only the confidence interval, which takes a square
  root, is over the reals.
\<close>

section \<open>Types\<close>

record decided_bet =
  bt_fixtureId :: string
  bt_providerFixtureId :: string
  bt_marketType :: string
  bt_selection :: string
  bt_ruleName :: "string option"
  bt_teamId :: "int option"
  bt_isHomeTeam :: bool
  bt_decisionAt :: int
  bt_elapsedAtDecision :: "int option"
  bt_oddAtDecision :: rat
  bt_quotedOdd :: rat
  bt_oddSource :: string
  bt_edgePct :: "rat option"
  bt_confidenceScore :: "int option"
  bt_outcome :: decision_outcome

record staked_bet = decided_bet +
  bt_stake :: rat
  bt_profit :: rat
  bt_placed :: bool

datatype signal_stage =
  NO_QUOTE_AT_DECISION | BELOW_MIN_ODD_AT_DECISION | NO_QUOTE_AT_EXECUTION | BELOW_MIN_ODD_AT_EXECUTION | PLACED

record signal_record =
  sr_fixtureId :: string
  sr_marketType :: string
  sr_firstSignalAt :: int
  sr_stage :: signal_stage

record signal_accounting =
  sa_signals :: nat
  sa_noQuoteAtDecision :: nat
  sa_belowMinOddAtDecision :: nat
  sa_noQuoteAtExecution :: nat
  sa_belowMinOddAtExecution :: nat
  sa_placed :: nat
  sa_oddsCoveragePct :: "rat option"

record market_yield =
  my_bets :: nat
  my_roiPct :: rat
  my_hitRate :: rat

record backtest_kpis =
  kp_betCount :: nat
  kp_wonBets :: nat
  kp_lostBets :: nat
  kp_noResultBets :: nat
  kp_voidBets :: nat
  kp_hitRate :: rat
  kp_roiPct :: rat
  kp_yieldByMarket :: "(string \<times> market_yield) list"
  kp_maxDrawdownPct :: rat
  kp_avgRealizedEdgePct :: rat
  kp_finalBankroll :: rat
  kp_totalStaked :: rat
  kp_netProfit :: rat
  kp_bankrollSkippedBets :: nat
  kp_avgSlippagePct :: "rat option"
  kp_roiCi95 :: "(real \<times> real) option"

section \<open>Arithmetic\<close>

definition round2 :: "rat \<Rightarrow> rat" where
  "round2 n = of_int (js_round (n * 100)) / 100"

definition round2_real :: "real \<Rightarrow> real" where
  "round2_real n = of_int \<lfloor>n * 100 + 1 / 2\<rfloor> / 100"

definition mean_of :: "rat list \<Rightarrow> rat" where
  "mean_of values = sum_list values / of_nat (length values)"

definition sample_variance :: "rat list \<Rightarrow> rat" where
  "sample_variance returns =
     sum_list (List.map (\<lambda>v. (v - mean_of returns) ^ 2) returns) / of_nat (length returns - 1)"

definition confidenceInterval95 :: "rat list \<Rightarrow> (real \<times> real) option" where
  "confidenceInterval95 returns =
     (if length returns < 2 then None
      else let average = real_of_rat (mean_of returns);
               margin = 196 / 100 * sqrt (real_of_rat (sample_variance returns / of_nat (length returns)))
           in Some (round2_real ((average - margin) * 100), round2_real ((average + margin) * 100)))"

section \<open>Staking\<close>

text \<open>The tally of a market, in the order in which the markets first occur.\<close>

record market_tally =
  mt_bets :: nat
  mt_won :: nat
  mt_lost :: nat
  mt_staked :: rat
  mt_profit :: rat

record staking =
  sk_bankroll :: rat
  sk_peak :: rat
  sk_maxDrawdownPct :: rat
  sk_totalStaked :: rat
  sk_netProfit :: rat
  sk_staked :: "staked_bet list"
  sk_unitReturns :: "rat list"
  sk_byMarket :: "(string \<times> market_tally) list"

definition with_risk :: "decision_outcome \<Rightarrow> bool" where
  "with_risk r = (r = WON \<or> r = LOST)"

definition requested_stake :: "backtest_strategy \<Rightarrow> rat \<Rightarrow> rat" where
  "requested_stake strategy bankroll =
     (case bs_stakingType strategy of
        PERCENT_BANKROLL \<Rightarrow> bankroll * bs_stakingAmount strategy / 100
      | FLAT \<Rightarrow> bs_stakingAmount strategy)"

definition stake_of :: "backtest_strategy \<Rightarrow> rat \<Rightarrow> rat" where
  "stake_of strategy bankroll = max 0 (min (requested_stake strategy bankroll) bankroll)"

definition profit_of :: "decided_bet \<Rightarrow> rat \<Rightarrow> rat" where
  "profit_of bet stake =
     (if stake > 0 \<and> bt_outcome bet = WON then (bt_oddAtDecision bet - 1) * stake
      else if stake > 0 \<and> bt_outcome bet = LOST then - stake
      else 0)"

definition tally_market :: "decided_bet \<Rightarrow> rat \<Rightarrow> rat \<Rightarrow> market_tally \<Rightarrow> market_tally" where
  "tally_market bet stake profit m =
     \<lparr>mt_bets = mt_bets m + 1,
      mt_won = mt_won m + (if bt_outcome bet = WON then 1 else 0),
      mt_lost = mt_lost m + (if bt_outcome bet = LOST then 1 else 0),
      mt_staked = mt_staked m + (if with_risk (bt_outcome bet) then stake else 0),
      mt_profit = mt_profit m + (if with_risk (bt_outcome bet) then profit else 0)\<rparr>"

fun tally_in :: "string \<Rightarrow> (market_tally \<Rightarrow> market_tally) \<Rightarrow> (string \<times> market_tally) list \<Rightarrow> (string \<times> market_tally) list" where
  "tally_in k f [] = [(k, f \<lparr>mt_bets = 0, mt_won = 0, mt_lost = 0, mt_staked = 0, mt_profit = 0\<rparr>)]"
| "tally_in k f ((l, m) # ms) = (if l = k then (l, f m) # ms else (l, m) # tally_in k f ms)"

definition stake_bet :: "backtest_strategy \<Rightarrow> decided_bet \<Rightarrow> staking \<Rightarrow> staking" where
  "stake_bet strategy bet k =
     (let stake = stake_of strategy (sk_bankroll k);
          placed = (stake > 0);
          profit = profit_of bet stake;
          settled = (placed \<and> with_risk (bt_outcome bet));
          bankroll = (if settled then sk_bankroll k + profit else sk_bankroll k);
          peak = (if settled then max (sk_peak k) bankroll else sk_peak k)
      in \<lparr>sk_bankroll = bankroll, sk_peak = peak,
          sk_maxDrawdownPct =
            (if settled \<and> peak > 0 then max (sk_maxDrawdownPct k) ((peak - bankroll) / peak * 100)
             else sk_maxDrawdownPct k),
          sk_totalStaked = (if settled then sk_totalStaked k + stake else sk_totalStaked k),
          sk_netProfit = (if settled then sk_netProfit k + profit else sk_netProfit k),
          sk_staked = sk_staked k @ [decided_bet.extend bet (staked_bet.fields stake profit placed)],
          sk_unitReturns = (if settled then sk_unitReturns k @ [profit / stake] else sk_unitReturns k),
          sk_byMarket =
            (if placed then tally_in (bt_marketType bet) (tally_market bet stake profit) (sk_byMarket k)
             else sk_byMarket k)\<rparr>)"

definition initial_staking :: "backtest_strategy \<Rightarrow> staking" where
  "initial_staking strategy =
     \<lparr>sk_bankroll = max 0 (bs_bankroll strategy), sk_peak = max 0 (bs_bankroll strategy), sk_maxDrawdownPct = 0,
      sk_totalStaked = 0, sk_netProfit = 0, sk_staked = [], sk_unitReturns = [], sk_byMarket = []\<rparr>"

definition stake_all :: "backtest_strategy \<Rightarrow> decided_bet list \<Rightarrow> staking" where
  "stake_all strategy bets =
     fold (stake_bet strategy) (sort_key bt_decisionAt bets) (initial_staking strategy)"

section \<open>Indicators\<close>

definition bets_with :: "decision_outcome \<Rightarrow> staked_bet list \<Rightarrow> nat" where
  "bets_with r bets = length (filter (\<lambda>b. bt_outcome b = r) bets)"

definition rate_pct :: "rat \<Rightarrow> rat \<Rightarrow> rat" where
  "rate_pct part whole = (if whole > 0 then round2 (part / whole * 100) else 0)"

definition yield_of :: "market_tally \<Rightarrow> market_yield" where
  "yield_of m =
     \<lparr>my_bets = mt_bets m, my_roiPct = rate_pct (mt_profit m) (mt_staked m),
      my_hitRate = rate_pct (of_nat (mt_won m)) (of_nat (mt_won m + mt_lost m))\<rparr>"

definition slippage_of :: "staked_bet \<Rightarrow> rat" where
  "slippage_of b = (bt_oddAtDecision b - bt_quotedOdd b) / bt_quotedOdd b * 100"

definition kpis_of :: "staking \<Rightarrow> backtest_kpis" where
  "kpis_of k =
     (let placedBets = filter bt_placed (sk_staked k);
          won = bets_with WON placedBets;
          lost = bets_with LOST placedBets;
          edges = List.map_filter bt_edgePct (filter (\<lambda>b. with_risk (bt_outcome b)) placedBets);
          slippages = List.map slippage_of (filter (\<lambda>b. bt_quotedOdd b > 0) placedBets)
      in \<lparr>kp_betCount = length placedBets, kp_wonBets = won, kp_lostBets = lost,
          kp_noResultBets = bets_with NO_RESULT placedBets, kp_voidBets = bets_with VOID placedBets,
          kp_hitRate = rate_pct (of_nat won) (of_nat (won + lost)),
          kp_roiPct = rate_pct (sk_netProfit k) (sk_totalStaked k),
          kp_yieldByMarket = List.map (\<lambda>(market, m). (market, yield_of m)) (sk_byMarket k),
          kp_maxDrawdownPct = round2 (sk_maxDrawdownPct k),
          kp_avgRealizedEdgePct = (if edges \<noteq> [] then round2 (mean_of edges) else 0),
          kp_finalBankroll = round2 (sk_bankroll k), kp_totalStaked = round2 (sk_totalStaked k),
          kp_netProfit = round2 (sk_netProfit k),
          kp_bankrollSkippedBets = length (sk_staked k) - length placedBets,
          kp_avgSlippagePct = (if slippages \<noteq> [] then Some (round2 (mean_of slippages)) else None),
          kp_roiCi95 = confidenceInterval95 (sk_unitReturns k)\<rparr>)"

definition applyStakingAndComputeKpis :: "decided_bet list \<Rightarrow> backtest_strategy \<Rightarrow> staked_bet list \<times> backtest_kpis" where
  "applyStakingAndComputeKpis bets strategy =
     (let k = stake_all strategy bets in (sk_staked k, kpis_of k))"

definition summarizeSignals :: "signal_record list \<Rightarrow> signal_accounting" where
  "summarizeSignals signals =
     (let count = (\<lambda>stage. length (filter (\<lambda>s. sr_stage s = stage) signals));
          covered = of_nat (length signals) - of_nat (count NO_QUOTE_AT_DECISION) - of_nat (count NO_QUOTE_AT_EXECUTION)
      in \<lparr>sa_signals = length signals, sa_noQuoteAtDecision = count NO_QUOTE_AT_DECISION,
          sa_belowMinOddAtDecision = count BELOW_MIN_ODD_AT_DECISION,
          sa_noQuoteAtExecution = count NO_QUOTE_AT_EXECUTION,
          sa_belowMinOddAtExecution = count BELOW_MIN_ODD_AT_EXECUTION, sa_placed = count PLACED,
          sa_oddsCoveragePct =
            (if signals \<noteq> [] then Some (round2 (covered / of_nat (length signals) * 100)) else None)\<rparr>)"

end
