(* ===== verification/Backtest.thy ===== *)
theory Backtest
  imports Kpis Signals
begin

text \<open>
  The replay of a strategy on the recorded data (\<open>backtest/backtest-engine.service.ts\<close>,
  \<open>backtest/baseline.strategy.ts\<close>): the snapshots of each match in chronological order, the decision
  at each tick, the quote taken after the latency, the settlement on the final state. SHA-256 of the
  canonical JSON of a value is the parameter \<open>hash\<close>.
\<close>

section \<open>Recorded data\<close>

record fixture_event =
  ev_fixtureId :: string
  ev_teamId :: "int option"
  ev_minute :: "int option"
  ev_eventType :: "string option"

record history =
  hs_fixtures :: "fixture list"
  hs_stats :: "stats_snapshot list"
  hs_events :: "fixture_event list"
  hs_odds :: "odds_snapshot list"

record replay_result =
  rr_bets :: "decided_bet list"
  rr_signals :: "signal_record list"
  rr_datasetHash :: string

definition baselineStrategy :: "smart_rules_config \<Rightarrow> backtest_strategy" where
  "baselineStrategy entryRules =
     \<lparr>bs_name = ''baseline-shots-pressure'', bs_version = ''1.0.0'', bs_entryRules = entryRules,
      bs_markets = [''Buts 1ere mi-temps'', ''Buts match'', ''Buts 2eme mi-temps''],
      bs_minEdgePct = 0, bs_minConfidence = 0, bs_stakingType = FLAT, bs_stakingAmount = 1,
      bs_odds = \<lparr>so_source = [''ODDS_SNAPSHOT''], so_executionLatencyMs = 30000, so_maxQuoteAgeMs = None,
                 so_bookmakerKey = None\<rparr>,
      bs_bankroll = 100\<rparr>"

section \<open>The memory of a match\<close>

text \<open>One accumulator per signal, for the match and for its first half; the newest entry of a team first.\<close>

type_synonym team_values = "(int \<times> js_number) list"

record tick_memory =
  tm_tickAt :: "int option"
  tm_tickElapsed :: "int option"
  tm_shots :: team_values
  tm_onTarget :: team_values
  tm_pressure :: team_values
  tm_htShots :: team_values
  tm_htOnTarget :: team_values
  tm_htPressure :: team_values

definition empty_memory :: tick_memory where
  "empty_memory =
     \<lparr>tm_tickAt = None, tm_tickElapsed = None, tm_shots = [], tm_onTarget = [], tm_pressure = [],
      tm_htShots = [], tm_htOnTarget = [], tm_htPressure = []\<rparr>"

definition remember :: "int \<Rightarrow> js_number option \<Rightarrow> bool \<Rightarrow> team_values \<Rightarrow> team_values" where
  "remember teamId v when vs = (case v of Some n \<Rightarrow> if when then (teamId, n) # vs else vs | None \<Rightarrow> vs)"

definition absorb :: "stats_snapshot \<Rightarrow> tick_memory \<Rightarrow> tick_memory" where
  "absorb snap m =
     (let m = m\<lparr>tm_tickAt := Some (sn_snapshotAt snap),
                tm_tickElapsed := (case sn_elapsed snap of None \<Rightarrow> tm_tickElapsed m | Some e \<Rightarrow> Some e)\<rparr>
      in case sn_teamId snap of
           None \<Rightarrow> m
         | Some teamId \<Rightarrow>
             if teamId = 0 then m
             else let isHt = default_to 99 (sn_elapsed snap) \<le> 45;
                      shots = extractTotalShots (sn_stats snap);
                      onTarget = Some (getStatValue (sn_stats snap) [''On Target'', ''Shots on Goal'']);
                      pressure = Some (computePressureIndex (sn_stats snap))
                  in m\<lparr>tm_shots := remember teamId shots True (tm_shots m),
                       tm_htShots := remember teamId shots isHt (tm_htShots m),
                       tm_onTarget := remember teamId onTarget True (tm_onTarget m),
                       tm_htOnTarget := remember teamId onTarget isHt (tm_htOnTarget m),
                       tm_pressure := remember teamId pressure True (tm_pressure m),
                       tm_htPressure := remember teamId pressure isHt (tm_htPressure m)\<rparr>)"

definition goals_until :: "fixture_event list \<Rightarrow> int \<Rightarrow> fixture_event list" where
  "goals_until goals elapsed = filter (\<lambda>g. case ev_minute g of None \<Rightarrow> False | Some t \<Rightarrow> t \<le> elapsed) goals"

definition scoreAt :: "fixture_event list \<Rightarrow> int \<Rightarrow> int \<Rightarrow> int \<Rightarrow> int \<times> int" where
  "scoreAt goals homeId awayId elapsed =
     (let gs = goals_until goals elapsed
      in (int (length (filter (\<lambda>g. ev_teamId g = Some homeId) gs)),
          int (length (filter (\<lambda>g. ev_teamId g \<noteq> Some homeId \<and> ev_teamId g = Some awayId) gs))))"

definition memory_team :: "tick_memory \<Rightarrow> int \<Rightarrow> string option \<Rightarrow> team_signals" where
  "memory_team m teamId name =
     \<lparr>ti_teamId = teamId, ti_teamName = default_to ''Equipe'' name, ti_totalShots = map_of (tm_shots m) teamId,
      ti_shotsOnTarget = map_of (tm_onTarget m) teamId, ti_pressureIndex = map_of (tm_pressure m) teamId\<rparr>"

definition tick_input :: "fixture_event list \<Rightarrow> fixture \<Rightarrow> int \<Rightarrow> int \<Rightarrow> tick_memory \<Rightarrow> int \<Rightarrow> rule_input" where
  "tick_input goals f homeId awayId m elapsed =
     (let both = (\<lambda>vs. Some (default_to (Num 0) (map_of vs homeId), default_to (Num 0) (map_of vs awayId)));
          (home, away) = scoreAt goals homeId awayId elapsed
      in \<lparr>re_elapsed = elapsed, re_statusShort = ''LIVE'',
          re_home = memory_team m homeId (fx_homeTeamName f), re_away = memory_team m awayId (fx_awayTeamName f),
          re_htShots = both (tm_htShots m), re_htOnTarget = both (tm_htOnTarget m), re_htPressure = both (tm_htPressure m),
          re_scoreHome = Some home, re_scoreAway = Some away\<rparr>)"

section \<open>Decisions\<close>

record replay_output =
  ro_placedKeys :: "string list"
  ro_bets :: "decided_bet list"
  ro_signals :: "(string \<times> signal_record) list"

fun stage_rank :: "signal_stage \<Rightarrow> nat" where
  "stage_rank NO_QUOTE_AT_DECISION = 0" | "stage_rank BELOW_MIN_ODD_AT_DECISION = 1"
| "stage_rank NO_QUOTE_AT_EXECUTION = 2" | "stage_rank BELOW_MIN_ODD_AT_EXECUTION = 3" | "stage_rank PLACED = 4"

fun recordSignal :: "string \<Rightarrow> signal_record \<Rightarrow> (string \<times> signal_record) list \<Rightarrow> (string \<times> signal_record) list" where
  "recordSignal key s [] = [(key, s)]"
| "recordSignal key s ((k, x) # rest) =
     (if k = key then (k, if stage_rank (sr_stage s) > stage_rank (sr_stage x) then x\<lparr>sr_stage := sr_stage s\<rparr> else x) # rest
      else (k, x) # recordSignal key s rest)"

definition buildFinalState :: "fixture \<Rightarrow> final_state" where
  "buildFinalState f =
     \<lparr>fs_statusShort = default_to [] (fx_statusShort f), fs_scoreHome = fx_scoreHome f, fs_scoreAway = fx_scoreAway f,
      fs_htScoreHome = extractHtScore (fx_raw f) True, fs_htScoreAway = extractHtScore (fx_raw f) False\<rparr>"

definition bet_key :: "string \<Rightarrow> rule_match \<Rightarrow> string" where
  "bet_key fixtureId m = join_with ''|'' [fixtureId, show_int (rm_teamId m), rm_marketType m]"

definition restrict_bookmaker :: "string option \<Rightarrow> quote_target \<Rightarrow> quote_target" where
  "restrict_bookmaker bookmakerKey t =
     (case bookmakerKey of None \<Rightarrow> t | Some k \<Rightarrow> if k = [] then t else t\<lparr>qt_bookmakerKey := Some k\<rparr>)"

definition max_quote_age :: "backtest_strategy \<Rightarrow> int" where
  "max_quote_age strategy = default_to default_max_quote_age_ms (so_maxQuoteAgeMs (bs_odds strategy))"

text \<open>The quotes of a match: at the decision, then after the latency at the same bookmaker.\<close>

definition decision_quote ::
  "backtest_strategy \<Rightarrow> executable_quote list \<Rightarrow> quote_target \<Rightarrow> int \<Rightarrow> executable_quote option" where
  "decision_quote strategy candidates target tickAt =
     selectLatest candidates \<lparr>ql_target = target, ql_at = tickAt, ql_maxQuoteAgeMs = max_quote_age strategy\<rparr>"

definition execution_quote ::
  "backtest_strategy \<Rightarrow> executable_quote list \<Rightarrow> quote_target \<Rightarrow> executable_quote \<Rightarrow> int \<Rightarrow> executable_quote option" where
  "execution_quote strategy candidates target q tickAt =
     selectLatest candidates
       \<lparr>ql_target = target\<lparr>qt_providerKey := Some (eq_providerKey q), qt_bookmakerKey := Some (eq_bookmakerKey q)\<rparr>,
        ql_at = tickAt + so_executionLatencyMs (bs_odds strategy), ql_maxQuoteAgeMs = max_quote_age strategy\<rparr>"

definition replay_bet :: "fixture \<Rightarrow> rule_match \<Rightarrow> int \<Rightarrow> int \<Rightarrow> executable_quote \<Rightarrow> executable_quote \<Rightarrow> decided_bet" where
  "replay_bet f m tickAt elapsed q x =
     \<lparr>bt_fixtureId = fx_id f, bt_providerFixtureId = fx_providerFixtureId f, bt_marketType = rm_marketType m,
      bt_selection = rm_selection m, bt_ruleName = Some (rm_ruleName m), bt_teamId = Some (rm_teamId m),
      bt_isHomeTeam = rm_isHomeTeam m, bt_decisionAt = tickAt, bt_elapsedAtDecision = Some elapsed,
      bt_oddAtDecision = eq_oddValue x, bt_quotedOdd = eq_oddValue q, bt_oddSource = ''ODDS_SNAPSHOT'',
      bt_edgePct = Some (rm_edgePct m), bt_confidenceScore = Some (rm_confidenceScore m),
      bt_outcome = default_to NO_RESULT
        (resolveSettlement \<lparr>rb_marketType = rm_marketType m, rb_isHomeTeam = rm_isHomeTeam m\<rparr> (buildFinalState f))\<rparr>"

definition filtered_out :: "backtest_strategy \<Rightarrow> rule_match \<Rightarrow> bool" where
  "filtered_out strategy m =
     (rm_marketType m \<notin> set (bs_markets strategy) \<or> rm_edgePct m < bs_minEdgePct strategy
      \<or> of_int (rm_confidenceScore m) < bs_minConfidence strategy)"

text \<open>The stage a signal reaches at a tick, and the two quotes when it is placed.\<close>

definition quote_match ::
  "backtest_strategy \<Rightarrow> executable_quote list \<Rightarrow> quote_target \<Rightarrow> rat \<Rightarrow> int
    \<Rightarrow> signal_stage \<times> (executable_quote \<times> executable_quote) option" where
  "quote_match strategy candidates target minOdd tickAt =
     (case decision_quote strategy candidates target tickAt of
        None \<Rightarrow> (NO_QUOTE_AT_DECISION, None)
      | Some q \<Rightarrow>
          if eq_oddValue q < minOdd then (BELOW_MIN_ODD_AT_DECISION, None)
          else case execution_quote strategy candidates target q tickAt of
            None \<Rightarrow> (NO_QUOTE_AT_EXECUTION, None)
          | Some x \<Rightarrow>
              if eq_oddValue x < minOdd then (BELOW_MIN_ODD_AT_EXECUTION, None) else (PLACED, Some (q, x)))"

definition decide_match ::
  "backtest_strategy \<Rightarrow> executable_quote list \<Rightarrow> fixture \<Rightarrow> int \<Rightarrow> int \<Rightarrow> rule_match \<Rightarrow> replay_output \<Rightarrow> replay_output" where
  "decide_match strategy candidates f tickAt elapsed m out =
     (let key = bet_key (fx_id f) m in
      if filtered_out strategy m \<or> key \<in> set (ro_placedKeys out) then out
      else case quoteTargetForRuleMarket (fx_providerFixtureId f) (rm_marketType m) (rm_isHomeTeam m) of
        None \<Rightarrow> out
      | Some baseTarget \<Rightarrow>
          (let target = restrict_bookmaker (so_bookmakerKey (bs_odds strategy)) baseTarget;
               (stage, quotes) = quote_match strategy candidates target (rm_minAcceptableOdd m) tickAt;
               out = out\<lparr>ro_signals := recordSignal key
                 \<lparr>sr_fixtureId = fx_id f, sr_marketType = rm_marketType m, sr_firstSignalAt = tickAt, sr_stage = stage\<rparr>
                 (ro_signals out)\<rparr>
           in case quotes of
                None \<Rightarrow> out
              | Some (q, x) \<Rightarrow>
                  out\<lparr>ro_placedKeys := key # ro_placedKeys out,
                      ro_bets := ro_bets out @ [replay_bet f m tickAt elapsed q x]\<rparr>))"

definition evaluateTick ::
  "backtest_strategy \<Rightarrow> executable_quote list \<Rightarrow> fixture_event list \<Rightarrow> fixture \<Rightarrow> int \<Rightarrow> int
    \<Rightarrow> tick_memory \<Rightarrow> replay_output \<Rightarrow> replay_output" where
  "evaluateTick strategy candidates goals f homeId awayId m out =
     (case (tm_tickAt m, tm_tickElapsed m) of
        (Some tickAt, Some elapsed) \<Rightarrow>
          fold (decide_match strategy candidates f tickAt elapsed)
            (evaluateRules (tick_input goals f homeId awayId m elapsed) (bs_entryRules strategy)) out
      | _ \<Rightarrow> out)"

section \<open>The replay\<close>

definition replay_snapshot ::
  "(tick_memory \<Rightarrow> replay_output \<Rightarrow> replay_output) \<Rightarrow> stats_snapshot \<Rightarrow> tick_memory \<times> replay_output
    \<Rightarrow> tick_memory \<times> replay_output" where
  "replay_snapshot tick snap s =
     (let (m, out) = s
      in (absorb snap m,
          if tm_tickAt m \<noteq> None \<and> tm_tickAt m \<noteq> Some (sn_snapshotAt snap) then tick m out else out))"

definition replay_fixture ::
  "backtest_strategy \<Rightarrow> executable_quote list \<Rightarrow> fixture_event list \<Rightarrow> fixture list \<Rightarrow> stats_snapshot list \<Rightarrow> string
    \<Rightarrow> replay_output \<Rightarrow> replay_output" where
  "replay_fixture strategy candidates goals fixtures snapshots fixtureId out =
     (case find_row (\<lambda>f. fx_id f = fixtureId) fixtures of
        None \<Rightarrow> out
      | Some f \<Rightarrow>
          (case (fx_homeTeamId f, fx_awayTeamId f) of
             (Some homeId, Some awayId) \<Rightarrow>
               (let tick = evaluateTick strategy candidates (filter (\<lambda>g. ev_fixtureId g = fixtureId) goals) f homeId awayId;
                    (m, out) = fold (replay_snapshot tick) (filter (\<lambda>s. sn_fixtureId s = fixtureId) snapshots)
                                 (empty_memory, out\<lparr>ro_placedKeys := []\<rparr>)
                in tick m out)
           | _ \<Rightarrow> out))"

definition window_snapshots :: "int \<Rightarrow> int \<Rightarrow> stats_snapshot list \<Rightarrow> stats_snapshot list" where
  "window_snapshots since till stats =
     sort_key (\<lambda>s. (sn_snapshotAt s, locale_key (sn_id s)))
       (filter (\<lambda>s. since \<le> sn_snapshotAt s \<and> sn_snapshotAt s \<le> till) stats)"

definition window_fixtures :: "stats_snapshot list \<Rightarrow> fixture list \<Rightarrow> fixture list" where
  "window_fixtures snapshots fixtures = filter (\<lambda>f. fx_id f \<in> sn_fixtureId ` set snapshots) fixtures"

definition window_goals :: "stats_snapshot list \<Rightarrow> fixture_event list \<Rightarrow> fixture_event list" where
  "window_goals snapshots events =
     filter (\<lambda>g. ev_fixtureId g \<in> sn_fixtureId ` set snapshots \<and> ev_eventType g = Some ''Goal'') events"

definition window_quotes ::
  "backtest_strategy \<Rightarrow> int \<Rightarrow> int \<Rightarrow> fixture list \<Rightarrow> odds_snapshot list \<Rightarrow> executable_quote list" where
  "window_quotes strategy since till fixtures snapshots =
     loadCandidates snapshots
       \<lparr>cq_providerFixtureIds = List.map fx_providerFixtureId fixtures,
        cq_receivedFrom = since - max_quote_age strategy,
        cq_receivedTo = till + so_executionLatencyMs (bs_odds strategy)\<rparr>"

definition replay_all ::
  "backtest_strategy \<Rightarrow> executable_quote list \<Rightarrow> fixture_event list \<Rightarrow> fixture list \<Rightarrow> stats_snapshot list \<Rightarrow> replay_output" where
  "replay_all strategy candidates goals fixtures snapshots =
     fold (replay_fixture strategy candidates goals fixtures snapshots) (uniq (List.map sn_fixtureId snapshots))
       \<lparr>ro_placedKeys = [], ro_bets = [], ro_signals = []\<rparr>"

section \<open>The imprint of the data\<close>

definition json_opt :: "('a \<Rightarrow> json) \<Rightarrow> 'a option \<Rightarrow> json" where
  "json_opt f v = (case v of None \<Rightarrow> JNull | Some x \<Rightarrow> f x)"

definition json_int :: "int \<Rightarrow> json" where
  "json_int n = JNum (Num (of_int n))"

definition json_state :: "final_state \<Rightarrow> json" where
  "json_state s =
     JObj [(''statusShort'', JStr (fs_statusShort s)), (''scoreHome'', json_opt json_int (fs_scoreHome s)),
           (''scoreAway'', json_opt json_int (fs_scoreAway s)), (''htScoreHome'', json_opt JNum (fs_htScoreHome s)),
           (''htScoreAway'', json_opt JNum (fs_htScoreAway s))]"

definition goal_text :: "fixture_event \<Rightarrow> string" where
  "goal_text g =
     (let number = (\<lambda>v. case v of None \<Rightarrow> ''null'' | Some n \<Rightarrow> show_int n)
      in CHR ''['' # CHR 0x22 # ev_fixtureId g @ CHR 0x22 # CHR '','' # number (ev_teamId g) @ CHR '','' # number (ev_minute g) @ '']'')"

definition dataset_value ::
  "stats_snapshot list \<Rightarrow> fixture list \<Rightarrow> fixture_event list \<Rightarrow> executable_quote list \<Rightarrow> json" where
  "dataset_value snapshots fixtures goals quotes =
     JObj [(''snapshots'', JArr (List.map (\<lambda>s. JArr [JStr (sn_id s), JStr (sn_fixtureId s), json_opt json_int (sn_teamId s),
              json_opt json_int (sn_elapsed s), JDate (Some (sn_snapshotAt s)), sn_stats s]) snapshots)),
           (''fixtures'', JArr (List.map (\<lambda>f. JArr [JStr (fx_id f), JStr (fx_providerFixtureId f),
              json_opt json_int (fx_homeTeamId f), json_opt json_int (fx_awayTeamId f), json_state (buildFinalState f)])
              (sort_key (\<lambda>f. locale_key (fx_id f)) fixtures))),
           (''goals'', JArr (List.map (\<lambda>g. JArr [JStr (ev_fixtureId g), json_opt json_int (ev_teamId g), json_opt json_int (ev_minute g)])
              (sort_key (\<lambda>g. locale_key (goal_text g)) goals))),
           (''quotes'', JArr (List.map (\<lambda>q. JArr [JStr (eq_snapshotId q), JStr (eq_providerKey q), JStr (eq_bookmakerKey q),
              JStr (eq_marketKey q), JStr (eq_selectionKey q), JNum (Num (eq_oddValue q)), JDate (Some (eq_observedAt q)),
              JDate (Some (eq_receivedAt q))])
              (sort_key (\<lambda>q. locale_key (eq_snapshotId q)) quotes)))]"

definition replayDetailed :: "(json \<Rightarrow> string) \<Rightarrow> history \<Rightarrow> backtest_strategy \<Rightarrow> int \<Rightarrow> int \<Rightarrow> replay_result" where
  "replayDetailed hash h strategy since till =
     (let snapshots = window_snapshots since till (hs_stats h)
      in if snapshots = [] then \<lparr>rr_bets = [], rr_signals = [], rr_datasetHash = hash (JArr [])\<rparr>
         else let fixtures = window_fixtures snapshots (hs_fixtures h);
                  goals = window_goals snapshots (hs_events h);
                  quotes = window_quotes strategy since till fixtures (hs_odds h);
                  out = replay_all strategy quotes goals fixtures snapshots
              in \<lparr>rr_bets = ro_bets out,
                  rr_signals = sort_key (\<lambda>s. (sr_firstSignalAt s, locale_key (sr_fixtureId s), locale_key (sr_marketType s)))
                    (List.map snd (ro_signals out)),
                  rr_datasetHash = hash (dataset_value snapshots fixtures goals quotes)\<rparr>)"

end
