(* ===== verification/KpisSafety.thy ===== *)
theory KpisSafety
  imports Kpis
begin

text \<open>
  The staking of a backtest never spends money it does not have, its totals are the sums of its
  bets, and what happened to the earlier bets does not depend on the later ones.
\<close>

section \<open>The tally of the markets\<close>

definition tally_sum :: "(market_tally \<Rightarrow> 'a :: comm_monoid_add) \<Rightarrow> (string \<times> market_tally) list \<Rightarrow> 'a" where
  "tally_sum g ms = sum_list (List.map (\<lambda>(_, m). g m) ms)"

lemma tally_sum_in:
  assumes "\<And>m. g (f m) = g m + x" and "g \<lparr>mt_bets = 0, mt_won = 0, mt_lost = 0, mt_staked = 0, mt_profit = 0\<rparr> = 0"
  shows "tally_sum g (tally_in k f ms) = tally_sum g ms + x"
  by (induction ms) (auto simp: tally_sum_def assms add.assoc add.commute add.left_commute)

lemma tally_in_keys: "fst ` set (tally_in k f ms) = insert k (fst ` set ms)"
proof (induction ms)
  case (Cons m ms)
  then show ?case by (cases m) auto
qed simp

lemma tally_in_distinct: "distinct (List.map fst ms) \<Longrightarrow> distinct (List.map fst (tally_in k f ms))"
proof (induction ms)
  case (Cons m ms)
  have "fst m \<notin> fst ` set (tally_in k f ms)" if "fst m \<noteq> k"
    using Cons.prems that by (auto simp: tally_in_keys)
  with Cons show ?case by (cases m) (auto simp: tally_in_keys)
qed simp

section \<open>The invariant of the staking\<close>

definition risked :: "staked_bet \<Rightarrow> rat" where
  "risked b = (if bt_placed b \<and> with_risk (bt_outcome b) then bt_stake b else 0)"

definition staked_within :: "rat \<Rightarrow> staked_bet list \<Rightarrow> bool" where
  "staked_within initial bets = (\<forall>i < length bets.
     0 \<le> bt_stake (bets ! i) \<and> bt_stake (bets ! i) \<le> initial + sum_list (List.map bt_profit (take i bets))
     \<and> - bt_stake (bets ! i) \<le> bt_profit (bets ! i) \<and> bt_placed (bets ! i) = (bt_stake (bets ! i) > 0))"

definition staking_ok :: "rat \<Rightarrow> staking \<Rightarrow> bool" where
  "staking_ok initial k =
     (0 \<le> sk_bankroll k \<and> sk_bankroll k \<le> sk_peak k
      \<and> sk_bankroll k = initial + sk_netProfit k
      \<and> sk_netProfit k = sum_list (List.map bt_profit (sk_staked k))
      \<and> sk_totalStaked k = sum_list (List.map risked (sk_staked k))
      \<and> 0 \<le> sk_maxDrawdownPct k \<and> sk_maxDrawdownPct k \<le> 100
      \<and> staked_within initial (sk_staked k)
      \<and> distinct (List.map fst (sk_byMarket k))
      \<and> tally_sum mt_bets (sk_byMarket k) = length (filter bt_placed (sk_staked k))
      \<and> tally_sum mt_profit (sk_byMarket k) = sk_netProfit k
      \<and> tally_sum mt_staked (sk_byMarket k) = sk_totalStaked k)"

lemma stake_of_bounds: "0 \<le> b \<Longrightarrow> 0 \<le> stake_of s b \<and> stake_of s b \<le> b"
  by (auto simp: stake_of_def)

lemma staked_within_snoc:
  assumes "staked_within initial bets"
    and "0 \<le> bt_stake b" "bt_stake b \<le> initial + sum_list (List.map bt_profit bets)"
    and "- bt_stake b \<le> bt_profit b" "bt_placed b = (bt_stake b > 0)"
  shows "staked_within initial (bets @ [b])"
  using assms by (auto simp: staked_within_def nth_append less_Suc_eq)

lemma profit_of_bounds:
  assumes "0 \<le> stake" and "bt_outcome bet = WON \<Longrightarrow> 1 \<le> bt_oddAtDecision bet"
  shows "- stake \<le> profit_of bet stake"
  using assms by (auto simp: profit_of_def intro: order_trans [of _ 0])

lemma profit_of_unsettled: "\<not> (stake > 0 \<and> with_risk (bt_outcome bet)) \<Longrightarrow> profit_of bet stake = 0"
  by (auto simp: profit_of_def with_risk_def)

lemma drawdown_bound:
  fixes peak bankroll :: rat
  assumes "0 < peak" and "0 \<le> bankroll" and "bankroll \<le> peak"
  shows "0 \<le> (peak - bankroll) / peak * 100 \<and> (peak - bankroll) / peak * 100 \<le> 100"
proof -
  define r where "r = (peak - bankroll) / peak"
  have "0 \<le> r" "r \<le> 1" using assms by (simp_all add: r_def divide_le_eq)
  then show ?thesis unfolding r_def [symmetric] by simp
qed

lemma stake_bet_fields [simp]:
  "sk_staked (stake_bet s bet k) = sk_staked k @ [decided_bet.extend bet (staked_bet.fields (stake_of s (sk_bankroll k))
     (profit_of bet (stake_of s (sk_bankroll k))) (stake_of s (sk_bankroll k) > 0))]"
  by (simp add: stake_bet_def Let_def)

lemma stake_bet_ok:
  assumes ok: "staking_ok initial k" and odd: "bt_outcome bet = WON \<Longrightarrow> 1 \<le> bt_oddAtDecision bet"
  shows "staking_ok initial (stake_bet s bet k)"
proof -
  define stake where "stake = stake_of s (sk_bankroll k)"
  define profit where "profit = profit_of bet stake"
  define b where "b = decided_bet.extend bet (staked_bet.fields stake profit (stake > 0))"
  have stake: "0 \<le> stake" "stake \<le> sk_bankroll k"
    using stake_of_bounds [of "sk_bankroll k" s] ok by (simp_all add: stake_def staking_ok_def)
  have profit: "- stake \<le> profit" unfolding profit_def by (rule profit_of_bounds [OF stake(1) odd])
  have b: "bt_stake b = stake" "bt_profit b = profit" "bt_placed b = (stake > 0)" "bt_outcome b = bt_outcome bet"
    by (simp_all add: b_def decided_bet.defs staked_bet.defs)
  have within: "staked_within initial (sk_staked k @ [b])"
    using ok stake profit by (intro staked_within_snoc) (simp_all add: staking_ok_def b)
  have staked: "sk_staked (stake_bet s bet k) = sk_staked k @ [b]"
    by (simp add: b_def stake_def profit_def)
  note fields = stake_bet_def [of s bet k, unfolded Let_def, folded stake_def, folded profit_def]
  show ?thesis
  proof (cases "stake > 0 \<and> with_risk (bt_outcome bet)")
    case True
    let ?new = "sk_bankroll k + profit" and ?k = "stake_bet s bet k"
    have new: "0 \<le> ?new" "?new \<le> max (sk_peak k) ?new" using stake profit by simp_all
    have f: "sk_bankroll ?k = ?new" "sk_peak ?k = max (sk_peak k) ?new"
        "sk_totalStaked ?k = sk_totalStaked k + stake" "sk_netProfit ?k = sk_netProfit k + profit"
        "sk_byMarket ?k = tally_in (bt_marketType bet) (tally_market bet stake profit) (sk_byMarket k)"
        "sk_maxDrawdownPct ?k = (if max (sk_peak k) ?new > 0
           then max (sk_maxDrawdownPct k) ((max (sk_peak k) ?new - ?new) / max (sk_peak k) ?new * 100) else sk_maxDrawdownPct k)"
      using True by (simp_all add: fields)
    have dd: "0 \<le> sk_maxDrawdownPct ?k \<and> sk_maxDrawdownPct ?k \<le> 100"
      using drawdown_bound [OF _ new] ok unfolding f(6) by (auto simp: staking_ok_def le_max_iff_disj)
    have t: "tally_sum mt_bets (sk_byMarket ?k) = tally_sum mt_bets (sk_byMarket k) + 1"
        "tally_sum mt_profit (sk_byMarket ?k) = tally_sum mt_profit (sk_byMarket k) + profit"
        "tally_sum mt_staked (sk_byMarket ?k) = tally_sum mt_staked (sk_byMarket k) + stake"
      using True unfolding f(5) by (simp_all add: tally_sum_in tally_market_def)
    show ?thesis
      unfolding staking_ok_def staked
      using True ok dd within new t by (auto simp: staking_ok_def f(1-5) risked_def b tally_in_distinct)
  next
    case False
    let ?k = "stake_bet s bet k"
    have none: "profit = 0" "risked b = 0" using False by (simp_all add: profit_def profit_of_unsettled risked_def b)
    have f: "sk_bankroll ?k = sk_bankroll k" "sk_peak ?k = sk_peak k" "sk_totalStaked ?k = sk_totalStaked k"
        "sk_netProfit ?k = sk_netProfit k" "sk_maxDrawdownPct ?k = sk_maxDrawdownPct k"
        "sk_byMarket ?k = (if stake > 0 then tally_in (bt_marketType bet) (tally_market bet stake profit) (sk_byMarket k)
           else sk_byMarket k)"
      using False by (auto simp: fields)
    have t: "tally_sum mt_bets (sk_byMarket ?k) = tally_sum mt_bets (sk_byMarket k) + (if stake > 0 then 1 else 0)"
        "tally_sum mt_profit (sk_byMarket ?k) = tally_sum mt_profit (sk_byMarket k)"
        "tally_sum mt_staked (sk_byMarket ?k) = tally_sum mt_staked (sk_byMarket k)"
      using False tally_sum_in [of mt_profit _ 0] tally_sum_in [of mt_staked _ 0] tally_sum_in [of mt_bets _ 1]
      unfolding f(6) by (auto simp: tally_market_def none)
    have "distinct (List.map fst (sk_byMarket ?k))" using ok unfolding f(6) by (simp add: staking_ok_def tally_in_distinct)
    then show ?thesis
      unfolding staking_ok_def staked
      using ok within t by (auto simp: staking_ok_def f(1-5) b none)
  qed
qed

lemma fold_stake_ok:
  assumes "staking_ok initial k" and "\<And>b. b \<in> set bets \<Longrightarrow> bt_outcome b = WON \<Longrightarrow> 1 \<le> bt_oddAtDecision b"
  shows "staking_ok initial (fold (stake_bet s) bets k)"
  using assms by (induction bets arbitrary: k) (simp_all add: stake_bet_ok)

lemma stake_all_ok:
  assumes "\<And>b. b \<in> set bets \<Longrightarrow> bt_outcome b = WON \<Longrightarrow> 1 \<le> bt_oddAtDecision b"
  shows "staking_ok (max 0 (bs_bankroll s)) (stake_all s bets)"
  unfolding stake_all_def using assms
  by (intro fold_stake_ok) (auto simp: staking_ok_def initial_staking_def staked_within_def tally_sum_def)

section \<open>Every bet is accounted for, in the order of the decisions\<close>

lemma fold_stake_staked:
  "List.map decided_bet.truncate (sk_staked (fold (stake_bet s) bets k))
    = List.map decided_bet.truncate (sk_staked k) @ bets"
  by (induction bets arbitrary: k) (simp_all add: decided_bet.defs staked_bet.defs)

lemma stake_all_staked: "List.map decided_bet.truncate (sk_staked (stake_all s bets)) = sort_key bt_decisionAt bets"
  by (simp add: stake_all_def fold_stake_staked initial_staking_def)

lemma stake_all_length: "length (sk_staked (stake_all s bets)) = length bets"
  using arg_cong [OF stake_all_staked, of length] by simp

lemma bets_with_sum:
  "bets_with WON bets + bets_with LOST bets + bets_with NO_RESULT bets + bets_with VOID bets = length bets"
proof (induction bets)
  case (Cons b bets)
  then show ?case by (cases "bt_outcome b") (simp_all add: bets_with_def)
qed (simp add: bets_with_def)

text \<open>The stakes up to a date do not depend on the bets decided after it.\<close>

lemma fold_stake_appends:
  "\<exists>later. sk_staked (fold (stake_bet s) bets k) = sk_staked k @ later
    \<and> List.map bt_decisionAt later = List.map bt_decisionAt bets"
proof (induction bets arbitrary: k)
  case (Cons b bets)
  from Cons.IH [of "stake_bet s b k"] obtain later where
    "sk_staked (fold (stake_bet s) bets (stake_bet s b k)) = sk_staked (stake_bet s b k) @ later"
    "List.map bt_decisionAt later = List.map bt_decisionAt bets" by blast
  then show ?case by (auto simp: decided_bet.defs staked_bet.defs)
qed simp

lemma sorted_split:
  fixes f :: "'a \<Rightarrow> int"
  assumes "sorted (List.map f xs)"
  shows "xs = filter (\<lambda>x. f x \<le> t) xs @ filter (\<lambda>x. t < f x) xs"
  using assms
proof (induction xs)
  case (Cons x xs)
  show ?case
  proof (cases "f x \<le> t")
    case False
    then have "filter (\<lambda>x. f x \<le> t) xs = []" "filter (\<lambda>x. t < f x) xs = xs"
      using Cons.prems by (fastforce simp: filter_empty_conv filter_id_conv)+
    with False show ?thesis by simp
  qed (use Cons in auto)
qed simp

lemma stake_all_until:
  "filter (\<lambda>b. bt_decisionAt b \<le> t) (sk_staked (stake_all s bets))
    = sk_staked (stake_all s (filter (\<lambda>b. bt_decisionAt b \<le> t) bets))"
proof -
  let ?sorted = "sort_key bt_decisionAt bets" and ?k = "initial_staking s"
  let ?early = "filter (\<lambda>b. bt_decisionAt b \<le> t) ?sorted" and ?late = "filter (\<lambda>b. t < bt_decisionAt b) ?sorted"
  have split: "?sorted = ?early @ ?late" by (rule sorted_split) simp
  obtain later where later: "sk_staked (fold (stake_bet s) ?late (fold (stake_bet s) ?early ?k))
        = sk_staked (fold (stake_bet s) ?early ?k) @ later" "List.map bt_decisionAt later = List.map bt_decisionAt ?late"
    using fold_stake_appends [of s ?late] by blast
  obtain early where early: "sk_staked (fold (stake_bet s) ?early ?k) = early"
      "List.map bt_decisionAt early = List.map bt_decisionAt ?early"
    using fold_stake_appends [of s ?early ?k] by (auto simp: initial_staking_def)
  have "bt_decisionAt ` set early = bt_decisionAt ` set ?early" "bt_decisionAt ` set later = bt_decisionAt ` set ?late"
    using arg_cong [OF early(2), of set] arg_cong [OF later(2), of set] by simp_all
  then have "bt_decisionAt ` set early \<subseteq> {..t}" "bt_decisionAt ` set later \<subseteq> {t<..}" by auto
  then have "\<forall>b \<in> set early. bt_decisionAt b \<le> t" "\<forall>b \<in> set later. t < bt_decisionAt b" by auto
  then have "filter (\<lambda>b. bt_decisionAt b \<le> t) (early @ later) = early"
    by (simp add: filter_id_conv filter_empty_conv not_le)
  moreover have "sk_staked (stake_all s bets) = early @ later"
    unfolding stake_all_def using later(1) early(1) by (subst split) simp
  ultimately show ?thesis using early(1) by (simp add: stake_all_def filter_sort)
qed

section \<open>Bounds of the indicators\<close>

lemma round2_bounds: "0 \<le> x \<Longrightarrow> x \<le> 100 \<Longrightarrow> 0 \<le> round2 x \<and> round2 x \<le> 100"
proof -
  assume x: "0 \<le> x" "x \<le> 100"
  have "js_round (of_int 0) \<le> js_round (x * 100)" "js_round (x * 100) \<le> js_round (of_int 10000)"
    by (rule js_round_mono, use x in simp)+
  then have "0 \<le> js_round (x * 100)" "js_round (x * 100) \<le> 10000" unfolding js_round_of_int .
  then show ?thesis by (simp add: round2_def)
qed

lemma rate_pct_bounds: "0 \<le> part \<Longrightarrow> part \<le> whole \<Longrightarrow> 0 \<le> rate_pct part whole \<and> rate_pct part whole \<le> 100"
proof (cases "whole > 0")
  case True
  assume "0 \<le> part" "part \<le> whole"
  then have "0 \<le> part / whole * 100" "part / whole * 100 \<le> 100"
    using True by (simp_all add: divide_le_eq)
  then show ?thesis using True round2_bounds [of "part / whole * 100"] by (simp add: rate_pct_def)
qed (simp add: rate_pct_def)

text \<open>The accounting of the signals: each is counted in one stage.\<close>

lemma stages_add_up:
  "(let a = summarizeSignals signals in
     sa_noQuoteAtDecision a + sa_belowMinOddAtDecision a + sa_noQuoteAtExecution a
       + sa_belowMinOddAtExecution a + sa_placed a = sa_signals a)"
proof -
  have "length (filter (\<lambda>s. sr_stage s = NO_QUOTE_AT_DECISION) signals)
      + length (filter (\<lambda>s. sr_stage s = BELOW_MIN_ODD_AT_DECISION) signals)
      + length (filter (\<lambda>s. sr_stage s = NO_QUOTE_AT_EXECUTION) signals)
      + length (filter (\<lambda>s. sr_stage s = BELOW_MIN_ODD_AT_EXECUTION) signals)
      + length (filter (\<lambda>s. sr_stage s = PLACED) signals) = length signals"
  proof (induction signals)
    case (Cons x xs)
    then show ?case by (cases "sr_stage x") simp_all
  qed simp
  then show ?thesis by (simp add: summarizeSignals_def Let_def)
qed

end
