(* ===== verification/BacktestSafety.thy ===== *)
theory BacktestSafety
  imports Backtest KpisSafety
begin

text \<open>
  The replay does not look ahead: the bets decided until a date depend on the data known at that date.
\<close>

section \<open>What a tick adds\<close>

definition no_output :: replay_output where
  "no_output = \<lparr>ro_placedKeys = [], ro_bets = [], ro_signals = []\<rparr>"

text \<open>The outputs of two runs agree, whatever their signals, on the placed keys and on the bets without their outcome.\<close>

definition blind :: "decided_bet \<Rightarrow> decided_bet" where
  "blind b = b\<lparr>bt_outcome := VOID\<rparr>"

definition agree :: "replay_output \<Rightarrow> replay_output \<Rightarrow> bool" where
  "agree out out' = (ro_placedKeys out = ro_placedKeys out' \<and> List.map blind (ro_bets out) = List.map blind (ro_bets out'))"

text \<open>The bets of a match are added at the end, at the time of the tick, and depend on the placed keys only.\<close>

lemma decide_match_step:
  obtains ks bs where
    "\<And>out. ro_placedKeys out = keys \<Longrightarrow>
       ro_placedKeys (decide_match s c f tickAt elapsed m out) = ks
       \<and> ro_bets (decide_match s c f tickAt elapsed m out) = ro_bets out @ bs"
    "\<forall>b \<in> set bs. bt_decisionAt b = tickAt"
proof (cases "filtered_out s m \<or> bet_key (fx_id f) m \<in> set keys")
  case True
  then show thesis by (intro that [of keys "[]"]) (auto simp: decide_match_def Let_def)
next
  case False
  show thesis
  proof (cases "quoteTargetForRuleMarket (fx_providerFixtureId f) (rm_marketType m) (rm_isHomeTeam m)")
    case None
    with False show thesis by (intro that [of keys "[]"]) (auto simp: decide_match_def Let_def)
  next
    case (Some t)
    obtain stage quotes where q: "quote_match s c (restrict_bookmaker (so_bookmakerKey (bs_odds s)) t) (rm_minAcceptableOdd m) tickAt
        = (stage, quotes)" by (cases "quote_match s c (restrict_bookmaker (so_bookmakerKey (bs_odds s)) t) (rm_minAcceptableOdd m) tickAt")
    show thesis
    proof (cases quotes)
      case None
      with False Some q show thesis by (intro that [of keys "[]"]) (auto simp: decide_match_def Let_def)
    next
      case (Some p)
      with False \<open>quoteTargetForRuleMarket _ _ _ = Some t\<close> q show thesis
        by (intro that [of "bet_key (fx_id f) m # keys" "[replay_bet f m tickAt elapsed (fst p) (snd p)]"])
          (auto simp: decide_match_def Let_def replay_bet_def split: prod.splits)
    qed
  qed
qed

lemma decide_matches_step:
  "\<exists>ks bs. (\<forall>out. ro_placedKeys out = keys \<longrightarrow>
       ro_placedKeys (fold (decide_match s c f tickAt elapsed) ms out) = ks
       \<and> ro_bets (fold (decide_match s c f tickAt elapsed) ms out) = ro_bets out @ bs)
     \<and> (\<forall>b \<in> set bs. bt_decisionAt b = tickAt)"
proof (induction ms arbitrary: keys)
  case (Cons m ms)
  obtain ks bs where one: "\<And>out. ro_placedKeys out = keys \<Longrightarrow>
       ro_placedKeys (decide_match s c f tickAt elapsed m out) = ks
       \<and> ro_bets (decide_match s c f tickAt elapsed m out) = ro_bets out @ bs"
     "\<forall>b \<in> set bs. bt_decisionAt b = tickAt"
    using decide_match_step [where keys = keys and s = s and c = c and f = f and tickAt = tickAt and elapsed = elapsed and m = m]
    by metis
  from Cons.IH [of ks] obtain ks' bs' where "\<forall>out. ro_placedKeys out = ks \<longrightarrow>
       ro_placedKeys (fold (decide_match s c f tickAt elapsed) ms out) = ks'
       \<and> ro_bets (fold (decide_match s c f tickAt elapsed) ms out) = ro_bets out @ bs'"
     "\<forall>b \<in> set bs'. bt_decisionAt b = tickAt" by blast
  with one show ?case by (intro exI [of _ ks'] exI [of _ "bs @ bs'"]) auto
next
  case Nil
  show ?case by (intro exI [of _ keys] exI [of _ "[]"]) simp
qed

text \<open>A tick of a match: \<open>tick\<close> stands for \<open>evaluateTick\<close> on the data of the match.\<close>

definition appends :: "(tick_memory \<Rightarrow> replay_output \<Rightarrow> replay_output) \<Rightarrow> bool" where
  "appends tick = (\<forall>m keys. \<exists>ks bs. (\<forall>out. ro_placedKeys out = keys \<longrightarrow>
       ro_placedKeys (tick m out) = ks \<and> ro_bets (tick m out) = ro_bets out @ bs)
     \<and> (\<forall>b \<in> set bs. tm_tickAt m = Some (bt_decisionAt b)))"

lemma evaluateTick_appends: "appends (evaluateTick s c goals f homeId awayId)"
  unfolding appends_def
proof (intro allI)
  fix m keys
  show "\<exists>ks bs. (\<forall>out. ro_placedKeys out = keys \<longrightarrow>
       ro_placedKeys (evaluateTick s c goals f homeId awayId m out) = ks
       \<and> ro_bets (evaluateTick s c goals f homeId awayId m out) = ro_bets out @ bs)
     \<and> (\<forall>b \<in> set bs. tm_tickAt m = Some (bt_decisionAt b))"
  proof (cases "tm_tickAt m = None \<or> tm_tickElapsed m = None")
    case True
    then show ?thesis
      by (intro exI [of _ keys] exI [of _ "[]"]) (auto simp: evaluateTick_def split: option.splits)
  next
    case False
    then obtain a e where tick: "tm_tickAt m = Some a" "tm_tickElapsed m = Some e" by auto
    show ?thesis
      using decide_matches_step [of keys s c f a e "evaluateRules (tick_input goals f homeId awayId m e) (bs_entryRules s)"]
      unfolding evaluateTick_def tick by (simp add: eq_commute [of a])
  qed
qed

section \<open>A match\<close>

text \<open>Every snapshot absorbed, the last tick evaluated.\<close>

definition run_ticks :: "(tick_memory \<Rightarrow> replay_output \<Rightarrow> replay_output) \<Rightarrow> stats_snapshot list \<Rightarrow> replay_output \<Rightarrow> replay_output" where
  "run_ticks tick snaps out = (let (m, out) = fold (replay_snapshot tick) snaps (empty_memory, out) in tick m out)"

lemma tick_add:
  assumes "appends tick" and "ro_placedKeys out = ro_placedKeys out'" and "ro_bets out = bs @ ro_bets out'"
  shows "ro_placedKeys (tick m out) = ro_placedKeys (tick m out') \<and> ro_bets (tick m out) = bs @ ro_bets (tick m out')"
proof -
  from assms(1) obtain ks new where "\<forall>out. ro_placedKeys out = ro_placedKeys out' \<longrightarrow>
       ro_placedKeys (tick m out) = ks \<and> ro_bets (tick m out) = ro_bets out @ new"
    unfolding appends_def by blast
  with assms(2,3) show ?thesis by simp
qed

lemma fold_ticks_add:
  assumes "appends tick" and "ro_placedKeys out = ro_placedKeys out'" and "ro_bets out = bs @ ro_bets out'"
  shows "fst (fold (replay_snapshot tick) snaps (m, out)) = fst (fold (replay_snapshot tick) snaps (m, out'))
    \<and> ro_placedKeys (snd (fold (replay_snapshot tick) snaps (m, out))) = ro_placedKeys (snd (fold (replay_snapshot tick) snaps (m, out')))
    \<and> ro_bets (snd (fold (replay_snapshot tick) snaps (m, out))) = bs @ ro_bets (snd (fold (replay_snapshot tick) snaps (m, out')))"
  using assms(2,3)
proof (induction snaps arbitrary: m out out')
  case (Cons x snaps)
  show ?case
  proof (cases "tm_tickAt m \<noteq> None \<and> tm_tickAt m \<noteq> Some (sn_snapshotAt x)")
    case True
    with Cons.IH [of "tick m out" "tick m out'" "absorb x m"] tick_add [OF assms(1) Cons.prems, of m]
    show ?thesis by (simp add: replay_snapshot_def)
  next
    case False
    with Cons.IH [OF Cons.prems, of "absorb x m"] show ?thesis by (auto simp: replay_snapshot_def)
  qed
qed simp

lemma run_ticks_add:
  assumes "appends tick" and "ro_placedKeys out = ro_placedKeys out'" and "ro_bets out = bs @ ro_bets out'"
  shows "ro_bets (run_ticks tick snaps out) = bs @ ro_bets (run_ticks tick snaps out')"
  using fold_ticks_add [OF assms, of snaps empty_memory]
    tick_add [OF assms(1), of "snd (fold (replay_snapshot tick) snaps (empty_memory, out))"
      "snd (fold (replay_snapshot tick) snaps (empty_memory, out'))" bs]
  by (simp add: run_ticks_def split_beta)

text \<open>Ticks after a date add no bet decided before it.\<close>

definition late :: "int \<Rightarrow> tick_memory \<Rightarrow> bool" where
  "late t m = (\<forall>a. tm_tickAt m = Some a \<longrightarrow> t < a)"

definition bets_until :: "int \<Rightarrow> replay_output \<Rightarrow> decided_bet list" where
  "bets_until t out = filter (\<lambda>b. bt_decisionAt b \<le> t) (ro_bets out)"

lemma tick_late:
  assumes "appends tick" and "late t m"
  shows "bets_until t (tick m out) = bets_until t out"
proof -
  from assms(1) obtain bs where bs: "ro_bets (tick m out) = ro_bets out @ bs" "\<forall>b \<in> set bs. tm_tickAt m = Some (bt_decisionAt b)"
    unfolding appends_def by metis
  then have "\<forall>b \<in> set bs. t < bt_decisionAt b" using assms(2) by (auto simp: late_def)
  with bs(1) show ?thesis by (simp add: bets_until_def filter_empty_conv not_le)
qed

lemma absorb_tickAt [simp]: "tm_tickAt (absorb x m) = Some (sn_snapshotAt x)"
  by (simp add: absorb_def Let_def split: option.split)

lemma absorb_elapsed: "tm_tickElapsed (absorb x m) = (case sn_elapsed x of None \<Rightarrow> tm_tickElapsed m | Some e \<Rightarrow> Some e)"
  by (simp add: absorb_def Let_def split: option.split)

lemma fold_late:
  assumes "appends tick" and "\<forall>x \<in> set snaps. t < sn_snapshotAt x" and "late t m"
  shows "late t (fst (fold (replay_snapshot tick) snaps (m, out)))
    \<and> bets_until t (snd (fold (replay_snapshot tick) snaps (m, out))) = bets_until t out"
  using assms(2,3)
proof (induction snaps arbitrary: m out)
  case (Cons x snaps)
  let ?out = "snd (replay_snapshot tick x (m, out))"
  have "bets_until t ?out = bets_until t out"
    using tick_late [OF assms(1) Cons.prems(2)] by (simp add: replay_snapshot_def)
  moreover have "late t (absorb x m)" using Cons.prems(1) by (simp add: late_def)
  ultimately show ?case using Cons.IH [of "absorb x m" ?out] Cons.prems(1) by (simp add: replay_snapshot_def)
qed simp

lemma fold_tickAt:
  "tm_tickAt (fst (fold (replay_snapshot tick) snaps (m, out)))
    = (if snaps = [] then tm_tickAt m else Some (sn_snapshotAt (last snaps)))"
  by (induction snaps arbitrary: m out) (simp_all add: replay_snapshot_def)

lemma run_ticks_until:
  assumes "appends tick" and "sorted (List.map sn_snapshotAt snaps)"
  shows "bets_until t (run_ticks tick snaps out) = bets_until t (run_ticks tick (filter (\<lambda>x. sn_snapshotAt x \<le> t) snaps) out)"
proof -
  let ?early = "filter (\<lambda>x. sn_snapshotAt x \<le> t) snaps" and ?late = "filter (\<lambda>x. t < sn_snapshotAt x) snaps"
  let ?m = "fst (fold (replay_snapshot tick) ?early (empty_memory, out))"
  let ?out = "snd (fold (replay_snapshot tick) ?early (empty_memory, out))"
  have split: "snaps = ?early @ ?late" by (rule sorted_split [OF assms(2)])
  show ?thesis
  proof (cases ?late)
    case Nil
    then show ?thesis using split by simp
  next
    case (Cons x rest)
    have x: "t < sn_snapshotAt x" "\<forall>y \<in> set rest. t < sn_snapshotAt y"
      using arg_cong [OF Cons, of set] by (auto simp: set_eq_iff)
    have tickAt: "tm_tickAt ?m = (if ?early = [] then None else Some (sn_snapshotAt (last ?early)))"
      by (simp add: fold_tickAt empty_memory_def)
    have before: "tm_tickAt ?m \<noteq> Some (sn_snapshotAt x)"
    proof (cases "?early = []")
      case False
      then have "last ?early \<in> set ?early" by (rule last_in_set)
      then show ?thesis using x(1) False tickAt by auto
    qed (simp add: tickAt empty_memory_def)
    let ?o = "if tm_tickAt ?m \<noteq> None then tick ?m ?out else ?out"
    let ?final = "fold (replay_snapshot tick) rest (absorb x ?m, ?o)"
    have whole: "fold (replay_snapshot tick) snaps (empty_memory, out) = ?final"
      using before by (subst split) (simp add: Cons replay_snapshot_def split_beta)
    have "late t (absorb x ?m)" using x(1) by (simp add: late_def)
    from fold_late [OF assms(1) x(2) this, of ?o]
    have "late t (fst ?final)" "bets_until t (snd ?final) = bets_until t ?o" by simp_all
    then have "bets_until t (run_ticks tick snaps out) = bets_until t ?o"
      by (simp add: run_ticks_def whole split_beta tick_late [OF assms(1)] del: fold.simps)
    also have "\<dots> = bets_until t (tick ?m ?out)"
    proof (cases "tm_tickAt ?m")
      case None
      then have "late t ?m" by (simp add: late_def)
      with None show ?thesis by (simp add: tick_late [OF assms(1)])
    qed simp
    finally show ?thesis by (simp add: run_ticks_def split_beta)
  qed
qed

section \<open>Two runs on data that agree\<close>

lemma fold_replay_Cons:
  "fold (replay_snapshot tick) (x # xs) (m, out)
    = fold (replay_snapshot tick) xs (absorb x m, snd (replay_snapshot tick x (m, out)))"
  by (simp add: replay_snapshot_def)

lemma run_ticks_agree:
  assumes tick: "\<And>m out out'. good m \<Longrightarrow> agree out out' \<Longrightarrow> agree (tick m out) (tick' m out')"
    and absorb: "\<And>m x. good m \<Longrightarrow> x \<in> set snaps \<Longrightarrow> good (absorb x m)"
    and "good empty_memory" and "agree out out'"
  shows "agree (run_ticks tick snaps out) (run_ticks tick' snaps out')"
proof -
  have "good m \<Longrightarrow> agree out out' \<Longrightarrow> set xs \<subseteq> set snaps \<Longrightarrow>
      fst (fold (replay_snapshot tick) xs (m, out)) = fst (fold (replay_snapshot tick') xs (m, out'))
      \<and> good (fst (fold (replay_snapshot tick) xs (m, out)))
      \<and> agree (snd (fold (replay_snapshot tick) xs (m, out))) (snd (fold (replay_snapshot tick') xs (m, out')))" for xs m out out'
  proof (induction xs arbitrary: m out out')
    case (Cons x xs)
    have "good (absorb x m)" "agree (snd (replay_snapshot tick x (m, out))) (snd (replay_snapshot tick' x (m, out')))"
      using Cons.prems absorb tick by (simp_all add: replay_snapshot_def)
    with Cons.IH [of "absorb x m" "snd (replay_snapshot tick x (m, out))" "snd (replay_snapshot tick' x (m, out'))"] Cons.prems(3)
    show ?case unfolding fold_replay_Cons by fastforce
  qed simp
  from this [OF assms(3,4), of snaps] show ?thesis
    by (auto simp: run_ticks_def split_beta intro: tick)
qed

text \<open>The part of a match that is known before it ends.\<close>

definition known :: "fixture \<Rightarrow> fixture" where
  "known f = f\<lparr>fx_statusShort := None, fx_scoreHome := None, fx_scoreAway := None, fx_elapsed := None, fx_raw := JNull,
                fx_lastSyncedAt := 0\<rparr>"

lemma known_fields:
  assumes "known f = known f'"
  shows "fx_id f = fx_id f'" "fx_providerFixtureId f = fx_providerFixtureId f'" "fx_homeTeamId f = fx_homeTeamId f'"
    "fx_awayTeamId f = fx_awayTeamId f'" "fx_homeTeamName f = fx_homeTeamName f'" "fx_awayTeamName f = fx_awayTeamName f'"
  using assms by (cases f; cases f'; simp add: known_def)+

lemma bet_of_blind: "known f = known f' \<Longrightarrow> blind (replay_bet f m a e q x) = blind (replay_bet f' m a e q x)"
  by (simp add: replay_bet_def blind_def known_fields [of f f'])

lemma target_provider:
  "quoteTargetForRuleMarket p market h = Some t \<Longrightarrow> qt_providerFixtureId (restrict_bookmaker k t) = p"
  by (auto simp: quoteTargetForRuleMarket_def restrict_bookmaker_def Let_def split: if_splits option.splits)

lemma decide_match_agree:
  assumes "known f = known f'" and "agree out out'"
    and "\<And>target minOdd. qt_providerFixtureId target = fx_providerFixtureId f
      \<Longrightarrow> quote_match s c target minOdd a = quote_match s c' target minOdd a"
  shows "agree (decide_match s c f a e m out) (decide_match s c' f' a e m out')"
proof (cases "filtered_out s m \<or> bet_key (fx_id f) m \<in> set (ro_placedKeys out)")
  case True
  then show ?thesis using assms(1,2) known_fields [OF assms(1)] by (simp add: decide_match_def Let_def agree_def)
next
  case False
  note f = known_fields [OF assms(1)]
  show ?thesis
  proof (cases "quoteTargetForRuleMarket (fx_providerFixtureId f) (rm_marketType m) (rm_isHomeTeam m)")
    case None
    with False assms(2) f show ?thesis by (simp add: decide_match_def Let_def agree_def)
  next
    case (Some t)
    then have "quote_match s c (restrict_bookmaker (so_bookmakerKey (bs_odds s)) t) (rm_minAcceptableOdd m) a
        = quote_match s c' (restrict_bookmaker (so_bookmakerKey (bs_odds s)) t) (rm_minAcceptableOdd m) a"
      by (intro assms(3) target_provider)
    with False assms(2) f Some bet_of_blind [OF assms(1)] show ?thesis
      by (simp add: decide_match_def Let_def agree_def split: prod.splits option.splits)
  qed
qed

lemma evaluateTick_agree:
  assumes "known f = known f'" and "agree out out'"
    and "\<And>a target minOdd. tm_tickAt m = Some a \<Longrightarrow> qt_providerFixtureId target = fx_providerFixtureId f
      \<Longrightarrow> quote_match s c target minOdd a = quote_match s c' target minOdd a"
    and "\<And>e. tm_tickElapsed m = Some e \<Longrightarrow> goals_until goals e = goals_until goals' e"
  shows "agree (evaluateTick s c goals f h a m out) (evaluateTick s c' goals' f' h a m out')"
proof (cases "tm_tickAt m = None \<or> tm_tickElapsed m = None")
  case True
  with assms(2) show ?thesis by (auto simp: evaluateTick_def split: option.splits)
next
  case False
  then obtain at_ms e where tick: "tm_tickAt m = Some at_ms" "tm_tickElapsed m = Some e" by auto
  have input: "tick_input goals f h a m e = tick_input goals' f' h a m e"
    using assms(4) [OF tick(2)] known_fields [OF assms(1)] by (simp add: tick_input_def scoreAt_def)
  have "agree (fold (decide_match s c f at_ms e) ms out) (fold (decide_match s c' f' at_ms e) ms out')" for ms
    using assms(2)
  proof (induction ms arbitrary: out out')
    case (Cons x ms)
    show ?case using Cons.IH [OF decide_match_agree [OF assms(1) Cons.prems assms(3) [OF tick(1)]]] by simp
  qed simp
  then show ?thesis by (simp add: evaluateTick_def tick input)
qed

section \<open>All matches\<close>

text \<open>The bets of a match, on their own.\<close>

definition fixture_bets ::
  "backtest_strategy \<Rightarrow> executable_quote list \<Rightarrow> fixture_event list \<Rightarrow> fixture list \<Rightarrow> stats_snapshot list \<Rightarrow> string
    \<Rightarrow> decided_bet list" where
  "fixture_bets s c goals fixtures snaps i = ro_bets (replay_fixture s c goals fixtures snaps i no_output)"

lemma replay_fixture_unfold:
  "replay_fixture s c goals fixtures snaps i out =
    (case find_row (\<lambda>f. fx_id f = i) fixtures of
       None \<Rightarrow> out
     | Some f \<Rightarrow>
         (case (fx_homeTeamId f, fx_awayTeamId f) of
            (Some h, Some a) \<Rightarrow>
              run_ticks (evaluateTick s c (filter (\<lambda>g. ev_fixtureId g = i) goals) f h a)
                (filter (\<lambda>x. sn_fixtureId x = i) snaps) (out\<lparr>ro_placedKeys := []\<rparr>)
          | _ \<Rightarrow> out))"
  by (simp add: replay_fixture_def run_ticks_def Let_def cong: option.case_cong prod.case_cong)

lemma fixture_bets_unfold:
  "fixture_bets s c goals fixtures snaps i =
    (case find_row (\<lambda>f. fx_id f = i) fixtures of
       None \<Rightarrow> []
     | Some f \<Rightarrow>
         (case (fx_homeTeamId f, fx_awayTeamId f) of
            (Some h, Some a) \<Rightarrow>
              ro_bets (run_ticks (evaluateTick s c (filter (\<lambda>g. ev_fixtureId g = i) goals) f h a)
                (filter (\<lambda>x. sn_fixtureId x = i) snaps) no_output)
          | _ \<Rightarrow> []))"
  by (simp add: fixture_bets_def replay_fixture_unfold no_output_def split: option.split)

lemma replay_fixture_bets:
  "ro_bets (replay_fixture s c goals fixtures snaps i out) = ro_bets out @ fixture_bets s c goals fixtures snaps i"
proof -
  have "ro_bets (run_ticks (evaluateTick s c gs f h a) xs (out\<lparr>ro_placedKeys := []\<rparr>))
      = ro_bets out @ ro_bets (run_ticks (evaluateTick s c gs f h a) xs no_output)" for gs f h a xs
    by (rule run_ticks_add [OF evaluateTick_appends]) (simp_all add: no_output_def)
  then show ?thesis by (simp add: replay_fixture_unfold fixture_bets_unfold split: option.split)
qed

lemma replay_all_bets:
  "ro_bets (replay_all s c goals fixtures snaps)
    = concat (List.map (fixture_bets s c goals fixtures snaps) (uniq (List.map sn_fixtureId snaps)))"
proof -
  have "ro_bets (fold (replay_fixture s c goals fixtures snaps) ids out)
      = ro_bets out @ concat (List.map (fixture_bets s c goals fixtures snaps) ids)" for ids out
    by (induction ids arbitrary: out) (simp_all add: replay_fixture_bets)
  then show ?thesis by (simp add: replay_all_def)
qed

lemma run_ticks_Nil: "ro_bets (run_ticks (evaluateTick s c gs f h a) [] no_output) = []"
  by (simp add: run_ticks_def evaluateTick_def empty_memory_def no_output_def)

lemma fixture_bets_none: "\<forall>x \<in> set snaps. sn_fixtureId x \<noteq> i \<Longrightarrow> fixture_bets s c goals fixtures snaps i = []"
  by (simp add: fixture_bets_unfold run_ticks_Nil filter_False split: option.split)

lemma uniq_append: "uniq (xs @ ys) = uniq xs @ filter (\<lambda>y. y \<notin> set xs) (uniq ys)"
  by (induction xs) (simp_all add: conj_commute)

lemma fixture_bets_until:
  assumes "sorted (List.map sn_snapshotAt snaps)"
  shows "filter (\<lambda>b. bt_decisionAt b \<le> t) (fixture_bets s c goals fixtures snaps i)
    = filter (\<lambda>b. bt_decisionAt b \<le> t) (fixture_bets s c goals fixtures (filter (\<lambda>x. sn_snapshotAt x \<le> t) snaps) i)"
proof -
  have "sorted (List.map sn_snapshotAt (filter (\<lambda>x. sn_fixtureId x = i) snaps))"
    using assms by (simp add: sorted_filter)
  from run_ticks_until [OF evaluateTick_appends this]
  have "bets_until t (run_ticks (evaluateTick s c gs f h a) (filter (\<lambda>x. sn_fixtureId x = i) snaps) no_output)
      = bets_until t (run_ticks (evaluateTick s c gs f h a)
          (filter (\<lambda>x. sn_fixtureId x = i) (filter (\<lambda>x. sn_snapshotAt x \<le> t) snaps)) no_output)" for gs f h a
    by (simp add: conj_commute)
  then show ?thesis by (simp add: fixture_bets_unfold bets_until_def split: option.split)
qed

text \<open>The bets decided until a date are those of the snapshots taken until then.\<close>

lemma replay_all_until:
  assumes "sorted (List.map sn_snapshotAt snaps)"
  shows "filter (\<lambda>b. bt_decisionAt b \<le> t) (ro_bets (replay_all s c goals fixtures snaps))
    = filter (\<lambda>b. bt_decisionAt b \<le> t)
        (ro_bets (replay_all s c goals fixtures (filter (\<lambda>x. sn_snapshotAt x \<le> t) snaps)))"
proof -
  let ?early = "filter (\<lambda>x. sn_snapshotAt x \<le> t) snaps" and ?late = "filter (\<lambda>x. t < sn_snapshotAt x) snaps"
  let ?p = "\<lambda>b. bt_decisionAt b \<le> t" and ?b = "fixture_bets s c goals fixtures"
  have ids: "uniq (List.map sn_fixtureId snaps)
      = uniq (List.map sn_fixtureId ?early) @ filter (\<lambda>i. i \<notin> sn_fixtureId ` set ?early) (uniq (List.map sn_fixtureId ?late))"
    by (subst sorted_split [OF assms, of t]) (simp only: map_append uniq_append set_map)
  have none: "?b ?early i = []" if "i \<notin> sn_fixtureId ` set ?early" for i
    by (rule fixture_bets_none) (use that in auto)
  have until: "filter ?p (?b snaps i) = filter ?p (?b ?early i)" for i by (rule fixture_bets_until [OF assms])
  have "filter ?p (ro_bets (replay_all s c goals fixtures snaps))
      = concat (List.map (\<lambda>i. filter ?p (?b ?early i)) (uniq (List.map sn_fixtureId snaps)))"
    by (simp add: replay_all_bets filter_concat comp_def until)
  also have "\<dots> = concat (List.map (\<lambda>i. filter ?p (?b ?early i)) (uniq (List.map sn_fixtureId ?early)))"
    unfolding ids by (simp add: none)
  finally show ?thesis by (simp add: replay_all_bets filter_concat comp_def)
qed

section \<open>The data known at a date\<close>

definition received_until :: "int \<Rightarrow> odds_snapshot list \<Rightarrow> odds_snapshot list" where
  "received_until u rows = filter (\<lambda>r. case os_receivedAt r of None \<Rightarrow> False | Some v \<Rightarrow> v \<le> u) rows"

definition goals_of :: "string \<Rightarrow> fixture_event list \<Rightarrow> fixture_event list" where
  "goals_of i events = filter (\<lambda>g. ev_fixtureId g = i) events"

text \<open>
  Two histories agree until \<open>t\<close>: the same snapshots until \<open>t\<close>, the same quotes received until the
  execution of a bet decided at \<open>t\<close>, the same goals until the minutes shown by these snapshots, and
  the same matches apart from what changes while they are played.
\<close>

definition same_until :: "int \<Rightarrow> backtest_strategy \<Rightarrow> history \<Rightarrow> history \<Rightarrow> bool" where
  "same_until t strategy h h' =
     (List.map known (hs_fixtures h) = List.map known (hs_fixtures h')
      \<and> filter (\<lambda>s. sn_snapshotAt s \<le> t) (hs_stats h) = filter (\<lambda>s. sn_snapshotAt s \<le> t) (hs_stats h')
      \<and> received_until (t + so_executionLatencyMs (bs_odds strategy)) (hs_odds h)
        = received_until (t + so_executionLatencyMs (bs_odds strategy)) (hs_odds h')
      \<and> list_all (\<lambda>s. case sn_elapsed s of None \<Rightarrow> True | Some e \<Rightarrow>
            goals_until (goals_of (sn_fixtureId s) (hs_events h)) e = goals_until (goals_of (sn_fixtureId s) (hs_events h')) e)
          (filter (\<lambda>s. sn_snapshotAt s \<le> t) (hs_stats h)))"

lemma all_candidates_received:
  assumes "ql_at lookup \<le> u"
  shows "selectLatest (all_candidates rows) lookup = selectLatest (all_candidates (received_until u rows)) lookup"
proof -
  have "admissible lookup (toExecutableQuote r) \<Longrightarrow> executable_row r \<Longrightarrow> (case os_receivedAt r of None \<Rightarrow> False | Some v \<Rightarrow> v \<le> u)" for r
    using assms by (auto simp: admissible_def toExecutableQuote_def executable_row_def Let_def split: option.splits)
  then have "filter (\<lambda>r. admissible lookup (toExecutableQuote r)) (filter executable_row rows)
      = filter (\<lambda>r. admissible lookup (toExecutableQuote r)) (filter executable_row (received_until u rows))"
    by (auto simp: received_until_def filter_filter intro!: filter_cong)
  then show ?thesis by (simp add: selectLatest_def all_candidates_def filter_map comp_def filter_sort)
qed

lemma window_quotes_all:
  assumes "qt_providerFixtureId target \<in> fx_providerFixtureId ` set fixtures"
    and "since \<le> a" and "a \<le> till + so_executionLatencyMs (bs_odds s)"
  shows "selectLatest (window_quotes s since till fixtures rows)
      \<lparr>ql_target = target, ql_at = a, ql_maxQuoteAgeMs = max_quote_age s\<rparr>
    = selectLatest (all_candidates rows) \<lparr>ql_target = target, ql_at = a, ql_maxQuoteAgeMs = max_quote_age s\<rparr>"
  unfolding window_quotes_def by (rule window_is_enough) (use assms in auto)

lemma quote_match_received:
  assumes "0 \<le> so_executionLatencyMs (bs_odds s)" and "since \<le> a" and "a \<le> till" and "a \<le> t"
    and "qt_providerFixtureId target \<in> fx_providerFixtureId ` set fixtures"
  shows "quote_match s (window_quotes s since till fixtures rows) target minOdd a
    = quote_match s (all_candidates (received_until (t + so_executionLatencyMs (bs_odds s)) rows)) target minOdd a"
proof -
  let ?all = "all_candidates (received_until (t + so_executionLatencyMs (bs_odds s)) rows)"
  have select: "selectLatest (window_quotes s since till fixtures rows)
        \<lparr>ql_target = target', ql_at = a', ql_maxQuoteAgeMs = max_quote_age s\<rparr>
      = selectLatest ?all \<lparr>ql_target = target', ql_at = a', ql_maxQuoteAgeMs = max_quote_age s\<rparr>"
    if "qt_providerFixtureId target' = qt_providerFixtureId target" "a' = a \<or> a' = a + so_executionLatencyMs (bs_odds s)" for target' a'
  proof -
    have "selectLatest (window_quotes s since till fixtures rows)
        \<lparr>ql_target = target', ql_at = a', ql_maxQuoteAgeMs = max_quote_age s\<rparr>
      = selectLatest (all_candidates rows) \<lparr>ql_target = target', ql_at = a', ql_maxQuoteAgeMs = max_quote_age s\<rparr>"
      using assms that by (intro window_quotes_all) auto
    also have "\<dots> = selectLatest ?all \<lparr>ql_target = target', ql_at = a', ql_maxQuoteAgeMs = max_quote_age s\<rparr>"
      using assms that by (intro all_candidates_received) auto
    finally show ?thesis .
  qed
  then have "decision_quote s (window_quotes s since till fixtures rows) target a = decision_quote s ?all target a"
    "\<And>q. execution_quote s (window_quotes s since till fixtures rows) target q a = execution_quote s ?all target q a"
    by (simp_all add: decision_quote_def execution_quote_def)
  then show ?thesis by (simp only: quote_match_def)
qed

lemma find_known:
  assumes "List.map known fs = List.map known fs'"
  shows "map_option known (find_row (\<lambda>f. fx_id f = i) fs) = map_option known (find_row (\<lambda>f. fx_id f = i) fs')"
  using assms
proof (induction fs arbitrary: fs')
  case (Cons f fs)
  then obtain f' rest where "fs' = f' # rest" "known f = known f'" "List.map known fs = List.map known rest"
    by (cases fs') auto
  with Cons.IH [of rest] known_fields(1) [of f f'] show ?case by auto
qed simp

lemma find_window_fixture:
  "i \<in> sn_fixtureId ` set snaps \<Longrightarrow>
    find_row (\<lambda>f. fx_id f = i) (window_fixtures snaps fs) = find_row (\<lambda>f. fx_id f = i) fs"
  by (induction fs) (auto simp: window_fixtures_def)

lemma window_goals_of:
  "i \<in> sn_fixtureId ` set snaps \<Longrightarrow>
    goals_of i (window_goals snaps events) = filter (\<lambda>g. ev_eventType g = Some ''Goal'') (goals_of i events)"
  by (auto simp: goals_of_def window_goals_def intro: filter_cong)

lemma goals_until_filter: "goals_until (filter p gs) e = filter p (goals_until gs e)"
  by (simp add: goals_until_def conj_commute)

lemma window_snapshots_until:
  "filter (\<lambda>x. sn_snapshotAt x \<le> t) (window_snapshots since till stats)
    = window_snapshots since till (filter (\<lambda>x. sn_snapshotAt x \<le> t) stats)"
  by (simp add: window_snapshots_def filter_sort conj_commute conj_left_commute)

lemma window_snapshots_sorted: "sorted (List.map sn_snapshotAt (window_snapshots since till stats))"
proof -
  have "sorted (List.map (\<lambda>s. (sn_snapshotAt s, locale_key (sn_id s))) (window_snapshots since till stats))"
    unfolding window_snapshots_def by (rule sorted_sort_key)
  then show ?thesis by (auto simp: sorted_wrt_map less_eq_prod_def elim: sorted_wrt_mono_rel [rotated])
qed

lemma window_snapshots_set: "x \<in> set (window_snapshots since till stats) = (x \<in> set stats \<and> since \<le> sn_snapshotAt x \<and> sn_snapshotAt x \<le> till)"
  by (auto simp: window_snapshots_def)

lemma replay_bets:
  "rr_bets (replayDetailed hash h s since till) =
    (let snaps = window_snapshots since till (hs_stats h); fs = window_fixtures snaps (hs_fixtures h)
     in ro_bets (replay_all s (window_quotes s since till fs (hs_odds h)) (window_goals snaps (hs_events h)) fs snaps))"
  by (simp add: replayDetailed_def Let_def replay_all_def)

text \<open>A match replayed on two histories that agree, over the snapshots taken until the date.\<close>

lemma fixture_bets_agree:
  assumes same: "same_until t s h h'" and latency: "0 \<le> so_executionLatencyMs (bs_odds s)"
    and snaps: "snaps = window_snapshots since till (hs_stats h)" and snaps': "snaps' = window_snapshots since till (hs_stats h')"
    and early: "early = filter (\<lambda>x. sn_snapshotAt x \<le> t) snaps" and i: "i \<in> sn_fixtureId ` set early"
    and f: "fixtures = window_fixtures snaps (hs_fixtures h)" and f': "fixtures' = window_fixtures snaps' (hs_fixtures h')"
  shows "List.map blind (fixture_bets s (window_quotes s since till fixtures (hs_odds h)) (window_goals snaps (hs_events h)) fixtures early i)
    = List.map blind (fixture_bets s (window_quotes s since till fixtures' (hs_odds h')) (window_goals snaps' (hs_events h')) fixtures' early i)"
proof -
  have early': "early = filter (\<lambda>x. sn_snapshotAt x \<le> t) snaps'"
    using same by (simp add: early snaps snaps' window_snapshots_until same_until_def)
  have in_early: "x \<in> set early \<Longrightarrow> since \<le> sn_snapshotAt x \<and> sn_snapshotAt x \<le> till \<and> sn_snapshotAt x \<le> t \<and> x \<in> set (hs_stats h)" for x
    by (auto simp: early snaps window_snapshots_set)
  have ids: "i \<in> sn_fixtureId ` set snaps" "i \<in> sn_fixtureId ` set snaps'"
  proof -
    have "set early \<subseteq> set snaps" unfolding early by auto
    moreover have "set early \<subseteq> set snaps'" unfolding early' by auto
    ultimately show "i \<in> sn_fixtureId ` set snaps" "i \<in> sn_fixtureId ` set snaps'" using i by blast+
  qed
  have find: "find_row (\<lambda>f. fx_id f = i) fixtures = find_row (\<lambda>f. fx_id f = i) (hs_fixtures h)"
      "find_row (\<lambda>f. fx_id f = i) fixtures' = find_row (\<lambda>f. fx_id f = i) (hs_fixtures h')"
    by (simp_all add: f f' find_window_fixture ids)
  have rel: "map_option known (find_row (\<lambda>f. fx_id f = i) fixtures) = map_option known (find_row (\<lambda>f. fx_id f = i) fixtures')"
    unfolding find by (rule find_known) (use same in \<open>simp add: same_until_def\<close>)
  show ?thesis
  proof (cases "find_row (\<lambda>f. fx_id f = i) fixtures")
    case None
    with rel show ?thesis by (simp add: fixture_bets_unfold)
  next
    case (Some g)
    with rel obtain g' where g': "find_row (\<lambda>f. fx_id f = i) fixtures' = Some g'" "known g = known g'"
      by (cases "find_row (\<lambda>f. fx_id f = i) fixtures'") auto
    have provider: "fx_providerFixtureId g \<in> fx_providerFixtureId ` set fixtures"
        "fx_providerFixtureId g \<in> fx_providerFixtureId ` set fixtures'"
      using find_row_SomeD [OF Some] find_row_SomeD [OF g'(1)] known_fields(2) [OF g'(2)]
      by (metis imageI)+
    let ?c = "window_quotes s since till fixtures (hs_odds h)" and ?c' = "window_quotes s since till fixtures' (hs_odds h')"
    let ?gs = "filter (\<lambda>x. ev_fixtureId x = i) (window_goals snaps (hs_events h))"
    let ?gs' = "filter (\<lambda>x. ev_fixtureId x = i) (window_goals snaps' (hs_events h'))"
    define good where "good m = ((\<forall>a. tm_tickAt m = Some a \<longrightarrow> since \<le> a \<and> a \<le> till \<and> a \<le> t)
      \<and> (\<forall>e. tm_tickElapsed m = Some e \<longrightarrow> goals_until ?gs e = goals_until ?gs' e))" for m :: tick_memory
    have goals: "goals_until ?gs e = goals_until ?gs' e" if "x \<in> set early" "sn_fixtureId x = i" "sn_elapsed x = Some e" for x e
    proof -
      have "goals_until (goals_of i (hs_events h)) e = goals_until (goals_of i (hs_events h')) e"
        using same that in_early [OF that(1)] by (auto simp: same_until_def list_all_iff split: option.splits)
      then show ?thesis
        using window_goals_of [OF ids(1), of "hs_events h"] window_goals_of [OF ids(2), of "hs_events h'"]
        by (simp add: goals_of_def [symmetric] goals_until_filter)
    qed
    have quotes: "quote_match s ?c target minOdd a = quote_match s ?c' target minOdd a"
      if "since \<le> a" "a \<le> till" "a \<le> t" "qt_providerFixtureId target = fx_providerFixtureId g" for target minOdd a
      using quote_match_received [OF latency that(1-3), of target fixtures "hs_odds h"]
        quote_match_received [OF latency that(1-3), of target fixtures' "hs_odds h'"] provider that(4) same
      by (simp add: same_until_def)
    have "agree (run_ticks (evaluateTick s ?c ?gs g a b) (filter (\<lambda>x. sn_fixtureId x = i) early) no_output)
        (run_ticks (evaluateTick s ?c' ?gs' g' a b) (filter (\<lambda>x. sn_fixtureId x = i) early) no_output)" for a b
    proof (rule run_ticks_agree [where good = good])
      show "good empty_memory" by (simp add: good_def empty_memory_def)
      show "agree no_output no_output" by (simp add: agree_def)
      show "good (absorb x m)" if "good m" "x \<in> set (filter (\<lambda>x. sn_fixtureId x = i) early)" for m x
        using that in_early [of x] goals [of x] by (auto simp: good_def absorb_elapsed split: option.splits)
      show "agree (evaluateTick s ?c ?gs g a b m out) (evaluateTick s ?c' ?gs' g' a b m out')"
        if "good m" "agree out out'" for m out out'
        by (rule evaluateTick_agree [OF g'(2) that(2)]) (use that(1) quotes in \<open>auto simp: good_def\<close>)
    qed
    then show ?thesis
      using Some g' known_fields [OF g'(2)] by (simp add: fixture_bets_unfold agree_def split: option.split)
  qed
qed

lemma replay_bets_until:
  assumes "same_until t s h h'" and "0 \<le> so_executionLatencyMs (bs_odds s)"
  shows "List.map blind (filter (\<lambda>b. bt_decisionAt b \<le> t) (rr_bets (replayDetailed hash h s since till)))
    = List.map blind (filter (\<lambda>b. bt_decisionAt b \<le> t) (rr_bets (replayDetailed hash' h' s since till)))"
proof -
  let ?p = "\<lambda>b. bt_decisionAt b \<le> t"
  define snaps where "snaps = window_snapshots since till (hs_stats h)"
  define snaps' where "snaps' = window_snapshots since till (hs_stats h')"
  define early where "early = filter (\<lambda>x. sn_snapshotAt x \<le> t) snaps"
  let ?f = "window_fixtures snaps (hs_fixtures h)" and ?f' = "window_fixtures snaps' (hs_fixtures h')"
  let ?b = "fixture_bets s (window_quotes s since till ?f (hs_odds h)) (window_goals snaps (hs_events h)) ?f early"
  let ?b' = "fixture_bets s (window_quotes s since till ?f' (hs_odds h')) (window_goals snaps' (hs_events h')) ?f' early"
  have early': "early = filter (\<lambda>x. sn_snapshotAt x \<le> t) snaps'"
    using assms(1) by (simp add: early_def snaps_def snaps'_def window_snapshots_until same_until_def)
  have blind_p: "List.map blind (filter ?p bs) = filter ?p (List.map blind bs)" for bs
    by (simp add: filter_map comp_def blind_def)
  have "List.map (\<lambda>i. List.map blind (?b i)) (uniq (List.map sn_fixtureId early))
      = List.map (\<lambda>i. List.map blind (?b' i)) (uniq (List.map sn_fixtureId early))"
    by (rule map_cong [OF refl], rule fixture_bets_agree [OF assms snaps_def snaps'_def early_def _ refl refl]) simp
  then have "List.map blind (filter ?p (concat (List.map ?b (uniq (List.map sn_fixtureId early)))))
      = List.map blind (filter ?p (concat (List.map ?b' (uniq (List.map sn_fixtureId early)))))"
    unfolding blind_p map_concat by (simp only: map_map comp_def)
  then show ?thesis
    unfolding replay_bets Let_def snaps_def [symmetric] snaps'_def [symmetric]
    using replay_all_until [of snaps t] replay_all_until [of snaps' t] window_snapshots_sorted
    by (simp add: snaps_def [symmetric] snaps'_def [symmetric] early_def [symmetric] early' [symmetric] replay_all_bets
        window_snapshots_sorted [of since till "hs_stats h", folded snaps_def]
        window_snapshots_sorted [of since till "hs_stats h'", folded snaps'_def])
qed

end
