(* ===== verification/BacktestAccounts.thy ===== *)
theory BacktestAccounts
  imports BacktestSafety
begin

text \<open>
  What the replay hands to the staking: quotes above one, one bet for a match, team and market, as many
  bets as placed signals; and the result does not depend on the order in which the database returns
  its rows.
\<close>

section \<open>What a bet is made of\<close>

lemma quote_match_odds:
  assumes "quote_match s c target minOdd a = (stage, quotes)"
  shows "(quotes = None) = (stage \<noteq> PLACED)"
    and "quotes = Some (q, x) \<Longrightarrow> 1 < eq_oddValue q \<and> 1 < eq_oddValue x \<and> minOdd \<le> eq_oddValue q \<and> minOdd \<le> eq_oddValue x"
proof -
  show "(quotes = None) = (stage \<noteq> PLACED)"
    using assms by (auto simp: quote_match_def split: option.splits if_splits)
  assume "quotes = Some (q, x)"
  then have "decision_quote s c target a = Some q" "execution_quote s c target q a = Some x"
      "minOdd \<le> eq_oddValue q" "minOdd \<le> eq_oddValue x"
    using assms by (auto simp: quote_match_def split: option.splits if_splits)
  then show "1 < eq_oddValue q \<and> 1 < eq_oddValue x \<and> minOdd \<le> eq_oddValue q \<and> minOdd \<le> eq_oddValue x"
    using selectLatest_Some(2) by (auto simp: decision_quote_def execution_quote_def admissible_def Let_def)
qed

text \<open>The key of a bet determines its match, its team and its market.\<close>

definition key_of_bet :: "decided_bet \<Rightarrow> string" where
  "key_of_bet b = join_with ''|'' [bt_fixtureId b, show_int (default_to 0 (bt_teamId b)), bt_marketType b]"

definition plain :: "string \<Rightarrow> bool" where
  "plain s = (CHR ''|'' \<notin> set s)"

lemma split_last:
  assumes "a @ c # b = a' @ c # b'" and "c \<notin> set b" and "c \<notin> set b'"
  shows "a = a' \<and> b = b'"
proof -
  have "takeWhile (\<lambda>x. x \<noteq> c) (rev b @ c # rev a) = rev b" "takeWhile (\<lambda>x. x \<noteq> c) (rev b' @ c # rev a') = rev b'"
    using assms(2,3) by (subst takeWhile_append2; auto)+
  moreover have "rev b @ c # rev a = rev b' @ c # rev a'" using arg_cong [OF assms(1), of rev] by simp
  ultimately have "rev b = rev b'" by simp
  then show ?thesis using assms(1) by simp
qed

lemma show_int_chars: "c \<in> set (show_int n) \<Longrightarrow> is_digit c \<or> c = CHR ''-''"
  by (auto simp: show_int_def dest: show_nat_digits split: if_splits)

lemma plain_show_int [simp]: "plain (show_int n)"
  by (auto simp: plain_def is_digit_def dest: show_int_chars)

lemma key_inj:
  assumes "join_with ''|'' [i, show_int n, m] = join_with ''|'' [i', show_int n', m']" and "plain m" and "plain m'"
  shows "i = i' \<and> n = n' \<and> m = m'"
proof -
  have "(i @ CHR ''|'' # show_int n) @ CHR ''|'' # m = (i' @ CHR ''|'' # show_int n') @ CHR ''|'' # m'"
    using assms(1) by simp
  then have "i @ CHR ''|'' # show_int n = i' @ CHR ''|'' # show_int n' \<and> m = m'"
    by (rule split_last) (use assms(2,3) in \<open>simp_all add: plain_def\<close>)
  moreover have "i = i' \<and> show_int n = show_int n'"
    by (rule split_last [of _ "CHR ''|''"]) (use calculation plain_show_int in \<open>simp_all add: plain_def\<close>)
  ultimately show ?thesis by (simp add: show_int_inj)
qed

section \<open>The accounting of the signals\<close>

definition placed_keys :: "(string \<times> signal_record) list \<Rightarrow> string set" where
  "placed_keys sigs = {k. \<exists>s. (k, s) \<in> set sigs \<and> sr_stage s = PLACED}"

lemma recordSignal_keys: "fst ` set (recordSignal k s sigs) = insert k (fst ` set sigs)"
  by (induction k s sigs rule: recordSignal.induct) auto

lemma recordSignal_distinct: "distinct (List.map fst sigs) \<Longrightarrow> distinct (List.map fst (recordSignal k s sigs))"
  by (induction k s sigs rule: recordSignal.induct) (auto simp: recordSignal_keys)

lemma recordSignal_placed:
  assumes "distinct (List.map fst sigs)" and "k \<notin> placed_keys sigs"
  shows "placed_keys (recordSignal k s sigs) = (if sr_stage s = PLACED then insert k (placed_keys sigs) else placed_keys sigs)"
  using assms
proof (induction k s sigs rule: recordSignal.induct)
  case (2 key s k x rest)
  have stage: "stage_rank (sr_stage s) > stage_rank (sr_stage x) \<longleftrightarrow> sr_stage s = PLACED"
    if "sr_stage x \<noteq> PLACED" "sr_stage s = PLACED"
    using that by (cases "sr_stage x") auto
  have unplaced: "sr_stage (x\<lparr>sr_stage := sr_stage s\<rparr>) \<noteq> PLACED" if "sr_stage s \<noteq> PLACED" using that by simp
  have cons: "placed_keys ((j, y) # ys) = (if sr_stage y = PLACED then insert j (placed_keys ys) else placed_keys ys)" for j y ys
    by (auto simp: placed_keys_def)
  show ?case
  proof (cases "k = key")
    case True
    then have "sr_stage x \<noteq> PLACED" using "2.prems"(2) by (auto simp: placed_keys_def)
    then show ?thesis using True stage by (auto simp: cons)
  next
    case False
    then have "key \<notin> placed_keys rest" using "2.prems"(2) by (auto simp: placed_keys_def)
    with 2 False show ?thesis by (auto simp: cons)
  qed
qed (auto simp: placed_keys_def)

definition accounted :: "replay_output \<Rightarrow> bool" where
  "accounted out =
     (distinct (List.map fst (ro_signals out)) \<and> distinct (List.map key_of_bet (ro_bets out))
      \<and> placed_keys (ro_signals out) = key_of_bet ` set (ro_bets out)
      \<and> (\<forall>b \<in> set (ro_bets out). plain (bt_marketType b) \<and> bt_teamId b \<noteq> None
            \<and> 1 < bt_oddAtDecision b \<and> 1 < bt_quotedOdd b))"

text \<open>While match \<open>i\<close> is replayed, its bets are those of the placed keys.\<close>

definition placed_of :: "string \<Rightarrow> replay_output \<Rightarrow> bool" where
  "placed_of i out = (\<forall>b \<in> set (ro_bets out). bt_fixtureId b = i \<longrightarrow> key_of_bet b \<in> set (ro_placedKeys out))"

lemma decide_match_accounted:
  assumes "accounted out" and "placed_of (fx_id f) out" and "plain (rm_marketType m)"
  shows "accounted (decide_match s c f a e m out) \<and> placed_of (fx_id f) (decide_match s c f a e m out)"
proof (cases "filtered_out s m \<or> bet_key (fx_id f) m \<in> set (ro_placedKeys out)
    \<or> quoteTargetForRuleMarket (fx_providerFixtureId f) (rm_marketType m) (rm_isHomeTeam m) = None")
  case True
  then have "decide_match s c f a e m out = out" by (auto simp: decide_match_def Let_def split: option.split)
  with assms show ?thesis by simp
next
  case False
  then obtain t where t: "quoteTargetForRuleMarket (fx_providerFixtureId f) (rm_marketType m) (rm_isHomeTeam m) = Some t" by auto
  let ?key = "bet_key (fx_id f) m"
  obtain stage quotes where q: "quote_match s c (restrict_bookmaker (so_bookmakerKey (bs_odds s)) t) (rm_minAcceptableOdd m) a
      = (stage, quotes)" by (cases "quote_match s c (restrict_bookmaker (so_bookmakerKey (bs_odds s)) t) (rm_minAcceptableOdd m) a")
  let ?sig = "\<lparr>sr_fixtureId = fx_id f, sr_marketType = rm_marketType m, sr_firstSignalAt = a, sr_stage = stage\<rparr>"
  have new: "?key \<notin> key_of_bet ` set (ro_bets out)"
  proof
    assume "?key \<in> key_of_bet ` set (ro_bets out)"
    then obtain b where b: "b \<in> set (ro_bets out)" "key_of_bet b = ?key" by auto
    have "bt_fixtureId b = fx_id f"
      using key_inj [of "bt_fixtureId b" "default_to 0 (bt_teamId b)" "bt_marketType b" "fx_id f" "rm_teamId m" "rm_marketType m"]
        b assms(1,3) by (simp add: key_of_bet_def bet_key_def accounted_def)
    with b assms(2) have "?key \<in> set (ro_placedKeys out)" by (auto simp: placed_of_def)
    with False show False by simp
  qed
  have placed: "placed_keys (recordSignal ?key ?sig (ro_signals out))
      = (if stage = PLACED then insert ?key (placed_keys (ro_signals out)) else placed_keys (ro_signals out))"
    using recordSignal_placed [of "ro_signals out" ?key ?sig] assms(1) new by (simp add: accounted_def)
  show ?thesis
  proof (cases quotes)
    case None
    then have "decide_match s c f a e m out = out\<lparr>ro_signals := recordSignal ?key ?sig (ro_signals out)\<rparr>"
      using False t q by (simp add: decide_match_def Let_def)
    moreover have "stage \<noteq> PLACED" using quote_match_odds(1) [OF q] None by simp
    ultimately show ?thesis
      using assms(1,2) placed by (simp add: accounted_def placed_of_def recordSignal_distinct)
  next
    case (Some p)
    obtain x y where p: "p = (x, y)" by (cases p)
    have "decide_match s c f a e m out
        = out\<lparr>ro_signals := recordSignal ?key ?sig (ro_signals out), ro_placedKeys := ?key # ro_placedKeys out,
              ro_bets := ro_bets out @ [replay_bet f m a e x y]\<rparr>"
      using False t q Some p by (simp add: decide_match_def Let_def)
    moreover have "stage = PLACED" using quote_match_odds(1) [OF q] Some by simp
    moreover have "key_of_bet (replay_bet f m a e x y) = ?key"
      by (simp add: key_of_bet_def replay_bet_def bet_key_def default_to_def)
    moreover have "1 < eq_oddValue x" "1 < eq_oddValue y" using quote_match_odds(2) [OF q] Some p by auto
    ultimately show ?thesis
      using assms placed new
      by (auto simp: accounted_def placed_of_def recordSignal_distinct replay_bet_def)
  qed
qed

lemma fold_invariant_on:
  assumes "\<And>x s. x \<in> set xs \<Longrightarrow> P s \<Longrightarrow> P (f x s)" and "P s"
  shows "P (fold f xs s)"
  using assms by (induction xs arbitrary: s) auto

lemma run_ticks_invariant:
  assumes "\<And>m out. P out \<Longrightarrow> P (tick m out)" and "P out"
  shows "P (run_ticks tick snaps out)"
proof -
  have "P (snd (fold (replay_snapshot tick) snaps (m, out)))" for m
    using assms(2) by (induction snaps arbitrary: m out) (auto simp: replay_snapshot_def assms(1))
  then show ?thesis by (simp add: run_ticks_def split_beta assms(1))
qed

lemma evaluateTick_accounted:
  assumes "accounted out \<and> placed_of (fx_id f) out"
  shows "accounted (evaluateTick s c goals f h a m out) \<and> placed_of (fx_id f) (evaluateTick s c goals f h a m out)"
proof (cases "tm_tickAt m = None \<or> tm_tickElapsed m = None")
  case True
  with assms show ?thesis by (auto simp: evaluateTick_def split: option.splits)
next
  case False
  then obtain t e where tick: "tm_tickAt m = Some t" "tm_tickElapsed m = Some e" by auto
  have "plain (rm_marketType x)" if "x \<in> set (evaluateRules input config)" for x input config
    using evaluateRules_market [OF that] by (auto simp: plain_def)
  then have "accounted (fold (decide_match s c f t e) (evaluateRules input config) out)
      \<and> placed_of (fx_id f) (fold (decide_match s c f t e) (evaluateRules input config) out)" for input config
    using assms decide_match_accounted
    by (intro fold_invariant_on [where P = "\<lambda>out. accounted out \<and> placed_of (fx_id f) out"]) auto
  then show ?thesis by (simp add: evaluateTick_def tick)
qed

lemma evaluateTick_fixture:
  assumes "\<forall>b \<in> set (ro_bets out). bt_fixtureId b = fx_id f"
  shows "\<forall>b \<in> set (ro_bets (evaluateTick s c goals f h a m out)). bt_fixtureId b = fx_id f"
proof -
  have "\<forall>b \<in> set (ro_bets (decide_match s c f t e x out)). bt_fixtureId b = fx_id f"
    if "\<forall>b \<in> set (ro_bets out). bt_fixtureId b = fx_id f" for t e x out
    using that by (auto simp: decide_match_def Let_def replay_bet_def split: option.split prod.split)
  then have "\<forall>b \<in> set (ro_bets (fold (decide_match s c f t e) ms out)). bt_fixtureId b = fx_id f" for t e ms
    using assms by (intro fold_invariant_on [where P = "\<lambda>out. \<forall>b \<in> set (ro_bets out). bt_fixtureId b = fx_id f"]) auto
  then show ?thesis using assms by (simp add: evaluateTick_def split: option.split)
qed

lemma fixture_bets_fixture: "b \<in> set (fixture_bets s c goals fixtures snaps i) \<Longrightarrow> bt_fixtureId b = i"
proof -
  have "\<forall>b \<in> set (ro_bets (run_ticks (evaluateTick s c gs f h a) xs no_output)). bt_fixtureId b = fx_id f" for gs f h a xs
    by (rule run_ticks_invariant [where P = "\<lambda>out. \<forall>b \<in> set (ro_bets out). bt_fixtureId b = fx_id f", OF evaluateTick_fixture])
      (simp_all add: no_output_def)
  note bets = this
  assume b: "b \<in> set (fixture_bets s c goals fixtures snaps i)"
  show "bt_fixtureId b = i"
  proof (cases "find_row (\<lambda>f. fx_id f = i) fixtures")
    case (Some f)
    then have "fx_id f = i" by (auto dest: find_row_SomeD)
    with b Some bets show ?thesis by (auto simp: fixture_bets_unfold split: option.splits)
  qed (use b in \<open>simp add: fixture_bets_unfold\<close>)
qed

lemma replay_fixture_accounted:
  assumes "accounted out" and "\<forall>b \<in> set (ro_bets out). bt_fixtureId b \<noteq> i"
  shows "accounted (replay_fixture s c goals fixtures snaps i out)"
proof (cases "find_row (\<lambda>f. fx_id f = i) fixtures")
  case (Some f)
  then have f: "fx_id f = i" by (auto dest: find_row_SomeD)
  have "accounted (out\<lparr>ro_placedKeys := []\<rparr>) \<and> placed_of (fx_id f) (out\<lparr>ro_placedKeys := []\<rparr>)"
    using assms f by (simp add: accounted_def placed_of_def)
  then have "accounted (run_ticks (evaluateTick s c gs f h a) xs (out\<lparr>ro_placedKeys := []\<rparr>))" for gs h a xs
    by (intro run_ticks_invariant [where P = "\<lambda>out. accounted out \<and> placed_of (fx_id f) out", THEN conjunct1]
        evaluateTick_accounted)
  with Some assms(1) show ?thesis by (simp add: replay_fixture_unfold split: option.split)
qed (simp add: replay_fixture_unfold assms(1))

lemma replay_all_accounted: "accounted (replay_all s c goals fixtures snaps)"
proof -
  have "accounted (fold (replay_fixture s c goals fixtures snaps) ids out)"
    if "accounted out" "distinct ids" "\<forall>b \<in> set (ro_bets out). bt_fixtureId b \<notin> set ids" for ids out
    using that
  proof (induction ids arbitrary: out)
    case (Cons i ids)
    let ?out = "replay_fixture s c goals fixtures snaps i out"
    have "accounted ?out" using Cons.prems by (intro replay_fixture_accounted) auto
    moreover have "\<forall>b \<in> set (ro_bets ?out). bt_fixtureId b \<notin> set ids"
      using Cons.prems by (auto simp: replay_fixture_bets dest: fixture_bets_fixture)
    ultimately show ?case using Cons.IH [of ?out] Cons.prems(2) by simp
  qed simp
  from this [of no_output "uniq (List.map sn_fixtureId snaps)"]
  show ?thesis by (simp add: replay_all_def no_output_def accounted_def placed_keys_def)
qed

lemma replay_accounted:
  obtains sigs where "accounted \<lparr>ro_placedKeys = ks, ro_bets = rr_bets (replayDetailed hash h s since till), ro_signals = sigs\<rparr>"
    "mset (rr_signals (replayDetailed hash h s since till)) = mset (List.map snd sigs)"
proof -
  let ?snaps = "window_snapshots since till (hs_stats h)"
  let ?fs = "window_fixtures ?snaps (hs_fixtures h)"
  let ?out = "replay_all s (window_quotes s since till ?fs (hs_odds h)) (window_goals ?snaps (hs_events h)) ?fs ?snaps"
  have "accounted ?out" by (rule replay_all_accounted)
  moreover have "rr_bets (replayDetailed hash h s since till) = ro_bets ?out"
    "mset (rr_signals (replayDetailed hash h s since till)) = mset (List.map snd (ro_signals ?out))"
    by (simp_all add: replayDetailed_def Let_def replay_all_def)
  ultimately show thesis using that [of "ro_signals ?out"] by (simp add: accounted_def)
qed

lemma placed_count:
  assumes "distinct (List.map fst sigs)"
  shows "card (placed_keys sigs) = length (filter (\<lambda>s. sr_stage s = PLACED) (List.map snd sigs))"
proof -
  let ?l = "filter (\<lambda>p. sr_stage (snd p) = PLACED) sigs"
  have "placed_keys sigs = set (List.map fst ?l)" by (force simp: placed_keys_def)
  moreover have "distinct (List.map fst ?l)" using assms by (simp add: distinct_map_filter)
  ultimately have "card (placed_keys sigs) = length ?l" by (metis distinct_card length_map)
  also have "\<dots> = length (filter (\<lambda>s. sr_stage s = PLACED) (List.map snd sigs))"
    by (simp add: filter_map comp_def)
  finally show ?thesis .
qed

text \<open>Each match, team and market is bet at most once, and the placed signals are the bets.\<close>

lemma replay_accounts:
  "distinct (List.map (\<lambda>b. (bt_fixtureId b, bt_teamId b, bt_marketType b)) (rr_bets (replayDetailed hash h s since till)))"
  "\<forall>b \<in> set (rr_bets (replayDetailed hash h s since till)). 1 < bt_oddAtDecision b \<and> 1 < bt_quotedOdd b"
  "sa_placed (summarizeSignals (rr_signals (replayDetailed hash h s since till)))
    = length (rr_bets (replayDetailed hash h s since till))"
proof -
  let ?r = "replayDetailed hash h s since till"
  obtain sigs where a: "accounted \<lparr>ro_placedKeys = [], ro_bets = rr_bets ?r, ro_signals = sigs\<rparr>"
      and m: "mset (rr_signals ?r) = mset (List.map snd sigs)" by (rule replay_accounted)
  have keys: "distinct (List.map key_of_bet (rr_bets ?r))" using a by (simp add: accounted_def)
  then show "distinct (List.map (\<lambda>b. (bt_fixtureId b, bt_teamId b, bt_marketType b)) (rr_bets ?r))"
    by (auto simp: distinct_map key_of_bet_def inj_on_def)
  show "\<forall>b \<in> set (rr_bets ?r). 1 < bt_oddAtDecision b \<and> 1 < bt_quotedOdd b" using a by (simp add: accounted_def)
  have "sa_placed (summarizeSignals (rr_signals ?r)) = size (filter_mset (\<lambda>s. sr_stage s = PLACED) (mset (rr_signals ?r)))"
    by (simp add: summarizeSignals_def Let_def flip: mset_filter)
  also have "\<dots> = length (filter (\<lambda>s. sr_stage s = PLACED) (List.map snd sigs))"
    unfolding m by (simp flip: mset_filter mset_map)
  also have "\<dots> = card (placed_keys sigs)" using placed_count [of sigs] a by (simp add: accounted_def)
  also have "\<dots> = card (key_of_bet ` set (rr_bets ?r))" using a by (simp add: accounted_def)
  also have "\<dots> = length (rr_bets ?r)" using keys by (metis distinct_card length_map set_map)
  finally show "sa_placed (summarizeSignals (rr_signals ?r)) = length (rr_bets ?r)" .
qed

section \<open>The order of the rows\<close>

definition same_rows :: "history \<Rightarrow> history \<Rightarrow> bool" where
  "same_rows h h' =
     (mset (hs_fixtures h) = mset (hs_fixtures h') \<and> mset (hs_stats h) = mset (hs_stats h')
      \<and> mset (hs_events h) = mset (hs_events h') \<and> mset (hs_odds h) = mset (hs_odds h'))"

text \<open>The primary keys.\<close>

definition keyed :: "history \<Rightarrow> bool" where
  "keyed h = (distinct (List.map fx_id (hs_fixtures h)) \<and> distinct (List.map sn_id (hs_stats h))
      \<and> distinct (List.map os_id (hs_odds h)))"

lemma find_row_perm:
  assumes "distinct (List.map k xs)" and "mset xs = mset ys"
  shows "find_row (\<lambda>x. k x = i) xs = find_row (\<lambda>x. k x = i) ys"
proof (cases "find_row (\<lambda>x. k x = i) xs")
  case None
  then have "find_row (\<lambda>x. k x = i) ys = None"
    unfolding find_row_None_iff mset_eq_setD [OF assms(2)] .
  with None show ?thesis by simp
next
  case (Some r)
  then have r: "r \<in> set ys" "k r = i" using find_row_SomeD [OF Some] mset_eq_setD [OF assms(2)] by auto
  have "distinct (List.map k ys)" using assms by (metis mset_map mset_eq_imp_distinct_iff)
  from find_row_unique [OF this r(1)] r(2) Some show ?thesis by simp
qed

lemma inj_on_key: "distinct (List.map k xs) \<Longrightarrow> inj_on k (set xs)"
  by (simp add: distinct_map)

lemma window_snapshots_perm:
  assumes "mset stats = mset stats'" and "distinct (List.map sn_id stats)"
  shows "window_snapshots since till stats = window_snapshots since till stats'"
  unfolding window_snapshots_def
proof (rule sort_key_perm)
  show "inj_on (\<lambda>s. (sn_snapshotAt s, locale_key (sn_id s)))
      (set (filter (\<lambda>s. since \<le> sn_snapshotAt s \<and> sn_snapshotAt s \<le> till) stats))"
    using inj_on_key [OF assms(2)] by (auto simp: inj_on_def locale_key_inj)
qed (simp add: assms(1))

lemma window_quotes_perm:
  assumes "mset rows = mset rows'" and "distinct (List.map os_id rows)" and "set fixtures = set fixtures'"
  shows "window_quotes s since till fixtures rows = window_quotes s since till fixtures' rows'"
proof -
  let ?q = "\<lambda>fs. \<lparr>cq_providerFixtureIds = List.map fx_providerFixtureId fs, cq_receivedFrom = since - max_quote_age s,
      cq_receivedTo = till + so_executionLatencyMs (bs_odds s)\<rparr>"
  have window: "in_window (?q fixtures) = in_window (?q fixtures')" 
    using assms(3) by (auto simp: in_window_def fun_eq_iff split: option.splits)
  have "(fixtures = []) = (fixtures' = [])" using assms(3) by (metis set_empty)
  moreover have "sort_key (\<lambda>r. (- the (os_observedAt r), - the (os_receivedAt r), os_id r))
        (filter (\<lambda>r. in_window (?q fixtures') r \<and> executable_row r) rows)
      = sort_key (\<lambda>r. (- the (os_observedAt r), - the (os_receivedAt r), os_id r))
        (filter (\<lambda>r. in_window (?q fixtures') r \<and> executable_row r) rows')"
    by (rule sort_key_perm) (use inj_on_key [OF assms(2)] assms(1) in \<open>auto simp: inj_on_def\<close>)
  ultimately show ?thesis by (simp add: window_quotes_def loadCandidates_def window)
qed

lemma scoreAt_perm:
  assumes "mset goals = mset goals'"
  shows "scoreAt goals h a e = scoreAt goals' h a e"
proof -
  have "length (filter p (goals_until goals e)) = length (filter p (goals_until goals' e))" for p
    using assms by (metis goals_until_def mset_filter size_mset)
  then show ?thesis by (simp only: scoreAt_def Let_def)
qed

lemma evaluateTick_perm:
  assumes "mset goals = mset goals'"
  shows "evaluateTick s c goals f h a = evaluateTick s c goals' f h a"
proof -
  have "scoreAt goals = scoreAt goals'" by (intro ext scoreAt_perm assms)
  then have "tick_input goals = tick_input goals'" by (intro ext) (simp only: tick_input_def)
  then show ?thesis by (intro ext) (simp only: evaluateTick_def)
qed

lemma replay_all_perm:
  assumes "mset goals = mset goals'" and "mset fixtures = mset fixtures'" and "distinct (List.map fx_id fixtures)"
  shows "replay_all s c goals fixtures snaps = replay_all s c goals' fixtures' snaps"
proof -
  have "replay_fixture s c goals fixtures snaps i = replay_fixture s c goals' fixtures' snaps i" for i
    using find_row_perm [OF assms(3,2), of i] evaluateTick_perm [of "filter (\<lambda>g. ev_fixtureId g = i) goals" "filter (\<lambda>g. ev_fixtureId g = i) goals'"]
      assms(1) by (intro ext) (simp only: replay_fixture_def mset_filter)
  then show ?thesis by (simp add: replay_all_def cong: fold_cong)
qed

text \<open>The text by which the goals are sorted determines them.\<close>

lemma goal_text_inj:
  assumes "goal_text g = goal_text g'" and "ev_eventType g = ev_eventType g'"
  shows "g = g'"
proof -
  let ?n = "\<lambda>v. case v of None \<Rightarrow> ''null'' | Some n \<Rightarrow> show_int n"
  have comma: "CHR '','' \<notin> set (?n v)" for v by (auto simp: is_digit_def split: option.splits dest: show_int_chars)
  have inj: "?n v = ?n w \<Longrightarrow> v = w" for v w
  proof -
    have "show_int k \<noteq> ''null''" for k
    proof
      assume "show_int k = ''null''"
      then have "CHR ''n'' \<in> set (show_int k)" by simp
      from show_int_chars [OF this] show False by (simp add: is_digit_def)
    qed
    then show "?n v = ?n w \<Longrightarrow> v = w" by (auto simp: show_int_inj split: option.splits)
  qed
  have "(ev_fixtureId g @ CHR 0x22 # CHR '','' # ?n (ev_teamId g)) @ CHR '','' # ?n (ev_minute g)
      = (ev_fixtureId g' @ CHR 0x22 # CHR '','' # ?n (ev_teamId g')) @ CHR '','' # ?n (ev_minute g')"
    using assms(1) by (simp add: goal_text_def Let_def)
  from split_last [OF this comma comma] have first: "?n (ev_minute g) = ?n (ev_minute g')"
    "(ev_fixtureId g @ [CHR 0x22]) @ CHR '','' # ?n (ev_teamId g) = (ev_fixtureId g' @ [CHR 0x22]) @ CHR '','' # ?n (ev_teamId g')"
    by simp_all
  from split_last [OF first(2) comma comma] have "ev_fixtureId g = ev_fixtureId g'" "?n (ev_teamId g) = ?n (ev_teamId g')" by simp_all
  with inj [OF first(1)] inj assms(2) show ?thesis by (cases g; cases g') auto
qed

lemma dataset_value_perm:
  assumes "mset fixtures = mset fixtures'" and "distinct (List.map fx_id fixtures)"
    and "mset goals = mset goals'" and "\<forall>g \<in> set goals. ev_eventType g = Some ''Goal''"
  shows "dataset_value snaps fixtures goals quotes = dataset_value snaps fixtures' goals' quotes"
proof -
  have "sort_key (\<lambda>f. locale_key (fx_id f)) fixtures = sort_key (\<lambda>f. locale_key (fx_id f)) fixtures'"
    by (rule sort_key_perm [OF assms(1)]) (use inj_on_key [OF assms(2)] in \<open>auto simp: inj_on_def locale_key_inj\<close>)
  moreover have "sort_key (\<lambda>g. locale_key (goal_text g)) goals = sort_key (\<lambda>g. locale_key (goal_text g)) goals'"
    by (rule sort_key_perm [OF assms(3)]) (use assms(4) goal_text_inj in \<open>auto simp: inj_on_def locale_key_inj\<close>)
  ultimately show ?thesis by (simp add: dataset_value_def)
qed

lemma replayDetailed_perm:
  assumes "same_rows h h'" and "keyed h"
  shows "replayDetailed hash h s since till = replayDetailed hash h' s since till"
proof -
  define snaps where "snaps = window_snapshots since till (hs_stats h)"
  have snaps': "window_snapshots since till (hs_stats h') = snaps"
    using window_snapshots_perm [of "hs_stats h" "hs_stats h'"] assms by (simp add: snaps_def same_rows_def keyed_def)
  let ?f = "window_fixtures snaps (hs_fixtures h)" and ?f' = "window_fixtures snaps (hs_fixtures h')"
  let ?g = "window_goals snaps (hs_events h)" and ?g' = "window_goals snaps (hs_events h')"
  have f: "mset ?f = mset ?f'" "distinct (List.map fx_id ?f)" and g: "mset ?g = mset ?g'" "\<forall>g \<in> set ?g. ev_eventType g = Some ''Goal''"
    using assms by (auto simp: same_rows_def keyed_def window_fixtures_def window_goals_def distinct_map_filter)
  have quotes: "window_quotes s since till ?f (hs_odds h) = window_quotes s since till ?f' (hs_odds h')"
    using assms mset_eq_setD [OF f(1)] by (intro window_quotes_perm) (simp_all add: same_rows_def keyed_def)
  show ?thesis
    unfolding replayDetailed_def Let_def snaps_def [symmetric] snaps' quotes replay_all_perm [OF g(1) f]
      dataset_value_perm [OF f g] ..
qed

end
