(* ===== verification/WalkForward.thy ===== *)
theory WalkForward
  imports Backtest
begin

text \<open>
  Walk-forward runs (\<open>backtest/walk-forward.service.ts\<close>): the folds of a range, the frozen strategy
  and configuration, the measures of each window, and the life of a run under its named lock. Dates
  are milliseconds, \<open>None\<close> an invalid date; the hashes of the configuration and of the results are
  arguments.
\<close>

definition day_ms :: int where "day_ms = 86400000"
definition min_fold_odds_coverage_pct :: rat where "min_fold_odds_coverage_pct = 95"
definition max_folds :: nat where "max_folds = 200"
definition walk_forward_orphan_grace_ms :: int where "walk_forward_orphan_grace_ms = 60000"

section \<open>Folds\<close>

record walk_forward_params =
  wp_strategyVersion :: string
  wp_strategy :: backtest_strategy
  wp_trainWindowDays :: int
  wp_validationWindowDays :: int
  wp_testWindowDays :: int
  wp_stepDays :: int
  wp_from :: "int option"
  wp_to :: "int option"
  wp_bookmakerKey :: "string option"
  wp_maxQuoteAgeMs :: int
  wp_executionLatencyMs :: int

record fold_window =
  fw_foldIndex :: nat
  fw_trainFrom :: int
  fw_trainTo :: int
  fw_validationFrom :: int
  fw_validationTo :: int
  fw_testFrom :: int
  fw_testTo :: int
  fw_complete :: bool

definition fold_at :: "walk_forward_params \<Rightarrow> int \<Rightarrow> int \<Rightarrow> nat \<Rightarrow> fold_window" where
  "fold_at p fromMs toMs index =
     (let trainFrom = fromMs + int index * wp_stepDays p * day_ms;
          trainTo = trainFrom + wp_trainWindowDays p * day_ms;
          validationTo = trainTo + wp_validationWindowDays p * day_ms;
          testTo = validationTo + wp_testWindowDays p * day_ms
      in \<lparr>fw_foldIndex = index, fw_trainFrom = trainFrom, fw_trainTo = trainTo, fw_validationFrom = trainTo,
          fw_validationTo = validationTo, fw_testFrom = validationTo, fw_testTo = testTo,
          fw_complete = (testTo \<le> toMs)\<rparr>)"

text \<open>The loop: the number of folds pushed is the index.\<close>

function folds_from :: "walk_forward_params \<Rightarrow> int \<Rightarrow> int \<Rightarrow> nat \<Rightarrow> fold_window list res" where
  "folds_from p fromMs toMs index =
     (let w = fold_at p fromMs toMs index in
      if fw_validationTo w \<ge> toMs then Inr []
      else if index \<ge> max_folds then Inl (BadRequestException ''Plus de 200 folds : elargir stepDays ou reduire la plage'')
      else if \<not> fw_complete w then Inr [w]
      else bindE (folds_from p fromMs toMs (Suc index)) (\<lambda>ws. Inr (w # ws)))"
  by pat_completeness auto

termination folds_from
  by (relation "measure (\<lambda>(_, _, _, i). Suc max_folds - i)") auto

declare folds_from.simps [simp del]

definition buildFolds :: "walk_forward_params \<Rightarrow> fold_window list res" where
  "buildFolds p =
     (case (wp_from p, wp_to p) of
        (Some fromMs, Some toMs) \<Rightarrow>
          if fromMs \<ge> toMs then Inl (BadRequestException ''La plage from/to est invalide'')
          else if wp_stepDays p < wp_testWindowDays p
          then Inl (BadRequestException ''stepDays doit etre >= testWindowDays : les fenetres de test ne doivent pas se chevaucher'')
          else folds_from p fromMs toMs 0
      | _ \<Rightarrow> Inl (BadRequestException ''La plage from/to est invalide''))"

section \<open>Freezing\<close>

record frozen_config =
  fc_strategyVersion :: string
  fc_from :: int
  fc_to :: int
  fc_trainWindowDays :: int
  fc_validationWindowDays :: int
  fc_testWindowDays :: int
  fc_stepDays :: int
  fc_bookmakerKey :: "string option"
  fc_maxQuoteAgeMs :: int
  fc_executionLatencyMs :: int
  fc_minFoldOddsCoveragePct :: rat
  fc_folds :: "fold_window list"

definition freezeStrategy :: "walk_forward_params \<Rightarrow> backtest_strategy" where
  "freezeStrategy p =
     (wp_strategy p)\<lparr>bs_version := wp_strategyVersion p,
        bs_odds := (bs_odds (wp_strategy p))\<lparr>so_executionLatencyMs := wp_executionLatencyMs p,
          so_maxQuoteAgeMs := Some (wp_maxQuoteAgeMs p),
          so_bookmakerKey := (case wp_bookmakerKey p of Some k \<Rightarrow> if k = [] then None else Some k | None \<Rightarrow> None)\<rparr>\<rparr>"

definition freezeConfig :: "walk_forward_params \<Rightarrow> fold_window list \<Rightarrow> frozen_config" where
  "freezeConfig p folds =
     \<lparr>fc_strategyVersion = wp_strategyVersion p, fc_from = the (wp_from p), fc_to = the (wp_to p),
      fc_trainWindowDays = wp_trainWindowDays p, fc_validationWindowDays = wp_validationWindowDays p,
      fc_testWindowDays = wp_testWindowDays p, fc_stepDays = wp_stepDays p, fc_bookmakerKey = wp_bookmakerKey p,
      fc_maxQuoteAgeMs = wp_maxQuoteAgeMs p, fc_executionLatencyMs = wp_executionLatencyMs p,
      fc_minFoldOddsCoveragePct = min_fold_odds_coverage_pct, fc_folds = folds\<rparr>"

section \<open>Measures\<close>

record window_metrics =
  wm_kpis :: backtest_kpis
  wm_signals :: signal_accounting

record fold_metrics =
  fm_train :: window_metrics
  fm_validation :: window_metrics
  fm_test :: window_metrics

datatype ineligibility_reason = INCOMPLETE_WINDOW | NO_SIGNAL | INSUFFICIENT_ODDS_COVERAGE

record walk_forward_summary =
  ws_folds :: nat
  ws_eligibleFolds :: nat
  ws_ineligibleByReason :: "(ineligibility_reason \<times> nat) list"
  ws_test :: window_metrics

definition inWindow :: "('a \<Rightarrow> int) \<Rightarrow> int \<Rightarrow> int \<Rightarrow> 'a list \<Rightarrow> 'a list" where
  "inWindow at_ms fromMs toMs items = filter (\<lambda>x. at_ms x \<ge> fromMs \<and> at_ms x < toMs) items"

definition measureWindow :: "replay_result \<Rightarrow> backtest_strategy \<Rightarrow> int \<Rightarrow> int \<Rightarrow> window_metrics" where
  "measureWindow r strategy fromMs toMs =
     \<lparr>wm_kpis = snd (applyStakingAndComputeKpis (inWindow bt_decisionAt fromMs toMs (rr_bets r)) strategy),
      wm_signals = summarizeSignals (inWindow sr_firstSignalAt fromMs toMs (rr_signals r))\<rparr>"

definition ineligibility :: "bool \<Rightarrow> signal_accounting \<Rightarrow> rat \<Rightarrow> ineligibility_reason option" where
  "ineligibility whole testSignals minCoveragePct =
     (if \<not> whole then Some INCOMPLETE_WINDOW
      else if sa_signals testSignals = 0 then Some NO_SIGNAL
      else case sa_oddsCoveragePct testSignals of
        None \<Rightarrow> Some NO_SIGNAL
      | Some coverage \<Rightarrow> if coverage < minCoveragePct then Some INSUFFICIENT_ODDS_COVERAGE else None)"

definition fold_metrics_of :: "replay_result \<Rightarrow> backtest_strategy \<Rightarrow> fold_window \<Rightarrow> fold_metrics" where
  "fold_metrics_of r strategy w =
     \<lparr>fm_train = measureWindow r strategy (fw_trainFrom w) (fw_trainTo w),
      fm_validation = measureWindow r strategy (fw_validationFrom w) (fw_validationTo w),
      fm_test = measureWindow r strategy (fw_testFrom w) (fw_testTo w)\<rparr>"

definition fold_reason :: "replay_result \<Rightarrow> backtest_strategy \<Rightarrow> frozen_config \<Rightarrow> fold_window \<Rightarrow> ineligibility_reason option" where
  "fold_reason r strategy config w =
     ineligibility (fw_complete w) (wm_signals (fm_test (fold_metrics_of r strategy w))) (fc_minFoldOddsCoveragePct config)"

fun count_reason :: "ineligibility_reason \<Rightarrow> (ineligibility_reason \<times> nat) list \<Rightarrow> (ineligibility_reason \<times> nat) list" where
  "count_reason r [] = [(r, 1)]"
| "count_reason r ((q, n) # rest) = (if q = r then (q, n + 1) # rest else (q, n) # count_reason r rest)"

definition eligible_folds :: "replay_result \<Rightarrow> backtest_strategy \<Rightarrow> frozen_config \<Rightarrow> fold_window list" where
  "eligible_folds r strategy config = filter (\<lambda>w. fold_reason r strategy config w = None) (fc_folds config)"

definition eligible_test_bets :: "replay_result \<Rightarrow> backtest_strategy \<Rightarrow> frozen_config \<Rightarrow> decided_bet list" where
  "eligible_test_bets r strategy config =
     concat (List.map (\<lambda>w. inWindow bt_decisionAt (fw_testFrom w) (fw_testTo w) (rr_bets r)) (eligible_folds r strategy config))"

definition eligible_test_signals :: "replay_result \<Rightarrow> backtest_strategy \<Rightarrow> frozen_config \<Rightarrow> signal_record list" where
  "eligible_test_signals r strategy config =
     concat (List.map (\<lambda>w. inWindow sr_firstSignalAt (fw_testFrom w) (fw_testTo w) (rr_signals r)) (eligible_folds r strategy config))"

definition summary_of_folds :: "replay_result \<Rightarrow> backtest_strategy \<Rightarrow> frozen_config \<Rightarrow> walk_forward_summary" where
  "summary_of_folds r strategy config =
     \<lparr>ws_folds = length (fc_folds config),
      ws_eligibleFolds = length (fc_folds config)
        - length (filter (\<lambda>w. fold_reason r strategy config w \<noteq> None) (fc_folds config)),
      ws_ineligibleByReason = fold count_reason (List.map_filter (fold_reason r strategy config) (fc_folds config)) [],
      ws_test = \<lparr>wm_kpis = snd (applyStakingAndComputeKpis (eligible_test_bets r strategy config) strategy),
                 wm_signals = summarizeSignals (eligible_test_signals r strategy config)\<rparr>\<rparr>"

section \<open>The tables and the executors\<close>

datatype wf_status = Wf_PENDING | Wf_RUNNING | Wf_COMPLETED | Wf_FAILED

record walk_forward_run =
  wf_id :: string
  wf_strategyVersion :: string
  wf_strategySnapshot :: backtest_strategy
  wf_config :: frozen_config
  wf_configHash :: string
  wf_datasetHash :: "string option"
  wf_resultHash :: "string option"
  wf_status :: wf_status
  wf_summary :: "walk_forward_summary option"
  wf_error :: "string option"
  wf_requestedByUserId :: "string option"
  wf_createdAt :: int
  wf_startedAt :: "int option"
  wf_completedAt :: "int option"

record walk_forward_fold =
  ff_runId :: string
  ff_window :: fold_window
  ff_ineligibilityReason :: "ineligibility_reason option"
  ff_metrics :: fold_metrics

text \<open>\<open>wa_locks\<close>: the runs whose named lock a connection holds; \<open>wa_executing\<close>: those an executor has claimed.\<close>

record walk_forward_area =
  wa_runs :: "walk_forward_run list"
  wa_folds :: "walk_forward_fold list"
  wa_locks :: "string list"
  wa_executing :: "string list"

definition fold_row :: "string \<Rightarrow> replay_result \<Rightarrow> backtest_strategy \<Rightarrow> frozen_config \<Rightarrow> fold_window \<Rightarrow> walk_forward_fold" where
  "fold_row runId r strategy config w =
     \<lparr>ff_runId = runId, ff_window = w, ff_ineligibilityReason = fold_reason r strategy config w,
      ff_metrics = fold_metrics_of r strategy w\<rparr>"

definition start_walk_forward ::
  "(backtest_strategy \<Rightarrow> frozen_config \<Rightarrow> string) \<Rightarrow> string \<Rightarrow> int \<Rightarrow> walk_forward_params \<Rightarrow> string option
    \<Rightarrow> walk_forward_area \<Rightarrow> (string \<times> walk_forward_area) res" where
  "start_walk_forward config_hash newId now p requestedByUserId a =
     bindE (buildFolds p) (\<lambda>folds.
     bindE (guardE (folds \<noteq> [])
       (BadRequestException ''La plage ne contient aucune fenetre de test apres entrainement et validation'')) (\<lambda>_.
     let strategy = freezeStrategy p; config = freezeConfig p folds
     in Inr (newId, a\<lparr>wa_runs := wa_runs a @
          [\<lparr>wf_id = newId, wf_strategyVersion = wp_strategyVersion p, wf_strategySnapshot = strategy, wf_config = config,
            wf_configHash = config_hash strategy config, wf_datasetHash = None, wf_resultHash = None,
            wf_status = Wf_PENDING, wf_summary = None, wf_error = None, wf_requestedByUserId = requestedByUserId,
            wf_createdAt = now, wf_startedAt = None, wf_completedAt = None\<rparr>]\<rparr>)))"

text \<open>\<open>GET_LOCK(name, 0)\<close>, then the conditional transition to \<open>RUNNING\<close>.\<close>

definition acquireLease :: "string \<Rightarrow> walk_forward_area \<Rightarrow> walk_forward_area option" where
  "acquireLease runId a = (if runId \<in> set (wa_locks a) then None else Some (a\<lparr>wa_locks := runId # wa_locks a\<rparr>))"

definition release_lease :: "string \<Rightarrow> walk_forward_area \<Rightarrow> walk_forward_area" where
  "release_lease runId a = a\<lparr>wa_locks := filter (\<lambda>i. i \<noteq> runId) (wa_locks a)\<rparr>"

definition claim_run :: "string \<Rightarrow> int \<Rightarrow> walk_forward_area \<Rightarrow> nat \<times> walk_forward_area" where
  "claim_run runId now a =
     (let p = (\<lambda>r. wf_id r = runId \<and> wf_status r = Wf_PENDING)
      in (affected p (wa_runs a),
          a\<lparr>wa_runs := update_rows p (\<lambda>r. r\<lparr>wf_status := Wf_RUNNING, wf_startedAt := Some now\<rparr>) (wa_runs a)\<rparr>))"

text \<open>The beginning of \<open>execute\<close>: an executor that has not claimed the run leaves at once.\<close>

definition begin_execute :: "string \<Rightarrow> int \<Rightarrow> walk_forward_area \<Rightarrow> walk_forward_area" where
  "begin_execute runId now a =
     (case acquireLease runId a of
        None \<Rightarrow> a
      | Some a \<Rightarrow>
          (let (n, a) = claim_run runId now a
           in if n = 0 then release_lease runId a else a\<lparr>wa_executing := runId # wa_executing a\<rparr>))"

definition leave :: "string \<Rightarrow> walk_forward_area \<Rightarrow> walk_forward_area" where
  "leave runId a = (release_lease runId a)\<lparr>wa_executing := filter (\<lambda>i. i \<noteq> runId) (wa_executing a)\<rparr>"

text \<open>
  The rest of it, on the copy of the run read after the claim: the rows of the folds are inserted
  first, the run is completed by a second statement.
\<close>

definition run_replay :: "(json \<Rightarrow> string) \<Rightarrow> history \<Rightarrow> walk_forward_run \<Rightarrow> replay_result" where
  "run_replay hash data run =
     replayDetailed hash data (wf_strategySnapshot run) (fc_from (wf_config run)) (fc_to (wf_config run))"

definition run_rows :: "(json \<Rightarrow> string) \<Rightarrow> history \<Rightarrow> walk_forward_run \<Rightarrow> walk_forward_fold list" where
  "run_rows hash data run =
     List.map (fold_row (wf_id run) (run_replay hash data run) (wf_strategySnapshot run) (wf_config run)) (fc_folds (wf_config run))"

definition run_summary :: "(json \<Rightarrow> string) \<Rightarrow> history \<Rightarrow> walk_forward_run \<Rightarrow> walk_forward_summary" where
  "run_summary hash data run = summary_of_folds (run_replay hash data run) (wf_strategySnapshot run) (wf_config run)"

definition save_folds :: "(json \<Rightarrow> string) \<Rightarrow> history \<Rightarrow> walk_forward_run \<Rightarrow> walk_forward_area \<Rightarrow> walk_forward_area" where
  "save_folds hash data run a = a\<lparr>wa_folds := wa_folds a @ run_rows hash data run\<rparr>"

definition complete_walk_forward ::
  "(json \<Rightarrow> string) \<Rightarrow> (walk_forward_fold list \<Rightarrow> walk_forward_summary \<Rightarrow> string) \<Rightarrow> history \<Rightarrow> walk_forward_run \<Rightarrow> int
    \<Rightarrow> walk_forward_area \<Rightarrow> walk_forward_area" where
  "complete_walk_forward hash result_hash data run now a =
     a\<lparr>wa_runs := update_rows (\<lambda>x. wf_id x = wf_id run)
       (\<lambda>x. x\<lparr>wf_status := Wf_COMPLETED, wf_datasetHash := Some (rr_datasetHash (run_replay hash data run)),
             wf_resultHash := Some (result_hash (run_rows hash data run) (run_summary hash data run)),
             wf_summary := Some (run_summary hash data run), wf_completedAt := Some now\<rparr>) (wa_runs a)\<rparr>"

definition finish_execute ::
  "(json \<Rightarrow> string) \<Rightarrow> (walk_forward_fold list \<Rightarrow> walk_forward_summary \<Rightarrow> string) \<Rightarrow> history \<Rightarrow> string \<Rightarrow> int
    \<Rightarrow> walk_forward_area \<Rightarrow> walk_forward_area" where
  "finish_execute hash result_hash data runId now a =
     (case find_row (\<lambda>r. wf_id r = runId) (wa_runs a) of
        None \<Rightarrow> a
      | Some run \<Rightarrow> leave runId (complete_walk_forward hash result_hash data run now (save_folds hash data run a)))"

definition fail_execute :: "string \<Rightarrow> string \<Rightarrow> int \<Rightarrow> walk_forward_area \<Rightarrow> walk_forward_area" where
  "fail_execute error runId now a =
     leave runId (a\<lparr>wa_runs := update_rows (\<lambda>x. wf_id x = runId)
       (\<lambda>x. x\<lparr>wf_status := Wf_FAILED, wf_error := Some (take 500 error), wf_completedAt := Some now\<rparr>) (wa_runs a)\<rparr>)"

definition orphan_error :: string where
  "orphan_error = ''Interrompu : le processus qui executait ce run s'est arrete. Relancer le walk-forward.''"

definition orphaned :: "int \<Rightarrow> string list \<Rightarrow> walk_forward_run \<Rightarrow> bool" where
  "orphaned now locks r =
     ((wf_status r = Wf_PENDING \<or> wf_status r = Wf_RUNNING)
      \<and> wf_createdAt r < now - walk_forward_orphan_grace_ms \<and> wf_id r \<notin> set locks)"

definition failOrphanedRuns :: "int \<Rightarrow> walk_forward_area \<Rightarrow> nat \<times> walk_forward_area" where
  "failOrphanedRuns now a =
     (affected (orphaned now (wa_locks a)) (wa_runs a),
      a\<lparr>wa_runs := update_rows (orphaned now (wa_locks a))
        (\<lambda>r. r\<lparr>wf_status := Wf_FAILED, wf_error := Some orphan_error, wf_completedAt := Some now\<rparr>) (wa_runs a)\<rparr>)"

section \<open>Reading\<close>

definition listWalkForwardRuns :: "int \<Rightarrow> walk_forward_area \<Rightarrow> walk_forward_run list" where
  "listWalkForwardRuns limit a = take (nat (min (max limit 1) 100)) (sort_key (\<lambda>r. - wf_createdAt r) (wa_runs a))"

definition getWalkForwardRun :: "string \<Rightarrow> walk_forward_area \<Rightarrow> (walk_forward_run \<times> walk_forward_fold list) option" where
  "getWalkForwardRun runId a =
     map_option (\<lambda>r. (r, sort_key (\<lambda>f. fw_foldIndex (ff_window f)) (filter (\<lambda>f. ff_runId f = runId) (wa_folds a))))
       (find_row (\<lambda>r. wf_id r = runId) (wa_runs a))"

end
