(* ===== verification/WalkForwardSafety.thy ===== *)
theory WalkForwardSafety
  imports WalkForward Systems
begin

text \<open>
  The folds of a range are contiguous and their test windows disjoint; a run is executed once and its
  status only moves forward as long as executors keep their connection.
\<close>

section \<open>Folds\<close>

lemma folds_from_spec:
  assumes "folds_from p f t i = Inr ws"
  shows "(\<forall>k < length ws. ws ! k = fold_at p f t (i + k) \<and> fw_validationTo (ws ! k) < t
        \<and> (Suc k < length ws \<longrightarrow> fw_complete (ws ! k)))
    \<and> (fw_validationTo (fold_at p f t (i + length ws)) \<ge> t \<or> (ws \<noteq> [] \<and> \<not> fw_complete (last ws)))
    \<and> (i \<le> max_folds \<longrightarrow> i + length ws \<le> max_folds)"
  using assms
proof (induction p f t i arbitrary: ws rule: folds_from.induct)
  case (1 p f t i)
  let ?w = "fold_at p f t i"
  show ?case
  proof (cases "fw_validationTo ?w \<ge> t \<or> i \<ge> max_folds \<or> \<not> fw_complete ?w")
    case True
    with "1.prems" show ?thesis by (auto simp: folds_from.simps [of p f t i] Let_def split: if_splits)
  next
    case False
    then obtain vs where vs: "folds_from p f t (Suc i) = Inr vs" "ws = ?w # vs"
      using "1.prems" by (auto simp: folds_from.simps [of p f t i] Let_def elim: bindE_elim)
    note IH = "1.IH" [OF refl _ _ _ vs(1)]
    show ?thesis using IH False vs(2) by (auto simp: nth_Cons less_Suc_eq_0_disj split: nat.split)
  qed
qed

text \<open>A window is half open; an event belongs to one test window at most.\<close>

definition windows_disjoint :: "fold_window list \<Rightarrow> bool" where
  "windows_disjoint ws =
     (sorted_wrt (\<lambda>v w. fw_testTo v \<le> fw_testFrom w) ws \<and> (\<forall>w \<in> set ws. fw_testFrom w \<le> fw_testTo w))"

lemma subset_add_mset: "X \<subseteq># Y \<Longrightarrow> X \<subseteq># add_mset x Y"
  by (rule subset_mset.order_trans [of _ Y]) simp_all

lemma windows_once:
  assumes "windows_disjoint ws" and "\<forall>w \<in> set ws. lo \<le> fw_testFrom w"
  shows "mset (concat (List.map (\<lambda>w. inWindow at_ms (fw_testFrom w) (fw_testTo w) items) ws))
    \<subseteq># mset (filter (\<lambda>x. lo \<le> at_ms x) items)"
  using assms
proof (induction ws arbitrary: lo)
  case (Cons w ws)
  let ?rest = "concat (List.map (\<lambda>w. inWindow at_ms (fw_testFrom w) (fw_testTo w) items) ws)"
  have "mset ?rest \<subseteq># mset (filter (\<lambda>x. fw_testTo w \<le> at_ms x) items)"
    by (rule Cons.IH) (use Cons.prems(1) in \<open>auto simp: windows_disjoint_def\<close>)
  moreover have "mset (inWindow at_ms (fw_testFrom w) (fw_testTo w) items) + mset (filter (\<lambda>x. fw_testTo w \<le> at_ms x) items)
      \<subseteq># mset (filter (\<lambda>x. lo \<le> at_ms x) items)"
  proof -
    have "fw_testFrom w \<le> fw_testTo w" "lo \<le> fw_testFrom w" using Cons.prems by (auto simp: windows_disjoint_def)
    then show ?thesis by (induction items) (auto simp: inWindow_def intro: subset_add_mset)
  qed
  ultimately show ?case by (auto intro: subset_mset.order_trans subset_mset.add_left_mono)
qed simp

lemma windows_disjoint_filter: "windows_disjoint ws \<Longrightarrow> windows_disjoint (filter q ws)"
  by (auto simp: windows_disjoint_def sorted_wrt_filter)

lemma eligible_once:
  assumes "windows_disjoint (fc_folds config)"
  shows "mset (eligible_test_bets r s config) \<subseteq># mset (rr_bets r)"
proof (cases "fc_folds config")
  case Nil
  then show ?thesis by (simp add: eligible_test_bets_def eligible_folds_def)
next
  case (Cons w ws)
  have "\<forall>v \<in> set (eligible_folds r s config). fw_testFrom w \<le> fw_testFrom v"
    using assms Cons by (auto simp: eligible_folds_def windows_disjoint_def intro: order_trans)
  with windows_disjoint_filter [OF assms, of "\<lambda>w. fold_reason r s config w = None"]
  have "mset (eligible_test_bets r s config) \<subseteq># mset (filter (\<lambda>x. fw_testFrom w \<le> bt_decisionAt x) (rr_bets r))"
    unfolding eligible_test_bets_def by (intro windows_once) (simp_all add: eligible_folds_def)
  also have "\<dots> \<subseteq># mset (rr_bets r)" by (simp add: multiset_filter_subset)
  finally show ?thesis .
qed

lemma buildFolds_spec:
  assumes "buildFolds p = Inr ws"
  obtains f t where "wp_from p = Some f" "wp_to p = Some t" "f < t" "wp_testWindowDays p \<le> wp_stepDays p"
    "folds_from p f t 0 = Inr ws"
  using assms by (auto simp: buildFolds_def split: option.splits if_splits)

lemma buildFolds_disjoint:
  assumes "buildFolds p = Inr ws" and "0 \<le> wp_testWindowDays p"
  shows "windows_disjoint ws"
proof -
  obtain f t where f: "folds_from p f t 0 = Inr ws" "wp_testWindowDays p \<le> wp_stepDays p"
    by (rule buildFolds_spec [OF assms(1)])
  have nth: "ws ! k = fold_at p f t k" if "k < length ws" for k
    using folds_from_spec [OF f(1)] that by simp
  have "fw_testTo (ws ! i) \<le> fw_testFrom (ws ! j)" if "i < j" "j < length ws" for i j
  proof -
    have "wp_testWindowDays p \<le> (int j - int i) * wp_stepDays p"
    proof -
      have "1 * wp_stepDays p \<le> (int j - int i) * wp_stepDays p"
        using that(1) f(2) assms(2) by (intro mult_right_mono) auto
      then show ?thesis using f(2) by simp
    qed
    then have "wp_testWindowDays p + int i * wp_stepDays p \<le> int j * wp_stepDays p" by (simp add: algebra_simps)
    then show ?thesis using that nth [of i] nth [of j] by (simp add: fold_at_def Let_def day_ms_def algebra_simps)
  qed
  moreover have "fw_testFrom w \<le> fw_testTo w" if "w \<in> set ws" for w
    using that nth assms(2) by (auto simp: in_set_conv_nth fold_at_def Let_def day_ms_def)
  ultimately show ?thesis by (auto simp: windows_disjoint_def sorted_wrt_iff_nth_less)
qed

section \<open>The life of a run\<close>

inductive wf_step :: "walk_forward_area \<Rightarrow> walk_forward_area \<Rightarrow> bool" where
  wf_start: "start_walk_forward config_hash i now p user a = Inr (i, a') \<Longrightarrow> i \<notin> wf_id ` set (wa_runs a) \<Longrightarrow> wf_step a a'"
| wf_begin: "wf_step a (begin_execute i now a)"
| wf_finish: "i \<in> set (wa_executing a) \<Longrightarrow> wf_step a (finish_execute hash result_hash data i now a)"
| wf_fail: "i \<in> set (wa_executing a) \<Longrightarrow> wf_step a (fail_execute e i now a)"
| wf_fail_saved: "i \<in> set (wa_executing a) \<Longrightarrow> find_row (\<lambda>r. wf_id r = i) (wa_runs a) = Some run
    \<Longrightarrow> wf_step a (fail_execute e i now (save_folds hash data run a))"
| wf_crash_saved: "i \<in> set (wa_executing a) \<Longrightarrow> find_row (\<lambda>r. wf_id r = i) (wa_runs a) = Some run
    \<Longrightarrow> wf_step a (leave i (save_folds hash data run a))"
| wf_orphans: "wf_step a (snd (failOrphanedRuns now a))"
| wf_crash: "wf_step a (a\<lparr>wa_locks := filter alive (wa_locks a), wa_executing := filter alive (wa_executing a)\<rparr>)"

definition wf_init :: "walk_forward_area \<Rightarrow> bool" where
  "wf_init a = (wa_runs a = [] \<and> wa_folds a = [] \<and> wa_locks a = [] \<and> wa_executing a = [])"

text \<open>The rows of the folds of a run, and what they should be.\<close>

definition rows_of :: "string \<Rightarrow> walk_forward_area \<Rightarrow> walk_forward_fold list" where
  "rows_of i a = filter (\<lambda>f. ff_runId f = i) (wa_folds a)"

definition run_ok :: "walk_forward_area \<Rightarrow> walk_forward_run \<Rightarrow> bool" where
  "run_ok a r =
     ((wf_status r = Wf_COMPLETED) = (wf_summary r \<noteq> None)
      \<and> List.map ff_window (rows_of (wf_id r) a) \<in> {[], fc_folds (wf_config r)}
      \<and> (wf_status r = Wf_COMPLETED \<longrightarrow> List.map ff_window (rows_of (wf_id r) a) = fc_folds (wf_config r))
      \<and> List.map fw_foldIndex (fc_folds (wf_config r)) = [0..<length (fc_folds (wf_config r))]
      \<and> (wf_status r = Wf_PENDING \<longrightarrow> rows_of (wf_id r) a = [])
      \<and> (wf_id r \<in> set (wa_executing a) \<longrightarrow> wf_status r = Wf_RUNNING \<and> rows_of (wf_id r) a = []))"

definition area_ok :: "walk_forward_area \<Rightarrow> bool" where
  "area_ok a =
     (distinct (List.map wf_id (wa_runs a)) \<and> (\<forall>r \<in> set (wa_runs a). run_ok a r)
      \<and> ff_runId ` set (wa_folds a) \<subseteq> wf_id ` set (wa_runs a)
      \<and> set (wa_executing a) \<subseteq> set (wa_locks a) \<and> set (wa_executing a) \<subseteq> wf_id ` set (wa_runs a))"

lemma buildFolds_indexes:
  assumes "buildFolds p = Inr ws"
  shows "List.map fw_foldIndex ws = [0..<length ws]"
proof -
  obtain f t where "folds_from p f t 0 = Inr ws" by (rule buildFolds_spec [OF assms])
  from folds_from_spec [OF this] show ?thesis by (auto intro!: nth_equalityI simp: fold_at_def Let_def)
qed

lemma rows_of_fresh: "ff_runId ` set (wa_folds a) \<subseteq> wf_id ` set (wa_runs a) \<Longrightarrow> i \<notin> wf_id ` set (wa_runs a) \<Longrightarrow> rows_of i a = []"
  by (auto simp: rows_of_def filter_empty_conv)

lemma start_area_ok:
  assumes "area_ok a" and "start_walk_forward config_hash i now p user a = Inr (i, a')" and "i \<notin> wf_id ` set (wa_runs a)"
  shows "area_ok a'"
proof -
  obtain ws where ws: "buildFolds p = Inr ws" and a': "a' = a\<lparr>wa_runs := wa_runs a @
      [\<lparr>wf_id = i, wf_strategyVersion = wp_strategyVersion p, wf_strategySnapshot = freezeStrategy p, wf_config = freezeConfig p ws,
        wf_configHash = config_hash (freezeStrategy p) (freezeConfig p ws), wf_datasetHash = None, wf_resultHash = None,
        wf_status = Wf_PENDING, wf_summary = None, wf_error = None, wf_requestedByUserId = user,
        wf_createdAt = now, wf_startedAt = None, wf_completedAt = None\<rparr>]\<rparr>"
    using assms(2) by (auto simp: start_walk_forward_def Let_def elim!: bindE_elim)
  have "rows_of i a' = []" using rows_of_fresh [of a i] assms(1,3) by (simp add: a' rows_of_def area_ok_def)
  moreover have "i \<notin> set (wa_executing a)" using assms(1,3) by (auto simp: area_ok_def)
  ultimately show ?thesis
    using assms(1,3) buildFolds_indexes [OF ws]
    by (auto simp: area_ok_def run_ok_def a' rows_of_def freezeConfig_def)
qed

text \<open>Updating the rows of a run: the others keep theirs.\<close>

lemma area_ok_update:
  assumes "area_ok a" and "\<And>r. wf_id (f r) = wf_id r" and "\<And>r. wf_config (f r) = wf_config r"
    and "\<And>r. r \<in> set (wa_runs a) \<Longrightarrow> p r \<Longrightarrow> run_ok a' (f r)"
    and "\<And>r. r \<in> set (wa_runs a) \<Longrightarrow> \<not> p r \<Longrightarrow> run_ok a' r"
    and "wa_runs a' = update_rows p f (wa_runs a)" and "ff_runId ` set (wa_folds a') \<subseteq> wf_id ` set (wa_runs a)"
    and "set (wa_executing a') \<subseteq> set (wa_locks a')" and "set (wa_executing a') \<subseteq> wf_id ` set (wa_runs a)"
  shows "area_ok a'"
proof -
  have ids: "List.map wf_id (wa_runs a') = List.map wf_id (wa_runs a)" unfolding assms(6) by (rule map_update_rows) (rule assms(2))
  then have "wf_id ` set (wa_runs a') = wf_id ` set (wa_runs a)" by (metis set_map)
  moreover have "\<forall>r \<in> set (wa_runs a'). run_ok a' r" unfolding assms(6) set_update_rows using assms(4,5) by auto
  ultimately show ?thesis using assms(1,7-9) ids by (simp add: area_ok_def)
qed

lemma filter_lock: "i \<notin> set xs \<Longrightarrow> filter (\<lambda>j. j \<noteq> i) xs = xs"
  by (auto simp: filter_id_conv)

lemma begin_area_ok:
  assumes "area_ok a"
  shows "area_ok (begin_execute i now a)"
proof (cases "i \<in> set (wa_locks a)")
  case True
  with assms show ?thesis by (simp add: begin_execute_def acquireLease_def)
next
  case False
  let ?p = "\<lambda>r. wf_id r = i \<and> wf_status r = Wf_PENDING" and ?f = "\<lambda>r. r\<lparr>wf_status := Wf_RUNNING, wf_startedAt := Some now\<rparr>"
  have idle: "i \<notin> set (wa_executing a)" using assms False by (auto simp: area_ok_def)
  show ?thesis
  proof (cases "affected ?p (wa_runs a) = 0")
    case True
    then have "update_rows ?p ?f (wa_runs a) = wa_runs a" by (auto simp: affected_def update_rows_def filter_empty_conv intro!: map_idI)
    with True False have "begin_execute i now a = a"
      by (simp add: begin_execute_def acquireLease_def claim_run_def release_lease_def filter_lock)
    with assms show ?thesis by simp
  next
    case claimed: False
    let ?a = "begin_execute i now a"
    have a: "wa_runs ?a = update_rows ?p ?f (wa_runs a)" "wa_folds ?a = wa_folds a" "wa_executing ?a = i # wa_executing a"
        "wa_locks ?a = i # wa_locks a"
      using claimed False by (simp_all add: begin_execute_def acquireLease_def claim_run_def Let_def)
    from claimed obtain r where r: "r \<in> set (wa_runs a)" "wf_id r = i" "wf_status r = Wf_PENDING"
      by (auto simp: affected_def filter_empty_conv)
    have other: "wf_id x \<noteq> i" if "x \<in> set (wa_runs a)" "\<not> ?p x" for x
      using that r assms by (auto simp: area_ok_def distinct_map inj_on_def)
    show ?thesis
      by (rule area_ok_update [OF assms _ _ _ _ a(1)])
        (use assms r other idle in \<open>auto simp: area_ok_def run_ok_def rows_of_def a(2-4)\<close>)
  qed
qed

lemma leave_fields [simp]:
  "wa_runs (leave i a) = wa_runs a" "wa_folds (leave i a) = wa_folds a"
  "wa_executing (leave i a) = filter (\<lambda>j. j \<noteq> i) (wa_executing a)" "wa_locks (leave i a) = filter (\<lambda>j. j \<noteq> i) (wa_locks a)"
  by (simp_all add: leave_def release_lease_def)

lemma executing_run:
  assumes "area_ok a" and "i \<in> set (wa_executing a)"
  obtains r where "find_row (\<lambda>r. wf_id r = i) (wa_runs a) = Some r" "r \<in> set (wa_runs a)" "wf_id r = i" "run_ok a r"
    "wf_status r = Wf_RUNNING" "\<And>x. x \<in> set (wa_runs a) \<Longrightarrow> wf_id x = i \<Longrightarrow> x = r"
proof -
  from assms obtain r where r: "r \<in> set (wa_runs a)" "wf_id r = i" by (auto simp: area_ok_def)
  have d: "distinct (List.map wf_id (wa_runs a))" using assms(1) by (simp add: area_ok_def)
  show thesis
    by (rule that [of r]) (use r find_row_unique [OF d r(1)] assms d in \<open>auto simp: area_ok_def run_ok_def distinct_map inj_on_def\<close>)
qed

lemma run_rows_windows: "List.map ff_window (run_rows hash data run) = fc_folds (wf_config run)"
  "\<forall>x \<in> set (run_rows hash data run). ff_runId x = wf_id run"
  by (simp_all add: run_rows_def fold_row_def comp_def)

lemma rows_of_saved: "rows_of i (save_folds hash data run a) = rows_of i a @ (if i = wf_id run then run_rows hash data run else [])"
  using run_rows_windows(2) [of hash data run] by (auto simp: rows_of_def save_folds_def filter_id_conv filter_empty_conv)

lemma rows_of_folds: "wa_folds b = wa_folds a \<Longrightarrow> rows_of i b = rows_of i a"
  by (simp add: rows_of_def)

lemma save_folds_fields [simp]: "wa_runs (save_folds hash data run a) = wa_runs a" "wa_locks (save_folds hash data run a) = wa_locks a"
  "wa_executing (save_folds hash data run a) = wa_executing a"
  by (simp_all add: save_folds_def)

lemma finish_area_ok:
  assumes "area_ok a" and "i \<in> set (wa_executing a)"
  shows "area_ok (finish_execute hash result_hash data i now a)"
proof -
  obtain run where run: "find_row (\<lambda>r. wf_id r = i) (wa_runs a) = Some run" "run \<in> set (wa_runs a)" "wf_id run = i"
      "run_ok a run" "wf_status run = Wf_RUNNING" "\<And>x. x \<in> set (wa_runs a) \<Longrightarrow> wf_id x = i \<Longrightarrow> x = run"
    using executing_run [OF assms] by metis
  define f where "f x = x\<lparr>wf_status := Wf_COMPLETED, wf_datasetHash := Some (rr_datasetHash (run_replay hash data run)),
      wf_resultHash := Some (result_hash (run_rows hash data run) (run_summary hash data run)),
      wf_summary := Some (run_summary hash data run), wf_completedAt := Some now\<rparr>" for x :: walk_forward_run
  let ?a = "finish_execute hash result_hash data i now a"
  have a: "wa_runs ?a = update_rows (\<lambda>x. wf_id x = i) f (wa_runs a)" "wa_folds ?a = wa_folds (save_folds hash data run a)"
      "wa_executing ?a = filter (\<lambda>j. j \<noteq> i) (wa_executing a)" "wa_locks ?a = filter (\<lambda>j. j \<noteq> i) (wa_locks a)"
    by (simp_all add: finish_execute_def complete_walk_forward_def run(1,3) f_def [abs_def])
  have rows: "rows_of j ?a = rows_of j a @ (if j = i then run_rows hash data run else [])" for j
    using rows_of_saved [of j hash data run a] rows_of_folds [OF a(2)] run(3) by simp
  have "rows_of i a = []" using run(3,4) assms(2) by (simp add: run_ok_def)
  then have own: "List.map ff_window (rows_of i ?a) = fc_folds (wf_config run)" by (simp add: rows run_rows_windows)
  show ?thesis
  proof (rule area_ok_update [OF assms(1) _ _ _ _ a(1)])
    show "run_ok ?a (f x)" if "x \<in> set (wa_runs a)" "wf_id x = i" for x
      using run(6) [OF that] run(3,4) own by (simp add: run_ok_def f_def a(3))
    show "run_ok ?a x" if "x \<in> set (wa_runs a)" "wf_id x \<noteq> i" for x
      using that assms(1) rows by (auto simp: area_ok_def run_ok_def a(3))
    show "ff_runId ` set (wa_folds ?a) \<subseteq> wf_id ` set (wa_runs a)"
      using assms(1) run_rows_windows(2) [of hash data run] run(2) by (auto simp: area_ok_def a(2) save_folds_def image_subset_iff)
  qed (use assms(1) in \<open>auto simp: area_ok_def a(3,4) f_def\<close>)
qed

lemma find_row_det: "find_row p rs = Some x \<Longrightarrow> find_row p rs = Some y \<Longrightarrow> x = y"
  by simp

lemma executing_found:
  assumes "area_ok a" and "i \<in> set (wa_executing a)" and "find_row (\<lambda>r. wf_id r = i) (wa_runs a) = Some run"
  shows "run \<in> set (wa_runs a)" and "wf_id run = i" and "run_ok a run" and "wf_status run = Wf_RUNNING"
    and "\<And>x. x \<in> set (wa_runs a) \<Longrightarrow> wf_id x = i \<Longrightarrow> x = run"
proof -
  obtain r where r: "find_row (\<lambda>r. wf_id r = i) (wa_runs a) = Some r" "r \<in> set (wa_runs a)" "wf_id r = i" "run_ok a r"
      "wf_status r = Wf_RUNNING" "\<And>x. x \<in> set (wa_runs a) \<Longrightarrow> wf_id x = i \<Longrightarrow> x = r"
    using executing_run [OF assms(1,2)] by metis
  have "r = run" using r(1) assms(3) by (rule find_row_det)
  then show "run \<in> set (wa_runs a)" "wf_id run = i" "run_ok a run" "wf_status run = Wf_RUNNING"
      "\<And>x. x \<in> set (wa_runs a) \<Longrightarrow> wf_id x = i \<Longrightarrow> x = run"
    using r(2-6) by blast+
qed

text \<open>An executor that leaves its run, the rows of the folds written or not.\<close>

lemma leave_area_ok:
  assumes "area_ok a" and "i \<in> set (wa_executing a)" and "find_row (\<lambda>r. wf_id r = i) (wa_runs a) = Some run"
    and "b = a \<or> b = save_folds hash data run a"
    and "\<And>x. wf_id (f x) = wf_id x \<and> wf_config (f x) = wf_config x \<and> wf_summary (f x) = wf_summary x
      \<and> (wf_status (f x) = wf_status x \<or> wf_status (f x) = Wf_FAILED)"
  shows "area_ok (leave i (b\<lparr>wa_runs := update_rows (\<lambda>x. wf_id x = i) f (wa_runs b)\<rparr>))"
proof -
  have run: "run \<in> set (wa_runs a)" "wf_id run = i" "run_ok a run" "wf_status run = Wf_RUNNING"
      "\<And>x. x \<in> set (wa_runs a) \<Longrightarrow> wf_id x = i \<Longrightarrow> x = run"
    by (fact executing_found [OF assms(1-3)])+
  let ?a = "leave i (b\<lparr>wa_runs := update_rows (\<lambda>x. wf_id x = i) f (wa_runs b)\<rparr>)"
  have a: "wa_runs ?a = update_rows (\<lambda>x. wf_id x = i) f (wa_runs a)" "wa_folds ?a = wa_folds b"
      "wa_executing ?a = filter (\<lambda>j. j \<noteq> i) (wa_executing a)" "wa_locks ?a = filter (\<lambda>j. j \<noteq> i) (wa_locks a)"
    using assms(4) by auto
  have b: "wa_executing b = wa_executing a" "wa_locks b = wa_locks a" using assms(4) by auto
  have rows: "rows_of j ?a = rows_of j a \<or> j = i \<and> rows_of j ?a = rows_of j a @ run_rows hash data run" for j
    using assms(4) rows_of_saved [of j hash data run a] rows_of_folds [OF a(2)] run(2) by (auto split: if_splits)
  have "rows_of i a = []" using run(2,3) assms(2) by (simp add: run_ok_def)
  then have own: "List.map ff_window (rows_of i ?a) \<in> {[], fc_folds (wf_config run)}"
    using rows [of i] by (auto simp: run_rows_windows)
  show ?thesis
  proof (rule area_ok_update [OF assms(1) _ _ _ _ a(1)])
    show "run_ok ?a (f x)" if "x \<in> set (wa_runs a)" "wf_id x = i" for x
      using run(5) [OF that] run(2-4) own assms(5) [of run] by (auto simp: run_ok_def b)
    show "run_ok ?a x" if "x \<in> set (wa_runs a)" "wf_id x \<noteq> i" for x
      using that assms(1) rows [of "wf_id x"] by (auto simp: area_ok_def run_ok_def b)
    show "ff_runId ` set (wa_folds ?a) \<subseteq> wf_id ` set (wa_runs a)"
      using assms(1,4) run_rows_windows(2) [of hash data run] run(1) unfolding a(2) by (auto simp: area_ok_def save_folds_def image_subset_iff)
  qed (use assms(1,5) in \<open>auto simp: area_ok_def b\<close>)
qed

lemma update_rows_id: "update_rows p (\<lambda>x. x) rs = rs"
  by (simp add: update_rows_def)

lemma fail_area_ok:
  assumes "area_ok a" and "i \<in> set (wa_executing a)" and "find_row (\<lambda>r. wf_id r = i) (wa_runs a) = Some run"
    and "b = a \<or> b = save_folds hash data run a"
  shows "area_ok (fail_execute e i now b)" and "area_ok (leave i b)"
proof -
  show "area_ok (fail_execute e i now b)" unfolding fail_execute_def by (rule leave_area_ok [OF assms]) simp
  have "area_ok (leave i (b\<lparr>wa_runs := update_rows (\<lambda>x. wf_id x = i) (\<lambda>x. x) (wa_runs b)\<rparr>))"
    by (rule leave_area_ok [OF assms]) simp
  then show "area_ok (leave i b)" by (simp add: update_rows_id)
qed

lemma orphans_area_ok:
  assumes "area_ok a"
  shows "area_ok (snd (failOrphanedRuns now a))"
proof -
  let ?f = "\<lambda>r. r\<lparr>wf_status := Wf_FAILED, wf_error := Some orphan_error, wf_completedAt := Some now\<rparr>"
  let ?a = "snd (failOrphanedRuns now a)"
  have a: "wa_runs ?a = update_rows (orphaned now (wa_locks a)) ?f (wa_runs a)" "wa_folds ?a = wa_folds a"
      "wa_executing ?a = wa_executing a" "wa_locks ?a = wa_locks a"
    by (simp_all add: failOrphanedRuns_def)
  show ?thesis
  proof (rule area_ok_update [OF assms _ _ _ _ a(1)])
    show "run_ok ?a (?f x)" if "x \<in> set (wa_runs a)" "orphaned now (wa_locks a) x" for x
      using that assms by (auto simp: area_ok_def run_ok_def a(2,3) rows_of_def orphaned_def)
    show "run_ok ?a x" if "x \<in> set (wa_runs a)" "\<not> orphaned now (wa_locks a) x" for x
      using that assms by (auto simp: area_ok_def run_ok_def a(2,3) rows_of_def)
  qed (use assms in \<open>auto simp: area_ok_def a\<close>)
qed

interpretation walk: inductive_system wf_init wf_step area_ok
proof
  show "area_ok a" if "wf_init a" for a using that by (simp add: wf_init_def area_ok_def)
  show "area_ok a'" if "area_ok a" "wf_step a a'" for a a'
    using that(2,1)
  proof cases
    case (wf_crash alive)
    then show ?thesis using that(1) by (auto simp: area_ok_def run_ok_def rows_of_def)
  next
    case (wf_fail i e now)
    then show ?thesis using executing_run [OF that(1)] fail_area_ok(1) [OF that(1), where b = a] by metis
  qed (auto intro: start_area_ok begin_area_ok finish_area_ok fail_area_ok orphans_area_ok)
qed

text \<open>Along a run of the service no row is lost, what is frozen stays frozen, and a status only moves forward.\<close>

definition wf_rank :: "wf_status \<Rightarrow> nat" where
  "wf_rank st = (case st of Wf_PENDING \<Rightarrow> 0 | Wf_RUNNING \<Rightarrow> 1 | _ \<Rightarrow> 2)"

definition run_forward :: "walk_forward_run \<Rightarrow> walk_forward_run \<Rightarrow> bool" where
  "run_forward x y =
     (wf_id y = wf_id x \<and> wf_strategySnapshot y = wf_strategySnapshot x \<and> wf_config y = wf_config x
      \<and> wf_configHash y = wf_configHash x \<and> wf_strategyVersion y = wf_strategyVersion x
      \<and> wf_rank (wf_status x) \<le> wf_rank (wf_status y) \<and> (wf_rank (wf_status x) = 2 \<longrightarrow> y = x))"

definition forward :: "walk_forward_area \<Rightarrow> walk_forward_area \<Rightarrow> bool" where
  "forward a b = (\<exists>kept new. wa_runs b = kept @ new \<and> list_all2 run_forward (wa_runs a) kept)"

lemma run_forward_refl: "run_forward x x"
  by (simp add: run_forward_def)

lemma run_forward_trans: "run_forward x y \<Longrightarrow> run_forward y z \<Longrightarrow> run_forward x z"
  by (auto simp: run_forward_def)

lemma forward_same: "list_all2 run_forward (wa_runs a) (wa_runs b) \<Longrightarrow> forward a b"
  by (auto simp: forward_def intro: exI [of _ "[]"])

lemma forward_refl: "forward a a"
  by (rule forward_same) (simp add: list_all2_refl run_forward_refl)

lemma forwardE:
  assumes "forward a b"
  obtains kept new where "wa_runs b = kept @ new" "list_all2 run_forward (wa_runs a) kept"
  using assms by (auto simp: forward_def)

lemma forwardI: "wa_runs b = kept @ new \<Longrightarrow> list_all2 run_forward (wa_runs a) kept \<Longrightarrow> forward a b"
  by (auto simp: forward_def)

lemma forward_trans:
  assumes "forward a b" and "forward b c"
  shows "forward a c"
proof -
  obtain k n where b: "wa_runs b = k @ n" "list_all2 run_forward (wa_runs a) k" using assms(1) by (rule forwardE)
  obtain l m where c: "wa_runs c = l @ m" "list_all2 run_forward (wa_runs b) l" using assms(2) by (rule forwardE)
  obtain l1 l2 where l: "l = l1 @ l2" "list_all2 run_forward k l1"
    using c(2) unfolding b(1) by (auto simp: list_all2_append1)
  have "list_all2 run_forward (wa_runs a) l1"
    by (rule list_all2_trans [OF run_forward_trans b(2) l(2)])
  with c(1) l(1) show ?thesis by (auto intro: forwardI)
qed

lemma forward_found:
  assumes "forward a b" and "area_ok b" and "r \<in> set (wa_runs a)"
  obtains r' where "find_row (\<lambda>x. wf_id x = wf_id r) (wa_runs b) = Some r'" "run_forward r r'"
proof -
  obtain k n where b: "wa_runs b = k @ n" "list_all2 run_forward (wa_runs a) k" using assms(1) by (rule forwardE)
  obtain r' where r': "r' \<in> set (wa_runs b)" "run_forward r r'"
    using b assms(3) by (fastforce simp: list_all2_conv_all_nth in_set_conv_nth nth_append)
  have "find_row (\<lambda>x. wf_id x = wf_id r') (wa_runs b) = Some r'"
    by (rule find_row_unique [OF _ r'(1)]) (use assms(2) in \<open>simp add: area_ok_def\<close>)
  with r'(2) have "find_row (\<lambda>x. wf_id x = wf_id r) (wa_runs b) = Some r'" by (simp add: run_forward_def)
  then show thesis using r'(2) by (rule that)
qed

lemma forward_update:
  assumes "wa_runs b = update_rows p f (wa_runs a)" and "\<And>r. r \<in> set (wa_runs a) \<Longrightarrow> p r \<Longrightarrow> run_forward r (f r)"
  shows "forward a b"
  by (rule forward_same)
    (use assms(2) in \<open>auto simp: assms(1) update_rows_def list_all2_conv_all_nth run_forward_refl\<close>)

lemma executing_forward:
  assumes "area_ok a" and "i \<in> set (wa_executing a)" and "wa_runs b = update_rows (\<lambda>x. wf_id x = i) f (wa_runs a)"
    and "\<And>x. wf_id (f x) = wf_id x \<and> wf_strategySnapshot (f x) = wf_strategySnapshot x \<and> wf_config (f x) = wf_config x
      \<and> wf_configHash (f x) = wf_configHash x \<and> wf_strategyVersion (f x) = wf_strategyVersion x \<and> wf_rank (wf_status (f x)) = 2"
  shows "forward a b"
proof (rule forward_update [OF assms(3)])
  fix r assume "r \<in> set (wa_runs a)" "wf_id r = i"
  moreover obtain run where "wf_status run = Wf_RUNNING" "\<And>x. x \<in> set (wa_runs a) \<Longrightarrow> wf_id x = i \<Longrightarrow> x = run"
    using executing_run [OF assms(1,2)] by metis
  ultimately have "wf_status r = Wf_RUNNING" by metis
  then show "run_forward r (f r)" using assms(4) by (simp add: run_forward_def wf_rank_def)
qed

lemma begin_forward: "forward a (begin_execute i now a)"
proof -
  define pending where "pending r = (wf_id r = i \<and> wf_status r = Wf_PENDING)" for r :: walk_forward_run
  have "wa_runs (begin_execute i now a) = wa_runs a
      \<or> wa_runs (begin_execute i now a) = update_rows pending (\<lambda>r. r\<lparr>wf_status := Wf_RUNNING, wf_startedAt := Some now\<rparr>) (wa_runs a)"
    by (auto simp: begin_execute_def acquireLease_def claim_run_def release_lease_def Let_def pending_def [abs_def])
  then show ?thesis
  proof
    assume "wa_runs (begin_execute i now a) = wa_runs a"
    then show ?thesis by (intro forward_same) (simp add: list_all2_refl run_forward_refl)
  next
    assume "wa_runs (begin_execute i now a) = update_rows pending (\<lambda>r. r\<lparr>wf_status := Wf_RUNNING, wf_startedAt := Some now\<rparr>) (wa_runs a)"
    then show ?thesis by (rule forward_update) (simp add: pending_def run_forward_def wf_rank_def)
  qed
qed

lemma wf_step_forward:
  assumes "area_ok a" and "wf_step a b"
  shows "forward a b"
  using assms(2)
proof cases
  case (wf_start config_hash i now p user)
  then obtain r where "wa_runs b = wa_runs a @ [r]"
    by (auto simp: start_walk_forward_def Let_def elim!: bindE_elim)
  then show ?thesis by (rule forwardI) (simp add: list_all2_refl run_forward_refl)
next
  case (wf_begin i now)
  then show ?thesis by (simp add: begin_forward)
next
  case (wf_finish i hash result_hash data now)
  obtain run where run: "find_row (\<lambda>r. wf_id r = i) (wa_runs a) = Some run" "wf_id run = i"
    using executing_run [OF assms(1) wf_finish(2)] by metis
  show ?thesis
    by (rule executing_forward [OF assms(1) wf_finish(2)])
      (auto simp: wf_finish(1) finish_execute_def run complete_walk_forward_def wf_rank_def)
next
  case (wf_fail i e now)
  show ?thesis by (rule executing_forward [OF assms(1) wf_fail(2)]) (auto simp: wf_fail(1) fail_execute_def wf_rank_def)
next
  case (wf_fail_saved i run e now hash data)
  show ?thesis by (rule executing_forward [OF assms(1) wf_fail_saved(2)]) (auto simp: wf_fail_saved(1) fail_execute_def wf_rank_def)
next
  case (wf_crash_saved i run hash data)
  then show ?thesis by (intro forward_same) (simp add: list_all2_refl run_forward_refl)
next
  case (wf_orphans now)
  show ?thesis
    by (rule forward_update [where p = "orphaned now (wa_locks a)"
          and f = "\<lambda>r. r\<lparr>wf_status := Wf_FAILED, wf_error := Some orphan_error, wf_completedAt := Some now\<rparr>"])
      (auto simp: wf_orphans failOrphanedRuns_def orphaned_def run_forward_def wf_rank_def)
next
  case (wf_crash alive)
  then show ?thesis by (intro forward_same) (simp add: list_all2_refl run_forward_refl)
qed

lemma walk_forward_only: "walk.run a b \<Longrightarrow> walk.reach a \<Longrightarrow> forward a b"
  by (erule walk.run_relation) (auto intro: forward_refl forward_trans wf_step_forward walk.reach_inv)

end
