(* ===== verification/Columns.thy ===== *)
theory Columns
  imports Database
begin

text \<open>
  Numeric columns shared by the analytical tables: a \<open>DECIMAL(p,s)\<close> column rounds to \<open>s\<close> places, halves
  away from zero, and refuses a value of more than \<open>p\<close> digits, the whole statement with it.
\<close>

definition decimal_column :: "string \<Rightarrow> nat \<Rightarrow> nat \<Rightarrow> rat \<Rightarrow> rat res" where
  "decimal_column tbl p s x =
     (let n = sgn x * of_int \<lfloor>\<bar>x\<bar> * 10 ^ s + 1 / 2\<rfloor>
      in checked (\<bar>n\<bar> < 10 ^ p) tbl (n / 10 ^ s))"

definition optional_column :: "('a \<Rightarrow> 'b res) \<Rightarrow> 'a option \<Rightarrow> 'b option res" where
  "optional_column f v = (case v of None \<Rightarrow> Inr None | Some x \<Rightarrow> bindE (f x) (\<lambda>y. Inr (Some y)))"

end
