(* ===== verification/BacktestRuns.thy ===== *)
theory BacktestRuns
  imports Backtest Columns
begin

text \<open>
  Recorded backtests: the structural guard of a strategy received as JSON (\<open>backtest/strategy.guard.ts\<close>),
  the window by default, the rows of a run and of its bets (\<open>BacktestEngineService.run\<close>), their reading
  and the resolution of the strategy (\<open>audit/audit.controller.ts\<close>).
\<close>

section \<open>The guard\<close>

fun isRecord :: "json \<Rightarrow> bool" where
  "isRecord (JObj _) = True" | "isRecord (JDate _) = True" | "isRecord _ = False"

fun finite_number :: "json \<Rightarrow> rat option" where
  "finite_number (JNum (Num x)) = Some x" | "finite_number _ = None"

definition number_where :: "(rat \<Rightarrow> bool) \<Rightarrow> json \<Rightarrow> bool" where
  "number_where p v = (case finite_number v of None \<Rightarrow> False | Some x \<Rightarrow> p x)"

fun is_text :: "json \<Rightarrow> bool" where
  "is_text (JStr _) = True" | "is_text _ = False"

fun named :: "json \<Rightarrow> bool" where
  "named (JStr s) = (trim s \<noteq> [])" | "named _ = False"

fun array_items :: "json \<Rightarrow> json list option" where
  "array_items (JArr xs) = Some xs" | "array_items _ = None"

definition staking_accepted :: "json \<Rightarrow> bool" where
  "staking_accepted staking =
     (let type = json_get ''type'' staking; amount = json_get ''amount'' staking in
      isRecord staking \<and> (type = JStr ''FLAT'' \<or> type = JStr ''PERCENT_BANKROLL'')
      \<and> number_where (\<lambda>x. \<not> x < 0) amount
      \<and> \<not> (type = JStr ''PERCENT_BANKROLL'' \<and> number_where (\<lambda>x. x > 100) amount))"

definition entry_rules_accepted :: "json \<Rightarrow> bool" where
  "entry_rules_accepted rules =
     (isRecord rules
      \<and> (case array_items (json_get ''firstHalfRules'' rules) of None \<Rightarrow> False | Some xs \<Rightarrow> xs \<noteq> [])
      \<and> isRecord (json_get ''secondHalfRule'' rules) \<and> isRecord (json_get ''odds'' rules))"

definition isWalkForwardStrategy :: "json \<Rightarrow> bool" where
  "isWalkForwardStrategy v =
     (isRecord v \<and> named (json_get ''name'' v)
      \<and> (case array_items (json_get ''markets'' v) of None \<Rightarrow> False | Some ms \<Rightarrow> ms \<noteq> [] \<and> list_all is_text ms)
      \<and> number_where (\<lambda>_. True) (json_get ''minEdgePct'' v) \<and> number_where (\<lambda>_. True) (json_get ''minConfidence'' v)
      \<and> number_where (\<lambda>x. \<not> x < 0) (json_get ''bankroll'' v)
      \<and> staking_accepted (json_get ''staking'' v)
      \<and> isRecord (json_get ''odds'' v) \<and> array_items (json_get ''source'' (json_get ''odds'' v)) \<noteq> None
      \<and> entry_rules_accepted (json_get ''entryRules'' v))"

text \<open>\<open>resolveStrategy\<close>: a strategy given as such, the baseline of the given rules, or of the saved ones.\<close>

definition resolveStrategy ::
  "backtest_strategy option \<Rightarrow> smart_rules_config option \<Rightarrow> smart_rules_config \<Rightarrow> backtest_strategy" where
  "resolveStrategy given entryRules saved =
     (case given of Some s \<Rightarrow> s | None \<Rightarrow> baselineStrategy (default_to saved entryRules))"

section \<open>The tables\<close>

datatype backtest_status = Bt_PENDING | Bt_RUNNING | Bt_COMPLETED | Bt_FAILED

record backtest_run =
  bk_id :: string
  bk_name :: string
  bk_strategy :: backtest_strategy
  bk_windowStart :: int
  bk_windowEnd :: int
  bk_status :: backtest_status
  bk_kpis :: "backtest_kpis option"
  bk_totalBets :: nat
  bk_wonBets :: nat
  bk_lostBets :: nat
  bk_noResultBets :: nat
  bk_error :: "string option"
  bk_createdAt :: int
  bk_completedAt :: "int option"

record bet_result =
  bx_runId :: string
  bx_fixtureId :: string
  bx_providerFixtureId :: string
  bx_marketType :: string
  bx_selection :: string
  bx_ruleName :: "string option"
  bx_teamId :: "int option"
  bx_isHomeTeam :: bool
  bx_decisionAt :: int
  bx_elapsedAtDecision :: "int option"
  bx_oddAtDecision :: rat
  bx_oddSource :: string
  bx_edgePct :: "rat option"
  bx_confidenceScore :: "int option"
  bx_stake :: rat
  bx_outcome :: decision_outcome
  bx_profit :: rat
  bx_resolvedAt :: "int option"

record backtest_area =
  ba_runs :: "backtest_run list"
  ba_bets :: "bet_result list"

definition bet_row :: "string \<Rightarrow> int \<Rightarrow> staked_bet \<Rightarrow> bet_result res" where
  "bet_row runId now b =
     bindE (decimal_column ''bet_results'' 8 3 (bt_oddAtDecision b)) (\<lambda>odd.
     bindE (optional_column (decimal_column ''bet_results'' 5 2) (bt_edgePct b)) (\<lambda>edge.
     bindE (decimal_column ''bet_results'' 10 2 (bt_stake b)) (\<lambda>stake.
     bindE (decimal_column ''bet_results'' 12 3 (bt_profit b)) (\<lambda>profit.
     Inr \<lparr>bx_runId = runId, bx_fixtureId = bt_fixtureId b, bx_providerFixtureId = bt_providerFixtureId b,
          bx_marketType = bt_marketType b, bx_selection = bt_selection b, bx_ruleName = bt_ruleName b,
          bx_teamId = bt_teamId b, bx_isHomeTeam = bt_isHomeTeam b, bx_decisionAt = bt_decisionAt b,
          bx_elapsedAtDecision = bt_elapsedAtDecision b, bx_oddAtDecision = odd, bx_oddSource = bt_oddSource b,
          bx_edgePct = edge, bx_confidenceScore = bt_confidenceScore b, bx_stake = stake, bx_outcome = bt_outcome b,
          bx_profit = profit, bx_resolvedAt = (if bt_outcome b = NO_RESULT then None else Some now)\<rparr>))))"

text \<open>\<open>betRepo.insert\<close>: one statement, all the rows or none.\<close>

definition insert_bets :: "string \<Rightarrow> int \<Rightarrow> staked_bet list \<Rightarrow> backtest_area \<Rightarrow> backtest_area res" where
  "insert_bets runId now bets a =
     (if bets = [] then Inr a
      else bindE (mapE (bet_row runId now) bets) (\<lambda>rows. Inr (a\<lparr>ba_bets := ba_bets a @ rows\<rparr>)))"

section \<open>A run\<close>

definition least_of :: "int list \<Rightarrow> int option" where
  "least_of xs = (case xs of [] \<Rightarrow> None | x # ys \<Rightarrow> Some (fold min ys x))"

definition greatest_of :: "int list \<Rightarrow> int option" where
  "greatest_of xs = (case xs of [] \<Rightarrow> None | x # ys \<Rightarrow> Some (fold max ys x))"

definition defaultWindow :: "int \<Rightarrow> stats_snapshot list \<Rightarrow> int \<times> int" where
  "defaultWindow now stats =
     (default_to now (least_of (List.map sn_snapshotAt stats)), default_to now (greatest_of (List.map sn_snapshotAt stats)))"

definition new_backtest_run :: "string \<Rightarrow> string \<Rightarrow> backtest_strategy \<Rightarrow> int \<times> int \<Rightarrow> int \<Rightarrow> backtest_run" where
  "new_backtest_run newId name strategy window now =
     \<lparr>bk_id = newId, bk_name = name, bk_strategy = strategy, bk_windowStart = fst window, bk_windowEnd = snd window,
      bk_status = Bt_RUNNING, bk_kpis = None, bk_totalBets = 0, bk_wonBets = 0, bk_lostBets = 0, bk_noResultBets = 0,
      bk_error = None, bk_createdAt = now, bk_completedAt = None\<rparr>"

definition completed_run :: "backtest_kpis \<Rightarrow> int \<Rightarrow> backtest_run \<Rightarrow> backtest_run" where
  "completed_run kpis now r =
     r\<lparr>bk_status := Bt_COMPLETED, bk_kpis := Some kpis, bk_totalBets := kp_betCount kpis, bk_wonBets := kp_wonBets kpis,
       bk_lostBets := kp_lostBets kpis, bk_noResultBets := kp_noResultBets kpis, bk_completedAt := Some now\<rparr>"

definition failed_run :: "string \<Rightarrow> int \<Rightarrow> backtest_run \<Rightarrow> backtest_run" where
  "failed_run message now r = r\<lparr>bk_status := Bt_FAILED, bk_error := Some (take 500 message), bk_completedAt := Some now\<rparr>"

text \<open>\<open>runRepo.save\<close> of a row already there.\<close>

definition save_run :: "backtest_run \<Rightarrow> backtest_area \<Rightarrow> backtest_area" where
  "save_run r a = a\<lparr>ba_runs := update_rows (\<lambda>x. bk_id x = bk_id r) (\<lambda>_. r) (ba_runs a)\<rparr>"

text \<open>
  The run is written first, then its bets in one statement, then its end; an error is recorded on
  the run and thrown again.
\<close>

definition run_backtest ::
  "(json \<Rightarrow> string) \<Rightarrow> history \<Rightarrow> string \<Rightarrow> string \<Rightarrow> backtest_strategy \<Rightarrow> (int \<times> int) option \<Rightarrow> int
    \<Rightarrow> backtest_area \<Rightarrow> backtest_run res \<times> backtest_area" where
  "run_backtest hash data newId name strategy window now a =
     (let resolvedWindow = (case window of Some w \<Rightarrow> w | None \<Rightarrow> defaultWindow now (hs_stats data));
          r = new_backtest_run newId name strategy resolvedWindow now;
          a = a\<lparr>ba_runs := ba_runs a @ [r]\<rparr>;
          (staked, kpis) = applyStakingAndComputeKpis
             (rr_bets (replayDetailed hash data strategy (fst resolvedWindow) (snd resolvedWindow))) strategy
      in case insert_bets newId now (filter bt_placed staked) a of
           Inl e \<Rightarrow> (Inl e, save_run (failed_run (exn_message e) now r) a)
         | Inr a \<Rightarrow> (let r = completed_run kpis now r in (Inr r, save_run r a)))"

definition listBacktestRuns :: "backtest_area \<Rightarrow> backtest_run list" where
  "listBacktestRuns a = take 50 (sort_key (\<lambda>r. - bk_createdAt r) (ba_runs a))"

definition getBacktestRun :: "string \<Rightarrow> nat \<Rightarrow> nat \<Rightarrow> backtest_area \<Rightarrow> (backtest_run \<times> bet_result list \<times> nat) res" where
  "getBacktestRun i limit offset a =
     bindE (of_option (NotFoundException (''Run '' @ i @ '' introuvable'')) (find_row (\<lambda>r. bk_id r = i) (ba_runs a))) (\<lambda>r.
     (let bets = sort_key bx_decisionAt (filter (\<lambda>b. bx_runId b = i) (ba_bets a))
      in Inr (r, take (min limit 500) (drop offset bets), length bets)))"

end
