(* ===== verification/BacktestProperties.thy ===== *)
theory BacktestProperties
  imports BacktestAccounts WalkForwardSafety BacktestRuns LiveSamples
begin

text \<open>
  The properties of the replay, of the staking, of the folds and of the runs. The sample is one
  evening of one match, with the statistics of its home team and one bookmaker's quote.
\<close>

section \<open>The rows of the bets\<close>


section \<open>A recorded evening\<close>

definition evening :: history where
  "evening =
     \<lparr>hs_fixtures = [live_match 8], hs_stats = [live_shots 8 1996000 6, (live_shots 9 1997000 6)\<lparr>sn_id := ''s2''\<rparr>],
      hs_events = [], hs_odds = live_quotes\<rparr>"

text \<open>The same evening, later: a goal, the final score, more statistics and another quote.\<close>

definition evening_after :: history where
  "evening_after =
     \<lparr>hs_fixtures = [(live_match 90)\<lparr>fx_statusShort := Some ''FT'', fx_scoreHome := Some 1\<rparr>],
      hs_stats = hs_stats evening @ [(live_shots 60 5000000 20)\<lparr>sn_id := ''s3''\<rparr>],
      hs_events = [\<lparr>ev_fixtureId = ''f1'', ev_teamId = Some 1, ev_minute = Some 80, ev_eventType = Some ''Goal''\<rparr>],
      hs_odds = live_quotes @ [(hd live_quotes)\<lparr>os_id := ''q2'', os_oddValue := 3, os_observedAt := Some 5000000, os_receivedAt := Some 5000000\<rparr>]\<rparr>"

definition evening_strategy :: backtest_strategy where
  "evening_strategy = baselineStrategy default_config"

definition no_hash :: "json \<Rightarrow> string" where
  "no_hash v = []"



section \<open>The replay\<close>



text \<open>
  C33: a replay is reproducible. Its bets, the fate of its signals and the imprint of its data are the
  same whatever the order in which the database returns the rows of the matches, of the statistics,
  of the goals and of the quotes, whose keys are unique.
\<close>

theorem replay_order_independent:
  assumes "same_rows h h'" and "keyed h"
  shows "replayDetailed hash h s since till = replayDetailed hash h' s since till"
  by (rule replayDetailed_perm [OF assms])

definition reversed :: "history \<Rightarrow> history" where
  "reversed h =
     \<lparr>hs_fixtures = rev (hs_fixtures h), hs_stats = rev (hs_stats h), hs_events = rev (hs_events h), hs_odds = rev (hs_odds h)\<rparr>"

theorem replay_order_independent_witness:
  "replayDetailed no_hash evening_after evening_strategy 0 9000000
     = replayDetailed no_hash (reversed evening_after) evening_strategy 0 9000000
   \<and> hs_stats (reversed evening_after) \<noteq> hs_stats evening_after"
proof -
  have "keyed evening_after" "hs_stats (reversed evening_after) \<noteq> hs_stats evening_after" by code_simp+
  moreover have "same_rows evening_after (reversed evening_after)" by (simp add: same_rows_def reversed_def)
  ultimately show ?thesis using replay_order_independent by blast
qed

text \<open>
  C19: a backtest never stakes money it does not have. Every bet of a replay is staked, in the order of
  the decisions, within the bankroll left by the bets before it; the bankroll is the initial one
  and the profits; a match, team and market is bet once; the placed signals are the bets; every bet
  counted has one outcome, and the others are counted as skipped.
\<close>

theorem backtest_never_overdrawn:
  "let r = replayDetailed hash h s since till;
       k = stake_all s (rr_bets r); (staked, kpis) = applyStakingAndComputeKpis (rr_bets r) s
   in staked_within (max 0 (bs_bankroll s)) staked
      \<and> List.map decided_bet.truncate staked = sort_key bt_decisionAt (rr_bets r)
      \<and> 0 \<le> sk_bankroll k \<and> sk_bankroll k = max 0 (bs_bankroll s) + sum_list (List.map bt_profit staked)
      \<and> sk_totalStaked k = sum_list (List.map risked staked)
      \<and> distinct (List.map (\<lambda>b. (bt_fixtureId b, bt_teamId b, bt_marketType b)) (rr_bets r))
      \<and> sa_placed (summarizeSignals (rr_signals r)) = kp_betCount kpis + kp_bankrollSkippedBets kpis
      \<and> kp_betCount kpis = kp_wonBets kpis + kp_lostBets kpis + kp_noResultBets kpis + kp_voidBets kpis
      \<and> 0 \<le> kp_maxDrawdownPct kpis \<and> kp_maxDrawdownPct kpis \<le> 100"
proof -
  define r where "r = replayDetailed hash h s since till"
  define k where "k = stake_all s (rr_bets r)"
  note accounts = replay_accounts [of hash h s since till, folded r_def]
  have ok: "staking_ok (max 0 (bs_bankroll s)) k"
    unfolding k_def by (rule stake_all_ok) (use accounts(2) in force)
  have len: "length (sk_staked k) = length (rr_bets r)" by (simp add: k_def stake_all_length)
  have "length (filter bt_placed (sk_staked k)) + (length (sk_staked k) - length (filter bt_placed (sk_staked k))) = length (rr_bets r)"
    using length_filter_le [of bt_placed "sk_staked k"] len by simp
  moreover have "0 \<le> round2 (sk_maxDrawdownPct k) \<and> round2 (sk_maxDrawdownPct k) \<le> 100"
    by (rule round2_bounds) (use ok in \<open>simp_all add: staking_ok_def\<close>)
  ultimately show ?thesis
    using ok accounts(1,3) bets_with_sum [of "filter bt_placed (sk_staked k)"] stake_all_staked [of s "rr_bets r", folded k_def]
    by (simp add: applyStakingAndComputeKpis_def r_def [symmetric] k_def [symmetric] kpis_of_def Let_def staking_ok_def)
qed




text \<open>
  The guard looks at the first-half rules as a non-empty list and at the odds of the rules as an
  object: rules that are not objects and odds without any of their fields pass.
\<close>

theorem guard_ignores_rules:
  "isWalkForwardStrategy (JObj [(''name'', JStr ''n''), (''markets'', JArr [JStr ''Buts match'']),
     (''minEdgePct'', JNum (Num 0)), (''minConfidence'', JNum (Num 0)), (''bankroll'', JNum (Num 100)),
     (''staking'', JObj [(''type'', JStr ''FLAT''), (''amount'', JNum (Num 1))]), (''odds'', JObj [(''source'', JArr [])]),
     (''entryRules'', JObj [(''firstHalfRules'', JArr [JNull]), (''secondHalfRule'', JObj []), (''odds'', JObj [])])])"
  by code_simp

section \<open>The walk-forward\<close>














end
