(* ===== verification/BaseRates.thy ===== *)
theory BaseRates
  imports Signals Backtest
begin

text \<open>
  The base rates (\<open>analytics/base-rates.calculator.ts\<close>, \<open>analytics/base-rates.service.ts\<close>): the
  observations of a match, their aggregation into rates, and the recomputation of the table for a
  league and a season. Queries without an order return the rows in the order of the table.
\<close>

section \<open>Observations\<close>

datatype base_rate_signal = Bs_total_shots | Bs_on_target | Bs_pressure_index

definition base_rate_signals :: "base_rate_signal list" where
  "base_rate_signals = [Bs_total_shots, Bs_on_target, Bs_pressure_index]"

fun signal_name :: "base_rate_signal \<Rightarrow> string" where
  "signal_name Bs_total_shots = ''total_shots''" | "signal_name Bs_on_target = ''on_target''"
| "signal_name Bs_pressure_index = ''pressure_index''"

fun default_thresholds :: "base_rate_signal \<Rightarrow> int list" where
  "default_thresholds Bs_total_shots = [1, 2, 3, 4, 5, 6, 7, 8, 9, 10]"
| "default_thresholds Bs_on_target = [1, 2, 3, 4, 5, 6, 7, 8]"
| "default_thresholds Bs_pressure_index = [10, 20, 30, 40, 50, 60, 70, 80]"

record base_signals =
  sg_total_shots :: js_number
  sg_on_target :: js_number
  sg_pressure_index :: js_number

fun signal_value :: "base_rate_signal \<Rightarrow> base_signals \<Rightarrow> js_number" where
  "signal_value Bs_total_shots s = sg_total_shots s" | "signal_value Bs_on_target s = sg_on_target s"
| "signal_value Bs_pressure_index s = sg_pressure_index s"

record team_match_observation =
  ob_leagueId :: int
  ob_season :: int
  ob_market :: string
  ob_signals :: base_signals
  ob_eventOccurred :: bool

definition signalsOf :: "json \<Rightarrow> base_signals" where
  "signalsOf stats =
     \<lparr>sg_total_shots = default_to (Num 0) (extractTotalShots stats),
      sg_on_target = getStatValue stats [''On Target'', ''Shots on Goal''],
      sg_pressure_index = computePressureIndex stats\<rparr>"

definition diffSignals :: "base_signals \<Rightarrow> base_signals \<Rightarrow> base_signals" where
  "diffSignals full first =
     \<lparr>sg_total_shots = js_max0 (js_sub (sg_total_shots full) (sg_total_shots first)),
      sg_on_target = js_max0 (js_sub (sg_on_target full) (sg_on_target first)),
      sg_pressure_index = js_max0 (js_sub (sg_pressure_index full) (sg_pressure_index first))\<rparr>"

definition team_half :: "int \<Rightarrow> string \<Rightarrow> stats_snapshot list \<Rightarrow> stats_snapshot option" where
  "team_half teamId half snapshots = find_row (\<lambda>s. sn_teamId s = Some teamId \<and> sn_half s = Some half) snapshots"

definition scored_when :: "(int \<Rightarrow> bool) \<Rightarrow> fixture_event list \<Rightarrow> bool" where
  "scored_when p goals = list_ex (\<lambda>g. case ev_minute g of None \<Rightarrow> False | Some m \<Rightarrow> p m) goals"

text \<open>The observations of one team: both first-half markets, and the second half where its snapshot exists.\<close>

definition team_observations ::
  "int \<Rightarrow> int \<Rightarrow> stats_snapshot list \<Rightarrow> fixture_event list \<Rightarrow> int \<Rightarrow> team_match_observation list" where
  "team_observations leagueId season snapshots goals teamId =
     (let teamGoals = filter (\<lambda>g. ev_teamId g = Some teamId) goals;
          obs = (\<lambda>market signals event. \<lparr>ob_leagueId = leagueId, ob_season = season, ob_market = market,
                   ob_signals = signals, ob_eventOccurred = event\<rparr>)
      in case team_half teamId ''1'' snapshots of
           None \<Rightarrow> []
         | Some half1 \<Rightarrow>
             (let firstSignals = signalsOf (sn_stats half1) in
              [obs ''goal_1h'' firstSignals (scored_when (\<lambda>m. m \<le> 45) teamGoals),
               obs ''goal_ft'' firstSignals (teamGoals \<noteq> [])]
              @ (case team_half teamId ''2'' snapshots of
                   None \<Rightarrow> []
                 | Some half2 \<Rightarrow>
                     [obs ''goal_2h'' (diffSignals (signalsOf (sn_stats half2)) firstSignals)
                        (scored_when (\<lambda>m. m > 45) teamGoals)])))"

definition buildObservations :: "fixture \<Rightarrow> stats_snapshot list \<Rightarrow> fixture_event list \<Rightarrow> team_match_observation list" where
  "buildObservations f snapshots goals =
     (case (fx_leagueId f, fx_season f) of
        (Some leagueId, Some season) \<Rightarrow>
          concat (List.map (\<lambda>teamId. case teamId of None \<Rightarrow> [] | Some i \<Rightarrow> team_observations leagueId season snapshots goals i)
            [fx_homeTeamId f, fx_awayTeamId f])
      | _ \<Rightarrow> [])"

section \<open>Aggregation\<close>

definition round4 :: "rat \<Rightarrow> rat" where
  "round4 v = of_int (js_round (v * 10000)) / 10000"

definition groupKey :: "team_match_observation \<Rightarrow> string" where
  "groupKey b = join_with ''|'' [show_int (ob_leagueId b), show_int (ob_season b), ob_market b]"

definition at_least :: "base_rate_signal \<Rightarrow> int \<Rightarrow> team_match_observation list \<Rightarrow> team_match_observation list" where
  "at_least signal threshold bucket = filter (\<lambda>b. js_ge (signal_value signal (ob_signals b)) (of_int threshold)) bucket"

text \<open>The rate of a bucket for a signal and a threshold, where its sample is large enough.\<close>

definition bucket_rate :: "nat \<Rightarrow> team_match_observation list \<Rightarrow> base_rate_signal \<Rightarrow> int \<Rightarrow> base_rate option" where
  "bucket_rate minSample bucket signal threshold =
     (let sample = at_least signal threshold bucket;
          positives = length (filter ob_eventOccurred sample)
      in if length sample < minSample then None
         else Some \<lparr>br_leagueId = ob_leagueId (hd bucket), br_season = ob_season (hd bucket), br_market = ob_market (hd bucket),
                    br_signal = signal_name signal, br_threshold = threshold, br_sampleSize = int (length sample),
                    br_observedRate = round4 (of_nat positives / of_nat (length sample))\<rparr>)"

definition bucket_rates :: "nat \<Rightarrow> team_match_observation list \<Rightarrow> base_rate list" where
  "bucket_rates minSample bucket =
     concat (List.map (\<lambda>signal. List.map_filter (bucket_rate minSample bucket signal) (default_thresholds signal)) base_rate_signals)"

definition computeBaseRates :: "nat \<Rightarrow> team_match_observation list \<Rightarrow> base_rate list" where
  "computeBaseRates minSample observations =
     concat (List.map (\<lambda>key. bucket_rates minSample (filter (\<lambda>b. groupKey b = key) observations))
       (uniq (List.map groupKey observations)))"

section \<open>The table\<close>

definition rate_key :: "base_rate \<Rightarrow> int \<times> int \<times> string \<times> string \<times> int" where
  "rate_key r = (br_leagueId r, br_season r, br_market r, br_signal r, br_threshold r)"

definition default_min_sample :: nat where "default_min_sample = 20"

definition insert_rates :: "base_rate list \<Rightarrow> base_rate list \<Rightarrow> base_rate list res" where
  "insert_rates rates table =
     checked (distinct (List.map rate_key (table @ rates))) ''base_rates'' (table @ rates)"

definition pair_observations :: "history \<Rightarrow> fixture list \<Rightarrow> team_match_observation list" where
  "pair_observations data fixtures =
     concat (List.map (\<lambda>f. buildObservations f (filter (\<lambda>s. sn_fixtureId s = fx_id f) (hs_stats data))
       (filter (\<lambda>g. ev_fixtureId g = fx_id f \<and> ev_eventType g = Some ''Goal'') (hs_events data))) fixtures)"

text \<open>
  The recomputation of a league and a season, on the table: the rates of the pair are deleted, then
  inserted by a second statement; what it returns, and the table when it fails between the two.
\<close>

definition recomputeLeagueSeason ::
  "history \<Rightarrow> int \<Rightarrow> int \<Rightarrow> nat \<Rightarrow> base_rate list \<Rightarrow> (nat \<times> nat) res \<times> base_rate list" where
  "recomputeLeagueSeason data leagueId season minSample table =
     (let fixtures = filter (\<lambda>f. fx_leagueId f = Some leagueId \<and> fx_season f = Some season) (hs_fixtures data) in
      if fixtures = [] then (Inr (0, 0), table)
      else let observations = pair_observations data fixtures;
               rates = computeBaseRates minSample observations;
               kept = filter (\<lambda>r. \<not> (br_leagueId r = leagueId \<and> br_season r = season)) table
           in if rates = [] then (Inr (length observations, 0), kept)
              else case insert_rates rates kept of
                     Inl e \<Rightarrow> (Inl e, kept)
                   | Inr table' \<Rightarrow> (Inr (length observations, length rates), table'))"

definition league_seasons :: "fixture list \<Rightarrow> (int \<times> int) list" where
  "league_seasons fixtures =
     uniq (List.map_filter (\<lambda>f. case (fx_leagueId f, fx_season f) of (Some l, Some s) \<Rightarrow> Some (l, s) | _ \<Rightarrow> None) fixtures)"

record recompute_result =
  rx_leagueSeasonPairs :: nat
  rx_observations :: nat
  rx_ratesUpserted :: nat

fun recompute_pairs ::
  "history \<Rightarrow> nat \<Rightarrow> (int \<times> int) list \<Rightarrow> nat \<times> nat \<Rightarrow> base_rate list \<Rightarrow> (nat \<times> nat) res \<times> base_rate list" where
  "recompute_pairs data minSample [] totals table = (Inr totals, table)"
| "recompute_pairs data minSample ((l, s) # pairs) (obs, ups) table =
     (case recomputeLeagueSeason data l s minSample table of
        (Inl e, table') \<Rightarrow> (Inl e, table')
      | (Inr (n, k), table') \<Rightarrow> recompute_pairs data minSample pairs (obs + n, ups + k) table')"

definition recomputeAll :: "history \<Rightarrow> nat \<Rightarrow> base_rate list \<Rightarrow> recompute_result res \<times> base_rate list" where
  "recomputeAll data minSample table =
     (let pairs = league_seasons (hs_fixtures data) in
      case recompute_pairs data minSample pairs (0, 0) table of
        (Inl e, table') \<Rightarrow> (Inl e, table')
      | (Inr (obs, ups), table') \<Rightarrow>
          (Inr \<lparr>rx_leagueSeasonPairs = length pairs, rx_observations = obs, rx_ratesUpserted = ups\<rparr>, table'))"

section \<open>Reading\<close>

definition findRates :: "int option \<Rightarrow> int option \<Rightarrow> string option \<Rightarrow> string option \<Rightarrow> base_rate list \<Rightarrow> base_rate list" where
  "findRates leagueId season market signal table =
     take 2000 (sort_key (\<lambda>r. (br_leagueId r, - br_season r, locale_key (br_market r), locale_key (br_signal r), br_threshold r))
        (filter (\<lambda>r. (leagueId = None \<or> leagueId = Some (br_leagueId r)) \<and> (season = None \<or> season = Some (br_season r))
           \<and> (market = None \<or> market = Some (br_market r)) \<and> (signal = None \<or> signal = Some (br_signal r))) table))"

definition lookupRate :: "int \<Rightarrow> int \<Rightarrow> string \<Rightarrow> string \<Rightarrow> int \<Rightarrow> base_rate list \<Rightarrow> (rat \<times> int) option" where
  "lookupRate leagueId season market signal threshold table =
     map_option (\<lambda>r. (br_observedRate r, br_sampleSize r))
       (find_row (\<lambda>r. rate_key r = (leagueId, season, market, signal, threshold)) table)"

end
