(* ===== verification/BaseRatesSafety.thy ===== *)
theory BaseRatesSafety
  imports BaseRates BacktestAccounts
begin

text \<open>
  A recomputation replaces the rates of one league and season by the frequencies observed, one row
  for each market, signal and threshold, and leaves the others as they are.
\<close>

section \<open>Distinct keys\<close>

text \<open>Lists whose elements carry the tag of the list they come from.\<close>

lemma distinct_concat_tagged:
  assumes "distinct (List.map tag xs)"
    and "\<And>x. x \<in> set xs \<Longrightarrow> distinct (List.map key (f x))"
    and "\<And>x y. x \<in> set xs \<Longrightarrow> y \<in> set (f x) \<Longrightarrow> tag' (key y) = tag x"
  shows "distinct (List.map key (concat (List.map f xs)))"
  using assms
proof (induction xs)
  case (Cons x xs)
  have "key y \<noteq> key z" if "y \<in> set (f x)" "w \<in> set xs" "z \<in> set (f w)" for y z w
  proof
    assume "key y = key z"
    moreover have "tag' (key y) = tag x" using Cons.prems(3) that(1) by simp
    moreover have "tag' (key z) = tag w" by (rule Cons.prems(3) [of w z]) (use that(2,3) in simp_all)
    ultimately have "tag w = tag x" by simp
    with Cons.prems(1) that(2) show False by (metis distinct.simps(2) image_eqI list.simps(9) list.set_map)
  qed
  moreover have "distinct (List.map key (concat (List.map f xs)))" by (rule Cons.IH) (use Cons.prems in auto)
  moreover have "distinct (List.map key (f x))" using Cons.prems(2) by simp
  ultimately show ?case by auto
qed simp

lemma map_filter_concat: "List.map_filter f xs = concat (List.map (\<lambda>x. case f x of None \<Rightarrow> [] | Some y \<Rightarrow> [y]) xs)"
  by (induction xs) (auto simp: map_filter_simps split: option.splits)

lemma singleton_set [simp]: "(y \<in> set (case v of None \<Rightarrow> [] | Some x \<Rightarrow> [x])) = (v = Some y)"
  by (auto split: option.split)

lemma singleton_distinct [simp]: "distinct (List.map h (case v of None \<Rightarrow> [] | Some x \<Rightarrow> [x]))"
  by (simp split: option.split)

section \<open>A bucket\<close>

lemma bucket_rate_key:
  assumes "bucket_rate k bucket g th = Some r"
  shows "rate_key r = (ob_leagueId (hd bucket), ob_season (hd bucket), ob_market (hd bucket), signal_name g, th)"
  using assms by (auto simp: bucket_rate_def rate_key_def Let_def split: if_splits)

lemma bucket_rates_set:
  "(r \<in> set (bucket_rates k bucket)) = (\<exists>g. \<exists>th \<in> set (default_thresholds g). bucket_rate k bucket g th = Some r)"
proof -
  have "g \<in> set base_rate_signals" for g by (cases g) (simp_all add: base_rate_signals_def)
  then have "set base_rate_signals = UNIV" by blast
  then show ?thesis by (simp add: bucket_rates_def set_map_filter)
qed

lemma signal_name_inj: "(signal_name g = signal_name h) = (g = h)"
  by (cases g; cases h) simp_all

lemma distinct_thresholds: "distinct (default_thresholds g)"
  by (cases g) simp_all

lemma bucket_rates_distinct: "distinct (List.map rate_key (bucket_rates k bucket))"
  unfolding bucket_rates_def
proof (rule distinct_concat_tagged [where tag = signal_name and tag' = "\<lambda>(_, _, _, s, _). s"])
  show "distinct (List.map signal_name base_rate_signals)" by (simp add: base_rate_signals_def)
  show "distinct (List.map rate_key (List.map_filter (bucket_rate k bucket g) (default_thresholds g)))" for g
    unfolding map_filter_concat
    by (rule distinct_concat_tagged [where tag = "\<lambda>th. th" and tag' = "\<lambda>(_, _, _, _, th). th"])
      (simp_all add: distinct_thresholds bucket_rate_key)
qed (auto simp: set_map_filter dest: bucket_rate_key)

section \<open>The rates of a league and a season\<close>

definition in_pair :: "int \<Rightarrow> int \<Rightarrow> team_match_observation \<Rightarrow> bool" where
  "in_pair l s b = (ob_leagueId b = l \<and> ob_season b = s \<and> plain (ob_market b))"

lemma groupKey_market:
  assumes "in_pair l s b" and "in_pair l s c"
  shows "(groupKey b = groupKey c) = (ob_market b = ob_market c)"
  using assms key_inj [of "show_int l" s "ob_market b" "show_int l" s "ob_market c"]
  by (auto simp: groupKey_def in_pair_def)

lemma bucket_of:
  assumes "\<forall>b \<in> set obs. in_pair l s b" and "c \<in> set obs"
  shows "filter (\<lambda>b. groupKey b = groupKey c) obs = filter (\<lambda>b. ob_market b = ob_market c) obs"
  by (rule filter_cong [OF refl]) (use assms groupKey_market in blast)

lemma bucket_hd:
  assumes "\<forall>b \<in> set obs. in_pair l s b" and "c \<in> set obs"
  shows "ob_leagueId (hd (filter (\<lambda>b. ob_market b = ob_market c) obs)) = l"
    and "ob_season (hd (filter (\<lambda>b. ob_market b = ob_market c) obs)) = s"
    and "ob_market (hd (filter (\<lambda>b. ob_market b = ob_market c) obs)) = ob_market c"
proof -
  have "filter (\<lambda>b. ob_market b = ob_market c) obs \<noteq> []" using assms(2) by (auto simp: filter_empty_conv)
  then have "hd (filter (\<lambda>b. ob_market b = ob_market c) obs) \<in> set (filter (\<lambda>b. ob_market b = ob_market c) obs)"
    by (rule hd_in_set)
  then show "ob_leagueId (hd (filter (\<lambda>b. ob_market b = ob_market c) obs)) = l"
      "ob_season (hd (filter (\<lambda>b. ob_market b = ob_market c) obs)) = s"
      "ob_market (hd (filter (\<lambda>b. ob_market b = ob_market c) obs)) = ob_market c"
    using assms(1) by (auto simp: in_pair_def)
qed

text \<open>What the rate of a market, a signal and a threshold should be.\<close>

definition frequency :: "nat \<Rightarrow> team_match_observation list \<Rightarrow> string \<Rightarrow> base_rate_signal \<Rightarrow> int \<Rightarrow> (rat \<times> int) option" where
  "frequency k obs m g th =
     (let sample = at_least g th (filter (\<lambda>b. ob_market b = m) obs) in
      if th \<in> set (default_thresholds g) \<and> k \<le> length sample
      then Some (round4 (of_nat (length (filter ob_eventOccurred sample)) / of_nat (length sample)), int (length sample))
      else None)"

lemma computed_set:
  assumes "\<forall>b \<in> set obs. in_pair l s b"
  shows "(r \<in> set (computeBaseRates k obs)) = (\<exists>c \<in> set obs. \<exists>g. \<exists>th \<in> set (default_thresholds g).
    bucket_rate k (filter (\<lambda>b. ob_market b = ob_market c) obs) g th = Some r)"
  using bucket_of [OF assms] by (auto simp: computeBaseRates_def bucket_rates_set)

lemma computed_distinct:
  assumes "\<forall>b \<in> set obs. in_pair l s b"
  shows "distinct (List.map rate_key (computeBaseRates k obs))"
  unfolding computeBaseRates_def
proof (rule distinct_concat_tagged [where tag = "\<lambda>x. x"
      and tag' = "\<lambda>(l, s, m, _, _). join_with ''|'' [show_int l, show_int s, m]"])
  show "distinct (List.map (\<lambda>x. x) (uniq (List.map groupKey obs)))" by simp
  show "distinct (List.map rate_key (bucket_rates k (filter (\<lambda>b. groupKey b = key) obs)))" for key
    by (rule bucket_rates_distinct)
  fix key r assume "key \<in> set (uniq (List.map groupKey obs))" and r: "r \<in> set (bucket_rates k (filter (\<lambda>b. groupKey b = key) obs))"
  then obtain c where c: "c \<in> set obs" "key = groupKey c" by auto
  from r obtain g th where "bucket_rate k (filter (\<lambda>b. groupKey b = key) obs) g th = Some r" by (auto simp: bucket_rates_set)
  from bucket_rate_key [OF this] have "rate_key r = (l, s, ob_market c, signal_name g, th)"
    using bucket_hd [OF assms c(1)] c(2) by (simp add: bucket_of [OF assms c(1)])
  moreover have "ob_leagueId c = l" "ob_season c = s" using assms c(1) by (simp_all add: in_pair_def)
  ultimately show "(\<lambda>(l, s, m, _, _). join_with ''|'' [show_int l, show_int s, m]) (rate_key r) = key"
    by (simp only: prod.case c(2) groupKey_def)
qed

lemma computed_pair:
  assumes "\<forall>b \<in> set obs. in_pair l s b" and "r \<in> set (computeBaseRates k obs)"
  shows "br_leagueId r = l \<and> br_season r = s"
  using assms bucket_hd [OF assms(1)] by (auto simp: computed_set [OF assms(1)] bucket_rate_def Let_def split: if_splits)

lemma at_least_nil: "at_least g th [] = []"
  by (simp add: at_least_def)

lemma lookup_computed:
  assumes "\<forall>b \<in> set obs. in_pair l s b" and "0 < k"
  shows "lookupRate l s m (signal_name g) th (computeBaseRates k obs) = frequency k obs m g th"
proof -
  let ?bucket = "filter (\<lambda>b. ob_market b = m) obs" and ?key = "(l, s, m, signal_name g, th)"
  show ?thesis
  proof (cases "frequency k obs m g th")
    case None
    have "rate_key r \<noteq> ?key" if "r \<in> set (computeBaseRates k obs)" for r
    proof
      assume key: "rate_key r = ?key"
      from that obtain c h u where c: "c \<in> set obs" "u \<in> set (default_thresholds h)"
          "bucket_rate k (filter (\<lambda>b. ob_market b = ob_market c) obs) h u = Some r"
        by (auto simp: computed_set [OF assms(1)])
      from bucket_rate_key [OF c(3)] key have "ob_market c = m" "h = g" "u = th"
        using bucket_hd [OF assms(1) c(1)] by (simp_all add: signal_name_inj)
      with c None show False by (auto simp: frequency_def bucket_rate_def Let_def split: if_splits)
    qed
    then have "find_row (\<lambda>r. rate_key r = ?key) (computeBaseRates k obs) = None" by (simp add: find_row_None_iff)
    with None show ?thesis by (simp add: lookupRate_def)
  next
    case (Some v)
    then have th: "th \<in> set (default_thresholds g)" and size: "k \<le> length (at_least g th ?bucket)"
      by (auto simp: frequency_def Let_def split: if_splits)
    have "?bucket \<noteq> []"
    proof
      assume "?bucket = []"
      with size assms(2) show False by (simp only: at_least_nil list.size)
    qed
    then obtain c where c: "c \<in> set obs" "ob_market c = m" by (auto simp: filter_empty_conv)
    from size obtain r where r: "bucket_rate k ?bucket g th = Some r" "br_observedRate r = fst v" "br_sampleSize r = snd v"
      using Some th by (auto simp: bucket_rate_def frequency_def Let_def)
    have "r \<in> set (computeBaseRates k obs)" using c r(1) th by (auto simp: computed_set [OF assms(1)])
    moreover have "rate_key r = ?key" using bucket_rate_key [OF r(1)] bucket_hd [OF assms(1) c(1)] c(2) by simp
    ultimately have "find_row (\<lambda>x. rate_key x = ?key) (computeBaseRates k obs) = Some r"
      using find_row_unique [OF computed_distinct [OF assms(1)]] by metis
    with Some r(2,3) show ?thesis by (simp add: lookupRate_def)
  qed
qed

lemma frequency_bounds: "frequency k obs m g th = Some (v, n) \<Longrightarrow> 0 \<le> v \<and> v \<le> 1"
proof -
  assume "frequency k obs m g th = Some (v, n)"
  then obtain p q :: nat where v: "v = round4 (of_nat p / of_nat q)" "p \<le> q"
    by (auto simp: frequency_def Let_def length_filter_le split: if_splits)
  define x :: rat where "x = of_nat p / of_nat q"
  have x: "0 \<le> x" "x \<le> 1" using v(2) by (cases "q = 0"; simp add: x_def)+
  have "js_round (of_int 0) \<le> js_round (x * 10000)" "js_round (x * 10000) \<le> js_round (of_int 10000)"
    by (rule js_round_mono, use x in simp)+
  then show ?thesis unfolding js_round_of_int v(1) x_def [symmetric] round4_def by simp
qed

section \<open>The recomputation\<close>

lemma pair_observations_in:
  assumes "\<forall>f \<in> set fixtures. fx_leagueId f = Some l \<and> fx_season f = Some s" and "b \<in> set (pair_observations data fixtures)"
  shows "in_pair l s b"
  using assms
  by (auto simp: pair_observations_def buildObservations_def team_observations_def in_pair_def plain_def Let_def
      split: option.splits)

lemma lookup_append:
  "lookupRate l s m sg th (xs @ ys) = (case lookupRate l s m sg th xs of None \<Rightarrow> lookupRate l s m sg th ys | Some v \<Rightarrow> Some v)"
  by (simp add: lookupRate_def find_row_append split: option.split)

text \<open>The pair's rates are the frequencies; the table keeps its unique keys and its other rows.\<close>

lemma recompute_spec:
  assumes "distinct (List.map rate_key table)" and "0 < k"
    and "fixtures = filter (\<lambda>f. fx_leagueId f = Some l \<and> fx_season f = Some s) (hs_fixtures data)" and "fixtures \<noteq> []"
    and "recomputeLeagueSeason data l s k table = (result, table')"
  shows "\<exists>n. result = Inr n" and "distinct (List.map rate_key table')"
    and "filter (\<lambda>r. \<not> (br_leagueId r = l \<and> br_season r = s)) table' = filter (\<lambda>r. \<not> (br_leagueId r = l \<and> br_season r = s)) table"
    and "lookupRate l s m (signal_name g) th table' = frequency k (pair_observations data fixtures) m g th"
proof -
  let ?other = "\<lambda>r. \<not> (br_leagueId r = l \<and> br_season r = s)"
  define obs where "obs = pair_observations data fixtures"
  have obs: "\<forall>b \<in> set obs. in_pair l s b" using assms(3) pair_observations_in [of fixtures l s _ data] by (auto simp: obs_def)
  define rates where "rates = computeBaseRates k obs"
  define replaced where "replaced = filter ?other table @ rates"
  have pair: "\<forall>r \<in> set rates. br_leagueId r = l \<and> br_season r = s" using computed_pair [OF obs] by (simp add: rates_def)
  have distinct: "distinct (List.map rate_key replaced)"
    using assms(1) computed_distinct [OF obs, of k] pair
    by (auto simp: replaced_def rates_def distinct_map_filter rate_key_def)
  have result: "\<exists>n. recomputeLeagueSeason data l s k table = (Inr n, replaced)"
    using assms(4) distinct
    by (auto simp: recomputeLeagueSeason_def Let_def assms(3) [symmetric] obs_def [symmetric] rates_def [symmetric]
        insert_rates_def checked_def replaced_def)
  have others: "filter ?other replaced = filter ?other table" using pair by (simp add: replaced_def filter_empty_conv)
  have "lookupRate l s m (signal_name g) th replaced = frequency k obs m g th" for m g th
  proof -
    have "lookupRate l s m (signal_name g) th (filter ?other table) = None"
      by (auto simp: lookupRate_def find_row_None_iff rate_key_def)
    then show ?thesis using lookup_computed [OF obs assms(2)] by (simp add: replaced_def lookup_append rates_def)
  qed
  moreover have "replaced = table'" "\<exists>n. result = Inr n" using result assms(5) by auto
  ultimately show "\<exists>n. result = Inr n" "distinct (List.map rate_key table')" "filter ?other table' = filter ?other table"
      "lookupRate l s m (signal_name g) th table' = frequency k (pair_observations data fixtures) m g th"
    using distinct others unfolding obs_def by simp_all
qed

section \<open>What the live signals read\<close>

text \<open>The key of a rate determines its league, its season, its market and its threshold.\<close>

lemma split_first:
  assumes "a @ c # b = a' @ c # b'" and "c \<notin> set a" and "c \<notin> set a'"
  shows "a = a' \<and> b = b'"
proof -
  have "rev b @ c # rev a = rev b' @ c # rev a'" using arg_cong [OF assms(1), of rev] by simp
  from split_last [OF this] assms(2,3) show ?thesis by simp
qed

lemma baseRateKey_inj:
  assumes "baseRateKey l s m th = baseRateKey l' s' m' th'"
  shows "l = l' \<and> s = s' \<and> m = m' \<and> th = th'"
proof -
  have bar: "CHR ''|'' \<notin> set (show_int n)" for n using plain_show_int by (simp add: plain_def)
  have "(show_int l @ CHR ''|'' # show_int s @ CHR ''|'' # m) @ CHR ''|'' # show_int th
      = (show_int l' @ CHR ''|'' # show_int s' @ CHR ''|'' # m') @ CHR ''|'' # show_int th'"
    using assms by (simp add: baseRateKey_def)
  from split_last [OF this bar bar]
  have th: "show_int th = show_int th'"
    and rest: "show_int l @ CHR ''|'' # show_int s @ CHR ''|'' # m = show_int l' @ CHR ''|'' # show_int s' @ CHR ''|'' # m'"
    by simp_all
  from split_first [OF rest bar bar] have l: "show_int l = show_int l'"
    and rest: "show_int s @ CHR ''|'' # m = show_int s' @ CHR ''|'' # m'" by simp_all
  from split_first [OF rest bar bar] th l show ?thesis by (simp add: show_int_inj)
qed

lemma map_of_rev: "distinct (List.map fst xs) \<Longrightarrow> map_of (rev xs) = map_of xs"
  by (rule map_of_eqI) (auto simp: map_of_eq_Some_iff rev_map [symmetric])

lemma lookup_read:
  assumes "distinct (List.map rate_key table)" and "(l, s) \<in> set pairs"
  shows "map_of (buildLookup table pairs sg) (baseRateKey l s m th) = lookupRate l s m sg th table"
proof -
  let ?k = "\<lambda>r. baseRateKey (br_leagueId r) (br_season r) (br_market r) (br_threshold r)"
  let ?v = "\<lambda>r. (br_observedRate r, br_sampleSize r)"
  define rows where "rows = filter (\<lambda>r. br_signal r = sg \<and> br_leagueId r \<in> set (List.map fst pairs)
      \<and> br_season r \<in> set (List.map snd pairs)) table"
  have "distinct (List.map ?k rows)"
    using assms(1) by (auto simp: distinct_map rows_def inj_on_def rate_key_def dest!: baseRateKey_inj)
  moreover from this have "distinct (List.map fst (List.map (\<lambda>r. (?k r, ?v r)) rows))" by (simp add: comp_def)
  ultimately have "map_of (buildLookup table pairs sg) (baseRateKey l s m th)
      = map_of (List.map (\<lambda>r. (?k r, ?v r)) rows) (baseRateKey l s m th)"
    unfolding buildLookup_def rows_def [symmetric] by (simp only: map_of_rev)
  also have "\<dots> = map_option ?v (find_row (\<lambda>r. ?k r = baseRateKey l s m th) rows)"
    by (induction rows) auto
  also have "find_row (\<lambda>r. ?k r = baseRateKey l s m th) rows = find_row (\<lambda>r. rate_key r = (l, s, m, sg, th)) table"
  proof -
    have "l \<in> set (List.map fst pairs)" "s \<in> set (List.map snd pairs)" using assms(2) by force+
    then show ?thesis unfolding rows_def
      by (induction table) (auto simp: rate_key_def dest!: baseRateKey_inj)
  qed
  finally show ?thesis by (simp add: lookupRate_def)
qed

end
