(* ===== verification/OddsIngestion.thy ===== *)
theory OddsIngestion
  imports Quotes Stats Outcomes Columns
begin

text \<open>
  Ingestion of the odds (\<open>odds/odds-math.ts\<close>, \<open>odds/apifootball-odds.mapper.ts\<close>,
  \<open>odds/odds-ingestion.service.ts\<close>) and their reading (\<open>odds/odds.service.ts\<close>). The responses of the
  provider are arguments; doubles are exact rationals, rounded by the columns that store them.
\<close>

section \<open>Implied probabilities\<close>

definition impliedProbability :: "js_number \<Rightarrow> rat option" where
  "impliedProbability price = (case price of Num x \<Rightarrow> if x \<le> 1 then None else Some (1 / x) | _ \<Rightarrow> None)"

definition computeOverround :: "js_number list \<Rightarrow> rat" where
  "computeOverround odds = sum_list (List.map (\<lambda>price. default_to 0 (impliedProbability price)) odds)"

record margin =
  mg_raw :: "rat list"
  mg_fair :: "rat list"
  mg_overround :: rat

definition removeMargin :: "js_number list \<Rightarrow> margin" where
  "removeMargin odds =
     (if odds = [] then \<lparr>mg_raw = [], mg_fair = [], mg_overround = 0\<rparr>
      else let raw = List.map (\<lambda>price. default_to 0 (impliedProbability price)) odds;
               overround = sum_list raw;
               fair = (if overround > 0 then List.map (\<lambda>p. p / overround) raw else List.map (\<lambda>_. 0) raw)
           in \<lparr>mg_raw = raw, mg_fair = fair, mg_overround = overround\<rparr>)"

section \<open>The text of a value\<close>

text \<open>\<open>String\<close> of a value, empty for \<open>null\<close>. Numbers are written without exponent, with at most 17 decimals; dates do not occur in a response.\<close>

fun fraction_digits :: "nat \<Rightarrow> rat \<Rightarrow> string" where
  "fraction_digits 0 r = []"
| "fraction_digits (Suc n) r =
     (if r = 0 then [] else digit_char (nat \<lfloor>r * 10\<rfloor>) # fraction_digits n (r * 10 - of_int \<lfloor>r * 10\<rfloor>))"

definition number_text :: "js_number \<Rightarrow> string" where
  "number_text v =
     (case v of NaN \<Rightarrow> ''NaN'' | PosInf \<Rightarrow> ''Infinity'' | NegInf \<Rightarrow> ''-Infinity''
      | Num x \<Rightarrow>
          (let whole = \<lfloor>\<bar>x\<bar>\<rfloor>; fraction = \<bar>x\<bar> - of_int whole
           in (if x < 0 then ''-'' else []) @ show_int whole
              @ (if fraction = 0 then [] else CHR ''.'' # fraction_digits 17 fraction)))"

fun js_text :: "json \<Rightarrow> string" where
  "js_text (JStr s) = s"
| "js_text (JNum v) = number_text v"
| "js_text (JBool b) = (if b then ''true'' else ''false'')"
| "js_text (JArr []) = []"
| "js_text (JArr [v]) = js_text v"
| "js_text (JArr (v # vs)) = js_text v @ '','' @ js_text (JArr vs)"
| "js_text (JObj _) = ''[object Object]''"
| "js_text _ = []"

definition or_else :: "json \<Rightarrow> json \<Rightarrow> json" where
  "or_else v w = (if v = JNull \<or> v = JUndefined then w else v)"

definition lower_case :: "string \<Rightarrow> string" where
  "lower_case s = List.map lower s"

section \<open>The mapper of apifootball\<close>

record odds_outcome =
  ou_outcome :: string
  ou_marketKey :: string
  ou_selectionKey :: string
  ou_value :: rat
  ou_available :: bool

record live_outcome = odds_outcome +
  lo_bookmakerName :: string
  lo_marketType :: string

text \<open>A \<open>Map\<close> from the market types to the outcomes pushed, in the order of insertion.\<close>

fun push_outcome :: "string \<Rightarrow> odds_outcome \<Rightarrow> (string \<times> odds_outcome list) list \<Rightarrow> (string \<times> odds_outcome list) list" where
  "push_outcome k x [] = [(k, [x])]"
| "push_outcome k x ((l, xs) # groups) = (if l = k then (l, xs @ [x]) # groups else (l, xs) # push_outcome k x groups)"

definition valid_odd :: "json \<Rightarrow> rat option" where
  "valid_odd raw =
     (case toNumber raw of
        Some (Num x) \<Rightarrow> if impliedProbability (Num x) = None then None else Some x
      | _ \<Rightarrow> None)"

definition prematch_fields :: "(string \<times> string \<times> string) list" where
  "prematch_fields =
     [(''1X2'', ''HOME'', ''odd_1''), (''1X2'', ''DRAW'', ''odd_x''), (''1X2'', ''AWAY'', ''odd_2''),
      (''DOUBLE_CHANCE'', ''HOME_DRAW'', ''odd_1x''), (''DOUBLE_CHANCE'', ''HOME_AWAY'', ''odd_12''),
      (''DOUBLE_CHANCE'', ''DRAW_AWAY'', ''odd_x2'')]
     @ concat (List.map (\<lambda>line. [(''OU_'' @ line, ''OVER'', ''o+'' @ line), (''OU_'' @ line, ''UNDER'', ''u+'' @ line)])
         [''0.5'', ''1'', ''1.5'', ''2'', ''2.5'', ''3'', ''3.5'', ''4'', ''4.5'', ''5'', ''5.5''])
     @ concat (List.map (\<lambda>line. [(''AH_'' @ line, ''HOME'', ''ah'' @ line @ ''_1''), (''AH_'' @ line, ''AWAY'', ''ah'' @ line @ ''_2'')])
         [''-4.5'', ''-4'', ''-3.5'', ''-3'', ''-2.5'', ''-2'', ''-1.5'', ''-1'', ''0'', ''+0.5'', ''+1'', ''+1.5'', ''+2'', ''+2.5'',
          ''+3'', ''+3.5'', ''+4'', ''+4.5''])
     @ [(''BTTS'', ''YES'', ''bts_yes''), (''BTTS'', ''NO'', ''bts_no'')]"

definition mapApifootballOddsEntry :: "json \<Rightarrow> (string \<times> odds_outcome list) list" where
  "mapApifootballOddsEntry entry =
     fold (\<lambda>(marketType, outcome, field) groups.
         case valid_odd (json_get field entry) of
           None \<Rightarrow> groups
         | Some x \<Rightarrow> push_outcome marketType
             \<lparr>ou_outcome = outcome, ou_marketKey = marketType, ou_selectionKey = outcome, ou_value = x, ou_available = True\<rparr> groups)
       prematch_fields []"

definition bookmakerNameOf :: "json \<Rightarrow> string option" where
  "bookmakerNameOf entry =
     (case List.map_filter (\<lambda>k. case json_get k entry of JStr s \<Rightarrow> if trim s = [] then None else Some (trim s) | _ \<Rightarrow> None)
             [''odd_bookmakers'', ''bookmaker_name'', ''bookmaker'', ''bookmakerName''] of
        [] \<Rightarrow> None | name # _ \<Rightarrow> Some name)"

definition isSuspended :: "json \<Rightarrow> bool" where
  "isSuspended v =
     (v = JBool True \<or> v = JNum (Num 1)
      \<or> lower_case (trim (js_text v)) \<in> {''yes'', ''true'', ''1''})"

definition liveMarketIdentity :: "json \<Rightarrow> (string \<times> string) option" where
  "liveMarketIdentity price =
     (let name = trim (js_text (json_get ''odd_name'' price));
          type = lower_case (trim (js_text (json_get ''type'' price)));
          handicap = trim (js_text (json_get ''handicap'' price));
          side = (if starts_with name ''Home'' then Some ''HOME'' else if starts_with name ''Away'' then Some ''AWAY'' else None)
      in case side of
           None \<Rightarrow> None
         | Some side \<Rightarrow>
             if ends_with name ''Team Score a Goal (1st Half)'' \<and> type = ''yes'' then Some (''TEAM_GOAL_1H'', side @ ''_YES'')
             else if ends_with name ''Team Score a Goal (2nd Half)'' \<and> type = ''yes'' then Some (''TEAM_GOAL_2H'', side @ ''_YES'')
             else if ends_with name ''Team Goals'' \<and> type = ''over'' \<and> handicap = ''0.5'' then Some (''TEAM_GOALS_FT'', side @ ''_OVER_0.5'')
             else None)"

definition live_outcome_of :: "string option \<Rightarrow> json \<Rightarrow> live_outcome option" where
  "live_outcome_of parentBookmaker price =
     (case (if bookmakerNameOf price = None then parentBookmaker else bookmakerNameOf price) of
        None \<Rightarrow> None
      | Some bookmakerName \<Rightarrow>
          (case (valid_odd (or_else (json_get ''value'' price) (json_get ''odd'' price)), liveMarketIdentity price) of
             (Some x, Some (marketKey, selectionKey)) \<Rightarrow>
               Some \<lparr>ou_outcome = selectionKey, ou_marketKey = marketKey, ou_selectionKey = selectionKey, ou_value = x,
                     ou_available = (\<not> isSuspended (json_get ''suspended'' price)), lo_bookmakerName = bookmakerName,
                     lo_marketType = marketKey\<rparr>
           | _ \<Rightarrow> None))"

definition mapApifootballLiveOddsEntry :: "json \<Rightarrow> live_outcome list" where
  "mapApifootballLiveOddsEntry entry =
     List.map_filter (live_outcome_of (bookmakerNameOf entry))
       (case json_get ''live_odds'' entry of JArr odds \<Rightarrow> odds | _ \<Rightarrow> [entry])"

definition isPartitionMarket :: "string \<Rightarrow> bool" where
  "isPartitionMarket marketType = (marketType \<noteq> ''DOUBLE_CHANCE'' \<and> \<not> starts_with marketType ''TEAM_GOAL'')"

section \<open>The mapper of api-sports\<close>

text \<open>The expression \<open>/^(over|under)\s+([\d.]+)$/\<close>.\<close>

definition over_under_line :: "string \<Rightarrow> string \<Rightarrow> string option" where
  "over_under_line side label =
     (if \<not> starts_with label side then None
      else let rest = drop (length side) label; line = dropWhile is_space rest
           in if rest \<noteq> [] \<and> is_space (hd rest) \<and> line \<noteq> [] \<and> list_all (\<lambda>c. is_digit c \<or> c = CHR ''.'') line then Some line else None)"

definition mapBetValueToMarket :: "string \<Rightarrow> string \<Rightarrow> (string \<times> string) option" where
  "mapBetValueToMarket betName valueLabel =
     (let name = lower_case betName; label = trim (lower_case valueLabel) in
      if str_includes name ''match winner'' \<or> name = ''1x2'' then
        (if label = ''home'' then Some (''1X2'', ''HOME'') else if label = ''draw'' then Some (''1X2'', ''DRAW'')
         else if label = ''away'' then Some (''1X2'', ''AWAY'') else None)
      else if str_includes name ''both teams score'' then
        (if label = ''yes'' then Some (''BTTS'', ''YES'') else if label = ''no'' then Some (''BTTS'', ''NO'') else None)
      else if str_includes name ''over/under'' then
        (case (over_under_line ''over'' label, over_under_line ''under'' label) of
           (Some line, _) \<Rightarrow> Some (''OU_'' @ line, ''OVER'')
         | (None, Some line) \<Rightarrow> Some (''OU_'' @ line, ''UNDER'')
         | _ \<Rightarrow> None)
      else None)"

definition group_value ::
  "string \<Rightarrow> json \<Rightarrow> (string \<times> odds_outcome list) list \<Rightarrow> (string \<times> odds_outcome list) list" where
  "group_value betName v groups =
     (case (mapBetValueToMarket betName (js_text (json_get ''value'' v)), valid_odd (json_get ''odd'' v)) of
        (Some (marketType, outcome), Some x) \<Rightarrow>
          push_outcome marketType \<lparr>ou_outcome = outcome, ou_marketKey = marketType, ou_selectionKey = outcome, ou_value = x,
            ou_available = (\<not> isSuspended (json_get ''suspended'' v))\<rparr> groups
      | _ \<Rightarrow> groups)"

definition groupBetsByMarket :: "json list \<Rightarrow> (string \<times> odds_outcome list) list" where
  "groupBetsByMarket bets =
     fold (\<lambda>bet. fold (group_value (js_text (json_get ''name'' bet))) (json_array (json_get ''values'' bet))) bets []"

definition expectedOutcomeCount :: "string \<Rightarrow> nat" where
  "expectedOutcomeCount marketType =
     (if marketType = ''1X2'' then 3 else if marketType = ''BTTS'' then 2
      else if starts_with marketType ''OU_'' then 2 else if starts_with marketType ''AH_'' then 2 else 0)"

section \<open>Rows\<close>

datatype odds_phase = PREMATCH | LIVE

record odds_row = odds_snapshot +
  or_bookmakerId :: "js_number option"
  or_bookmakerName :: string
  or_marketType :: string
  or_outcome :: string
  or_impliedProbabilityRaw :: rat
  or_impliedProbabilityFair :: "rat option"
  or_overround :: "rat option"
  or_phase :: odds_phase
  or_capturedAt :: int

text \<open>The match, the bookmaker and the moment a group of rows belongs to.\<close>

record row_context =
  rw_fixture :: fixture
  rw_bookmakerId :: "js_number option"
  rw_bookmakerName :: string
  rw_bookmakerKey :: string
  rw_phase :: odds_phase
  rw_providerKey :: string
  rw_receivedAt :: int

definition odds_row_of ::
  "row_context \<Rightarrow> string \<Rightarrow> odds_outcome \<Rightarrow> rat \<Rightarrow> rat option \<Rightarrow> rat option \<Rightarrow> odds_row" where
  "odds_row_of c marketType out raw fair overround =
     \<lparr>os_id = [], os_fixtureId = fx_id (rw_fixture c), os_providerFixtureId = fx_providerFixtureId (rw_fixture c),
      os_providerKey = Some (rw_providerKey c), os_bookmakerKey = Some (rw_bookmakerKey c),
      os_marketKey = Some (ou_marketKey out), os_selectionKey = Some (ou_selectionKey out), os_oddValue = ou_value out,
      os_observedAt = Some (rw_receivedAt c), os_receivedAt = Some (rw_receivedAt c), os_available = Some (ou_available out),
      or_bookmakerId = rw_bookmakerId c, or_bookmakerName = rw_bookmakerName c, or_marketType = marketType,
      or_outcome = ou_outcome out, or_impliedProbabilityRaw = raw, or_impliedProbabilityFair = fair, or_overround = overround,
      or_phase = rw_phase c, or_capturedAt = rw_receivedAt c\<rparr>"

definition buildRowsForMarketGroup :: "row_context \<Rightarrow> string \<Rightarrow> odds_outcome list \<Rightarrow> odds_row list" where
  "buildRowsForMarketGroup c marketType outcomes =
     (if \<not> isPartitionMarket marketType then
        List.map (\<lambda>out. odds_row_of c marketType out (default_to 0 (impliedProbability (Num (ou_value out)))) None None) outcomes
      else if length outcomes \<noteq> expectedOutcomeCount marketType then []
      else let m = removeMargin (List.map (\<lambda>out. Num (ou_value out)) outcomes)
           in List.map (\<lambda>(out, raw, fair). odds_row_of c marketType out raw (Some fair) (Some (mg_overround m)))
                (zip outcomes (zip (mg_raw m) (mg_fair m))))"

text \<open>\<open>replace(/[^a-z0-9]+/g, '-')\<close>, then the dash at each end removed.\<close>

function dashes :: "string \<Rightarrow> string" where
  "dashes [] = []"
| "dashes (c # cs) =
     (let word = (\<lambda>c. is_digit c \<or> (97 \<le> (of_char c :: nat) \<and> (of_char c :: nat) \<le> 122)) in
      if word c then c # dashes cs
      else CHR ''-'' # dashes (dropWhile (\<lambda>c. \<not> word c) cs))"
  by pat_completeness auto

termination dashes
  by (relation "measure length") (auto simp: le_imp_less_Suc length_dropWhile_le)

definition bookmakerKey :: "string \<Rightarrow> string" where
  "bookmakerKey bookmakerName =
     (let key = dashes (lower_case (trim bookmakerName));
          key = (case key of c # cs \<Rightarrow> if c = CHR ''-'' then cs else key | [] \<Rightarrow> [])
      in if key \<noteq> [] \<and> last key = CHR ''-'' then butlast key else key)"

section \<open>Both formats\<close>

definition context_of ::
  "fixture \<Rightarrow> odds_phase \<Rightarrow> string \<Rightarrow> int \<Rightarrow> js_number option \<Rightarrow> string \<Rightarrow> string \<Rightarrow> row_context" where
  "context_of f phase providerKey receivedAt bookmakerId bookmakerName key =
     \<lparr>rw_fixture = f, rw_bookmakerId = bookmakerId, rw_bookmakerName = bookmakerName, rw_bookmakerKey = key,
      rw_phase = phase, rw_providerKey = providerKey, rw_receivedAt = receivedAt\<rparr>"

definition rows_of_groups :: "row_context \<Rightarrow> (string \<times> odds_outcome list) list \<Rightarrow> odds_row list" where
  "rows_of_groups c groups =
     concat (List.map (\<lambda>(marketType, outcomes). buildRowsForMarketGroup c marketType outcomes) groups)"

definition buildApiSportsRows :: "fixture \<Rightarrow> json list \<Rightarrow> odds_phase \<Rightarrow> string \<Rightarrow> int \<Rightarrow> odds_row list" where
  "buildApiSportsRows f response phase providerKey receivedAt =
     concat (List.map (\<lambda>entry. concat (List.map (\<lambda>bookmaker.
        case (toNumber (json_get ''id'' bookmaker), json_get ''name'' bookmaker) of
          (Some bookmakerId, JStr bookmakerName) \<Rightarrow>
            if bookmakerName = [] then []
            else rows_of_groups
              (context_of f phase providerKey receivedAt (Some bookmakerId) bookmakerName (number_text bookmakerId))
              (groupBetsByMarket (json_array (json_get ''bets'' bookmaker)))
        | _ \<Rightarrow> [])
       (json_array (json_get ''bookmakers'' entry)))) response)"

text \<open>The live outcomes of an entry, grouped by bookmaker and market in the order of appearance.\<close>

definition live_key :: "live_outcome \<Rightarrow> string" where
  "live_key out = lo_bookmakerName out @ ''|'' @ lo_marketType out"

definition live_rows :: "fixture \<Rightarrow> odds_phase \<Rightarrow> string \<Rightarrow> int \<Rightarrow> live_outcome list \<Rightarrow> odds_row list" where
  "live_rows f phase providerKey receivedAt outs =
     concat (List.map (\<lambda>key.
        (let group = filter (\<lambda>out. live_key out = key) outs; first = hd group
         in buildRowsForMarketGroup
              (context_of f phase providerKey receivedAt None (lo_bookmakerName first) (bookmakerKey (lo_bookmakerName first)))
              (lo_marketType first) (List.map odds_outcome.truncate group)))
       (uniq (List.map live_key outs)))"

definition apifootball_rows :: "fixture \<Rightarrow> odds_phase \<Rightarrow> string \<Rightarrow> int \<Rightarrow> json \<Rightarrow> odds_row list" where
  "apifootball_rows f phase providerKey receivedAt entry =
     (let liveOutcomes = mapApifootballLiveOddsEntry entry in
      if liveOutcomes \<noteq> [] then live_rows f phase providerKey receivedAt liveOutcomes
      else case json_get ''odd_bookmakers'' entry of
        JStr bookmakerName \<Rightarrow>
          if bookmakerName = [] then []
          else rows_of_groups (context_of f phase providerKey receivedAt None bookmakerName (bookmakerKey bookmakerName))
                 (mapApifootballOddsEntry entry)
      | _ \<Rightarrow> [])"

definition buildApifootballRows :: "fixture \<Rightarrow> json list \<Rightarrow> odds_phase \<Rightarrow> string \<Rightarrow> int \<Rightarrow> odds_row list" where
  "buildApifootballRows f response phase providerKey receivedAt =
     concat (List.map (apifootball_rows f phase providerKey receivedAt) response)"

section \<open>The table\<close>

text \<open>
  What the columns keep: the odd in \<open>DECIMAL(8,3)\<close>, the probabilities in \<open>DECIMAL(7,6)\<close>; a value with too
  many digits is refused, and the statement with it. New identifiers come from \<open>newId\<close>.
\<close>

definition stored_row :: "string \<Rightarrow> odds_row \<Rightarrow> odds_row res" where
  "stored_row i r =
     bindE (decimal_column ''odds_snapshots'' 8 3 (os_oddValue r)) (\<lambda>value.
     bindE (decimal_column ''odds_snapshots'' 7 6 (or_impliedProbabilityRaw r)) (\<lambda>raw.
     bindE (optional_column (decimal_column ''odds_snapshots'' 7 6) (or_impliedProbabilityFair r)) (\<lambda>fair.
     bindE (optional_column (decimal_column ''odds_snapshots'' 7 6) (or_overround r)) (\<lambda>overround.
     Inr (r\<lparr>os_id := i, os_oddValue := value, or_impliedProbabilityRaw := raw, or_impliedProbabilityFair := fair,
            or_overround := overround\<rparr>)))))"

definition insert_odds :: "(nat \<Rightarrow> string) \<Rightarrow> odds_row list \<Rightarrow> odds_row list \<Rightarrow> odds_row list res" where
  "insert_odds newId rows table =
     bindE (mapE (\<lambda>(i, r). stored_row (newId i) r) (enumerate (length table) rows)) (\<lambda>stored. Inr (table @ stored))"

definition ingestOddsResponse ::
  "string \<Rightarrow> (nat \<Rightarrow> string) \<Rightarrow> fixture \<Rightarrow> json list \<Rightarrow> odds_phase \<Rightarrow> int \<Rightarrow> odds_row list \<Rightarrow> (nat \<times> odds_row list) res" where
  "ingestOddsResponse providerKey newId f response phase receivedAt table =
     (let rows = (if providerKey = ''apifootball'' then buildApifootballRows f response phase providerKey receivedAt
                  else buildApiSportsRows f response phase providerKey receivedAt)
      in if rows = [] then Inr (0, table)
         else bindE (insert_odds newId rows table) (\<lambda>table'. Inr (length rows, table')))"

definition prematch_status :: string where "prematch_status = ''NS''"

definition live_statuses :: "string list" where
  "live_statuses = [''1H'', ''2H'', ''HT'', ''ET'', ''P'', ''LIVE'', ''BT'']"

text \<open>The date of a match is not a column of the fixtures of this model: \<open>matchDate\<close> is an argument.\<close>

definition getUpcomingFixtures :: "(fixture \<Rightarrow> int) \<Rightarrow> fixture list \<Rightarrow> fixture list" where
  "getUpcomingFixtures matchDate fixtures =
     take 50 (sort_key matchDate (filter (\<lambda>f. fx_statusShort f = Some prematch_status) fixtures))"

definition getLiveFixtures :: "fixture list \<Rightarrow> fixture list" where
  "getLiveFixtures fixtures = filter (\<lambda>f. case fx_statusShort f of None \<Rightarrow> False | Some s \<Rightarrow> s \<in> set live_statuses) fixtures"

text \<open>
  One call of the provider and one statement for each match: an error stops the loop and leaves what
  was inserted. \<open>fetch\<close> and \<open>received\<close> are the responses of the provider and their times.
\<close>

fun syncOddsForFixtures ::
  "string \<Rightarrow> (nat \<Rightarrow> string) \<Rightarrow> (string \<Rightarrow> json list res) \<Rightarrow> (string \<Rightarrow> int) \<Rightarrow> odds_phase \<Rightarrow> fixture list
    \<Rightarrow> nat \<Rightarrow> odds_row list \<Rightarrow> nat res \<times> odds_row list" where
  "syncOddsForFixtures providerKey newId fetch received phase [] inserted table = (Inr inserted, table)"
| "syncOddsForFixtures providerKey newId fetch received phase (f # fs) inserted table =
     (case bindE (fetch (fx_providerFixtureId f)) (\<lambda>response.
             ingestOddsResponse providerKey newId f response phase (received (fx_providerFixtureId f)) table) of
        Inl e \<Rightarrow> (Inl e, table)
      | Inr (n, table') \<Rightarrow> syncOddsForFixtures providerKey newId fetch received phase fs (inserted + n) table')"

section \<open>Reading\<close>

definition findFixtureOrFail :: "fixture list \<Rightarrow> string \<Rightarrow> fixture res" where
  "findFixtureOrFail fixtures providerFixtureId =
     of_option (NotFoundException (''Fixture '' @ providerFixtureId @ '' introuvable''))
       (find_row (\<lambda>f. fx_providerFixtureId f = providerFixtureId) fixtures)"

definition latest_key :: "odds_row \<Rightarrow> string" where
  "latest_key r =
     (case or_bookmakerId r of None \<Rightarrow> ''null'' | Some n \<Rightarrow> number_text n) @ '':'' @ or_marketType r @ '':'' @ or_outcome r"

fun keepLatestPerGroup :: "odds_row list \<Rightarrow> string list \<Rightarrow> odds_row list" where
  "keepLatestPerGroup [] seen = []"
| "keepLatestPerGroup (r # rs) seen =
     (if latest_key r \<in> set seen then keepLatestPerGroup rs seen
      else r # keepLatestPerGroup rs (latest_key r # seen))"

definition getLatestOdds :: "fixture list \<Rightarrow> odds_row list \<Rightarrow> string \<Rightarrow> odds_row list res" where
  "getLatestOdds fixtures table providerFixtureId =
     bindE (findFixtureOrFail fixtures providerFixtureId) (\<lambda>f.
     Inr (keepLatestPerGroup (sort_key (\<lambda>r. - or_capturedAt r) (filter (\<lambda>r. os_fixtureId r = fx_id f) table)) []))"

definition getOddsHistory ::
  "fixture list \<Rightarrow> odds_row list \<Rightarrow> string \<Rightarrow> string option \<Rightarrow> js_number option \<Rightarrow> nat option \<Rightarrow> odds_row list res" where
  "getOddsHistory fixtures table providerFixtureId marketType bookmakerId limit =
     bindE (findFixtureOrFail fixtures providerFixtureId) (\<lambda>f.
     Inr (take (default_to 200 limit) (sort_key or_capturedAt (filter (\<lambda>r. os_fixtureId r = fx_id f
       \<and> (case marketType of None \<Rightarrow> True | Some m \<Rightarrow> m = [] \<or> or_marketType r = m)
       \<and> (bookmakerId = None \<or> or_bookmakerId r = bookmakerId)) table))))"

end
