(* ===== verification/OddsSafety.thy ===== *)
theory OddsSafety
  imports OddsIngestion
begin

text \<open>
  What an ingestion promises to the readers of the odds: probabilities without margin that sum to
  one, rows the choice of a quote finds, and what neither format gives.
\<close>

section \<open>The margin\<close>

lemma valid_odd_above: "valid_odd raw = Some x \<Longrightarrow> 1 < x"
  by (auto simp: valid_odd_def impliedProbability_def split: option.splits js_number.splits if_splits)

lemma implied_above: "1 < x \<Longrightarrow> impliedProbability (Num x) = Some (1 / x)"
  by (simp add: impliedProbability_def)

lemma sum_positive:
  fixes f :: "'a \<Rightarrow> rat"
  assumes "xs \<noteq> []" and "\<And>x. x \<in> set xs \<Longrightarrow> 0 < f x"
  shows "0 < sum_list (List.map f xs)"
  using assms
proof (induction xs)
  case (Cons x xs)
  then show ?case by (cases "xs = []") (auto intro: add_pos_pos)
qed simp

lemma sum_divide: "sum_list (List.map (\<lambda>x. f x / (c :: rat)) xs) = sum_list (List.map f xs) / c"
  by (induction xs) (simp_all add: add_divide_distrib)

definition book_sum :: "odds_outcome list \<Rightarrow> rat" where
  "book_sum outs = sum_list (List.map (\<lambda>out. 1 / ou_value out) outs)"

lemma removeMargin_valid:
  assumes "outs \<noteq> []" and "\<forall>out \<in> set outs. 1 < ou_value out"
  shows "removeMargin (List.map (\<lambda>out. Num (ou_value out)) outs) =
    \<lparr>mg_raw = List.map (\<lambda>out. 1 / ou_value out) outs,
     mg_fair = List.map (\<lambda>out. 1 / ou_value out / book_sum outs) outs, mg_overround = book_sum outs\<rparr>" (is "_ = ?m")
    and "0 < book_sum outs"
proof -
  have raw: "List.map (\<lambda>x. default_to 0 (impliedProbability x)) (List.map (\<lambda>out. Num (ou_value out)) outs)
      = List.map (\<lambda>out. 1 / ou_value out) outs"
    using assms(2) by (simp add: implied_above default_to_def)
  show pos: "0 < book_sum outs"
    unfolding book_sum_def by (rule sum_positive) (use assms in \<open>auto intro: divide_pos_pos\<close>)
  then show "removeMargin (List.map (\<lambda>out. Num (ou_value out)) outs) = ?m"
    using assms(1) unfolding removeMargin_def raw Let_def by (simp add: book_sum_def comp_def)
qed

lemma zip_maps: "zip xs (zip (List.map f xs) (List.map g xs)) = List.map (\<lambda>x. (x, f x, g x)) xs"
  by (induction xs) simp_all

text \<open>The rows of a group of valid odds of a partition.\<close>

lemma partition_rows:
  assumes "isPartitionMarket m" and "\<forall>out \<in> set outs. 1 < ou_value out"
  shows "buildRowsForMarketGroup c m outs =
    (if length outs = expectedOutcomeCount m \<and> outs \<noteq> [] then
       List.map (\<lambda>out. odds_row_of c m out (1 / ou_value out) (Some (1 / ou_value out / book_sum outs)) (Some (book_sum outs))) outs
     else [])"
  using assms removeMargin_valid(1) [OF _ assms(2)]
  by (cases "outs = []") (auto simp: buildRowsForMarketGroup_def Let_def zip_maps)

lemma fair_sum:
  assumes "outs \<noteq> []" and "\<forall>out \<in> set outs. 1 < ou_value out"
  shows "sum_list (List.map (\<lambda>out. 1 / ou_value out / book_sum outs) outs) = 1"
  using removeMargin_valid(2) [OF assms] by (simp only: sum_divide book_sum_def [symmetric]) simp

section \<open>Groups\<close>

lemma push_outcome_values:
  "(\<forall>(k, xs) \<in> set groups. \<forall>x \<in> set xs. P x) \<Longrightarrow> P y \<Longrightarrow> (\<forall>(k, xs) \<in> set (push_outcome m y groups). \<forall>x \<in> set xs. P x)"
  by (induction m y groups rule: push_outcome.induct) auto

lemma push_outcome_keys: "fst ` set (push_outcome m y groups) = insert m (fst ` set groups)"
  by (induction m y groups rule: push_outcome.induct) auto

definition valid_groups :: "(string \<times> odds_outcome list) list \<Rightarrow> bool" where
  "valid_groups groups = (\<forall>(k, xs) \<in> set groups. \<forall>x \<in> set xs. 1 < ou_value x \<and> ou_marketKey x = k)"

lemma push_valid:
  assumes "valid_groups groups" and "1 < ou_value y" and "ou_marketKey y = m"
  shows "valid_groups (push_outcome m y groups)"
  using assms unfolding valid_groups_def
  by (induction m y groups rule: push_outcome.induct) (auto simp: ball_Un)

lemma fold_valid:
  assumes "\<And>x g. valid_groups g \<Longrightarrow> valid_groups (f x g)" and "valid_groups g"
  shows "valid_groups (fold f xs g)"
  using assms by (induction xs arbitrary: g) auto

lemma prematch_valid: "valid_groups (mapApifootballOddsEntry entry)"
  unfolding mapApifootballOddsEntry_def
  by (rule fold_valid)
    (auto simp: valid_groups_def [of "[]"] split: option.splits intro!: push_valid valid_odd_above)

lemma bets_valid: "valid_groups (groupBetsByMarket bets)"
  unfolding groupBetsByMarket_def
  by (rule fold_valid, rule fold_valid)
    (auto simp: group_value_def valid_groups_def [of "[]"] split: option.splits intro!: push_valid valid_odd_above)

text \<open>The markets api-sports bets are mapped to.\<close>

definition no_team_goal :: "string \<Rightarrow> bool" where
  "no_team_goal m = (\<not> starts_with m ''TEAM_GOAL'')"

lemma bet_market: "mapBetValueToMarket name label = Some (m, out) \<Longrightarrow> no_team_goal m"
  by (auto simp: mapBetValueToMarket_def Let_def no_team_goal_def split: if_splits option.splits)

lemma bets_markets: "fst ` set (groupBetsByMarket bets) \<subseteq> {m. no_team_goal m}"
proof -
  have step: "fst ` set (fold (group_value name) vs g) \<subseteq> {m. no_team_goal m}" if "fst ` set g \<subseteq> {m. no_team_goal m}" for name vs g
    using that
    by (induction vs arbitrary: g) (auto simp: group_value_def push_outcome_keys bet_market split: option.splits)
  have "fst ` set (fold (\<lambda>bet. fold (group_value (js_text (json_get ''name'' bet))) (json_array (json_get ''values'' bet))) bets g)
      \<subseteq> {m. no_team_goal m}" if "fst ` set g \<subseteq> {m. no_team_goal m}" for g
    using that by (induction bets arbitrary: g) (simp_all add: step)
  then show ?thesis by (simp add: groupBetsByMarket_def)
qed

lemma group_rows_market:
  assumes "r \<in> set (buildRowsForMarketGroup c m outs)" and "\<forall>out \<in> set outs. ou_marketKey out = m"
  shows "os_marketKey r = Some m"
  using assms
  by (auto simp: buildRowsForMarketGroup_def odds_row_of_def Let_def split: if_splits dest!: set_zip_leftD)

lemma group_rows_bookmaker: "r \<in> set (buildRowsForMarketGroup c m outs) \<Longrightarrow> or_bookmakerId r = rw_bookmakerId c"
  by (auto simp: buildRowsForMarketGroup_def odds_row_of_def Let_def split: if_splits)

lemma rows_of_groups_market:
  assumes "r \<in> set (rows_of_groups c groups)" and "valid_groups groups"
  shows "\<exists>m \<in> fst ` set groups. os_marketKey r = Some m"
  using assms by (force simp: rows_of_groups_def valid_groups_def dest: group_rows_market)

lemma api_sports_markets:
  assumes "r \<in> set (buildApiSportsRows f response phase providerKey receivedAt)"
  shows "\<exists>m. os_marketKey r = Some m \<and> no_team_goal m"
proof -
  from assms obtain c bets where "r \<in> set (rows_of_groups c (groupBetsByMarket bets))"
    by (auto simp: buildApiSportsRows_def split: option.splits json.splits if_splits)
  from rows_of_groups_market [OF this bets_valid] bets_markets [of bets] show ?thesis by auto
qed

lemma target_team_goal: "quoteTargetForRuleMarket i market home = Some t \<Longrightarrow> \<not> no_team_goal (qt_marketKey t)"
  by (auto simp: quoteTargetForRuleMarket_def Let_def no_team_goal_def split: if_splits)

section \<open>Live odds\<close>

lemma live_identity_market:
  assumes "liveMarketIdentity price = Some (m, s)"
  shows "m \<in> {''TEAM_GOAL_1H'', ''TEAM_GOAL_2H'', ''TEAM_GOALS_FT''}"
  using assms by (simp add: liveMarketIdentity_def Let_def split: option.splits if_splits)

lemma live_outcome_fields:
  assumes "out \<in> set (mapApifootballLiveOddsEntry entry)"
  shows "1 < ou_value out" and "lo_marketType out = ou_marketKey out"
    and "lo_marketType out \<in> {''TEAM_GOAL_1H'', ''TEAM_GOAL_2H'', ''TEAM_GOALS_FT''}"
proof -
  from assms obtain p price where "live_outcome_of p price = Some out"
    by (auto simp: mapApifootballLiveOddsEntry_def set_map_filter split: json.splits)
  then obtain b x m s where o': "valid_odd (or_else (json_get ''value'' price) (json_get ''odd'' price)) = Some x"
      "liveMarketIdentity price = Some (m, s)" "ou_value out = x" "ou_marketKey out = m" "lo_marketType out = m"
    by (auto simp: live_outcome_of_def split: option.splits if_splits prod.splits)
  show "1 < ou_value out" using valid_odd_above [OF o'(1)] o'(3) by simp
  show "lo_marketType out = ou_marketKey out" using o'(4,5) by simp
  show "lo_marketType out \<in> {''TEAM_GOAL_1H'', ''TEAM_GOAL_2H'', ''TEAM_GOALS_FT''}"
    using live_identity_market [OF o'(2)] o'(5) by simp
qed

lemma team_goal_no_partition: "m \<in> {''TEAM_GOAL_1H'', ''TEAM_GOAL_2H'', ''TEAM_GOALS_FT''} \<Longrightarrow> \<not> isPartitionMarket m"
  by (auto simp: isPartitionMarket_def)

text \<open>The key of a group is its bookmaker and its market: the market has no bar.\<close>

lemma live_key_inj:
  assumes "live_key a = live_key b" and "lo_marketType a \<in> {''TEAM_GOAL_1H'', ''TEAM_GOAL_2H'', ''TEAM_GOALS_FT''}"
    and "lo_marketType b \<in> {''TEAM_GOAL_1H'', ''TEAM_GOAL_2H'', ''TEAM_GOALS_FT''}"
  shows "lo_bookmakerName a = lo_bookmakerName b \<and> lo_marketType a = lo_marketType b"
proof -
  have "rev (live_key a) = rev (live_key b)" using assms(1) by simp
  then have "rev (lo_marketType a) @ CHR ''|'' # rev (lo_bookmakerName a) = rev (lo_marketType b) @ CHR ''|'' # rev (lo_bookmakerName b)"
    by (simp add: live_key_def)
  with assms(2,3) show ?thesis by auto
qed

definition live_row :: "fixture \<Rightarrow> odds_phase \<Rightarrow> string \<Rightarrow> int \<Rightarrow> live_outcome \<Rightarrow> odds_row" where
  "live_row f phase providerKey receivedAt out =
     odds_row_of (context_of f phase providerKey receivedAt None (lo_bookmakerName out) (bookmakerKey (lo_bookmakerName out)))
       (lo_marketType out) (odds_outcome.truncate out) (1 / ou_value out) None None"

lemma live_row_ingested:
  assumes "out \<in> set (mapApifootballLiveOddsEntry entry)" and "entry \<in> set response"
  shows "live_row f phase providerKey receivedAt out \<in> set (buildApifootballRows f response phase providerKey receivedAt)"
proof -
  define outs where "outs = mapApifootballLiveOddsEntry entry"
  define group where "group = filter (\<lambda>o'. live_key o' = live_key out) outs"
  have out: "out \<in> set group" using assms(1) by (simp add: group_def outs_def)
  then have "hd group \<in> set group" by (cases group) auto
  then have first: "lo_bookmakerName (hd group) = lo_bookmakerName out" "lo_marketType (hd group) = lo_marketType out"
    using live_key_inj [of "hd group" out] live_outcome_fields(3) [of _ entry] assms(1) by (auto simp: group_def outs_def)
  have "live_row f phase providerKey receivedAt out \<in> set (buildRowsForMarketGroup
      (context_of f phase providerKey receivedAt None (lo_bookmakerName (hd group)) (bookmakerKey (lo_bookmakerName (hd group))))
      (lo_marketType (hd group)) (List.map odds_outcome.truncate group))"
    using live_outcome_fields(1) [OF assms(1)] team_goal_no_partition [OF live_outcome_fields(3) [OF assms(1)]] out unfolding first
    by (auto simp: buildRowsForMarketGroup_def live_row_def odds_outcome.defs implied_above default_to_def intro!: image_eqI [of _ _ out])
  then have "live_row f phase providerKey receivedAt out \<in> set (live_rows f phase providerKey receivedAt outs)"
    using assms(1) by (auto simp: live_rows_def Let_def group_def outs_def)
  moreover have "outs \<noteq> []" using assms(1) by (auto simp: outs_def)
  ultimately show ?thesis using assms(2) by (auto simp: buildApifootballRows_def apifootball_rows_def Let_def outs_def)
qed

section \<open>The table\<close>

lemma insert_odds_rows:
  assumes "insert_odds newId rows table = Inr table'" and "r \<in> set rows"
  obtains i r' where "stored_row i r = Inr r'" "r' \<in> set table'"
proof -
  from assms(1) obtain stored where stored: "mapE (\<lambda>(i, r). stored_row (newId i) r) (enumerate (length table) rows) = Inr stored"
      "table' = table @ stored"
    by (auto simp: insert_odds_def elim!: bindE_elim)
  obtain k where k: "(k, r) \<in> set (enumerate (length table) rows)"
    using assms(2) by (metis in_set_impl_in_set_zip2 enumerate_eq_zip length_upt diff_add_inverse)
  have "\<exists>r'. stored_row (newId (fst p)) (snd p) = Inr r' \<and> r' \<in> set stored" if "p \<in> set ps"
      "mapE (\<lambda>(i, r). stored_row (newId i) r) ps = Inr stored" for p ps stored
    using that by (induction ps arbitrary: stored) (auto elim!: bindE_elim)
  from this [OF k stored(1)] stored(2) that show thesis by auto
qed

lemma stored_row_fields:
  assumes "stored_row i r = Inr r'"
  shows "os_providerFixtureId r' = os_providerFixtureId r" "os_marketKey r' = os_marketKey r" "os_selectionKey r' = os_selectionKey r"
    "os_providerKey r' = os_providerKey r" "os_bookmakerKey r' = os_bookmakerKey r" "os_observedAt r' = os_observedAt r"
    "os_receivedAt r' = os_receivedAt r" "os_available r' = os_available r" "or_bookmakerId r' = or_bookmakerId r"
    "or_marketType r' = or_marketType r" "or_outcome r' = or_outcome r"
    "decimal_column ''odds_snapshots'' 8 3 (os_oddValue r) = Inr (os_oddValue r')"
  using assms by (auto simp: stored_row_def elim!: bindE_elim)

text \<open>A stored odd above one stays above one when it had at most three decimals.\<close>

lemma millis_above: "(of_int n / 1000 :: rat) > 1 \<Longrightarrow> decimal_column t 8 3 (of_int n / 1000) = Inr y \<Longrightarrow> y = of_int n / 1000"
proof -
  assume a: "(of_int n / 1000 :: rat) > 1" "decimal_column t 8 3 (of_int n / 1000) = Inr y"
  have "\<lfloor>\<bar>of_int n / 1000 :: rat\<bar> * 1000 + 1 / 2\<rfloor> = n" using a(1) by (simp add: floor_eq_iff)
  then show ?thesis using a by (simp add: decimal_column_def sgn_if)
qed

section \<open>The latest odds\<close>

lemma kept_distinct: "distinct (List.map latest_key (keepLatestPerGroup rs seen)) \<and> latest_key ` set (keepLatestPerGroup rs seen) \<inter> set seen = {}"
  by (induction rs seen rule: keepLatestPerGroup.induct) auto

lemma kept_subset: "set (keepLatestPerGroup rs seen) \<subseteq> set rs"
  by (induction rs seen rule: keepLatestPerGroup.induct) auto

lemma kept_once:
  assumes "\<forall>r \<in> set rs. or_bookmakerId r = None"
  shows "distinct (List.map (\<lambda>r. (or_marketType r, or_outcome r)) (keepLatestPerGroup rs []))"
proof -
  have "List.map latest_key (keepLatestPerGroup rs [])
      = List.map (\<lambda>(m, out). ''null'' @ '':'' @ m @ '':'' @ out) (List.map (\<lambda>r. (or_marketType r, or_outcome r)) (keepLatestPerGroup rs []))"
    using assms kept_subset [of rs "[]"] by (auto simp: latest_key_def)
  then have "distinct (List.map (\<lambda>(m, out). ''null'' @ '':'' @ m @ '':'' @ out)
      (List.map (\<lambda>r. (or_marketType r, or_outcome r)) (keepLatestPerGroup rs [])))"
    using kept_distinct [of rs "[]"] by (simp only:)
  then show ?thesis unfolding distinct_map by (rule conjunct1)
qed

lemma apifootball_no_id:
  assumes "r \<in> set (buildApifootballRows f response phase providerKey receivedAt)"
  shows "or_bookmakerId r = None"
  using assms
  by (auto simp: buildApifootballRows_def apifootball_rows_def live_rows_def rows_of_groups_def context_of_def Let_def
      split: if_splits json.splits dest!: group_rows_bookmaker)

lemma insert_no_id:
  assumes "insert_odds newId rows table = Inr table'" and "\<forall>r \<in> set (table @ rows). or_bookmakerId r = None"
  shows "\<forall>r \<in> set table'. or_bookmakerId r = None"
proof -
  from assms(1) obtain stored where stored: "mapE (\<lambda>(i, r). stored_row (newId i) r) (enumerate (length table) rows) = Inr stored"
      "table' = table @ stored"
    by (auto simp: insert_odds_def elim!: bindE_elim)
  have "\<forall>r \<in> set stored. or_bookmakerId r = None" if "\<forall>p \<in> set ps. or_bookmakerId (snd p) = None"
      "mapE (\<lambda>(i, r). stored_row (newId i) r) ps = Inr stored" for ps stored
    using that by (induction ps arbitrary: stored) (auto elim!: bindE_elim dest!: stored_row_fields(9))
  moreover have "\<forall>p \<in> set (enumerate (length table) rows). or_bookmakerId (snd p) = None"
    using assms(2) by (auto simp: enumerate_eq_zip dest: set_zip_rightD)
  ultimately show ?thesis using assms(2) stored by auto
qed

lemma ingest_no_id:
  assumes "ingestOddsResponse ''apifootball'' newId f response phase now table = Inr (n, t)"
    and "\<forall>r \<in> set table. or_bookmakerId r = None"
  shows "\<forall>r \<in> set t. or_bookmakerId r = None"
proof (cases "buildApifootballRows f response phase ''apifootball'' now = []")
  case True
  with assms show ?thesis by (simp add: ingestOddsResponse_def)
next
  case False
  with assms(1) have "insert_odds newId (buildApifootballRows f response phase ''apifootball'' now) table = Inr t"
    by (auto simp: ingestOddsResponse_def Let_def elim!: bindE_elim)
  then show ?thesis by (rule insert_no_id) (use assms(2) apifootball_no_id in auto)
qed

lemma sync_no_id:
  assumes "syncOddsForFixtures ''apifootball'' newId fetch received phase fs inserted table = (result, table')"
    and "\<forall>r \<in> set table. or_bookmakerId r = None"
  shows "\<forall>r \<in> set table'. or_bookmakerId r = None"
  using assms
proof (induction "''apifootball''" newId fetch received phase fs inserted table rule: syncOddsForFixtures.induct)
  case (2 newId fetch received phase f fs inserted table)
  show ?case
  proof (cases "bindE (fetch (fx_providerFixtureId f)) (\<lambda>response.
      ingestOddsResponse ''apifootball'' newId f response phase (received (fx_providerFixtureId f)) table)")
    case (Inl e)
    with "2.prems" show ?thesis by simp
  next
    case (Inr x)
    obtain n t where x: "x = (n, t)" by fastforce
    from Inr x obtain response where
      "ingestOddsResponse ''apifootball'' newId f response phase (received (fx_providerFixtureId f)) table = Inr (n, t)"
      by (auto elim: bindE_elim)
    then have "\<forall>r \<in> set t. or_bookmakerId r = None" by (rule ingest_no_id) (rule "2.prems"(2))
    with "2.hyps" [OF Inr x [symmetric]] "2.prems"(1) Inr x show ?thesis by simp
  qed
qed simp

end
