(* ===== verification/DataProperties.thy ===== *)
theory DataProperties
  imports BaseRatesSafety OddsSafety LiveSamples
begin

text \<open>
  The properties of the data the decisions rest on: the base rates, computed from the recorded
  matches and read by the live signals, and the odds, ingested from the provider and read by the
  choice of a quote.
\<close>

section \<open>Base rates\<close>








section \<open>Odds\<close>


definition prematch_entry :: json where
  "prematch_entry = JObj [(''odd_bookmakers'', JStr ''B''), (''bts_yes'', JStr ''1.80''), (''bts_no'', JStr ''1.95'')]"

definition prematch_context :: row_context where
  "prematch_context = context_of (live_match 0) PREMATCH ''apifootball'' 1000 None ''B'' ''b''"





definition goal_target :: quote_target where
  "goal_target = \<lparr>qt_providerFixtureId = ''77'', qt_marketKey = ''TEAM_GOALS_FT'', qt_selectionKey = ''HOME_OVER_0.5'',
     qt_providerKey = None, qt_bookmakerKey = None\<rparr>"

definition live_id :: "nat \<Rightarrow> string" where
  "live_id n = ''q'' @ show_nat n"





text \<open>
  The bookmakers of apifootball are confused. It gives no identifier of a bookmaker, and the latest
  odds are grouped by that identifier: once its responses are ingested, the latest odds of a match hold
  one row for a market and an outcome, whatever the number of bookmakers that quote it.
\<close>

theorem latest_odds_one_bookmaker:
  assumes "syncOddsForFixtures ''apifootball'' newId fetch received phase fs 0 [] = (result, table)"
    and "getLatestOdds fixtures table i = Inr rows"
  shows "distinct (List.map (\<lambda>r. (or_marketType r, or_outcome r)) rows)"
proof -
  have "\<forall>r \<in> set table. or_bookmakerId r = None" by (rule sync_no_id [OF assms(1)]) simp
  then have "\<forall>r \<in> set (sort_key (\<lambda>r. - or_capturedAt r) (filter p table)). or_bookmakerId r = None" for p by simp
  from kept_once [OF this] assms(2) show ?thesis by (auto simp: getLatestOdds_def elim!: bindE_elim)
qed

text \<open>Two bookmakers quote both teams to score; only the second one remains.\<close>

definition two_books :: "string \<Rightarrow> json list res" where
  "two_books i = Inr [prematch_entry,
     JObj [(''odd_bookmakers'', JStr ''C''), (''bts_yes'', JStr ''1.70''), (''bts_no'', JStr ''2.05'')]]"

definition one_second :: "string \<Rightarrow> int" where
  "one_second i = 1000"

lemma two_books_stored:
  "case syncOddsForFixtures ''apifootball'' live_id two_books one_second PREMATCH [live_match 0] 0 [] of (result, table) \<Rightarrow>
     List.map (\<lambda>r. (or_bookmakerName r, or_outcome r)) table = [(''B'', ''YES''), (''B'', ''NO''), (''C'', ''YES''), (''C'', ''NO'')]
     \<and> (case getLatestOdds [live_match 0] table ''77'' of
          Inr rows \<Rightarrow> List.map (\<lambda>r. (or_bookmakerName r, or_outcome r)) rows = [(''B'', ''YES''), (''B'', ''NO'')]
        | Inl _ \<Rightarrow> False)"
  by code_simp

theorem latest_odds_one_bookmaker_witness:
  "\<exists>result table rows. syncOddsForFixtures ''apifootball'' live_id two_books one_second PREMATCH [live_match 0] 0 [] = (result, table)
    \<and> getLatestOdds [live_match 0] table ''77'' = Inr rows \<and> length table = 4 \<and> length rows = 2
    \<and> distinct (List.map (\<lambda>r. (or_marketType r, or_outcome r)) rows)"
proof -
  obtain result table where t: "syncOddsForFixtures ''apifootball'' live_id two_books one_second PREMATCH [live_match 0] 0 [] = (result, table)"
    by fastforce
  with two_books_stored obtain rows where rows: "getLatestOdds [live_match 0] table ''77'' = Inr rows"
      "List.map (\<lambda>r. (or_bookmakerName r, or_outcome r)) rows = [(''B'', ''YES''), (''B'', ''NO'')]"
      "List.map (\<lambda>r. (or_bookmakerName r, or_outcome r)) table = [(''B'', ''YES''), (''B'', ''NO''), (''C'', ''YES''), (''C'', ''NO'')]"
    by (auto split: sum.splits)
  from arg_cong [OF rows(2), of length] arg_cong [OF rows(3), of length] have "length rows = 2" "length table = 4" by simp_all
  with t rows(1) latest_odds_one_bookmaker [OF t rows(1)] show ?thesis by blast
qed

text \<open>
  Api-sports gives no odd for a rule. None of the rows ingested from its format is for the market
  of a quote that the rules look for, so no signal is ever covered by an executable quote.
\<close>

theorem api_sports_never_quotes:
  assumes "r \<in> set (buildApiSportsRows f response phase providerKey receivedAt)"
    and "quoteTargetForRuleMarket i market home = Some target"
  shows "os_marketKey r \<noteq> Some (qt_marketKey target)"
  using api_sports_markets [OF assms(1)] target_team_goal [OF assms(2)] by auto

definition sports_entry :: json where
  "sports_entry = JObj [(''bookmakers'', JArr [JObj [(''id'', JNum (Num 8)), (''name'', JStr ''Bet''), (''bets'', JArr
     [JObj [(''name'', JStr ''Both Teams Score''), (''values'', JArr [JObj [(''value'', JStr ''Yes''), (''odd'', JStr ''1.80'')],
        JObj [(''value'', JStr ''No''), (''odd'', JStr ''1.95'')]])]])]])]"

theorem api_sports_never_quotes_witness:
  "list_all (\<lambda>r. os_marketKey r \<noteq> Some (qt_marketKey goal_target)) (buildApiSportsRows (live_match 9) [sports_entry] LIVE ''apisports'' 1000)
   \<and> length (buildApiSportsRows (live_match 9) [sports_entry] LIVE ''apisports'' 1000) = 2"
proof -
  have "quoteTargetForRuleMarket ''77'' ''Buts match'' True = Some goal_target" by code_simp
  then have "list_all (\<lambda>r. os_marketKey r \<noteq> Some (qt_marketKey goal_target)) (buildApiSportsRows (live_match 9) [sports_entry] LIVE ''apisports'' 1000)"
    unfolding list_all_iff using api_sports_never_quotes by blast
  moreover have "length (buildApiSportsRows (live_match 9) [sports_entry] LIVE ''apisports'' 1000) = 2" by code_simp
  ultimately show ?thesis by simp
qed

text \<open>
  The over/under bets of a half go to the market of the match: with both of them complete the market is
  dropped, and with one outcome of each it is stored as if it were a partition.
\<close>

definition totals_bet :: "string \<Rightarrow> (string \<times> string) list \<Rightarrow> json" where
  "totals_bet name values = JObj [(''name'', JStr name),
     (''values'', JArr (List.map (\<lambda>(v, price). JObj [(''value'', JStr v), (''odd'', JStr price)]) values))]"

theorem over_under_halves_mixed:
  "rows_of_groups prematch_context (groupBetsByMarket
     [totals_bet ''Goals Over/Under'' [(''Over 1.5'', ''1.30''), (''Under 1.5'', ''3.40'')],
      totals_bet ''Goals Over/Under First Half'' [(''Over 1.5'', ''2.90''), (''Under 1.5'', ''1.40'')]]) = []
   \<and> List.map (\<lambda>r. (or_marketType r, or_outcome r, os_oddValue r)) (rows_of_groups prematch_context (groupBetsByMarket
     [totals_bet ''Goals Over/Under'' [(''Over 1.5'', ''1.30'')], totals_bet ''Goals Over/Under First Half'' [(''Over 1.5'', ''2.90'')]]))
     = [(''OU_1.5'', ''OVER'', 13 / 10), (''OU_1.5'', ''OVER'', 29 / 10)]"
  by code_simp

end
