(* ===== verification/Auth.thy ===== *)
theory Auth
  imports Database Values
begin

text \<open>
  Authentication and access control (\<open>auth/auth.service.ts\<close>, the guards of \<open>common/guards\<close>, the audit
  interceptor): logins with their lockout, sessions, the initial administrator, and what a request
  passes before its handler. SHA-256, the verification of a password by argon2, fresh identifiers and
  tokens are arguments; an address is ASCII text, which NFKC leaves as it is.
\<close>

section \<open>Tables\<close>

datatype user_role = Role_VIEWER | Role_OPERATOR | Role_ADMIN

record auth_user =
  usr_id :: string
  usr_email :: string
  usr_passwordHash :: string
  usr_role :: user_role
  usr_disabledAt :: "int option"

record auth_session =
  ses_id :: string
  ses_userId :: string
  ses_tokenHash :: string
  ses_expiresAt :: int
  ses_revokedAt :: "int option"

record login_attempt =
  att_identifierHash :: string
  att_failedCount :: nat
  att_windowStartedAt :: int

record auth_db =
  ad_users :: "auth_user list"
  ad_sessions :: "auth_session list"
  ad_attempts :: "login_attempt list"
  ad_audits :: "audit_event list"

record auth_config =
  ac_sessionTtlSeconds :: int
  ac_loginMaxAttempts :: nat
  ac_loginWindowSeconds :: int

definition default_auth_config :: auth_config where
  "default_auth_config = \<lparr>ac_sessionTtlSeconds = 28800, ac_loginMaxAttempts = 5, ac_loginWindowSeconds = 900\<rparr>"

record principal =
  pr_sessionId :: string
  pr_id :: string
  pr_email :: string
  pr_role :: user_role

section \<open>Login\<close>

definition normalizeAuthEmail :: "string \<Rightarrow> string" where
  "normalizeAuthEmail email = List.map lower (trim email)"

definition createAuditEvent :: "string option \<Rightarrow> string option \<Rightarrow> string \<Rightarrow> string \<Rightarrow> string \<Rightarrow> metadata \<Rightarrow> audit_event" where
  "createAuditEvent traceId actor action targetType targetId data =
     \<lparr>aud_actorUserId = actor, aud_action = action, aud_targetType = targetType, aud_targetId = targetId,
      aud_traceId = traceId, aud_metadata = data\<rparr>"

definition record_audit :: "audit_event \<Rightarrow> auth_db \<Rightarrow> auth_db" where
  "record_audit e d = d\<lparr>ad_audits := ad_audits d @ [e]\<rparr>"

datatype login_result =
    Login_SUCCESS string int auth_user
  | Login_INVALID
  | Login_DISABLED
  | Login_RATE_LIMITED

text \<open>What a login draws from outside: the clock, the identifier and the token of a new session, the trace.\<close>

record login_fresh =
  lf_now :: int
  lf_sessionId :: string
  lf_sessionToken :: string
  lf_traceId :: "string option"

text \<open>\<open>INSERT ... ON DUPLICATE KEY UPDATE\<close>: the row of the identifier exists afterwards.\<close>

definition ensure_attempt :: "string \<Rightarrow> int \<Rightarrow> auth_db \<Rightarrow> auth_db" where
  "ensure_attempt h now d =
     (if find_row (\<lambda>a. att_identifierHash a = h) (ad_attempts d) = None
      then d\<lparr>ad_attempts := ad_attempts d @ [\<lparr>att_identifierHash = h, att_failedCount = 0, att_windowStartedAt = now\<rparr>]\<rparr>
      else d)"

definition save_attempt :: "login_attempt \<Rightarrow> auth_db \<Rightarrow> auth_db" where
  "save_attempt a d = d\<lparr>ad_attempts := update_rows (\<lambda>x. att_identifierHash x = att_identifierHash a) (\<lambda>_. a) (ad_attempts d)\<rparr>"

definition current_attempt :: "auth_config \<Rightarrow> int \<Rightarrow> login_attempt \<Rightarrow> login_attempt" where
  "current_attempt cfg now a =
     (if now - att_windowStartedAt a \<ge> ac_loginWindowSeconds cfg * 1000
      then a\<lparr>att_failedCount := 0, att_windowStartedAt := now\<rparr> else a)"

definition open_session ::
  "(string \<Rightarrow> string) \<Rightarrow> auth_config \<Rightarrow> login_fresh \<Rightarrow> auth_user \<Rightarrow> auth_db \<Rightarrow> auth_db res" where
  "open_session sha cfg x user d =
     (let revoked = update_rows (\<lambda>s. ses_userId s = usr_id user \<and> ses_revokedAt s = None \<and> ses_expiresAt s > lf_now x)
                      (\<lambda>s. s\<lparr>ses_revokedAt := Some (lf_now x)\<rparr>) (ad_sessions d);
          s = \<lparr>ses_id = lf_sessionId x, ses_userId = usr_id user, ses_tokenHash = sha (lf_sessionToken x),
               ses_expiresAt = lf_now x + ac_sessionTtlSeconds cfg * 1000, ses_revokedAt = None\<rparr>
      in checked (find_row (\<lambda>r. ses_tokenHash r = ses_tokenHash s \<or> ses_id r = ses_id s) revoked = None) ''auth_sessions''
           (record_audit (createAuditEvent (lf_traceId x) (Some (usr_id user)) ''AUTH_LOGIN_SUCCEEDED'' ''AUTH_SESSION'' (ses_id s) [])
             (d\<lparr>ad_sessions := revoked @ [s]\<rparr>)))"

text \<open>A refused login: its audit event, and one more failure in the window.\<close>

definition refuse_login ::
  "auth_config \<Rightarrow> login_fresh \<Rightarrow> login_attempt \<Rightarrow> auth_user option \<Rightarrow> auth_db \<Rightarrow> login_result \<times> auth_db" where
  "refuse_login cfg x a user d =
     (let disabled = (case user of None \<Rightarrow> False | Some u \<Rightarrow> usr_disabledAt u \<noteq> None);
          e = createAuditEvent (lf_traceId x) (map_option usr_id user) ''AUTH_LOGIN_FAILED'' ''AUTH_LOGIN_IDENTIFIER''
                (att_identifierHash a) [(''reason'', SStr (if disabled then ''DISABLED'' else ''INVALID''))]
      in (if disabled then Login_DISABLED else Login_INVALID,
          save_attempt (a\<lparr>att_failedCount := min (att_failedCount a + 1) (ac_loginMaxAttempts cfg)\<rparr>) (record_audit e d)))"

definition credentials_ok :: "(string \<Rightarrow> string \<Rightarrow> bool) \<Rightarrow> string \<Rightarrow> auth_user \<Rightarrow> bool" where
  "credentials_ok verify password u = (verify (usr_passwordHash u) password \<and> usr_disabledAt u = None)"

definition loginInTransaction ::
  "(string \<Rightarrow> string) \<Rightarrow> (string \<Rightarrow> string \<Rightarrow> bool) \<Rightarrow> auth_config \<Rightarrow> login_fresh \<Rightarrow> string \<Rightarrow> string \<Rightarrow> auth_db
    \<Rightarrow> (login_result \<times> auth_db) res" where
  "loginInTransaction sha verify cfg x email password d0 =
     (let h = sha email; d1 = ensure_attempt h (lf_now x) d0;
          a = current_attempt cfg (lf_now x) (the (find_row (\<lambda>a. att_identifierHash a = h) (ad_attempts d1)));
          d2 = save_attempt a d1;
          user = find_row (\<lambda>u. usr_email u = email) (ad_users d2)
      in if att_failedCount a \<ge> ac_loginMaxAttempts cfg then
           Inr (Login_RATE_LIMITED,
             record_audit (createAuditEvent (lf_traceId x) None ''AUTH_LOGIN_RATE_LIMITED'' ''AUTH_LOGIN_IDENTIFIER'' h []) d2)
         else if (case user of None \<Rightarrow> False | Some u \<Rightarrow> credentials_ok verify password u) then
           bindE (open_session sha cfg x (the user) (d2\<lparr>ad_attempts := filter (\<lambda>a. att_identifierHash a \<noteq> h) (ad_attempts d2)\<rparr>)) (\<lambda>d3.
           Inr (Login_SUCCESS (lf_sessionToken x) (lf_now x + ac_sessionTtlSeconds cfg * 1000) (the user), d3))
         else Inr (refuse_login cfg x a user d2))"

text \<open>The transaction is committed whatever the result; the two errors are raised after it.\<close>

datatype login_reply = Logged_in string int auth_user | Too_many_requests | Invalid_credentials | Login_error exn

definition login ::
  "(string \<Rightarrow> string) \<Rightarrow> (string \<Rightarrow> string \<Rightarrow> bool) \<Rightarrow> auth_config \<Rightarrow> login_fresh \<Rightarrow> string \<Rightarrow> string \<Rightarrow> auth_db
    \<Rightarrow> login_reply \<times> auth_db" where
  "login sha verify cfg x email password d =
     (case loginInTransaction sha verify cfg x (normalizeAuthEmail email) password d of
        Inl e \<Rightarrow> (Login_error e, d)
      | Inr (r, d') \<Rightarrow>
          (case r of Login_SUCCESS token expiresAt user \<Rightarrow> Logged_in token expiresAt user
           | Login_RATE_LIMITED \<Rightarrow> Too_many_requests | _ \<Rightarrow> Invalid_credentials, d'))"

section \<open>Sessions\<close>

definition active_session :: "int \<Rightarrow> auth_session \<Rightarrow> bool" where
  "active_session now s = (ses_revokedAt s = None \<and> ses_expiresAt s > now)"

definition resolveSession :: "(string \<Rightarrow> string) \<Rightarrow> int \<Rightarrow> string \<Rightarrow> auth_db \<Rightarrow> principal option" where
  "resolveSession sha now sessionToken d =
     (case find_row (\<lambda>s. ses_tokenHash s = sha sessionToken \<and> active_session now s
              \<and> (case find_row (\<lambda>u. usr_id u = ses_userId s) (ad_users d) of None \<Rightarrow> False | Some u \<Rightarrow> usr_disabledAt u = None))
            (ad_sessions d) of
        None \<Rightarrow> None
      | Some s \<Rightarrow>
          (case find_row (\<lambda>u. usr_id u = ses_userId s) (ad_users d) of
             None \<Rightarrow> None
           | Some u \<Rightarrow> Some \<lparr>pr_sessionId = ses_id s, pr_id = usr_id u, pr_email = usr_email u, pr_role = usr_role u\<rparr>))"

definition logout :: "string option \<Rightarrow> int \<Rightarrow> string \<Rightarrow> string \<Rightarrow> auth_db \<Rightarrow> auth_db" where
  "logout traceId now sessionId actorUserId d =
     (let p = (\<lambda>s. ses_id s = sessionId \<and> ses_revokedAt s = None) in
      if affected p (ad_sessions d) = 0 then d
      else record_audit (createAuditEvent traceId (Some actorUserId) ''AUTH_LOGOUT'' ''AUTH_SESSION'' sessionId [])
             (d\<lparr>ad_sessions := update_rows p (\<lambda>s. s\<lparr>ses_revokedAt := Some now\<rparr>) (ad_sessions d)\<rparr>))"

definition revokeSessionByToken :: "(string \<Rightarrow> string) \<Rightarrow> string option \<Rightarrow> int \<Rightarrow> string option \<Rightarrow> auth_db \<Rightarrow> auth_db" where
  "revokeSessionByToken sha traceId now sessionToken d =
     (case sessionToken of
        None \<Rightarrow> d
      | Some t \<Rightarrow>
          if t = [] then d
          else (case find_row (\<lambda>s. ses_tokenHash s = sha t \<and> ses_revokedAt s = None) (ad_sessions d) of
             None \<Rightarrow> d
           | Some s \<Rightarrow> logout traceId now (ses_id s) (ses_userId s) d))"

section \<open>The initial administrator\<close>

definition createInitialAdmin ::
  "(string \<Rightarrow> string) \<Rightarrow> string option \<Rightarrow> string \<Rightarrow> string \<Rightarrow> string \<Rightarrow> auth_db \<Rightarrow> (auth_user \<times> auth_db) res" where
  "createInitialAdmin hash_password traceId newId emailInput password d =
     (let u = \<lparr>usr_id = newId, usr_email = normalizeAuthEmail emailInput, usr_passwordHash = hash_password password,
               usr_role = Role_ADMIN, usr_disabledAt = None\<rparr>
      in bindE (guardE (find_row (\<lambda>x. usr_role x = Role_ADMIN) (ad_users d) = None)
                 (ConflictException ''An administrator already exists'')) (\<lambda>_.
         bindE (checked (find_row (\<lambda>x. usr_email x = usr_email u \<or> usr_id x = newId) (ad_users d) = None) ''auth_users''
                 (d\<lparr>ad_users := ad_users d @ [u]\<rparr>)) (\<lambda>d'.
         Inr (u, record_audit (createAuditEvent traceId None ''AUTH_ADMIN_CREATED'' ''AUTH_USER'' newId [(''source'', SStr ''CLI'')]) d'))))"

section \<open>The guards of a request\<close>

definition session_token_length :: nat where "session_token_length = 43"

definition token_char :: "char \<Rightarrow> bool" where
  "token_char c = (is_digit c \<or> is_upper c \<or> (97 \<le> (of_char c :: nat) \<and> (of_char c :: nat) \<le> 122) \<or> c = CHR ''_'' \<or> c = CHR ''-'')"

definition extractBearerToken :: "json \<Rightarrow> string option" where
  "extractBearerToken authorization =
     (case authorization of
        JStr header \<Rightarrow>
          (let token = drop 7 header in
           if starts_with header ''Bearer '' \<and> length token = session_token_length \<and> list_all token_char token then Some token else None)
      | _ \<Rightarrow> None)"

text \<open>What the decorators of a route say, and the parts of a request the guards read.\<close>

record route =
  rt_public :: bool
  rt_sessionPublic :: bool
  rt_roles :: "user_role list"
  rt_path :: string

record request =
  rq_method :: string
  rq_apiKey :: "string option"
  rq_authorization :: json

definition api_key_guard :: "string option \<Rightarrow> route \<Rightarrow> request \<Rightarrow> unit res" where
  "api_key_guard expectedKey r q =
     (if rt_public r then Inr ()
      else case (rq_apiKey q, expectedKey) of
        (Some apiKey, Some expected) \<Rightarrow>
          guardE (apiKey \<noteq> [] \<and> expected \<noteq> [] \<and> apiKey = expected) (PlainError ''Unauthorized'')
      | _ \<Rightarrow> Inl (PlainError ''Unauthorized''))"

definition session_guard :: "(string \<Rightarrow> string) \<Rightarrow> int \<Rightarrow> auth_db \<Rightarrow> route \<Rightarrow> request \<Rightarrow> principal option res" where
  "session_guard sha now d r q =
     (if rt_public r \<or> rt_sessionPublic r then Inr None
      else bindE (of_option (PlainError ''Unauthorized'') (extractBearerToken (rq_authorization q))) (\<lambda>token.
           bindE (of_option (PlainError ''Unauthorized'') (resolveSession sha now token d)) (\<lambda>p. Inr (Some p))))"

fun role_level :: "user_role \<Rightarrow> nat" where
  "role_level Role_VIEWER = 1" | "role_level Role_OPERATOR = 2" | "role_level Role_ADMIN = 3"

definition assertMinimumRole :: "principal option \<Rightarrow> user_role list \<Rightarrow> unit res" where
  "assertMinimumRole p requiredRoles =
     (case p of
        None \<Rightarrow> Inl (ForbiddenException ''Forbidden'')
      | Some p \<Rightarrow>
          guardE (\<not> (case List.map role_level requiredRoles of
                       [] \<Rightarrow> False | l # ls \<Rightarrow> role_level (pr_role p) < fold min ls l)) (ForbiddenException ''Forbidden''))"

definition roles_guard :: "route \<Rightarrow> string \<Rightarrow> principal option \<Rightarrow> unit res" where
  "roles_guard r httpMethod p =
     (if rt_public r \<or> rt_sessionPublic r then Inr ()
      else if rt_roles r = [] then
        (if httpMethod \<in> {''GET'', ''HEAD'', ''OPTIONS''} then Inr () else assertMinimumRole p [Role_ADMIN])
      else assertMinimumRole p (rt_roles r))"

text \<open>The interceptor, on the user the guards attached; \<open>toUpperCase\<close> of ASCII text.\<close>

definition upper :: "char \<Rightarrow> char" where
  "upper c = (if 97 \<le> (of_char c :: nat) \<and> (of_char c :: nat) \<le> 122 then char_of ((of_char c :: nat) - 32) else c)"

definition audit_mutation :: "string option \<Rightarrow> route \<Rightarrow> request \<Rightarrow> principal option \<Rightarrow> auth_db \<Rightarrow> auth_db" where
  "audit_mutation traceId r q p d =
     (let httpMethod = List.map upper (rq_method q) in
      case p of
        None \<Rightarrow> d
      | Some p \<Rightarrow>
          if httpMethod \<notin> {''POST'', ''PUT'', ''PATCH'', ''DELETE''} then d
          else record_audit (createAuditEvent traceId (Some (pr_id p)) ''HTTP_MUTATION_ATTEMPT'' ''HTTP_ROUTE''
                 (take 320 (httpMethod @ '' '' @ rt_path r)) []) d)"

text \<open>A request up to its handler: the three guards in the order of the module, then the interceptor.\<close>

definition admit :: "(string \<Rightarrow> string) \<Rightarrow> string option \<Rightarrow> string option \<Rightarrow> int \<Rightarrow> route \<Rightarrow> request \<Rightarrow> auth_db
    \<Rightarrow> (principal option \<times> auth_db) res" where
  "admit sha expectedKey traceId now r q d =
     bindE (api_key_guard expectedKey r q) (\<lambda>_.
     bindE (session_guard sha now d r q) (\<lambda>p.
     bindE (roles_guard r (rq_method q) p) (\<lambda>_.
     Inr (p, audit_mutation traceId r q p d))))"

end
