(* ===== verification/AuthSafety.thy ===== *)
theory AuthSafety
  imports Auth Systems
begin

text \<open>
  The operations on the tables of authentication as one system: its reachable states keep their keys,
  have one administrator and one active session for a user; the counter of failures of an address.
\<close>

section \<open>Operations\<close>

record auth_world =
  aw_sha :: "string \<Rightarrow> string"
  aw_verify :: "string \<Rightarrow> string \<Rightarrow> bool"
  aw_hash_password :: "string \<Rightarrow> string"
  aw_config :: auth_config
  aw_apiKey :: "string option"

text \<open>Apart from the first administrator, users are entered and disabled by hand on the table.\<close>

datatype auth_op =
    Op_login login_fresh string string
  | Op_logout int "string option" "string option"
  | Op_admin int "string option" string string string
  | Op_request int "string option" route request
  | Op_user int auth_user
  | Op_disable int string "int option"

fun op_time :: "auth_op \<Rightarrow> int" where
  "op_time (Op_login x _ _) = lf_now x" | "op_time (Op_logout t _ _) = t" | "op_time (Op_admin t _ _ _ _) = t"
| "op_time (Op_request t _ _ _) = t" | "op_time (Op_user t _) = t"
| "op_time (Op_disable t _ _) = t"

fun apply_op :: "auth_world \<Rightarrow> auth_op \<Rightarrow> auth_db \<Rightarrow> login_reply option \<times> auth_db" where
  "apply_op W (Op_login x email password) d =
     (let (r, d') = login (aw_sha W) (aw_verify W) (aw_config W) x email password d in (Some r, d'))"
| "apply_op W (Op_logout now traceId token) d = (None, revokeSessionByToken (aw_sha W) traceId now token d)"
| "apply_op W (Op_admin now traceId newId email password) d =
     (None, case createInitialAdmin (aw_hash_password W) traceId newId email password d of Inl _ \<Rightarrow> d | Inr (_, d') \<Rightarrow> d')"
| "apply_op W (Op_request now traceId r q) d =
     (None, case admit (aw_sha W) (aw_apiKey W) traceId now r q d of Inl _ \<Rightarrow> d | Inr (_, d') \<Rightarrow> d')"
| "apply_op W (Op_user now u) d =
     (None, if find_row (\<lambda>x. usr_email x = usr_email u \<or> usr_id x = usr_id u) (ad_users d) = None
            then d\<lparr>ad_users := ad_users d @ [u]\<rparr> else d)"
| "apply_op W (Op_disable now i v) d =
     (None, d\<lparr>ad_users := update_rows (\<lambda>u. usr_id u = i) (\<lambda>u. u\<lparr>usr_disabledAt := v\<rparr>) (ad_users d)\<rparr>)"

fun replies :: "auth_world \<Rightarrow> auth_op list \<Rightarrow> auth_db \<Rightarrow> (auth_op \<times> login_reply option) list" where
  "replies W [] d = []"
| "replies W (x # xs) d = (x, fst (apply_op W x d)) # replies W xs (snd (apply_op W x d))"

inductive auth_step :: "auth_world \<Rightarrow> int \<times> auth_db \<Rightarrow> int \<times> auth_db \<Rightarrow> bool" for W where
  auth_op: "c \<le> op_time x \<Longrightarrow> auth_step W (c, d) (op_time x, snd (apply_op W x d))"

definition empty_auth :: auth_db where
  "empty_auth = \<lparr>ad_users = [], ad_sessions = [], ad_attempts = [], ad_audits = []\<rparr>"

definition auth_init :: "int \<times> auth_db \<Rightarrow> bool" where
  "auth_init s = (snd s = empty_auth)"

section \<open>The invariant\<close>

definition active_of :: "string \<Rightarrow> int \<Rightarrow> auth_db \<Rightarrow> auth_session list" where
  "active_of u t d = filter (\<lambda>s. ses_userId s = u \<and> active_session t s) (ad_sessions d)"

definition auth_ok :: "int \<times> auth_db \<Rightarrow> bool" where
  "auth_ok s = (case s of (c, d) \<Rightarrow>
     distinct (List.map ses_id (ad_sessions d)) \<and> distinct (List.map ses_tokenHash (ad_sessions d))
     \<and> distinct (List.map usr_id (ad_users d)) \<and> distinct (List.map usr_email (ad_users d))
     \<and> distinct (List.map att_identifierHash (ad_attempts d))
     \<and> ses_userId ` set (ad_sessions d) \<subseteq> usr_id ` set (ad_users d)
     \<and> (\<forall>u. length (active_of u c d) \<le> 1))"

text \<open>What the steps other than a login do to the sessions: revoke some of them.\<close>

lemma active_later: "active_session t s \<Longrightarrow> c \<le> t \<Longrightarrow> active_session c s"
  by (simp add: active_session_def)

lemma length_filter_mono: "(\<And>x. x \<in> set xs \<Longrightarrow> p x \<Longrightarrow> q x) \<Longrightarrow> length (filter p xs) \<le> length (filter q xs)"
  by (induction xs) auto

lemma active_of_later: "c \<le> t \<Longrightarrow> length (active_of u t d) \<le> length (active_of u c d)"
  unfolding active_of_def by (rule length_filter_mono) (auto intro: active_later)

definition revokes :: "auth_db \<Rightarrow> auth_db \<Rightarrow> bool" where
  "revokes d d' = (\<exists>p t. ad_sessions d' = update_rows p (\<lambda>s. s\<lparr>ses_revokedAt := Some t\<rparr>) (ad_sessions d))"

lemma update_rows_none: "update_rows (\<lambda>_. False) f rs = rs"
  by (simp add: update_rows_def)

lemma revokes_same: "ad_sessions d' = ad_sessions d \<Longrightarrow> revokes d d'"
  unfolding revokes_def by (rule exI [of _ "\<lambda>_. False"]) (simp add: update_rows_none)

lemma map_update_same:
  assumes "\<And>r. k (f r) = k r"
  shows "List.map k (update_rows p f rs) = List.map k rs"
  by (induction rs) (auto simp: assms update_rows_def)

lemma revokes_active:
  assumes "revokes d d'"
  shows "length (active_of u t d') \<le> length (active_of u t d)"
proof -
  from assms obtain p a where s: "ad_sessions d' = update_rows p (\<lambda>s. s\<lparr>ses_revokedAt := Some a\<rparr>) (ad_sessions d)"
    by (auto simp: revokes_def)
  have "length (filter (\<lambda>s. ses_userId s = u \<and> active_session t s) (update_rows p (\<lambda>s. s\<lparr>ses_revokedAt := Some a\<rparr>) rs))
      \<le> length (filter (\<lambda>s. ses_userId s = u \<and> active_session t s) rs)" for rs
    by (induction rs) (auto simp: update_rows_def active_session_def)
  then show ?thesis by (simp add: active_of_def s)
qed

lemma revokes_keys:
  assumes "revokes d d'"
  shows "List.map ses_id (ad_sessions d') = List.map ses_id (ad_sessions d)"
    and "List.map ses_tokenHash (ad_sessions d') = List.map ses_tokenHash (ad_sessions d)"
    and "ses_userId ` set (ad_sessions d') = ses_userId ` set (ad_sessions d)"
proof -
  from assms obtain p a where s: "ad_sessions d' = update_rows p (\<lambda>s. s\<lparr>ses_revokedAt := Some a\<rparr>) (ad_sessions d)"
    by (auto simp: revokes_def)
  show "List.map ses_id (ad_sessions d') = List.map ses_id (ad_sessions d)"
      "List.map ses_tokenHash (ad_sessions d') = List.map ses_tokenHash (ad_sessions d)"
    unfolding s by (rule map_update_same, simp)+
  have "List.map ses_userId (ad_sessions d') = List.map ses_userId (ad_sessions d)"
    unfolding s by (rule map_update_same) simp
  then show "ses_userId ` set (ad_sessions d') = ses_userId ` set (ad_sessions d)" by (metis set_map)
qed

text \<open>A step that revokes sessions and leaves the keys of the other tables.\<close>

lemma revoking_ok:
  assumes "auth_ok (c, d)" and "c \<le> t" and "revokes d d'"
    and "List.map usr_id (ad_users d') = List.map usr_id (ad_users d)" and "List.map usr_email (ad_users d') = List.map usr_email (ad_users d)"
    and "distinct (List.map att_identifierHash (ad_attempts d'))"
  shows "auth_ok (t, d')"
proof -
  have "length (active_of u t d') \<le> 1" for u
  proof -
    have "length (active_of u t d') \<le> length (active_of u t d)" by (rule revokes_active [OF assms(3)])
    also have "\<dots> \<le> length (active_of u c d)" by (rule active_of_later [OF assms(2)])
    also have "\<dots> \<le> 1" using assms(1) by (simp add: auth_ok_def)
    finally show ?thesis .
  qed
  moreover have "usr_id ` set (ad_users d') = usr_id ` set (ad_users d)" using assms(4) by (metis set_map)
  ultimately show ?thesis using assms(1,4,5,6) revokes_keys [OF assms(3)] by (simp add: auth_ok_def)
qed

section \<open>A login\<close>

lemma record_audit_fields [simp]:
  "ad_users (record_audit e d) = ad_users d" "ad_sessions (record_audit e d) = ad_sessions d"
  "ad_attempts (record_audit e d) = ad_attempts d" "ad_audits (record_audit e d) = ad_audits d @ [e]"
  by (simp_all add: record_audit_def)

lemma save_attempt_fields [simp]:
  "ad_users (save_attempt a d) = ad_users d" "ad_sessions (save_attempt a d) = ad_sessions d"
  "ad_audits (save_attempt a d) = ad_audits d"
  by (simp_all add: save_attempt_def)

lemma ensure_attempt_fields [simp]:
  "ad_users (ensure_attempt h t d) = ad_users d" "ad_sessions (ensure_attempt h t d) = ad_sessions d"
  "ad_audits (ensure_attempt h t d) = ad_audits d"
  by (simp_all add: ensure_attempt_def)

lemma save_attempt_keys: "List.map att_identifierHash (ad_attempts (save_attempt a d)) = List.map att_identifierHash (ad_attempts d)"
  by (auto simp: save_attempt_def update_rows_def)

lemma ensure_attempt_distinct:
  "distinct (List.map att_identifierHash (ad_attempts d)) \<Longrightarrow> distinct (List.map att_identifierHash (ad_attempts (ensure_attempt h t d)))"
  by (auto simp: ensure_attempt_def find_row_None_iff)

lemma refuse_login_fields:
  "ad_users (snd (refuse_login cfg x a user d)) = ad_users d" "ad_sessions (snd (refuse_login cfg x a user d)) = ad_sessions d"
  "List.map att_identifierHash (ad_attempts (snd (refuse_login cfg x a user d))) = List.map att_identifierHash (ad_attempts d)"
  by (simp_all add: refuse_login_def Let_def save_attempt_keys)

lemma filter_update_other:
  assumes "att_identifierHash a = h"
  shows "filter (\<lambda>b. att_identifierHash b \<noteq> h) (update_rows (\<lambda>x. att_identifierHash x = h) (\<lambda>_. a) rs) = filter (\<lambda>b. att_identifierHash b \<noteq> h) rs"
  using assms by (induction rs) (auto simp: update_rows_def)

text \<open>The shape of a login: it keeps the sessions, or it opens one for an enabled user.\<close>

lemma login_cases:
  assumes "loginInTransaction sha verify cfg x email password d = Inr (r, d')"
    and "distinct (List.map att_identifierHash (ad_attempts d))"
  shows "ad_users d' = ad_users d \<and> distinct (List.map att_identifierHash (ad_attempts d'))
    \<and> ((\<forall>token e u. r \<noteq> Login_SUCCESS token e u) \<and> ad_sessions d' = ad_sessions d
      \<or> (\<exists>u base. r = Login_SUCCESS (lf_sessionToken x) (lf_now x + ac_sessionTtlSeconds cfg * 1000) u
          \<and> find_row (\<lambda>u. usr_email u = email) (ad_users d) = Some u \<and> credentials_ok verify password u
          \<and> ad_users base = ad_users d \<and> ad_sessions base = ad_sessions d \<and> open_session sha cfg x u base = Inr d'
          \<and> ad_attempts d' = filter (\<lambda>a. att_identifierHash a \<noteq> sha email) (ad_attempts (ensure_attempt (sha email) (lf_now x) d))))"
proof -
  define d1 where "d1 = ensure_attempt (sha email) (lf_now x) d"
  define a where "a = current_attempt cfg (lf_now x) (the (find_row (\<lambda>a. att_identifierHash a = sha email) (ad_attempts d1)))"
  define d2 where "d2 = save_attempt a d1"
  have d1: "distinct (List.map att_identifierHash (ad_attempts d1))" using ensure_attempt_distinct [OF assms(2)] by (simp add: d1_def)
  have "att_identifierHash a = sha email"
  proof -
    have "find_row (\<lambda>a. att_identifierHash a = sha email) (ad_attempts d1) \<noteq> None"
      by (auto simp: d1_def ensure_attempt_def find_row_None_iff split: if_splits)
    then obtain b where "find_row (\<lambda>a. att_identifierHash a = sha email) (ad_attempts d1) = Some b" by auto
    with find_row_SomeD [OF this] show ?thesis by (simp add: a_def current_attempt_def)
  qed
  then have others: "filter (\<lambda>b. att_identifierHash b \<noteq> sha email) (ad_attempts d2) = filter (\<lambda>b. att_identifierHash b \<noteq> sha email) (ad_attempts d1)"
    by (simp add: d2_def save_attempt_def filter_update_other)
  have fields: "ad_users d2 = ad_users d" "ad_sessions d2 = ad_sessions d" "distinct (List.map att_identifierHash (ad_attempts d2))"
    using d1 by (simp_all add: d2_def d1_def save_attempt_keys)
  note body = assms(1) [unfolded loginInTransaction_def Let_def, folded d1_def, folded a_def, folded d2_def]
  show ?thesis
  proof (cases "att_failedCount a \<ge> ac_loginMaxAttempts cfg
      \<or> \<not> (case find_row (\<lambda>u. usr_email u = email) (ad_users d2) of None \<Rightarrow> False | Some u \<Rightarrow> credentials_ok verify password u)")
    case True
    then show ?thesis
      using body fields refuse_login_fields [of cfg x a "find_row (\<lambda>u. usr_email u = email) (ad_users d2)" d2]
      by (auto simp: refuse_login_def Let_def save_attempt_keys split: if_splits)
  next
    case False
    then obtain u where u: "find_row (\<lambda>u. usr_email u = email) (ad_users d2) = Some u" "credentials_ok verify password u"
      by (auto split: option.splits)
    let ?base = "d2\<lparr>ad_attempts := filter (\<lambda>a. att_identifierHash a \<noteq> sha email) (ad_attempts d2)\<rparr>"
    from body False u have r: "open_session sha cfg x u ?base = Inr d'"
        "r = Login_SUCCESS (lf_sessionToken x) (lf_now x + ac_sessionTtlSeconds cfg * 1000) u"
      by (auto elim!: bindE_elim)
    have "ad_attempts d' = ad_attempts ?base" "ad_users d' = ad_users ?base"
      using r(1) by (auto simp: open_session_def Let_def)
    then show ?thesis using r u fields others distinct_map_filter [OF d1, of "\<lambda>a. att_identifierHash a \<noteq> sha email"]
      by (auto simp: d1_def intro!: exI [of _ u] exI [of _ ?base])
  qed
qed

lemma open_session_spec:
  assumes "open_session sha cfg x u d = Inr d'"
  obtains old s where "ad_sessions d' = old @ [s]" "ad_users d' = ad_users d"
    "s = \<lparr>ses_id = lf_sessionId x, ses_userId = usr_id u, ses_tokenHash = sha (lf_sessionToken x),
          ses_expiresAt = lf_now x + ac_sessionTtlSeconds cfg * 1000, ses_revokedAt = None\<rparr>"
    "revokes d (d\<lparr>ad_sessions := old\<rparr>)" "\<forall>o' \<in> set old. ses_id o' \<noteq> ses_id s \<and> ses_tokenHash o' \<noteq> ses_tokenHash s"
    "\<And>t. lf_now x \<le> t \<Longrightarrow> active_of (usr_id u) t (d\<lparr>ad_sessions := old\<rparr>) = []"
proof -
  define old where "old = update_rows (\<lambda>s. ses_userId s = usr_id u \<and> ses_revokedAt s = None \<and> ses_expiresAt s > lf_now x)
      (\<lambda>s. s\<lparr>ses_revokedAt := Some (lf_now x)\<rparr>) (ad_sessions d)"
  define s where "s = \<lparr>ses_id = lf_sessionId x, ses_userId = usr_id u, ses_tokenHash = sha (lf_sessionToken x),
      ses_expiresAt = lf_now x + ac_sessionTtlSeconds cfg * 1000, ses_revokedAt = None\<rparr>"
  have d': "ad_sessions d' = old @ [s]" "ad_users d' = ad_users d"
      "find_row (\<lambda>r. ses_tokenHash r = ses_tokenHash s \<or> ses_id r = ses_id s) old = None"
    using assms by (auto simp: open_session_def Let_def old_def s_def)
  have "revokes d (d\<lparr>ad_sessions := old\<rparr>)" by (auto simp: revokes_def old_def)
  moreover have "\<forall>o' \<in> set old. ses_id o' \<noteq> ses_id s \<and> ses_tokenHash o' \<noteq> ses_tokenHash s"
    using d'(3) by (auto simp: find_row_None_iff)
  moreover have "active_of (usr_id u) t (d\<lparr>ad_sessions := old\<rparr>) = []" if "lf_now x \<le> t" for t
    using that by (auto simp: active_of_def old_def filter_empty_conv active_session_def update_rows_def)
  ultimately show thesis using that [OF d'(1,2) s_def] by blast
qed

lemma login_ok:
  assumes "auth_ok (c, d)" and "c \<le> lf_now x"
  shows "auth_ok (lf_now x, snd (login sha verify cfg x email password d))"
proof (cases "loginInTransaction sha verify cfg x (normalizeAuthEmail email) password d")
  case (Inl e)
  then show ?thesis using revoking_ok [OF assms revokes_same [OF refl] refl refl] assms(1) by (simp add: login_def auth_ok_def)
next
  case (Inr p)
  then obtain r d' where p: "loginInTransaction sha verify cfg x (normalizeAuthEmail email) password d = Inr (r, d')" by (cases p) auto
  have "distinct (List.map att_identifierHash (ad_attempts d))" using assms(1) by (simp add: auth_ok_def)
  note shape = login_cases [OF p this]
  have snd: "snd (login sha verify cfg x email password d) = d'" using p by (simp add: login_def)
  show ?thesis
  proof (cases "ad_sessions d' = ad_sessions d")
    case True
    then show ?thesis unfolding snd using shape revoking_ok [OF assms revokes_same [OF True]] by simp
  next
    case False
    with shape obtain u base where u: "find_row (\<lambda>u. usr_email u = normalizeAuthEmail email) (ad_users d) = Some u"
        "ad_users base = ad_users d" "ad_sessions base = ad_sessions d" "open_session sha cfg x u base = Inr d'"
      by blast
    obtain old s where o': "ad_sessions d' = old @ [s]" "s = \<lparr>ses_id = lf_sessionId x, ses_userId = usr_id u,
          ses_tokenHash = sha (lf_sessionToken x), ses_expiresAt = lf_now x + ac_sessionTtlSeconds cfg * 1000, ses_revokedAt = None\<rparr>"
        "revokes base (base\<lparr>ad_sessions := old\<rparr>)" "\<forall>o' \<in> set old. ses_id o' \<noteq> ses_id s \<and> ses_tokenHash o' \<noteq> ses_tokenHash s"
        "active_of (usr_id u) (lf_now x) (base\<lparr>ad_sessions := old\<rparr>) = []"
      using open_session_spec [OF u(4)] by (metis order_refl)
    let ?e = "d'\<lparr>ad_sessions := old\<rparr>"
    have rev: "revokes d ?e" using o'(3) u(3) by (auto simp: revokes_def)
    have e: "auth_ok (lf_now x, ?e)" by (rule revoking_ok [OF assms rev]) (use shape in auto)
    have none: "active_of (usr_id u) (lf_now x) ?e = []" using o'(5) by (simp add: active_of_def)
    have "length (active_of v (lf_now x) d') \<le> 1" for v
      using e none by (cases "v = usr_id u") (auto simp: auth_ok_def active_of_def o'(1,2))
    moreover have "usr_id u \<in> usr_id ` set (ad_users d')" using find_row_SomeD [OF u(1)] shape by auto
    ultimately show ?thesis unfolding snd using e o'(1,2,4) by (auto simp: auth_ok_def)
  qed
qed

section \<open>The system\<close>

lemma logout_revokes: "revokes d (logout tr now i u d)"
  by (auto simp: logout_def Let_def revokes_def intro: exI [of _ "\<lambda>_. False"] simp: update_rows_none)

lemma logout_fields [simp]: "ad_users (logout tr now i u d) = ad_users d" "ad_attempts (logout tr now i u d) = ad_attempts d"
  by (simp_all add: logout_def Let_def)

lemma revoke_fields:
  "revokes d (revokeSessionByToken sha tr now token d)"
  "ad_users (revokeSessionByToken sha tr now token d) = ad_users d"
  "ad_attempts (revokeSessionByToken sha tr now token d) = ad_attempts d"
  by (auto simp: revokeSessionByToken_def logout_revokes revokes_same split: option.split)

lemma admit_fields:
  assumes "admit sha key tr now r q d = Inr (p, d')"
  shows "ad_users d' = ad_users d" "ad_sessions d' = ad_sessions d" "ad_attempts d' = ad_attempts d"
  using assms by (auto simp: admit_def audit_mutation_def Let_def elim!: bindE_elim split: option.splits if_splits)

text \<open>A user with a new identifier and a new address.\<close>

lemma user_ok:
  assumes "auth_ok (c, d)" and "c \<le> t" and "find_row (\<lambda>x. usr_email x = usr_email u \<or> usr_id x = usr_id u) (ad_users d) = None"
    and "ad_users d' = ad_users d @ [u]" and "ad_sessions d' = ad_sessions d" and "ad_attempts d' = ad_attempts d"
  shows "auth_ok (t, d')"
proof -
  have "auth_ok (t, d)" using revoking_ok [OF assms(1,2) revokes_same [OF refl] refl refl] assms(1) by (simp add: auth_ok_def)
  then show ?thesis using assms(3-6) by (auto simp: auth_ok_def active_of_def find_row_None_iff)
qed

lemma admin_new:
  assumes "createInitialAdmin hash tr i email password d = Inr (u, d')"
  shows "find_row (\<lambda>x. usr_role x = Role_ADMIN) (ad_users d) = None"
    and "find_row (\<lambda>x. usr_email x = usr_email u \<or> usr_id x = usr_id u) (ad_users d) = None"
    and "ad_users d' = ad_users d @ [u]" "usr_role u = Role_ADMIN" "ad_sessions d' = ad_sessions d" "ad_attempts d' = ad_attempts d"
  using assms by (auto simp: createInitialAdmin_def Let_def elim!: bindE_elim)

lemma auth_step_ok:
  assumes "auth_ok (c, d)" and "c \<le> op_time x"
  shows "auth_ok (op_time x, snd (apply_op W x d))"
proof -
  have same: "auth_ok (op_time x, d')" if "ad_users d' = ad_users d" "ad_attempts d' = ad_attempts d" "revokes d d'" for d'
    using revoking_ok [OF assms that(3)] that assms(1) by (simp add: auth_ok_def)
  show ?thesis
  proof (cases x)
    case (Op_login f email password)
    with login_ok [OF assms(1), of f] assms(2) show ?thesis by (simp add: split_beta)
  next
    case (Op_logout t tr token)
    with same [OF revoke_fields(2,3,1)] show ?thesis by simp
  next
    case (Op_admin t tr i email password)
    show ?thesis
    proof (cases "createInitialAdmin (aw_hash_password W) tr i email password d")
      case (Inl e)
      then show ?thesis using Op_admin same [OF refl refl revokes_same [OF refl]] by simp
    next
      case (Inr p)
      then obtain u d' where "createInitialAdmin (aw_hash_password W) tr i email password d = Inr (u, d')" by (cases p) auto
      with Op_admin user_ok [OF assms admin_new(2,3,5,6) [OF this]] show ?thesis by simp
    qed
  next
    case (Op_request t tr r q)
    then show ?thesis using same [OF admit_fields(1,3) revokes_same [OF admit_fields(2)]] same [OF refl refl revokes_same [OF refl]]
      by (auto split: sum.split)
  next
    case (Op_user t u)
    with user_ok [OF assms] same [OF refl refl revokes_same [OF refl]] show ?thesis by simp
  next
    case (Op_disable t i v)
    let ?d = "d\<lparr>ad_users := update_rows (\<lambda>u. usr_id u = i) (\<lambda>u. u\<lparr>usr_disabledAt := v\<rparr>) (ad_users d)\<rparr>"
    have "auth_ok (op_time x, ?d)"
      by (rule revoking_ok [OF assms revokes_same]) (use assms(1) in \<open>simp_all add: auth_ok_def map_update_same\<close>)
    with Op_disable show ?thesis by simp
  qed
qed

interpretation auth: inductive_system auth_init "auth_step W" auth_ok for W
proof
  show "auth_ok s" if "auth_init s" for s
    using that by (cases s) (simp add: auth_init_def auth_ok_def empty_auth_def active_of_def)
  show "auth_ok t" if "auth_ok s" "auth_step W s t" for s t
    using that(2,1) by cases (auto intro: auth_step_ok)
qed

section \<open>Tokens\<close>

text \<open>The row of a token that resolves, and a token that was revoked.\<close>

lemma resolve_Some:
  assumes "resolveSession sha t token d = Some p"
  shows "\<exists>s u. s \<in> set (ad_sessions d) \<and> ses_tokenHash s = sha token \<and> active_session t s
    \<and> u \<in> set (ad_users d) \<and> usr_id u = ses_userId s \<and> usr_disabledAt u = None
    \<and> p = \<lparr>pr_sessionId = ses_id s, pr_id = usr_id u, pr_email = usr_email u, pr_role = usr_role u\<rparr>"
proof -
  let ?ok = "\<lambda>s. ses_tokenHash s = sha token \<and> active_session t s
    \<and> (case find_row (\<lambda>u. usr_id u = ses_userId s) (ad_users d) of None \<Rightarrow> False | Some u \<Rightarrow> usr_disabledAt u = None)"
  obtain s u where s: "find_row ?ok (ad_sessions d) = Some s" and u: "find_row (\<lambda>u. usr_id u = ses_userId s) (ad_users d) = Some u"
    and p: "p = \<lparr>pr_sessionId = ses_id s, pr_id = usr_id u, pr_email = usr_email u, pr_role = usr_role u\<rparr>"
    using assms by (auto simp: resolveSession_def split: option.splits)
  show ?thesis using find_row_SomeD [OF s] find_row_SomeD [OF u] u p by (intro exI [of _ s] exI [of _ u]) simp
qed

lemma resolve_active:
  assumes "resolveSession sha t token d = Some p"
  shows "\<exists>s. s \<in> set (active_of (pr_id p) t d) \<and> ses_tokenHash s = sha token \<and> ses_id s = pr_sessionId p"
  using resolve_Some [OF assms] by (auto simp: active_of_def)

definition revoked_token :: "string \<Rightarrow> auth_db \<Rightarrow> bool" where
  "revoked_token h d = (\<exists>s \<in> set (ad_sessions d). ses_tokenHash s = h \<and> ses_revokedAt s \<noteq> None)"

lemma revoked_unresolved:
  assumes "auth_ok (c, d)" and "revoked_token (sha token) d"
  shows "resolveSession sha t token d = None"
proof (rule ccontr)
  assume "resolveSession sha t token d \<noteq> None"
  then obtain p where "resolveSession sha t token d = Some p" by auto
  then obtain s where s: "s \<in> set (ad_sessions d)" "ses_tokenHash s = sha token" "active_session t s"
    using resolve_Some by blast
  obtain r where r: "r \<in> set (ad_sessions d)" "ses_tokenHash r = sha token" "ses_revokedAt r \<noteq> None"
    using assms(2) by (auto simp: revoked_token_def)
  have "inj_on ses_tokenHash (set (ad_sessions d))" using assms(1) by (simp add: auth_ok_def distinct_map)
  with s r have "s = r" by (simp add: inj_on_def)
  with s r show False by (simp add: active_session_def)
qed

text \<open>A token with one row resolves to its user while the session is live.\<close>

lemma resolve_row:
  assumes "find_row (\<lambda>r. ses_tokenHash r = sha token) (ad_sessions d) = Some s" and "distinct (List.map ses_tokenHash (ad_sessions d))"
    and "find_row (\<lambda>v. usr_id v = ses_userId s) (ad_users d) = Some u" and "usr_disabledAt u = None" and "ses_revokedAt s = None"
  shows "resolveSession sha t token d = (if t < ses_expiresAt s
    then Some \<lparr>pr_sessionId = ses_id s, pr_id = usr_id u, pr_email = usr_email u, pr_role = usr_role u\<rparr> else None)"
proof -
  let ?ok = "\<lambda>s. ses_tokenHash s = sha token \<and> active_session t s
    \<and> (case find_row (\<lambda>u. usr_id u = ses_userId s) (ad_users d) of None \<Rightarrow> False | Some u \<Rightarrow> usr_disabledAt u = None)"
  have s: "s \<in> set (ad_sessions d)" "ses_tokenHash s = sha token" using find_row_SomeD [OF assms(1)] by auto
  have only: "r = s" if "r \<in> set (ad_sessions d)" "ses_tokenHash r = sha token" for r
    using that s assms(2) by (auto simp: distinct_map inj_on_def)
  have "find_row ?ok (ad_sessions d) = (if t < ses_expiresAt s then Some s else None)"
  proof (cases "find_row ?ok (ad_sessions d)")
    case None
    with s assms(3-5) show ?thesis by (auto simp: find_row_None_iff active_session_def)
  next
    case (Some r)
    from find_row_SomeD [OF Some] only [of r] have "r = s" "t < ses_expiresAt s" by (auto simp: active_session_def)
    with Some show ?thesis by simp
  qed
  then show ?thesis using assms(3) by (simp add: resolveSession_def)
qed

lemma revoke_revokes:
  assumes "auth_ok (c, d)" and "token \<noteq> []" and "s \<in> set (ad_sessions d)" and "ses_tokenHash s = sha token" and "ses_revokedAt s = None"
  shows "revoked_token (sha token) (revokeSessionByToken sha tr now (Some token) d)"
proof -
  have "find_row (\<lambda>s. ses_tokenHash s = sha token \<and> ses_revokedAt s = None) (ad_sessions d) \<noteq> None"
    using assms(3-5) by (auto simp: find_row_None_iff)
  then obtain r where r: "find_row (\<lambda>s. ses_tokenHash s = sha token \<and> ses_revokedAt s = None) (ad_sessions d) = Some r" by auto
  note row = find_row_SomeD [OF r]
  have "affected (\<lambda>s. ses_id s = ses_id r \<and> ses_revokedAt s = None) (ad_sessions d) \<noteq> 0"
    using row by (auto simp: affected_def filter_empty_conv)
  then have "ad_sessions (revokeSessionByToken sha tr now (Some token) d)
      = update_rows (\<lambda>s. ses_id s = ses_id r \<and> ses_revokedAt s = None) (\<lambda>s. s\<lparr>ses_revokedAt := Some now\<rparr>) (ad_sessions d)"
    using assms(2) r by (simp add: revokeSessionByToken_def logout_def Let_def)
  then have "r\<lparr>ses_revokedAt := Some now\<rparr> \<in> set (ad_sessions (revokeSessionByToken sha tr now (Some token) d))"
    using row by (force simp: update_rows_def)
  with row show ?thesis unfolding revoked_token_def by (intro bexI [of _ "r\<lparr>ses_revokedAt := Some now\<rparr>"]) simp_all
qed

lemma revokes_revoked:
  assumes "revokes d d'" and "revoked_token h d"
  shows "revoked_token h d'"
proof -
  obtain p a where s: "ad_sessions d' = update_rows p (\<lambda>s. s\<lparr>ses_revokedAt := Some a\<rparr>) (ad_sessions d)"
    using assms(1) by (auto simp: revokes_def)
  obtain r where r: "r \<in> set (ad_sessions d)" "ses_tokenHash r = h" "ses_revokedAt r \<noteq> None"
    using assms(2) by (auto simp: revoked_token_def)
  let ?r = "if p r then r\<lparr>ses_revokedAt := Some a\<rparr> else r"
  have "?r \<in> set (ad_sessions d')" unfolding s update_rows_def using r(1) by auto
  with r show ?thesis unfolding revoked_token_def by (intro bexI [of _ ?r]) simp_all
qed

lemma login_revoked:
  assumes "auth_ok (c, d)" and "revoked_token h d"
  shows "revoked_token h (snd (login sha verify cfg x email password d))"
proof (cases "loginInTransaction sha verify cfg x (normalizeAuthEmail email) password d")
  case (Inl e)
  then show ?thesis using assms(2) by (simp add: login_def)
next
  case (Inr p)
  then obtain r d' where p: "loginInTransaction sha verify cfg x (normalizeAuthEmail email) password d = Inr (r, d')" by (cases p) auto
  have "distinct (List.map att_identifierHash (ad_attempts d))" using assms(1) by (simp add: auth_ok_def)
  note shape = login_cases [OF p this]
  have snd: "snd (login sha verify cfg x email password d) = d'" using p by (simp add: login_def)
  show ?thesis
  proof (cases "ad_sessions d' = ad_sessions d")
    case True
    then show ?thesis unfolding snd using assms(2) by (simp add: revoked_token_def)
  next
    case False
    with shape obtain u base where u: "ad_sessions base = ad_sessions d" "open_session sha cfg x u base = Inr d'" by blast
    obtain old s where o': "ad_sessions d' = old @ [s]" "revokes base (base\<lparr>ad_sessions := old\<rparr>)"
      using open_session_spec [OF u(2)] by metis
    have "revokes d (base\<lparr>ad_sessions := old\<rparr>)" using o'(2) u(1) by (simp add: revokes_def)
    from revokes_revoked [OF this assms(2)] show ?thesis unfolding snd by (auto simp: revoked_token_def o'(1))
  qed
qed

lemma step_revoked:
  assumes "auth_ok (c, d)" and "revoked_token h d"
  shows "revoked_token h (snd (apply_op W x d))"
proof -
  have same: "revoked_token h d'" if "ad_sessions d' = ad_sessions d" for d'
    using assms(2) that by (simp add: revoked_token_def)
  show ?thesis
  proof (cases x)
    case (Op_login f email password)
    with login_revoked [OF assms] show ?thesis by (simp add: split_beta)
  next
    case (Op_logout t tr token)
    with revokes_revoked [OF revoke_fields(1) assms(2)] show ?thesis by simp
  next
    case (Op_admin t tr i email password)
    then show ?thesis using assms(2) same by (auto simp: createInitialAdmin_def Let_def elim!: bindE_elim split: sum.split)
  next
    case (Op_request t tr r q)
    then show ?thesis using same [OF admit_fields(2)] assms(2) by (auto split: sum.split)
  next
    case (Op_user t u)
    then show ?thesis using same assms(2) by simp
  next
    case (Op_disable t i v)
    then show ?thesis using same by simp
  qed
qed

lemma revoked_forever:
  assumes "auth.run W s s'" and "auth.reach W s" and "revoked_token h (snd s)"
  shows "revoked_token h (snd s')"
  using assms
proof (induction rule: auth.run.induct)
  case (run_step s t u)
  then have ok: "auth_ok t" using auth.reach_inv auth.run_reach by metis
  from run_step have r: "revoked_token h (snd t)" by simp
  from run_step(2) show ?case by cases (use ok r step_revoked in \<open>auto\<close>)
qed

section \<open>The lockout\<close>

definition row_of :: "string \<Rightarrow> auth_db \<Rightarrow> login_attempt option" where
  "row_of h d = find_row (\<lambda>a. att_identifierHash a = h) (ad_attempts d)"

lemma row_of_hash: "row_of h d = Some a \<Longrightarrow> att_identifierHash a = h"
  by (auto simp: row_of_def dest: find_row_SomeD)

lemma row_of_audit [simp]: "row_of h (record_audit e d) = row_of h d"
  by (simp add: row_of_def)

lemma row_of_ensure:
  "row_of h (ensure_attempt k t d) = (if k = h \<and> row_of h d = None
     then Some \<lparr>att_identifierHash = h, att_failedCount = 0, att_windowStartedAt = t\<rparr> else row_of h d)"
  by (auto simp: row_of_def ensure_attempt_def find_row_append split: option.split)

lemma row_of_save: "row_of h (save_attempt a d) = (if att_identifierHash a = h then map_option (\<lambda>_. a) (row_of h d) else row_of h d)"
proof -
  have "find_row (\<lambda>b. att_identifierHash b = h) (update_rows (\<lambda>x. att_identifierHash x = att_identifierHash a) (\<lambda>_. a) rs)
      = (if att_identifierHash a = h then map_option (\<lambda>_. a) (find_row (\<lambda>b. att_identifierHash b = h) rs)
         else find_row (\<lambda>b. att_identifierHash b = h) rs)" for rs
    by (induction rs) (auto simp: update_rows_def)
  then show ?thesis by (simp add: row_of_def save_attempt_def)
qed

lemma row_of_drop: "k \<noteq> h \<Longrightarrow> row_of h (d\<lparr>ad_attempts := filter (\<lambda>a. att_identifierHash a \<noteq> k) (ad_attempts d)\<rparr>) = row_of h d"
proof -
  assume "k \<noteq> h"
  then have "find_row (\<lambda>a. att_identifierHash a = h) (filter (\<lambda>a. att_identifierHash a \<noteq> k) rs) = find_row (\<lambda>a. att_identifierHash a = h) rs" for rs
    by (induction rs) auto
  then show ?thesis by (simp add: row_of_def)
qed

lemma row_of_open: "open_session sha cfg x u d = Inr d' \<Longrightarrow> row_of h d' = row_of h d"
  by (auto simp: open_session_def Let_def row_of_def)

text \<open>What one login does to the counter of an address.\<close>

lemma login_row:
  assumes "loginInTransaction sha verify cfg x email password d = Inr (r, d')"
  defines "a \<equiv> current_attempt cfg (lf_now x) (case row_of (sha email) d of Some a \<Rightarrow> a
      | None \<Rightarrow> \<lparr>att_identifierHash = sha email, att_failedCount = 0, att_windowStartedAt = lf_now x\<rparr>)"
  shows "sha email \<noteq> h \<Longrightarrow> row_of h d' = row_of h d"
    and "r = Login_RATE_LIMITED \<Longrightarrow> row_of (sha email) d' = Some a \<and> ac_loginMaxAttempts cfg \<le> att_failedCount a"
    and "r = Login_INVALID \<or> r = Login_DISABLED \<Longrightarrow> att_failedCount a < ac_loginMaxAttempts cfg
      \<and> row_of (sha email) d' = Some (a\<lparr>att_failedCount := att_failedCount a + 1\<rparr>)"
proof -
  define d1 where "d1 = ensure_attempt (sha email) (lf_now x) d"
  define d2 where "d2 = save_attempt a d1"
  have r1: "row_of (sha email) d1 = Some (case row_of (sha email) d of Some a \<Rightarrow> a
      | None \<Rightarrow> \<lparr>att_identifierHash = sha email, att_failedCount = 0, att_windowStartedAt = lf_now x\<rparr>)"
    by (simp add: d1_def row_of_ensure split: option.split)
  have h: "att_identifierHash a = sha email"
    using row_of_hash [OF r1] by (simp add: a_def current_attempt_def)
  have a: "current_attempt cfg (lf_now x) (the (find_row (\<lambda>a. att_identifierHash a = sha email) (ad_attempts d1))) = a"
    using r1 by (simp add: a_def row_of_def)
  have r2: "row_of (sha email) d2 = Some a" "\<And>h. sha email \<noteq> h \<Longrightarrow> row_of h d2 = row_of h d"
    using r1 h by (simp_all add: d2_def row_of_save d1_def row_of_ensure)
  note body = assms(1) [unfolded loginInTransaction_def Let_def, folded d1_def, unfolded a, folded d2_def]
  show "sha email \<noteq> h \<Longrightarrow> row_of h d' = row_of h d"
    using body h r2(2) by (auto simp: refuse_login_def Let_def row_of_save row_of_open row_of_drop elim!: bindE_elim split: if_splits)
  show "r = Login_RATE_LIMITED \<Longrightarrow> row_of (sha email) d' = Some a \<and> ac_loginMaxAttempts cfg \<le> att_failedCount a"
    using body r2(1) by (auto simp: refuse_login_def Let_def elim!: bindE_elim split: if_splits)
  show "r = Login_INVALID \<or> r = Login_DISABLED \<Longrightarrow> att_failedCount a < ac_loginMaxAttempts cfg
      \<and> row_of (sha email) d' = Some (a\<lparr>att_failedCount := att_failedCount a + 1\<rparr>)"
    using body r2(1) h by (auto simp: refuse_login_def Let_def row_of_save elim!: bindE_elim split: if_splits)
qed

text \<open>
  How many refusals are left to an address for the attempts of a window of time that begins at \<open>w\<close>: what
  its counter leaves, and the maximum again when the counter was started before.
\<close>

definition refusals_left :: "auth_config \<Rightarrow> int \<Rightarrow> login_attempt option \<Rightarrow> nat" where
  "refusals_left cfg w a =
     (case a of
        None \<Rightarrow> ac_loginMaxAttempts cfg
      | Some a \<Rightarrow> (ac_loginMaxAttempts cfg - att_failedCount a) + (if att_windowStartedAt a < w then ac_loginMaxAttempts cfg else 0))"

lemma login_left:
  assumes "loginInTransaction sha verify cfg x email password d = Inr (r, d')"
    and "w \<le> lf_now x" and "lf_now x < w + ac_loginWindowSeconds cfg * 1000"
    and "\<forall>token e u. r \<noteq> Login_SUCCESS token e u"
  shows "refusals_left cfg w (row_of (sha email) d') + (if r = Login_RATE_LIMITED then 0 else 1)
    \<le> refusals_left cfg w (row_of (sha email) d)"
proof -
  have "r = Login_RATE_LIMITED \<or> r = Login_INVALID \<or> r = Login_DISABLED" using assms(4) by (cases r) auto
  then show ?thesis
    using login_row(2,3) [OF assms(1)] assms(2,3)
    by (auto simp: refusals_left_def current_attempt_def split: option.splits if_splits)
qed

text \<open>The logins of a list of operations on an address, and the replies that refuse the credentials.\<close>

fun login_of :: "string \<Rightarrow> auth_op \<Rightarrow> bool" where
  "login_of email (Op_login x e password) = (normalizeAuthEmail e = email)"
| "login_of email _ = False"

fun other_hash :: "auth_world \<Rightarrow> string \<Rightarrow> auth_op \<Rightarrow> bool" where
  "other_hash W email (Op_login x e password) = (normalizeAuthEmail e = email \<or> aw_sha W (normalizeAuthEmail e) \<noteq> aw_sha W email)"
| "other_hash W email _ = True"

lemma apply_row:
  assumes "other_hash W email x" and "\<not> login_of email x"
  shows "row_of (aw_sha W email) (snd (apply_op W x d)) = row_of (aw_sha W email) d"
proof (cases x)
  case (Op_login f e password)
  show ?thesis
  proof (cases "loginInTransaction (aw_sha W) (aw_verify W) (aw_config W) f (normalizeAuthEmail e) password d")
    case (Inl _)
    then show ?thesis by (simp add: Op_login login_def)
  next
    case (Inr p)
    then show ?thesis using assms Op_login login_row(1) by (cases p) (auto simp: login_def)
  qed
next
  case (Op_logout t tr token)
  then show ?thesis by (simp add: row_of_def revoke_fields)
next
  case (Op_admin t tr i email password)
  then show ?thesis by (auto simp: row_of_def createInitialAdmin_def Let_def elim!: bindE_elim split: sum.split)
next
  case (Op_request t tr r q)
  then show ?thesis using admit_fields(3) by (fastforce simp: row_of_def split: sum.split)
qed (simp_all add: row_of_def)

lemma lockout_bound:
  assumes "\<forall>x \<in> set ops. login_of email x \<longrightarrow> w \<le> op_time x \<and> op_time x < w + ac_loginWindowSeconds (aw_config W) * 1000"
    and "\<forall>x \<in> set ops. other_hash W email x"
    and "\<forall>(x, y) \<in> set (replies W ops d). login_of email x \<longrightarrow> (\<forall>token e u. y \<noteq> Some (Logged_in token e u))"
  shows "length (filter (\<lambda>(x, y). login_of email x \<and> y = Some Invalid_credentials) (replies W ops d))
    \<le> refusals_left (aw_config W) w (row_of (aw_sha W email) d)"
  using assms
proof (induction ops arbitrary: d)
  case (Cons x xs)
  let ?d = "snd (apply_op W x d)"
  have ih: "length (filter (\<lambda>(x, y). login_of email x \<and> y = Some Invalid_credentials) (replies W xs ?d))
      \<le> refusals_left (aw_config W) w (row_of (aw_sha W email) ?d)"
    by (rule Cons.IH) (use Cons.prems in auto)
  show ?case
  proof (cases "login_of email x")
    case False
    then show ?thesis using ih apply_row [of W email x d] Cons.prems(2) by simp
  next
    case True
    then obtain f e password where x: "x = Op_login f e password" "normalizeAuthEmail e = email" by (cases x) auto
    show ?thesis
    proof (cases "loginInTransaction (aw_sha W) (aw_verify W) (aw_config W) f email password d")
      case (Inl _)
      then show ?thesis using ih x by (simp add: login_def)
    next
      case (Inr p)
      then obtain r d' where p: "loginInTransaction (aw_sha W) (aw_verify W) (aw_config W) f email password d = Inr (r, d')" by (cases p) auto
      have "\<forall>token e u. r \<noteq> Login_SUCCESS token e u" using Cons.prems(3) x p by (auto simp: login_def)
      from login_left [OF p _ _ this, of w] have
        "refusals_left (aw_config W) w (row_of (aw_sha W email) d') + (if r = Login_RATE_LIMITED then 0 else 1)
          \<le> refusals_left (aw_config W) w (row_of (aw_sha W email) d)"
        using Cons.prems(1) x by simp
      then show ?thesis using ih x p by (auto simp: login_def split: login_result.splits if_splits)
    qed
  qed
qed simp

section \<open>Roles\<close>

lemma fold_min_reached: "fold min ls l \<le> n \<Longrightarrow> \<exists>m \<in> set (l # ls). m \<le> n" for l :: "'a::linorder"
  by (induction ls arbitrary: l) (auto simp: min_def split: if_splits)

lemma role_reached: "assertMinimumRole (Some p) rs = Inr () \<Longrightarrow> rs \<noteq> [] \<Longrightarrow> \<exists>m \<in> set rs. role_level m \<le> role_level (pr_role p)"
  by (cases rs) (auto simp: assertMinimumRole_def not_less dest!: fold_min_reached)

lemma admin_reached_level: "role_level Role_ADMIN \<le> role_level u \<Longrightarrow> u = Role_ADMIN"
  by (cases u) auto

end
