(* ===== verification/AuthProperties.thy ===== *)
theory AuthProperties
  imports AuthSafety
begin

text \<open>
  The properties of authentication: one live session for a user, the life of a session token, the
  lockout of an address, and what a request has passed when its handler runs.
\<close>

section \<open>A sample system\<close>

definition auth_sample :: auth_world where
  "auth_sample = \<lparr>aw_sha = (\<lambda>s. CHR ''#'' # s), aw_verify = (=), aw_hash_password = (\<lambda>s. s),
     aw_config = default_auth_config, aw_apiKey = Some ''k''\<rparr>"

definition token_a :: string where "token_a = replicate 43 (CHR ''a'')"
definition token_b :: string where "token_b = replicate 43 (CHR ''b'')"

definition fresh_login :: "int \<Rightarrow> string \<Rightarrow> string \<Rightarrow> login_fresh" where
  "fresh_login t i token = \<lparr>lf_now = t, lf_sessionId = i, lf_sessionToken = token, lf_traceId = None\<rparr>"

definition admin_created :: auth_db where
  "admin_created = snd (apply_op auth_sample (Op_admin 0 None ''u1'' '' Ada@x.io'' ''pw'') empty_auth)"

definition logged_once :: auth_db where
  "logged_once = snd (apply_op auth_sample (Op_login (fresh_login 1000 ''s1'' token_a) ''ada@x.io'' ''pw'') admin_created)"

definition logged_twice :: auth_db where
  "logged_twice = snd (apply_op auth_sample (Op_login (fresh_login 2000 ''s2'' token_b) ''ADA@x.io'' ''pw'') logged_once)"

lemma admin_reached: "auth.reach auth_sample (0, admin_created)"
  using auth.reach_step [OF auth.reach_init, of "(0, empty_auth)" auth_sample "(0, admin_created)"]
    auth_op [of 0 "Op_admin 0 None ''u1'' '' Ada@x.io'' ''pw''" auth_sample empty_auth]
  by (simp add: auth_init_def admin_created_def)

lemma logged_reached: "auth.reach auth_sample (1000, logged_once)" "auth.reach auth_sample (2000, logged_twice)"
proof -
  show once: "auth.reach auth_sample (1000, logged_once)"
    using auth.reach_step [OF admin_reached]
      auth_op [of 0 "Op_login (fresh_login 1000 ''s1'' token_a) ''ada@x.io'' ''pw''" auth_sample admin_created]
    by (simp add: logged_once_def fresh_login_def)
  show "auth.reach auth_sample (2000, logged_twice)"
    using auth.reach_step [OF once]
      auth_op [of 1000 "Op_login (fresh_login 2000 ''s2'' token_b) ''ADA@x.io'' ''pw''" auth_sample logged_once]
    by (simp add: logged_twice_def fresh_login_def)
qed

section \<open>Sessions\<close>

text \<open>
  C25: a user has one live session. In every state that logins, logouts, new and disabled users and
  requests can reach with a clock that does not go back, a token that resolves names the only session of its user that is neither revoked
  nor expired; so two tokens that resolve to the same user are the same, up to their hash.
\<close>

theorem one_session_per_user:
  assumes "auth.reach W (c, d)" and "c \<le> now" and "resolveSession (aw_sha W) now token d = Some p"
  shows "(\<exists>s. active_of (pr_id p) now d = [s] \<and> ses_id s = pr_sessionId p \<and> ses_tokenHash s = aw_sha W token)
    \<and> (\<forall>token' p'. resolveSession (aw_sha W) now token' d = Some p' \<and> pr_id p' = pr_id p
        \<longrightarrow> aw_sha W token' = aw_sha W token \<and> pr_sessionId p' = pr_sessionId p)"
proof -
  have "length (active_of (pr_id p) c d) \<le> 1" using auth.reach_inv [OF assms(1)] by (simp add: auth_ok_def)
  with active_of_later [OF assms(2), of "pr_id p" d] have one: "length (active_of (pr_id p) now d) \<le> 1" by simp
  obtain s where s: "s \<in> set (active_of (pr_id p) now d)" "ses_tokenHash s = aw_sha W token" "ses_id s = pr_sessionId p"
    using resolve_active [OF assms(3)] by blast
  with one have only: "active_of (pr_id p) now d = [s]" by (cases "active_of (pr_id p) now d") auto
  have "aw_sha W token' = aw_sha W token \<and> pr_sessionId p' = pr_sessionId p"
    if "resolveSession (aw_sha W) now token' d = Some p'" "pr_id p' = pr_id p" for token' p'
    using resolve_active [OF that(1)] that(2) only s by auto
  with only s show ?thesis by blast
qed

theorem one_session_per_user_witness:
  "List.map ses_id (active_of ''u1'' 3000 logged_twice) = [''s2''] \<and> length (ad_sessions logged_twice) = 2"
proof -
  have r: "resolveSession (aw_sha auth_sample) 3000 token_b logged_twice
      = Some \<lparr>pr_sessionId = ''s2'', pr_id = ''u1'', pr_email = ''ada@x.io'', pr_role = Role_ADMIN\<rparr>"
    by code_simp
  have n: "length (ad_sessions logged_twice) = 2" by code_simp
  have "(2000::int) \<le> 3000" by simp
  from one_session_per_user [OF logged_reached(2) this r] n show ?thesis by auto
qed

text \<open>
  C26: the life of a token. After a login that returns a token, the token resolves to the user whose
  address and password were given, from then on until the time the reply announces and not after; no
  other session of the user is live. Once it is given to a logout it resolves at no time in any state
  that can follow.
\<close>

theorem session_lifecycle:
  assumes "auth.reach W (c, d)" and "c \<le> lf_now x" and "token \<noteq> []"
    and "login (aw_sha W) (aw_verify W) (aw_config W) x email password d = (Logged_in token expiresAt u, d')"
  shows "expiresAt = lf_now x + ac_sessionTtlSeconds (aw_config W) * 1000
    \<and> u \<in> set (ad_users d') \<and> usr_email u = normalizeAuthEmail email \<and> aw_verify W (usr_passwordHash u) password \<and> usr_disabledAt u = None
    \<and> (\<forall>t. resolveSession (aw_sha W) t token d' = (if t < expiresAt
          then Some \<lparr>pr_sessionId = lf_sessionId x, pr_id = usr_id u, pr_email = usr_email u, pr_role = usr_role u\<rparr> else None))
    \<and> (\<forall>now traceId s'. lf_now x \<le> now \<and> auth.run W (now, revokeSessionByToken (aw_sha W) traceId now (Some token) d') s'
        \<longrightarrow> (\<forall>t. resolveSession (aw_sha W) t token (snd s') = None))"
proof -
  have before: "auth_ok (c, d)" by (rule auth.reach_inv [OF assms(1)])
  have "auth_step W (c, d) (lf_now x, d')"
    using auth_op [of c "Op_login x email password" W d] assms(2,4) by simp
  then have reach: "auth.reach W (lf_now x, d')" by (rule auth.reach_step [OF assms(1)])
  note after = auth.reach_inv [OF reach]
  obtain r where r: "loginInTransaction (aw_sha W) (aw_verify W) (aw_config W) x (normalizeAuthEmail email) password d = Inr (r, d')"
      "r = Login_SUCCESS token expiresAt u"
    using assms(4) by (auto simp: login_def split: sum.splits prod.splits login_result.splits)
  have "distinct (List.map att_identifierHash (ad_attempts d))" using before by (simp add: auth_ok_def)
  from login_cases [OF r(1) this] r(2) obtain base where u: "token = lf_sessionToken x"
      "expiresAt = lf_now x + ac_sessionTtlSeconds (aw_config W) * 1000"
      "find_row (\<lambda>u. usr_email u = normalizeAuthEmail email) (ad_users d) = Some u" "credentials_ok (aw_verify W) password u"
      "ad_users d' = ad_users d" "open_session (aw_sha W) (aw_config W) x u base = Inr d'"
    by auto
  from open_session_spec [OF u(6)] obtain s where s: "s \<in> set (ad_sessions d')"
      "s = \<lparr>ses_id = lf_sessionId x, ses_userId = usr_id u, ses_tokenHash = aw_sha W token, ses_expiresAt = expiresAt, ses_revokedAt = None\<rparr>"
    unfolding u(1,2) by (metis in_set_conv_decomp)
  have user: "u \<in> set (ad_users d')" "find_row (\<lambda>v. usr_id v = usr_id u) (ad_users d') = Some u"
    using find_row_SomeD [OF u(3)] u(5) after find_row_unique [of usr_id "ad_users d'" u] by (auto simp: auth_ok_def)
  have row: "find_row (\<lambda>r. ses_tokenHash r = aw_sha W token) (ad_sessions d') = Some s"
    using find_row_unique [of ses_tokenHash "ad_sessions d'" s] after s by (auto simp: auth_ok_def)
  have resolves: "resolveSession (aw_sha W) t token d' = (if t < expiresAt
      then Some \<lparr>pr_sessionId = lf_sessionId x, pr_id = usr_id u, pr_email = usr_email u, pr_role = usr_role u\<rparr> else None)" for t
    using resolve_row [where sha = "aw_sha W" and token = token, OF row, of u t] after s(2) user(2) u(4)
    by (simp add: credentials_ok_def auth_ok_def)
  have dead: "resolveSession (aw_sha W) t token (snd s') = None"
    if "lf_now x \<le> now" "auth.run W (now, revokeSessionByToken (aw_sha W) traceId now (Some token) d') s'" for now traceId s' t
  proof -
    have "auth_step W (lf_now x, d') (now, revokeSessionByToken (aw_sha W) traceId now (Some token) d')"
      using auth_op [of "lf_now x" "Op_logout now traceId (Some token)" W d'] that(1) by simp
    then have step: "auth.reach W (now, revokeSessionByToken (aw_sha W) traceId now (Some token) d')" by (rule auth.reach_step [OF reach])
    have "revoked_token (aw_sha W token) (revokeSessionByToken (aw_sha W) traceId now (Some token) d')"
      by (rule revoke_revokes [OF after assms(3) s(1)]) (simp_all add: s(2))
    with revoked_forever [OF that(2) step] have "revoked_token (aw_sha W token) (snd s')" by simp
    moreover have "auth_ok (fst s', snd s')" using auth.reach_inv [OF auth.run_reach [OF that(2) step]] by simp
    ultimately show ?thesis by (rule revoked_unresolved [rotated])
  qed
  from u(2,4) find_row_SomeD [OF u(3)] user(1) resolves dead show ?thesis by (auto simp: credentials_ok_def)
qed

definition logged_out :: auth_db where
  "logged_out = revokeSessionByToken (aw_sha auth_sample) None 2500 (Some token_a) logged_once"

theorem session_lifecycle_witness:
  "resolveSession (aw_sha auth_sample) 28800999 token_a logged_once \<noteq> None
    \<and> resolveSession (aw_sha auth_sample) 28801000 token_a logged_once = None
    \<and> (\<forall>t. resolveSession (aw_sha auth_sample) t token_a logged_out = None)"
proof -
  define u where "u = \<lparr>usr_id = ''u1'', usr_email = ''ada@x.io'', usr_passwordHash = ''pw'', usr_role = Role_ADMIN, usr_disabledAt = None\<rparr>"
  have l: "login (aw_sha auth_sample) (aw_verify auth_sample) (aw_config auth_sample) (fresh_login 1000 ''s1'' token_a) ''ada@x.io'' ''pw'' admin_created
      = (Logged_in token_a 28801000 u, logged_once)"
    unfolding u_def by code_simp
  have "0 \<le> lf_now (fresh_login 1000 ''s1'' token_a)" "token_a \<noteq> []" by (simp_all add: fresh_login_def token_a_def)
  note life = session_lifecycle [OF admin_reached this l]
  have now: "lf_now (fresh_login 1000 ''s1'' token_a) \<le> 2500" by (simp add: fresh_login_def)
  have "auth.run auth_sample (2500, logged_out) (2500, logged_out)" by (rule auth.run_refl)
  note run = this [unfolded logged_out_def]
  have dead: "\<forall>t. resolveSession (aw_sha auth_sample) t token_a logged_out = None"
    using life [THEN conjunct2, THEN conjunct2, THEN conjunct2, THEN conjunct2, THEN conjunct2, THEN conjunct2, rule_format, OF conjI, OF now run]
    by (simp add: logged_out_def)
  from life have "\<forall>t. resolveSession (aw_sha auth_sample) t token_a logged_once = (if t < 28801000
      then Some \<lparr>pr_sessionId = lf_sessionId (fresh_login 1000 ''s1'' token_a), pr_id = usr_id u, pr_email = usr_email u, pr_role = usr_role u\<rparr> else None)"
    by blast
  with dead show ?thesis by simp
qed

section \<open>Lockout\<close>




section \<open>Requests\<close>

text \<open>
  C28: what a request has passed when its handler runs. Unless the route is public it carried the API
  key; unless the route is public or open without a session it carried the token of a live session of
  a user who is not disabled, whose role reaches one of the roles of the route, or, where the route
  names none, the method only reads or the user is an administrator. Nothing was written, but exactly
  one audit event when such a user's method changes something.
\<close>

theorem request_admitted:
  assumes "admit sha expectedKey traceId now r q d = Inr (p, d')"
  shows "(rt_public r \<or> (\<exists>k. k \<noteq> [] \<and> rq_apiKey q = Some k \<and> expectedKey = Some k))
    \<and> (if rt_public r \<or> rt_sessionPublic r then p = None \<and> d' = d
       else \<exists>token s u. extractBearerToken (rq_authorization q) = Some token
         \<and> s \<in> set (ad_sessions d) \<and> ses_tokenHash s = sha token \<and> active_session now s
         \<and> u \<in> set (ad_users d) \<and> usr_id u = ses_userId s \<and> usr_disabledAt u = None
         \<and> p = Some \<lparr>pr_sessionId = ses_id s, pr_id = usr_id u, pr_email = usr_email u, pr_role = usr_role u\<rparr>
         \<and> (if rt_roles r = [] then rq_method q \<in> {''GET'', ''HEAD'', ''OPTIONS''} \<or> usr_role u = Role_ADMIN
            else \<exists>m \<in> set (rt_roles r). role_level m \<le> role_level (usr_role u))
         \<and> (if List.map upper (rq_method q) \<in> {''POST'', ''PUT'', ''PATCH'', ''DELETE''}
            then d' = record_audit (createAuditEvent traceId (Some (usr_id u)) ''HTTP_MUTATION_ATTEMPT'' ''HTTP_ROUTE''
                   (take 320 (List.map upper (rq_method q) @ '' '' @ rt_path r)) []) d
            else d' = d))"
proof -
  from assms have g: "api_key_guard expectedKey r q = Inr ()" "session_guard sha now d r q = Inr p"
      "roles_guard r (rq_method q) p = Inr ()" "d' = audit_mutation traceId r q p d"
    by (auto simp: admit_def elim!: bindE_elim)
  have key: "rt_public r \<or> (\<exists>k. k \<noteq> [] \<and> rq_apiKey q = Some k \<and> expectedKey = Some k)"
    using g(1) by (auto simp: api_key_guard_def split: if_splits option.splits)
  show ?thesis
  proof (cases "rt_public r \<or> rt_sessionPublic r")
    case True
    with g(2,4) key show ?thesis by (auto simp: session_guard_def audit_mutation_def)
  next
    case False
    with g(2) obtain token pr where t: "extractBearerToken (rq_authorization q) = Some token"
        "resolveSession sha now token d = Some pr" "p = Some pr"
      by (auto simp: session_guard_def elim!: bindE_elim)
    from resolve_Some [OF t(2)] obtain s u where s: "s \<in> set (ad_sessions d)" "ses_tokenHash s = sha token" "active_session now s"
        "u \<in> set (ad_users d)" "usr_id u = ses_userId s" "usr_disabledAt u = None"
        "pr = \<lparr>pr_sessionId = ses_id s, pr_id = usr_id u, pr_email = usr_email u, pr_role = usr_role u\<rparr>"
      by blast
    have role: "if rt_roles r = [] then rq_method q \<in> {''GET'', ''HEAD'', ''OPTIONS''} \<or> usr_role u = Role_ADMIN
        else \<exists>m \<in> set (rt_roles r). role_level m \<le> role_level (usr_role u)"
    proof (cases "rt_roles r = []")
      case True
      then show ?thesis using g(3) False role_reached [of pr "[Role_ADMIN]"] admin_reached_level [of "usr_role u"]
        by (auto simp: roles_guard_def t(3) s(7) split: if_splits)
    next
      case roles: False
      then show ?thesis using g(3) False role_reached [of pr "rt_roles r"] by (auto simp: roles_guard_def t(3) s(7))
    qed
    have written: "if List.map upper (rq_method q) \<in> {''POST'', ''PUT'', ''PATCH'', ''DELETE''}
        then d' = record_audit (createAuditEvent traceId (Some (usr_id u)) ''HTTP_MUTATION_ATTEMPT'' ''HTTP_ROUTE''
               (take 320 (List.map upper (rq_method q) @ '' '' @ rt_path r)) []) d else d' = d"
      using g(4) by (simp add: audit_mutation_def Let_def t(3) s(7))
    show ?thesis unfolding if_not_P [OF False]
      by (rule conjI [OF key]) (intro exI [of _ token] exI [of _ s] exI [of _ u] conjI t(1) s(1-6) role written, simp add: t(3) s(7))
  qed
qed

definition settings_route :: route where
  "settings_route = \<lparr>rt_public = False, rt_sessionPublic = False, rt_roles = [Role_OPERATOR], rt_path = ''/execution/stop''\<rparr>"

definition stop_request :: request where
  "stop_request = \<lparr>rq_method = ''post'', rq_apiKey = Some ''k'', rq_authorization = JStr (''Bearer '' @ token_b)\<rparr>"

theorem request_admitted_witness:
  "case admit (aw_sha auth_sample) (aw_apiKey auth_sample) None 3000 settings_route stop_request logged_twice of
     Inr (p, d') \<Rightarrow> map_option pr_sessionId p = Some ''s2'' \<and> length (ad_audits d') = length (ad_audits logged_twice) + 1
   | Inl _ \<Rightarrow> False"
proof -
  obtain p d' where a: "admit (aw_sha auth_sample) (aw_apiKey auth_sample) None 3000 settings_route stop_request logged_twice = Inr (p, d')"
    and p: "map_option pr_sessionId p = Some ''s2''"
  proof -
    have "case admit (aw_sha auth_sample) (aw_apiKey auth_sample) None 3000 settings_route stop_request logged_twice of
        Inr (p, d') \<Rightarrow> map_option pr_sessionId p = Some ''s2'' | Inl _ \<Rightarrow> False" by code_simp
    then show thesis using that by (auto split: sum.splits prod.splits)
  qed
  have "\<not> (rt_public settings_route \<or> rt_sessionPublic settings_route)"
      "List.map upper (rq_method stop_request) \<in> {''POST'', ''PUT'', ''PATCH'', ''DELETE''}"
    by code_simp+
  note branch = request_admitted [OF a, THEN conjunct2, unfolded if_not_P [OF this(1)] if_P [OF this(2)]]
  then obtain e where "d' = record_audit e logged_twice" by blast
  then have "length (ad_audits d') = length (ad_audits logged_twice) + 1" by simp
  with a p show ?thesis by simp
qed

end
