(* ===== verification/Payloads.thy ===== *)
theory Payloads
  imports OddsIngestion
begin

text \<open>
  Reading the fixtures of the providers (\<open>common/utils/fixture-payload.utils.ts\<close>,
  \<open>common/utils/status.utils.ts\<close>, \<open>common/utils/date.utils.ts\<close>): both formats of a fixture are brought to
  one form. A value is the JSON value itself until a column takes it: the conversion of a column by the
  driver and the database is an argument, and so is the reading of the texts of a date that are not of
  the ISO form of the language.
\<close>

section \<open>Values\<close>

fun truthy :: "json \<Rightarrow> bool" where
  "truthy JNull = False" | "truthy JUndefined = False" | "truthy (JBool b) = b"
| "truthy (JNum n) = (n \<noteq> NaN \<and> n \<noteq> Num 0)" | "truthy (JStr s) = (s \<noteq> [])" | "truthy _ = True"

definition number_json :: "js_number option \<Rightarrow> json" where
  "number_json n = (case n of None \<Rightarrow> JNull | Some v \<Rightarrow> JNum v)"

text \<open>\<open>a ?? b ?? null\<close>.\<close>

definition first_of :: "json list \<Rightarrow> json" where
  "first_of vs = or_else (fold (\<lambda>v w. or_else w v) vs JNull) JNull"

fun path :: "string list \<Rightarrow> json \<Rightarrow> json" where
  "path [] v = v" | "path (k # ks) v = path ks (json_get k v)"

section \<open>Dates\<close>

definition days_from_civil :: "int \<Rightarrow> int \<Rightarrow> int \<Rightarrow> int" where
  "days_from_civil y0 m d =
     (let y = (if m \<le> 2 then y0 - 1 else y0);
          era = y div 400;
          yoe = y - era * 400;
          doy = (153 * (m + (if m > 2 then - 3 else 9)) + 2) div 5 + d - 1;
          doe = yoe * 365 + yoe div 4 - yoe div 100 + doy
      in era * 146097 + doe - 719468)"

definition digits_at :: "nat \<Rightarrow> nat \<Rightarrow> string \<Rightarrow> int option" where
  "digits_at i n s =
     (let t = take n (drop i s) in if length t = n \<and> list_all is_digit t then Some (fold (\<lambda>c v. v * 10 + int (digit_value c)) t 0) else None)"

definition valid_day :: "int \<Rightarrow> int \<Rightarrow> int \<Rightarrow> bool" where
  "valid_day y m d = (civil_from_days (days_from_civil y m d) = (y, m, d))"

text \<open>
  \<open>new Date(s)\<close> for \<open>YYYY-MM-DD\<close>, which is midnight UTC, and for a date and a time with \<open>Z\<close> or an offset;
  other texts are left to \<open>other\<close>.
\<close>

definition iso_day :: "string \<Rightarrow> int option" where
  "iso_day s =
     (case (digits_at 0 4 s, digits_at 5 2 s, digits_at 8 2 s) of
        (Some y, Some m, Some d) \<Rightarrow>
          if take 1 (drop 4 s) = ''-'' \<and> take 1 (drop 7 s) = ''-'' \<and> valid_day y m d
          then Some (days_from_civil y m d * ms_per_day) else None
      | _ \<Rightarrow> None)"

definition iso_offset :: "string \<Rightarrow> int option" where
  "iso_offset s =
     (if s = ''Z'' then Some 0
      else case (digits_at 1 2 s, digits_at 4 2 s) of
        (Some h, Some m) \<Rightarrow>
          if length s = 6 \<and> take 1 (drop 3 s) = '':'' \<and> h < 24 \<and> m < 60 \<and> hd s \<in> {CHR ''+'', CHR ''-''}
          then Some ((if hd s = CHR ''-'' then - 1 else 1) * (h * 60 + m) * 60000) else None
      | _ \<Rightarrow> None)"

definition parse_date :: "(string \<Rightarrow> int option) \<Rightarrow> string \<Rightarrow> int option" where
  "parse_date other s =
     (if length s = 10 \<and> iso_day s \<noteq> None then iso_day s
      else case (iso_day (take 10 s), digits_at 11 2 s, digits_at 14 2 s, digits_at 17 2 s, iso_offset (drop 19 s)) of
        (Some day, Some h, Some m, Some sec, Some off) \<Rightarrow>
          if take 1 (drop 10 s) = ''T'' \<and> take 1 (drop 13 s) = '':'' \<and> take 1 (drop 16 s) = '':'' \<and> h < 24 \<and> m < 60 \<and> sec < 60
          then Some (day + ((h * 60 + m) * 60 + sec) * 1000 - off) else other s
      | _ \<Rightarrow> other s)"

text \<open>\<open>new Date(v)\<close> of a value, \<open>None\<close> for an invalid date.\<close>

definition js_date :: "(string \<Rightarrow> int option) \<Rightarrow> json \<Rightarrow> int option" where
  "js_date other v =
     (case v of
        JStr s \<Rightarrow> parse_date other s
      | JDate t \<Rightarrow> t
      | JArr _ \<Rightarrow> parse_date other (js_text v)
      | JObj _ \<Rightarrow> parse_date other (js_text v)
      | _ \<Rightarrow> (case js_Number v of
               Num x \<Rightarrow> if \<bar>x\<bar> \<le> 8640000000000000 then Some (if x < 0 then - \<lfloor>- x\<rfloor> else \<lfloor>x\<rfloor>) else None
             | _ \<Rightarrow> None))"

definition toDate :: "(string \<Rightarrow> int option) \<Rightarrow> json \<Rightarrow> json" where
  "toDate other v =
     (case v of
        JStr s \<Rightarrow> if s = [] \<or> parse_date other s = None then JNull else JDate (parse_date other s)
      | _ \<Rightarrow> JNull)"

text \<open>In the time zone \<open>tz\<close>, the offset of local time at each moment.\<close>

definition formatDateOnly :: "(int \<Rightarrow> int) \<Rightarrow> int \<Rightarrow> string" where
  "formatDateOnly tz t =
     (case civil_from_days ((t + tz t) div ms_per_day) of
        (y, m, d) \<Rightarrow> show_int y @ ''-'' @ pad_int 2 m @ ''-'' @ pad_int 2 d)"

definition addMinutes :: "int option \<Rightarrow> int \<Rightarrow> int option" where
  "addMinutes date minutes = map_option (\<lambda>t. t + minutes * 60 * 1000) date"

section \<open>Statuses\<close>

text \<open>The expression \<open>/^\d+(\+\d*)?$/\<close>.\<close>

definition minute_text :: "string \<Rightarrow> bool" where
  "minute_text s =
     (let rest = dropWhile is_digit s in
      s \<noteq> [] \<and> is_digit (hd s) \<and> (rest = [] \<or> hd rest = CHR ''+'' \<and> list_all is_digit (tl rest)))"

definition status_map :: "(string \<times> string) list" where
  "status_map =
     [(''Finished'', ''FT''), (''Half Time'', ''HT''), (''Cancelled'', ''CANC''), (''Postponed'', ''PST''),
      (''Interrupted'', ''INT''), (''Abandoned'', ''ABD''), (''Awarded'', ''AWD''), (''Suspended'', ''SUSP''),
      (''Not Coverage'', ''NS''), (''Pen.'', ''PEN'')]"

definition normalizeApifootballStatus :: "json \<Rightarrow> json" where
  "normalizeApifootballStatus raw =
     (if raw = JNull \<or> raw = JUndefined then JNull
      else if raw = JStr [] then JStr ''NS''
      else if minute_text (js_text raw) then JStr ''LIVE''
      else case map_of status_map (js_text raw) of Some s \<Rightarrow> JStr s | None \<Rightarrow> raw)"

section \<open>Fixtures\<close>

text \<open>The first four digits in a row.\<close>

fun first_year :: "string \<Rightarrow> int option" where
  "first_year [] = None"
| "first_year (c # cs) = (case digits_at 0 4 (c # cs) of Some y \<Rightarrow> Some y | None \<Rightarrow> first_year cs)"

definition parseSeasonYear :: "json \<Rightarrow> json" where
  "parseSeasonYear v =
     (case v of
        JNum (Num x) \<Rightarrow> JNum (Num x)
      | JStr s \<Rightarrow> (case first_year s of None \<Rightarrow> JNull | Some y \<Rightarrow> JNum (Num (of_int y)))
      | _ \<Rightarrow> JNull)"

record normalized_fixture =
  nf_providerFixtureId :: "string option"
  nf_leagueId :: json
  nf_leagueName :: json
  nf_season :: json
  nf_homeTeamId :: json
  nf_awayTeamId :: json
  nf_homeTeamName :: json
  nf_awayTeamName :: json
  nf_homeTeamBadge :: json
  nf_awayTeamBadge :: json
  nf_statusShort :: json
  nf_statusLong :: json
  nf_elapsed :: json
  nf_matchDate :: json
  nf_scoreHome :: json
  nf_scoreAway :: json

definition provider_fixture_id :: "json \<Rightarrow> string option" where
  "provider_fixture_id payload =
     (if truthy (path [''fixture'', ''id''] payload) then Some (js_text (path [''fixture'', ''id''] payload))
      else if truthy (json_get ''match_id'' payload) then Some (js_text (json_get ''match_id'' payload)) else None)"

definition normalizeFixturePayload :: "(string \<Rightarrow> int option) \<Rightarrow> json \<Rightarrow> normalized_fixture" where
  "normalizeFixturePayload other p =
     \<lparr>nf_providerFixtureId = provider_fixture_id p,
      nf_leagueId = first_of [path [''league'', ''id''] p, number_json (toNumber (json_get ''league_id'' p))],
      nf_leagueName = first_of [path [''league'', ''name''] p, path [''league'', ''league_name''] p, json_get ''league_name'' p],
      nf_season = first_of [parseSeasonYear (path [''league'', ''season''] p), parseSeasonYear (json_get ''league_year'' p)],
      nf_homeTeamId = first_of [path [''teams'', ''home'', ''id''] p, number_json (toNumber (json_get ''match_hometeam_id'' p))],
      nf_awayTeamId = first_of [path [''teams'', ''away'', ''id''] p, number_json (toNumber (json_get ''match_awayteam_id'' p))],
      nf_homeTeamName = first_of [path [''teams'', ''home'', ''name''] p, json_get ''match_hometeam_name'' p],
      nf_awayTeamName = first_of [path [''teams'', ''away'', ''name''] p, json_get ''match_awayteam_name'' p],
      nf_homeTeamBadge = first_of [path [''teams'', ''home'', ''logo''] p, json_get ''team_home_badge'' p],
      nf_awayTeamBadge = first_of [path [''teams'', ''away'', ''logo''] p, json_get ''team_away_badge'' p],
      nf_statusShort = or_else (path [''fixture'', ''status'', ''short''] p) (normalizeApifootballStatus (json_get ''match_status'' p)),
      nf_statusLong = first_of [path [''fixture'', ''status'', ''long''] p, json_get ''match_status'' p],
      nf_elapsed = first_of [path [''fixture'', ''status'', ''elapsed''] p, number_json (toNumber (json_get ''match_status'' p))],
      nf_matchDate = (if truthy (path [''fixture'', ''date''] p) then JDate (js_date other (path [''fixture'', ''date''] p))
                      else toDate other (json_get ''match_date'' p)),
      nf_scoreHome = first_of [path [''goals'', ''home''] p, number_json (toNumber (json_get ''match_hometeam_score'' p))],
      nf_scoreAway = first_of [path [''goals'', ''away''] p, number_json (toNumber (json_get ''match_awayteam_score'' p))]\<rparr>"

section \<open>The columns of a fixture\<close>

text \<open>
  What the driver and the database make of a value: an integer column, a text column of a length, the
  \<open>BIGINT\<close> of the provider's identifier, a date; an error when they refuse it.
\<close>

record driver =
  dr_int :: "json \<Rightarrow> int option res"
  dr_text :: "nat \<Rightarrow> json \<Rightarrow> string option res"
  dr_key :: "string \<Rightarrow> string res"
  dr_date :: "json \<Rightarrow> int option res"
  dr_otherDate :: "string \<Rightarrow> int option"

record stored_fixture = fixture +
  fx_homeTeamBadge :: "string option"
  fx_awayTeamBadge :: "string option"
  fx_leagueName :: "string option"
  fx_statusLong :: "string option"
  fx_matchDate :: "int option"

definition fixture_columns :: "driver \<Rightarrow> string \<Rightarrow> int \<Rightarrow> json \<Rightarrow> string \<Rightarrow> normalized_fixture \<Rightarrow> stored_fixture res" where
  "fixture_columns D i now payload key n =
     bindE (dr_int D (nf_leagueId n)) (\<lambda>leagueId.
     bindE (dr_text D 120 (nf_leagueName n)) (\<lambda>leagueName.
     bindE (dr_int D (nf_season n)) (\<lambda>season.
     bindE (dr_int D (nf_homeTeamId n)) (\<lambda>homeTeamId.
     bindE (dr_int D (nf_awayTeamId n)) (\<lambda>awayTeamId.
     bindE (dr_text D 120 (nf_homeTeamName n)) (\<lambda>homeTeamName.
     bindE (dr_text D 120 (nf_awayTeamName n)) (\<lambda>awayTeamName.
     bindE (dr_text D 255 (nf_homeTeamBadge n)) (\<lambda>homeTeamBadge.
     bindE (dr_text D 255 (nf_awayTeamBadge n)) (\<lambda>awayTeamBadge.
     bindE (dr_text D 20 (nf_statusShort n)) (\<lambda>statusShort.
     bindE (dr_text D 120 (nf_statusLong n)) (\<lambda>statusLong.
     bindE (dr_int D (nf_elapsed n)) (\<lambda>elapsed.
     bindE (dr_date D (nf_matchDate n)) (\<lambda>matchDate.
     bindE (dr_int D (nf_scoreHome n)) (\<lambda>scoreHome.
     bindE (dr_int D (nf_scoreAway n)) (\<lambda>scoreAway.
     Inr \<lparr>fx_id = i, fx_providerFixtureId = key, fx_leagueId = leagueId, fx_season = season, fx_homeTeamId = homeTeamId,
          fx_awayTeamId = awayTeamId, fx_homeTeamName = homeTeamName, fx_awayTeamName = awayTeamName,
          fx_statusShort = statusShort, fx_scoreHome = scoreHome, fx_scoreAway = scoreAway, fx_elapsed = elapsed,
          fx_raw = payload, fx_lastSyncedAt = now, fx_homeTeamBadge = homeTeamBadge, fx_awayTeamBadge = awayTeamBadge,
          fx_leagueName = leagueName, fx_statusLong = statusLong, fx_matchDate = matchDate\<rparr>)))))))))))))))"

text \<open>\<open>upsert(row, ['providerFixtureId'])\<close>: a new row, or the columns of the one that has the key, which keeps its identifier.\<close>

definition upsert_fixture ::
  "driver \<Rightarrow> string \<Rightarrow> int \<Rightarrow> json \<Rightarrow> string \<Rightarrow> normalized_fixture \<Rightarrow> stored_fixture list \<Rightarrow> stored_fixture list res" where
  "upsert_fixture D newId now payload providerFixtureId n table =
     bindE (dr_key D providerFixtureId) (\<lambda>key.
     bindE (fixture_columns D newId now payload key n) (\<lambda>row.
     if find_row (\<lambda>f. fx_providerFixtureId f = key) table = None
     then bindE (checked (find_row (\<lambda>f. fx_id f = newId) table = None) ''fixtures'' (table @ [row])) Inr
     else Inr (update_rows (\<lambda>f. fx_providerFixtureId f = key) (\<lambda>f. row\<lparr>fx_id := fx_id f\<rparr>) table)))"

definition find_fixture :: "driver \<Rightarrow> string \<Rightarrow> stored_fixture list \<Rightarrow> stored_fixture option" where
  "find_fixture D providerFixtureId table =
     (case dr_key D providerFixtureId of Inl _ \<Rightarrow> None | Inr key \<Rightarrow> find_row (\<lambda>f. fx_providerFixtureId f = key) table)"

end
