(* ===== verification/HistoryImport.thy ===== *)
theory HistoryImport
  imports Payloads Backtest
begin

text \<open>
  The import of past matches (\<open>history/history-import.service.ts\<close>, \<open>common/services/rate-budget.service.ts\<close>):
  the windows of the calls, the rows of a match in both formats, and the statements that replace
  them. The statements of a match are not in one transaction: an error leaves what was written
  before it. The waits for the budget write nothing and are modelled apart.
\<close>

section \<open>Windows\<close>

definition max_window_days :: int where "max_window_days = 5"

text \<open>The windows from a cursor, in milliseconds.\<close>

function windows_from :: "int \<Rightarrow> int \<Rightarrow> (int \<times> int) list" where
  "windows_from cursor t =
     (if cursor \<le> t
      then let windowEnd = min (cursor + (max_window_days - 1) * ms_per_day) t
           in (cursor, windowEnd) # windows_from (windowEnd + ms_per_day) t
      else [])"
  by pat_completeness auto

termination windows_from
  by (relation "measure (\<lambda>(cursor, t). nat (t + 1 - cursor))") (auto simp: max_window_days_def ms_per_day_def)

declare windows_from.simps [simp del]

definition buildWindows :: "int \<Rightarrow> int \<Rightarrow> (int \<times> int) list" where
  "buildWindows from t = windows_from from t"

section \<open>The budget of calls\<close>

definition hasBudget :: "int \<Rightarrow> int \<Rightarrow> int list \<Rightarrow> int \<Rightarrow> bool" where
  "hasBudget perMinuteLimit headroomPct calls now =
     (let budget = perMinuteLimit * headroomPct div 100
      in int (length (filter (\<lambda>calledAt. calledAt \<ge> now - 60 * 1000) calls)) < budget)"

text \<open>
  The loop of \<open>waitForRateBudget\<close>: \<open>calls t\<close> is the log at the time \<open>t\<close>, and \<open>late i\<close> how much the i-th
  check comes after the two seconds of its sleep. The fuel counts the checks; the result is the time
  at which the loop is left.
\<close>

fun waitForRateBudget :: "int \<Rightarrow> int \<Rightarrow> (int \<Rightarrow> int list) \<Rightarrow> (nat \<Rightarrow> int) \<Rightarrow> nat \<Rightarrow> nat \<Rightarrow> int \<Rightarrow> int option" where
  "waitForRateBudget limit pct calls late 0 i now = None"
| "waitForRateBudget limit pct calls late (Suc fuel) i now =
     (if hasBudget limit pct (calls now) now then Some now
      else waitForRateBudget limit pct calls late fuel (Suc i) (now + 2000 + late i))"

section \<open>The rows of a match\<close>

record snapshot_draft =
  sd_teamId :: json
  sd_half :: string
  sd_elapsed :: int
  sd_stats :: json
  sd_snapshotAt :: "int option"

record event_draft =
  ed_teamId :: json
  ed_playerId :: json
  ed_assistPlayerId :: json
  ed_minute :: json
  ed_extra :: json
  ed_eventType :: json
  ed_detail :: json
  ed_raw :: json

definition side_statistics :: "string \<Rightarrow> json list \<Rightarrow> json" where
  "side_statistics side statistics =
     JArr (List.map (\<lambda>stat. JObj [(''type'', json_get ''type'' stat), (''value'', json_get side stat)]) statistics)"

definition buildTeamStatsEntries :: "json \<Rightarrow> json \<Rightarrow> json \<Rightarrow> json list" where
  "buildTeamStatsEntries statistics homeTeamId awayTeamId =
     (if json_array statistics = [] then []
      else [JObj [(''team_id'', homeTeamId), (''statistics'', side_statistics ''home'' (json_array statistics))],
            JObj [(''team_id'', awayTeamId), (''statistics'', side_statistics ''away'' (json_array statistics))]])"

definition half_rows :: "(json \<Rightarrow> json) \<Rightarrow> string \<Rightarrow> int \<Rightarrow> int option \<Rightarrow> json list \<Rightarrow> snapshot_draft list" where
  "half_rows team half elapsed matchDate stats =
     List.map (\<lambda>entry. \<lparr>sd_teamId = team entry, sd_half = half, sd_elapsed = elapsed, sd_stats = entry,
                  sd_snapshotAt = addMinutes matchDate elapsed\<rparr>) stats"

definition buildSnapshotRowsFromEmbeddedStats :: "json \<Rightarrow> json \<Rightarrow> json \<Rightarrow> int option \<Rightarrow> snapshot_draft list" where
  "buildSnapshotRowsFromEmbeddedStats payload homeTeamId awayTeamId matchDate =
     half_rows (json_get ''team_id'') ''1'' 45 matchDate
       (buildTeamStatsEntries (json_get ''statistics_1half'' payload) homeTeamId awayTeamId)
     @ half_rows (json_get ''team_id'') ''2'' 90 matchDate
       (buildTeamStatsEntries (json_get ''statistics'' payload) homeTeamId awayTeamId)"

definition buildGoalEventRow :: "json \<Rightarrow> json \<Rightarrow> json \<Rightarrow> json \<Rightarrow> event_draft" where
  "buildGoalEventRow goal teamId playerId minute =
     \<lparr>ed_teamId = teamId, ed_playerId = playerId, ed_assistPlayerId = JNull, ed_minute = minute, ed_extra = JNull,
      ed_eventType = JStr ''Goal'', ed_detail = (if truthy (json_get ''info'' goal) then json_get ''info'' goal else JStr ''Goal''),
      ed_raw = goal\<rparr>"

definition goal_rows :: "json \<Rightarrow> json \<Rightarrow> json \<Rightarrow> event_draft list" where
  "goal_rows homeTeamId awayTeamId goal =
     (let minute = number_json (toNumber (json_get ''time'' goal)) in
      (if truthy (json_get ''home_scorer'' goal)
       then [buildGoalEventRow goal homeTeamId (number_json (toNumber (json_get ''home_scorer_id'' goal))) minute] else [])
      @ (if truthy (json_get ''away_scorer'' goal)
         then [buildGoalEventRow goal awayTeamId (number_json (toNumber (json_get ''away_scorer_id'' goal))) minute] else []))"

definition buildEventRowsFromGoalscorer :: "json \<Rightarrow> json \<Rightarrow> json \<Rightarrow> event_draft list" where
  "buildEventRowsFromGoalscorer payload homeTeamId awayTeamId =
     concat (List.map (goal_rows homeTeamId awayTeamId) (json_array (json_get ''goalscorer'' payload)))"

definition buildApifootballDetails :: "json \<Rightarrow> json \<Rightarrow> json \<Rightarrow> int option \<Rightarrow> snapshot_draft list \<times> event_draft list" where
  "buildApifootballDetails payload homeTeamId awayTeamId matchDate =
     (buildSnapshotRowsFromEmbeddedStats payload homeTeamId awayTeamId matchDate,
      buildEventRowsFromGoalscorer payload homeTeamId awayTeamId)"

text \<open>The client of the provider: its responses, or its error.\<close>

record provider_client =
  pc_provider :: string
  pc_leagueFixtures :: "int \<Rightarrow> string \<Rightarrow> string \<Rightarrow> json list res"
  pc_statistics :: "js_number \<Rightarrow> string option \<Rightarrow> json \<Rightarrow> json \<Rightarrow> json list res"
  pc_events :: "js_number \<Rightarrow> json list res"

definition api_sports_event :: "json \<Rightarrow> event_draft" where
  "api_sports_event event =
     \<lparr>ed_teamId = first_of [path [''team'', ''id''] event], ed_playerId = first_of [path [''player'', ''id''] event],
      ed_assistPlayerId = first_of [path [''assist'', ''id''] event], ed_minute = first_of [path [''time'', ''elapsed''] event],
      ed_extra = first_of [path [''time'', ''extra''] event], ed_eventType = json_get ''type'' event,
      ed_detail = first_of [json_get ''detail'' event], ed_raw = event\<rparr>"

text \<open>The details of api-sports take three calls; the count of the calls made is returned with an error too.\<close>

definition fetchApiSportsDetails ::
  "provider_client \<Rightarrow> js_number \<Rightarrow> json \<Rightarrow> json \<Rightarrow> int option \<Rightarrow> (snapshot_draft list \<times> event_draft list) res \<times> nat" where
  "fetchApiSportsDetails C fixtureId homeTeamId awayTeamId matchDate =
     (case pc_statistics C fixtureId (Some ''first'') homeTeamId awayTeamId of
        Inl e \<Rightarrow> (Inl e, 0)
      | Inr halftimeStats \<Rightarrow>
          (case pc_statistics C fixtureId None homeTeamId awayTeamId of
             Inl e \<Rightarrow> (Inl e, 1)
           | Inr finalStats \<Rightarrow>
               (case pc_events C fixtureId of
                  Inl e \<Rightarrow> (Inl e, 2)
                | Inr events \<Rightarrow>
                    (let team = (\<lambda>entry. number_json (toNumber (json_get ''team_id'' entry)))
                     in (Inr (half_rows team ''1'' 45 matchDate halftimeStats @ half_rows team ''2'' 90 matchDate finalStats,
                              List.map api_sports_event (filter (\<lambda>event. json_get ''type'' event = JStr ''Goal'') events)), 3)))))"

section \<open>The tables\<close>

record stored_event = fixture_event +
  ev_id :: string
  ev_playerId :: "int option"
  ev_assistPlayerId :: "int option"
  ev_extra :: "int option"
  ev_detail :: "string option"
  ev_raw :: json

record match_db =
  md_fixtures :: "stored_fixture list"
  md_stats :: "stats_snapshot list"
  md_events :: "stored_event list"

text \<open>A column that is not nullable.\<close>

definition required_column :: "string \<Rightarrow> 'a option res \<Rightarrow> 'a res" where
  "required_column table v = bindE v (of_option (QueryFailedError table))"

definition snapshot_columns :: "driver \<Rightarrow> string \<Rightarrow> string \<Rightarrow> snapshot_draft \<Rightarrow> stats_snapshot res" where
  "snapshot_columns D i fixtureId r =
     bindE (dr_int D (sd_teamId r)) (\<lambda>teamId.
     bindE (required_column ''fixture_stats_snapshots'' (dr_date D (JDate (sd_snapshotAt r)))) (\<lambda>t.
     Inr \<lparr>sn_id = i, sn_fixtureId = fixtureId, sn_teamId = teamId, sn_half = Some (sd_half r), sn_elapsed = Some (sd_elapsed r),
          sn_stats = sd_stats r, sn_snapshotAt = t\<rparr>))"

definition event_columns :: "driver \<Rightarrow> string \<Rightarrow> string \<Rightarrow> event_draft \<Rightarrow> stored_event res" where
  "event_columns D i fixtureId r =
     bindE (dr_int D (ed_teamId r)) (\<lambda>teamId.
     bindE (dr_int D (ed_playerId r)) (\<lambda>playerId.
     bindE (dr_int D (ed_assistPlayerId r)) (\<lambda>assistPlayerId.
     bindE (dr_int D (ed_minute r)) (\<lambda>minute.
     bindE (dr_int D (ed_extra r)) (\<lambda>extra.
     bindE (dr_text D 60 (ed_eventType r)) (\<lambda>eventType.
     bindE (dr_text D 120 (ed_detail r)) (\<lambda>detail.
     Inr \<lparr>ev_fixtureId = fixtureId, ev_teamId = teamId, ev_minute = minute, ev_eventType = eventType, ev_id = i,
          ev_playerId = playerId, ev_assistPlayerId = assistPlayerId, ev_extra = extra, ev_detail = detail,
          ev_raw = ed_raw r\<rparr>)))))))"

text \<open>What the import of a match draws from outside: the clock and new identifiers.\<close>

record match_fresh =
  mf_now :: int
  mf_fixtureId :: string
  mf_snapshotId :: "nat \<Rightarrow> string"
  mf_eventId :: "nat \<Rightarrow> string"

text \<open>The statements, one after the other.\<close>

definition delete_stats :: "string \<Rightarrow> match_db \<Rightarrow> match_db" where
  "delete_stats fixtureId d = d\<lparr>md_stats := filter (\<lambda>s. sn_fixtureId s \<noteq> fixtureId) (md_stats d)\<rparr>"

definition delete_events :: "string \<Rightarrow> match_db \<Rightarrow> match_db" where
  "delete_events fixtureId d = d\<lparr>md_events := filter (\<lambda>e. ev_fixtureId e \<noteq> fixtureId) (md_events d)\<rparr>"

definition insert_stats :: "driver \<Rightarrow> (nat \<Rightarrow> string) \<Rightarrow> string \<Rightarrow> snapshot_draft list \<Rightarrow> match_db \<Rightarrow> match_db res" where
  "insert_stats D newId fixtureId rows d =
     bindE (mapE (\<lambda>(i, r). snapshot_columns D (newId i) fixtureId r) (enumerate 0 rows)) (\<lambda>stored.
     Inr (d\<lparr>md_stats := md_stats d @ stored\<rparr>))"

definition insert_events :: "driver \<Rightarrow> (nat \<Rightarrow> string) \<Rightarrow> string \<Rightarrow> event_draft list \<Rightarrow> match_db \<Rightarrow> match_db res" where
  "insert_events D newId fixtureId rows d =
     bindE (mapE (\<lambda>(i, r). event_columns D (newId i) fixtureId r) (enumerate 0 rows)) (\<lambda>stored.
     Inr (d\<lparr>md_events := md_events d @ stored\<rparr>))"

definition replace_rows ::
  "driver \<Rightarrow> match_fresh \<Rightarrow> string \<Rightarrow> snapshot_draft list \<Rightarrow> event_draft list \<Rightarrow> match_db \<Rightarrow> unit res \<times> match_db" where
  "replace_rows D x fixtureId snapshotRows eventRows d =
     (let d1 = delete_stats fixtureId d in
      case insert_stats D (mf_snapshotId x) fixtureId snapshotRows d1 of
        Inl e \<Rightarrow> (Inl e, d1)
      | Inr d2 \<Rightarrow>
          (let d3 = delete_events fixtureId d2 in
           case insert_events D (mf_eventId x) fixtureId eventRows d3 of
             Inl e \<Rightarrow> (Inl e, d3)
           | Inr d4 \<Rightarrow> (Inr (), d4)))"

record match_result =
  mr_fixtureId :: "string option"
  mr_snapshotsCreated :: nat
  mr_eventsCreated :: nat
  mr_goalsImported :: nat
  mr_apiCalls :: nat

definition no_match :: match_result where
  "no_match = \<lparr>mr_fixtureId = None, mr_snapshotsCreated = 0, mr_eventsCreated = 0, mr_goalsImported = 0, mr_apiCalls = 0\<rparr>"

definition match_details ::
  "provider_client \<Rightarrow> json \<Rightarrow> string \<Rightarrow> json \<Rightarrow> json \<Rightarrow> int option \<Rightarrow> (snapshot_draft list \<times> event_draft list) res \<times> nat" where
  "match_details C payload providerFixtureId homeTeamId awayTeamId matchDate =
     (if pc_provider C = ''apifootball''
      then (Inr (buildApifootballDetails payload homeTeamId awayTeamId matchDate), 0)
      else fetchApiSportsDetails C (number_of_text providerFixtureId) homeTeamId awayTeamId matchDate)"

definition persistMatch ::
  "driver \<Rightarrow> provider_client \<Rightarrow> match_fresh \<Rightarrow> json \<Rightarrow> match_db \<Rightarrow> match_result res \<times> match_db" where
  "persistMatch D C x payload d =
     (let n = normalizeFixturePayload (dr_otherDate D) payload in
      case nf_providerFixtureId n of
        None \<Rightarrow> (Inr no_match, d)
      | Some providerFixtureId \<Rightarrow>
          (case upsert_fixture D (mf_fixtureId x) (mf_now x) payload providerFixtureId n (md_fixtures d) of
             Inl e \<Rightarrow> (Inl e, d)
           | Inr fixtures \<Rightarrow>
               (let d1 = d\<lparr>md_fixtures := fixtures\<rparr> in
                case find_fixture D providerFixtureId fixtures of
                  None \<Rightarrow> (Inr no_match, d1)
                | Some f \<Rightarrow>
                    (let matchDate = (case nf_matchDate n of JDate t \<Rightarrow> t | _ \<Rightarrow> Some (mf_now x)) in
                     case match_details C payload (fx_providerFixtureId f) (nf_homeTeamId n) (nf_awayTeamId n) matchDate of
                       (Inl e, _) \<Rightarrow> (Inl e, d1)
                     | (Inr (snapshotRows, eventRows), calls) \<Rightarrow>
                         (case replace_rows D x (fx_id f) snapshotRows eventRows d1 of
                            (Inl e, d2) \<Rightarrow> (Inl e, d2)
                          | (Inr _, d2) \<Rightarrow>
                              (Inr \<lparr>mr_fixtureId = Some (fx_id f), mr_snapshotsCreated = length snapshotRows,
                                    mr_eventsCreated = length eventRows, mr_goalsImported = length eventRows,
                                    mr_apiCalls = calls\<rparr>, d2))))))"

section \<open>The import of a range\<close>

text \<open>A \<open>Map\<close> of the matches by their identifier, in the order of insertion; a later value replaces in place.\<close>

fun map_set :: "string \<Rightarrow> 'a \<Rightarrow> (string \<times> 'a) list \<Rightarrow> (string \<times> 'a) list" where
  "map_set k v [] = [(k, v)]"
| "map_set k v ((l, w) # rest) = (if l = k then (k, v) # rest else (l, w) # map_set k v rest)"

definition extractProviderFixtureId :: "json \<Rightarrow> string option" where
  "extractProviderFixtureId match =
     (if truthy (path [''fixture'', ''id''] match) then Some (js_text (path [''fixture'', ''id''] match))
      else if truthy (json_get ''match_id'' match) then Some (js_text (json_get ''match_id'' match)) else None)"

definition collect_matches :: "json list \<Rightarrow> (string \<times> json) list \<Rightarrow> (string \<times> json) list" where
  "collect_matches matches seen =
     fold (\<lambda>match m. case extractProviderFixtureId match of None \<Rightarrow> m | Some k \<Rightarrow> map_set k match m) matches seen"

fun fetch_windows ::
  "provider_client \<Rightarrow> (int \<Rightarrow> int) \<Rightarrow> int \<Rightarrow> (int \<times> int) list \<Rightarrow> (string \<times> json) list \<Rightarrow> (string \<times> json) list res" where
  "fetch_windows C tz leagueId [] seen = Inr seen"
| "fetch_windows C tz leagueId ((a, b) # ws) seen =
     bindE (pc_leagueFixtures C leagueId (formatDateOnly tz a) (formatDateOnly tz b)) (\<lambda>matches.
     fetch_windows C tz leagueId ws (collect_matches matches seen))"

record import_result =
  ir_leagueId :: int
  ir_from :: string
  ir_to :: string
  ir_windowsProcessed :: nat
  ir_matchesFound :: nat
  ir_fixturesUpserted :: nat
  ir_snapshotsCreated :: nat
  ir_eventsCreated :: nat
  ir_goalsImported :: nat
  ir_apiCallsUsed :: nat

definition count_match :: "match_result \<Rightarrow> import_result \<Rightarrow> import_result" where
  "count_match m r =
     r\<lparr>ir_fixturesUpserted := ir_fixturesUpserted r + (if mr_fixtureId m = None then 0 else 1),
       ir_snapshotsCreated := ir_snapshotsCreated r + mr_snapshotsCreated m,
       ir_eventsCreated := ir_eventsCreated r + mr_eventsCreated m,
       ir_goalsImported := ir_goalsImported r + mr_goalsImported m,
       ir_apiCallsUsed := ir_apiCallsUsed r + mr_apiCalls m\<rparr>"

fun persist_matches ::
  "driver \<Rightarrow> provider_client \<Rightarrow> (string \<Rightarrow> match_fresh) \<Rightarrow> (string \<times> json) list \<Rightarrow> import_result \<Rightarrow> match_db
    \<Rightarrow> import_result res \<times> match_db" where
  "persist_matches D C fresh [] r d = (Inr r, d)"
| "persist_matches D C fresh ((k, match) # ms) r d =
     (case persistMatch D C (fresh k) match d of
        (Inl e, d') \<Rightarrow> (Inl e, d')
      | (Inr m, d') \<Rightarrow> persist_matches D C fresh ms (count_match m r) d')"

definition importLeagueSeason ::
  "driver \<Rightarrow> provider_client \<Rightarrow> (int \<Rightarrow> int) \<Rightarrow> (string \<Rightarrow> match_fresh) \<Rightarrow> int \<Rightarrow> int \<Rightarrow> int \<Rightarrow> match_db
    \<Rightarrow> import_result res \<times> match_db" where
  "importLeagueSeason D C tz fresh leagueId from t d =
     (let windows = buildWindows from t in
      case fetch_windows C tz leagueId windows [] of
        Inl e \<Rightarrow> (Inl e, d)
      | Inr matches \<Rightarrow>
          persist_matches D C fresh matches
            \<lparr>ir_leagueId = leagueId, ir_from = formatDateOnly tz from, ir_to = formatDateOnly tz t,
             ir_windowsProcessed = length windows, ir_matchesFound = length matches, ir_fixturesUpserted = 0,
             ir_snapshotsCreated = 0, ir_eventsCreated = 0, ir_goalsImported = 0, ir_apiCallsUsed = length windows\<rparr> d)"

end
