(* ===== verification/HistoryImportSafety.thy ===== *)
theory HistoryImportSafety
  imports HistoryImport
begin

text \<open>
  What an import leaves in the tables: for each match one fixture with exactly the rows of its payload,
  whatever was there before; the windows of the calls; the wait for the budget.
\<close>

section \<open>Windows\<close>

abbreviation in_window :: "int \<Rightarrow> int \<times> int \<Rightarrow> bool" where
  "in_window x w \<equiv> fst w \<le> x \<and> x \<le> snd w"

lemma windows_after: "x < cursor \<Longrightarrow> filter (in_window x) (windows_from cursor t) = []"
proof (induction cursor t rule: windows_from.induct)
  case (1 cursor t)
  then show ?case
    by (subst windows_from.simps) (auto simp: Let_def max_window_days_def ms_per_day_def min_def)
qed

lemma windows_bounds:
  "w \<in> set (windows_from cursor t) \<Longrightarrow> cursor \<le> fst w \<and> fst w \<le> snd w \<and> snd w \<le> t \<and> snd w \<le> fst w + 4 * ms_per_day"
proof (induction cursor t rule: windows_from.induct)
  case (1 cursor t)
  then show ?case
    by (subst (asm) (2) windows_from.simps)
       (fastforce simp: Let_def max_window_days_def ms_per_day_def min_def split: if_splits)
qed

text \<open>When the range is a whole number of days, each day from the first one on is in one window.\<close>

lemma windows_each_day:
  "t = cursor + int n * ms_per_day \<Longrightarrow> x = cursor + int j * ms_per_day \<Longrightarrow> j \<le> n
    \<Longrightarrow> length (filter (in_window x) (windows_from cursor t)) = 1"
proof (induction cursor t arbitrary: n j rule: windows_from.induct)
  case (1 cursor t)
  have le: "cursor \<le> t" using 1(2) by (simp add: ms_per_day_def)
  let ?stop = "min (cursor + 4 * ms_per_day) t"
  have unfold: "windows_from cursor t = (cursor, ?stop) # windows_from (?stop + ms_per_day) t"
    by (subst windows_from.simps) (simp add: le Let_def max_window_days_def)
  show ?case
  proof (cases "j \<le> 4")
    case True
    then have "in_window x (cursor, ?stop)" using 1(2-4) by (auto simp: ms_per_day_def)
    moreover have "x < ?stop + ms_per_day" using calculation by (auto simp: ms_per_day_def)
    ultimately show ?thesis unfolding unfold by (simp add: windows_after)
  next
    case False
    then have n: "n \<ge> 5" using 1(4) by simp
    have stop: "?stop = cursor + 4 * ms_per_day" using 1(2) n by (simp add: ms_per_day_def min_def)
    have "length (filter (in_window x) (windows_from (?stop + ms_per_day) t)) = 1"
    proof (rule 1(1) [OF le, where n = "n - 5" and j = "j - 5"])
      show "?stop = min (cursor + (max_window_days - 1) * ms_per_day) t" by (simp add: max_window_days_def)
      show "t = ?stop + ms_per_day + int (n - 5) * ms_per_day" using 1(2) n unfolding stop by (simp add: ms_per_day_def)
      show "x = ?stop + ms_per_day + int (j - 5) * ms_per_day" using 1(3) False unfolding stop by (simp add: ms_per_day_def)
      show "j - 5 \<le> n - 5" using 1(4) by simp
    qed
    moreover have "\<not> in_window x (cursor, ?stop)" using 1(3) False stop by (simp add: ms_per_day_def)
    ultimately show ?thesis unfolding unfold by simp
  qed
qed

section \<open>The wait for the budget\<close>

lemma budget_free:
  assumes "0 < limit * pct div 100" and "\<forall>c \<in> set calls. c \<le> T" and "T + 60000 < now"
  shows "hasBudget limit pct calls now"
proof -
  have "filter (\<lambda>c. c \<ge> now - 60 * 1000) calls = []" using assms(2,3) by (auto simp: filter_empty_conv)
  with assms(1) show ?thesis by (simp add: hasBudget_def)
qed

lemma wait_ends:
  assumes "0 < limit * pct div 100" and "\<And>t. \<forall>c \<in> set (calls t). c \<le> T" and "\<And>i. 0 \<le> late i"
    and "T + 60000 < now + 2000 * int fuel"
  shows "\<exists>t. waitForRateBudget limit pct calls late (Suc fuel) i now = Some t \<and> now \<le> t"
  using assms(4)
proof (induction fuel arbitrary: i now)
  case 0
  with budget_free [OF assms(1) assms(2)] show ?case by simp
next
  case (Suc fuel)
  have "T + 60000 < now + 2000 + late i + 2000 * int fuel" using Suc.prems assms(3) [of i] by simp
  from Suc.IH [OF this, of "Suc i"] obtain t where
    "waitForRateBudget limit pct calls late (Suc fuel) (Suc i) (now + 2000 + late i) = Some t" "now + 2000 + late i \<le> t" by blast
  then show ?case using assms(3) [of i] by (subst waitForRateBudget.simps) auto
qed

section \<open>The content of a match\<close>

abbreviation anon_fixture :: "stored_fixture \<Rightarrow> stored_fixture" where
  "anon_fixture f \<equiv> f\<lparr>fx_id := [], fx_lastSyncedAt := 0\<rparr>"

abbreviation anon_stat :: "stats_snapshot \<Rightarrow> stats_snapshot" where
  "anon_stat s \<equiv> s\<lparr>sn_id := [], sn_fixtureId := []\<rparr>"

abbreviation anon_event :: "stored_event \<Rightarrow> stored_event" where
  "anon_event e \<equiv> e\<lparr>ev_id := [], ev_fixtureId := []\<rparr>"

abbreviation keyed_fixture :: "string \<Rightarrow> stored_fixture list \<Rightarrow> stored_fixture option" where
  "keyed_fixture k table \<equiv> find_row (\<lambda>f. fx_providerFixtureId f = k) table"

type_synonym match_content = "stored_fixture \<times> stats_snapshot list \<times> stored_event list"

text \<open>What the tables say of the match of a key, without the identifiers and the time of the import.\<close>

definition content_of :: "string \<Rightarrow> match_db \<Rightarrow> match_content option" where
  "content_of k d =
     (case keyed_fixture k (md_fixtures d) of
        None \<Rightarrow> None
      | Some f \<Rightarrow> Some (anon_fixture f,
          List.map anon_stat (filter (\<lambda>s. sn_fixtureId s = fx_id f) (md_stats d)),
          List.map anon_event (filter (\<lambda>e. ev_fixtureId e = fx_id f) (md_events d))))"

text \<open>What a payload says of it.\<close>

definition match_date :: "int \<Rightarrow> normalized_fixture \<Rightarrow> int option" where
  "match_date now n = (case nf_matchDate n of JDate t \<Rightarrow> t | _ \<Rightarrow> Some now)"

definition content_in :: "driver \<Rightarrow> provider_client \<Rightarrow> int \<Rightarrow> json \<Rightarrow> string \<Rightarrow> match_content res" where
  "content_in D C now payload k =
     (let n = normalizeFixturePayload (dr_otherDate D) payload in
      bindE (fixture_columns D [] 0 payload k n) (\<lambda>f.
      bindE (fst (match_details C payload k (nf_homeTeamId n) (nf_awayTeamId n) (match_date now n))) (\<lambda>(snapshotRows, eventRows).
      bindE (mapE (snapshot_columns D [] []) snapshotRows) (\<lambda>stats.
      bindE (mapE (event_columns D [] []) eventRows) (\<lambda>evs.
      Inr (f, stats, evs))))))"

definition match_db_ok :: "match_db \<Rightarrow> bool" where
  "match_db_ok d =
     (distinct (List.map fx_providerFixtureId (md_fixtures d)) \<and> distinct (List.map fx_id (md_fixtures d))
      \<and> sn_fixtureId ` set (md_stats d) \<subseteq> fx_id ` set (md_fixtures d)
      \<and> ev_fixtureId ` set (md_events d) \<subseteq> fx_id ` set (md_fixtures d))"

section \<open>Statements\<close>

lemma fixture_columns_anon:
  assumes "fixture_columns D i now payload k n = Inr f"
  shows "fixture_columns D [] 0 payload k n = Inr (anon_fixture f) \<and> fx_id f = i \<and> fx_providerFixtureId f = k"
  using assms by (auto simp: fixture_columns_def bindE_eq_Inr)

lemma upsert_spec:
  assumes "upsert_fixture D i now payload p n table = Inr table'" and "dr_key D p = Inr k"
    and "distinct (List.map fx_providerFixtureId table)" and "distinct (List.map fx_id table)"
  shows "\<exists>f. keyed_fixture k table' = Some f \<and> fixture_columns D [] 0 payload k n = Inr (anon_fixture f)
    \<and> distinct (List.map fx_providerFixtureId table') \<and> distinct (List.map fx_id table')
    \<and> (\<forall>l. l \<noteq> k \<longrightarrow> keyed_fixture l table' = keyed_fixture l table)
    \<and> (case keyed_fixture k table of
         Some g \<Rightarrow> fx_id f = fx_id g \<and> List.map fx_id table' = List.map fx_id table
           \<and> List.map fx_providerFixtureId table' = List.map fx_providerFixtureId table
       | None \<Rightarrow> List.map fx_id table' = List.map fx_id table @ [fx_id f]
           \<and> List.map fx_providerFixtureId table' = List.map fx_providerFixtureId table @ [k])"
proof -
  obtain row where row: "fixture_columns D i now payload k n = Inr row"
    using assms(1,2) by (auto simp: upsert_fixture_def bindE_eq_Inr)
  note cols = fixture_columns_anon [OF row]
  show ?thesis
  proof (cases "keyed_fixture k table")
    case None
    then have t: "table' = table @ [row]" "find_row (\<lambda>f. fx_id f = i) table = None"
      using assms(1,2) row by (auto simp: upsert_fixture_def bindE_eq_Inr)
    have frame: "keyed_fixture l (table @ [row]) = keyed_fixture l table" if "l \<noteq> k" for l
      using that cols by (auto simp: find_row_append split: option.split)
    have "keyed_fixture k (table @ [row]) = Some row" using None cols by (simp add: find_row_append)
    moreover have "distinct (List.map fx_providerFixtureId (table @ [row]))" "distinct (List.map fx_id (table @ [row]))"
      using assms(3,4) None t(2) cols by (auto simp: find_row_None_iff)
    ultimately show ?thesis unfolding t(1) None option.case
      by (intro exI [of _ row]) (use frame cols in \<open>simp\<close>)
  next
    case (Some g)
    let ?set = "\<lambda>f. row\<lparr>fx_id := fx_id f\<rparr>"
    have t: "table' = update_rows (\<lambda>f. fx_providerFixtureId f = k) ?set table"
      using assms(1,2) row Some by (auto simp: upsert_fixture_def)
    have keys: "List.map fx_providerFixtureId table' = List.map fx_providerFixtureId table" "List.map fx_id table' = List.map fx_id table"
      unfolding t by (rule map_update_rows, simp add: cols)+
    have look: "keyed_fixture l table' = map_option (\<lambda>f. if fx_providerFixtureId f = k then ?set f else f) (keyed_fixture l table)" for l
      unfolding t by (rule find_row_update_rows) (simp add: cols)
    from look [of k] have found: "keyed_fixture k table' = Some (?set g)" using find_row_SomeD [OF Some] Some by simp
    have frame: "keyed_fixture l table' = keyed_fixture l table" if "l \<noteq> k" for l
    proof (cases "keyed_fixture l table")
      case None
      then show ?thesis by (simp add: look)
    next
      case (Some h)
      with find_row_SomeD [OF Some] that show ?thesis by (simp add: look)
    qed
    have anon: "fixture_columns D [] 0 payload k n = Inr (anon_fixture (?set g))" using cols by simp
    show ?thesis unfolding Some option.case
      by (intro exI [of _ "?set g"]) (use found frame anon keys assms(3,4) in \<open>simp\<close>)
  qed
qed

lemma snapshot_columns_anon:
  assumes "snapshot_columns D i fixtureId r = Inr s"
  shows "snapshot_columns D [] [] r = Inr (anon_stat s) \<and> sn_fixtureId s = fixtureId"
  using assms by (auto simp: snapshot_columns_def bindE_eq_Inr)

lemma event_columns_anon:
  assumes "event_columns D i fixtureId r = Inr e"
  shows "event_columns D [] [] r = Inr (anon_event e) \<and> ev_fixtureId e = fixtureId"
  using assms by (auto simp: event_columns_def bindE_eq_Inr)

lemma mapE_enumerate:
  assumes "mapE (\<lambda>(i, r). f i r) (enumerate n rows) = Inr stored" and "\<And>i r s. f i r = Inr s \<Longrightarrow> g r = Inr (h s) \<and> P s"
  shows "mapE g rows = Inr (List.map h stored) \<and> list_all P stored"
  using assms(1)
proof (induction rows arbitrary: n stored)
  case (Cons r rows)
  then obtain s ss where s: "f n r = Inr s" "mapE (\<lambda>(i, r). f i r) (enumerate (Suc n) rows) = Inr ss" "stored = s # ss"
    by (auto simp: bindE_eq_Inr)
  with Cons.IH [OF s(2)] assms(2) [OF s(1)] show ?case by simp
qed simp

lemma replace_rows_spec:
  assumes "replace_rows D x i snapshotRows eventRows d = (Inr u, d')"
  shows "\<exists>ss es. mapE (snapshot_columns D [] []) snapshotRows = Inr (List.map anon_stat ss) \<and> list_all (\<lambda>s. sn_fixtureId s = i) ss
    \<and> mapE (event_columns D [] []) eventRows = Inr (List.map anon_event es) \<and> list_all (\<lambda>e. ev_fixtureId e = i) es
    \<and> d' = d\<lparr>md_stats := filter (\<lambda>s. sn_fixtureId s \<noteq> i) (md_stats d) @ ss,
             md_events := filter (\<lambda>e. ev_fixtureId e \<noteq> i) (md_events d) @ es\<rparr>"
proof -
  obtain ss es where ss: "mapE (\<lambda>(j, r). snapshot_columns D (mf_snapshotId x j) i r) (enumerate 0 snapshotRows) = Inr ss"
    and es: "mapE (\<lambda>(j, r). event_columns D (mf_eventId x j) i r) (enumerate 0 eventRows) = Inr es"
    and d': "d' = d\<lparr>md_stats := filter (\<lambda>s. sn_fixtureId s \<noteq> i) (md_stats d) @ ss,
             md_events := filter (\<lambda>e. ev_fixtureId e \<noteq> i) (md_events d) @ es\<rparr>"
    using assms by (auto simp: replace_rows_def Let_def insert_stats_def insert_events_def delete_stats_def delete_events_def
        bindE_eq_Inr split: sum.splits)
  show ?thesis
    using mapE_enumerate [OF ss, where g = "snapshot_columns D [] []" and h = anon_stat and P = "\<lambda>s. sn_fixtureId s = i"]
      mapE_enumerate [OF es, where g = "event_columns D [] []" and h = anon_event and P = "\<lambda>e. ev_fixtureId e = i"]
      snapshot_columns_anon event_columns_anon d' by blast
qed

section \<open>A match\<close>

lemma provider_id: "nf_providerFixtureId (normalizeFixturePayload other p) = extractProviderFixtureId p"
  by (simp add: normalizeFixturePayload_def provider_fixture_id_def extractProviderFixtureId_def)

lemma content_frame:
  assumes "match_db_ok d" and "keyed_fixture l fixtures = keyed_fixture l (md_fixtures d)" and "\<And>g. keyed_fixture l fixtures = Some g \<Longrightarrow> fx_id g \<noteq> i"
    and "list_all (\<lambda>s. sn_fixtureId s = i) ss" and "list_all (\<lambda>e. ev_fixtureId e = i) es"
  shows "content_of l \<lparr>md_fixtures = fixtures, md_stats = filter (\<lambda>s. sn_fixtureId s \<noteq> i) (md_stats d) @ ss,
      md_events = filter (\<lambda>e. ev_fixtureId e \<noteq> i) (md_events d) @ es\<rparr> = content_of l d"
proof (cases "keyed_fixture l fixtures")
  case None
  then show ?thesis using assms(2) by (simp add: content_of_def)
next
  case (Some g)
  have i: "fx_id g \<noteq> i" by (rule assms(3)) (rule Some)
  have "filter (\<lambda>s. sn_fixtureId s = fx_id g) ss = []" "filter (\<lambda>e. ev_fixtureId e = fx_id g) es = []"
    using assms(4,5) i by (auto simp: filter_empty_conv list_all_iff)
  moreover have "filter (\<lambda>s. sn_fixtureId s \<noteq> i \<and> sn_fixtureId s = fx_id g) xs = filter (\<lambda>s. sn_fixtureId s = fx_id g) xs"
      "filter (\<lambda>e. ev_fixtureId e \<noteq> i \<and> ev_fixtureId e = fx_id g) ys = filter (\<lambda>e. ev_fixtureId e = fx_id g) ys" for xs :: "stats_snapshot list" and ys :: "stored_event list"
    using i by (auto intro!: filter_cong)
  ultimately show ?thesis using Some assms(2) by (simp add: content_of_def conj_commute)
qed

text \<open>A match that was imported has exactly the rows of its payload, and the other matches are untouched.\<close>

lemma persist_spec:
  assumes "persistMatch D C x payload d = (Inr m, d')" and "extractProviderFixtureId payload = Some p" and "dr_key D p = Inr k"
    and "match_db_ok d"
  shows "\<exists>f stats evs. content_in D C (mf_now x) payload k = Inr (f, stats, evs) \<and> content_of k d' = Some (f, stats, evs)
      \<and> mr_fixtureId m \<noteq> None \<and> mr_snapshotsCreated m = length stats \<and> mr_eventsCreated m = length evs \<and> mr_goalsImported m = length evs
      \<and> mr_apiCalls m = (let n = normalizeFixturePayload (dr_otherDate D) payload in
           snd (match_details C payload k (nf_homeTeamId n) (nf_awayTeamId n) (match_date (mf_now x) n)))"
    and "\<forall>l. l \<noteq> k \<longrightarrow> content_of l d' = content_of l d"
    and "match_db_ok d'"
    and "content_of k d \<noteq> None \<Longrightarrow> List.map fx_id (md_fixtures d') = List.map fx_id (md_fixtures d)
      \<and> List.map fx_providerFixtureId (md_fixtures d') = List.map fx_providerFixtureId (md_fixtures d)"
    and "content_of k d = content_of k d' \<Longrightarrow> length (md_stats d') = length (md_stats d) \<and> length (md_events d') = length (md_events d)"
proof -
  define n where "n = normalizeFixturePayload (dr_otherDate D) payload"
  have id: "nf_providerFixtureId n = Some p" using assms(2) by (simp add: n_def provider_id)
  have ok: "distinct (List.map fx_providerFixtureId (md_fixtures d))" "distinct (List.map fx_id (md_fixtures d))"
      "sn_fixtureId ` set (md_stats d) \<subseteq> fx_id ` set (md_fixtures d)" "ev_fixtureId ` set (md_events d) \<subseteq> fx_id ` set (md_fixtures d)"
    using assms(4) by (simp_all add: match_db_ok_def)
  note body = assms(1) [unfolded persistMatch_def Let_def, folded n_def, unfolded id option.case, folded match_date_def]
  obtain fixtures where up: "upsert_fixture D (mf_fixtureId x) (mf_now x) payload p n (md_fixtures d) = Inr fixtures"
    using body by (auto split: sum.splits)
  obtain f where f: "keyed_fixture k fixtures = Some f" "fixture_columns D [] 0 payload k n = Inr (anon_fixture f)"
      "distinct (List.map fx_providerFixtureId fixtures)" "distinct (List.map fx_id fixtures)"
      "\<And>l. l \<noteq> k \<Longrightarrow> keyed_fixture l fixtures = keyed_fixture l (md_fixtures d)"
      "case keyed_fixture k (md_fixtures d) of
         Some g \<Rightarrow> fx_id f = fx_id g \<and> List.map fx_id fixtures = List.map fx_id (md_fixtures d)
           \<and> List.map fx_providerFixtureId fixtures = List.map fx_providerFixtureId (md_fixtures d)
       | None \<Rightarrow> List.map fx_id fixtures = List.map fx_id (md_fixtures d) @ [fx_id f]
           \<and> List.map fx_providerFixtureId fixtures = List.map fx_providerFixtureId (md_fixtures d) @ [k]"
    using upsert_spec [OF up assms(3) ok(1,2)] by blast
  have key: "fx_providerFixtureId f = k" "f \<in> set fixtures" using find_row_SomeD [OF f(1)] by auto
  have found: "find_fixture D p fixtures = Some f" using f(1) assms(3) by (simp add: find_fixture_def)
  obtain rs es calls where det: "match_details C payload k (nf_homeTeamId n) (nf_awayTeamId n) (match_date (mf_now x) n) = (Inr (rs, es), calls)"
    using body up found key(1) by (auto split: sum.splits prod.splits)
  obtain u where rep: "replace_rows D x (fx_id f) rs es (d\<lparr>md_fixtures := fixtures\<rparr>) = (Inr u, d')"
    and m: "m = \<lparr>mr_fixtureId = Some (fx_id f), mr_snapshotsCreated = length rs, mr_eventsCreated = length es,
        mr_goalsImported = length es, mr_apiCalls = calls\<rparr>"
    using body up found key(1) det by (auto split: sum.splits prod.splits)
  obtain ss ts where rows: "mapE (snapshot_columns D [] []) rs = Inr (List.map anon_stat ss)" "list_all (\<lambda>s. sn_fixtureId s = fx_id f) ss"
      "mapE (event_columns D [] []) es = Inr (List.map anon_event ts)" "list_all (\<lambda>e. ev_fixtureId e = fx_id f) ts"
    and d': "d' = \<lparr>md_fixtures = fixtures, md_stats = filter (\<lambda>s. sn_fixtureId s \<noteq> fx_id f) (md_stats d) @ ss,
        md_events = filter (\<lambda>e. ev_fixtureId e \<noteq> fx_id f) (md_events d) @ ts\<rparr>"
    using replace_rows_spec [OF rep] by (cases d) auto
  have own: "filter (\<lambda>s. sn_fixtureId s = fx_id f) (md_stats d') = ss" "filter (\<lambda>e. ev_fixtureId e = fx_id f) (md_events d') = ts"
    using rows(2,4) by (auto simp: d' list_all_iff filter_empty_conv)
  have after: "content_of k d' = Some (anon_fixture f, List.map anon_stat ss, List.map anon_event ts)"
    using f(1) own by (simp add: content_of_def d')
  have said: "content_in D C (mf_now x) payload k = Inr (anon_fixture f, List.map anon_stat ss, List.map anon_event ts)"
    unfolding content_in_def Let_def n_def [symmetric] using f(2) det rows(1,3) by simp
  show "\<exists>f stats evs. content_in D C (mf_now x) payload k = Inr (f, stats, evs) \<and> content_of k d' = Some (f, stats, evs)
      \<and> mr_fixtureId m \<noteq> None \<and> mr_snapshotsCreated m = length stats \<and> mr_eventsCreated m = length evs \<and> mr_goalsImported m = length evs
      \<and> mr_apiCalls m = (let n = normalizeFixturePayload (dr_otherDate D) payload in
           snd (match_details C payload k (nf_homeTeamId n) (nf_awayTeamId n) (match_date (mf_now x) n)))"
    unfolding Let_def n_def [symmetric]
    using after said m det mapE_length [OF rows(1)] mapE_length [OF rows(3)] by (intro exI) auto
  show "\<forall>l. l \<noteq> k \<longrightarrow> content_of l d' = content_of l d"
  proof (intro allI impI)
    fix l assume l: "l \<noteq> k"
    show "content_of l d' = content_of l d" unfolding d'
    proof (rule content_frame [OF assms(4) f(5) [OF l] _ rows(2,4)])
      fix g assume "keyed_fixture l fixtures = Some g"
      from find_row_SomeD [OF this] have g: "g \<in> set fixtures" "fx_providerFixtureId g = l" by auto
      have "inj_on fx_id (set fixtures)" using f(4) by (simp add: distinct_map)
      then show "fx_id g \<noteq> fx_id f" using g key l by (auto dest: inj_onD)
    qed
  qed
  have ids: "fx_id ` set (md_fixtures d) \<subseteq> fx_id ` set fixtures"
    using f(6) by (auto split: option.splits simp: set_map [symmetric] simp del: set_map)
  have "\<And>v. v \<in> set (md_stats d) \<Longrightarrow> sn_fixtureId v \<in> fx_id ` set fixtures"
      "\<And>v. v \<in> set (md_events d) \<Longrightarrow> ev_fixtureId v \<in> fx_id ` set fixtures"
    using ok(3,4) ids by blast+
  then show "match_db_ok d'"
    unfolding match_db_ok_def d' using f(3,4) key(2) rows(2,4) by (auto simp: list_all_iff)
  show "content_of k d \<noteq> None \<Longrightarrow> List.map fx_id (md_fixtures d') = List.map fx_id (md_fixtures d)
      \<and> List.map fx_providerFixtureId (md_fixtures d') = List.map fx_providerFixtureId (md_fixtures d)"
    using f(6) by (auto simp: content_of_def d' split: option.splits)
  show "length (md_stats d') = length (md_stats d) \<and> length (md_events d') = length (md_events d)" if same: "content_of k d = content_of k d'"
  proof -
    from same after obtain g where g: "keyed_fixture k (md_fixtures d) = Some g"
        "List.map anon_stat (filter (\<lambda>s. sn_fixtureId s = fx_id g) (md_stats d)) = List.map anon_stat ss"
        "List.map anon_event (filter (\<lambda>e. ev_fixtureId e = fx_id g) (md_events d)) = List.map anon_event ts"
      by (auto simp: content_of_def split: option.splits)
    have i: "fx_id g = fx_id f" using f(6) g(1) by simp
    have "length (filter (\<lambda>s. sn_fixtureId s = fx_id f) (md_stats d)) = length ss"
        "length (filter (\<lambda>e. ev_fixtureId e = fx_id f) (md_events d)) = length ts"
      using g(2,3) unfolding i by (metis length_map)+
    moreover have "length (filter (\<lambda>v. \<not> q v) xs) + length (filter q xs) = length xs" for q :: "stats_snapshot \<Rightarrow> bool" and xs
      using sum_length_filter_compl [of q xs] by simp
    moreover have "length (filter (\<lambda>v. \<not> q v) xs) + length (filter q xs) = length xs" for q :: "stored_event \<Rightarrow> bool" and xs
      using sum_length_filter_compl [of q xs] by simp
    ultimately show ?thesis unfolding d' by simp metis
  qed
qed

section \<open>The matches of a range\<close>

lemma map_set_keys: "fst ` set (map_set k v m) = insert k (fst ` set m)"
proof (induction m)
  case (Cons a m)
  then show ?case by (cases a) (simp add: insert_commute)
qed simp

lemma map_set_distinct: "distinct (List.map fst m) \<Longrightarrow> distinct (List.map fst (map_set k v m))"
proof (induction m)
  case (Cons a m)
  then show ?case using map_set_keys [of k v m] by (cases a) auto
qed simp

lemma map_set_mem: "(l, w) \<in> set (map_set k v m) \<Longrightarrow> (l, w) = (k, v) \<or> (l, w) \<in> set m"
  by (induction m) (auto split: if_splits)

definition matches_ok :: "(string \<times> json) list \<Rightarrow> bool" where
  "matches_ok m = (distinct (List.map fst m) \<and> (\<forall>(k, v) \<in> set m. extractProviderFixtureId v = Some k))"

lemma collect_ok: "matches_ok seen \<Longrightarrow> matches_ok (collect_matches matches seen)"
proof (induction matches arbitrary: seen)
  case (Cons v matches)
  have "matches_ok (case extractProviderFixtureId v of None \<Rightarrow> seen | Some k \<Rightarrow> map_set k v seen)"
  proof (cases "extractProviderFixtureId v")
    case (Some k)
    have "extractProviderFixtureId w = Some l" if "(l, w) \<in> set (map_set k v seen)" for l w
      using map_set_mem [OF that] Some Cons.prems by (auto simp: matches_ok_def)
    then show ?thesis using Some Cons.prems map_set_distinct [of seen k v] by (auto simp: matches_ok_def)
  qed (simp add: Cons.prems)
  from Cons.IH [OF this] show ?case by (simp add: collect_matches_def)
qed (simp add: collect_matches_def)

lemma fetch_ok: "fetch_windows C tz leagueId ws seen = Inr m \<Longrightarrow> matches_ok seen \<Longrightarrow> matches_ok m"
proof (induction ws arbitrary: seen)
  case (Cons w ws)
  then show ?case by (cases w) (auto simp: bindE_eq_Inr intro: collect_ok)
qed simp

text \<open>
  The keys of the matches after the conversion of the column, all different: no match is written by two
  payloads of an import.
\<close>

definition keyed_matches :: "driver \<Rightarrow> (string \<times> json) list \<Rightarrow> (string \<times> json) list res" where
  "keyed_matches D ms = mapE (\<lambda>(p, v). bindE (dr_key D p) (\<lambda>k. Inr (k, v))) ms"

definition dated :: "driver \<Rightarrow> json \<Rightarrow> bool" where
  "dated D v = (\<exists>t. nf_matchDate (normalizeFixturePayload (dr_otherDate D) v) = JDate t)"

lemma content_dated: "dated D v \<Longrightarrow> content_in D C now v k = content_in D C 0 v k"
  by (auto simp: dated_def content_in_def match_date_def)

lemma persist_matches_spec:
  assumes "persist_matches D C fresh ms r d = (Inr r', d')" and "keyed_matches D ms = Inr kms"
    and "distinct (List.map fst kms)" and "\<forall>(p, v) \<in> set ms. extractProviderFixtureId v = Some p \<and> dated D v" and "match_db_ok d"
  shows "match_db_ok d' \<and> (\<forall>(k, v) \<in> set kms. \<exists>c. content_in D C 0 v k = Inr c \<and> content_of k d' = Some c)
    \<and> (\<forall>l. l \<notin> fst ` set kms \<longrightarrow> content_of l d' = content_of l d)"
  using assms
proof (induction ms arbitrary: r d kms)
  case (Cons pv ms)
  obtain p v where pv: "pv = (p, v)" by (cases pv)
  obtain k kms' where k: "dr_key D p = Inr k" "keyed_matches D ms = Inr kms'" "kms = (k, v) # kms'"
    using Cons.prems(2) by (auto simp: keyed_matches_def pv bindE_eq_Inr)
  obtain m d1 where m: "persistMatch D C (fresh p) v d = (Inr m, d1)" "persist_matches D C fresh ms (count_match m r) d1 = (Inr r', d')"
    using Cons.prems(1) by (auto simp: pv split: sum.splits prod.splits)
  have v: "extractProviderFixtureId v = Some p" "dated D v" using Cons.prems(4) by (auto simp: pv)
  note spec = persist_spec [OF m(1) v(1) k(1) Cons.prems(5)]
  have rest: "\<forall>(p, v) \<in> set ms. extractProviderFixtureId v = Some p \<and> dated D v" "distinct (List.map fst kms')" "k \<notin> fst ` set kms'"
    using Cons.prems(3,4) by (auto simp: k(3))
  note ih = Cons.IH [OF m(2) k(2) rest(2,1) spec(3)]
  obtain c where c: "content_in D C 0 v k = Inr c" "content_of k d1 = Some c"
    using spec(1) content_dated [OF v(2)] by metis
  obtain f stats evs where parts: "c = (f, stats, evs)" by (cases c)
  have "content_of k d' = Some c" using ih rest(3) c(2) by simp
  with ih c(1) spec(2) show ?case unfolding k(3) parts by auto
qed (auto simp: keyed_matches_def)

text \<open>A second import of the same matches finds them as they should be, and changes nothing but the times and identifiers of rows.\<close>

lemma persist_again:
  assumes "persist_matches D C fresh ms r d = (Inr r', d')" and "keyed_matches D ms = Inr kms"
    and "distinct (List.map fst kms)" and "\<forall>(p, v) \<in> set ms. extractProviderFixtureId v = Some p \<and> dated D v" and "match_db_ok d"
    and "\<forall>(k, v) \<in> set kms. \<exists>c. content_in D C 0 v k = Inr c \<and> content_of k d = Some c"
  shows "List.map fx_id (md_fixtures d') = List.map fx_id (md_fixtures d)
    \<and> List.map fx_providerFixtureId (md_fixtures d') = List.map fx_providerFixtureId (md_fixtures d)
    \<and> length (md_stats d') = length (md_stats d) \<and> length (md_events d') = length (md_events d)
    \<and> (\<forall>l. content_of l d' = content_of l d)"
  using assms
proof (induction ms arbitrary: r d kms)
  case (Cons pv ms)
  obtain p v where pv: "pv = (p, v)" by (cases pv)
  obtain k kms' where k: "dr_key D p = Inr k" "keyed_matches D ms = Inr kms'" "kms = (k, v) # kms'"
    using Cons.prems(2) by (auto simp: keyed_matches_def pv bindE_eq_Inr)
  obtain m d1 where m: "persistMatch D C (fresh p) v d = (Inr m, d1)" "persist_matches D C fresh ms (count_match m r) d1 = (Inr r', d')"
    using Cons.prems(1) by (auto simp: pv split: sum.splits prod.splits)
  have v: "extractProviderFixtureId v = Some p" "dated D v" using Cons.prems(4) by (auto simp: pv)
  note spec = persist_spec [OF m(1) v(1) k(1) Cons.prems(5)]
  obtain c where c: "content_in D C 0 v k = Inr c" "content_of k d = Some c" using Cons.prems(6) by (auto simp: k(3))
  obtain c' where "content_in D C 0 v k = Inr c'" "content_of k d1 = Some c'"
    using spec(1) content_dated [OF v(2)] by metis
  with c have here: "content_of k d = content_of k d1" by simp
  with spec(2) have all: "content_of l d1 = content_of l d" for l by (cases "l = k") auto
  have rest: "\<forall>(p, v) \<in> set ms. extractProviderFixtureId v = Some p \<and> dated D v" "distinct (List.map fst kms')"
      "\<forall>(k, v) \<in> set kms'. \<exists>c. content_in D C 0 v k = Inr c \<and> content_of k d1 = Some c"
    using Cons.prems(3,4,6) by (auto simp: k(3) all)
  have "content_of k d \<noteq> None" using c(2) by simp
  note steps = spec(4) [OF this] spec(5) [OF here]
  from Cons.IH [OF m(2) k(2) rest(2,1) spec(3) rest(3)] steps all show ?case by simp
qed simp

lemma persist_counts:
  assumes "persist_matches D C fresh ms r d = (Inr r1, d1)" and "persist_matches D C fresh' ms r e = (Inr r2, e1)"
    and "keyed_matches D ms = Inr kms" and "\<forall>(p, v) \<in> set ms. extractProviderFixtureId v = Some p \<and> dated D v"
    and "match_db_ok d" and "match_db_ok e"
  shows "r1 = r2"
  using assms
proof (induction ms arbitrary: r d e kms)
  case (Cons pv ms)
  obtain p v where pv: "pv = (p, v)" by (cases pv)
  obtain k kms' where k: "dr_key D p = Inr k" "keyed_matches D ms = Inr kms'"
    using Cons.prems(3) by (auto simp: keyed_matches_def pv bindE_eq_Inr)
  obtain m d' where m: "persistMatch D C (fresh p) v d = (Inr m, d')" "persist_matches D C fresh ms (count_match m r) d' = (Inr r1, d1)"
    using Cons.prems(1) by (auto simp: pv split: sum.splits prod.splits)
  obtain n e' where n: "persistMatch D C (fresh' p) v e = (Inr n, e')" "persist_matches D C fresh' ms (count_match n r) e' = (Inr r2, e1)"
    using Cons.prems(2) by (auto simp: pv split: sum.splits prod.splits)
  have v: "extractProviderFixtureId v = Some p" "dated D v" using Cons.prems(4) by (auto simp: pv)
  note sm = persist_spec [OF m(1) v(1) k(1) Cons.prems(5)]
  note sn = persist_spec [OF n(1) v(1) k(1) Cons.prems(6)]
  have date: "match_date t (normalizeFixturePayload (dr_otherDate D) v) = match_date 0 (normalizeFixturePayload (dr_otherDate D) v)" for t
    using v(2) by (auto simp: dated_def match_date_def)
  have same: "mr_apiCalls m = mr_apiCalls n" "mr_snapshotsCreated m = mr_snapshotsCreated n" "mr_eventsCreated m = mr_eventsCreated n"
      "mr_goalsImported m = mr_goalsImported n" "(mr_fixtureId m = None) = (mr_fixtureId n = None)"
    using sm(1) sn(1) content_dated [OF v(2), of C "mf_now (fresh p)" k] content_dated [OF v(2), of C "mf_now (fresh' p)" k]
      date [of "mf_now (fresh p)"] date [of "mf_now (fresh' p)"]
    by (auto simp: Let_def)
  then have "count_match m r = count_match n r" by (simp add: count_match_def)
  with n(2) have "persist_matches D C fresh' ms (count_match m r) e' = (Inr r2, e1)" by simp
  from Cons.IH [OF m(2) this k(2) _ sm(3) sn(3)] Cons.prems(4) show ?case by simp
qed simp

end
