(* ===== verification/ImportProperties.thy ===== *)
theory ImportProperties
  imports HistoryImportSafety BaseRates
begin

text \<open>
  The properties of the import of past matches: the windows of its calls, what it leaves in the tables,
  and that importing again changes nothing; then two consequences of how it reads times.
\<close>

section \<open>Windows\<close>



text \<open>
  Days are counted as 24 hours. Where the clocks go forward within the range, the cursor is at one
  o'clock from then on, and when it reaches the last day, given as midnight, that day is not asked for.
\<close>

definition summer_time :: "int \<Rightarrow> int" where
  "summer_time t = (if t < 1774746000000 then 3600000 else 7200000)"

lemma last_day_missed:
  "formatDateOnly summer_time 1774393200000 = ''2026-03-25'' \<and> formatDateOnly summer_time 1775253600000 = ''2026-04-04''
    \<and> List.map (\<lambda>(a, b). (formatDateOnly summer_time a, formatDateOnly summer_time b)) (buildWindows 1774393200000 1775253600000)
      = [(''2026-03-25'', ''2026-03-29''), (''2026-03-30'', ''2026-04-03'')]"
proof -
  have "buildWindows 1774393200000 1775253600000 = [(1774393200000, 1774738800000), (1774825200000, 1775170800000)]"
    by (simp add: buildWindows_def windows_from.simps max_window_days_def ms_per_day_def)
  moreover have "List.map (formatDateOnly summer_time) [1774393200000, 1774738800000, 1774825200000, 1775170800000, 1775253600000]
      = [''2026-03-25'', ''2026-03-29'', ''2026-03-30'', ''2026-04-03'', ''2026-04-04'']" by code_simp
  ultimately show ?thesis by simp
qed

section \<open>The tables\<close>

text \<open>
  C30: an import that succeeds leaves, for each match it found, one fixture with the columns of its
  payload and exactly the statistics and goals of its payload, whatever was recorded before; every other
  match keeps what it had. The matches have a date, and their identifiers differ as the column holds them.
\<close>

theorem import_exact:
  assumes "importLeagueSeason D C tz fresh leagueId from t d = (Inr r, d')" and "match_db_ok d"
    and "fetch_windows C tz leagueId (buildWindows from t) [] = Inr ms"
    and "keyed_matches D ms = Inr kms" and "distinct (List.map fst kms)" and "\<forall>(p, v) \<in> set ms. dated D v"
  shows "match_db_ok d'
    \<and> (\<forall>(k, v) \<in> set kms. \<exists>c. content_in D C 0 v k = Inr c \<and> content_of k d' = Some c)
    \<and> (\<forall>l. l \<notin> fst ` set kms \<longrightarrow> content_of l d' = content_of l d)"
proof -
  have ok: "\<forall>(p, v) \<in> set ms. extractProviderFixtureId v = Some p \<and> dated D v"
    using fetch_ok [OF assms(3)] assms(6) by (auto simp: matches_ok_def)
  obtain r0 where "persist_matches D C fresh ms r0 d = (Inr r, d')"
    using assms(1,3) by (auto simp: importLeagueSeason_def Let_def)
  from persist_matches_spec [OF this assms(4,5) ok assms(2)] show ?thesis .
qed

text \<open>
  C29: importing the same range again changes nothing. The second import reports the same counts; the
  fixtures keep their identifiers, no row is duplicated or lost, and each match has the content it had,
  apart from the identifiers of its rows and the time of its synchronisation.
\<close>

theorem import_idempotent:
  assumes "importLeagueSeason D C tz fresh leagueId from t d = (Inr r, d')" and "match_db_ok d"
    and "importLeagueSeason D C tz fresh' leagueId from t d' = (Inr r', d'')"
    and "fetch_windows C tz leagueId (buildWindows from t) [] = Inr ms"
    and "keyed_matches D ms = Inr kms" and "distinct (List.map fst kms)" and "\<forall>(p, v) \<in> set ms. dated D v"
  shows "r' = r \<and> List.map fx_id (md_fixtures d'') = List.map fx_id (md_fixtures d')
    \<and> List.map fx_providerFixtureId (md_fixtures d'') = List.map fx_providerFixtureId (md_fixtures d')
    \<and> length (md_stats d'') = length (md_stats d') \<and> length (md_events d'') = length (md_events d')
    \<and> (\<forall>k. content_of k d'' = content_of k d')"
proof -
  have ok: "\<forall>(p, v) \<in> set ms. extractProviderFixtureId v = Some p \<and> dated D v"
    using fetch_ok [OF assms(4)] assms(7) by (auto simp: matches_ok_def)
  obtain r0 where runs: "persist_matches D C fresh ms r0 d = (Inr r, d')" "persist_matches D C fresh' ms r0 d' = (Inr r', d'')"
    using assms(1,3,4) by (auto simp: importLeagueSeason_def Let_def)
  note first = persist_matches_spec [OF runs(1) assms(5,6) ok assms(2)]
  have "r' = r" using persist_counts [OF runs assms(5) ok assms(2)] first by simp
  with persist_again [OF runs(2) assms(5,6) ok] first show ?thesis by simp
qed

section \<open>A sample import\<close>

definition plain_driver :: driver where
  "plain_driver =
     \<lparr>dr_int = (\<lambda>v. case v of JNum (Num x) \<Rightarrow> if x = of_int \<lfloor>x\<rfloor> then Inr (Some \<lfloor>x\<rfloor>) else Inl (QueryFailedError ''int'')
        | JNull \<Rightarrow> Inr None | _ \<Rightarrow> Inl (QueryFailedError ''int'')),
      dr_text = (\<lambda>n v. case v of JStr s \<Rightarrow> if length s \<le> n then Inr (Some s) else Inl (QueryFailedError ''varchar'')
        | JNull \<Rightarrow> Inr None | _ \<Rightarrow> Inl (QueryFailedError ''varchar'')),
      dr_key = (\<lambda>s. Inr s),
      dr_date = (\<lambda>v. case v of JDate (Some t) \<Rightarrow> Inr (Some t) | JNull \<Rightarrow> Inr None | _ \<Rightarrow> Inl (QueryFailedError ''datetime'')),
      dr_otherDate = (\<lambda>_. None)\<rparr>"

definition past_match :: json where
  "past_match = JObj [(''match_id'', JStr ''645''), (''league_id'', JStr ''3''), (''league_year'', JStr ''2025/2026''),
     (''match_date'', JStr ''2026-03-02''), (''match_status'', JStr ''Finished''),
     (''match_hometeam_id'', JStr ''1''), (''match_awayteam_id'', JStr ''2''),
     (''match_hometeam_score'', JStr ''1''), (''match_awayteam_score'', JStr ''0''),
     (''goalscorer'', JArr [JObj [(''time'', JStr ''45+2''), (''home_scorer'', JStr ''A'')]]),
     (''statistics_1half'', JArr [JObj [(''type'', JStr ''Shots Total''), (''home'', JStr ''6''), (''away'', JStr ''1'')]]),
     (''statistics'', JArr [JObj [(''type'', JStr ''Shots Total''), (''home'', JStr ''9''), (''away'', JStr ''4'')]])]"

definition past_client :: provider_client where
  "past_client = \<lparr>pc_provider = ''apifootball'',
     pc_leagueFixtures = (\<lambda>l a b. Inr (if a = ''2026-03-01'' then [past_match, past_match] else [])),
     pc_statistics = (\<lambda>_ _ _ _. Inr []), pc_events = (\<lambda>_. Inr [])\<rparr>"

definition draws :: "string \<Rightarrow> string \<Rightarrow> match_fresh" where
  "draws run p = \<lparr>mf_now = 0, mf_fixtureId = run @ p, mf_snapshotId = (\<lambda>n. run @ ''s'' @ show_nat n), mf_eventId = (\<lambda>n. run @ ''e'' @ show_nat n)\<rparr>"

definition no_matches :: match_db where
  "no_matches = \<lparr>md_fixtures = [], md_stats = [], md_events = []\<rparr>"

definition one_import :: "string \<Rightarrow> match_db \<Rightarrow> import_result res \<times> match_db" where
  "one_import run d = importLeagueSeason plain_driver past_client (\<lambda>_. 0) (draws run) 3 1772323200000 1772841600000 d"

definition past_db :: match_db where "past_db = snd (one_import ''a'' no_matches)"

lemma past_found:
  "fetch_windows past_client (\<lambda>_. 0) 3 (buildWindows 1772323200000 1772841600000) [] = Inr [(''645'', past_match)]"
proof -
  have "buildWindows 1772323200000 1772841600000 = [(1772323200000, 1772668800000), (1772755200000, 1772841600000)]"
    by (simp add: buildWindows_def windows_from.simps max_window_days_def ms_per_day_def)
  moreover have "fetch_windows past_client (\<lambda>_. 0) 3 [(1772323200000, 1772668800000), (1772755200000, 1772841600000)] [] = Inr [(''645'', past_match)]"
    by code_simp
  ultimately show ?thesis by simp
qed

lemma past_keyed: "keyed_matches plain_driver [(''645'', past_match)] = Inr [(''645'', past_match)]" "distinct (List.map fst [(''645'', past_match)])"
  by (simp_all add: keyed_matches_def plain_driver_def)

lemma past_dated: "\<forall>(p, v) \<in> set [(''645'', past_match)]. dated plain_driver v"
proof -
  have "nf_matchDate (normalizeFixturePayload (dr_otherDate plain_driver) past_match) = JDate (Some 1772409600000)" by code_simp
  then show ?thesis by (auto simp: dated_def)
qed

lemma past_runs:
  "\<exists>r. one_import ''a'' no_matches = (Inr r, past_db)" "\<exists>r d. one_import ''b'' past_db = (Inr r, d)"
proof -
  have "case fst (one_import ''a'' no_matches) of Inr r \<Rightarrow> True | Inl e \<Rightarrow> False"
      "case fst (one_import ''b'' past_db) of Inr r \<Rightarrow> True | Inl e \<Rightarrow> False" by code_simp+
  then show "\<exists>r. one_import ''a'' no_matches = (Inr r, past_db)" "\<exists>r d. one_import ''b'' past_db = (Inr r, d)"
    by (auto simp: past_db_def split: sum.splits) (metis prod.collapse)+
qed

lemma no_matches_ok: "match_db_ok no_matches"
  by (simp add: match_db_ok_def no_matches_def)

theorem import_exact_witness:
  "match_db_ok past_db \<and> (\<exists>c. content_in plain_driver past_client 0 past_match ''645'' = Inr c \<and> content_of ''645'' past_db = Some c)"
proof -
  obtain r where r: "one_import ''a'' no_matches = (Inr r, past_db)" using past_runs(1) by blast
  from import_exact [OF r [unfolded one_import_def] no_matches_ok past_found past_keyed past_dated] show ?thesis by simp
qed

theorem import_idempotent_witness:
  "length (md_stats past_db) = 4
    \<and> (case one_import ''b'' past_db of (r, d) \<Rightarrow> length (md_stats d) = 4 \<and> content_of ''645'' d = content_of ''645'' past_db)"
proof -
  obtain r where r: "one_import ''a'' no_matches = (Inr r, past_db)" using past_runs(1) by blast
  obtain r' d where r': "one_import ''b'' past_db = (Inr r', d)" using past_runs(2) by blast
  have n: "length (md_stats past_db) = 4" by code_simp
  from import_idempotent [OF r [unfolded one_import_def] no_matches_ok r' [unfolded one_import_def] past_found past_keyed past_dated] n r'
  show ?thesis by simp
qed

text \<open>
  A goal of the added time, whose minute is written \<open>45+2\<close>, is stored without a minute: it counts for the
  match and for neither of its halves, although it was scored in one of them.
\<close>

lemma added_time_goal_in_no_half:
  "List.map (\<lambda>b. (ob_market b, ob_eventOccurred b))
     (team_observations 3 2025 (md_stats past_db) (List.map fixture_event.truncate (md_events past_db)) 1)
   = [(''goal_1h'', False), (''goal_ft'', True), (''goal_2h'', False)]"
  by code_simp

end
