(* ===== verification/Spec2Isabelle.thy ===== *)
theory Spec2Isabelle
  imports LedgerProperties ControlProperties RiskProperties MarketProperties PipelineProperties
    ReconciliationProperties SimulationProperties LiveProperties
    BacktestProperties DataProperties AuthProperties ImportProperties
begin

text \<open>
  The parts of the backend that decide and commit money: the odds (\<open>backend/src/odds\<close>), the import of
  past matches (\<open>backend/src/history\<close>) and the base rates (\<open>backend/src/analytics\<close>) decisions rest on; the live rules
  (\<open>backend/src/recommendations\<close>, \<open>backend/src/settings\<close>), which turn the statistics of live matches
  into signals, recommendations and coupons; the backtest (\<open>backend/src/backtest\<close>), which replays a
  strategy on the recorded matches, and its walk-forward runs; the continuous simulation
  (\<open>backend/src/simulation\<close>), which turns signals and quotes into virtual decisions and
  settles them; the execution subsystem (\<open>backend/src/execution\<close>), where a decision becomes an
  order; the order reserves its stake in the ledger under the limits of the active risk policy and
  the kill switch, is submitted to an operator through a port, is accepted, refused or left
  unknown, and is settled and reconciled later; and the authentication (\<open>backend/src/auth\<close>,
  \<open>backend/src/common/guards\<close>) that every request to them passes.

  \<^bold>\<open>Layout.\<close> \<open>Prelude\<close> holds the result type (\<open>exn + 'a\<close>, one constructor per exception class of
  the code), JavaScript numbers, strings and tables as lists of rows; \<open>Values\<close> the conversion of a
  JSON value to a number and the order of \<open>localeCompare\<close>. \<open>ExecutionTypes\<close> is
  \<open>execution.types.ts\<close>, \<open>Redactor\<close> the redaction of receipts, \<open>Database\<close> the tables with the
  constraints of the migrations. Then one theory per service: \<open>Ledger\<close>, \<open>GatePolicy\<close>,
  \<open>Control\<close>, \<open>Risk\<close>, \<open>OperatorPort\<close> (the interface), \<open>Sandbox\<close> and \<open>Paper\<close> (two operators that
  implement it), \<open>Orders\<close> (the pipeline), \<open>Reconciliation\<close> (the comparison with the operator),
  \<open>Columns\<close> (numeric columns), \<open>OddsIngestion\<close> (the odds of both providers, their rows and their
  reading), \<open>Payloads\<close> and \<open>HistoryImport\<close> (the fixtures of both providers, the import of a range), \<open>Quotes\<close> (executable odds), \<open>BaseRates\<close> (observations, frequencies and their table), \<open>SmartRules\<close> (the settings of the rules), \<open>Stats\<close> (reading the
  statistics of a side), \<open>Rules\<close> (the evaluator), \<open>Outcomes\<close> (settlement of a bet from the state of
  its match), \<open>Signals\<close> (the live signals of both halves, their base rates and their quotes),
  \<open>Coupons\<close> (recommendations and coupons, with their resolution),
  \<open>Simulation\<close> (starts, stops and ticks) and \<open>SimulationReports\<close> (the report and the pages of
  decisions), \<open>Kpis\<close> (staking and indicators of a backtest), \<open>Backtest\<close> (the replay), \<open>BacktestRuns\<close>
  (recorded backtests and the guard of strategies), \<open>WalkForward\<close> (folds, frozen configurations and
  the executors of walk-forward runs), \<open>Auth\<close> (logins, sessions and the guards of a request). \<open>Statements\<close> lifts a relation that every SQL statement keeps to every transaction
  and method; \<open>Systems\<close> is reachability. \<open>LedgerInvariant\<close>, \<open>ControlInvariant\<close>, \<open>RiskSafety\<close>,
  \<open>SandboxSafety\<close>, \<open>OrdersInvariant\<close>, \<open>ReconciliationSafety\<close>, \<open>Pipeline\<close>,
  \<open>SimulationSafety\<close>, \<open>LiveSafety\<close>, \<open>KpisSafety\<close>, \<open>BacktestSafety\<close> (no look-ahead), \<open>BacktestAccounts\<close>
  (independence of the order of the rows), \<open>WalkForwardSafety\<close>,
  \<open>BaseRatesSafety\<close>, \<open>OddsSafety\<close>, \<open>HistoryImportSafety\<close> and \<open>AuthSafety\<close> prove what each keeps; the theories named \<open>...Properties\<close>
  state the claims and run them on the data of \<open>Samples\<close>, \<open>SampleState\<close>, \<open>PipelineSamples\<close>,
  \<open>SimulationSamples\<close> and \<open>LiveSamples\<close>.

  \<^bold>\<open>Correspondence.\<close> A definition has the name of the function or method it models; fields carry
  a short prefix and keep their names. A service method is a function of its arguments, an
  environment (\<open>env\<close>: the clocks, the interlock variable, whether the control table can be read)
  and the tables. A transaction body has type \<open>'a tx\<close>; \<open>commit\<close> keeps its writes, or drops them
  all when it raises. A method that runs several transactions is an action, \<open>'a act\<close>, which can
  fail after some of them have been committed. Constraints of the database are guards of the
  statements that write. Money stays in decimal strings and is computed in cents, as in the code;
  odds are rationals rounded by their columns, and the statistics, which are JavaScript doubles, exact
  rationals with the non-finite values apart; only the confidence interval of a backtest is over the
  reals. SHA-256, the verification of passwords, fresh identifiers and tokens, the tables of fixtures, of
  statistics, of base rates and of odds are arguments. The texts that explain a signal are left out. Messages and the names of markets are in ASCII.

  \<^bold>\<open>Interfaces.\<close> \<open>idempotent_journal\<close> (a journal whose postings replay) is interpreted on the
  ledger; \<open>inductive_system\<close> (initial states, steps and an invariant) on the kill switch, on the
  sandbox, on the paper operator, on the simulation, on the live rules, on the walk-forward runs, on the authentication and on the pipeline with any operator;
  \<open>statement_relation\<close> and \<open>service_relation\<close> (a relation between the tables before and after, kept
  by each statement) on the invariant of the tables, on the growth of the journal and on what a
  run leaves untouched.

  \<^bold>\<open>Fuel.\<close> Every function of the code is total here; the loop of the folds ends because it pushes at
  most 200 of them, and that of the import windows because its cursor advances. The wait for the budget
  of calls takes fuel; \<open>wait_ends\<close> shows that it ends, once no call is made, after the checks of a
  minute. The reader of pages \<open>all_pages\<close> takes fuel;
  \<open>pages_are_complete\<close> shows that more fuel than there are decisions is enough.

  \<^bold>\<open>Not modelled.\<close> Logging, HTTP controllers and validation of requests, dependency injection,
  schedulers, the bootstrap that reports the state of the control at start-up, the text of a page
  cursor; the live ingestion of fixtures and the client of the provider (network and database I/O), the
  analytics of single matches, and the front end.
\<close>

end
